(* ===== verification/Prelude.thy ===== *)
theory Prelude
  imports Main "HOL-Library.AList" "HOL-Library.List_Lexorder" "HOL-Library.Char_ord"
    "HOL-Library.Product_Lexorder" "HOL-Library.Multiset"
begin

text \<open>
  Shared vocabulary of the development: Python dictionaries as association lists in insertion
  order, the string operations of the standard library the sources use, the two kinds of
  \<open>datetime\<close> and the invariant-system interface that every stateful component interprets.

  The lemma collection \<open>dict_simps\<close> holds the lookup equations of dictionaries and
  \<open>time_simps\<close> those of the datetime helpers.
\<close>

named_theorems dict_simps "lookup equations of dictionaries"
named_theorems time_simps "equations of the datetime helpers"

section \<open>Dictionaries\<close>

text \<open>
  A Python dict keeps its insertion order: assigning to a present key keeps its position,
  assigning to a new key appends. \<open>AList.update\<close> is exactly that, \<open>AList.delete\<close>
  is \<open>pop(key, None)\<close> and \<open>map_of\<close> is \<open>get\<close>.
\<close>

type_synonym ('k, 'v) dict = "('k \<times> 'v) list"

abbreviation dget :: "('k, 'v) dict \<Rightarrow> 'k \<Rightarrow> 'v option" where
  "dget d k \<equiv> map_of d k"

abbreviation dput :: "'k \<Rightarrow> 'v \<Rightarrow> ('k, 'v) dict \<Rightarrow> ('k, 'v) dict" where
  "dput k v d \<equiv> AList.update k v d"

abbreviation dpop :: "'k \<Rightarrow> ('k, 'v) dict \<Rightarrow> ('k, 'v) dict" where
  "dpop k d \<equiv> AList.delete k d"

abbreviation dvalues :: "('k, 'v) dict \<Rightarrow> 'v list" where
  "dvalues d \<equiv> map snd d"

abbreviation dkeys :: "('k, 'v) dict \<Rightarrow> 'k list" where
  "dkeys d \<equiv> map fst d"

text \<open>\<open>d.setdefault(k, []).append(x)\<close>.\<close>

definition dappend :: "'k \<Rightarrow> 'a \<Rightarrow> ('k, 'a list) dict \<Rightarrow> ('k, 'a list) dict" where
  "dappend k x d = dput k ((case dget d k of None \<Rightarrow> [] | Some xs \<Rightarrow> xs) @ [x]) d"

text \<open>\<open>d.get(k, [])\<close>.\<close>

definition dget_list :: "('k, 'a list) dict \<Rightarrow> 'k \<Rightarrow> 'a list" where
  "dget_list d k = (case dget d k of None \<Rightarrow> [] | Some xs \<Rightarrow> xs)"

lemma dget_dput [dict_simps, simp]: "dget (dput k v d) k' = (if k' = k then Some v else dget d k')"
  by (simp add: update_conv')

lemma dget_dpop [dict_simps, simp]: "dget (dpop k d) k' = (if k' = k then None else dget d k')"
  by (simp add: delete_conv')

lemma dget_list_dappend [dict_simps, simp]:
  "dget_list (dappend k x d) k' = (if k' = k then dget_list d k @ [x] else dget_list d k')"
  by (simp add: dget_list_def dappend_def)

lemma distinct_dput [simp]: "distinct (dkeys (dput k v d)) = distinct (dkeys d)"
proof (induction d)
  case (Cons a d)
  then show ?case by (auto simp: update_keys split: prod.splits)
qed simp

lemma distinct_dpop [intro]: "distinct (dkeys d) \<Longrightarrow> distinct (dkeys (dpop k d))"
  by (rule distinct_delete)

lemma distinct_dappend [simp]: "distinct (dkeys (dappend k x d)) = distinct (dkeys d)"
  by (simp add: dappend_def)

lemma set_dkeys_dput [simp]: "fst ` set (dput k v d) = insert k (fst ` set d)"
  by (induction d) auto

lemma in_dvalues_iff: "distinct (dkeys d) \<Longrightarrow> v \<in> snd ` set d \<longleftrightarrow> (\<exists>k. dget d k = Some v)"
  by (force simp: image_iff)

lemma map_of_map_snd: "map_of (map (\<lambda>(k, v). (k, f k v)) xs) x = map_option (f x) (map_of xs x)"
  by (induction xs) auto

lemma set_dvalues_dput_subset: "snd ` set (dput k v d) \<subseteq> insert v (snd ` set d)"
  by (induction d) auto

lemma set_dpop_subset: "set (dpop k d) \<subseteq> set d"
  by (auto simp: AList.delete_eq)

text \<open>
  Mapping every value of a dictionary commutes with the updates: the step behind the write-through
  property of the persistent stores.
\<close>

definition dmap :: "('v \<Rightarrow> 'w) \<Rightarrow> ('k, 'v) dict \<Rightarrow> ('k, 'w) dict" where
  "dmap f d = map (\<lambda>(k, v). (k, f v)) d"

lemma dmap_Nil [simp]: "dmap f [] = []"
  by (simp add: dmap_def)

lemma dmap_dput [simp]: "dmap f (dput k v d) = dput k (f v) (dmap f d)"
  by (induction d) (auto simp: dmap_def)

lemma dmap_dpop [simp]: "dmap f (dpop k d) = dpop k (dmap f d)"
  by (induction d) (auto simp: dmap_def AList.delete_eq)

lemma dkeys_dmap [simp]: "dkeys (dmap f d) = dkeys d"
  by (induction d) (auto simp: dmap_def)

lemma dget_dmap [simp]: "dget (dmap f d) k = map_option f (dget d k)"
  by (simp add: dmap_def map_of_map_snd)

lemma dget_list_dmap: "f [] = [] \<Longrightarrow> dget_list (dmap f d) k = f (dget_list d k)"
  by (simp add: dget_list_def split: option.splits)

lemma dput_new: "k \<notin> fst ` set d \<Longrightarrow> dput k v d = d @ [(k, v)]"
  by (induction d) auto

text \<open>Assigning the pairs of a list one after the other.\<close>

definition dput_all :: "('k, 'v) dict \<Rightarrow> ('k, 'v) dict \<Rightarrow> ('k, 'v) dict" where
  "dput_all kvs d = fold (\<lambda>(k, v). dput k v) kvs d"

lemma dput_all_fresh:
  "distinct (dkeys kvs) \<Longrightarrow> fst ` set kvs \<inter> fst ` set d = {} \<Longrightarrow> dput_all kvs d = d @ kvs"
  unfolding dput_all_def
proof (induction kvs arbitrary: d)
  case (Cons kv kvs)
  obtain k v where kv: "kv = (k, v)" by (cases kv)
  have new: "dput k v d = d @ [(k, v)]"
    using Cons.prems kv by (intro dput_new) auto
  have "fold (\<lambda>(k, v). dput k v) kvs (d @ [(k, v)]) = (d @ [(k, v)]) @ kvs"
    using Cons.prems kv by (intro Cons.IH) auto
  then show ?case by (simp add: kv new)
qed simp

lemma dput_all_empty: "distinct (dkeys kvs) \<Longrightarrow> dput_all kvs [] = kvs"
  by (simp add: dput_all_fresh)

text \<open>Popping a list of keys.\<close>

lemma dpop_filter: "dpop k d = filter (\<lambda>kv. fst kv \<noteq> k) d"
  by (simp add: AList.delete_eq) (rule filter_cong, auto)

lemma fold_dpop: "fold dpop ks d = filter (\<lambda>kv. fst kv \<notin> set ks) d"
proof (induction ks arbitrary: d)
  case (Cons k ks)
  have "fold dpop (k # ks) d = fold dpop ks (dpop k d)" by simp
  also have "\<dots> = filter (\<lambda>kv. fst kv \<notin> set ks) (dpop k d)" by (rule Cons.IH)
  also have "\<dots> = filter (\<lambda>kv. fst kv \<notin> set (k # ks)) d"
    unfolding dpop_filter filter_filter by (rule filter_cong) auto
  finally show ?case .
qed simp

lemma dget_filter_not: "dget (filter (\<lambda>kv. fst kv \<notin> K) d) k = (if k \<in> K then None else dget d k)"
  by (induction d) auto

section \<open>Lists\<close>

text \<open>\<open>next((x for x in xs if p(x)), None)\<close> is \<open>find p xs\<close>.\<close>

lemma find_SomeD: "find P xs = Some x \<Longrightarrow> P x \<and> x \<in> set xs"
  by (auto simp: find_Some_iff)

lemma find_None_iff_all: "find P xs = None \<longleftrightarrow> (\<forall>x \<in> set xs. \<not> P x)"
  by (auto simp: find_None_iff)

lemma find_append_case:
  "find P (xs @ ys) = (case find P xs of None \<Rightarrow> find P ys | Some x \<Rightarrow> Some x)"
  by (induction xs) auto

text \<open>\<open>sorted(set(xs))\<close>.\<close>

definition sorted_set :: "'a::linorder list \<Rightarrow> 'a list" where
  "sorted_set xs = sort (remdups xs)"

lemma set_sorted_set [simp]: "set (sorted_set xs) = set xs"
  by (simp add: sorted_set_def)

lemma sorted_sorted_set [simp]: "sorted (sorted_set xs)"
  by (simp add: sorted_set_def)

lemma distinct_sorted_set [simp]: "distinct (sorted_set xs)"
  by (simp add: sorted_set_def)

text \<open>\<open>sep.join(parts)\<close>.\<close>

fun join :: "string \<Rightarrow> string list \<Rightarrow> string" where
  "join sep [] = []"
| "join sep [x] = x"
| "join sep (x # y # xs) = x @ sep @ join sep (y # xs)"

section \<open>Strings\<close>

definition startswith :: "string \<Rightarrow> string \<Rightarrow> bool" where
  "startswith p s \<longleftrightarrow> take (length p) s = p"

definition endswith :: "string \<Rightarrow> string \<Rightarrow> bool" where
  "endswith p s \<longleftrightarrow> startswith (rev p) (rev s)"

lemma startswith_append [simp]: "startswith p (p @ s)"
  by (simp add: startswith_def)

text \<open>\<open>needle in hay\<close> on strings.\<close>

fun contains :: "string \<Rightarrow> string \<Rightarrow> bool" where
  "contains needle [] = (needle = [])"
| "contains needle (c # cs) = (startswith needle (c # cs) \<or> contains needle cs)"

text \<open>\<open>str.isspace\<close> on the code points below 256.\<close>

definition is_space :: "char \<Rightarrow> bool" where
  "is_space c \<longleftrightarrow> (let n = of_char c :: nat in
     (9 \<le> n \<and> n \<le> 13) \<or> (28 \<le> n \<and> n \<le> 32) \<or> n = 133 \<or> n = 160)"

definition lstrip :: "string \<Rightarrow> string" where
  "lstrip s = dropWhile is_space s"

definition strip :: "string \<Rightarrow> string" where
  "strip s = rev (dropWhile is_space (rev (dropWhile is_space s)))"

text \<open>\<open>s.split(c)[-1]\<close>: the text after the last occurrence of the separator.\<close>

definition last_segment :: "char \<Rightarrow> string \<Rightarrow> string" where
  "last_segment c s = rev (takeWhile (\<lambda>x. x \<noteq> c) (rev s))"

text \<open>\<open>s.split(c)\<close> for a one-character separator: never empty.\<close>

fun split_on :: "char \<Rightarrow> string \<Rightarrow> string list" where
  "split_on c [] = [[]]"
| "split_on c (x # xs) =
     (if x = c then [] # split_on c xs
      else (case split_on c xs of [] \<Rightarrow> [[x]] | p # ps \<Rightarrow> (x # p) # ps))"

lemma split_on_not_Nil [simp]: "split_on c s \<noteq> []"
  by (cases s) (auto split: list.splits)

lemma split_on_no_sep: "p \<in> set (split_on c s) \<Longrightarrow> c \<notin> set p"
  by (induction s arbitrary: p) (auto split: list.splits if_splits)

text \<open>\<open>str(n)\<close> for a natural number.\<close>

fun dec :: "nat \<Rightarrow> string" where
  "dec n = (if n < 10 then [char_of (48 + n)] else dec (n div 10) @ [char_of (48 + n mod 10)])"

declare dec.simps [simp del]

lemma dec_not_Nil [simp]: "dec n \<noteq> []" "[] \<noteq> dec n"
  by (subst dec.simps, simp)+

lemma char_of_digit_inj:
  assumes "m < 10" and "n < 10" and "char_of (48 + m) = (char_of (48 + n) :: char)"
  shows "m = (n::nat)"
proof -
  have "(of_char (char_of (48 + m) :: char) :: nat) = of_char (char_of (48 + n) :: char)"
    using assms(3) by simp
  then show ?thesis using assms(1,2) by (simp add: of_char_of)
qed

lemma dec_inj: "dec m = dec n \<Longrightarrow> m = n"
proof (induction m arbitrary: n rule: dec.induct)
  case (1 m)
  show ?case
  proof (cases "m < 10")
    case True
    have m: "dec m = [char_of (48 + m)]" using True by (subst dec.simps) simp
    have "n < 10"
    proof (rule ccontr)
      assume "\<not> n < 10"
      then have "dec n = dec (n div 10) @ [char_of (48 + n mod 10)]" by (subst dec.simps) simp
      with m "1.prems" show False by (simp add: Cons_eq_append_conv)
    qed
    moreover from this have "dec n = [char_of (48 + n)]" by (subst dec.simps) simp
    ultimately show ?thesis using True m "1.prems" char_of_digit_inj by simp
  next
    case False
    have m: "dec m = dec (m div 10) @ [char_of (48 + m mod 10)]"
      using False by (subst dec.simps) simp
    have "\<not> n < 10"
    proof
      assume "n < 10"
      then have "dec n = [char_of (48 + n)]" by (subst dec.simps) simp
      with m "1.prems" show False by (simp add: append_eq_Cons_conv)
    qed
    moreover from this have n: "dec n = dec (n div 10) @ [char_of (48 + n mod 10)]"
      by (subst dec.simps) simp
    have dv: "dec (m div 10) = dec (n div 10)"
      and lst: "char_of (48 + m mod 10) = (char_of (48 + n mod 10) :: char)"
      using m n "1.prems" by auto
    have "m div 10 = n div 10" using "1.IH"[OF False dv] .
    moreover have "m mod 10 = n mod 10" using lst by (intro char_of_digit_inj) auto
    ultimately show ?thesis by (metis mult_div_mod_eq)
  qed
qed

lemma dec_digits: "c \<in> set (dec n) \<Longrightarrow> 48 \<le> (of_char c :: nat) \<and> (of_char c :: nat) < 58"
proof (induction n rule: dec.induct)
  case (1 n)
  show ?case
  proof (cases "n < 10")
    case True
    then have "dec n = [char_of (48 + n)]" by (subst dec.simps) simp
    with 1 True show ?thesis by (auto simp: of_char_of)
  next
    case False
    then have d: "dec n = dec (n div 10) @ [char_of (48 + n mod 10)]" by (subst dec.simps) simp
    have "48 + n mod 10 < 58" by simp
    with 1 False d show ?thesis by (auto simp: of_char_of)
  qed
qed

section \<open>Lines\<close>

text \<open>
  \<open>str.splitlines\<close>: the line boundaries below code point 256. \<open>take_line\<close> splits
  one line off: its text, its terminator (empty at the end of the text) and the rest.
\<close>

definition is_linebreak :: "char \<Rightarrow> bool" where
  "is_linebreak c \<longleftrightarrow> (let n = of_char c :: nat in
     (10 \<le> n \<and> n \<le> 13) \<or> (28 \<le> n \<and> n \<le> 30) \<or> n = 133)"

definition CR :: char where "CR = char_of (13::nat)"
definition LF :: char where "LF = char_of (10::nat)"

fun take_line :: "string \<Rightarrow> string \<times> string \<times> string" where
  "take_line [] = ([], [], [])"
| "take_line (c # cs) =
     (if c = CR then (case cs of [] \<Rightarrow> ([], [CR], [])
                      | d # ds \<Rightarrow> if d = LF then ([], [CR, LF], ds) else ([], [CR], cs))
      else if is_linebreak c then ([], [c], cs)
      else (case take_line cs of (b, t, r) \<Rightarrow> (c # b, t, r)))"

lemma take_line_concat: "take_line s = (b, t, r) \<Longrightarrow> s = b @ t @ r"
  by (induction s arbitrary: b t r rule: take_line.induct)
     (auto split: if_splits list.splits prod.splits)

lemma take_line_shorter: "take_line s = (b, t, r) \<Longrightarrow> s \<noteq> [] \<Longrightarrow> length r < length s"
  by (induction s arbitrary: b t r rule: take_line.induct)
     (fastforce split: if_splits list.splits prod.splits)+

function lines_ends :: "string \<Rightarrow> (string \<times> string) list" where
  "lines_ends s =
     (if s = [] then [] else (case take_line s of (b, t, r) \<Rightarrow> (b, t) # lines_ends r))"
  by pat_completeness auto
termination
  by (relation "measure length") (auto dest: take_line_shorter[OF sym])

declare lines_ends.simps [simp del]

lemma lines_ends_Nil [simp]: "lines_ends [] = []"
  by (simp add: lines_ends.simps)

definition splitlines :: "string \<Rightarrow> string list" where
  "splitlines s = map fst (lines_ends s)"

definition splitlines_keepends :: "string \<Rightarrow> string list" where
  "splitlines_keepends s = map (\<lambda>(b, t). b @ t) (lines_ends s)"

lemma concat_splitlines_keepends: "concat (splitlines_keepends s) = s"
proof (induction s rule: lines_ends.induct)
  case (1 s)
  show ?case
  proof (cases "s = []")
    case False
    obtain b t r where tl: "take_line s = (b, t, r)" by (cases "take_line s")
    have "splitlines_keepends s = (b @ t) # splitlines_keepends r"
      using False tl by (simp add: splitlines_keepends_def lines_ends.simps[of s])
    moreover have "concat (splitlines_keepends r) = r" using "1.IH"[OF False] tl by simp
    ultimately show ?thesis using take_line_concat[OF tl] by simp
  qed (simp add: splitlines_keepends_def)
qed

section \<open>Paths\<close>

text \<open>
  \<open>Path(path).parts\<close> of a POSIX path: the root, if any (two leading slashes are a root of their own), then the
  segments other than the empty one and \<open>.\<close>.
\<close>

definition path_parts :: "string \<Rightarrow> string list" where
  "path_parts p =
     (let segs = filter (\<lambda>s. s \<noteq> [] \<and> s \<noteq> ''.'') (split_on (CHR 0x2F) p);
          root = (if startswith ''///'' p then [''/''] else if startswith ''//'' p then [''//'']
                  else if startswith ''/'' p then [''/''] else [])
      in root @ segs)"

text \<open>\<open>Path(a) / b\<close> and \<open>p.is_relative_to(q)\<close>.\<close>

definition path_join :: "string \<Rightarrow> string \<Rightarrow> string" where
  "path_join a b = (if startswith ''/'' b then b else a @ ''/'' @ b)"

definition is_relative_to :: "string \<Rightarrow> string \<Rightarrow> bool" where
  "is_relative_to p q \<longleftrightarrow> take (length (path_parts q)) (path_parts p) = path_parts q"

text \<open>Reading in text mode: \<open>\r\n\<close> and \<open>\r\<close> become \<open>\n\<close>.\<close>

fun universal_newlines :: "string \<Rightarrow> string" where
  "universal_newlines [] = []"
| "universal_newlines (c # cs) =
     (if c = CR then
        LF # (case cs of [] \<Rightarrow> [] | d # ds \<Rightarrow> if d = LF then universal_newlines ds else universal_newlines cs)
      else c # universal_newlines cs)"

section \<open>Datetimes\<close>

text \<open>
  \<open>datetime\<close> values in microseconds. A naive value holds its wall-clock reading only; an
  aware one its reading and its offset from UTC, so its instant is the difference.
\<close>

datatype py_datetime = Naive int | Aware int int

fun utc_instant :: "py_datetime \<Rightarrow> int" where
  "utc_instant (Naive w) = w"
| "utc_instant (Aware w off) = w - off"

definition is_aware :: "py_datetime \<Rightarrow> bool" where
  "is_aware d = (case d of Naive _ \<Rightarrow> False | Aware _ _ \<Rightarrow> True)"

definition utc :: "int \<Rightarrow> py_datetime" where
  "utc i = Aware i 0"

text \<open>\<open>as_aware_utc\<close> of core/time.py: a naive value is taken to be UTC already.\<close>

fun as_aware_utc :: "py_datetime \<Rightarrow> py_datetime" where
  "as_aware_utc (Naive w) = Aware w 0"
| "as_aware_utc (Aware w off) = Aware (w - off) 0"

lemma utc_instant_utc [time_simps, simp]: "utc_instant (utc i) = i"
  by (simp add: utc_def)

lemma is_aware_utc [time_simps, simp]: "is_aware (utc i)"
  by (simp add: utc_def is_aware_def)

lemma as_aware_utc_alt [time_simps]: "as_aware_utc d = utc (utc_instant d)"
  by (cases d) (simp_all add: utc_def)

lemma as_aware_utc_utc [time_simps, simp]: "as_aware_utc (utc i) = utc i"
  by (simp add: utc_def)

section \<open>Invariant systems\<close>

text \<open>
  The interface between a stateful component and its safety properties: its initial states, its
  steps and an invariant that the steps keep. Every component interprets it on its own step
  relation; reachability and the lifting of the invariant are proved once here.
\<close>

locale invariant_system =
  fixes init :: "'s \<Rightarrow> bool"
    and stp :: "'s \<Rightarrow> 's \<Rightarrow> bool"
    and inv :: "'s \<Rightarrow> bool"
  assumes inv_init: "init s \<Longrightarrow> inv s"
    and inv_step: "inv s \<Longrightarrow> stp s t \<Longrightarrow> inv t"
begin

lemma inv_steps:
  assumes "stp\<^sup>*\<^sup>* s t" and "inv s"
  shows "inv t"
  using assms by (induction rule: rtranclp_induct) (auto intro: inv_step)

lemma inv_reachable: "init s \<Longrightarrow> stp\<^sup>*\<^sup>* s t \<Longrightarrow> inv t"
  by (blast intro: inv_init inv_steps)

end

text \<open>
  A monotone system never takes back what it recorded: \<open>obs\<close> only grows along
  \<open>leq\<close>. Audit trails, execution histories and escalation levels are such observations.
\<close>

locale monotone_system = invariant_system +
  fixes obs :: "'s \<Rightarrow> 'o"
    and leq :: "'o \<Rightarrow> 'o \<Rightarrow> bool"
  assumes leq_refl: "leq a a"
    and leq_trans: "leq a b \<Longrightarrow> leq b c \<Longrightarrow> leq a c"
    and obs_step: "inv s \<Longrightarrow> stp s t \<Longrightarrow> leq (obs s) (obs t)"
begin

lemma obs_steps:
  assumes "stp\<^sup>*\<^sup>* s t" and "inv s"
  shows "leq (obs s) (obs t)"
  using assms
proof (induction rule: rtranclp_induct)
  case base
  show ?case by (rule leq_refl)
next
  case (step t u)
  from step.prems step.hyps(1) have "inv t" by (rule inv_steps[rotated])
  with step.hyps(2) have "leq (obs t) (obs u)" by (rule obs_step[rotated])
  with step.IH[OF step.prems] show ?case by (rule leq_trans)
qed

end

end
