(* ===== verification/Scan_Models.thy ===== *)
theory Scan_Models
  imports Prelude
begin

text \<open>
  Data of the SCAN stage: the output contracts of backend/app/scan/models.py, the snippet helpers of
  backend/app/scan/evidence.py and the part of the Python syntax tree the scanner reads.

  A syntax tree is what \<open>ast.parse\<close> returns, so it is input to the model. Every expression node
  carries, beside its children, the three readings the sources take from the \<open>ast\<close> module: its
  line, the text \<open>ast.get_source_segment\<close> gives for it (\<open>None\<close> when there is none) and
  the text \<open>ast.unparse\<close> prints for it. Confidences are kept in hundredths: the source rounds
  them to two decimals.
\<close>

text \<open>What a repository is ingested from (core/contracts.py).\<close>

record repo_spec =
  rs_name :: string
  rs_source_type :: string
  rs_location :: string
  rs_language :: string

section \<open>Output contracts\<close>

datatype step_type = Source | Assignment | Propagation | String_Construction | Sink

record taint_step =
  ts_type :: step_type
  ts_file :: string
  ts_line :: nat
  ts_snippet :: string

record source_ref =
  src_file :: string
  src_line :: nat
  src_snippet :: string
  src_kind :: string

record sink_ref =
  snk_file :: string
  snk_line :: nat
  snk_snippet :: string
  snk_kind :: string

record evidence =
  ev_source_snippet :: string
  ev_sink_snippet :: string
  ev_taint_path :: "taint_step list"
  ev_relevant_lines :: "nat list"
  ev_sanitizer_observations :: "string list"

text \<open>The \<open>status\<close> of a finding has one value, \<open>candidate\<close>, and is left out.\<close>

record candidate_finding =
  f_id :: string
  f_vulnerability_type :: string
  f_severity :: string
  f_confidence :: int
  f_source :: source_ref
  f_sink :: sink_ref
  f_taint_path :: "taint_step list"
  f_evidence :: evidence

record function_summary =
  fs_qualified_name :: string
  fs_file :: string
  fs_line :: nat
  fs_tainted_params :: "string list"
  fs_sinks :: "sink_ref list"
  fs_returns_taint :: bool

record scan_summary =
  ss_total :: nat
  ss_by_type :: "(string, nat) dict"

record scan_report =
  rep_id :: string
  rep_created_at :: py_datetime
  rep_scanned_file_count :: nat
  rep_findings :: "candidate_finding list"
  rep_function_summaries :: "function_summary list"
  rep_summary :: scan_summary

section \<open>Syntax trees\<close>

record node_info =
  lineno :: nat
  segment :: "string option"
  utext :: string

datatype const_value = CNone | CStr string | COther string

datatype operator = Add | Mod | OtherOp

text \<open>
  Expressions. \<open>OtherE\<close> stands for every node kind the sources do not single out (comparisons,
  boolean and unary operators, comprehensions, await, starred, ...) with its child expressions in the
  order of \<open>ast.iter_child_nodes\<close>; \<open>Lambda\<close> holds its default values and its body.
\<close>

datatype expr =
  Constant node_info const_value
| Name node_info string
| Attribute node_info expr string
| Subscript node_info expr expr
| Call node_info expr "expr list" "(string option \<times> expr) list"
| JoinedStr node_info "expr list"
| FormattedValue node_info expr "expr option"
| BinOp node_info expr operator expr
| ListE node_info "expr list"
| TupleE node_info "expr list"
| SetE node_info "expr list"
| DictE node_info "expr option list" "expr list"
| IfExp node_info expr expr expr
| Lambda node_info "expr list"
| OtherE node_info "expr list"

fun info :: "expr \<Rightarrow> node_info" where
  "info (Constant i _) = i"
| "info (Name i _) = i"
| "info (Attribute i _ _) = i"
| "info (Subscript i _ _) = i"
| "info (Call i _ _ _) = i"
| "info (JoinedStr i _) = i"
| "info (FormattedValue i _ _) = i"
| "info (BinOp i _ _ _) = i"
| "info (ListE i _) = i"
| "info (TupleE i _) = i"
| "info (SetE i _) = i"
| "info (DictE i _ _) = i"
| "info (IfExp i _ _ _) = i"
| "info (Lambda i _) = i"
| "info (OtherE i _) = i"

text \<open>\<open>ast.unparse(e)\<close> and \<open>e.lineno\<close>.\<close>

abbreviation unparse :: "expr \<Rightarrow> string" where
  "unparse e \<equiv> utext (info e)"

abbreviation line_of :: "expr \<Rightarrow> nat" where
  "line_of e \<equiv> lineno (info e)"

fun somes :: "'a option list \<Rightarrow> 'a list" where
  "somes [] = []"
| "somes (None # xs) = somes xs"
| "somes (Some x # xs) = x # somes xs"

lemma set_somes: "set (somes xs) = {x. Some x \<in> set xs}"
  by (induction xs rule: somes.induct) auto

lemma somes_Nil_iff: "somes xs = [] \<longleftrightarrow> (\<forall>x \<in> set xs. x = None)"
  by (induction xs rule: somes.induct) auto

text \<open>\<open>ast.iter_child_nodes\<close>, the operator and keyword wrappers skipped: neither is a call.\<close>

fun children :: "expr \<Rightarrow> expr list" where
  "children (Constant _ _) = []"
| "children (Name _ _) = []"
| "children (Attribute _ v _) = [v]"
| "children (Subscript _ v s) = [v, s]"
| "children (Call _ f args kws) = f # args @ map snd kws"
| "children (JoinedStr _ vs) = vs"
| "children (FormattedValue _ v spec) = v # (case spec of None \<Rightarrow> [] | Some s \<Rightarrow> [s])"
| "children (BinOp _ l _ r) = [l, r]"
| "children (ListE _ es) = es"
| "children (TupleE _ es) = es"
| "children (SetE _ es) = es"
| "children (DictE _ ks vs) = somes ks @ vs"
| "children (IfExp _ t b e) = [t, b, e]"
| "children (Lambda _ es) = es"
| "children (OtherE _ es) = es"

lemma size_option_somes: "x \<in> set (somes ks) \<Longrightarrow> size x < size_list (size_option size) ks"
  by (induction ks rule: somes.induct) auto

lemma size_kw: "(k, x) \<in> set kws \<Longrightarrow> size x < size_list (size_prod (\<lambda>_. 0) size) kws"
  by (induction kws) auto

lemma children_smaller: "c \<in> set (children e) \<Longrightarrow> size c < size e"
proof (cases e)
  case (Call i f args kws)
  moreover assume "c \<in> set (children e)"
  moreover have "x \<in> set args \<Longrightarrow> size x \<le> size_list size args" for x
    by (rule size_list_estimation') auto
  moreover have "size x \<le> size_list (size_prod (\<lambda>_. 0) size) kws" if "(k, x) \<in> set kws" for k x
    using size_kw[OF that] by simp
  ultimately show ?thesis by (fastforce simp: le_imp_less_Suc trans_le_add2)
next
  case (DictE i ks vs)
  moreover assume "c \<in> set (children e)"
  moreover have "x \<in> set vs \<Longrightarrow> size x \<le> size_list size vs" for x
    by (rule size_list_estimation') auto
  moreover have "x \<in> set (somes ks) \<Longrightarrow> size x < size_list (size_option size) ks" for x
    by (rule size_option_somes)
  ultimately show ?thesis by fastforce
qed (auto split: option.splits dest: size_list_estimation'[where f = size, OF _ order_refl]
       simp: le_imp_less_Suc)

datatype params = Params
  (posonlyargs: "string list") (pargs: "string list") (kwonlyargs: "string list")
  (vararg: "string option") (kwarg: "string option")

text \<open>
  Statements. \<open>FunctionDef\<close> covers \<open>AsyncFunctionDef\<close> too: the sources always test
  for both. \<open>OtherStmt\<close> is every kind of statement the scanner passes over (import, raise, assert,
  delete, pass, async for, async with, match, ...), with the expressions and statements below it.
\<close>

datatype stmt =
  Assign nat "expr list" expr
| AnnAssign nat expr "expr option"
| AugAssign nat expr operator expr
| If nat expr "stmt list" "stmt list"
| While nat expr "stmt list" "stmt list"
| For nat expr expr "stmt list" "stmt list"
| Try nat "stmt list" "stmt list list" "stmt list" "stmt list"
| With nat "expr list" "stmt list"
| FunctionDef nat string params "stmt list"
| ClassDef nat string "stmt list"
| ExprStmt nat expr
| Return nat "expr option"
| OtherStmt nat "expr list" "stmt list"

text \<open>
  The part of \<open>SourceFile\<close> the scanner reads; \<open>sf_body\<close> is \<open>ast.parse(source).body\<close>
  and \<open>sf_error\<close> records whether PREPARE could not parse the file.
\<close>

record source_file =
  sf_path :: string
  sf_source :: string
  sf_error :: bool
  sf_body :: "stmt list"

section \<open>Snippets and evidence\<close>

definition MAX_SNIPPET_CHARS :: nat where
  "MAX_SNIPPET_CHARS = 200"

definition line_text :: "string \<Rightarrow> nat \<Rightarrow> string" where
  "line_text source line =
     (let ls = splitlines source in
      if \<not> (0 < line \<and> line \<le> length ls) then ''''
      else take MAX_SNIPPET_CHARS (strip (ls ! (line - 1))))"

definition source_segment :: "string \<Rightarrow> expr \<Rightarrow> string" where
  "source_segment source node =
     (case segment (info node) of
        None \<Rightarrow> line_text source (line_of node)
      | Some seg \<Rightarrow> take MAX_SNIPPET_CHARS (strip seg))"

definition build_evidence ::
    "source_ref \<Rightarrow> sink_ref \<Rightarrow> taint_step list \<Rightarrow> string list \<Rightarrow> evidence" where
  "build_evidence source_ref sink_ref taint_path sanitizer_observations =
     \<lparr>ev_source_snippet = src_snippet source_ref,
      ev_sink_snippet = snk_snippet sink_ref,
      ev_taint_path = taint_path,
      ev_relevant_lines = sorted_set (map ts_line taint_path),
      ev_sanitizer_observations = sanitizer_observations\<rparr>"

lemma length_line_text: "length (line_text source line) \<le> MAX_SNIPPET_CHARS"
  by (simp add: line_text_def Let_def)

lemma length_source_segment: "length (source_segment source node) \<le> MAX_SNIPPET_CHARS"
  by (simp add: source_segment_def length_line_text split: option.splits)

section \<open>Calls of an expression\<close>

definition is_call :: "expr \<Rightarrow> bool" where
  "is_call e = (case e of Call _ _ _ _ \<Rightarrow> True | _ \<Rightarrow> False)"

definition is_lambda :: "expr \<Rightarrow> bool" where
  "is_lambda e = (case e of Lambda _ _ \<Rightarrow> True | _ \<Rightarrow> False)"

text \<open>
  \<open>_collect_calls\<close>: the call nodes in source order. A lambda below the root is not entered; a
  lambda that is itself the root is.
\<close>

function walk_calls :: "expr \<Rightarrow> expr list" where
  "walk_calls n =
     (if is_call n then [n] else []) @
     concat (map walk_calls (filter (\<lambda>c. \<not> is_lambda c) (children n)))"
  by pat_completeness auto
termination
  by (relation "measure size") (auto dest: children_smaller)

declare walk_calls.simps [simp del]

definition collect_calls :: "expr option \<Rightarrow> expr list" where
  "collect_calls node = (case node of None \<Rightarrow> [] | Some n \<Rightarrow> walk_calls n)"

lemma walk_calls_are_calls: "c \<in> set (walk_calls n) \<Longrightarrow> is_call c"
  by (induction n rule: walk_calls.induct) (subst (asm) walk_calls.simps, fastforce split: if_splits)

text \<open>
  Reachability inside an expression without entering a lambda, and that exactly the reachable
  calls are collected.
\<close>

inductive sub_expr :: "expr \<Rightarrow> expr \<Rightarrow> bool" where
  sub_expr_refl: "sub_expr e e"
| sub_expr_child: "c \<in> set (children e) \<Longrightarrow> \<not> is_lambda c \<Longrightarrow> sub_expr d c \<Longrightarrow> sub_expr d e"

lemma walk_calls_iff: "c \<in> set (walk_calls n) \<longleftrightarrow> is_call c \<and> sub_expr c n"
proof (induction n rule: walk_calls.induct)
  case (1 n)
  have "c \<in> set (walk_calls n) \<longleftrightarrow>
      (is_call n \<and> c = n) \<or> (\<exists>d \<in> set (children n). \<not> is_lambda d \<and> c \<in> set (walk_calls d))"
    by (subst walk_calls.simps) auto
  also have "\<dots> \<longleftrightarrow> (is_call n \<and> c = n) \<or>
      (\<exists>d \<in> set (children n). \<not> is_lambda d \<and> is_call c \<and> sub_expr c d)"
    using 1 by auto
  also have "\<dots> \<longleftrightarrow> is_call c \<and> sub_expr c n"
    by (subst sub_expr.simps) auto
  finally show ?case .
qed

end
