(* ===== verification/Scan_Rules.thy ===== *)
theory Scan_Rules
  imports Scan_Models
begin

text \<open>
  The scan rules (backend/app/scan/rules/): the rule interface as a record of the operations of the
  abstract class, the logic the rules share, and the four rules. The contract the engine relies on is the locale
  \<open>rule_contract\<close>, interpreted on each of the four rules.
\<close>

section \<open>The rule interface\<close>

record scan_rule =
  vulnerability_type :: string
  severity :: string
  poison_params :: bool
  is_source :: "expr \<Rightarrow> string \<Rightarrow> string \<Rightarrow> source_ref option"
  match_sink :: "expr \<Rightarrow> string \<Rightarrow> string \<Rightarrow> sink_ref option"
  is_sanitized :: "expr \<Rightarrow> sink_ref \<Rightarrow> bool"
  sink_expression :: "expr \<Rightarrow> expr option"
  confidence :: "taint_step list \<Rightarrow> string \<Rightarrow> int"

text \<open>The defaults of the abstract class for the last two hooks.\<close>

definition call_args :: "expr \<Rightarrow> expr list" where
  "call_args c = (case c of Call _ _ args _ \<Rightarrow> args | _ \<Rightarrow> [])"

definition call_keywords :: "expr \<Rightarrow> (string option \<times> expr) list" where
  "call_keywords c = (case c of Call _ _ _ kws \<Rightarrow> kws | _ \<Rightarrow> [])"

definition call_func_name :: "expr \<Rightarrow> string" where
  "call_func_name c = (case c of Call _ f _ _ \<Rightarrow> unparse f | _ \<Rightarrow> '''')"

definition default_is_sanitized :: "expr \<Rightarrow> sink_ref \<Rightarrow> bool" where
  "default_is_sanitized call sink = False"

definition default_sink_expression :: "expr \<Rightarrow> expr option" where
  "default_sink_expression call = (case call_args call of [] \<Rightarrow> None | a # _ \<Rightarrow> Some a)"

section \<open>Shared rule logic\<close>

definition REQUEST_ATTRS :: "string list" where
  "REQUEST_ATTRS = [''args'', ''form'', ''values'', ''json'', ''cookies'', ''headers'']"

definition is_request_name :: "expr \<Rightarrow> bool" where
  "is_request_name e = (case e of Name _ x \<Rightarrow> x = ''request'' | _ \<Rightarrow> False)"

fun request_source :: "expr \<Rightarrow> string \<Rightarrow> string \<Rightarrow> source_ref option" where
  "request_source (Attribute i v attr) file source =
     (if is_request_name v \<and> attr \<in> set REQUEST_ATTRS
      then Some \<lparr>src_file = file, src_line = lineno i,
             src_snippet = source_segment source (Attribute i v attr),
             src_kind = (if attr = ''json'' then ''request_json'' else ''request_param'')\<rparr>
      else request_source v file source)"
| "request_source (Subscript i v s) file source = request_source v file source"
| "request_source (Call i func args kws) file source =
     (case func of
        Attribute _ receiver attr \<Rightarrow>
          if attr = ''get'' then
            (case receiver of
               Attribute _ v a \<Rightarrow>
                 if is_request_name v \<and> a \<in> set REQUEST_ATTRS
                 then Some \<lparr>src_file = file, src_line = lineno i,
                        src_snippet = source_segment source (Call i func args kws),
                        src_kind = ''request_param''\<rparr>
                 else None
             | _ \<Rightarrow> None)
          else None
      | _ \<Rightarrow> None)"
| "request_source _ file source = None"

definition is_intermediate :: "taint_step \<Rightarrow> bool" where
  "is_intermediate s \<longleftrightarrow> ts_type s \<in> {Assignment, Propagation, String_Construction}"

text \<open>In hundredths: base 90 or 70, minus 10 from three intermediate steps on.\<close>

definition taint_confidence :: "taint_step list \<Rightarrow> string \<Rightarrow> int" where
  "taint_confidence path source_kind =
     (let base = (if startswith ''request'' source_kind then 90 else 70);
          intermediate = filter is_intermediate path
      in base - (if 3 \<le> length intermediate then 10 else 0))"

lemma request_source_kind:
  "request_source e fl sc = Some ref \<Longrightarrow> src_file ref = fl \<and> startswith ''request'' (src_kind ref)"
proof (induction e fl sc rule: request_source.induct)
  case (1 i v attr fl sc)
  then show ?case by (auto simp: startswith_def split: if_splits)
next
  case (3 i func args kws fl sc)
  then show ?case by (auto simp: startswith_def split: expr.splits if_splits)
qed auto

lemma taint_confidence_values: "taint_confidence path k \<in> {60, 70, 80, 90}"
  by (simp add: taint_confidence_def Let_def)

section \<open>SQL injection\<close>

definition SQL_OBJECT_NAMES :: "string list" where
  "SQL_OBJECT_NAMES = [''cursor'', ''curs'', ''cur'', ''conn'', ''con'', ''connection'', ''db'',
     ''database'', ''engine'', ''session'', ''handle'']"

definition SQL_METHODS :: "string list" where
  "SQL_METHODS = [''execute'', ''executemany'', ''executescript'']"

definition sql_match_sink :: "expr \<Rightarrow> string \<Rightarrow> string \<Rightarrow> sink_ref option" where
  "sql_match_sink call file source =
     (case call of
        Call _ (Attribute _ v attr) _ _ \<Rightarrow>
          if attr \<notin> set SQL_METHODS then None
          else
            (let receiver = unparse v; lst = last_segment (CHR ''.'') receiver in
             if receiver = ''self'' \<or> lst \<in> set SQL_OBJECT_NAMES
             then Some \<lparr>snk_file = file, snk_line = line_of call,
                    snk_snippet = source_segment source call, snk_kind = ''sql_execute''\<rparr>
             else None)
      | _ \<Rightarrow> None)"

definition is_none_constant :: "expr \<Rightarrow> bool" where
  "is_none_constant e = (case e of Constant _ CNone \<Rightarrow> True | _ \<Rightarrow> False)"

definition sql_is_sanitized :: "expr \<Rightarrow> sink_ref \<Rightarrow> bool" where
  "sql_is_sanitized call sink =
     ((2 \<le> length (call_args call) \<and> \<not> is_none_constant (call_args call ! 1)) \<or>
      list_ex (\<lambda>(arg, value). arg \<in> {Some ''parameters'', Some ''params''} \<and>
                 \<not> is_none_constant value) (call_keywords call))"

definition sql_injection_rule :: scan_rule where
  "sql_injection_rule =
     \<lparr>vulnerability_type = ''sql_injection'', severity = ''high'', poison_params = True,
      is_source = request_source, match_sink = sql_match_sink, is_sanitized = sql_is_sanitized,
      sink_expression = default_sink_expression, confidence = taint_confidence\<rparr>"

section \<open>Command injection\<close>

definition COMMAND_SINKS :: "(string, string) dict" where
  "COMMAND_SINKS =
     [(''os.system'', ''os_system''), (''os.popen'', ''os_popen''),
      (''subprocess.run'', ''subprocess_run''), (''subprocess.call'', ''subprocess_call''),
      (''subprocess.Popen'', ''subprocess_popen''),
      (''subprocess.check_call'', ''subprocess_check_call''),
      (''subprocess.check_output'', ''subprocess_check_output'')]"

definition is_vector :: "expr \<Rightarrow> bool" where
  "is_vector e = (case e of ListE _ _ \<Rightarrow> True | TupleE _ _ \<Rightarrow> True | _ \<Rightarrow> False)"

definition cmd_match_sink :: "expr \<Rightarrow> string \<Rightarrow> string \<Rightarrow> sink_ref option" where
  "cmd_match_sink call file source =
     (if call_func_name call \<notin> set (dkeys COMMAND_SINKS) then None
      else
        (case call_args call of
           [] \<Rightarrow> None
         | a # _ \<Rightarrow>
             if is_vector a then None
             else Some \<lparr>snk_file = file, snk_line = line_of call,
                    snk_snippet = source_segment source call, snk_kind = ''command_exec''\<rparr>))"

definition command_injection_rule :: scan_rule where
  "command_injection_rule =
     \<lparr>vulnerability_type = ''command_injection'', severity = ''high'', poison_params = True,
      is_source = request_source, match_sink = cmd_match_sink, is_sanitized = default_is_sanitized,
      sink_expression = default_sink_expression, confidence = taint_confidence\<rparr>"

section \<open>Server-side request forgery\<close>

definition HTTP_REQUEST_FUNCS :: "string list" where
  "HTTP_REQUEST_FUNCS =
     [''requests.get'', ''requests.post'', ''requests.put'', ''requests.delete'',
      ''requests.patch'', ''requests.head'', ''requests.options'', ''requests.request'',
      ''httpx.get'', ''httpx.post'', ''httpx.put'', ''httpx.delete'', ''httpx.patch'',
      ''httpx.request'', ''urllib.request.urlopen'']"

definition ssrf_sink_expression :: "expr \<Rightarrow> expr option" where
  "ssrf_sink_expression call =
     (case find (\<lambda>kw. fst kw = Some ''url'') (call_keywords call) of
        Some kw \<Rightarrow> Some (snd kw)
      | None \<Rightarrow>
          (let args = call_args call in
           if endswith ''.request'' (call_func_name call)
           then (if 2 \<le> length args then Some (args ! 1) else None)
           else (case args of [] \<Rightarrow> None | a # _ \<Rightarrow> Some a)))"

definition ssrf_match_sink :: "expr \<Rightarrow> string \<Rightarrow> string \<Rightarrow> sink_ref option" where
  "ssrf_match_sink call file source =
     (if call_func_name call \<notin> set HTTP_REQUEST_FUNCS then None
      else if ssrf_sink_expression call = None then None
      else Some \<lparr>snk_file = file, snk_line = line_of call,
             snk_snippet = source_segment source call, snk_kind = ''http_request''\<rparr>)"

definition ssrf_rule :: scan_rule where
  "ssrf_rule =
     \<lparr>vulnerability_type = ''ssrf'', severity = ''high'', poison_params = True,
      is_source = request_source, match_sink = ssrf_match_sink, is_sanitized = default_is_sanitized,
      sink_expression = ssrf_sink_expression, confidence = taint_confidence\<rparr>"

section \<open>Deserialization\<close>

definition DESERIALIZATION_SINKS :: "(string, string) dict" where
  "DESERIALIZATION_SINKS =
     [(''pickle.loads'', ''pickle_loads''), (''pickle.load'', ''pickle_load''),
      (''cPickle.loads'', ''pickle_loads''), (''cPickle.load'', ''pickle_load''),
      (''_pickle.loads'', ''pickle_loads''), (''_pickle.load'', ''pickle_load''),
      (''_cPickle.loads'', ''pickle_loads''), (''_cPickle.load'', ''pickle_load''),
      (''marshal.loads'', ''marshal_loads''), (''marshal.load'', ''marshal_load''),
      (''shelve.open'', ''shelve_open''), (''jsonpickle.decode'', ''jsonpickle_decode''),
      (''jsonpickle.loads'', ''jsonpickle_loads'')]"

definition YAML_LOAD_FUNCS :: "string list" where
  "YAML_LOAD_FUNCS = [''yaml.load'', ''yaml.unsafe_load'']"

text \<open>
  The branch for \<open>YAML_SAFE_FUNCS\<close> and the final return of the source both give
  \<open>None\<close>.
\<close>

definition deser_match_sink :: "expr \<Rightarrow> string \<Rightarrow> string \<Rightarrow> sink_ref option" where
  "deser_match_sink call file source =
     (let func_name = call_func_name call;
          ref = (\<lambda>kind. \<lparr>snk_file = file, snk_line = line_of call,
                   snk_snippet = source_segment source call, snk_kind = kind\<rparr>)
      in
      case dget DESERIALIZATION_SINKS func_name of
        Some kind \<Rightarrow> if call_args call = [] then None else Some (ref kind)
      | None \<Rightarrow>
          if func_name \<in> set YAML_LOAD_FUNCS then
            (if call_args call = [] then None
             else if list_ex (\<lambda>(arg, value). arg = Some ''Loader'' \<and>
                       (contains ''SafeLoader'' (unparse value) \<or>
                        contains ''FullLoader'' (unparse value))) (call_keywords call)
             then None
             else Some (ref ''yaml_load''))
          else None)"

definition deser_is_sanitized :: "expr \<Rightarrow> sink_ref \<Rightarrow> bool" where
  "deser_is_sanitized call sink =
     (snk_kind sink = ''yaml_load'' \<and>
      list_ex (\<lambda>(arg, value). arg = Some ''Loader'' \<and> contains ''SafeLoader'' (unparse value))
        (call_keywords call))"

definition deserialization_rule :: scan_rule where
  "deserialization_rule =
     \<lparr>vulnerability_type = ''deserialization'', severity = ''critical'', poison_params = True,
      is_source = request_source, match_sink = deser_match_sink, is_sanitized = deser_is_sanitized,
      sink_expression = default_sink_expression, confidence = taint_confidence\<rparr>"

lemmas rule_defs = sql_injection_rule_def command_injection_rule_def ssrf_rule_def
  deserialization_rule_def

section \<open>The contract of a rule\<close>

text \<open>
  What the taint engine relies on: sources and sinks are reported in the file under analysis, a
  sink on the line of its call, a source with a request kind, and confidences are bounded.
\<close>

locale rule_contract =
  fixes r :: scan_rule
  assumes source_file: "is_source r e file source = Some ref \<Longrightarrow> src_file ref = file"
    and source_kind: "is_source r e file source = Some ref \<Longrightarrow> startswith ''request'' (src_kind ref)"
    and sink_file: "match_sink r c file source = Some snk \<Longrightarrow> snk_file snk = file"
    and sink_line: "match_sink r c file source = Some snk \<Longrightarrow> snk_line snk = line_of c"
    and confidence_bounds: "60 \<le> confidence r path k \<and> confidence r path k \<le> 90"

lemma sql_sink: "sql_match_sink c file source = Some snk \<Longrightarrow> snk_file snk = file \<and> snk_line snk = line_of c"
  by (auto simp: sql_match_sink_def Let_def split: expr.splits if_splits)

lemma cmd_sink: "cmd_match_sink c file source = Some snk \<Longrightarrow> snk_file snk = file \<and> snk_line snk = line_of c"
  by (auto simp: cmd_match_sink_def split: list.splits if_splits)

lemma ssrf_sink: "ssrf_match_sink c file source = Some snk \<Longrightarrow> snk_file snk = file \<and> snk_line snk = line_of c"
  by (auto simp: ssrf_match_sink_def split: if_splits)

lemma deser_sink: "deser_match_sink c file source = Some snk \<Longrightarrow> snk_file snk = file \<and> snk_line snk = line_of c"
  by (auto simp: deser_match_sink_def Let_def split: option.splits if_splits)

lemma taint_confidence_bounds: "60 \<le> taint_confidence p k" "taint_confidence p k \<le> 90"
  using taint_confidence_values[of p k] by auto

interpretation sql: rule_contract sql_injection_rule
  by unfold_locales
    (auto simp: sql_injection_rule_def taint_confidence_bounds dest: request_source_kind sql_sink)

interpretation cmd: rule_contract command_injection_rule
  by unfold_locales
    (auto simp: command_injection_rule_def taint_confidence_bounds dest: request_source_kind cmd_sink)

interpretation ssrf: rule_contract ssrf_rule
  by unfold_locales
    (auto simp: ssrf_rule_def taint_confidence_bounds dest: request_source_kind ssrf_sink)

interpretation deser: rule_contract deserialization_rule
  by unfold_locales
    (auto simp: deserialization_rule_def taint_confidence_bounds dest: request_source_kind deser_sink)

definition default_rules :: "scan_rule list" where
  "default_rules = [sql_injection_rule, command_injection_rule, ssrf_rule, deserialization_rule]"

lemma default_rules_contract: "r \<in> set default_rules \<Longrightarrow> rule_contract r"
  by (auto simp: default_rules_def intro: sql.rule_contract_axioms cmd.rule_contract_axioms
      ssrf.rule_contract_axioms deser.rule_contract_axioms)

end
