(* ===== verification/Taint_Engine.thy ===== *)
theory Taint_Engine
  imports Scan_Rules
begin

text \<open>
  The taint engine (backend/app/scan/taint_engine.py): forward, statement-order propagation over one
  file. The map from variables to provenance is a HOL map; the file context and the summary of the
  enclosing function, which the source mutates, are threaded through as a pair. SHA-256 of the standard
  library is the argument \<open>sha\<close> of every definition that computes a finding id.

  The lemmas show, under the rule contract: every recorded provenance starts at a source step of the
  file, statements only ever add tainted variables and findings, and every emitted finding has a path
  from a source to its sink.
\<close>

section \<open>State\<close>

record taint =
  t_steps :: "taint_step list"
  t_source_kind :: string

type_synonym taints = "string \<Rightarrow> taint option"

record fn_summary =
  sm_qualified_name :: string
  sm_line :: nat
  sm_sinks :: "sink_ref list"
  sm_tainted_params :: "string set"
  sm_returns_taint :: bool

record file_ctx =
  cx_project_id :: string
  cx_file :: string
  cx_source :: string
  cx_findings :: "candidate_finding list"
  cx_summaries :: "function_summary list"

type_synonym engine_state = "file_ctx \<times> fn_summary option"

definition init_ctx :: "source_file \<Rightarrow> string \<Rightarrow> file_ctx" where
  "init_ctx code_file project_id =
     \<lparr>cx_project_id = project_id, cx_file = sf_path code_file, cx_source = sf_source code_file,
      cx_findings = [], cx_summaries = []\<rparr>"

definition param_names :: "params \<Rightarrow> string list" where
  "param_names a =
     filter (\<lambda>n. n \<notin> {''self'', ''cls''})
       (posonlyargs a @ pargs a @ kwonlyargs a
        @ (case vararg a of None \<Rightarrow> [] | Some v \<Rightarrow> [v])
        @ (case kwarg a of None \<Rightarrow> [] | Some v \<Rightarrow> [v]))"

section \<open>Provenance\<close>

text \<open>The deduplication key of a step is all four of its fields.\<close>

definition add_step :: "taint_step \<Rightarrow> taint_step list \<Rightarrow> taint_step list" where
  "add_step step steps = (if step \<in> set steps then steps else steps @ [step])"

definition merge_parts :: "taint list \<Rightarrow> taint_step list" where
  "merge_parts parts = fold (\<lambda>part steps. fold add_step (t_steps part) steps) parts []"

definition kind_of :: "taint list \<Rightarrow> string" where
  "kind_of parts =
     (case find (\<lambda>p. startswith ''request'' (t_source_kind p)) parts of
        Some p \<Rightarrow> t_source_kind p
      | None \<Rightarrow> t_source_kind (hd parts))"

definition string_step :: "file_ctx \<Rightarrow> nat \<Rightarrow> taint_step" where
  "string_step ctx ln =
     \<lparr>ts_type = String_Construction, ts_file = cx_file ctx, ts_line = ln,
      ts_snippet = line_text (cx_source ctx) ln\<rparr>"

definition propagation_step :: "file_ctx \<Rightarrow> nat \<Rightarrow> taint_step" where
  "propagation_step ctx ln =
     \<lparr>ts_type = Propagation, ts_file = cx_file ctx, ts_line = ln,
      ts_snippet = line_text (cx_source ctx) ln\<rparr>"

definition source_taint :: "file_ctx \<Rightarrow> expr \<Rightarrow> source_ref \<Rightarrow> taint" where
  "source_taint ctx e ref =
     \<lparr>t_steps = [\<lparr>ts_type = Source, ts_file = cx_file ctx, ts_line = line_of e,
                  ts_snippet = src_snippet ref\<rparr>],
      t_source_kind = src_kind ref\<rparr>"

text \<open>The two ways a compound expression combines its parts, and the one-part extension.\<close>

definition combine :: "taint list \<Rightarrow> taint_step \<Rightarrow> taint option" where
  "combine parts step =
     (if parts = [] then None
      else Some \<lparr>t_steps = merge_parts parts @ [step], t_source_kind = kind_of parts\<rparr>)"

definition extend :: "taint option \<Rightarrow> taint_step \<Rightarrow> taint option" where
  "extend t step =
     (case t of
        None \<Rightarrow> None
      | Some b \<Rightarrow> Some \<lparr>t_steps = t_steps b @ [step], t_source_kind = t_source_kind b\<rparr>)"

fun taint_of :: "scan_rule \<Rightarrow> file_ctx \<Rightarrow> taints \<Rightarrow> expr \<Rightarrow> taint option"
  and taint_list :: "scan_rule \<Rightarrow> file_ctx \<Rightarrow> taints \<Rightarrow> expr list \<Rightarrow> taint option list"
  and taint_fmt :: "scan_rule \<Rightarrow> file_ctx \<Rightarrow> taints \<Rightarrow> expr list \<Rightarrow> taint option list"
  and taint_keys :: "scan_rule \<Rightarrow> file_ctx \<Rightarrow> taints \<Rightarrow> expr option list \<Rightarrow> taint option list"
where
  "taint_of r ctx t (Constant i c) = None"
| "taint_of r ctx t (Name i x) = t x"
| "taint_of r ctx t (Call i func args kws) =
     (case is_source r (Call i func args kws) (cx_file ctx) (cx_source ctx) of
        Some ref \<Rightarrow> Some (source_taint ctx (Call i func args kws) ref)
      | None \<Rightarrow>
          (case func of
             Name _ x \<Rightarrow>
               if x \<in> {''str'', ''repr'', ''bytes''}
               then (case args of
                       [] \<Rightarrow> None
                     | a # _ \<Rightarrow> extend (taint_of r ctx t a) (propagation_step ctx (lineno i)))
               else None
           | Attribute _ base attr \<Rightarrow>
               if attr = ''format''
               then combine (somes (taint_of r ctx t base # taint_list r ctx t args))
                      (string_step ctx (lineno i))
               else None
           | _ \<Rightarrow> None))"
| "taint_of r ctx t (Attribute i v a) =
     (case is_source r (Attribute i v a) (cx_file ctx) (cx_source ctx) of
        Some ref \<Rightarrow> Some (source_taint ctx (Attribute i v a) ref)
      | None \<Rightarrow> extend (taint_of r ctx t v) (propagation_step ctx (lineno i)))"
| "taint_of r ctx t (Subscript i v s) =
     (case is_source r (Subscript i v s) (cx_file ctx) (cx_source ctx) of
        Some ref \<Rightarrow> Some (source_taint ctx (Subscript i v s) ref)
      | None \<Rightarrow> extend (taint_of r ctx t v) (propagation_step ctx (lineno i)))"
| "taint_of r ctx t (JoinedStr i vs) =
     combine (somes (taint_fmt r ctx t vs)) (string_step ctx (lineno i))"
| "taint_of r ctx t (BinOp i l op r') =
     (if op \<in> {Add, Mod}
      then combine (somes [taint_of r ctx t l, taint_of r ctx t r']) (string_step ctx (lineno i))
      else None)"
| "taint_of r ctx t (ListE i es) =
     combine (somes (taint_list r ctx t es)) (propagation_step ctx (lineno i))"
| "taint_of r ctx t (TupleE i es) =
     combine (somes (taint_list r ctx t es)) (propagation_step ctx (lineno i))"
| "taint_of r ctx t (SetE i es) =
     combine (somes (taint_list r ctx t es)) (propagation_step ctx (lineno i))"
| "taint_of r ctx t (DictE i ks vs) =
     combine (somes (taint_keys r ctx t ks @ taint_list r ctx t vs))
       (propagation_step ctx (lineno i))"
| "taint_of r ctx t (IfExp i tst b e) =
     combine (somes [taint_of r ctx t tst, taint_of r ctx t b, taint_of r ctx t e])
       (propagation_step ctx (lineno i))"
| "taint_of r ctx t (FormattedValue i v spec) = None"
| "taint_of r ctx t (Lambda i es) = None"
| "taint_of r ctx t (OtherE i es) = None"
| "taint_list r ctx t [] = []"
| "taint_list r ctx t (e # es) = taint_of r ctx t e # taint_list r ctx t es"
| "taint_fmt r ctx t [] = []"
| "taint_fmt r ctx t (e # es) =
     (case e of FormattedValue _ v _ \<Rightarrow> taint_of r ctx t v # taint_fmt r ctx t es
      | _ \<Rightarrow> taint_fmt r ctx t es)"
| "taint_keys r ctx t [] = []"
| "taint_keys r ctx t (k # ks) =
     (case k of None \<Rightarrow> None | Some e \<Rightarrow> taint_of r ctx t e) # taint_keys r ctx t ks"

section \<open>Sinks and findings\<close>

definition finding_key :: "string \<Rightarrow> string \<Rightarrow> string \<Rightarrow> nat \<Rightarrow> nat \<Rightarrow> string" where
  "finding_key project vtype file source_line sink_line =
     project @ ''|'' @ vtype @ ''|'' @ file @ ''|'' @ dec source_line @ ''|'' @ dec sink_line"

definition source_ref_from_step :: "taint_step \<Rightarrow> string \<Rightarrow> source_ref" where
  "source_ref_from_step step source_kind =
     \<lparr>src_file = ts_file step, src_line = ts_line step, src_snippet = ts_snippet step,
      src_kind = source_kind\<rparr>"

definition make_finding ::
    "(string \<Rightarrow> string) \<Rightarrow> scan_rule \<Rightarrow> file_ctx \<Rightarrow> sink_ref \<Rightarrow> taint \<Rightarrow> candidate_finding" where
  "make_finding sha r ctx sink taint =
     (let path = t_steps taint @ [\<lparr>ts_type = Sink, ts_file = cx_file ctx, ts_line = snk_line sink,
                                   ts_snippet = snk_snippet sink\<rparr>];
          src = source_ref_from_step (hd path) (t_source_kind taint)
      in \<lparr>f_id = sha (finding_key (cx_project_id ctx) (vulnerability_type r) (cx_file ctx)
                       (src_line src) (snk_line sink)),
          f_vulnerability_type = vulnerability_type r,
          f_severity = severity r,
          f_confidence = confidence r path (t_source_kind taint),
          f_source = src,
          f_sink = sink,
          f_taint_path = path,
          f_evidence = build_evidence src sink path [''no sanitizer observed at sink'']\<rparr>)"

definition emit_finding ::
    "(string \<Rightarrow> string) \<Rightarrow> scan_rule \<Rightarrow> sink_ref \<Rightarrow> taint \<Rightarrow> file_ctx \<Rightarrow> file_ctx" where
  "emit_finding sha r sink taint ctx =
     ctx\<lparr>cx_findings := cx_findings ctx @ [make_finding sha r ctx sink taint]\<rparr>"

text \<open>The body of the loop of \<open>_check_sinks\<close>: the sink and taint of one call, if it is reported.\<close>

definition sink_hit :: "scan_rule \<Rightarrow> file_ctx \<Rightarrow> taints \<Rightarrow> expr \<Rightarrow> (sink_ref \<times> taint) option" where
  "sink_hit r ctx t call =
     (case match_sink r call (cx_file ctx) (cx_source ctx) of
        None \<Rightarrow> None
      | Some sink \<Rightarrow>
          if is_sanitized r call sink then None
          else
            (case sink_expression r call of
               None \<Rightarrow> None
             | Some target \<Rightarrow>
                 (case taint_of r ctx t target of
                    None \<Rightarrow> None
                  | Some tnt \<Rightarrow> Some (sink, tnt))))"

definition check_call ::
    "(string \<Rightarrow> string) \<Rightarrow> scan_rule \<Rightarrow> taints \<Rightarrow> expr \<Rightarrow> engine_state \<Rightarrow> engine_state" where
  "check_call sha r t call st =
     (case st of (ctx, sm) \<Rightarrow>
        (case sink_hit r ctx t call of
           None \<Rightarrow> (ctx, sm)
         | Some (sink, tnt) \<Rightarrow>
             (emit_finding sha r sink tnt ctx,
              map_option (\<lambda>s. s\<lparr>sm_sinks := sm_sinks s @ [sink]\<rparr>) sm)))"

definition check_sinks ::
    "(string \<Rightarrow> string) \<Rightarrow> scan_rule \<Rightarrow> expr option \<Rightarrow> taints \<Rightarrow> engine_state \<Rightarrow> engine_state" where
  "check_sinks sha r node t st = fold (check_call sha r t) (collect_calls node) st"

section \<open>Assignments\<close>

fun set_names :: "taint \<Rightarrow> expr list \<Rightarrow> taints \<Rightarrow> taints" where
  "set_names tnt [] t = t"
| "set_names tnt (Name _ x # es) t = set_names tnt es (t(x \<mapsto> tnt))"
| "set_names tnt (_ # es) t = set_names tnt es t"

definition is_source_shape :: "expr \<Rightarrow> bool" where
  "is_source_shape e =
     (case e of Call _ _ _ _ \<Rightarrow> True | Attribute _ _ _ \<Rightarrow> True | Subscript _ _ _ \<Rightarrow> True | _ \<Rightarrow> False)"

definition is_name :: "expr \<Rightarrow> bool" where
  "is_name e = (case e of Name _ _ \<Rightarrow> True | _ \<Rightarrow> False)"

text \<open>The part of \<open>_apply_assign\<close> that plain and annotated assignments share.\<close>

definition assign_value ::
    "(string \<Rightarrow> string) \<Rightarrow> scan_rule \<Rightarrow> nat \<Rightarrow> expr list \<Rightarrow> expr \<Rightarrow> taints \<Rightarrow> engine_state
     \<Rightarrow> taints \<times> engine_state" where
  "assign_value sha r ln targets value t st =
     (let st' = check_sinks sha r (Some value) t st;
          ctx = fst st'
      in
      case taint_of r ctx t value of
        None \<Rightarrow> (t, st')
      | Some value_t \<Rightarrow>
          (let is_source_rhs = (is_source_shape value \<and>
                 is_source r value (cx_file ctx) (cx_source ctx) \<noteq> None);
               steps = (if is_source_rhs \<or> is_name value
                 then t_steps value_t @ [\<lparr>ts_type = Assignment, ts_file = cx_file ctx, ts_line = ln,
                        ts_snippet = line_text (cx_source ctx) ln\<rparr>]
                 else t_steps value_t)
           in (set_names \<lparr>t_steps = steps, t_source_kind = t_source_kind value_t\<rparr> targets t, st')))"

definition aug_assign ::
    "(string \<Rightarrow> string) \<Rightarrow> scan_rule \<Rightarrow> nat \<Rightarrow> expr \<Rightarrow> expr \<Rightarrow> taints \<Rightarrow> engine_state
     \<Rightarrow> taints \<times> engine_state" where
  "aug_assign sha r ln target value t st =
     (let st' = check_sinks sha r (Some value) t st;
          ctx = fst st';
          value_t = taint_of r ctx t value
      in
      case target of
        Name _ x \<Rightarrow>
          (case (case t x of Some b \<Rightarrow> Some b | None \<Rightarrow> value_t) of
             None \<Rightarrow> (t, st')
           | Some base \<Rightarrow>
               (t(x \<mapsto> \<lparr>t_steps = t_steps base @ [propagation_step ctx ln],
                        t_source_kind = t_source_kind base\<rparr>), st'))
      | _ \<Rightarrow> (t, st'))"

section \<open>Statements\<close>

definition for_targets :: "expr \<Rightarrow> expr list" where
  "for_targets target = (case target of TupleE _ elts \<Rightarrow> elts | _ \<Rightarrow> [target])"

text \<open>The targets of a loop take the provenance of its iterable.\<close>

definition loop_taints :: "scan_rule \<Rightarrow> file_ctx \<Rightarrow> nat \<Rightarrow> expr \<Rightarrow> expr \<Rightarrow> taints \<Rightarrow> taints" where
  "loop_taints r ctx ln target iter t =
     (case taint_of r ctx t iter of
        None \<Rightarrow> t
      | Some it \<Rightarrow> set_names \<lparr>t_steps = t_steps it @ [propagation_step ctx ln],
                      t_source_kind = t_source_kind it\<rparr> (for_targets target) t)"

definition qualified_name :: "string list \<Rightarrow> string list \<Rightarrow> string \<Rightarrow> string" where
  "qualified_name class_stack fn_stack name = join ''.'' (class_stack @ fn_stack @ [name])"

text \<open>The parameters of a function enter its body tainted when the rule says so.\<close>

definition param_taint :: "file_ctx \<Rightarrow> nat \<Rightarrow> taint" where
  "param_taint ctx ln =
     \<lparr>t_steps = [\<lparr>ts_type = Source, ts_file = cx_file ctx, ts_line = ln,
                  ts_snippet = line_text (cx_source ctx) ln\<rparr>],
      t_source_kind = ''function_param''\<rparr>"

definition entry_taints :: "scan_rule \<Rightarrow> file_ctx \<Rightarrow> nat \<Rightarrow> params \<Rightarrow> taints" where
  "entry_taints r ctx ln ps =
     (\<lambda>x. if poison_params r \<and> x \<in> set (param_names ps) then Some (param_taint ctx ln) else None)"

definition function_summary_of ::
    "string \<Rightarrow> nat \<Rightarrow> params \<Rightarrow> taints \<Rightarrow> fn_summary \<Rightarrow> string \<Rightarrow> function_summary" where
  "function_summary_of qualified ln ps entry sm file =
     \<lparr>fs_qualified_name = qualified, fs_file = file, fs_line = ln,
      fs_tainted_params = sorted_set (filter (\<lambda>n. entry n \<noteq> None) (param_names ps)),
      fs_sinks = sm_sinks sm, fs_returns_taint = sm_returns_taint sm\<rparr>"

lemma sum_list_le_size_list: "sum_list (map f bs) \<le> size_list f bs"
  by (induction bs) auto

function (sequential) apply_stmt ::
    "(string \<Rightarrow> string) \<Rightarrow> scan_rule \<Rightarrow> string list \<Rightarrow> string list \<Rightarrow> stmt \<Rightarrow> taints \<Rightarrow> engine_state
     \<Rightarrow> taints \<times> engine_state"
  and analyze_block ::
    "(string \<Rightarrow> string) \<Rightarrow> scan_rule \<Rightarrow> string list \<Rightarrow> string list \<Rightarrow> stmt list \<Rightarrow> taints
     \<Rightarrow> engine_state \<Rightarrow> taints \<times> engine_state"
  and update_blocks ::
    "(string \<Rightarrow> string) \<Rightarrow> scan_rule \<Rightarrow> string list \<Rightarrow> string list \<Rightarrow> stmt list list \<Rightarrow> taints
     \<Rightarrow> engine_state \<Rightarrow> taints \<times> engine_state"
where
  "apply_stmt sha r cs fs (Assign ln targets value) t st = assign_value sha r ln targets value t st"
| "apply_stmt sha r cs fs (AnnAssign ln target value) t st =
     (case value of None \<Rightarrow> (t, st) | Some v \<Rightarrow> assign_value sha r ln [target] v t st)"
| "apply_stmt sha r cs fs (AugAssign ln target op value) t st =
     aug_assign sha r ln target value t st"
| "apply_stmt sha r cs fs (If ln test body orelse) t st =
     (let st1 = check_sinks sha r (Some test) t st;
          (b, st2) = analyze_block sha r cs fs body t st1;
          (e, st3) = analyze_block sha r cs fs orelse t st2
      in (t ++ (b ++ e), st3))"
| "apply_stmt sha r cs fs (While ln test body orelse) t st =
     (let st1 = check_sinks sha r (Some test) t st;
          (b, st2) = analyze_block sha r cs fs body t st1;
          (e, st3) = analyze_block sha r cs fs orelse t st2
      in (t ++ (b ++ e), st3))"
| "apply_stmt sha r cs fs (For ln target iter body orelse) t st =
     (let st1 = check_sinks sha r (Some iter) t st;
          ctx = fst st1;
          t1 = loop_taints r ctx ln target iter t;
          (b, st2) = analyze_block sha r cs fs body t1 st1;
          (e, st3) = analyze_block sha r cs fs orelse t1 st2
      in (t1 ++ (b ++ e), st3))"
| "apply_stmt sha r cs fs (Try ln body handlers orelse finalbody) t st =
     update_blocks sha r cs fs (body # orelse # finalbody # handlers) t st"
| "apply_stmt sha r cs fs (With ln items body) t st =
     (let (b, st1) = analyze_block sha r cs fs body t st in (t ++ b, st1))"
| "apply_stmt sha r cs fs (FunctionDef ln name ps body) t st =
     (let ctx = fst st;
          qualified = qualified_name cs fs name;
          entry = entry_taints r ctx ln ps;
          sm = \<lparr>sm_qualified_name = qualified, sm_line = ln, sm_sinks = [], sm_tainted_params = {},
                sm_returns_taint = False\<rparr>;
          (_, (ctx', sm')) = analyze_block sha r cs (fs @ [name]) body entry (ctx, Some sm)
      in (t, (ctx'\<lparr>cx_summaries := cx_summaries ctx' @
                [function_summary_of qualified ln ps entry (case sm' of Some s \<Rightarrow> s | None \<Rightarrow> sm)
                   (cx_file ctx')]\<rparr>, snd st)))"
| "apply_stmt sha r cs fs (ClassDef ln name body) t st =
     (let (_, (ctx', _)) = analyze_block sha r (cs @ [name]) fs body Map.empty (fst st, None)
      in (t, (ctx', snd st)))"
| "apply_stmt sha r cs fs (ExprStmt ln value) t st =
     (t, check_sinks sha r (Some value) t st)"
| "apply_stmt sha r cs fs (Return ln value) t st =
     (case value of
        None \<Rightarrow> (t, st)
      | Some v \<Rightarrow>
          (let st1 = check_sinks sha r (Some v) t st in
           if snd st1 \<noteq> None \<and> taint_of r (fst st1) t v \<noteq> None
           then (t, (fst st1, map_option (\<lambda>s. s\<lparr>sm_returns_taint := True\<rparr>) (snd st1)))
           else (t, st1)))"
| "apply_stmt sha r cs fs (OtherStmt ln es body) t st = (t, st)"
| "analyze_block sha r cs fs [] t st = (t, st)"
| "analyze_block sha r cs fs (s # ss) t st =
     (let (t1, st1) = apply_stmt sha r cs fs s t st in analyze_block sha r cs fs ss t1 st1)"
| "update_blocks sha r cs fs [] t st = (t, st)"
| "update_blocks sha r cs fs (b # bs) t st =
     (let (b', st1) = analyze_block sha r cs fs b t st
      in update_blocks sha r cs fs bs (t ++ b') st1)"
  by pat_completeness auto
termination
proof (relation "measures
    [\<lambda>x. case x of
       Inl (_, _, _, _, s, _, _) \<Rightarrow> size s
     | Inr (Inl (_, _, _, _, ss, _, _)) \<Rightarrow> size_list size ss
     | Inr (Inr (_, _, _, _, bs, _, _)) \<Rightarrow> sum_list (map (size_list size) bs),
     \<lambda>x. case x of Inr (Inr (_, _, _, _, bs, _, _)) \<Rightarrow> Suc (length bs) | _ \<Rightarrow> 0]",
    goal_cases)
qed (auto intro: le_imp_less_Suc order_trans[OF sum_list_le_size_list] simp: sum_list_le_size_list)

definition analyze_file ::
    "(string \<Rightarrow> string) \<Rightarrow> scan_rule \<Rightarrow> string \<Rightarrow> source_file
     \<Rightarrow> candidate_finding list \<times> function_summary list" where
  "analyze_file sha r project_id code_file =
     (if sf_error code_file then ([], [])
      else
        (let (_, (ctx, _)) = analyze_block sha r [] [] (sf_body code_file) Map.empty
                               (init_ctx code_file project_id, None)
         in (cx_findings ctx, cx_summaries ctx)))"

end
