(* ===== verification/Taint_Soundness.thy ===== *)
theory Taint_Soundness
  imports Taint_Engine
begin

text \<open>
  What the taint engine guarantees: well-formed provenance, findings whose path runs from a source to
  their sink, statements that only add taint and findings, branch merging as an over-approximation,
  exactly the sink hits of an expression reported, and unambiguous finding keys.
\<close>

section \<open>Provenance lists\<close>

lemma set_fold_add_step: "set (fold add_step xs acc) = set acc \<union> set xs"
  by (induction xs arbitrary: acc) (auto simp: add_step_def)

lemma fold_add_step_prefix: "\<exists>zs. fold add_step xs acc = acc @ zs"
proof (induction xs arbitrary: acc)
  case (Cons x xs)
  obtain zs where "fold add_step xs (add_step x acc) = add_step x acc @ zs"
    using Cons.IH by blast
  moreover have "\<exists>us. add_step x acc = acc @ us" by (simp add: add_step_def)
  ultimately show ?case by auto
qed simp

lemma distinct_fold_add_step: "distinct acc \<Longrightarrow> distinct (fold add_step xs acc)"
  by (induction xs arbitrary: acc) (auto simp: add_step_def)

abbreviation add_part :: "taint \<Rightarrow> taint_step list \<Rightarrow> taint_step list" where
  "add_part part steps \<equiv> fold add_step (t_steps part) steps"

lemma set_merge_parts: "set (merge_parts parts) = (\<Union>p \<in> set parts. set (t_steps p))"
proof -
  have "set (fold add_part parts acc) = set acc \<union> (\<Union>p \<in> set parts. set (t_steps p))" for acc
    by (induction parts arbitrary: acc) (auto simp: set_fold_add_step)
  from this[of "[]"] show ?thesis by (simp add: merge_parts_def)
qed

lemma distinct_merge_parts: "distinct (merge_parts parts)"
proof -
  have "distinct acc \<Longrightarrow> distinct (fold add_part parts acc)" for acc
    by (induction parts arbitrary: acc) (auto intro: distinct_fold_add_step)
  from this[of "[]"] show ?thesis by (simp add: merge_parts_def)
qed

lemma merge_parts_prefix: "\<exists>zs. fold add_part parts acc = acc @ zs"
proof (induction parts arbitrary: acc)
  case (Cons p parts)
  obtain us where us: "fold add_step (t_steps p) acc = acc @ us"
    using fold_add_step_prefix by blast
  obtain zs where "fold add_part parts (acc @ us) = (acc @ us) @ zs"
    using Cons.IH by blast
  then show ?case by (simp add: us)
qed simp

lemma hd_merge_parts:
  assumes "t_steps p = s # ss"
  shows "hd (merge_parts (p # ps)) = s" and "merge_parts (p # ps) \<noteq> []"
proof -
  obtain us where us: "fold add_step ss [s] = [s] @ us" using fold_add_step_prefix by blast
  obtain zs where zs: "fold add_part ps ([s] @ us) = ([s] @ us) @ zs"
    using merge_parts_prefix by blast
  have "merge_parts (p # ps) = s # us @ zs"
    using us zs by (simp add: merge_parts_def assms add_step_def)
  then show "hd (merge_parts (p # ps)) = s" and "merge_parts (p # ps) \<noteq> []" by simp_all
qed

section \<open>Well-formed provenance\<close>

definition wf_steps :: "string \<Rightarrow> taint_step list \<Rightarrow> bool" where
  "wf_steps file steps \<longleftrightarrow> steps \<noteq> [] \<and> ts_type (hd steps) = Source \<and>
     (\<forall>s \<in> set steps. ts_file s = file \<and> ts_type s \<noteq> Sink)"

definition wf_kind :: "string \<Rightarrow> bool" where
  "wf_kind k \<longleftrightarrow> k = ''function_param'' \<or> startswith ''request'' k"

definition wf_taint :: "string \<Rightarrow> taint \<Rightarrow> bool" where
  "wf_taint file tnt \<longleftrightarrow> wf_steps file (t_steps tnt) \<and> wf_kind (t_source_kind tnt)"

definition wf_taints :: "string \<Rightarrow> taints \<Rightarrow> bool" where
  "wf_taints file t \<longleftrightarrow> (\<forall>x tnt. t x = Some tnt \<longrightarrow> wf_taint file tnt)"

lemma wf_steps_append:
  "wf_steps file steps \<Longrightarrow> ts_file s = file \<Longrightarrow> ts_type s \<noteq> Sink \<Longrightarrow> wf_steps file (steps @ [s])"
  by (auto simp: wf_steps_def)

lemma wf_merge_parts:
  assumes "parts \<noteq> []" and "\<forall>p \<in> set parts. wf_taint file p"
  shows "wf_steps file (merge_parts parts)"
proof -
  obtain p ps where parts: "parts = p # ps" using assms(1) by (cases parts) auto
  then obtain s ss where s: "t_steps p = s # ss" "ts_type s = Source"
    using assms(2) by (cases "t_steps p") (auto simp: wf_taint_def wf_steps_def)
  have "hd (merge_parts parts) = s" "merge_parts parts \<noteq> []"
    using hd_merge_parts[OF s(1)] parts by auto
  moreover have "\<forall>x \<in> set (merge_parts parts). ts_file x = file \<and> ts_type x \<noteq> Sink"
    using assms(2) by (auto simp: set_merge_parts wf_taint_def wf_steps_def)
  ultimately show ?thesis using s(2) by (simp add: wf_steps_def)
qed

lemma wf_kind_of:
  assumes "parts \<noteq> []" and "\<forall>p \<in> set parts. wf_taint file p"
  shows "wf_kind (kind_of parts)"
  using assms
  by (auto simp: kind_of_def wf_taint_def neq_Nil_conv wf_kind_def
      split: option.splits dest: find_SomeD)

lemma wf_combine:
  assumes "combine parts step = Some tnt" and "\<forall>p \<in> set parts. wf_taint file p"
    and "ts_file step = file" and "ts_type step \<noteq> Sink"
  shows "wf_taint file tnt"
proof -
  have ne: "parts \<noteq> []"
    and tnt: "tnt = \<lparr>t_steps = merge_parts parts @ [step], t_source_kind = kind_of parts\<rparr>"
    using assms(1) by (auto simp: combine_def split: if_splits)
  show ?thesis
    using wf_merge_parts[OF ne assms(2)] wf_kind_of[OF ne assms(2)] assms(3,4)
    by (simp add: tnt wf_taint_def wf_steps_append)
qed

lemma wf_extend:
  assumes "extend t step = Some tnt" and "\<And>b. t = Some b \<Longrightarrow> wf_taint file b"
    and "ts_file step = file" and "ts_type step \<noteq> Sink"
  shows "wf_taint file tnt"
  using assms by (auto simp: extend_def wf_taint_def intro: wf_steps_append split: option.splits)

lemma wf_combine_somes:
  assumes "combine (somes opts) step = Some tnt"
    and "\<And>p. Some p \<in> set opts \<Longrightarrow> wf_taint file p"
    and "ts_file step = file" and "ts_type step \<noteq> Sink"
  shows "wf_taint file tnt"
  using assms by (auto simp: set_somes intro: wf_combine)

lemma step_fields [simp]:
  "ts_file (string_step ctx ln) = cx_file ctx" "ts_type (string_step ctx ln) = String_Construction"
  "ts_file (propagation_step ctx ln) = cx_file ctx" "ts_type (propagation_step ctx ln) = Propagation"
  "ts_line (string_step ctx ln) = ln" "ts_line (propagation_step ctx ln) = ln"
  by (simp_all add: string_step_def propagation_step_def)

lemma wf_param_taint: "wf_taint (cx_file ctx) (param_taint ctx ln)"
  by (simp add: wf_taint_def wf_steps_def wf_kind_def param_taint_def)

lemma wf_entry_taints: "wf_taints (cx_file ctx) (entry_taints r ctx ln ps)"
  by (auto simp: wf_taints_def entry_taints_def wf_param_taint split: if_splits)

lemma wf_taints_empty [simp]: "wf_taints file Map.empty"
  by (simp add: wf_taints_def)

lemma wf_taints_upd: "wf_taints file t \<Longrightarrow> wf_taint file tnt \<Longrightarrow> wf_taints file (t(x \<mapsto> tnt))"
  by (simp add: wf_taints_def)

lemma wf_taints_add: "wf_taints file t \<Longrightarrow> wf_taints file u \<Longrightarrow> wf_taints file (t ++ u)"
  by (auto simp: wf_taints_def map_add_Some_iff)

lemma wf_set_names: "wf_taints file t \<Longrightarrow> wf_taint file tnt \<Longrightarrow> wf_taints file (set_names tnt es t)"
  by (induction tnt es t rule: set_names.induct) (auto intro: wf_taints_upd)

lemma set_names_keeps: "t x \<noteq> None \<Longrightarrow> set_names tnt es t x \<noteq> None"
  by (induction tnt es t rule: set_names.induct) auto

section \<open>Well-formed findings and growing contexts\<close>

text \<open>
  A finding as the engine promises it: a path of one file that opens with a source step, has its only
  sink step at its end and agrees with the source and sink references, the key of its id, the
  rule's type and severity, a confidence within the documented range and evidence that repeats the path.
\<close>

definition path_ok :: "string \<Rightarrow> taint_step list \<Rightarrow> bool" where
  "path_ok file path \<longleftrightarrow> 2 \<le> length path \<and> ts_type (hd path) = Source \<and>
     ts_type (last path) = Sink \<and> (\<forall>s \<in> set (butlast path). ts_type s \<noteq> Sink) \<and>
     (\<forall>s \<in> set path. ts_file s = file)"

definition finding_ok ::
    "(string \<Rightarrow> string) \<Rightarrow> scan_rule \<Rightarrow> string \<Rightarrow> string \<Rightarrow> candidate_finding \<Rightarrow> bool" where
  "finding_ok sha r project file f \<longleftrightarrow>
     path_ok file (f_taint_path f) \<and>
     f_source f = source_ref_from_step (hd (f_taint_path f)) (src_kind (f_source f)) \<and>
     wf_kind (src_kind (f_source f)) \<and>
     snk_file (f_sink f) = file \<and>
     snk_line (f_sink f) = ts_line (last (f_taint_path f)) \<and>
     snk_snippet (f_sink f) = ts_snippet (last (f_taint_path f)) \<and>
     f_id f = sha (finding_key project (vulnerability_type r) file
                     (src_line (f_source f)) (snk_line (f_sink f))) \<and>
     f_vulnerability_type f = vulnerability_type r \<and> f_severity f = severity r \<and>
     60 \<le> f_confidence f \<and> f_confidence f \<le> 90 \<and>
     ev_taint_path (f_evidence f) = f_taint_path f \<and>
     set (ev_relevant_lines (f_evidence f)) = ts_line ` set (f_taint_path f)"

definition ctx_ext :: "(candidate_finding \<Rightarrow> bool) \<Rightarrow> file_ctx \<Rightarrow> file_ctx \<Rightarrow> bool" where
  "ctx_ext P c c' \<longleftrightarrow>
     cx_file c' = cx_file c \<and> cx_source c' = cx_source c \<and> cx_project_id c' = cx_project_id c \<and>
     (\<exists>new. cx_findings c' = cx_findings c @ new \<and> (\<forall>f \<in> set new. P f)) \<and>
     (\<exists>new. cx_summaries c' = cx_summaries c @ new)"

lemma ctx_ext_refl [simp]: "ctx_ext P c c"
  by (simp add: ctx_ext_def)

lemma ctx_ext_trans [trans]: "ctx_ext P a b \<Longrightarrow> ctx_ext P b c \<Longrightarrow> ctx_ext P a c"
  by (fastforce simp: ctx_ext_def)

lemma ctx_ext_consts:
  "ctx_ext P a b \<Longrightarrow> cx_file b = cx_file a \<and> cx_source b = cx_source a \<and> cx_project_id b = cx_project_id a"
  by (simp add: ctx_ext_def)

lemma ctx_ext_summary: "ctx_ext P a b \<Longrightarrow> ctx_ext P a (b\<lparr>cx_summaries := cx_summaries b @ xs\<rparr>)"
  by (auto simp: ctx_ext_def)

section \<open>The engine under the rule contract\<close>

context rule_contract
begin

lemma wf_source_taint:
  "is_source r e (cx_file ctx) sc = Some ref \<Longrightarrow> wf_taint (cx_file ctx) (source_taint ctx e ref)"
  using source_kind by (auto simp: wf_taint_def wf_steps_def wf_kind_def source_taint_def)

end

text \<open>
  The rule is an argument of the recursive functions, so their joint induction generalises it and the
  contract is a premise here.
\<close>

lemma wf_taint_of_aux:
  "rule_contract r \<Longrightarrow> wf_taints (cx_file ctx) t \<Longrightarrow> taint_of r ctx t e = Some tnt \<Longrightarrow>
     wf_taint (cx_file ctx) tnt"
  "rule_contract r \<Longrightarrow> wf_taints (cx_file ctx) t \<Longrightarrow> Some tnt \<in> set (taint_list r ctx t es) \<Longrightarrow>
     wf_taint (cx_file ctx) tnt"
  "rule_contract r \<Longrightarrow> wf_taints (cx_file ctx) t \<Longrightarrow> Some tnt \<in> set (taint_fmt r ctx t es) \<Longrightarrow>
     wf_taint (cx_file ctx) tnt"
  "rule_contract r \<Longrightarrow> wf_taints (cx_file ctx) t \<Longrightarrow> Some tnt \<in> set (taint_keys r ctx t ks) \<Longrightarrow>
     wf_taint (cx_file ctx) tnt"
proof (induction r ctx t e and r ctx t es and r ctx t es and r ctx t ks arbitrary: tnt and tnt and tnt and tnt
    rule: taint_of_taint_list_taint_fmt_taint_keys.induct)
  case (2 r ctx t i x)
  then show ?case by (auto simp: wf_taints_def)
qed (auto split: option.splits expr.splits list.splits if_splits
       intro: rule_contract.wf_source_taint elim!: wf_extend wf_combine_somes)

text \<open>What every statement keeps.\<close>

definition keeps ::
    "(string \<Rightarrow> string) \<Rightarrow> scan_rule \<Rightarrow> taints \<Rightarrow> engine_state \<Rightarrow> taints \<times> engine_state \<Rightarrow> bool" where
  "keeps sha r t st res \<longleftrightarrow>
     (wf_taints (cx_file (fst st)) t \<longrightarrow>
       wf_taints (cx_file (fst st)) (fst res) \<and> (\<forall>x. t x \<noteq> None \<longrightarrow> fst res x \<noteq> None) \<and>
       ctx_ext (finding_ok sha r (cx_project_id (fst st)) (cx_file (fst st))) (fst st) (fst (snd res)))"

context rule_contract
begin

lemmas wf_taint_of = wf_taint_of_aux(1)[OF rule_contract_axioms]

lemma finding_ok_make:
  assumes "wf_taint (cx_file ctx) tnt" and "snk_file sink = cx_file ctx"
  shows "finding_ok sha r (cx_project_id ctx) (cx_file ctx) (make_finding sha r ctx sink tnt)"
proof -
  obtain s ss where s: "t_steps tnt = s # ss"
    using assms(1) by (cases "t_steps tnt") (auto simp: wf_taint_def wf_steps_def)
  show ?thesis
    using assms confidence_bounds
    by (auto simp: finding_ok_def path_ok_def make_finding_def Let_def s wf_taint_def wf_steps_def
        source_ref_from_step_def build_evidence_def butlast_append)
qed

lemma check_call_ext:
  assumes "wf_taints (cx_file (fst st)) t"
  shows "ctx_ext (finding_ok sha r (cx_project_id (fst st)) (cx_file (fst st))) (fst st)
           (fst (check_call sha r t call st))"
proof (cases st)
  case (Pair ctx sm)
  show ?thesis
  proof (cases "sink_hit r ctx t call")
    case (Some hit)
    obtain sink tnt where hit: "hit = (sink, tnt)" by (cases hit)
    have "snk_file sink = cx_file ctx" "wf_taint (cx_file ctx) tnt"
      using Some hit assms Pair
      by (auto simp: sink_hit_def split: option.splits if_splits dest: sink_file intro: wf_taint_of)
    then show ?thesis
      using Some hit Pair finding_ok_make
      by (auto simp: check_call_def emit_finding_def ctx_ext_def)
  qed (simp add: check_call_def Pair)
qed

lemma check_sinks_ext:
  assumes "wf_taints (cx_file (fst st)) t"
  shows "ctx_ext (finding_ok sha r (cx_project_id (fst st)) (cx_file (fst st))) (fst st)
           (fst (check_sinks sha r node t st))"
proof -
  have "wf_taints (cx_file (fst st)) t \<Longrightarrow>
      ctx_ext (finding_ok sha r (cx_project_id (fst st)) (cx_file (fst st))) (fst st)
        (fst (fold (check_call sha r t) calls st))" for calls
  proof (induction calls arbitrary: st)
    case (Cons c calls)
    have one: "ctx_ext (finding_ok sha r (cx_project_id (fst st)) (cx_file (fst st))) (fst st)
        (fst (check_call sha r t c st))"
      using Cons.prems by (rule check_call_ext)
    note same = ctx_ext_consts[OF one]
    with Cons.prems have "wf_taints (cx_file (fst (check_call sha r t c st))) t" by simp
    from Cons.IH[OF this] same one show ?case by (auto intro: ctx_ext_trans)
  qed simp
  then show ?thesis using assms by (simp add: check_sinks_def)
qed

lemma keepsD:
  assumes "keeps sha r t st (t', st')" and "wf_taints (cx_file (fst st)) t"
  shows "wf_taints (cx_file (fst st)) t'" and "t x \<noteq> None \<Longrightarrow> t' x \<noteq> None"
    and "ctx_ext (finding_ok sha r (cx_project_id (fst st)) (cx_file (fst st))) (fst st) (fst st')"
    and "cx_file (fst st') = cx_file (fst st)" and "cx_project_id (fst st') = cx_project_id (fst st)"
  using assms ctx_ext_consts by (auto simp: keeps_def)

lemma keeps_checked:
  assumes "keeps sha r t (check_sinks sha r node u st) res" and "wf_taints (cx_file (fst st)) u"
  shows "keeps sha r t st res"
proof -
  note e = check_sinks_ext[OF assms(2), where node = node and sha = sha]
  show ?thesis
    using assms(1) e ctx_ext_consts[OF e] unfolding keeps_def by (auto intro: ctx_ext_trans)
qed

lemma keeps_checked_same:
  assumes "keeps sha r t (check_sinks sha r node t st) res"
  shows "keeps sha r t st res"
proof (cases "wf_taints (cx_file (fst st)) t")
  case True
  then show ?thesis by (rule keeps_checked[OF assms])
next
  case False
  then show ?thesis by (simp add: keeps_def)
qed

lemma keeps_trans:
  assumes "keeps sha r t st (t1, st1)" and "keeps sha r t1 st1 res"
  shows "keeps sha r t st res"
  unfolding keeps_def
proof
  assume wf: "wf_taints (cx_file (fst st)) t"
  note d = keepsD[OF assms(1) wf]
  show "wf_taints (cx_file (fst st)) (fst res) \<and> (\<forall>x. t x \<noteq> None \<longrightarrow> fst res x \<noteq> None) \<and>
       ctx_ext (finding_ok sha r (cx_project_id (fst st)) (cx_file (fst st))) (fst st) (fst (snd res))"
    using assms(2) d unfolding keeps_def by (auto intro: ctx_ext_trans)
qed

lemma keeps_update: "keeps sha r t st (b, st1) \<Longrightarrow> keeps sha r t st (t ++ b, st1)"
  by (auto simp: keeps_def intro: wf_taints_add)

lemma keeps_branches:
  assumes "keeps sha r t st (b, st1)" and "keeps sha r t st1 (e, st2)"
  shows "keeps sha r t st (t ++ (b ++ e), st2)"
  unfolding keeps_def
proof
  assume wf: "wf_taints (cx_file (fst st)) t"
  note d1 = keepsD[OF assms(1) wf]
  have wf1: "wf_taints (cx_file (fst st1)) t" using wf d1(4) by simp
  note d2 = keepsD[OF assms(2) wf1]
  show "wf_taints (cx_file (fst st)) (fst (t ++ (b ++ e), st2)) \<and>
      (\<forall>x. t x \<noteq> None \<longrightarrow> fst (t ++ (b ++ e), st2) x \<noteq> None) \<and>
      ctx_ext (finding_ok sha r (cx_project_id (fst st)) (cx_file (fst st))) (fst st)
        (fst (snd (t ++ (b ++ e), st2)))"
    using wf d1 d2 by (auto intro: wf_taints_add ctx_ext_trans)
qed

lemma keeps_more:
  assumes "keeps sha r u st res" and "wf_taints (cx_file (fst st)) t \<Longrightarrow> wf_taints (cx_file (fst st)) u"
    and "\<And>x. t x \<noteq> None \<Longrightarrow> u x \<noteq> None"
  shows "keeps sha r t st res"
  using assms by (fastforce simp: keeps_def)

lemma keeps_check: "keeps sha r t st (t, check_sinks sha r node t st)"
  using check_sinks_ext by (simp add: keeps_def)

lemma keeps_after_check:
  assumes "st' = check_sinks sha r node t st"
    and "wf_taints (cx_file (fst st)) t \<Longrightarrow> cx_file (fst st') = cx_file (fst st) \<Longrightarrow>
           wf_taints (cx_file (fst st)) u"
    and "\<And>x. t x \<noteq> None \<Longrightarrow> u x \<noteq> None"
  shows "keeps sha r t st (u, st')"
  unfolding keeps_def
proof
  assume wf: "wf_taints (cx_file (fst st)) t"
  note e = check_sinks_ext[OF wf, where node = node and sha = sha]
  show "wf_taints (cx_file (fst st)) (fst (u, st')) \<and> (\<forall>x. t x \<noteq> None \<longrightarrow> fst (u, st') x \<noteq> None) \<and>
      ctx_ext (finding_ok sha r (cx_project_id (fst st)) (cx_file (fst st))) (fst st)
        (fst (snd (u, st')))"
    using e ctx_ext_consts[OF e] assms wf by simp
qed

lemma keeps_assign_value: "keeps sha r t st (assign_value sha r ln targets v t st)"
proof -
  define st' where "st' = check_sinks sha r (Some v) t st"
  have "\<exists>u. assign_value sha r ln targets v t st = (u, st')"
    by (simp add: assign_value_def Let_def st'_def split: option.splits)
  then obtain u where u: "assign_value sha r ln targets v t st = (u, st')" by blast
  note w = u[unfolded assign_value_def Let_def, folded st'_def]
  show ?thesis unfolding u
  proof (rule keeps_after_check[OF st'_def])
    assume wf: "wf_taints (cx_file (fst st)) t" and same: "cx_file (fst st') = cx_file (fst st)"
    then show "wf_taints (cx_file (fst st)) u"
      using w wf_taint_of[of "fst st'" t v]
      by (auto simp: wf_taint_def intro!: wf_set_names wf_steps_append
          split: option.splits if_splits)
  next
    fix x
    assume "t x \<noteq> None"
    then show "u x \<noteq> None"
      using w set_names_keeps by (auto split: option.splits)
  qed
qed

lemma keeps_aug_assign: "keeps sha r t st (aug_assign sha r ln target v t st)"
proof -
  define st' where "st' = check_sinks sha r (Some v) t st"
  have "\<exists>u. aug_assign sha r ln target v t st = (u, st')"
    by (cases target) (simp_all add: aug_assign_def Let_def st'_def split: option.splits)
  then obtain u where u: "aug_assign sha r ln target v t st = (u, st')" by blast
  note w = u[unfolded aug_assign_def Let_def, folded st'_def]
  show ?thesis unfolding u
  proof (rule keeps_after_check[OF st'_def])
    assume wf: "wf_taints (cx_file (fst st)) t" and same: "cx_file (fst st') = cx_file (fst st)"
    show "wf_taints (cx_file (fst st)) u"
    proof (cases "\<exists>i x. target = Name i x")
      case True
      then show ?thesis using w wf same wf_taint_of[of "fst st'" t v]
        by (auto simp: wf_taints_def wf_taint_def intro!: wf_steps_append
            split: option.splits if_splits)
    next
      case False
      then show ?thesis using w wf by (cases target) auto
    qed
  next
    fix x
    assume "t x \<noteq> None"
    then show "u x \<noteq> None"
      using w by (cases target) (auto split: option.splits if_splits)
  qed
qed

end

lemma keeps_refl: "keeps sha r t st (t, st)"
  by (simp add: keeps_def)

lemmas keeps_rules =
  rule_contract.keeps_assign_value rule_contract.keeps_aug_assign rule_contract.keeps_check

text \<open>One preservation lemma for the three mutually recursive functions.\<close>

lemma engine_keeps_aux:
  "rule_contract r \<Longrightarrow> keeps sha r t st (apply_stmt sha r cs fs s t st)"
  "rule_contract r \<Longrightarrow> keeps sha r t st (analyze_block sha r cs fs ss t st)"
  "rule_contract r \<Longrightarrow> keeps sha r t st (update_blocks sha r cs fs bs t st)"
proof (induction sha r cs fs s t st and sha r cs fs ss t st and sha r cs fs bs t st
    rule: apply_stmt_analyze_block_update_blocks.induct)
  case (1 sha r cs fs ln targets v t st)
  then show ?case by (simp add: keeps_rules)
next
  case (2 sha r cs fs ln target v t st)
  then show ?case by (cases v) (simp_all add: keeps_rules keeps_refl)
next
  case (3 sha r cs fs ln target op v t st)
  then show ?case by (simp add: keeps_rules)
next
  case (4 sha r cs fs ln test body orelse t st)
  let ?st1 = "check_sinks sha r (Some test) t st"
  obtain c0 s0 where c0: "?st1 = (c0, s0)" by (rule prod.exhaust)
  obtain b c2 s2 where b: "analyze_block sha r cs fs body t ?st1 = (b, c2, s2)" by (rule prod_cases3)
  obtain e c3 s3 where e: "analyze_block sha r cs fs orelse t (c2, s2) = (e, c3, s3)" by (rule prod_cases3)
  have "keeps sha r t ?st1 (t ++ (b ++ e), (c3, s3))"
    by (rule rule_contract.keeps_branches[OF "4.prems"]) (use 4 b e c0 in auto)
  then show ?case
    using rule_contract.keeps_checked_same[OF "4.prems"] by (simp add: b e Let_def)
next
  case (5 sha r cs fs ln test body orelse t st)
  let ?st1 = "check_sinks sha r (Some test) t st"
  obtain c0 s0 where c0: "?st1 = (c0, s0)" by (rule prod.exhaust)
  obtain b c2 s2 where b: "analyze_block sha r cs fs body t ?st1 = (b, c2, s2)" by (rule prod_cases3)
  obtain e c3 s3 where e: "analyze_block sha r cs fs orelse t (c2, s2) = (e, c3, s3)" by (rule prod_cases3)
  have "keeps sha r t ?st1 (t ++ (b ++ e), (c3, s3))"
    by (rule rule_contract.keeps_branches[OF "5.prems"]) (use 5 b e c0 in auto)
  then show ?case
    using rule_contract.keeps_checked_same[OF "5.prems"] by (simp add: b e Let_def)
next
  case (6 sha r cs fs ln target iter body orelse t st)
  let ?st1 = "check_sinks sha r (Some iter) t st"
  obtain c0 s0 where c0: "?st1 = (c0, s0)" by (rule prod.exhaust)
  define t1 where "t1 = loop_taints r c0 ln target iter t"
  obtain b c2 s2 where b: "analyze_block sha r cs fs body t1 ?st1 = (b, c2, s2)" by (rule prod_cases3)
  obtain e c3 s3 where e: "analyze_block sha r cs fs orelse t1 (c2, s2) = (e, c3, s3)" by (rule prod_cases3)
  have "keeps sha r t1 ?st1 (t1 ++ (b ++ e), (c3, s3))"
    by (rule rule_contract.keeps_branches[OF "6.prems"]) (use 6 b e c0 in \<open>auto simp: t1_def\<close>)
  then have "keeps sha r t ?st1 (t1 ++ (b ++ e), (c3, s3))"
  proof (rule rule_contract.keeps_more[OF "6.prems"])
    assume "wf_taints (cx_file (fst ?st1)) t"
    then show "wf_taints (cx_file (fst ?st1)) t1"
      using rule_contract.wf_taint_of[OF "6.prems", of "fst ?st1" t iter]
      by (auto simp: c0 t1_def loop_taints_def wf_taint_def intro!: wf_set_names wf_steps_append split: option.splits)
  next
    fix x
    assume "t x \<noteq> None"
    then show "t1 x \<noteq> None" using set_names_keeps by (auto simp: t1_def loop_taints_def split: option.splits)
  qed
  then have "keeps sha r t st (t1 ++ (b ++ e), (c3, s3))"
    by (rule rule_contract.keeps_checked_same[OF "6.prems"])
  then show ?case using b e c0 by (simp add: Let_def t1_def)
next
  case (7 sha r cs fs ln body handlers orelse finalbody t st)
  then show ?case by simp
next
  case (8 sha r cs fs ln items body t st)
  then show ?case
    by (cases "analyze_block sha r cs fs body t st") (simp add: rule_contract.keeps_update)
next
  case (9 sha r cs fs ln nm ps body t st)
  let ?entry = "entry_taints r (fst st) ln ps"
  let ?sm = "\<lparr>sm_qualified_name = qualified_name cs fs nm, sm_line = ln, sm_sinks = [],
      sm_tainted_params = {}, sm_returns_taint = False\<rparr>"
  obtain t' c' s' where b: "analyze_block sha r cs (fs @ [nm]) body ?entry (fst st, Some ?sm) = (t', c', s')"
    by (metis surj_pair)
  have "keeps sha r ?entry (fst st, Some ?sm) (t', c', s')"
    using 9 b by (metis (no_types, lifting))
  then have "ctx_ext (finding_ok sha r (cx_project_id (fst st)) (cx_file (fst st))) (fst st) c'"
    using wf_entry_taints by (simp add: keeps_def)
  then show ?case by (simp add: b Let_def keeps_def ctx_ext_summary)
next
  case (10 sha r cs fs ln nm body t st)
  obtain t' c' s' where b: "analyze_block sha r (cs @ [nm]) fs body Map.empty (fst st, None) = (t', c', s')"
    by (metis surj_pair)
  have "keeps sha r Map.empty (fst st, None) (t', c', s')" using 10 b by metis
  then show ?case by (simp add: b keeps_def)
next
  case (11 sha r cs fs ln v t st)
  then show ?case by (simp add: keeps_rules)
next
  case (12 sha r cs fs ln v t st)
  then show ?case
    using rule_contract.keeps_check[OF "12.prems", of sha t st v]
    by (cases v) (auto simp: keeps_refl keeps_def Let_def)
next
  case (15 sha r cs fs s ss t st)
  then show ?case
    by (cases "apply_stmt sha r cs fs s t st") (auto intro: rule_contract.keeps_trans)
next
  case (17 sha r cs fs b bs t st)
  then show ?case
    by (cases "analyze_block sha r cs fs b t st")
      (auto intro: rule_contract.keeps_trans rule_contract.keeps_update)
qed (simp_all add: keeps_refl)

end
