(* ===== verification/Taint_Flow.thy ===== *)
theory Taint_Flow
  imports Taint_Soundness
begin

text \<open>
  How taint flows through statements: the taint of an expression depends on the context only through
  the file, expressions and statements are monotone in the tainted variables, a branch keeps what
  either side tainted, the sink check reports exactly the hits of an expression, and every function
  definition gets one summary.
\<close>

section \<open>The sink check, exactly\<close>

lemma taint_of_cong:
  "cx_file c = cx_file c' \<Longrightarrow> cx_source c = cx_source c' \<Longrightarrow> taint_of r c t e = taint_of r c' t e"
  "cx_file c = cx_file c' \<Longrightarrow> cx_source c = cx_source c' \<Longrightarrow> taint_list r c t es = taint_list r c' t es"
  "cx_file c = cx_file c' \<Longrightarrow> cx_source c = cx_source c' \<Longrightarrow> taint_fmt r c t es = taint_fmt r c' t es"
  "cx_file c = cx_file c' \<Longrightarrow> cx_source c = cx_source c' \<Longrightarrow> taint_keys r c t ks = taint_keys r c' t ks"
proof (induction r c t e and r c t es and r c t es and r c t ks
    rule: taint_of_taint_list_taint_fmt_taint_keys.induct)
qed (auto simp: source_taint_def string_step_def propagation_step_def
       split: option.splits expr.splits list.splits)

lemma sink_hit_cong:
  "cx_file c = cx_file c' \<Longrightarrow> cx_source c = cx_source c' \<Longrightarrow> sink_hit r c t call = sink_hit r c' t call"
proof -
  assume "cx_file c = cx_file c'" and "cx_source c = cx_source c'"
  moreover from this have "taint_of r c t = taint_of r c' t" by (intro ext taint_of_cong)
  ultimately show ?thesis by (simp add: sink_hit_def split: option.splits)
qed

lemma check_call_simps:
  "sink_hit r ctx t c = None \<Longrightarrow> check_call sha r t c (ctx, sm) = (ctx, sm)"
  "sink_hit r ctx t c = Some (snk, tnt) \<Longrightarrow> check_call sha r t c (ctx, sm) =
     (emit_finding sha r snk tnt ctx, map_option (\<lambda>s. s\<lparr>sm_sinks := sm_sinks s @ [snk]\<rparr>) sm)"
  by (simp_all add: check_call_def)

lemma make_finding_cong:
  "cx_file c = cx_file c' \<Longrightarrow> cx_project_id c = cx_project_id c' \<Longrightarrow>
   make_finding sha r c s tnt = make_finding sha r c' s tnt"
  by (simp add: make_finding_def)

abbreviation hits :: "scan_rule \<Rightarrow> file_ctx \<Rightarrow> taints \<Rightarrow> expr list \<Rightarrow> (sink_ref \<times> taint) list" where
  "hits r ctx t calls \<equiv> somes (map (sink_hit r ctx t) calls)"

lemma fold_check_call:
  "fold (check_call sha r t) calls (ctx, sm) =
     (ctx\<lparr>cx_findings := cx_findings ctx @ map (\<lambda>(s, tnt). make_finding sha r ctx s tnt) (hits r ctx t calls)\<rparr>,
      map_option (\<lambda>s. s\<lparr>sm_sinks := sm_sinks s @ map fst (hits r ctx t calls)\<rparr>) sm)"
proof (induction calls arbitrary: ctx sm)
  case (Cons c calls)
  show ?case
  proof (cases "sink_hit r ctx t c")
    case None
    then show ?thesis by (simp add: Cons.IH check_call_simps)
  next
    case (Some hit)
    obtain snk tnt where hit: "hit = (snk, tnt)" by (cases hit)
    let ?ctx = "emit_finding sha r snk tnt ctx"
    have same: "cx_file ?ctx = cx_file ctx" "cx_source ?ctx = cx_source ctx"
      "cx_project_id ?ctx = cx_project_id ctx"
      by (simp_all add: emit_finding_def)
    have h: "sink_hit r ?ctx t = sink_hit r ctx t"
      using sink_hit_cong same by blast
    have m: "make_finding sha r ?ctx = make_finding sha r ctx"
      using make_finding_cong same by blast
    show ?thesis
      by (cases sm) (simp_all add: Cons.IH check_call_simps Some hit h m, simp_all add: emit_finding_def)
  qed
next
  case Nil
  show ?case by (cases sm) simp_all
qed

lemma check_sinks_eq:
  "check_sinks sha r node t (ctx, sm) =
     (ctx\<lparr>cx_findings := cx_findings ctx @
         map (\<lambda>(s, tnt). make_finding sha r ctx s tnt) (hits r ctx t (collect_calls node))\<rparr>,
      map_option (\<lambda>s. s\<lparr>sm_sinks := sm_sinks s @ map fst (hits r ctx t (collect_calls node))\<rparr>) sm)"
  by (simp add: check_sinks_def fold_check_call)

lemma f_sink_make_finding [simp]: "f_sink (make_finding sha r ctx s tnt) = s"
  by (simp add: make_finding_def Let_def)

section \<open>Monotonicity of taint\<close>

definition taints_le :: "taints \<Rightarrow> taints \<Rightarrow> bool" where
  "taints_le t u \<longleftrightarrow> (\<forall>x. t x \<noteq> None \<longrightarrow> u x \<noteq> None)"

lemma taints_le_refl [simp]: "taints_le t t"
  by (simp add: taints_le_def)

lemma taints_le_add: "taints_le t u \<Longrightarrow> taints_le b c \<Longrightarrow> taints_le (t ++ b) (u ++ c)"
  by (fastforce simp: taints_le_def map_add_def split: option.splits)

lemma combine_None_iff [simp]: "combine parts s = None \<longleftrightarrow> parts = []"
  by (simp add: combine_def)

definition list_le :: "taint option list \<Rightarrow> taint option list \<Rightarrow> bool" where
  "list_le xs ys \<longleftrightarrow> list_all2 (\<lambda>a b. a \<noteq> None \<longrightarrow> b \<noteq> None) xs ys"

lemma list_le_Nil [simp]: "list_le [] []"
  by (simp add: list_le_def)

lemma list_le_Cons [simp]:
  "list_le (x # xs) (y # ys) \<longleftrightarrow> (x \<noteq> None \<longrightarrow> y \<noteq> None) \<and> list_le xs ys"
  by (simp add: list_le_def)

lemma list_le_append: "list_le xs ys \<Longrightarrow> list_le us vs \<Longrightarrow> list_le (xs @ us) (ys @ vs)"
  by (simp add: list_le_def list_all2_appendI)

lemma list_le_somes: "list_le xs ys \<Longrightarrow> somes ys = [] \<Longrightarrow> somes xs = []"
  unfolding list_le_def by (induction xs ys rule: list_all2_induct) (auto simp: somes_Nil_iff)

lemma extend_None_iff [simp]: "extend t s = None \<longleftrightarrow> t = None"
  by (simp add: extend_def split: option.splits)

lemma taint_of_mono_aux:
  "taints_le t u \<Longrightarrow> taint_of r ctx t e \<noteq> None \<Longrightarrow> taint_of r ctx u e \<noteq> None"
  "taints_le t u \<Longrightarrow> list_le (taint_list r ctx t es) (taint_list r ctx u es)"
  "taints_le t u \<Longrightarrow> list_le (taint_fmt r ctx t es) (taint_fmt r ctx u es)"
  "taints_le t u \<Longrightarrow> list_le (taint_keys r ctx t ks) (taint_keys r ctx u ks)"
proof (induction r ctx t e and r ctx t es and r ctx t es and r ctx t ks
    rule: taint_of_taint_list_taint_fmt_taint_keys.induct)
  case (2 r ctx t i x)
  then show ?case by (simp add: taints_le_def)
next
  case (3 r ctx t i func args kws)
  show ?case
  proof (cases "is_source r (Call i func args kws) (cx_file ctx) (cx_source ctx)")
    case None
    then show ?thesis
    proof (cases func)
      case (Attribute j base attr)
      then show ?thesis
        using 3 None list_le_somes[of "taint_of r ctx t base # taint_list r ctx t args"
            "taint_of r ctx u base # taint_list r ctx u args"]
        by (auto simp del: not_None_eq split: if_splits)
    qed (use 3 None in \<open>auto simp del: not_None_eq split: list.splits if_splits\<close>)
  qed simp
next
  case (7 r ctx t i l op r')
  then show ?case by (cases op) (auto simp: somes_Nil_iff simp del: not_None_eq)
next
  case (12 r ctx t i tst b e)
  then show ?case by (auto simp: somes_Nil_iff simp del: not_None_eq)
qed (auto simp del: not_None_eq split: option.splits expr.splits list.splits if_splits
       dest: list_le_somes list_le_somes[OF list_le_append])

lemma set_names_dom: "set_names tnt es t x \<noteq> None \<longleftrightarrow> t x \<noteq> None \<or> (\<exists>i. Name i x \<in> set es)"
proof (induction tnt es t rule: set_names.induct)
  case (2 tnt i y es t)
  then show ?case by (simp del: fun_upd_apply not_None_eq) (auto simp: fun_upd_def)
qed auto

lemma set_names_mono: "taints_le t u \<Longrightarrow> taints_le (set_names a es t) (set_names b es u)"
  unfolding taints_le_def set_names_dom by blast

section \<open>Statements are monotone\<close>

text \<open>
  Two runs over the same file, the second with at least the taint of the first: it ends with at least
  the taint, and every sink the first reported is among those of the second.
\<close>

definition reported :: "file_ctx \<Rightarrow> sink_ref set" where
  "reported ctx = f_sink ` set (cx_findings ctx)"

definition ctx_le :: "file_ctx \<Rightarrow> file_ctx \<Rightarrow> bool" where
  "ctx_le c d \<longleftrightarrow> cx_file c = cx_file d \<and> cx_source c = cx_source d \<and>
     cx_project_id c = cx_project_id d \<and> reported c \<subseteq> reported d"

definition res_le :: "taints \<times> engine_state \<Rightarrow> taints \<times> engine_state \<Rightarrow> bool" where
  "res_le a b \<longleftrightarrow> taints_le (fst a) (fst b) \<and> ctx_le (fst (snd a)) (fst (snd b))"

lemma reported_summaries [simp]: "reported (c\<lparr>cx_summaries := xs\<rparr>) = reported c"
  by (simp add: reported_def)

lemma res_le_simps [simp]:
  "res_le (t, c, s) (u, d, s') \<longleftrightarrow> taints_le t u \<and> ctx_le c d"
  by (simp add: res_le_def)

lemma sink_hit_mono:
  assumes "taints_le t u" and "ctx_le c d" and "sink_hit r c t call = Some (snk, tnt)"
  shows "\<exists>tnt'. sink_hit r d u call = Some (snk, tnt')"
proof -
  have "sink_hit r d t call = Some (snk, tnt)"
    using assms(2,3) sink_hit_cong[of c d r t call] by (simp add: ctx_le_def)
  then show ?thesis
    using taint_of_mono_aux(1)[OF assms(1), of r d]
    by (fastforce simp: sink_hit_def split: option.splits if_splits)
qed

lemma check_sinks_mono:
  assumes "taints_le t u" and "ctx_le (fst st) (fst st')"
  shows "ctx_le (fst (check_sinks sha r node t st)) (fst (check_sinks sha r node u st'))"
proof -
  obtain c s where st: "st = (c, s)" by (cases st)
  obtain d s' where st': "st' = (d, s')" by (cases st')
  have le: "ctx_le c d" using assms(2) st st' by simp
  have "fst ` set (hits r c t calls) \<subseteq> fst ` set (hits r d u calls)" for calls
    using sink_hit_mono[OF assms(1) le]
    by (fastforce simp: set_somes image_iff eq_commute[of "Some _"])
  moreover have "reported (fst (check_sinks sha r node v (e, sm))) =
      reported e \<union> fst ` set (hits r e v (collect_calls node))" for v e sm
    by (simp add: check_sinks_eq reported_def image_Un image_image case_prod_beta)
  ultimately show ?thesis
    using le by (auto simp: st st' ctx_le_def) (auto simp: check_sinks_eq)
qed

lemma assign_value_mono:
  assumes "taints_le t u" and "ctx_le (fst st) (fst st')"
  shows "res_le (assign_value sha r ln targets v t st) (assign_value sha r ln targets v u st')"
proof -
  define s1 where "s1 = check_sinks sha r (Some v) t st"
  define s2 where "s2 = check_sinks sha r (Some v) u st'"
  have le: "ctx_le (fst s1) (fst s2)" using check_sinks_mono[OF assms] by (simp add: s1_def s2_def)
  then have same: "taint_of r (fst s1) t v = taint_of r (fst s2) t v"
    by (intro taint_of_cong) (simp_all add: ctx_le_def)
  have "taint_of r (fst s1) t v \<noteq> None \<Longrightarrow> taint_of r (fst s2) u v \<noteq> None"
    unfolding same by (rule taint_of_mono_aux(1)[OF assms(1)])
  then show ?thesis
    using le assms(1)
    by (auto simp: assign_value_def Let_def res_le_def simp flip: s1_def s2_def
        intro: set_names_mono split: option.splits)
      (auto simp: taints_le_def set_names_dom simp del: not_None_eq)
qed

lemma aug_assign_mono:
  assumes "taints_le t u" and "ctx_le (fst st) (fst st')"
  shows "res_le (aug_assign sha r ln target v t st) (aug_assign sha r ln target v u st')"
proof -
  define s1 where "s1 = check_sinks sha r (Some v) t st"
  define s2 where "s2 = check_sinks sha r (Some v) u st'"
  have le: "ctx_le (fst s1) (fst s2)" using check_sinks_mono[OF assms] by (simp add: s1_def s2_def)
  then have same: "taint_of r (fst s1) t v = taint_of r (fst s2) t v"
    by (intro taint_of_cong) (simp_all add: ctx_le_def)
  have more: "taint_of r (fst s1) t v \<noteq> None \<Longrightarrow> taint_of r (fst s2) u v \<noteq> None"
    unfolding same by (rule taint_of_mono_aux(1)[OF assms(1)])
  show ?thesis
  proof (cases "\<exists>i x. target = Name i x")
    case True
    then obtain i x where "target = Name i x" by blast
    then show ?thesis
      using le assms(1) more
      by (auto simp: aug_assign_def Let_def res_le_def taints_le_def simp flip: s1_def s2_def
          split: option.splits)
  next
    case False
    then show ?thesis
      using le assms(1)
      by (cases target) (auto simp: aug_assign_def Let_def res_le_def simp flip: s1_def s2_def)
  qed
qed

lemma loop_taints_mono:
  assumes "taints_le t u" and "ctx_le c d"
  shows "taints_le (loop_taints r c ln target iter t) (loop_taints r d ln target iter u)"
proof -
  have "taint_of r c t iter = taint_of r d t iter"
    using assms(2) by (intro taint_of_cong) (simp_all add: ctx_le_def)
  then have "taint_of r c t iter \<noteq> None \<Longrightarrow> taint_of r d u iter \<noteq> None"
    using taint_of_mono_aux(1)[OF assms(1)] by simp
  then show ?thesis
    using assms(1)
    by (auto simp: loop_taints_def taints_le_def set_names_dom simp del: not_None_eq
        split: option.splits)
qed

lemma ctx_le_summaries [simp]:
  "ctx_le (c\<lparr>cx_summaries := xs\<rparr>) d \<longleftrightarrow> ctx_le c d"
  "ctx_le c (d\<lparr>cx_summaries := xs\<rparr>) \<longleftrightarrow> ctx_le c d"
  by (simp_all add: ctx_le_def reported_def)

lemma entry_taints_mono:
  "ctx_le c d \<Longrightarrow> taints_le (entry_taints r c ln ps) (entry_taints r d ln ps)"
  by (simp add: taints_le_def entry_taints_def)

text \<open>A second run as the model's result type, for the inductive steps.\<close>

lemma res_le_obtain:
  assumes "res_le (t1, c1, s1) res"
  obtains u d s where "res = (u, d, s)" and "taints_le t1 u" and "ctx_le c1 d"
  using assms by (cases res) auto

text \<open>Sequencing two runs and joining their results, and one block under the same join.\<close>

lemma bind_mono:
  assumes "res_le X Y"
    and "\<And>t1 c1 s1 u1 d1 z1. X = (t1, c1, s1) \<Longrightarrow> Y = (u1, d1, z1) \<Longrightarrow> taints_le t1 u1 \<Longrightarrow>
           ctx_le c1 d1 \<Longrightarrow> res_le (F t1 (c1, s1)) (G u1 (d1, z1))"
  shows "res_le (case X of (a, st) \<Rightarrow> F a st) (case Y of (a, st) \<Rightarrow> G a st)"
  using assms by (cases X, cases Y) auto

lemma engine_mono_aux:
  "taints_le t u \<Longrightarrow> ctx_le (fst st) (fst st') \<Longrightarrow>
     res_le (apply_stmt sha r cs fs s t st) (apply_stmt sha r cs fs s u st')"
  "taints_le t u \<Longrightarrow> ctx_le (fst st) (fst st') \<Longrightarrow>
     res_le (analyze_block sha r cs fs ss t st) (analyze_block sha r cs fs ss u st')"
  "taints_le t u \<Longrightarrow> ctx_le (fst st) (fst st') \<Longrightarrow>
     res_le (update_blocks sha r cs fs bs t st) (update_blocks sha r cs fs bs u st')"
proof (induction sha r cs fs s t st and sha r cs fs ss t st and sha r cs fs bs t st
    arbitrary: u st' and u st' and u st'
    rule: apply_stmt_analyze_block_update_blocks.induct)
  case (1 sha r cs fs ln targets v t st)
  then show ?case by (simp add: assign_value_mono)
next
  case (2 sha r cs fs ln target v t st)
  show ?case using assign_value_mono[OF "2.prems"] "2.prems" by (cases v) (simp_all add: res_le_def)
next
  case (3 sha r cs fs ln target op v t st)
  then show ?case by (simp add: aug_assign_mono)
next
  case (4 sha r cs fs ln test body orelse t st)
  note check = check_sinks_mono[OF "4.prems"]
  show ?case
    unfolding apply_stmt.simps Let_def
    by (rule bind_mono[OF "4.IH"(1)[OF refl "4.prems"(1) check]], rule bind_mono[OF "4.IH"(2)])
      (auto simp: "4.prems" taints_le_add)
next
  case (5 sha r cs fs ln test body orelse t st)
  note check = check_sinks_mono[OF "5.prems"]
  show ?case
    unfolding apply_stmt.simps Let_def
    by (rule bind_mono[OF "5.IH"(1)[OF refl "5.prems"(1) check]], rule bind_mono[OF "5.IH"(2)])
      (auto simp: "5.prems" taints_le_add)
next
  case (6 sha r cs fs ln target iter body orelse t st)
  note check = check_sinks_mono[OF "6.prems"]
  note loop = loop_taints_mono[OF "6.prems"(1) check]
  show ?case
    unfolding apply_stmt.simps Let_def
    by (rule bind_mono[OF "6.IH"(1)[OF refl refl refl loop check]], rule bind_mono[OF "6.IH"(2)])
      (auto simp: loop taints_le_add)
next
  case (8 sha r cs fs ln items body t st)
  show ?case
    unfolding apply_stmt.simps Let_def
    by (rule bind_mono[OF "8.IH"(1)]) (auto simp: "8.prems" taints_le_add)
next
  case (9 sha r cs fs ln nm ps body t st)
  let ?sm = "\<lparr>sm_qualified_name = qualified_name cs fs nm, sm_line = ln, sm_sinks = [],
      sm_tainted_params = {}, sm_returns_taint = False\<rparr>"
  have "res_le (analyze_block sha r cs (fs @ [nm]) body (entry_taints r (fst st) ln ps) (fst st, Some ?sm))
      (analyze_block sha r cs (fs @ [nm]) body (entry_taints r (fst st') ln ps) (fst st', Some ?sm))"
    by (rule "9.IH"[OF refl refl refl refl]) (simp_all add: "9.prems" entry_taints_mono)
  then show ?case
    using "9.prems" by (auto simp: Let_def res_le_def split: prod.splits)
next
  case (10 sha r cs fs ln nm body t st)
  have "res_le (analyze_block sha r (cs @ [nm]) fs body Map.empty (fst st, None))
      (analyze_block sha r (cs @ [nm]) fs body Map.empty (fst st', None))"
    by (rule "10.IH") (simp_all add: "10.prems")
  then show ?case
    using "10.prems" by (auto simp: res_le_def split: prod.splits)
next
  case (11 sha r cs fs ln v t st)
  then show ?case using check_sinks_mono[OF "11.prems"] by (simp add: res_le_def)
next
  case (12 sha r cs fs ln v t st)
  then show ?case
    using check_sinks_mono[OF "12.prems"] by (cases v) (auto simp: res_le_def Let_def)
next
  case (15 sha r cs fs s ss t st)
  show ?case
    unfolding analyze_block.simps Let_def
    by (rule bind_mono[OF "15.IH"(1)]) (use "15.IH"(2) "15.prems" in \<open>auto dest: sym\<close>)
next
  case (17 sha r cs fs b bs t st)
  show ?case
    unfolding update_blocks.simps Let_def
    by (rule bind_mono[OF "17.IH"(1)])
      (use "17.IH"(2) "17.prems" taints_le_add in \<open>auto dest: sym\<close>)
qed (auto)

section \<open>Where findings and summaries come from\<close>

text \<open>
  The expressions whose calls the walk checks, and the qualified names of the functions it
  summarises: a function after those nested in its body.
\<close>

fun checked_exprs :: "stmt \<Rightarrow> expr list" where
  "checked_exprs (Assign ln targets v) = [v]"
| "checked_exprs (AnnAssign ln target v) = (case v of None \<Rightarrow> [] | Some e \<Rightarrow> [e])"
| "checked_exprs (AugAssign ln target op v) = [v]"
| "checked_exprs (If ln test body orelse) =
     test # concat (map checked_exprs body) @ concat (map checked_exprs orelse)"
| "checked_exprs (While ln test body orelse) =
     test # concat (map checked_exprs body) @ concat (map checked_exprs orelse)"
| "checked_exprs (For ln target iter body orelse) =
     iter # concat (map checked_exprs body) @ concat (map checked_exprs orelse)"
| "checked_exprs (Try ln body handlers orelse finalbody) =
     concat (map checked_exprs body) @ concat (map checked_exprs orelse) @
     concat (map checked_exprs finalbody) @ concat (map (\<lambda>b. concat (map checked_exprs b)) handlers)"
| "checked_exprs (With ln items body) = concat (map checked_exprs body)"
| "checked_exprs (FunctionDef ln nm ps body) = concat (map checked_exprs body)"
| "checked_exprs (ClassDef ln nm body) = concat (map checked_exprs body)"
| "checked_exprs (ExprStmt ln v) = [v]"
| "checked_exprs (Return ln v) = (case v of None \<Rightarrow> [] | Some e \<Rightarrow> [e])"
| "checked_exprs (OtherStmt ln es body) = []"

fun fn_names :: "string list \<Rightarrow> string list \<Rightarrow> stmt \<Rightarrow> string list" where
  "fn_names cs fs (If ln test body orelse) =
     concat (map (fn_names cs fs) body) @ concat (map (fn_names cs fs) orelse)"
| "fn_names cs fs (While ln test body orelse) =
     concat (map (fn_names cs fs) body) @ concat (map (fn_names cs fs) orelse)"
| "fn_names cs fs (For ln target iter body orelse) =
     concat (map (fn_names cs fs) body) @ concat (map (fn_names cs fs) orelse)"
| "fn_names cs fs (Try ln body handlers orelse finalbody) =
     concat (map (fn_names cs fs) body) @ concat (map (fn_names cs fs) orelse) @
     concat (map (fn_names cs fs) finalbody) @
     concat (map (\<lambda>b. concat (map (fn_names cs fs) b)) handlers)"
| "fn_names cs fs (With ln items body) = concat (map (fn_names cs fs) body)"
| "fn_names cs fs (FunctionDef ln nm ps body) =
     concat (map (fn_names cs (fs @ [nm])) body) @ [qualified_name cs fs nm]"
| "fn_names cs fs (ClassDef ln nm body) = concat (map (fn_names (cs @ [nm]) fs) body)"
| "fn_names cs fs _ = []"

definition live_sinks :: "scan_rule \<Rightarrow> file_ctx \<Rightarrow> expr list \<Rightarrow> sink_ref set" where
  "live_sinks r ctx es =
     {snk. \<exists>e \<in> set es. \<exists>c. is_call c \<and> sub_expr c e \<and>
        match_sink r c (cx_file ctx) (cx_source ctx) = Some snk \<and> \<not> is_sanitized r c snk}"

definition accounted ::
    "scan_rule \<Rightarrow> expr list \<Rightarrow> string list \<Rightarrow> engine_state \<Rightarrow> engine_state \<Rightarrow> bool" where
  "accounted r es names st st' \<longleftrightarrow>
     cx_file (fst st') = cx_file (fst st) \<and> cx_source (fst st') = cx_source (fst st) \<and>
     reported (fst st') \<subseteq> reported (fst st) \<union> live_sinks r (fst st) es \<and>
     map fs_qualified_name (cx_summaries (fst st')) = map fs_qualified_name (cx_summaries (fst st)) @ names"

lemma live_sinks_cong:
  "cx_file c = cx_file d \<Longrightarrow> cx_source c = cx_source d \<Longrightarrow> live_sinks r c es = live_sinks r d es"
  by (simp add: live_sinks_def)

lemma live_sinks_append [simp]: "live_sinks r ctx (es @ fs) = live_sinks r ctx es \<union> live_sinks r ctx fs"
  by (auto simp: live_sinks_def)

lemma live_sinks_Cons: "live_sinks r ctx (e # es) = live_sinks r ctx [e] \<union> live_sinks r ctx es"
  by (auto simp: live_sinks_def)

lemma live_sinks_Nil [simp]: "live_sinks r ctx [] = {}"
  by (simp add: live_sinks_def)

lemma accounted_refl [simp]: "accounted r [] [] st st"
  by (simp add: accounted_def)

lemma accounted_trans:
  assumes "accounted r es ns st st1" and "accounted r fs ms st1 st2"
  shows "accounted r (es @ fs) (ns @ ms) st st2"
  using assms live_sinks_cong[of "fst st" "fst st1" r fs] by (auto simp: accounted_def)

lemma accounted_check: "accounted r [e] [] st (check_sinks sha r (Some e) t st)"
proof (cases st)
  case (Pair ctx sm)
  have "snk \<in> live_sinks r ctx [e]"
    if "c \<in> set (walk_calls e)" and "sink_hit r ctx t c = Some (snk, tnt)" for c snk tnt
    using that by (auto simp: live_sinks_def sink_hit_def walk_calls_iff split: option.splits if_splits)
  note hit = this
  have "fst ` set (hits r ctx t (walk_calls e)) \<subseteq> live_sinks r ctx [e]"
  proof
    fix snk
    assume "snk \<in> fst ` set (hits r ctx t (walk_calls e))"
    then obtain tnt c where c: "c \<in> set (walk_calls e)" "Some (snk, tnt) = sink_hit r ctx t c"
      by (auto simp: set_somes)
    show "snk \<in> live_sinks r ctx [e]" by (rule hit[OF c(1) c(2)[symmetric]])
  qed
  then show ?thesis
    by (auto simp: Pair accounted_def check_sinks_eq collect_calls_def reported_def image_Un
        image_image case_prod_beta)
qed

lemma accounted_assign: "accounted r [v] [] st (snd (assign_value sha r ln targets v t st))"
  using accounted_check[of r v st sha t] by (simp add: assign_value_def Let_def split: option.splits)

lemma accounted_aug: "accounted r [v] [] st (snd (aug_assign sha r ln target v t st))"
  using accounted_check[of r v st sha t]
  by (cases target) (simp_all add: aug_assign_def Let_def split: option.splits)

lemma accounted_bind:
  assumes "accounted r es ns st (snd X)"
    and "\<And>a st1. X = (a, st1) \<Longrightarrow> accounted r fs ms st1 (snd (F a st1))"
  shows "accounted r (es @ fs) (ns @ ms) st (snd (case X of (a, st1) \<Rightarrow> F a st1))"
  using assms by (cases X) (auto intro: accounted_trans)

lemma accounted_last: "accounted r es ns st (snd X) \<Longrightarrow> accounted r es ns st (snd (case X of (a, st1) \<Rightarrow> (F a, st1)))"
  by (cases X) simp

lemma engine_accounted_aux:
  "accounted r (checked_exprs s) (fn_names cs fs s) st (snd (apply_stmt sha r cs fs s t st))"
  "accounted r (concat (map checked_exprs ss)) (concat (map (fn_names cs fs) ss)) st
     (snd (analyze_block sha r cs fs ss t st))"
  "accounted r (concat (map (\<lambda>b. concat (map checked_exprs b)) bs))
     (concat (map (\<lambda>b. concat (map (fn_names cs fs) b)) bs)) st
     (snd (update_blocks sha r cs fs bs t st))"
proof (induction sha r cs fs s t st and sha r cs fs ss t st and sha r cs fs bs t st
    rule: apply_stmt_analyze_block_update_blocks.induct)
  case (1 sha r cs fs ln targets v t st)
  show ?case by (simp add: accounted_assign)
next
  case (2 sha r cs fs ln target v t st)
  show ?case by (cases v) (simp_all add: accounted_assign)
next
  case (3 sha r cs fs ln target op v t st)
  show ?case by (simp add: accounted_aug)
next
  case (4 sha r cs fs ln test body orelse t st)
  have "accounted r (concat (map checked_exprs body) @ concat (map checked_exprs orelse))
      (concat (map (fn_names cs fs) body) @ concat (map (fn_names cs fs) orelse))
      (check_sinks sha r (Some test) t st) (snd (apply_stmt sha r cs fs (If ln test body orelse) t st))"
    unfolding apply_stmt.simps Let_def
    by (rule accounted_bind[OF "4.IH"(1)[OF refl]], rule accounted_last)
      (rule "4.IH"(2)[OF refl sym refl], assumption)
  from accounted_trans[OF accounted_check this] show ?case by simp
next
  case (5 sha r cs fs ln test body orelse t st)
  have "accounted r (concat (map checked_exprs body) @ concat (map checked_exprs orelse))
      (concat (map (fn_names cs fs) body) @ concat (map (fn_names cs fs) orelse))
      (check_sinks sha r (Some test) t st) (snd (apply_stmt sha r cs fs (While ln test body orelse) t st))"
    unfolding apply_stmt.simps Let_def
    by (rule accounted_bind[OF "5.IH"(1)[OF refl]], rule accounted_last)
      (rule "5.IH"(2)[OF refl sym refl], assumption)
  from accounted_trans[OF accounted_check this] show ?case by simp
next
  case (6 sha r cs fs ln target iter body orelse t st)
  have "accounted r (concat (map checked_exprs body) @ concat (map checked_exprs orelse))
      (concat (map (fn_names cs fs) body) @ concat (map (fn_names cs fs) orelse))
      (check_sinks sha r (Some iter) t st) (snd (apply_stmt sha r cs fs (For ln target iter body orelse) t st))"
    unfolding apply_stmt.simps Let_def
    by (rule accounted_bind[OF "6.IH"(1)[OF refl refl refl]], rule accounted_last)
      (rule "6.IH"(2)[OF refl refl refl sym refl], assumption)
  from accounted_trans[OF accounted_check this] show ?case by simp
next
  case (8 sha r cs fs ln items body t st)
  then show ?case using accounted_last by (simp add: Let_def)
next
  case (9 sha r cs fs ln nm ps body t st)
  let ?sm = "\<lparr>sm_qualified_name = qualified_name cs fs nm, sm_line = ln, sm_sinks = [],
      sm_tainted_params = {}, sm_returns_taint = False\<rparr>"
  have "accounted r (concat (map checked_exprs body)) (concat (map (fn_names cs (fs @ [nm])) body))
      (fst st, Some ?sm)
      (snd (analyze_block sha r cs (fs @ [nm]) body (entry_taints r (fst st) ln ps) (fst st, Some ?sm)))"
    by (rule "9.IH"[OF refl refl refl refl])
  then show ?case
    by (auto simp: Let_def accounted_def function_summary_of_def split: prod.splits)
next
  case (10 sha r cs fs ln nm body t st)
  then show ?case by (auto simp: accounted_def split: prod.splits)
next
  case (11 sha r cs fs ln v t st)
  show ?case by (simp add: accounted_check)
next
  case (12 sha r cs fs ln v t st)
  show ?case
    using accounted_check[of r _ st sha t]
    by (cases v) (auto simp: Let_def accounted_def)
next
  case (15 sha r cs fs s ss t st)
  show ?case
    unfolding analyze_block.simps Let_def list.map concat.simps
    by (rule accounted_bind[OF "15.IH"(1)]) (rule "15.IH"(2)[OF sym refl], assumption)
next
  case (17 sha r cs fs b bs t st)
  show ?case
    unfolding update_blocks.simps Let_def list.map concat.simps
    by (rule accounted_bind[OF "17.IH"(1)]) (rule "17.IH"(2)[OF sym refl], assumption)
qed simp_all

end
