(* ===== verification/Taint_Properties.thy ===== *)
theory Taint_Properties
  imports Taint_Flow
begin

text \<open>
  The properties of the taint engine over whole files, and the sample file their witnesses run on:
  one handler whose request parameter reaches \<open>cursor.execute\<close> by concatenation.
\<close>

definition sample_info :: "nat \<Rightarrow> string \<Rightarrow> node_info" where
  "sample_info ln txt = \<lparr>lineno = ln, segment = Some txt, utext = txt\<rparr>"

definition sample_request :: expr where
  "sample_request = Call (sample_info 2 ''request.args.get'')
     (Attribute (sample_info 2 ''request.args.get'')
       (Attribute (sample_info 2 ''request.args'') (Name (sample_info 2 ''request'') ''request'') ''args'')
       ''get'')
     [Constant (sample_info 2 ''q'') (CStr ''q'')] []"

definition sample_sink :: expr where
  "sample_sink = Call (sample_info 3 ''cursor.execute(sql + q)'')
     (Attribute (sample_info 3 ''cursor.execute'') (Name (sample_info 3 ''cursor'') ''cursor'') ''execute'')
     [BinOp (sample_info 3 ''sql + q'') (Name (sample_info 3 ''sql'') ''sql'') Add
        (Name (sample_info 3 ''q'') ''q'')] []"

definition sample_file :: source_file where
  "sample_file = \<lparr>sf_path = ''app.py'', sf_source = '''', sf_error = False,
     sf_body = [FunctionDef 1 ''view'' (Params [] [] [] None None)
       [Assign 2 [Name (sample_info 2 ''q'') ''q''] sample_request, ExprStmt 3 sample_sink]]\<rparr>"

definition sample_step :: taint_step where
  "sample_step = \<lparr>ts_type = Source, ts_file = ''app.py'', ts_line = 2, ts_snippet = ''q''\<rparr>"

definition sample_taint :: taint where
  "sample_taint = \<lparr>t_steps = [sample_step], t_source_kind = ''request_param''\<rparr>"

definition sample_ctx :: file_ctx where
  "sample_ctx = init_ctx sample_file ''p''"

lemmas sample_defs = sample_info_def sample_request_def sample_sink_def sample_file_def
  sample_step_def sample_taint_def sample_ctx_def init_ctx_def

text \<open>A context with no findings yet.\<close>

lemma analyze_block_from_init:
  "\<not> sf_error cf \<Longrightarrow> analyze_file sha r project cf =
     (let st = snd (analyze_block sha r [] [] (sf_body cf) Map.empty (init_ctx cf project, None))
      in (cx_findings (fst st), cx_summaries (fst st)))"
  by (simp add: analyze_file_def Let_def split: prod.splits)

text \<open>C1. Every finding that a default rule reports in a file carries a path of that file that opens
  with a source step and ends at its only sink step, agrees with its source and sink references,
  has the id of its key, the type and severity of the rule and a confidence between 0.60 and 0.90,
  and its evidence repeats the path and exactly its lines.\<close>

theorem analyze_file_findings_ok:
  assumes "r \<in> set default_rules" and "f \<in> set (fst (analyze_file sha r project cf))"
  shows "finding_ok sha r project (sf_path cf) f"
proof -
  have ok: "\<not> sf_error cf" using assms(2) by (auto simp: analyze_file_def)
  have k: "keeps sha r Map.empty (init_ctx cf project, None)
      (analyze_block sha r [] [] (sf_body cf) Map.empty (init_ctx cf project, None))"
    using default_rules_contract[OF assms(1)] by (rule engine_keeps_aux)
  then obtain new where "cx_findings (fst (snd (analyze_block sha r [] [] (sf_body cf) Map.empty
        (init_ctx cf project, None)))) = [] @ new"
      "\<forall>f \<in> set new. finding_ok sha r project (sf_path cf) f"
    by (auto simp: keeps_def ctx_ext_def init_ctx_def)
  then show ?thesis using assms(2) by (simp add: analyze_block_from_init[OF ok] Let_def)
qed

lemma sample_findings:
  "(case fst (analyze_file (\<lambda>x. x) sql_injection_rule ''p'' sample_file) of [] \<Rightarrow> True | _ \<Rightarrow> False) = False"
  by code_simp

theorem analyze_file_findings_ok_witness:
  "finding_ok (\<lambda>x. x) sql_injection_rule ''p'' ''app.py''
     (hd (fst (analyze_file (\<lambda>x. x) sql_injection_rule ''p'' sample_file)))"
proof -
  have "fst (analyze_file (\<lambda>x. x) sql_injection_rule ''p'' sample_file) \<noteq> []"
    using sample_findings by auto
  then show ?thesis
    using analyze_file_findings_ok[of sql_injection_rule _ "\<lambda>x. x" "''p''" sample_file]
    by (simp add: default_rules_def sample_file_def)
qed


text \<open>C3. Analysis is monotone: started with at least as many tainted variables on the same file, a block
  ends with at least as many, and every sink reported in the first run is reported in the second.\<close>

theorem analyze_block_monotone:
  assumes "taints_le t u"
  shows "taints_le (fst (analyze_block sha r cs fs ss t st)) (fst (analyze_block sha r cs fs ss u st)) \<and>
         reported (fst (snd (analyze_block sha r cs fs ss t st)))
           \<subseteq> reported (fst (snd (analyze_block sha r cs fs ss u st)))"
proof -
  have "ctx_le (fst st) (fst st)" by (simp add: ctx_le_def)
  from engine_mono_aux(2)[OF assms this, of sha r cs fs ss]
  show ?thesis by (simp add: res_le_def ctx_le_def)
qed

theorem analyze_block_monotone_witness:
  "reported (fst (snd (analyze_block id sql_injection_rule [] [] [ExprStmt 3 sample_sink] Map.empty
       (sample_ctx, None))))
   \<subseteq> reported (fst (snd (analyze_block id sql_injection_rule [] [] [ExprStmt 3 sample_sink]
       [''q'' \<mapsto> sample_taint] (sample_ctx, None))))"
  using analyze_block_monotone[of Map.empty "[''q'' \<mapsto> sample_taint]" id sql_injection_rule "[]" "[]"
      "[ExprStmt 3 sample_sink]" "(sample_ctx, None)"]
  by (simp add: taints_le_def)

text \<open>No sanitized call is ever reported: the sinks reported for a file are sinks of calls that occur
  in the expressions the walk checks, outside nested lambdas, and that the rule does not take as
  sanitized.\<close>

theorem analyze_file_sinks_live:
  "f_sink ` set (fst (analyze_file sha r project cf)) \<subseteq>
     live_sinks r (init_ctx cf project) (concat (map checked_exprs (sf_body cf)))"
proof (cases "sf_error cf")
  case False
  have "accounted r (concat (map checked_exprs (sf_body cf))) (concat (map (fn_names [] []) (sf_body cf)))
      (init_ctx cf project, None)
      (snd (analyze_block sha r [] [] (sf_body cf) Map.empty (init_ctx cf project, None)))"
    by (rule engine_accounted_aux)
  then show ?thesis
    by (auto simp: analyze_block_from_init[OF False] Let_def accounted_def reported_def init_ctx_def)
qed (simp add: analyze_file_def)

text \<open>A parsed file gets one function summary per function definition the walk enters, nested functions
  first, under its dotted qualified name; a file that PREPARE could not parse gets none.\<close>

theorem analyze_file_summaries:
  "map fs_qualified_name (snd (analyze_file sha r project cf)) =
     (if sf_error cf then [] else concat (map (fn_names [] []) (sf_body cf)))"
proof (cases "sf_error cf")
  case False
  have "accounted r (concat (map checked_exprs (sf_body cf))) (concat (map (fn_names [] []) (sf_body cf)))
      (init_ctx cf project, None)
      (snd (analyze_block sha r [] [] (sf_body cf) Map.empty (init_ctx cf project, None)))"
    by (rule engine_accounted_aux)
  then show ?thesis
    using False by (simp add: analyze_block_from_init Let_def accounted_def init_ctx_def)
qed (simp add: analyze_file_def)

section \<open>Finding keys\<close>

lemma dec_inj_iff: "dec m = dec n \<longleftrightarrow> m = n"
  by (blast dest: dec_inj)

lemma no_bar_dec: "CHR ''|'' \<notin> set (dec n)"
  using dec_digits[of "CHR ''|''" n] by auto

lemma append_bar_inj:
  "CHR ''|'' \<notin> set a \<Longrightarrow> CHR ''|'' \<notin> set b \<Longrightarrow> a @ ''|'' @ xs = b @ ''|'' @ ys \<longleftrightarrow> a = b \<and> xs = ys"
proof (induction a arbitrary: b)
  case Nil
  then show ?case by (cases b) auto
next
  case (Cons x a)
  then show ?case by (cases b) auto
qed

lemma bar_append_inj:
  assumes "CHR ''|'' \<notin> set a" and "CHR ''|'' \<notin> set b"
  shows "xs @ ''|'' @ a = ys @ ''|'' @ b \<longleftrightarrow> xs = ys \<and> a = b"
proof -
  have "xs @ ''|'' @ a = ys @ ''|'' @ b \<longleftrightarrow> rev (xs @ ''|'' @ a) = rev (ys @ ''|'' @ b)"
    by (simp only: rev_is_rev_conv)
  also have "\<dots> \<longleftrightarrow> rev a @ ''|'' @ rev xs = rev b @ ''|'' @ rev ys" by simp
  also have "\<dots> \<longleftrightarrow> rev a = rev b \<and> rev xs = rev ys" using assms by (intro append_bar_inj) simp_all
  finally show ?thesis by auto
qed

text \<open>Finding keys are unambiguous: within one project (any ids without a vertical bar, as UUIDs are) two keys agree
  only when type, file, source line and sink line agree, whatever characters the file name has.\<close>

theorem finding_key_injective:
  assumes "finding_key p v fl a b = finding_key p' v' fl' a' b'"
    and "CHR ''|'' \<notin> set p" and "CHR ''|'' \<notin> set p'" and "CHR ''|'' \<notin> set v" and "CHR ''|'' \<notin> set v'"
  shows "p = p' \<and> v = v' \<and> fl = fl' \<and> a = a' \<and> b = b'"
proof -
  have "(p @ ''|'' @ v @ ''|'' @ fl @ ''|'' @ dec a) @ ''|'' @ dec b =
      (p' @ ''|'' @ v' @ ''|'' @ fl' @ ''|'' @ dec a') @ ''|'' @ dec b'"
    using assms(1) by (simp add: finding_key_def)
  then have "p @ ''|'' @ v @ ''|'' @ fl @ ''|'' @ dec a = p' @ ''|'' @ v' @ ''|'' @ fl' @ ''|'' @ dec a' \<and>
      dec b = dec b'"
    by (simp only: bar_append_inj[OF no_bar_dec no_bar_dec])
  then have "p = p' \<and> v = v' \<and> fl @ ''|'' @ dec a = fl' @ ''|'' @ dec a' \<and> b = b'"
    by (simp only: append_bar_inj[OF assms(2,3)] append_bar_inj[OF assms(4,5)] dec_inj_iff
        conj_assoc simp_thms)
  then show ?thesis
    by (simp only: bar_append_inj[OF no_bar_dec no_bar_dec] dec_inj_iff conj_assoc simp_thms)
qed

theorem finding_key_injective_witness:
  "finding_key ''p'' ''sql_injection'' ''a|1'' 2 3 \<noteq> finding_key ''p'' ''sql_injection'' ''a'' 12 3"
  using finding_key_injective[of "''p''" "''sql_injection''" "''a|1''" 2 3 "''p''" "''sql_injection''" "''a''" 12 3]
  by auto

end
