(* ===== verification/Prove_Harness.thy ===== *)
theory Prove_Harness
  imports Prelude
begin

text \<open>
  The trusted harness templates of the PROVE stage (backend/app/prove/planner.py), line by line. A
  harness is only ever compared and handed to the sandbox as text, so the model keeps the text. Quotes
  that the string syntax cannot hold are written as characters.
\<close>

definition unlines :: "string list \<Rightarrow> string" where
  "unlines ls = concat (map (\<lambda>l. l @ [LF]) ls)"

definition sandbox_guard :: string where
  "sandbox_guard = unlines
    [''import os'',
     ''sandbox = os.environ.get('SANDBOX_DIR', '' @ [CHR 0x27] @ [CHR 0x27] @ '')'',
     ''assert sandbox and os.path.realpath(os.getcwd()) == os.path.realpath(sandbox), 'harness must run inside the sandbox workspace'' @ [CHR 0x27]]"

definition sql_harness :: string where
  "sql_harness = sandbox_guard @ unlines
    [''import sqlite3'',
     ''import sys'',
     ''MARKER = sys.argv[1]'',
     ''db = sqlite3.connect(':memory:')'',
     ''db.execute('CREATE TABLE users (id INTEGER PRIMARY KEY, name TEXT NOT NULL)')'',
     ''db.executemany('INSERT INTO users (name) VALUES (?)', [('alice',), ('bob',)])'',
     ''def unsafe(user_input):'',
     ''    query = f'SELECT * FROM users WHERE id = {user_input}'' @ [CHR 0x27],
     ''    return query, [tuple(row) for row in db.execute(query)]'',
     ''def safe(user_input):'',
     ''    query = 'SELECT * FROM users WHERE id = ?'' @ [CHR 0x27],
     ''    return query, [tuple(row) for row in db.execute(query, (user_input,))]'',
     ''unsafe_query, unsafe_rows = unsafe(MARKER)'',
     ''safe_query, safe_rows = safe(MARKER)'',
     ''print(f'UNSAFE_QUERY:{unsafe_query}')'',
     ''print(f'SAFE_QUERY:{safe_query}')'',
     ''print(f'PROVED:unsafe_rows={len(unsafe_rows)}:safe_rows={len(safe_rows)}')'']"

definition cmd_harness :: string where
  "cmd_harness = sandbox_guard @ unlines
    [''import os'',
     ''import subprocess'',
     ''import sys'',
     ''MARKER = sys.argv[1]'',
     ''CONTROL = 'sast_prove_control_value'' @ [CHR 0x27],
     ''MARKER_FILE = 'prove_marker.txt'' @ [CHR 0x27],
     ''marker_path = os.path.join(os.getcwd(), MARKER_FILE)'',
     ''if os.path.exists(marker_path):'',
     ''    os.remove(marker_path)  # own artifact inside the sandbox only'',
     ''def run(command):'',
     ''    subprocess.run(command, shell=True, cwd=os.getcwd(), timeout=5,'',
     ''                   capture_output=True, text=True)'',
     ''run(f'echo {CONTROL}')'',
     ''control_hit = os.path.exists(marker_path)'',
     ''if os.path.exists(marker_path):'',
     ''    os.remove(marker_path)'',
     ''run(f'echo {MARKER}')'',
     ''injected_hit = os.path.exists(marker_path)'',
     ''print(f'PROVED:control_hit={int(control_hit)}:injected_hit={int(injected_hit)}')'']"

definition ssrf_harness :: string where
  "ssrf_harness = sandbox_guard @ unlines
    [''import threading'',
     ''import urllib.request'',
     ''from http.server import BaseHTTPRequestHandler, ThreadingHTTPServer'',
     ''class Handler(BaseHTTPRequestHandler):'',
     ''    def do_GET(self):'',
     ''        self.send_response(200)'',
     ''        self.end_headers()'',
     ''        self.wfile.write(b'proved')'',
     ''    def log_message(self, *args):'',
     ''        pass'',
     ''server = ThreadingHTTPServer(('127.0.0.1', 0), Handler)'',
     ''port = server.server_address[1]'',
     ''thread = threading.Thread(target=server.serve_forever, daemon=True)'',
     ''thread.start()'',
     ''try:'',
     ''    url = f'http://127.0.0.1:{port}/prove'' @ [CHR 0x27],
     ''    with urllib.request.urlopen(url, timeout=5) as response:'',
     ''        body = response.read().decode('utf-8')'',
     ''    print(f'URL:{url}')'',
     ''    print(f'PROVED:status={response.status}:body={body}')'',
     ''finally:'',
     ''    server.shutdown()'']"

definition probe_harness :: string where
  "probe_harness = sandbox_guard @ unlines
    [''import os'',
     ''import sys'',
     ''import time'',
     ''action = os.environ.get('PROBE_ACTION', 'print')'',
     ''if action == 'sleep':'',
     ''    time.sleep(float(os.environ.get('PROBE_SLEEP', '60')))'',
     ''elif action == 'print':'',
     ''    text = os.environ.get('PROBE_TEXT', 'x')'',
     ''    repeat = int(os.environ.get('PROBE_REPEAT', '1'))'',
     ''    print(text * repeat)'',
     ''probe_path = os.environ.get('PROBE_PATH', '' @ [CHR 0x27] @ [CHR 0x27] @ '')'',
     ''if probe_path:'',
     ''    sandbox = os.path.realpath(os.environ['SANDBOX_DIR'])'',
     ''    target = os.path.realpath(probe_path)'',
     ''    if os.path.commonpath([target, sandbox]) == sandbox:'',
     ''        with open(target, 'r', encoding='utf-8', errors='replace') as fh:'',
     ''            print('READ_OK:' + fh.read(200))'',
     ''    else:'',
     ''        print('READ_DENIED')'']"

definition deser_harness :: string where
  "deser_harness = sandbox_guard @ unlines
    [''import json'',
     ''import pickle'',
     ''import sys'',
     [],
     ''MARKER = sys.argv[1]'',
     ''# Create a safe pickle payload: a plain dict (no __reduce__)'',
     ''payload = {'' @ [CHR 0x22] @ ''marker'' @ [CHR 0x22] @ '': MARKER, '' @ [CHR 0x22] @ ''type'' @ [CHR 0x22] @ '': '' @ [CHR 0x22] @ ''proof'' @ [CHR 0x22] @ ''}'',
     ''raw_bytes = pickle.dumps(payload)'',
     [],
     ''# Unsafe deserialization: pickle.loads processes the raw bytes'',
     ''try:'',
     ''    deserialized = pickle.loads(raw_bytes)'',
     ''    pickle_ok = 1'',
     ''    pickle_marker = deserialized.get('' @ [CHR 0x22] @ ''marker'' @ [CHR 0x22] @ '', '' @ [CHR 0x22] @ [CHR 0x22] @ '')'',
     ''except Exception:'',
     ''    pickle_ok = 0'',
     ''    pickle_marker = '' @ [CHR 0x22] @ [CHR 0x22],
     [],
     ''# Safe alternative: json.loads rejects pickle bytes'',
     ''try:'',
     ''    json.loads(raw_bytes.decode('' @ [CHR 0x22] @ ''latin-1'' @ [CHR 0x22] @ ''))'',
     ''    json_ok = 1'',
     ''except (json.JSONDecodeError, UnicodeDecodeError, ValueError):'',
     ''    json_ok = 0'',
     [],
     ''print(f'PICKLE_OK:{pickle_ok}')'',
     ''print(f'PICKLE_MARKER:{pickle_marker}')'',
     ''print(f'JSON_OK:{json_ok}')'',
     ''print(f'PROVED:pickle_ok={pickle_ok}:json_ok={json_ok}')'']"

definition HARNESS_SCRIPTS :: "(string, string) dict" where
  "HARNESS_SCRIPTS =
     [(''sql_injection_proof'', sql_harness), (''command_injection_proof'', cmd_harness),
      (''ssrf_proof'', ssrf_harness), (''deserialization_proof'', deser_harness),
      (''probe_proof'', probe_harness)]"

definition APPROVED_HARNESSES :: "string list" where
  "APPROVED_HARNESSES =
     [''sql_injection_proof'', ''command_injection_proof'', ''ssrf_proof'',
      ''deserialization_proof'', ''probe_proof'']"

lemma approved_have_scripts:
  "h \<in> set APPROVED_HARNESSES \<longleftrightarrow> dget HARNESS_SCRIPTS h \<noteq> None"
  by (auto simp: APPROVED_HARNESSES_def HARNESS_SCRIPTS_def)

end
