(* ===== verification/Scan_Service.thy ===== *)
theory Scan_Service
  imports Taint_Properties
begin

text \<open>
  The SCAN stage (backend/app/scan/service.py): every rule runs over every file, the findings are
  sorted, counted by type and returned with one merged summary per function. The report id and the
  clock are arguments.
\<close>

record code_model =
  cm_project_id :: string
  cm_files :: "source_file list"

definition finding_sort_key :: "candidate_finding \<Rightarrow> string \<times> nat \<times> nat" where
  "finding_sort_key f = (snk_file (f_sink f), snk_line (f_sink f), src_line (f_source f))"

definition count_types :: "candidate_finding list \<Rightarrow> (string, nat) dict" where
  "count_types findings =
     fold (\<lambda>f d. let k = f_vulnerability_type f
                 in dput k ((case dget d k of None \<Rightarrow> 0 | Some n \<Rightarrow> n) + 1) d) findings []"

type_synonym summary_key = "string \<times> nat \<times> string"

definition summary_key :: "function_summary \<Rightarrow> summary_key" where
  "summary_key s = (fs_file s, fs_line s, fs_qualified_name s)"

definition combine_summaries :: "function_summary \<Rightarrow> function_summary \<Rightarrow> function_summary" where
  "combine_summaries prev s =
     \<lparr>fs_qualified_name = fs_qualified_name s, fs_file = fs_file s, fs_line = fs_line s,
      fs_tainted_params = sorted_set (fs_tainted_params prev @ fs_tainted_params s),
      fs_sinks = fs_sinks prev @ fs_sinks s,
      fs_returns_taint = (fs_returns_taint prev \<or> fs_returns_taint s)\<rparr>"

definition merge_step ::
    "function_summary \<Rightarrow> (summary_key, function_summary) dict \<Rightarrow> (summary_key, function_summary) dict" where
  "merge_step s merged =
     (case dget merged (summary_key s) of
        None \<Rightarrow> dput (summary_key s) s merged
      | Some prev \<Rightarrow> dput (summary_key s) (combine_summaries prev s) merged)"

definition merge_summaries :: "function_summary list \<Rightarrow> function_summary list" where
  "merge_summaries summaries = sort_key summary_key (dvalues (fold merge_step summaries []))"

definition raw_results ::
    "(string \<Rightarrow> string) \<Rightarrow> scan_rule list \<Rightarrow> string \<Rightarrow> source_file list
     \<Rightarrow> (candidate_finding list \<times> function_summary list) list" where
  "raw_results sha rules project fls =
     concat (map (\<lambda>r. map (analyze_file sha r project) fls) rules)"

definition scan ::
    "(string \<Rightarrow> string) \<Rightarrow> scan_rule list option \<Rightarrow> string \<Rightarrow> py_datetime \<Rightarrow> code_model \<Rightarrow> string option
     \<Rightarrow> scan_report" where
  "scan sha rules report_id now cm project_id =
     (let project = (case project_id of Some p \<Rightarrow> p | None \<Rightarrow> cm_project_id cm);
          rs = (case rules of Some r \<Rightarrow> r | None \<Rightarrow> default_rules);
          results = raw_results sha rs project (cm_files cm);
          findings = sort_key finding_sort_key (concat (map fst results));
          summaries = merge_summaries (concat (map snd results))
      in \<lparr>rep_id = report_id, rep_created_at = now, rep_scanned_file_count = length (cm_files cm),
          rep_findings = findings, rep_function_summaries = summaries,
          rep_summary = \<lparr>ss_total = length findings, ss_by_type = count_types findings\<rparr>\<rparr>)"

section \<open>Counts\<close>

definition occurrences :: "candidate_finding list \<Rightarrow> string \<Rightarrow> nat" where
  "occurrences fs v = length (filter (\<lambda>f. f_vulnerability_type f = v) fs)"

abbreviation count_step :: "candidate_finding \<Rightarrow> (string, nat) dict \<Rightarrow> (string, nat) dict" where
  "count_step f d \<equiv> (let k = f_vulnerability_type f
                 in dput k ((case dget d k of None \<Rightarrow> 0 | Some n \<Rightarrow> n) + 1) d)"

definition dval :: "(string, nat) dict \<Rightarrow> string \<Rightarrow> nat" where
  "dval d k = (case dget d k of None \<Rightarrow> 0 | Some n \<Rightarrow> n)"

lemma dget_count_types:
  "dget (count_types fs) v = (if occurrences fs v = 0 then None else Some (occurrences fs v))"
proof -
  have "dget (fold count_step fs d) v =
      (if occurrences fs v = 0 then dget d v else Some (dval d v + occurrences fs v))" for d
  proof (induction fs arbitrary: d)
    case (Cons f fs)
    then show ?case by (auto simp: occurrences_def Let_def dval_def split: option.splits)
  qed (simp add: occurrences_def)
  from this[of "[]"] show ?thesis by (simp add: count_types_def dval_def)
qed

lemma distinct_count_types: "distinct (dkeys (count_types fs))"
proof -
  have "distinct (dkeys d) \<Longrightarrow> distinct (dkeys (fold count_step fs d))" for d
    by (induction fs arbitrary: d) (simp_all add: Let_def)
  from this[of "[]"] show ?thesis by (simp add: count_types_def)
qed

lemma sum_dput_Suc:
  "distinct (dkeys d) \<Longrightarrow> sum_list (dvalues (dput k (dval d k + 1) d)) = sum_list (dvalues d) + 1"
proof (induction d)
  case (Cons kv d)
  then show ?case by (cases kv) (auto simp: dval_def)
qed (simp add: dval_def)

lemma sum_count_types: "sum_list (dvalues (count_types fs)) = length fs"
proof -
  have "distinct (dkeys d) \<Longrightarrow> sum_list (dvalues (fold count_step fs d)) = sum_list (dvalues d) + length fs"
    for d
  proof (induction fs arbitrary: d)
    case (Cons f fs)
    have "sum_list (dvalues (count_step f d)) = sum_list (dvalues d) + 1"
      using sum_dput_Suc[OF Cons.prems, of "f_vulnerability_type f"] by (simp add: Let_def dval_def)
    moreover have "distinct (dkeys (count_step f d))" using Cons.prems by (simp add: Let_def)
    ultimately show ?case using Cons.IH by simp
  qed simp
  from this[of "[]"] show ?thesis by (simp add: count_types_def)
qed

section \<open>Merged summaries\<close>

abbreviation of_key :: "summary_key \<Rightarrow> function_summary list \<Rightarrow> function_summary list" where
  "of_key k ss \<equiv> filter (\<lambda>s. summary_key s = k) ss"

text \<open>What one merged summary says about the summaries it was made from.\<close>

definition merges :: "function_summary \<Rightarrow> function_summary list \<Rightarrow> bool" where
  "merges m ss \<longleftrightarrow>
     fs_sinks m = concat (map fs_sinks ss) \<and>
     fs_returns_taint m = list_ex fs_returns_taint ss \<and>
     set (fs_tainted_params m) = (\<Union>s \<in> set ss. set (fs_tainted_params s))"

lemma merges_single: "merges s [s]"
  by (simp add: merges_def)

lemma merges_combine: "merges m ss \<Longrightarrow> merges (combine_summaries m s) (ss @ [s])"
  by (auto simp: merges_def combine_summaries_def)

lemma summary_key_combine [simp]: "summary_key (combine_summaries p s) = summary_key s"
  by (simp add: summary_key_def combine_summaries_def)

definition merged_ok :: "(summary_key, function_summary) dict \<Rightarrow> function_summary list \<Rightarrow> bool" where
  "merged_ok d ss \<longleftrightarrow> distinct (dkeys d) \<and> set (dkeys d) = summary_key ` set ss \<and>
     (\<forall>k m. dget d k = Some m \<longrightarrow> summary_key m = k \<and> merges m (of_key k ss))"

lemma merged_ok_empty: "merged_ok [] []"
  by (simp add: merged_ok_def)

lemma merged_okI:
  assumes "distinct (dkeys d)" and "set (dkeys d) = summary_key ` set ss"
    and "\<And>k m. dget d k = Some m \<Longrightarrow> summary_key m = k \<and> merges m (of_key k ss)"
  shows "merged_ok d ss"
  using assms by (simp add: merged_ok_def)

lemma merged_okD:
  assumes "merged_ok d ss"
  shows "distinct (dkeys d)" and "set (dkeys d) = summary_key ` set ss"
    and "dget d k = Some m \<Longrightarrow> summary_key m = k \<and> merges m (of_key k ss)"
  using assms unfolding merged_ok_def by blast+

lemma merged_ok_step:
  assumes "merged_ok d ss"
  shows "merged_ok (merge_step s d) (ss @ [s])"
proof -
  note ok = merged_okD[OF assms]
  define m where "m = (case dget d (summary_key s) of None \<Rightarrow> s | Some prev \<Rightarrow> combine_summaries prev s)"
  have step: "merge_step s d = dput (summary_key s) m d"
    by (simp add: merge_step_def m_def split: option.splits)
  have fresh: "of_key (summary_key s) ss = []" if "dget d (summary_key s) = None"
  proof -
    have "summary_key s \<notin> summary_key ` set ss"
      using that[unfolded map_of_eq_None_iff] ok(2) by simp
    then show ?thesis unfolding filter_empty_conv by (metis image_eqI)
  qed
  have m: "summary_key m = summary_key s" "merges m (of_key (summary_key s) ss @ [s])"
  proof -
    have "summary_key m = summary_key s \<and> merges m (of_key (summary_key s) ss @ [s])"
    proof (cases "dget d (summary_key s)")
      case None
      then show ?thesis using fresh by (simp add: m_def merges_single)
    next
      case (Some prev)
      then show ?thesis using ok(3)[OF Some] by (simp add: m_def merges_combine)
    qed
    then show "summary_key m = summary_key s" "merges m (of_key (summary_key s) ss @ [s])" by blast+
  qed
  show ?thesis
  proof (rule merged_okI)
    show "distinct (dkeys (merge_step s d))" by (simp add: step ok(1))
    show "set (dkeys (merge_step s d)) = summary_key ` set (ss @ [s])"
      using ok(2) by (simp add: step)
    fix k n
    assume "dget (merge_step s d) k = Some n"
    then show "summary_key n = k \<and> merges n (of_key k (ss @ [s]))"
      using m ok(3)[of k n] by (cases "k = summary_key s") (simp_all add: step)
  qed
qed

lemma merged_ok_fold: "merged_ok d ss \<Longrightarrow> merged_ok (fold merge_step ts d) (ss @ ts)"
proof (induction ts arbitrary: d ss)
  case (Cons t ts)
  show ?case using Cons.IH[OF merged_ok_step[OF Cons.prems, of t]] by simp
qed simp

lemma merged_ok_all: "merged_ok (fold merge_step ss []) ss"
  using merged_ok_fold[OF merged_ok_empty, of ss] by simp

lemma merged_keys: "merged_ok d ss \<Longrightarrow> map summary_key (dvalues d) = dkeys d"
  using merged_okD(3)[OF _ map_of_is_SomeI[OF merged_okD(1)]] by force

lemma mset_raw_results:
  "mset (concat (map fst (raw_results sha rs p fls))) =
     (\<Sum>r \<leftarrow> rs. \<Sum>cf \<leftarrow> fls. mset (fst (analyze_file sha r p cf)))"
proof -
  have one: "mset (concat (map (fst \<circ> g) fls)) = (\<Sum>cf \<leftarrow> fls. mset (fst (g cf)))"
    for g :: "source_file \<Rightarrow> candidate_finding list \<times> function_summary list"
    by (induction fls) auto
  show ?thesis
    unfolding raw_results_def by (induction rs) (simp_all add: one)
qed

section \<open>Properties\<close>

text \<open>The report counts what it returns: the total is the number of findings, a type's count is the number of
  findings of that type, types without a finding are absent, and the counts add up to the total.\<close>

theorem scan_counts:
  "(let rep = scan sha rules rid now cm project in
     ss_total (rep_summary rep) = length (rep_findings rep) \<and>
     dget (ss_by_type (rep_summary rep)) v =
       (if occurrences (rep_findings rep) v = 0 then None else Some (occurrences (rep_findings rep) v)) \<and>
     sum_list (dvalues (ss_by_type (rep_summary rep))) = ss_total (rep_summary rep))"
  by (simp add: scan_def Let_def dget_count_types sum_count_types)

text \<open>The findings of the report are exactly those of every rule on every file, sorted by sink file, sink
  line and source line.\<close>

theorem scan_findings_sorted:
  "(let rep = scan sha rules rid now cm project;
        p = (case project of Some p \<Rightarrow> p | None \<Rightarrow> cm_project_id cm);
        rs = (case rules of Some r \<Rightarrow> r | None \<Rightarrow> default_rules) in
     sorted (map finding_sort_key (rep_findings rep)) \<and>
     mset (rep_findings rep) =
       (\<Sum>r \<leftarrow> rs. \<Sum>cf \<leftarrow> cm_files cm. mset (fst (analyze_file sha r p cf))))"
  by (simp add: scan_def Let_def mset_raw_results)

text \<open>Merging gives one summary per function, identified by file, line and qualified name and sorted by
  it; it holds the sinks of all rules in rule order, returns taint when some rule says so and has every
  tainted parameter.\<close>

theorem merge_summaries_one_per_function:
  "sorted (map summary_key (merge_summaries ss)) \<and>
   distinct (map summary_key (merge_summaries ss)) \<and>
   summary_key ` set (merge_summaries ss) = summary_key ` set ss \<and>
   list_all (\<lambda>m. merges m (of_key (summary_key m) ss)) (merge_summaries ss)"
proof -
  let ?d = "fold merge_step ss []"
  note ok = merged_ok_all[of ss]
  note d = merged_okD[OF ok]
  have keys: "map summary_key (dvalues ?d) = dkeys ?d" by (rule merged_keys[OF ok])
  have vals: "mset (merge_summaries ss) = mset (dvalues ?d)"
    by (simp add: merge_summaries_def)
  have "merges m (of_key (summary_key m) ss)" if m: "m \<in> set (dvalues ?d)" for m
  proof -
    obtain kv where "kv \<in> set ?d" "m = snd kv" using m unfolding set_map by blast
    then have "(fst kv, m) \<in> set ?d" by simp
    then have "summary_key m = fst kv \<and> merges m (of_key (fst kv) ss)"
      by (rule d(3)[OF map_of_is_SomeI[OF d(1)]])
    then show ?thesis by simp
  qed
  then have "list_all (\<lambda>m. merges m (of_key (summary_key m) ss)) (merge_summaries ss)"
    unfolding list_all_iff mset_eq_setD[OF vals] by blast
  moreover have "distinct (map summary_key (merge_summaries ss))"
    using d(1) keys vals by (metis mset_eq_imp_distinct_iff mset_map)
  moreover have "summary_key ` set (merge_summaries ss) = summary_key ` set ss"
    unfolding mset_eq_setD[OF vals] using d(2) by (simp only: keys flip: set_map)
  moreover have "sorted (map summary_key (merge_summaries ss))"
    unfolding merge_summaries_def by (rule sorted_sort_key)
  ultimately show ?thesis by blast
qed

end
