(* ===== verification/Store.thy ===== *)
theory Store
  imports Prelude
begin

text \<open>
  Persistence of the pipeline stores (backend/app/db/persistence.py).

  Every store keeps an in-memory dictionary and, when a session factory is configured, mirrors each
  write into a table of JSON payloads. A table is modelled as the list of its rows in row order,
  a row being its primary key and its payload; \<open>None\<close> in place of a table is the
  unconfigured factory. The payload encoding itself is Pydantic's, so it is a parameter: a
  \<open>codec\<close> with \<open>dump\<close> (\<open>model_dump(mode="json")\<close>) and \<open>load\<close>
  (\<open>model_validate_json\<close>, \<open>None\<close> when validation raises).

  The keyed-store interface states what the pipeline relies on: a lookup returns the last
  write, and a restart that rehydrates from the table serves the cache that was lost.
\<close>

record ('v, 'p) codec =
  dump :: "'v \<Rightarrow> 'p"
  load :: "'p \<Rightarrow> 'v option"

text \<open>The documented behaviour of the encoding: no field is dropped.\<close>

definition lossless :: "('v, 'p) codec \<Rightarrow> bool" where
  "lossless c \<longleftrightarrow> (\<forall>v. load c (dump c v) = Some v)"

type_synonym 'p db_table = "(string, 'p) dict option"

section \<open>The helpers shared by the stores\<close>

definition db_upsert :: "('v, 'p) codec \<Rightarrow> string \<Rightarrow> 'v \<Rightarrow> 'p db_table \<Rightarrow> 'p db_table" where
  "db_upsert c key model factory =
     (case factory of
        None \<Rightarrow> None
      | Some rows \<Rightarrow>
          (case dget rows key of
             None \<Rightarrow> Some (rows @ [(key, dump c model)])
           | Some _ \<Rightarrow> Some (dput key (dump c model) rows)))"

definition db_insert :: "string \<Rightarrow> 'p \<Rightarrow> 'p db_table \<Rightarrow> 'p db_table" where
  "db_insert key payload factory =
     (case factory of None \<Rightarrow> None | Some rows \<Rightarrow> Some (rows @ [(key, payload)]))"

definition db_delete_all :: "'p db_table \<Rightarrow> 'p db_table" where
  "db_delete_all factory = (case factory of None \<Rightarrow> None | Some rows \<Rightarrow> Some [])"

definition db_delete :: "string \<Rightarrow> 'p db_table \<Rightarrow> 'p db_table" where
  "db_delete key factory =
     (case factory of
        None \<Rightarrow> None
      | Some rows \<Rightarrow> (case dget rows key of None \<Rightarrow> Some rows | Some _ \<Rightarrow> Some (dpop key rows)))"

text \<open>
  \<open>db_load_all\<close> validates every row in order and raises at the first payload that does not
  validate, which is \<open>None\<close> here.
\<close>

fun load_rows :: "('v, 'p) codec \<Rightarrow> (string \<times> 'p) list \<Rightarrow> (string \<times> 'v) list option" where
  "load_rows c [] = Some []"
| "load_rows c ((key, payload) # rows) =
     (case load c payload of
        None \<Rightarrow> None
      | Some v \<Rightarrow> (case load_rows c rows of None \<Rightarrow> None | Some vs \<Rightarrow> Some ((key, v) # vs)))"

definition db_load_all :: "('v, 'p) codec \<Rightarrow> 'p db_table \<Rightarrow> (string \<times> 'v) list option" where
  "db_load_all c factory = (case factory of None \<Rightarrow> Some [] | Some rows \<Rightarrow> load_rows c rows)"

lemma load_rows_dmap_dump: "lossless c \<Longrightarrow> load_rows c (dmap (dump c) d) = Some d"
  by (induction d) (auto simp: lossless_def dmap_def)

lemma db_upsert_dput [simp]:
  "db_upsert c k v (Some rows) = Some (dput k (dump c v) rows)"
proof (cases "dget rows k")
  case None
  then have "k \<notin> fst ` set rows" by (simp add: map_of_eq_None_iff)
  then show ?thesis using None by (simp add: db_upsert_def dput_new)
qed (simp add: db_upsert_def)

lemma db_delete_dpop [simp]: "db_delete k (Some rows) = Some (dpop k rows)"
proof (cases "dget rows k")
  case None
  then have "k \<notin> fst ` set rows" by (simp add: map_of_eq_None_iff)
  then have "dpop k rows = rows" by (force simp: AList.delete_eq filter_id_conv)
  then show ?thesis using None by (simp add: db_delete_def)
qed (simp add: db_delete_def)

lemma db_none [simp]:
  "db_upsert c k v None = None" "db_delete k None = None"
  "db_delete_all None = None" "db_insert k p None = None"
  by (simp_all add: db_upsert_def db_delete_def db_delete_all_def db_insert_def)

lemma db_delete_all_Some [simp]: "db_delete_all (Some rows) = Some []"
  by (simp add: db_delete_all_def)

lemma db_insert_Some [simp]: "db_insert k p (Some rows) = Some (rows @ [(k, p)])"
  by (simp add: db_insert_def)

section \<open>A keyed store\<close>

text \<open>
  The shape that FindingStore, ValidationStore, ProofStore, RemediationStore and the risk, SLA and
  benchmark registries share: the dictionary and the table behind it.
\<close>

record ('v, 'p) kstore =
  cache :: "(string, 'v) dict"
  factory :: "'p db_table"

definition kstore_put :: "('v, 'p) codec \<Rightarrow> string \<Rightarrow> 'v \<Rightarrow> ('v, 'p) kstore \<Rightarrow> ('v, 'p) kstore" where
  "kstore_put c k v s = s\<lparr>cache := dput k v (cache s), factory := db_upsert c k v (factory s)\<rparr>"

definition kstore_get :: "('v, 'p) kstore \<Rightarrow> string \<Rightarrow> 'v option" where
  "kstore_get s k = dget (cache s) k"

definition kstore_all :: "('v, 'p) kstore \<Rightarrow> 'v list" where
  "kstore_all s = dvalues (cache s)"

definition kstore_remove :: "string \<Rightarrow> ('v, 'p) kstore \<Rightarrow> ('v, 'p) kstore" where
  "kstore_remove k s = s\<lparr>cache := dpop k (cache s), factory := db_delete k (factory s)\<rparr>"

definition kstore_clear :: "('v, 'p) kstore \<Rightarrow> ('v, 'p) kstore" where
  "kstore_clear s = s\<lparr>cache := [], factory := db_delete_all (factory s)\<rparr>"

text \<open>
  \<open>set_factory\<close>: remember the factory, clear the cache, assign every loaded row. When a row
  does not validate the exception leaves the cleared cache behind.
\<close>

definition kstore_set_factory ::
    "('v, 'p) codec \<Rightarrow> 'p db_table \<Rightarrow> ('v, 'p) kstore \<Rightarrow> bool \<times> ('v, 'p) kstore" where
  "kstore_set_factory c f s =
     (case db_load_all c f of
        None \<Rightarrow> (False, s\<lparr>cache := [], factory := f\<rparr>)
      | Some kvs \<Rightarrow> (True, s\<lparr>cache := dput_all kvs [], factory := f\<rparr>))"

text \<open>
  The mirror invariant: cache keys are unique and the table, when there is one, holds exactly
  the dumped cache in cache order.
\<close>

definition mirrors :: "('v, 'p) codec \<Rightarrow> ('v, 'p) kstore \<Rightarrow> bool" where
  "mirrors c s \<longleftrightarrow> distinct (dkeys (cache s)) \<and>
     (case factory s of None \<Rightarrow> True | Some rows \<Rightarrow> rows = dmap (dump c) (cache s))"

lemma mirrors_empty: "mirrors c \<lparr>cache = [], factory = None\<rparr>"
  by (simp add: mirrors_def)

lemma mirrors_put: "mirrors c s \<Longrightarrow> mirrors c (kstore_put c k v s)"
  by (cases "factory s") (auto simp: mirrors_def kstore_put_def)

lemma mirrors_remove: "mirrors c s \<Longrightarrow> mirrors c (kstore_remove k s)"
  by (cases "factory s") (auto simp: mirrors_def kstore_remove_def)

lemma mirrors_clear: "mirrors c s \<Longrightarrow> mirrors c (kstore_clear s)"
  by (cases "factory s") (auto simp: mirrors_def kstore_clear_def)

text \<open>A restart: the rows survive, the cache does not, and \<open>set_factory\<close> rebuilds it.\<close>

lemma rehydrate_cache:
  assumes "lossless c" and "mirrors c s" and "factory s = Some rows"
  shows "kstore_set_factory c (factory s) s' = (True, s'\<lparr>cache := cache s, factory := factory s\<rparr>)"
  using assms
  by (auto simp: kstore_set_factory_def db_load_all_def mirrors_def load_rows_dmap_dump dput_all_empty)

section \<open>The keyed-store interface\<close>

text \<open>
  What a client of a store relies on. \<open>abs\<close> is the client's view, a partial map from
  key to record.
\<close>

locale keyed_store =
  fixes abs :: "'s \<Rightarrow> string \<Rightarrow> 'v option"
    and put :: "string \<Rightarrow> 'v \<Rightarrow> 's \<Rightarrow> 's"
    and remove :: "string \<Rightarrow> 's \<Rightarrow> 's"
    and clear :: "'s \<Rightarrow> 's"
    and restart :: "'s \<Rightarrow> bool \<times> 's"
    and ok :: "'s \<Rightarrow> bool"
  assumes abs_put: "abs (put k v s) = (abs s)(k \<mapsto> v)"
    and abs_remove: "abs (remove k s) = (abs s)(k := None)"
    and abs_clear: "abs (clear s) = Map.empty"
    and ok_put: "ok s \<Longrightarrow> ok (put k v s)"
    and ok_remove: "ok s \<Longrightarrow> ok (remove k s)"
    and ok_clear: "ok s \<Longrightarrow> ok (clear s)"
    and restart_abs: "ok s \<Longrightarrow> \<exists>s'. restart s = (True, s') \<and> abs s' = abs s \<and> ok s'"
begin

lemma get_put_same: "abs (put k v s) k = Some v"
  by (simp add: abs_put)

lemma get_put_other: "k' \<noteq> k \<Longrightarrow> abs (put k v s) k' = abs s k'"
  by (simp add: abs_put)

lemma remove_idem: "abs (remove k (remove k s)) = abs (remove k s)"
  by (simp add: abs_remove)

lemma put_put: "abs (put k v (put k w s)) = abs (put k v s)"
  by (simp add: abs_put)

text \<open>A run of removals drops exactly the listed keys.\<close>

lemma abs_remove_list: "abs (fold remove ks s) k = (if k \<in> set ks then None else abs s k)"
  by (induction ks arbitrary: s) (auto simp: abs_remove)

lemma ok_remove_list: "ok s \<Longrightarrow> ok (fold remove ks s)"
  by (induction ks arbitrary: s) (auto intro: ok_remove)

text \<open>A run of writes keeps the invariant and every key's last write.\<close>

lemma ok_put_list: "ok s \<Longrightarrow> ok (fold (\<lambda>v. put (key v) v) vs s)"
  by (induction vs arbitrary: s) (auto intro: ok_put)

lemma abs_put_list:
  "abs (fold (\<lambda>v. put (key v) v) vs s) k =
     (case find (\<lambda>v. key v = k) (rev vs) of None \<Rightarrow> abs s k | Some v \<Rightarrow> Some v)"
proof (induction vs arbitrary: s)
  case (Cons v vs)
  show ?case
    by (auto simp: Cons.IH abs_put find_append_case split: option.splits)
qed simp

end

text \<open>
  A kstore keeps its promises when its table mirrors the cache; \<open>restart\<close> drops the cache
  and rehydrates from the table.
\<close>

definition kstore_restart :: "('v, 'p) codec \<Rightarrow> ('v, 'p) kstore \<Rightarrow> bool \<times> ('v, 'p) kstore" where
  "kstore_restart c s = kstore_set_factory c (factory s) \<lparr>cache = [], factory = None\<rparr>"

definition durable :: "('v, 'p) codec \<Rightarrow> ('v, 'p) kstore \<Rightarrow> bool" where
  "durable c s \<longleftrightarrow> lossless c \<and> mirrors c s \<and> factory s \<noteq> None"

lemma kstore_restart_durable: "durable c s \<Longrightarrow> kstore_restart c s = (True, s)"
proof -
  assume d: "durable c s"
  then obtain rows where rows: "factory s = Some rows" by (auto simp: durable_def)
  have "kstore_restart c s =
      (True, \<lparr>cache = [], factory = None\<rparr>\<lparr>cache := cache s, factory := factory s\<rparr>)"
    unfolding kstore_restart_def using d rows by (intro rehydrate_cache) (auto simp: durable_def)
  then show ?thesis by (cases s) simp
qed

interpretation kst: keyed_store kstore_get "kstore_put c" kstore_remove kstore_clear
    "kstore_restart c" "durable c" for c :: "('v, 'p) codec"
proof (unfold_locales, goal_cases)
  case (4 s k v)
  then show ?case by (auto simp: durable_def mirrors_put) (auto simp: kstore_put_def)
next
  case (5 s k)
  then show ?case by (auto simp: durable_def mirrors_remove) (auto simp: kstore_remove_def)
next
  case (6 s)
  then show ?case by (auto simp: durable_def mirrors_clear) (auto simp: kstore_clear_def)
qed (auto simp: kstore_get_def kstore_put_def kstore_remove_def kstore_clear_def fun_eq_iff
       kstore_restart_durable)

end
