(* ===== verification/Regex.thy ===== *)
theory Regex
  imports Prelude
begin

text \<open>
  The regular expressions of the standard library, as far as the redactor uses them: character
  classes, sequence, ordered choice, greedy and lazy repetition and the word boundary. Matching
  backtracks in priority order, so \<open>matches\<close> lists the ends of all matches from a position, the
  one \<open>re\<close> would choose first. A position is the text before it, reversed, and the text after.
\<close>

datatype position = At (pre: string) (post: string)

datatype re =
  Eps
| Cls "char \<Rightarrow> bool"
| Seq re re
| Alt re re
| Star re
| LazyStar re
| WordBoundary

text \<open>\<open>\w\<close> on the code points below 256.\<close>

definition is_word :: "char \<Rightarrow> bool" where
  "is_word c \<longleftrightarrow> (let n = of_char c :: nat in
     (48 \<le> n \<and> n \<le> 57) \<or> (65 \<le> n \<and> n \<le> 90) \<or> n = 95 \<or> (97 \<le> n \<and> n \<le> 122) \<or>
     n \<in> {170, 178, 179, 181, 185, 186, 188, 189, 190} \<or>
     (192 \<le> n \<and> n \<noteq> 215 \<and> n \<noteq> 247))"

definition word_at :: "string \<Rightarrow> bool" where
  "word_at s = (case s of [] \<Rightarrow> False | c # _ \<Rightarrow> is_word c)"

function (sequential) matches :: "re \<Rightarrow> position \<Rightarrow> position list" where
  "matches Eps p = [p]"
| "matches (Cls P) p = (case post p of [] \<Rightarrow> [] | c # cs \<Rightarrow> if P c then [At (c # pre p) cs] else [])"
| "matches (Seq r s) p = concat (map (matches s) (matches r p))"
| "matches (Alt r s) p = matches r p @ matches s p"
| "matches (Star r) p =
     concat (map (matches (Star r)) (filter (\<lambda>q. length (post q) < length (post p)) (matches r p))) @ [p]"
| "matches (LazyStar r) p =
     p # concat (map (matches (LazyStar r)) (filter (\<lambda>q. length (post q) < length (post p)) (matches r p)))"
| "matches WordBoundary p = (if word_at (pre p) \<noteq> word_at (post p) then [p] else [])"
  by pat_completeness auto
termination
  by (relation "measures [\<lambda>(r, p). size r, \<lambda>(r, p). length (post p)]") auto

declare matches.simps(5,6) [simp del]

text \<open>A match never moves backwards and only moves text from behind the position to before it.\<close>

definition moves :: "position \<Rightarrow> position \<Rightarrow> bool" where
  "moves p q \<longleftrightarrow> (\<exists>m. post p = m @ post q \<and> pre q = rev m @ pre p)"

lemma moves_refl [simp]: "moves p p"
  by (simp add: moves_def)

lemma moves_trans: "moves p q \<Longrightarrow> moves q s \<Longrightarrow> moves p s"
  by (auto simp: moves_def)

lemma moves_char: "moves (At b (c # cs)) (At (c # b) cs)"
  by (simp add: moves_def)

lemma matches_moves: "q \<in> set (matches r p) \<Longrightarrow> moves p q"
proof (induction r p arbitrary: q rule: matches.induct)
  case (2 P p)
  then show ?case by (cases p) (auto simp: moves_char split: list.splits if_splits)
next
  case (3 r s p)
  from "3.prems" obtain m where "m \<in> set (matches r p)" "q \<in> set (matches s m)"
    unfolding matches.simps set_concat set_map by blast
  then show ?case using "3.IH" moves_trans by blast
next
  case (5 r p)
  from "5.prems" consider "q = p" | m where "m \<in> set (matches r p)" "length (post m) < length (post p)"
      "q \<in> set (matches (Star r) m)"
    by (subst (asm) matches.simps(5)) auto
  then show ?case
  proof cases
    case 2
    then have "moves m q" by (intro "5.IH"(2)) simp_all
    then show ?thesis using "5.IH"(1) 2 moves_trans by blast
  qed simp
next
  case (6 r p)
  from "6.prems" consider "q = p" | m where "m \<in> set (matches r p)" "length (post m) < length (post p)"
      "q \<in> set (matches (LazyStar r) m)"
    by (subst (asm) matches.simps(6)) auto
  then show ?case
  proof cases
    case 2
    then have "moves m q" by (intro "6.IH"(2)) simp_all
    then show ?thesis using "6.IH"(1) 2 moves_trans by blast
  qed simp
qed (auto split: if_splits)

text \<open>Literals, classes and counted repetition.\<close>

definition lower_char :: "char \<Rightarrow> char" where
  "lower_char c = (let n = of_char c :: nat in
     if (65 \<le> n \<and> n \<le> 90) \<or> (192 \<le> n \<and> n \<le> 222 \<and> n \<noteq> 215) then char_of (n + 32) else c)"

definition between :: "nat \<Rightarrow> nat \<Rightarrow> char \<Rightarrow> bool" where
  "between a b c \<longleftrightarrow> a \<le> of_char c \<and> of_char c \<le> b"

abbreviation is_digit :: "char \<Rightarrow> bool" where "is_digit \<equiv> between 48 57"
abbreviation is_upper :: "char \<Rightarrow> bool" where "is_upper \<equiv> between 65 90"
abbreviation is_lower :: "char \<Rightarrow> bool" where "is_lower \<equiv> between 97 122"

text \<open>The class \<open>P\<close> under \<open>(?i)\<close>.\<close>

definition nocase :: "(char \<Rightarrow> bool) \<Rightarrow> char \<Rightarrow> bool" where
  "nocase P c \<longleftrightarrow> P c \<or> P (lower_char c) \<or> (is_lower c \<and> P (char_of ((of_char c :: nat) - 32)))"

fun lit :: "string \<Rightarrow> re" where
  "lit [] = Eps"
| "lit (c # cs) = Seq (Cls (\<lambda>x. x = c)) (lit cs)"

fun lit_i :: "string \<Rightarrow> re" where
  "lit_i [] = Eps"
| "lit_i (c # cs) = Seq (Cls (nocase (\<lambda>x. x = c))) (lit_i cs)"

fun alts :: "re list \<Rightarrow> re" where
  "alts [] = Cls (\<lambda>_. False)"
| "alts [r] = r"
| "alts (r # rs) = Alt r (alts rs)"

fun seqs :: "re list \<Rightarrow> re" where
  "seqs [] = Eps"
| "seqs [r] = r"
| "seqs (r # rs) = Seq r (seqs rs)"

definition opt :: "re \<Rightarrow> re" where
  "opt r = Alt r Eps"

definition plus_re :: "re \<Rightarrow> re" where
  "plus_re r = Seq r (Star r)"

fun times_re :: "nat \<Rightarrow> re \<Rightarrow> re" where
  "times_re 0 r = Eps"
| "times_re (Suc n) r = Seq r (times_re n r)"

definition at_least :: "nat \<Rightarrow> re \<Rightarrow> re" where
  "at_least n r = Seq (times_re n r) (Star r)"

section \<open>Substitution\<close>

text \<open>
  \<open>pattern.sub(replacement, text)\<close>: from left to right, the first match at a position is
  replaced and the scan goes on behind it. An empty match replaces nothing here: none of the patterns
  has one.
\<close>

fun first_match :: "re \<Rightarrow> position \<Rightarrow> position option" where
  "first_match r p = (case matches r p of [] \<Rightarrow> None | q # _ \<Rightarrow> Some q)"

lemma first_match_moves: "first_match r p = Some q \<Longrightarrow> moves p q"
  using matches_moves[of q r p] by (auto split: list.splits)

declare first_match.simps [simp del]

function re_sub :: "re \<Rightarrow> string \<Rightarrow> position \<Rightarrow> string" where
  "re_sub r repl p =
     (case post p of
        [] \<Rightarrow> []
      | c # cs \<Rightarrow>
          (case first_match r p of
             None \<Rightarrow> c # re_sub r repl (At (c # pre p) cs)
           | Some q \<Rightarrow>
               if length (post q) < length (post p) then repl @ re_sub r repl q
               else c # re_sub r repl (At (c # pre p) cs)))"
  by pat_completeness auto
termination
  by (relation "measure (\<lambda>(r, repl, p). length (post p))") auto

declare re_sub.simps [simp del]

text \<open>
  A redaction of a text: the same text with some non-empty matches replaced and everything
  else kept in place.
\<close>

inductive replaced :: "re \<Rightarrow> string \<Rightarrow> position \<Rightarrow> string \<Rightarrow> bool" where
  replaced_end: "replaced r repl (At b []) []"
| replaced_keep: "first_match r (At b (c # cs)) = None \<Longrightarrow> replaced r repl (At (c # b) cs) out \<Longrightarrow>
     replaced r repl (At b (c # cs)) (c # out)"
| replaced_hit: "first_match r p = Some q \<Longrightarrow> length (post q) < length (post p) \<Longrightarrow>
     replaced r repl q out \<Longrightarrow> replaced r repl p (repl @ out)"

text \<open>A pattern whose matches are never empty.\<close>

definition consumes :: "re \<Rightarrow> bool" where
  "consumes r \<longleftrightarrow> (\<forall>p q. first_match r p = Some q \<longrightarrow> length (post q) < length (post p))"

lemma re_sub_replaced: "consumes r \<Longrightarrow> replaced r repl p (re_sub r repl p)"
proof (induction r repl p rule: re_sub.induct)
  case (1 r repl p)
  obtain b s where p: "p = At b s" by (cases p)
  show ?case
  proof (cases s)
    case Nil
    then show ?thesis by (simp add: p re_sub.simps[of r repl "At b []"] replaced_end)
  next
    case (Cons c cs)
    show ?thesis
    proof (cases "first_match r p")
      case None
      then show ?thesis
        using 1 by (subst re_sub.simps) (auto simp: p Cons intro: replaced_keep)
    next
      case (Some q)
      then have "length (post q) < length (post p)" using "1.prems" by (simp add: consumes_def)
      then show ?thesis
        using 1 Some by (subst re_sub.simps) (auto simp: p Cons intro: replaced_hit)
    qed
  qed
qed

lemma re_sub_no_match:
  assumes "\<And>u v. s = u @ v \<Longrightarrow> first_match r (At (rev u @ b) v) = None"
  shows "re_sub r repl (At b s) = s"
  using assms
proof (induction s arbitrary: b)
  case (Cons c cs)
  have "first_match r (At b (c # cs)) = None" using Cons.prems[of "[]"] by simp
  moreover have "re_sub r repl (At (c # b) cs) = cs"
  proof (rule Cons.IH)
    fix u v
    assume "cs = u @ v"
    then show "first_match r (At (rev u @ c # b) v) = None" using Cons.prems[of "c # u" v] by simp
  qed
  ultimately show ?case by (subst re_sub.simps) simp
qed (simp add: re_sub.simps)

text \<open>The first character of a match decides most of the patterns: a match moves over it.\<close>

definition nonempty :: "re \<Rightarrow> bool" where
  "nonempty r \<longleftrightarrow> (\<forall>p q. q \<in> set (matches r p) \<longrightarrow> length (post q) < length (post p))"

lemma nonempty_consumes: "nonempty r \<Longrightarrow> consumes r"
  by (auto simp: nonempty_def consumes_def first_match.simps split: list.splits)

lemma matches_shorter: "q \<in> set (matches r p) \<Longrightarrow> length (post q) \<le> length (post p)"
  by (drule matches_moves) (auto simp: moves_def)

lemma nonempty_Cls [simp]: "nonempty (Cls P)"
  unfolding nonempty_def by (auto split: list.splits if_splits) (metis length_Cons lessI)

lemma nonempty_SeqL: "nonempty r \<Longrightarrow> nonempty (Seq r s)"
  unfolding nonempty_def matches.simps set_concat set_map
  by (blast intro: le_less_trans matches_shorter)

lemma nonempty_SeqR: "nonempty s \<Longrightarrow> nonempty (Seq r s)"
  unfolding nonempty_def matches.simps set_concat set_map
  by (blast intro: less_le_trans matches_shorter)

lemma nonempty_Alt: "nonempty r \<Longrightarrow> nonempty s \<Longrightarrow> nonempty (Alt r s)"
  unfolding nonempty_def matches.simps set_append by blast

text \<open>A syntactic test for it.\<close>

fun nullable :: "re \<Rightarrow> bool" where
  "nullable Eps = True"
| "nullable (Cls P) = False"
| "nullable (Seq r s) = (nullable r \<and> nullable s)"
| "nullable (Alt r s) = (nullable r \<or> nullable s)"
| "nullable (Star r) = True"
| "nullable (LazyStar r) = True"
| "nullable WordBoundary = True"

lemma not_nullable_nonempty: "\<not> nullable r \<Longrightarrow> nonempty r"
proof (induction r)
  case (Seq r s)
  then show ?case by (auto intro: nonempty_SeqL nonempty_SeqR)
next
  case (Alt r s)
  then show ?case by (auto intro: nonempty_Alt)
qed simp_all

lemma not_nullable_consumes: "\<not> nullable r \<Longrightarrow> consumes r"
  by (rule nonempty_consumes, rule not_nullable_nonempty)

end
