(* ===== verification/Validate.thy ===== *)
theory Validate
  imports Complex_Main Scan_Service Store Regex
begin

text \<open>
  The VALIDATE stage (backend/app/validate/): secret redaction, the evidence package, the provider
  template method with its single repair retry, the service and the two stores.

  Not under src/ and therefore arguments: the model backend \<open>complete\<close>, which may raise and
  whose state is threaded; the strict parser \<open>json_validate\<close> (\<open>json.loads\<close> followed by
  Pydantic's validation, \<open>None\<close> when either rejects); \<open>json_dumps\<close> of the evidence
  package; SHA-256; the clocks.
\<close>

section \<open>Redaction\<close>

definition REDACTED :: string where
  "REDACTED = ''<REDACTED:secret>''"

definition is_quote :: "char \<Rightarrow> bool" where
  "is_quote c \<longleftrightarrow> c = CHR 0x27 \<or> c = CHR 0x22"

abbreviation quote_re :: re where "quote_re \<equiv> Cls is_quote"
abbreviation not_quotes :: re where "not_quotes \<equiv> Cls (\<lambda>c. \<not> is_quote c)"
abbreviation spaces :: re where "spaces \<equiv> Star (Cls is_space)"
abbreviation assign_op :: re where "assign_op \<equiv> Cls (\<lambda>c. c = CHR ''='' \<or> c = CHR '':'')"
abbreviation opt_dash :: re where "opt_dash \<equiv> opt (Cls (\<lambda>c. c = CHR ''_'' \<or> c = CHR ''-''))"

definition pem_kind :: re where
  "pem_kind = opt (alts [lit ''RSA '', lit ''EC '', lit ''DSA '', lit ''OPENSSH '', lit ''ENCRYPTED ''])"

definition private_key_re :: re where
  "private_key_re = seqs [lit ''-----BEGIN '', pem_kind, lit ''PRIVATE KEY-----'',
     LazyStar (Cls (\<lambda>_. True)), lit ''-----END '', pem_kind, lit ''PRIVATE KEY-----'']"

definition dashed :: "string \<Rightarrow> string \<Rightarrow> re" where
  "dashed a b = seqs [lit_i a, opt_dash, lit_i b]"

definition assignment_re :: re where
  "assignment_re = seqs [alts [dashed ''api'' ''key'', lit_i ''apikey'', lit_i ''secret'',
       dashed ''secret'' ''key'', lit_i ''token'', dashed ''auth'' ''token'',
       dashed ''access'' ''key'', lit_i ''password'', lit_i ''passwd'', lit_i ''pwd'',
       dashed ''db'' ''password''],
     WordBoundary, spaces, assign_op, spaces, quote_re, at_least 4 not_quotes, quote_re]"

definition aws_re :: re where
  "aws_re = Alt
     (seqs [lit_i ''AKIA'', times_re 16 (Cls (nocase (\<lambda>c. is_digit c \<or> is_upper c)))])
     (seqs [lit_i ''aws'', opt_dash, Alt (dashed ''access'' ''key'') (dashed ''secret'' ''key''),
        opt quote_re, spaces, assign_op, spaces, quote_re,
        at_least 16 (Cls (nocase (\<lambda>c. is_upper c \<or> is_digit c \<or> c \<in> {CHR ''/'', CHR ''+'', CHR ''=''}))),
        quote_re])"

definition bearer_re :: re where
  "bearer_re = seqs [WordBoundary, lit_i ''bearer'', plus_re (Cls is_space),
     plus_re (Cls (\<lambda>c. is_upper c \<or> is_lower c \<or> is_digit c \<or>
       c \<in> {CHR ''-'', CHR ''.'', CHR ''_'', CHR ''~'', CHR ''+'', CHR ''/''})),
     Star (Cls (\<lambda>c. c = CHR ''='')), WordBoundary]"

definition database_url_re :: re where
  "database_url_re = seqs [WordBoundary,
     alts [Seq (lit_i ''postgres'') (opt (lit_i ''ql'')), lit_i ''mysql'', lit_i ''mssql'',
       lit_i ''sqlite'', lit_i ''mongodb'', lit_i ''redis'', lit_i ''amqp''],
     opt (Seq (lit ''+'') (plus_re (Cls (nocase (\<lambda>c. is_lower c \<or> is_digit c))))),
     lit ''://'',
     plus_re (Cls (\<lambda>c. \<not> is_quote c \<and> \<not> is_space c \<and> c \<noteq> CHR 0x5C))]"

definition header_re :: re where
  "header_re = seqs [WordBoundary, alts [lit_i ''x-api-key'', lit_i ''authorization''], WordBoundary,
     spaces, assign_op, spaces, quote_re, at_least 4 not_quotes, quote_re]"

definition vendor_token_re :: re where
  "vendor_token_re = seqs [WordBoundary,
     alts [lit ''ghp'', lit ''github_pat'',
       seqs [lit ''xox'', Cls (\<lambda>c. c \<in> set ''baprs''), lit ''-'']],
     plus_re (Cls (\<lambda>c. is_upper c \<or> is_lower c \<or> is_digit c \<or> c = CHR ''_'' \<or> c = CHR ''-''))]"

definition SECRET_PATTERNS :: "re list" where
  "SECRET_PATTERNS = [private_key_re, assignment_re, aws_re, bearer_re, database_url_re, header_re,
     vendor_token_re]"

definition redact_secrets :: "string \<Rightarrow> string" where
  "redact_secrets text =
     (if text = [] then text
      else fold (\<lambda>pattern result. re_sub pattern REDACTED (At [] result)) SECRET_PATTERNS text)"

section \<open>Evidence packages\<close>

record validation_evidence =
  ve_finding_id :: string
  ve_vulnerability_type :: string
  ve_severity :: string
  ve_scanner_confidence :: int
  ve_source_file :: string
  ve_source_line :: nat
  ve_source_snippet :: string
  ve_sink_file :: string
  ve_sink_line :: nat
  ve_sink_snippet :: string
  ve_taint_path :: "taint_step list"
  ve_relevant_lines :: "nat list"
  ve_sanitizer_observations :: "string list"
  ve_surrounding_context :: "(string, string list) dict"

definition CONTEXT_WINDOW :: nat where
  "CONTEXT_WINDOW = 3"

text \<open>
  The lines around the source and the sink. \<open>line\<close> is in the window of \<open>center\<close> when it is
  \<open>center + offset\<close> for some offset of the range; the source computes with integers, so a window
  may reach below line 1, where no line is.
\<close>

definition in_window :: "nat \<Rightarrow> nat \<Rightarrow> bool" where
  "in_window center line \<longleftrightarrow> line \<le> center + CONTEXT_WINDOW \<and> center \<le> line + CONTEXT_WINDOW"

definition context_lines :: "candidate_finding \<Rightarrow> string \<Rightarrow> string list" where
  "context_lines finding source =
     map (\<lambda>(index, line). redact_secrets line)
       (filter (\<lambda>(index, line). in_window (src_line (f_source finding)) index \<or>
                                in_window (snk_line (f_sink finding)) index)
          (enumerate 1 (splitlines source)))"

text \<open>The set of the two file names, iterated source file first.\<close>

definition surrounding_context ::
    "(string, string) dict \<Rightarrow> candidate_finding \<Rightarrow> (string, string list) dict" where
  "surrounding_context sources finding =
     fold (\<lambda>fl ctx. case dget sources fl of
                       None \<Rightarrow> ctx
                     | Some source \<Rightarrow> dput fl (context_lines finding source) ctx)
       (remdups [src_file (f_source finding), snk_file (f_sink finding)]) []"

definition build_validation_evidence ::
    "(string, string) dict \<Rightarrow> candidate_finding \<Rightarrow> validation_evidence" where
  "build_validation_evidence sources f =
     \<lparr>ve_finding_id = f_id f,
      ve_vulnerability_type = f_vulnerability_type f,
      ve_severity = f_severity f,
      ve_scanner_confidence = f_confidence f,
      ve_source_file = src_file (f_source f),
      ve_source_line = src_line (f_source f),
      ve_source_snippet = redact_secrets (src_snippet (f_source f)),
      ve_sink_file = snk_file (f_sink f),
      ve_sink_line = snk_line (f_sink f),
      ve_sink_snippet = redact_secrets (snk_snippet (f_sink f)),
      ve_taint_path = map (\<lambda>s. s\<lparr>ts_snippet := redact_secrets (ts_snippet s)\<rparr>) (f_taint_path f),
      ve_relevant_lines = ev_relevant_lines (f_evidence f),
      ve_sanitizer_observations = map redact_secrets (ev_sanitizer_observations (f_evidence f)),
      ve_surrounding_context = surrounding_context sources f\<rparr>"

section \<open>The provider\<close>

datatype verdict = True_positive | False_positive | Uncertain
datatype next_step = Step_prove | Step_discard | Step_manual_review

record llm_response =
  lr_verdict :: verdict
  lr_confidence :: rat
  lr_reasoning :: string
  lr_evidence_used :: "string list"
  lr_missing_evidence :: "string list"
  lr_next_step :: next_step

record validation_request =
  vreq_finding_id :: string
  vreq_evidence :: validation_evidence
  vreq_provider :: string
  vreq_model :: "string option"

record validation_metadata =
  vm_provider :: string
  vm_model :: "string option"
  vm_duration_ms :: rat
  vm_retry_count :: nat
  vm_evidence_hash :: string

record validation_result =
  vr_finding_id :: string
  vr_verdict :: verdict
  vr_confidence :: rat
  vr_reasoning :: string
  vr_evidence_used :: "string list"
  vr_missing_evidence :: "string list"
  vr_next_step :: next_step
  vr_model :: "string option"
  vr_validated_at :: py_datetime
  vr_evidence :: "validation_evidence option"
  vr_metadata :: "validation_metadata option"

text \<open>\<open>ConfigurationError\<close>, the only exception a provider raises.\<close>

type_synonym config_error = string

record 'w provider =
  p_name :: string
  p_model :: "string option"
  p_complete :: "string \<Rightarrow> 'w \<Rightarrow> (config_error + string) \<times> 'w"
  p_json_dumps :: "validation_evidence \<Rightarrow> string"
  p_json_validate :: "string \<Rightarrow> llm_response option"
  p_sha256 :: "string \<Rightarrow> string"

definition FENCE :: string where
  "FENCE = ''```''"

text \<open>The text that is parsed: without the code fence a model likes to add.\<close>

definition unfence :: "string \<Rightarrow> string" where
  "unfence raw =
     (let text = strip raw in
      if startswith FENCE text then
        (let ls = splitlines text;
             ls1 = (case ls of [] \<Rightarrow> ls | l # rest \<Rightarrow> if startswith FENCE l then rest else ls);
             ls2 = (if ls1 \<noteq> [] \<and> strip (last ls1) = FENCE then butlast ls1 else ls1)
         in strip (join [LF] ls2))
      else text)"

definition parse_llm_response :: "'w provider \<Rightarrow> string \<Rightarrow> llm_response option" where
  "parse_llm_response p raw = p_json_validate p (unfence raw)"

definition build_validation_prompt :: "'w provider \<Rightarrow> validation_request \<Rightarrow> string" where
  "build_validation_prompt p request = p_json_dumps p (vreq_evidence request)"

text \<open>The fixed text of the repair prompt is an argument.\<close>

definition build_repair_prompt :: "string \<Rightarrow> string \<Rightarrow> string" where
  "build_repair_prompt REPAIR_PROMPT original_prompt =
     REPAIR_PROMPT @ [LF, LF] @ ''EVIDENCE PACKAGE (unchanged):'' @ [LF] @ original_prompt"

definition provider_result ::
    "'w provider \<Rightarrow> py_datetime \<Rightarrow> rat \<Rightarrow> validation_request \<Rightarrow> nat \<Rightarrow> llm_response \<Rightarrow> validation_result" where
  "provider_result p now duration request retries resp =
     \<lparr>vr_finding_id = vreq_finding_id request, vr_verdict = lr_verdict resp,
      vr_confidence = lr_confidence resp, vr_reasoning = lr_reasoning resp,
      vr_evidence_used = lr_evidence_used resp, vr_missing_evidence = lr_missing_evidence resp,
      vr_next_step = lr_next_step resp, vr_model = p_model p, vr_validated_at = now,
      vr_evidence = Some (vreq_evidence request),
      vr_metadata = Some \<lparr>vm_provider = p_name p, vm_model = p_model p, vm_duration_ms = duration,
        vm_retry_count = retries, vm_evidence_hash = p_sha256 p (build_validation_prompt p request)\<rparr>\<rparr>"

definition fallback_response :: llm_response where
  "fallback_response =
     \<lparr>lr_verdict = Uncertain, lr_confidence = 0,
      lr_reasoning = ''The model returned malformed output even after a repair '' @
        ''retry; the response was not trusted. Manual review is required.'',
      lr_evidence_used = [], lr_missing_evidence = [''structured model output (JSON)''],
      lr_next_step = Step_manual_review\<rparr>"

text \<open>
  The loop \<open>while parsed is None and retries < 1\<close>: each round counts, asks again with the repair
  prompt and parses. An exception of the provider leaves the loop.
\<close>

function repair_loop ::
    "'w provider \<Rightarrow> string \<Rightarrow> nat \<Rightarrow> llm_response option \<Rightarrow> 'w
     \<Rightarrow> (config_error + nat \<times> llm_response option) \<times> 'w" where
  "repair_loop p prompt retries parsed w =
     (if parsed = None \<and> retries < 1 then
        (case p_complete p prompt w of
           (Inl e, w') \<Rightarrow> (Inl e, w')
         | (Inr raw, w') \<Rightarrow> repair_loop p prompt (retries + 1) (parse_llm_response p raw) w')
      else (Inr (retries, parsed), w))"
  by pat_completeness auto
termination
  by (relation "measure (\<lambda>(p, prompt, retries, parsed, w). 1 - retries)") auto

declare repair_loop.simps [simp del]

definition provider_validate ::
    "'w provider \<Rightarrow> string \<Rightarrow> py_datetime \<Rightarrow> rat \<Rightarrow> validation_request \<Rightarrow> 'w
     \<Rightarrow> (config_error + validation_result) \<times> 'w" where
  "provider_validate p REPAIR_PROMPT now duration request w =
     (let prompt = build_validation_prompt p request in
      case p_complete p prompt w of
        (Inl e, w1) \<Rightarrow> (Inl e, w1)
      | (Inr raw, w1) \<Rightarrow>
          (case repair_loop p (build_repair_prompt REPAIR_PROMPT prompt) 0 (parse_llm_response p raw) w1 of
             (Inl e, w2) \<Rightarrow> (Inl e, w2)
           | (Inr (retries, parsed), w2) \<Rightarrow>
               (Inr (provider_result p now duration request retries
                  (case parsed of None \<Rightarrow> fallback_response | Some resp \<Rightarrow> resp)), w2)))"

section \<open>The service\<close>

text \<open>\<open>provider or self._provider or get_provider(provider_name)\<close>; the last is the argument
  \<open>configured\<close>, which may be a configuration error.\<close>

definition select_provider ::
    "'w provider option \<Rightarrow> 'w provider option \<Rightarrow> config_error + 'w provider \<Rightarrow> config_error + 'w provider" where
  "select_provider given own configured =
     (case given of Some p \<Rightarrow> Inr p
      | None \<Rightarrow> (case own of Some p \<Rightarrow> Inr p | None \<Rightarrow> configured))"

definition service_validate ::
    "config_error + 'w provider \<Rightarrow> string \<Rightarrow> py_datetime \<Rightarrow> rat \<Rightarrow> (string, string) dict
     \<Rightarrow> candidate_finding \<Rightarrow> 'w \<Rightarrow> (config_error + validation_result) \<times> 'w" where
  "service_validate selected REPAIR_PROMPT now duration sources finding w =
     (case selected of
        Inl e \<Rightarrow> (Inl e, w)
      | Inr llm \<Rightarrow>
          provider_validate llm REPAIR_PROMPT now duration
            \<lparr>vreq_finding_id = f_id finding,
             vreq_evidence = build_validation_evidence sources finding,
             vreq_provider = p_name llm, vreq_model = p_model llm\<rparr> w)"

text \<open>An exception ends the loop over the findings; the results so far are lost with it.\<close>

fun validate_findings ::
    "(candidate_finding \<Rightarrow> 'w \<Rightarrow> (config_error + validation_result) \<times> 'w) \<Rightarrow> candidate_finding list
     \<Rightarrow> 'w \<Rightarrow> (config_error + validation_result list) \<times> 'w" where
  "validate_findings v [] w = (Inr [], w)"
| "validate_findings v (f # fs) w =
     (case v f w of
        (Inl e, w1) \<Rightarrow> (Inl e, w1)
      | (Inr r, w1) \<Rightarrow>
          (case validate_findings v fs w1 of
             (Inl e, w2) \<Rightarrow> (Inl e, w2)
           | (Inr rs, w2) \<Rightarrow> (Inr (r # rs), w2)))"

definition validate_report ::
    "config_error + 'w provider \<Rightarrow> string \<Rightarrow> py_datetime \<Rightarrow> rat \<Rightarrow> (string, string) dict \<Rightarrow> scan_report \<Rightarrow> 'w
     \<Rightarrow> (config_error + validation_result list) \<times> 'w" where
  "validate_report selected REPAIR_PROMPT now duration sources report w =
     validate_findings (service_validate selected REPAIR_PROMPT now duration sources) (rep_findings report) w"

section \<open>Stores\<close>

type_synonym 'p finding_store = "(candidate_finding, 'p) kstore"
type_synonym 'p validation_store = "(validation_result, 'p) kstore"

definition finding_add ::
    "(candidate_finding, 'p) codec \<Rightarrow> candidate_finding \<Rightarrow> 'p finding_store \<Rightarrow> 'p finding_store" where
  "finding_add c f s = kstore_put c (f_id f) f s"

definition finding_add_report ::
    "(candidate_finding, 'p) codec \<Rightarrow> scan_report \<Rightarrow> 'p finding_store \<Rightarrow> 'p finding_store" where
  "finding_add_report c report s = fold (finding_add c) (rep_findings report) s"

definition validation_record ::
    "(validation_result, 'p) codec \<Rightarrow> validation_result \<Rightarrow> 'p validation_store \<Rightarrow> 'p validation_store" where
  "validation_record c r s = kstore_put c (vr_finding_id r) r s"

section \<open>Lemmas\<close>

lemma repair_loop_done [simp]: "repair_loop p prompt n (Some r) w = (Inr (n, Some r), w)"
  by (simp add: repair_loop.simps)

lemma repair_loop_spent [simp]: "repair_loop p prompt (Suc 0) parsed w = (Inr (Suc 0, parsed), w)"
  by (simp add: repair_loop.simps)

lemma repair_loop_once:
  "repair_loop p prompt 0 None w =
     (case p_complete p prompt w of
        (Inl e, w') \<Rightarrow> (Inl e, w')
      | (Inr raw, w') \<Rightarrow> (Inr (1, parse_llm_response p raw), w'))"
  by (subst repair_loop.simps) (simp split: prod.splits sum.splits)

text \<open>The requests a validation can come from: what the strict parser accepted, or the fallback.\<close>

definition accepted :: "'w provider \<Rightarrow> llm_response \<Rightarrow> bool" where
  "accepted p resp \<longleftrightarrow> (\<exists>raw. p_json_validate p raw = Some resp)"

definition strict_parser :: "'w provider \<Rightarrow> bool" where
  "strict_parser p \<longleftrightarrow>
     (\<forall>raw resp. p_json_validate p raw = Some resp \<longrightarrow> 0 \<le> lr_confidence resp \<and> lr_confidence resp \<le> 1)"

lemma parse_accepted: "parse_llm_response p raw = Some resp \<Longrightarrow> accepted p resp"
  by (auto simp: parse_llm_response_def accepted_def)

lemma provider_validate_unfold:
  "provider_validate p rp now d req w =
     (case p_complete p (build_validation_prompt p req) w of
        (Inl e, w1) \<Rightarrow> (Inl e, w1)
      | (Inr raw, w1) \<Rightarrow>
          (case parse_llm_response p raw of
             Some resp \<Rightarrow> (Inr (provider_result p now d req 0 resp), w1)
           | None \<Rightarrow>
               (case p_complete p (build_repair_prompt rp (build_validation_prompt p req)) w1 of
                  (Inl e, w2) \<Rightarrow> (Inl e, w2)
                | (Inr raw2, w2) \<Rightarrow>
                    (Inr (provider_result p now d req 1
                       (case parse_llm_response p raw2 of None \<Rightarrow> fallback_response | Some resp \<Rightarrow> resp)),
                     w2))))"
proof -
  obtain a w1 where c1: "p_complete p (build_validation_prompt p req) w = (a, w1)" by (rule prod.exhaust)
  obtain b w2 where c2: "p_complete p (build_repair_prompt rp (build_validation_prompt p req)) w1 = (b, w2)"
    by (rule prod.exhaust)
  show ?thesis
  proof (cases a)
    case (Inr raw)
    then show ?thesis
      using c1 c2 by (cases "parse_llm_response p raw"; cases b)
        (simp_all add: provider_validate_def Let_def repair_loop_once)
  qed (simp add: provider_validate_def c1)
qed

lemma provider_validate_result:
  assumes "fst (provider_validate p rp now d req w) = Inr r"
  shows "\<exists>n resp. r = provider_result p now d req n resp \<and> n \<le> 1 \<and>
           (accepted p resp \<or> resp = fallback_response)"
proof -
  obtain a w1 where c1: "p_complete p (build_validation_prompt p req) w = (a, w1)" by (rule prod.exhaust)
  obtain b w2 where c2: "p_complete p (build_repair_prompt rp (build_validation_prompt p req)) w1 = (b, w2)"
    by (rule prod.exhaust)
  show ?thesis
  proof (cases a)
    case (Inr raw)
    show ?thesis
    proof (cases "parse_llm_response p raw")
      case None
      then obtain raw2 where "b = Inr raw2"
        using assms c1 c2 Inr by (cases b) (simp_all add: provider_validate_unfold)
      then have "r = provider_result p now d req 1
          (case parse_llm_response p raw2 of None \<Rightarrow> fallback_response | Some resp \<Rightarrow> resp)"
        using assms c1 c2 Inr None by (simp add: provider_validate_unfold)
      then show ?thesis
        using parse_accepted[of p raw2] by (cases "parse_llm_response p raw2") auto
    next
      case (Some resp)
      then show ?thesis
        using assms c1 Inr parse_accepted[OF Some] by (auto simp: provider_validate_unfold)
    qed
  qed (use assms c1 in \<open>simp add: provider_validate_unfold\<close>)
qed

lemma in_window_card: "card {i. in_window c i} \<le> 7"
proof -
  have "{i. in_window c i} \<subseteq> {c - 3 .. c + 3}" by (auto simp: in_window_def CONTEXT_WINDOW_def)
  then have "card {i. in_window c i} \<le> card {c - 3 .. c + 3}" by (intro card_mono) simp_all
  then show ?thesis by simp
qed

lemma length_context_lines: "length (context_lines f source) \<le> 14"
proof -
  let ?a = "src_line (f_source f)" and ?b = "snk_line (f_sink f)"
  let ?xs = "filter (\<lambda>(i, l). in_window ?a i \<or> in_window ?b i) (enumerate 1 (splitlines source))"
  have fin: "finite {i. in_window c i}" for c
    by (rule finite_subset[of _ "{..c + 3}"]) (auto simp: in_window_def CONTEXT_WINDOW_def)
  have "distinct (map fst ?xs)"
    by (intro distinct_map_filter) simp
  then have "length ?xs = card (fst ` set ?xs)"
    using distinct_card[of "map fst ?xs"] by (simp only: length_map set_map)
  also have "\<dots> \<le> card ({i. in_window ?a i} \<union> {i. in_window ?b i})"
    using fin by (intro card_mono) auto
  also have "\<dots> \<le> 14"
    using card_Un_le[of "{i. in_window ?a i}" "{i. in_window ?b i}"] in_window_card[of ?a] in_window_card[of ?b]
    by linarith
  finally show ?thesis by (simp add: context_lines_def)
qed

lemma validate_findings_ids:
  assumes "\<And>f w r. fst (v f w) = Inr r \<Longrightarrow> key r = f_id f" and "fst (validate_findings v fs w) = Inr rs"
  shows "map key rs = map f_id fs"
  using assms(2)
proof (induction fs arbitrary: w rs)
  case (Cons f fs)
  then show ?case
    using assms(1) by (fastforce split: prod.splits sum.splits simp: prod_eq_iff)
qed simp

section \<open>Properties\<close>

text \<open>The stages of a redaction: each pattern in turn, with only its non-empty matches replaced.\<close>

fun redaction_chain :: "re list \<Rightarrow> string \<Rightarrow> string \<Rightarrow> bool" where
  "redaction_chain [] text out = (out = text)"
| "redaction_chain (r # rs) text out =
     (\<exists>mid. replaced r REDACTED (At [] text) mid \<and> redaction_chain rs mid out)"

lemma patterns_not_nullable: "list_all (\<lambda>r. \<not> nullable r) SECRET_PATTERNS"
  by (simp add: SECRET_PATTERNS_def private_key_re_def assignment_re_def aws_re_def bearer_re_def
      database_url_re_def header_re_def vendor_token_re_def plus_re_def eval_nat_numeral)

lemma redaction_chain_fold:
  "list_all (\<lambda>r. \<not> nullable r) rs \<Longrightarrow>
   redaction_chain rs s (fold (\<lambda>r out. re_sub r REDACTED (At [] out)) rs s)"
  by (induction rs arbitrary: s) (auto intro!: re_sub_replaced not_nullable_consumes)

text \<open>Redaction only replaces: the patterns run in order, and each keeps every character of its input in
  place except non-empty matches of the pattern, each of which becomes the placeholder.\<close>

theorem redact_secrets_chain: "redaction_chain SECRET_PATTERNS s (redact_secrets s)"
proof (cases "s = []")
  case True
  have "redaction_chain SECRET_PATTERNS [] (fold (\<lambda>r out. re_sub r REDACTED (At [] out)) SECRET_PATTERNS [])"
    by (rule redaction_chain_fold[OF patterns_not_nullable])
  moreover have "fold (\<lambda>r out. re_sub r REDACTED (At [] out)) rs [] = []" for rs
    by (induction rs) (simp_all add: re_sub.simps)
  ultimately show ?thesis using True by (simp add: redact_secrets_def)
next
  case False
  then show ?thesis
    using redaction_chain_fold[OF patterns_not_nullable, of s] by (simp add: redact_secrets_def)
qed

text \<open>VALIDATE asks the model at most twice: a first answer that parses is the result with no retry; otherwise
  one repair request is sent and its answer, or an UNCERTAIN fallback with manual review and confidence 0,
  is the result with one retry; a backend error at either request is passed on and gives no result.\<close>

theorem provider_validate_behaviour:
  "provider_validate p rp now d req w =
     (case p_complete p (build_validation_prompt p req) w of
        (Inl e, w1) \<Rightarrow> (Inl e, w1)
      | (Inr raw, w1) \<Rightarrow>
          (case parse_llm_response p raw of
             Some resp \<Rightarrow> (Inr (provider_result p now d req 0 resp), w1)
           | None \<Rightarrow>
               (case p_complete p (build_repair_prompt rp (build_validation_prompt p req)) w1 of
                  (Inl e, w2) \<Rightarrow> (Inl e, w2)
                | (Inr raw2, w2) \<Rightarrow>
                    (Inr (provider_result p now d req 1
                       (case parse_llm_response p raw2 of None \<Rightarrow> fallback_response | Some resp \<Rightarrow> resp)),
                     w2))))"
  by (rule provider_validate_unfold)


definition sample_evidence :: validation_evidence where
  "sample_evidence = \<lparr>ve_finding_id = ''f'', ve_vulnerability_type = ''ssrf'', ve_severity = ''high'',
     ve_scanner_confidence = 90, ve_source_file = ''a.py'', ve_source_line = 1, ve_source_snippet = [],
     ve_sink_file = ''a.py'', ve_sink_line = 2, ve_sink_snippet = [], ve_taint_path = [],
     ve_relevant_lines = [], ve_sanitizer_observations = [], ve_surrounding_context = []\<rparr>"

definition sample_request_v :: validation_request where
  "sample_request_v = \<lparr>vreq_finding_id = ''f'', vreq_evidence = sample_evidence, vreq_provider = ''t'',
     vreq_model = None\<rparr>"

definition sample_response :: llm_response where
  "sample_response = \<lparr>lr_verdict = True_positive, lr_confidence = 1, lr_reasoning = [],
     lr_evidence_used = [], lr_missing_evidence = [], lr_next_step = Step_prove\<rparr>"

text \<open>A backend that answers garbage first and a good response to the repair request.\<close>

definition sample_provider :: "nat provider" where
  "sample_provider = \<lparr>p_name = ''t'', p_model = None,
     p_complete = (\<lambda>_ n. (Inr (if n = 0 then ''?'' else ''ok''), n + 1)),
     p_json_dumps = (\<lambda>_. ''{}''),
     p_json_validate = (\<lambda>raw. if raw = ''ok'' then Some sample_response else None),
     p_sha256 = id\<rparr>"


text \<open>The evidence package is about its finding only: same id, files, lines, path length and lines, and its
  surrounding context holds at most 14 lines of the source and the sink file and nothing of any other.\<close>

theorem evidence_package_bounded:
  "(let e = build_validation_evidence sources f in
     ve_finding_id e = f_id f \<and> map ts_line (ve_taint_path e) = map ts_line (f_taint_path f) \<and>
     ve_relevant_lines e = ev_relevant_lines (f_evidence f) \<and>
     fst ` set (ve_surrounding_context e) \<subseteq> {src_file (f_source f), snk_file (f_sink f)} \<and>
     list_all (\<lambda>(fl, ls). length ls \<le> 14) (ve_surrounding_context e))"
proof -
  let ?fls = "remdups [src_file (f_source f), snk_file (f_sink f)]"
  let ?ok = "\<lambda>d :: (string, string list) dict. fst ` set d \<subseteq> {src_file (f_source f), snk_file (f_sink f)} \<and>
      list_all (\<lambda>(fl, ls). length ls \<le> 14) d"
  have upd: "list_all (\<lambda>(fl, ls). length ls \<le> 14) d \<Longrightarrow> length xs \<le> 14 \<Longrightarrow>
      list_all (\<lambda>(fl, ls). length ls \<le> 14) (dput k xs d)" for k :: string and xs :: "string list" and d
    by (induction d) auto
  have "?ok (surrounding_context sources f)"
    unfolding surrounding_context_def
  proof (rule fold_invariant[where Q = "\<lambda>fl. fl \<in> set ?fls"])
    fix fl d
    assume "fl \<in> set ?fls" and "?ok d"
    then show "?ok (case dget sources fl of None \<Rightarrow> d | Some source \<Rightarrow> dput fl (context_lines f source) d)"
      using upd[of d, OF _ length_context_lines] by (auto split: option.splits if_splits)
  qed simp_all
  then show ?thesis
    by (simp add: build_validation_evidence_def Let_def)
qed

text \<open>A report is validated in its own order, one result per finding: when no request raises, the results
  carry the finding ids of the report in order.\<close>

theorem validate_report_ids:
  assumes "fst (validate_report (Inr p) rp now d sources report w) = Inr rs"
  shows "map vr_finding_id rs = map f_id (rep_findings report)"
  using assms unfolding validate_report_def
  by (rule validate_findings_ids[rotated])
    (auto simp: service_validate_def provider_result_def dest!: provider_validate_result)

theorem validate_report_ids_witness:
  "\<exists>rs. fst (validate_report (Inr sample_provider) ''again'' (utc 0) 1 []
      (scan id (Some [sql_injection_rule]) ''r'' (utc 0) \<lparr>cm_project_id = ''p'', cm_files = []\<rparr> None) 0) = Inr rs \<and>
    map vr_finding_id rs = []"
proof -
  let ?rep = "scan id (Some [sql_injection_rule]) ''r'' (utc 0) \<lparr>cm_project_id = ''p'', cm_files = []\<rparr> None"
  have none: "rep_findings ?rep = []" by (simp add: scan_def Let_def raw_results_def)
  have "fst (validate_report (Inr sample_provider) ''again'' (utc 0) 1 [] ?rep 0) = Inr []"
    by (simp add: validate_report_def none)
  from validate_report_ids[OF this] this show ?thesis by (simp add: none)
qed

text \<open>Registering a report stores, for every id, the last finding of the report with that id and keeps every
  other entry; on a lossless database the store survives a restart unchanged.\<close>

theorem finding_store_after_scan:
  assumes "durable c s"
  shows "kstore_get (finding_add_report c report s) k =
           (case find (\<lambda>f. f_id f = k) (rev (rep_findings report)) of
              None \<Rightarrow> kstore_get s k | Some f \<Rightarrow> Some f) \<and>
         kstore_restart c (finding_add_report c report s) = (True, finding_add_report c report s)"
proof -
  have add: "finding_add c = (\<lambda>v. kstore_put c (f_id v) v)"
    by (simp add: finding_add_def fun_eq_iff)
  have "durable c (finding_add_report c report s)"
    using kst.ok_put_list[OF assms, of f_id] by (simp add: finding_add_report_def add)
  then show ?thesis
    using kst.abs_put_list[of c f_id "rep_findings report" s k]
    by (simp add: finding_add_report_def add kstore_restart_durable)
qed

definition id_codec :: "('v, 'v) codec" where
  "id_codec = \<lparr>dump = id, load = Some\<rparr>"

lemma lossless_id_codec [simp]: "lossless id_codec"
  by (simp add: lossless_def id_codec_def)

lemma durable_empty: "durable id_codec \<lparr>cache = [], factory = Some []\<rparr>"
  by (simp add: durable_def mirrors_def)

theorem finding_store_after_scan_witness:
  "kstore_restart id_codec (finding_add_report id_codec
     (scan id None ''r'' (utc 0) \<lparr>cm_project_id = ''p'', cm_files = [sample_file]\<rparr> None)
     \<lparr>cache = [], factory = Some []\<rparr>) =
   (True, finding_add_report id_codec
     (scan id None ''r'' (utc 0) \<lparr>cm_project_id = ''p'', cm_files = [sample_file]\<rparr> None)
     \<lparr>cache = [], factory = Some []\<rparr>)"
  using finding_store_after_scan[OF durable_empty] by blast

text \<open>A file with two different tainted sinks on one line.\<close>

definition twin_sink :: expr where
  "twin_sink = Call (sample_info 3 ''db.execute(q)'')
     (Attribute (sample_info 3 ''db.execute'') (Name (sample_info 3 ''db'') ''db'') ''execute'')
     [Name (sample_info 3 ''q'') ''q''] []"

definition twin_file :: source_file where
  "twin_file = \<lparr>sf_path = ''app.py'', sf_source = [], sf_error = False,
     sf_body = [FunctionDef 1 ''view'' (Params [] [] [] None None)
       [Assign 2 [Name (sample_info 2 ''q'') ''q''] sample_request, ExprStmt 3 sample_sink,
        ExprStmt 3 twin_sink]]\<rparr>"

lemma twin_findings:
  "(case fst (analyze_file id sql_injection_rule ''p'' twin_file) of
      [a, b] \<Rightarrow> f_id a = f_id b \<and> finding_sort_key a = finding_sort_key b | _ \<Rightarrow> False) = True"
  by code_simp

text \<open>Ids are per line, not per sink: two tainted sinks on one line with the same first source line get one
  id, so the report counts both while the store keeps only the later one.\<close>

theorem same_line_sinks_share_an_id:
  "(let rep = scan id (Some [sql_injection_rule]) ''r'' (utc 0)
        \<lparr>cm_project_id = ''p'', cm_files = [twin_file]\<rparr> None
    in (ss_total (rep_summary rep),
        length (kstore_all (finding_add_report id_codec rep \<lparr>cache = [], factory = None\<rparr>)))) = (2, 1)"
proof -
  obtain a b where ab: "fst (analyze_file id sql_injection_rule ''p'' twin_file) = [a, b]"
      "f_id a = f_id b" "finding_sort_key a = finding_sort_key b"
    using twin_findings by (auto split: list.splits)
  show ?thesis
    by (simp add: scan_def Let_def raw_results_def ab finding_add_report_def finding_add_def
        kstore_put_def kstore_all_def)
qed

end
