(* ===== verification/Prove.thy ===== *)
theory Prove
  imports Prove_Harness Validate
begin

text \<open>
  The PROVE stage (backend/app/prove/): deterministic plans, the sandbox runner and the proof service
  with its verdict gate and the interpretation of harness output.

  The operating system is an argument: \<open>sandbox_env\<close> gives the outcome of creating the workspace,
  of writing the script and of the one subprocess. Clocks are arguments too. Confidences are rationals,
  as in VALIDATE.
\<close>

section \<open>Contracts\<close>

datatype proof_status = Verified | Not_verified | Blocked | Proof_error

record proof_artifact =
  pa_name :: string
  pa_kind :: string
  pa_content :: string

record sandbox_policy =
  network_enabled :: bool
  allow_loopback :: bool
  allowed_paths :: "string list"
  timeout_seconds :: rat
  max_output_bytes :: nat
  max_processes :: nat
  temporary_directory :: string

definition default_policy :: sandbox_policy where
  "default_policy =
     \<lparr>network_enabled = False, allow_loopback = False, allowed_paths = [], timeout_seconds = 10,
      max_output_bytes = 16384, max_processes = 1, temporary_directory = []\<rparr>"

record proof_result =
  pr_finding_id :: string
  pr_vulnerability_type :: string
  pr_status :: proof_status
  pr_confidence :: rat
  pr_summary :: string
  pr_evidence :: "proof_artifact list"
  pr_artifacts :: "proof_artifact list"
  pr_duration_ms :: rat
  pr_sandbox_policy :: sandbox_policy
  pr_error :: "string option"
  pr_created_at :: py_datetime

section \<open>Text helpers of the standard library\<close>

definition hex_digit :: "nat \<Rightarrow> char" where
  "hex_digit n = (if n < 10 then char_of (48 + n) else char_of (87 + n))"

text \<open>\<open>repr\<close> of a string on the code points below 256.\<close>

definition repr_char :: "char \<Rightarrow> char \<Rightarrow> string" where
  "repr_char q c =
     (let n = of_char c :: nat in
      if c = q \<or> n = 92 then [CHR 0x5C, c]
      else if n = 9 then [CHR 0x5C, CHR ''t'']
      else if n = 10 then [CHR 0x5C, CHR ''n'']
      else if n = 13 then [CHR 0x5C, CHR ''r'']
      else if n < 32 \<or> (127 \<le> n \<and> n < 161) \<or> n = 173
      then [CHR 0x5C, CHR ''x'', hex_digit (n div 16), hex_digit (n mod 16)]
      else [c])"

definition py_repr :: "string \<Rightarrow> string" where
  "py_repr s =
     (let q = (if CHR 0x27 \<in> set s \<and> CHR 0x22 \<notin> set s then CHR 0x22 else CHR 0x27)
      in [q] @ concat (map (repr_char q) s) @ [q])"

definition dec_int :: "int \<Rightarrow> string" where
  "dec_int i = (if i < 0 then ''-'' @ dec (nat (- i)) else dec (nat i))"

text \<open>\<open>int(s)\<close> of a string of digits.\<close>

definition digits_value :: "string \<Rightarrow> nat" where
  "digits_value s = foldl (\<lambda>n c. 10 * n + (of_char c - 48)) 0 s"

section \<open>Plans\<close>

record proof_plan =
  pp_vulnerability_type :: string
  pp_objective :: string
  pp_allowed_actions :: "string list"
  pp_expected_observation :: string
  pp_harness :: string
  pp_input_value :: string
  pp_harness_script :: string
  pp_policy :: sandbox_policy

definition SUPPORTED_PROOF_TYPES :: "string list" where
  "SUPPORTED_PROOF_TYPES = [''sql_injection'', ''command_injection'', ''ssrf'', ''deserialization'']"

definition sql_plan :: "string \<Rightarrow> proof_plan" where
  "sql_plan vt =
     \<lparr>pp_vulnerability_type = vt,
      pp_objective =
        ''Demonstrate in a controlled in-memory SQLite fixture that the '' @
        ''vulnerable construction interpolates untrusted input into the SQL '' @
        ''statement, by comparing unsafe (string construction) vs parameterized '' @
        ''execution of the same query.'',
      pp_allowed_actions =
       [''create an in-memory SQLite database inside the sandbox'',
        ''run read-only SELECT statements against the local fixture'',
        ''compare result sets of unsafe vs parameterized construction''],
      pp_expected_observation =
        ''unsafe_rows != safe_rows for the benign marker '1 OR 1=1' (no '' @
        ''external database, no writes)'',
      pp_harness = ''sql_injection_proof'',
      pp_input_value = (''1 OR 1=1''),
      pp_harness_script = sql_harness,
      pp_policy = default_policy\<rparr>"

definition cmd_plan :: "bool \<Rightarrow> string \<Rightarrow> proof_plan" where
  "cmd_plan windows vt =
     \<lparr>pp_vulnerability_type = vt,
      pp_objective =
        ''Demonstrate that the command sink interpolates untrusted input into a '' @
        ''shell command string. A harmless planner-controlled marker must be '' @
        ''the only thing that can produce a known marker file inside the '' @
        ''sandbox workspace.'',
      pp_allowed_actions =
       [''build the command string with the planner-controlled marker'',
        ''execute the benign command inside the sandbox workspace only'',
        ''verify the marker file inside the sandbox workspace''],
      pp_expected_observation =
        ''control run (no metacharacters) does NOT create the marker file; '' @
        ''marker run creates it'',
      pp_harness = ''command_injection_proof'',
      pp_input_value = (if windows then ''& echo PROVED_CMDI > prove_marker.txt'' else ''; echo PROVED_CMDI > prove_marker.txt''),
      pp_harness_script = cmd_harness,
      pp_policy = default_policy\<rparr>"

definition ssrf_plan :: "string \<Rightarrow> proof_plan" where
  "ssrf_plan vt =
     \<lparr>pp_vulnerability_type = vt,
      pp_objective =
        ''Demonstrate that controlled input reaches an HTTP request sink. The '' @
        ''destination is a harness-created, in-process HTTP server on 127.0.0.1 '' @
        ''with an OS-assigned ephemeral port - never an external host, '' @
        ''localhost service, or metadata endpoint.'',
      pp_allowed_actions =
       [''start a ThreadingHTTPServer bound to 127.0.0.1 on port 0 (ephemeral)'',
        ''perform exactly one request to the harness-generated URL'',
        ''shut the server down inside the same process''],
      pp_expected_observation =
        ''the harness-generated endpoint answers 200 with body 'proved'' @ [CHR 0x27],
      pp_harness = ''ssrf_proof'',
      pp_input_value = ([]),
      pp_harness_script = ssrf_harness,
      pp_policy = default_policy\<lparr>allow_loopback := True\<rparr>\<rparr>"

definition deser_plan :: "string \<Rightarrow> proof_plan" where
  "deser_plan vt =
     \<lparr>pp_vulnerability_type = vt,
      pp_objective =
        ''Demonstrate that controlled input reaches a deserialization sink by '' @
        ''comparing the behavior of an unsafe deserialization call '' @
        ''(pickle.loads) with a safe alternative (json.loads). The proof shows '' @
        ''that the unsafe path processes raw bytes while the safe path rejects '' @
        ''them, proving input flows into a deserialization API.'',
      pp_allowed_actions =
       [''construct a benign pickle payload containing the planner marker'',
        ''call pickle.loads in the sandbox to deserialize the marker'',
        ''call json.loads on the same bytes to show it fails'',
        ''compare the two results''],
      pp_expected_observation =
        ''pickle.loads succeeds and returns the marker object; json.loads fails '' @
        ''on the same bytes'',
      pp_harness = ''deserialization_proof'',
      pp_input_value = (''PROVE_DESER_MARKER_2024''),
      pp_harness_script = deser_harness,
      pp_policy = default_policy\<rparr>"

definition unsupported_reason :: "string \<Rightarrow> string option" where
  "unsupported_reason vt =
     (if vt \<in> set SUPPORTED_PROOF_TYPES then None
      else Some (case dget
       [(''path_traversal'',
         ''Proof requires file system interaction outside the sandbox; automated '' @
         ''PoC not supported without OS-level isolation.''),
        (''xss'',
         ''Proof requires a browser environment; automated PoC not supported '' @
         ''without headless browser sandboxing.''),
        (''idor'',
         ''Proof requires application context and authentication state; '' @
         ''automated PoC not supported.''),
        (''open_redirect'',
         ''Proof requires HTTP redirect following; automated PoC not supported '' @
         ''without network sandbox.''),
        (''xxe'',
         ''Proof requires XML parser interaction; automated PoC not supported '' @
         ''without XML processing sandbox.'')] vt of
         Some reason \<Rightarrow> reason
       | None \<Rightarrow> ''No automated proof harness exists for '' @ py_repr vt @ ''. Manual proof required.''))"

text \<open>\<open>windows\<close> is \<open>os.name == "nt"\<close>.\<close>

definition plan :: "bool \<Rightarrow> candidate_finding \<Rightarrow> proof_plan option" where
  "plan windows finding =
     (let vt = f_vulnerability_type finding in
      if vt = ''sql_injection'' then Some (sql_plan vt)
      else if vt = ''command_injection'' then Some (cmd_plan windows vt)
      else if vt = ''ssrf'' then Some (ssrf_plan vt)
      else if vt = ''deserialization'' then Some (deser_plan vt)
      else None)"

section \<open>The sandbox\<close>

datatype exec_outcome =
  Completed int string string
| Timed_out string string
| Raised string

record sandbox_env =
  se_mkdtemp :: "string + string"
  se_write_error :: "string option"
  se_execute :: "string \<Rightarrow> string list \<Rightarrow> sandbox_policy \<Rightarrow> exec_outcome"

record execution_result =
  ex_returncode :: "int option"
  ex_stdout :: string
  ex_stderr :: string
  ex_timed_out :: bool
  ex_truncated :: bool
  ex_workspace :: string

text \<open>The runner keeps the policy of its last run; \<open>rn_workspaces\<close> is the temporary directories on disk.\<close>

record runner =
  rn_policy :: sandbox_policy
  rn_workspaces :: "string list"

definition TRUNCATE_SUFFIX :: string where
  "TRUNCATE_SUFFIX = [LF] @ ''...[output truncated by sandbox policy]...''"

definition truncate_output :: "sandbox_policy \<Rightarrow> string \<Rightarrow> string" where
  "truncate_output policy s =
     (if length s \<le> max_output_bytes policy then s
      else take (max_output_bytes policy) s @ TRUNCATE_SUFFIX)"

definition sandbox_run ::
    "sandbox_env \<Rightarrow> string \<Rightarrow> string \<Rightarrow> string list \<Rightarrow> sandbox_policy option \<Rightarrow> runner
     \<Rightarrow> (string + execution_result) \<times> runner" where
  "sandbox_run env harness_name script args policy rn =
     (if harness_name \<notin> set APPROVED_HARNESSES
      then (Inl (''harness '' @ py_repr harness_name @ '' is not approved''), rn)
      else if Some script \<noteq> dget HARNESS_SCRIPTS harness_name
      then (Inl (''harness script for '' @ py_repr harness_name @ '' does not match the trusted template''), rn)
      else
        (let effective = (case policy of Some p \<Rightarrow> p | None \<Rightarrow> rn_policy rn)
               \<lparr>temporary_directory := [], allowed_paths := []\<rparr>
         in
         case se_mkdtemp env of
           Inl e \<Rightarrow> (Inl e, rn)
         | Inr workspace \<Rightarrow>
             (let pol = effective\<lparr>temporary_directory := workspace,
                          allowed_paths := workspace # allowed_paths effective\<rparr>;
                  rn1 = rn\<lparr>rn_policy := pol, rn_workspaces := workspace # rn_workspaces rn\<rparr>;
                  rn2 = rn1\<lparr>rn_workspaces := remove1 workspace (rn_workspaces rn1)\<rparr>
              in
              case se_write_error env of
                Some e \<Rightarrow> (Inl e, rn1)
              | None \<Rightarrow>
                  (case se_execute env script args pol of
                     Completed rc out err \<Rightarrow>
                       (Inr \<lparr>ex_returncode = Some rc, ex_stdout = truncate_output pol out,
                          ex_stderr = truncate_output pol err, ex_timed_out = False,
                          ex_truncated = (max_output_bytes pol < length out),
                          ex_workspace = workspace\<rparr>, rn2)
                   | Timed_out out err \<Rightarrow>
                       (Inr \<lparr>ex_returncode = None, ex_stdout = truncate_output pol out,
                          ex_stderr = truncate_output pol err, ex_timed_out = True,
                          ex_truncated = (max_output_bytes pol < length out),
                          ex_workspace = workspace\<rparr>, rn2)
                   | Raised e \<Rightarrow> (Inl e, rn2)))))"

section \<open>Interpretation\<close>

text \<open>
  \<open>re.search\<close> of the pattern \<open>A(C+)B(D+)\<close> with literal \<open>A\<close> and \<open>B\<close>, where no character of the class
  \<open>C\<close> starts \<open>B\<close>: the two groups of the leftmost match.
\<close>

definition match_groups ::
    "string \<Rightarrow> (char \<Rightarrow> bool) \<Rightarrow> string \<Rightarrow> (char \<Rightarrow> bool) \<Rightarrow> string \<Rightarrow> (string \<times> string) option" where
  "match_groups A C B D s =
     (if startswith A s then
        (let rest = drop (length A) s; g1 = takeWhile C rest; rest1 = drop (length g1) rest in
         if g1 \<noteq> [] \<and> startswith B rest1 then
           (let g2 = takeWhile D (drop (length B) rest1)
            in if g2 \<noteq> [] then Some (g1, g2) else None)
         else None)
      else None)"

fun search_groups ::
    "string \<Rightarrow> (char \<Rightarrow> bool) \<Rightarrow> string \<Rightarrow> (char \<Rightarrow> bool) \<Rightarrow> string \<Rightarrow> (string \<times> string) option" where
  "search_groups A C B D [] = match_groups A C B D []"
| "search_groups A C B D (c # cs) =
     (case match_groups A C B D (c # cs) of
        Some g \<Rightarrow> Some g | None \<Rightarrow> search_groups A C B D cs)"

definition line_artifacts :: "string \<Rightarrow> string list \<Rightarrow> proof_artifact list" where
  "line_artifacts out prefixes =
     concat (map (\<lambda>line. map (\<lambda>prefix. \<lparr>pa_name = map lower_char prefix, pa_kind = ''observation'',
                                   pa_content = drop (length prefix + 1) line\<rparr>)
                          (filter (\<lambda>prefix. startswith (prefix @ '':'') line) prefixes))
       (splitlines out))"

definition observation :: "string \<Rightarrow> proof_artifact" where
  "observation content = \<lparr>pa_name = ''observation'', pa_kind = ''observation'', pa_content = content\<rparr>"

definition interpret_sql :: "string \<Rightarrow> proof_status \<times> string \<times> proof_artifact list" where
  "interpret_sql out =
     (let artifacts = line_artifacts out [''UNSAFE_QUERY'', ''SAFE_QUERY''];
          other = (Not_verified, ''unsafe and safe constructions behaved identically'', artifacts)
      in
      case search_groups ''PROVED:unsafe_rows='' is_digit '':safe_rows='' is_digit out of
        Some (a, b) \<Rightarrow>
          if digits_value a \<noteq> digits_value b then
            (Verified,
             ''unsafe string construction returned '' @ a @ '' rows while the '' @
             ''parameterized construction returned '' @ b @ '' rows for the same '' @
             ''benign marker in the local fixture'', artifacts)
          else other
      | None \<Rightarrow> other)"

definition interpret_cmd :: "string \<Rightarrow> proof_status \<times> string \<times> proof_artifact list" where
  "interpret_cmd out =
     (if search_groups ''PROVED:control_hit='' is_digit '':injected_hit='' is_digit out = Some (''0'', ''1'')
      then
        (Verified,
         ''the benign marker produced the known marker file inside the '' @
         ''sandbox while the control value did not - the command sink '' @
         ''interpolates untrusted input into a shell command'',
         [\<lparr>pa_name = ''marker_file'', pa_kind = ''marker'',
            pa_content = ''prove_marker.txt (inside sandbox workspace)''\<rparr>])
      else (Not_verified, ''marker observation did not match expectations'', []))"

definition interpret_ssrf :: "string \<Rightarrow> proof_status \<times> string \<times> proof_artifact list" where
  "interpret_ssrf out =
     (let artifacts = line_artifacts out [''URL''] in
      if search_groups ''PROVED:status='' is_digit '':body='' is_word out = Some (''200'', ''proved'')
      then
        (Verified,
         ''the request reached the harness-created loopback endpoint '' @
         ''(127.0.0.1, ephemeral port) and got the expected controlled '' @
         ''response - input flows into an HTTP request sink'', artifacts)
      else (Not_verified, ''loopback endpoint did not answer as expected'', artifacts))"

definition interpret_deser :: "string \<Rightarrow> proof_status \<times> string \<times> proof_artifact list" where
  "interpret_deser out =
     (let artifacts = line_artifacts out [''PICKLE_OK'', ''PICKLE_MARKER'', ''JSON_OK''] in
      if search_groups ''PROVED:pickle_ok='' is_digit '':json_ok='' is_digit out = Some (''1'', ''0'')
      then
        (Verified,
         ''pickle.loads successfully deserialized the planner-controlled '' @
         ''marker while json.loads rejected the same bytes - input flows '' @
         ''into a deserialization sink that processes arbitrary payloads'', artifacts)
      else (Not_verified, ''deserialization proof observation did not match expectations'', artifacts))"

definition interpret_execution ::
    "proof_plan \<Rightarrow> execution_result \<Rightarrow> proof_status \<times> string \<times> proof_artifact list" where
  "interpret_execution p ex =
     (if ex_timed_out ex then
        (Proof_error, ''proof harness exceeded the sandbox timeout'', [observation ''timed_out''])
      else if ex_returncode ex \<noteq> Some 0 then
        (let rc = (case ex_returncode ex of None \<Rightarrow> ''None'' | Some i \<Rightarrow> dec_int i) in
         (Proof_error, ''proof harness failed (rc='' @ rc @ ''): '' @ take 200 (ex_stderr ex),
          [observation (''rc='' @ rc)]))
      else if pp_harness p = ''sql_injection_proof'' then interpret_sql (ex_stdout ex)
      else if pp_harness p = ''command_injection_proof'' then interpret_cmd (ex_stdout ex)
      else if pp_harness p = ''ssrf_proof'' then interpret_ssrf (ex_stdout ex)
      else if pp_harness p = ''deserialization_proof'' then interpret_deser (ex_stdout ex)
      else (Not_verified, ''no interpretation for harness '' @ py_repr (pp_harness p), []))"

section \<open>The service\<close>

datatype gate_error =
  No_validation_result
| Validation_mismatch
| Not_eligible verdict

definition proof_result_of ::
    "py_datetime \<Rightarrow> rat \<Rightarrow> candidate_finding \<Rightarrow> validation_result \<Rightarrow> proof_plan option \<Rightarrow> proof_status
     \<Rightarrow> string \<Rightarrow> sandbox_policy \<Rightarrow> proof_artifact list \<Rightarrow> string option \<Rightarrow> proof_result" where
  "proof_result_of now duration finding validation p status summary policy artifacts err =
     \<lparr>pr_finding_id = f_id finding, pr_vulnerability_type = f_vulnerability_type finding,
      pr_status = status, pr_confidence = vr_confidence validation, pr_summary = summary,
      pr_evidence = (case p of
         None \<Rightarrow> []
       | Some pl \<Rightarrow> [\<lparr>pa_name = ''plan'', pa_kind = ''plan'', pa_content = pp_objective pl\<rparr>,
                     \<lparr>pa_name = ''input_value'', pa_kind = ''observation'', pa_content = pp_input_value pl\<rparr>]),
      pr_artifacts = artifacts, pr_duration_ms = duration, pr_sandbox_policy = policy, pr_error = err,
      pr_created_at = now\<rparr>"

text \<open>The em dash of the unsupported summary, in UTF-8.\<close>

definition EM_DASH :: string where
  "EM_DASH = [CHR 0xE2, CHR 0x80, CHR 0x94]"

definition unsupported_summary :: "string \<Rightarrow> string" where
  "unsupported_summary vt =
     ''no proof plan exists for vulnerability type '' @ py_repr vt @
     (case unsupported_reason vt of
        None \<Rightarrow> []
      | Some reason \<Rightarrow> if reason = [] then [] else '' '' @ EM_DASH @ '' '' @ reason)"

definition prove ::
    "bool \<Rightarrow> sandbox_env \<Rightarrow> py_datetime \<Rightarrow> rat \<Rightarrow> candidate_finding \<Rightarrow> validation_result option \<Rightarrow> runner
     \<Rightarrow> (gate_error + proof_result) \<times> runner" where
  "prove windows env now duration finding validation rn =
     (case validation of
        None \<Rightarrow> (Inl No_validation_result, rn)
      | Some v \<Rightarrow>
          if vr_finding_id v \<noteq> f_id finding then (Inl Validation_mismatch, rn)
          else if vr_verdict v \<noteq> True_positive then (Inl (Not_eligible (vr_verdict v)), rn)
          else
            (case plan windows finding of
               None \<Rightarrow>
                 (Inr (proof_result_of now duration finding v None Not_verified
                    (unsupported_summary (f_vulnerability_type finding)) default_policy [] None), rn)
             | Some p \<Rightarrow>
                 (case sandbox_run env (pp_harness p) (pp_harness_script p) [pp_input_value p]
                         (Some (pp_policy p)) rn of
                    (Inl e, rn') \<Rightarrow>
                      (Inr (proof_result_of now duration finding v (Some p) Proof_error
                         ''proof harness could not be executed'' (rn_policy rn') [] (Some e)), rn')
                  | (Inr ex, rn') \<Rightarrow>
                      (case interpret_execution p ex of
                         (status, summary, artifacts) \<Rightarrow>
                           (Inr (proof_result_of now duration finding v (Some p) status summary
                              (rn_policy rn') artifacts None), rn')))))"

type_synonym 'p proof_store = "(proof_result, 'p) kstore"

definition proof_record :: "(proof_result, 'p) codec \<Rightarrow> proof_result \<Rightarrow> 'p proof_store \<Rightarrow> 'p proof_store" where
  "proof_record c r s = kstore_put c (pr_finding_id r) r s"

section \<open>Lemmas\<close>

lemmas plan_defs = sql_plan_def cmd_plan_def ssrf_plan_def deser_plan_def

lemma plan_trusted:
  assumes "plan windows f = Some p"
  shows "pp_harness p \<in> set APPROVED_HARNESSES" and "dget HARNESS_SCRIPTS (pp_harness p) = Some (pp_harness_script p)"
    and "\<not> network_enabled (pp_policy p)" and "max_processes (pp_policy p) = 1"
  using assms
  by (auto simp: plan_def Let_def plan_defs APPROVED_HARNESSES_def HARNESS_SCRIPTS_def default_policy_def
      split: if_splits)

lemma plan_supported: "plan windows f \<noteq> None \<longleftrightarrow> f_vulnerability_type f \<in> set SUPPORTED_PROOF_TYPES"
  by (auto simp: plan_def Let_def SUPPORTED_PROOF_TYPES_def)

text \<open>The policy a run executes under.\<close>

definition run_policy :: "sandbox_policy \<Rightarrow> string \<Rightarrow> sandbox_policy" where
  "run_policy p workspace = p\<lparr>temporary_directory := workspace, allowed_paths := [workspace]\<rparr>"

lemma sandbox_run_trusted:
  assumes "h \<in> set APPROVED_HARNESSES" and "dget HARNESS_SCRIPTS h = Some script"
  shows "sandbox_run env h script args (Some p) rn =
    (case se_mkdtemp env of
       Inl e \<Rightarrow> (Inl e, rn)
     | Inr w \<Rightarrow>
         (case se_write_error env of
            Some e \<Rightarrow> (Inl e, rn\<lparr>rn_policy := run_policy p w, rn_workspaces := w # rn_workspaces rn\<rparr>)
          | None \<Rightarrow>
              (case se_execute env script args (run_policy p w) of
                 Completed rc out err \<Rightarrow>
                   (Inr \<lparr>ex_returncode = Some rc, ex_stdout = truncate_output p out,
                      ex_stderr = truncate_output p err, ex_timed_out = False,
                      ex_truncated = (max_output_bytes p < length out), ex_workspace = w\<rparr>,
                    rn\<lparr>rn_policy := run_policy p w\<rparr>)
               | Timed_out out err \<Rightarrow>
                   (Inr \<lparr>ex_returncode = None, ex_stdout = truncate_output p out,
                      ex_stderr = truncate_output p err, ex_timed_out = True,
                      ex_truncated = (max_output_bytes p < length out), ex_workspace = w\<rparr>,
                    rn\<lparr>rn_policy := run_policy p w\<rparr>)
               | Raised e \<Rightarrow> (Inl e, rn\<lparr>rn_policy := run_policy p w\<rparr>))))"
proof -
  have t: "truncate_output (p\<lparr>temporary_directory := a, allowed_paths := b\<rparr>) s = truncate_output p s" for a b s
    by (simp add: truncate_output_def)
  show ?thesis
    using assms
    by (simp add: sandbox_run_def Let_def run_policy_def t split: sum.split option.split exec_outcome.split)
qed

definition eligible :: "candidate_finding \<Rightarrow> validation_result option \<Rightarrow> bool" where
  "eligible finding validation =
     (case validation of None \<Rightarrow> False
      | Some v \<Rightarrow> vr_finding_id v = f_id finding \<and> vr_verdict v = True_positive)"

lemma prove_ineligible: "\<not> eligible f v \<Longrightarrow> isl (fst (prove win env now d f v rn)) \<and> snd (prove win env now d f v rn) = rn"
  by (auto simp: prove_def eligible_def split: option.splits)

lemma prove_eligible:
  "eligible f (Some v) \<Longrightarrow> prove win env now d f (Some v) rn =
     (case plan win f of
        None \<Rightarrow> (Inr (proof_result_of now d f v None Not_verified
                   (unsupported_summary (f_vulnerability_type f)) default_policy [] None), rn)
      | Some p \<Rightarrow>
          (case sandbox_run env (pp_harness p) (pp_harness_script p) [pp_input_value p]
                  (Some (pp_policy p)) rn of
             (Inl e, rn') \<Rightarrow>
               (Inr (proof_result_of now d f v (Some p) Proof_error
                  ''proof harness could not be executed'' (rn_policy rn') [] (Some e)), rn')
           | (Inr ex, rn') \<Rightarrow>
               (case interpret_execution p ex of
                  (status, summary, artifacts) \<Rightarrow>
                    (Inr (proof_result_of now d f v (Some p) status summary
                       (rn_policy rn') artifacts None), rn'))))"
  by (simp add: prove_def eligible_def)

lemma result_fields [simp]:
  "pr_finding_id (proof_result_of now d f v p s m pol a e) = f_id f"
  "pr_status (proof_result_of now d f v p s m pol a e) = s"
  "pr_confidence (proof_result_of now d f v p s m pol a e) = vr_confidence v"
  "pr_sandbox_policy (proof_result_of now d f v p s m pol a e) = pol"
  "pr_summary (proof_result_of now d f v p s m pol a e) = m"
  by (simp_all add: proof_result_of_def)

lemma prove_total:
  assumes "eligible f (Some v)"
  shows "\<exists>r. fst (prove win env now d f (Some v) rn) = Inr r \<and> pr_finding_id r = f_id f \<and>
           pr_confidence r = vr_confidence v"
proof (cases "plan win f")
  case None
  then show ?thesis by (simp add: prove_eligible[OF assms])
next
  case (Some p)
  obtain res rn' where run: "sandbox_run env (pp_harness p) (pp_harness_script p) [pp_input_value p]
      (Some (pp_policy p)) rn = (res, rn')" by (rule prod.exhaust)
  obtain s m a where i: "interpret_execution p (projr res) = (s, m, a)" by (rule prod_cases3)
  show ?thesis using i by (cases res) (simp_all add: prove_eligible[OF assms] Some run)
qed

section \<open>The runner as a system\<close>

text \<open>
  A runner starts with the default policy and no workspace; every proof is a step. Its policy never
  opens the network.
\<close>

inductive prove_step :: "runner \<Rightarrow> runner \<Rightarrow> bool" where
  prove_stepI: "prove_step rn (snd (prove win env now d f v rn))"

inductive_cases prove_stepE: "prove_step rn rn'"

definition runner_init :: runner where
  "runner_init = \<lparr>rn_policy = default_policy, rn_workspaces = []\<rparr>"

definition confined :: "runner \<Rightarrow> bool" where
  "confined rn \<longleftrightarrow> \<not> network_enabled (rn_policy rn) \<and> max_processes (rn_policy rn) = 1"

lemma run_confined:
  assumes "plan win f = Some p" and "confined rn"
  shows "confined (snd (sandbox_run env (pp_harness p) (pp_harness_script p) args (Some (pp_policy p)) rn))"
  using assms(2) plan_trusted[OF assms(1)]
  by (auto simp: sandbox_run_trusted confined_def run_policy_def split: sum.split option.split exec_outcome.split)

lemma prove_confined:
  assumes "confined rn"
  shows "confined (snd (prove win env now d f v rn))"
proof (cases "eligible f v")
  case False
  then show ?thesis using prove_ineligible[OF False] assms by simp
next
  case True
  then obtain w where v: "v = Some w" by (cases v) (simp_all add: eligible_def)
  show ?thesis
  proof (cases "plan win f")
    case None
    then show ?thesis using assms True by (simp add: v prove_eligible)
  next
    case (Some p)
    let ?run = "sandbox_run env (pp_harness p) (pp_harness_script p) [pp_input_value p] (Some (pp_policy p)) rn"
    have "snd (prove win env now d f v rn) = snd ?run"
      using True by (simp add: v prove_eligible Some split: prod.split sum.split)
    then show ?thesis using run_confined[OF Some assms] by simp
  qed
qed

interpretation runner_sys: invariant_system "\<lambda>rn. rn = runner_init" prove_step confined
proof
  show "confined rn" if "rn = runner_init" for rn
    using that by (simp add: confined_def runner_init_def default_policy_def)
  show "confined rn'" if "confined rn" and "prove_step rn rn'" for rn rn'
    using that(2,1) by (auto elim!: prove_stepE intro: prove_confined)
qed

section \<open>Properties\<close>

text \<open>The verdict gate: a proof result comes out exactly for a finding whose own validation result is a true
  positive, whatever the sandbox does, and it is about that finding with the validation's confidence; in
  every other case there is a gate error and the runner is untouched.\<close>

theorem prove_gate:
  "(if eligible f v
    then \<exists>r. fst (prove win env now d f v rn) = Inr r \<and> pr_finding_id r = f_id f \<and>
           Some (pr_confidence r) = map_option vr_confidence v
    else isl (fst (prove win env now d f v rn)) \<and> snd (prove win env now d f v rn) = rn)"
  using prove_ineligible prove_total by (cases v) (auto simp: eligible_def)

text \<open>What the harness must print for a type to count as proved.\<close>

definition proved_output :: "string \<Rightarrow> string \<Rightarrow> bool" where
  "proved_output vt out =
     (if vt = ''sql_injection'' then
        (case search_groups ''PROVED:unsafe_rows='' is_digit '':safe_rows='' is_digit out of
           Some (a, b) \<Rightarrow> digits_value a \<noteq> digits_value b | None \<Rightarrow> False)
      else if vt = ''command_injection'' then
        search_groups ''PROVED:control_hit='' is_digit '':injected_hit='' is_digit out = Some (''0'', ''1'')
      else if vt = ''ssrf'' then
        search_groups ''PROVED:status='' is_digit '':body='' is_word out = Some (''200'', ''proved'')
      else if vt = ''deserialization'' then
        search_groups ''PROVED:pickle_ok='' is_digit '':json_ok='' is_digit out = Some (''1'', ''0'')
      else False)"

lemma interpret_parts:
  "fst (interpret_sql out) = Verified \<longleftrightarrow> proved_output ''sql_injection'' out"
  "fst (interpret_cmd out) = Verified \<longleftrightarrow> proved_output ''command_injection'' out"
  "fst (interpret_ssrf out) = Verified \<longleftrightarrow> proved_output ''ssrf'' out"
  "fst (interpret_deser out) = Verified \<longleftrightarrow> proved_output ''deserialization'' out"
  by (simp_all add: interpret_sql_def interpret_cmd_def interpret_ssrf_def interpret_deser_def Let_def
      proved_output_def split: option.split)

lemma interpret_harness:
  assumes "\<not> ex_timed_out ex" and "ex_returncode ex = Some 0"
  shows "pp_harness p = ''sql_injection_proof'' \<Longrightarrow> interpret_execution p ex = interpret_sql (ex_stdout ex)"
    and "pp_harness p = ''command_injection_proof'' \<Longrightarrow> interpret_execution p ex = interpret_cmd (ex_stdout ex)"
    and "pp_harness p = ''ssrf_proof'' \<Longrightarrow> interpret_execution p ex = interpret_ssrf (ex_stdout ex)"
    and "pp_harness p = ''deserialization_proof'' \<Longrightarrow> interpret_execution p ex = interpret_deser (ex_stdout ex)"
  using assms by (simp_all add: interpret_execution_def)

lemma plan_harness:
  assumes "plan win f = Some p"
  shows "(f_vulnerability_type f = ''sql_injection'' \<and> pp_harness p = ''sql_injection_proof'') \<or>
    (f_vulnerability_type f = ''command_injection'' \<and> pp_harness p = ''command_injection_proof'') \<or>
    (f_vulnerability_type f = ''ssrf'' \<and> pp_harness p = ''ssrf_proof'') \<or>
    (f_vulnerability_type f = ''deserialization'' \<and> pp_harness p = ''deserialization_proof'')"
  using assms by (auto simp: plan_def Let_def plan_defs split: if_splits)

lemma interpret_verified_iff:
  assumes "plan win f = Some p"
  shows "fst (interpret_execution p ex) = Verified \<longleftrightarrow>
    \<not> ex_timed_out ex \<and> ex_returncode ex = Some 0 \<and> proved_output (f_vulnerability_type f) (ex_stdout ex)"
proof (cases "\<not> ex_timed_out ex \<and> ex_returncode ex = Some 0")
  case True
  then show ?thesis
    using plan_harness[OF assms]
    by (elim disjE conjE) (simp_all only: interpret_harness interpret_parts True simp_thms)
next
  case False
  then show ?thesis by (auto simp: interpret_execution_def Let_def)
qed

text \<open>The run that a verified result rests on.\<close>

definition proving_run :: "bool \<Rightarrow> sandbox_env \<Rightarrow> candidate_finding \<Rightarrow> bool" where
  "proving_run win env f =
     (case (plan win f, se_mkdtemp env, se_write_error env) of
        (Some p, Inr w, None) \<Rightarrow>
          (case se_execute env (pp_harness_script p) [pp_input_value p] (run_policy (pp_policy p) w) of
             Completed rc out err \<Rightarrow>
               rc = 0 \<and> proved_output (f_vulnerability_type f) (truncate_output (pp_policy p) out)
           | _ \<Rightarrow> False)
      | _ \<Rightarrow> False)"


definition sample_finding :: candidate_finding where
  "sample_finding = \<lparr>f_id = ''f'', f_vulnerability_type = ''ssrf'', f_severity = ''high'', f_confidence = 90,
     f_source = \<lparr>src_file = ''a.py'', src_line = 1, src_snippet = [], src_kind = ''request_param''\<rparr>,
     f_sink = \<lparr>snk_file = ''a.py'', snk_line = 2, snk_snippet = [], snk_kind = ''http_request''\<rparr>,
     f_taint_path = [], f_evidence = \<lparr>ev_source_snippet = [], ev_sink_snippet = [], ev_taint_path = [],
       ev_relevant_lines = [], ev_sanitizer_observations = []\<rparr>\<rparr>"

definition sample_validation :: "verdict \<Rightarrow> validation_result" where
  "sample_validation vd = \<lparr>vr_finding_id = ''f'', vr_verdict = vd, vr_confidence = 1, vr_reasoning = [],
     vr_evidence_used = [], vr_missing_evidence = [], vr_next_step = Step_prove, vr_model = None,
     vr_validated_at = utc 0, vr_evidence = None, vr_metadata = None\<rparr>"

definition sample_env :: "string \<Rightarrow> sandbox_env" where
  "sample_env out = \<lparr>se_mkdtemp = Inr ''/tmp/w'', se_write_error = None,
     se_execute = (\<lambda>_ _ _. Completed 0 out [])\<rparr>"


text \<open>Two operating systems that agree on everything a proof may do: run a trusted script under a policy
  without network, for one process, that allows the workspace only.\<close>

definition agree_on_trusted :: "sandbox_env \<Rightarrow> sandbox_env \<Rightarrow> bool" where
  "agree_on_trusted a b \<longleftrightarrow> se_mkdtemp a = se_mkdtemp b \<and> se_write_error a = se_write_error b \<and>
     (\<forall>script args pol. script \<in> snd ` set HARNESS_SCRIPTS \<and> \<not> network_enabled pol \<and> max_processes pol = 1 \<and>
        allowed_paths pol = [temporary_directory pol] \<longrightarrow>
        se_execute a script args pol = se_execute b script args pol)"

lemma sandbox_run_agree:
  assumes "plan win f = Some p" and "agree_on_trusted a b"
  shows "sandbox_run a (pp_harness p) (pp_harness_script p) args (Some (pp_policy p)) rn =
         sandbox_run b (pp_harness p) (pp_harness_script p) args (Some (pp_policy p)) rn"
proof -
  note t = plan_trusted[OF assms(1)]
  have "pp_harness_script p \<in> snd ` set HARNESS_SCRIPTS" using t(2) by (force dest: map_of_SomeD)
  then have "se_execute a (pp_harness_script p) args (run_policy (pp_policy p) w) =
      se_execute b (pp_harness_script p) args (run_policy (pp_policy p) w)" for w
    using assms(2) t(3,4) by (simp add: agree_on_trusted_def run_policy_def)
  then show ?thesis
    using assms(2) by (simp add: sandbox_run_trusted[OF t(1,2)] agree_on_trusted_def split: sum.split option.split)
qed

text \<open>PROVE executes nothing but its trusted harness templates, each with no network, one process and the
  workspace as the only allowed path: what the system would do with any other script or policy makes no
  difference to a proof.\<close>

theorem prove_runs_only_trusted:
  assumes "agree_on_trusted a b"
  shows "prove win a now d f v rn = prove win b now d f v rn"
proof (cases "eligible f v")
  case True
  then obtain w where v: "v = Some w" by (cases v) (simp_all add: eligible_def)
  show ?thesis
    using sandbox_run_agree[OF _ assms] True by (simp add: v prove_eligible split: option.split)
next
  case False
  then show ?thesis by (auto simp: prove_def eligible_def split: option.splits)
qed

definition sample_env' :: sandbox_env where
  "sample_env' = (sample_env ''PROVED:status=200:body=proved'')
     \<lparr>se_execute := (\<lambda>script _ pol. if script \<in> snd ` set HARNESS_SCRIPTS \<and> \<not> network_enabled pol
        then Completed 0 ''PROVED:status=200:body=proved'' [] else Raised ''rm -rf /'')\<rparr>"

theorem prove_runs_only_trusted_witness:
  "prove False (sample_env ''PROVED:status=200:body=proved'') (utc 0) 1 sample_finding
     (Some (sample_validation True_positive)) runner_init =
   prove False sample_env' (utc 0) 1 sample_finding (Some (sample_validation True_positive)) runner_init"
  by (rule prove_runs_only_trusted) (simp add: agree_on_trusted_def sample_env'_def sample_env_def)



text \<open>A proof does not depend on the finding's code: for two eligible findings of one type, the same
  system gives the same status and summary, whatever their files, lines, snippets and paths are.\<close>

theorem proof_ignores_the_code:
  assumes "f_vulnerability_type f = f_vulnerability_type g" and "eligible f (Some v)" and "eligible g (Some w)"
  shows "map_sum id (\<lambda>r. (pr_status r, pr_summary r)) (fst (prove win env now d f (Some v) rn)) =
         map_sum id (\<lambda>r. (pr_status r, pr_summary r)) (fst (prove win env now d g (Some w) rn))"
proof -
  have "plan win f = plan win g" using assms(1) by (simp add: plan_def)
  then show ?thesis
    using assms by (auto simp: prove_eligible split: option.splits prod.splits sum.splits)
qed

theorem proof_ignores_the_code_witness:
  "map_sum id (\<lambda>r. (pr_status r, pr_summary r)) (fst (prove False (sample_env []) (utc 0) 1
     sample_finding (Some (sample_validation True_positive)) runner_init)) =
   map_sum id (\<lambda>r. (pr_status r, pr_summary r)) (fst (prove False (sample_env []) (utc 0) 1
     (sample_finding\<lparr>f_taint_path := [sample_step]\<rparr>) (Some (sample_validation True_positive)) runner_init))"
  by (rule proof_ignores_the_code) (simp_all add: eligible_def sample_finding_def sample_validation_def)

text \<open>The temporary workspace of an approved run is gone afterwards on every path, a timeout and an exception
  of the subprocess included, with one exception: when writing the harness script into it fails, the
  workspace stays behind.\<close>

theorem workspace_cleanup:
  assumes "h \<in> set APPROVED_HARNESSES" and "dget HARNESS_SCRIPTS h = Some script"
  shows "rn_workspaces (snd (sandbox_run env h script args (Some p) rn)) =
    (case (se_mkdtemp env, se_write_error env) of
       (Inr w, Some e) \<Rightarrow> w # rn_workspaces rn
     | _ \<Rightarrow> rn_workspaces rn)"
  by (simp add: sandbox_run_trusted[OF assms] split: sum.split option.split exec_outcome.split)

theorem workspace_cleanup_witness:
  "rn_workspaces (snd (sandbox_run ((sample_env [])\<lparr>se_write_error := Some ''disk full''\<rparr>) ''ssrf_proof''
     ssrf_harness [] (Some default_policy) runner_init)) = [''/tmp/w'']"
  by (subst workspace_cleanup)
    (simp_all add: APPROVED_HARNESSES_def HARNESS_SCRIPTS_def sample_env_def runner_init_def)

end
