(* ===== verification/Risk.thy ===== *)
theory Risk
  imports Prove
begin

text \<open>
  Risk scoring and SLA tracking (backend/app/risk/): the scorer and its policy, the SLA policy and service, the
  risk, SLA and escalation stores with their atomic check, the background evaluator's cycle, and the
  operations the API handlers compose from them (backend/app/api/routes/risk.py).

  Durations are microseconds. \<open>isoformat\<close> of the standard library is an argument where a
  reason text is built; clocks are arguments.
\<close>

section \<open>Contracts and policies\<close>

datatype priority = P0 | P1 | P2 | P3 | P4
datatype sla_status = Not_applicable | Sla_active | Breached | Resolved

record risk_factor =
  rf_name :: string
  rf_value :: string
  rf_points :: int
  rf_description :: string

record risk_assessment =
  rk_finding_id :: string
  rk_vulnerability_type :: string
  rk_severity :: string
  rk_risk_score :: int
  rk_priority :: priority
  rk_factors :: "risk_factor list"
  rk_assessed_at :: py_datetime
  rk_related_finding_ids :: "string list"

record sla_record =
  sl_finding_id :: string
  sl_priority :: priority
  sl_started_at :: py_datetime
  sl_due_at :: "py_datetime option"
  sl_status :: sla_status
  sl_breached_at :: "py_datetime option"
  sl_escalation_level :: nat
  sl_last_checked_at :: "py_datetime option"
  sl_resolved_at :: "py_datetime option"

record escalation_event =
  es_finding_id :: string
  es_previous_level :: nat
  es_new_level :: nat
  es_reason :: string
  es_created_at :: py_datetime

definition hours :: "int \<Rightarrow> int" where
  "hours n = n * 3600 * 1000000"

definition DEFAULT_DEADLINES :: "(priority, int option) dict" where
  "DEFAULT_DEADLINES = [(P0, Some (hours 4)), (P1, Some (hours 24)), (P2, Some (hours 72)),
     (P3, Some (hours 168)), (P4, None)]"

type_synonym sla_policy = "(priority, int option) dict"

definition duration_for :: "sla_policy \<Rightarrow> priority \<Rightarrow> int option" where
  "duration_for policy p = (case dget policy p of None \<Rightarrow> None | Some d \<Rightarrow> d)"

record risk_policy =
  severity_weights :: "(string, int) dict"
  validated_bonus :: int
  proof_bonus :: int
  proof_increases_priority :: bool
  priority_thresholds :: "(int \<times> priority) list"

definition SEVERITY_WEIGHTS :: "(string, int) dict" where
  "SEVERITY_WEIGHTS =
     [(''critical'', 100), (''high'', 75), (''medium'', 50), (''low'', 25), (''info'', 5)]"

definition PRIORITY_THRESHOLDS :: "(int \<times> priority) list" where
  "PRIORITY_THRESHOLDS = [(90, P0), (75, P1), (50, P2), (25, P3), (0, P4)]"

definition default_risk_policy :: risk_policy where
  "default_risk_policy =
     \<lparr>severity_weights = SEVERITY_WEIGHTS, validated_bonus = 10, proof_bonus = 10,
      proof_increases_priority = True, priority_thresholds = PRIORITY_THRESHOLDS\<rparr>"

section \<open>Scoring\<close>

text \<open>\<open>str.upper\<close> on the letters of a severity.\<close>

definition upper_char :: "char \<Rightarrow> char" where
  "upper_char c = (let n = of_char c :: nat in
     if (97 \<le> n \<and> n \<le> 122) \<or> (224 \<le> n \<and> n \<le> 254 \<and> n \<noteq> 247) then char_of (n - 32) else c)"

definition priority_for :: "risk_policy \<Rightarrow> int \<Rightarrow> priority" where
  "priority_for policy score =
     (case find (\<lambda>(threshold, p). threshold \<le> score) (priority_thresholds policy) of
        Some (_, p) \<Rightarrow> p | None \<Rightarrow> P4)"

definition severity_factor :: "risk_policy \<Rightarrow> string \<Rightarrow> int \<times> risk_factor" where
  "severity_factor policy sev_name =
     (case dget (severity_weights policy) (map lower_char sev_name) of
        None \<Rightarrow> (0, \<lparr>rf_name = ''severity'', rf_value = sev_name, rf_points = 0,
                 rf_description = ''severity not in the known weight table; weighted 0 (not fabricated)''\<rparr>)
      | Some w \<Rightarrow> (w, \<lparr>rf_name = ''severity'', rf_value = sev_name, rf_points = w,
                 rf_description = ''base severity weight ('' @ map upper_char sev_name @ '' = '' @
                   dec_int w @ '')''\<rparr>))"

definition validation_factor :: "risk_policy \<Rightarrow> verdict option \<Rightarrow> int \<times> risk_factor list" where
  "validation_factor policy v =
     (case v of
        Some True_positive \<Rightarrow>
          (validated_bonus policy,
           [\<lparr>rf_name = ''validation'', rf_value = ''true_positive'', rf_points = validated_bonus policy,
              rf_description = ''validated as a true positive (exploitable candidate)''\<rparr>])
      | Some Uncertain \<Rightarrow>
          (0, [\<lparr>rf_name = ''validation'', rf_value = ''uncertain'', rf_points = 0,
                 rf_description = ''validation uncertain - not confirmed, no bonus''\<rparr>])
      | _ \<Rightarrow> (0, []))"

definition proof_factor :: "risk_policy \<Rightarrow> proof_status option \<Rightarrow> int \<times> risk_factor list" where
  "proof_factor policy p =
     (if p = Some Verified then
        (if proof_increases_priority policy then
           (proof_bonus policy,
            [\<lparr>rf_name = ''proof'', rf_value = ''verified'', rf_points = proof_bonus policy,
               rf_description = ''sandboxed proof verified exploitability''\<rparr>])
         else
           (0, [\<lparr>rf_name = ''proof'', rf_value = ''verified'', rf_points = 0,
                  rf_description = ''proof verified but policy does not increase priority''\<rparr>]))
      else (0, []))"

definition risk_score ::
    "risk_policy \<Rightarrow> candidate_finding \<Rightarrow> validation_result option \<Rightarrow> proof_result option
     \<Rightarrow> int \<times> priority \<times> risk_factor list" where
  "risk_score policy finding validation proof =
     (if map_option vr_verdict validation = Some False_positive then
        (0, P4, [\<lparr>rf_name = ''validation'', rf_value = ''false_positive'', rf_points = 0,
                   rf_description = ''LLM validation concluded the finding is a false positive; no risk assigned''\<rparr>])
      else
        (let (weight, sev) = severity_factor policy (f_severity finding);
             (vp, vfs) = validation_factor policy (map_option vr_verdict validation);
             (pp, pfs) = proof_factor policy (map_option pr_status proof);
             score = max 0 (min 100 (weight + vp + pp))
         in (score, priority_for policy score, sev # vfs @ pfs)))"

definition assess ::
    "risk_policy \<Rightarrow> candidate_finding \<Rightarrow> validation_result option \<Rightarrow> proof_result option \<Rightarrow> py_datetime
     \<Rightarrow> risk_assessment" where
  "assess policy finding validation proof assessed_at =
     (let (score, prio, factors) = risk_score policy finding validation proof in
      \<lparr>rk_finding_id = f_id finding, rk_vulnerability_type = f_vulnerability_type finding,
       rk_severity = f_severity finding, rk_risk_score = score, rk_priority = prio, rk_factors = factors,
       rk_assessed_at = assessed_at, rk_related_finding_ids = []\<rparr>)"

section \<open>The SLA service\<close>

text \<open>\<open>None\<close> is the \<open>ValueError\<close> for a naive datetime.\<close>

definition aware_utc :: "py_datetime \<Rightarrow> py_datetime option" where
  "aware_utc d = (case d of Naive _ \<Rightarrow> None | Aware w off \<Rightarrow> Some (Aware (w - off) 0))"

fun add_micros :: "py_datetime \<Rightarrow> int \<Rightarrow> py_datetime" where
  "add_micros (Naive w) d = Naive (w + d)"
| "add_micros (Aware w off) d = Aware (w + d) off"

fun priority_text :: "priority \<Rightarrow> string" where
  "priority_text P0 = ''P0''"
| "priority_text P1 = ''P1''"
| "priority_text P2 = ''P2''"
| "priority_text P3 = ''P3''"
| "priority_text P4 = ''P4''"

definition create_sla :: "sla_policy \<Rightarrow> risk_assessment \<Rightarrow> py_datetime \<Rightarrow> sla_record option" where
  "create_sla policy a started_at =
     (case aware_utc started_at of
        None \<Rightarrow> None
      | Some started \<Rightarrow>
          (let rec = \<lparr>sl_finding_id = rk_finding_id a, sl_priority = rk_priority a, sl_started_at = started,
                  sl_due_at = None, sl_status = Not_applicable, sl_breached_at = None,
                  sl_escalation_level = 0, sl_last_checked_at = None, sl_resolved_at = None\<rparr>
           in
           case duration_for policy (rk_priority a) of
             None \<Rightarrow> Some rec
           | Some d \<Rightarrow> Some (rec\<lparr>sl_due_at := Some (add_micros started d), sl_status := Sla_active\<rparr>)))"

definition check_sla ::
    "(py_datetime \<Rightarrow> string) \<Rightarrow> sla_record \<Rightarrow> py_datetime \<Rightarrow> (sla_record \<times> escalation_event option) option" where
  "check_sla isof rec at_time =
     (case aware_utc at_time of
        None \<Rightarrow> None
      | Some now \<Rightarrow>
          Some
            (if sl_status rec = Resolved then (rec\<lparr>sl_last_checked_at := Some now\<rparr>, None)
             else
               (case sl_due_at rec of
                  None \<Rightarrow> (rec\<lparr>sl_status := Not_applicable, sl_last_checked_at := Some now\<rparr>, None)
                | Some due \<Rightarrow>
                    if sl_status rec = Breached then (rec\<lparr>sl_last_checked_at := Some now\<rparr>, None)
                    else if utc_instant (as_aware_utc due) \<le> utc_instant now then
                      (rec\<lparr>sl_status := Breached, sl_breached_at := Some now,
                           sl_escalation_level := sl_escalation_level rec + 1,
                           sl_last_checked_at := Some now\<rparr>,
                       Some \<lparr>es_finding_id = sl_finding_id rec,
                          es_previous_level = sl_escalation_level rec,
                          es_new_level = sl_escalation_level rec + 1,
                          es_reason = ''SLA breached for '' @ priority_text (sl_priority rec) @ '': due '' @
                            isof (as_aware_utc due) @ '' exceeded at '' @ isof now,
                          es_created_at = now\<rparr>)
                    else (rec\<lparr>sl_status := Sla_active, sl_last_checked_at := Some now\<rparr>, None))))"

definition resolve_sla :: "sla_record \<Rightarrow> py_datetime \<Rightarrow> sla_record option" where
  "resolve_sla rec at_time =
     (if sl_status rec = Resolved then Some rec
      else (case aware_utc at_time of
              None \<Rightarrow> None
            | Some now \<Rightarrow> Some (rec\<lparr>sl_status := Resolved, sl_resolved_at := Some now\<rparr>)))"

fun check_all ::
    "(py_datetime \<Rightarrow> string) \<Rightarrow> sla_record list \<Rightarrow> py_datetime \<Rightarrow> (sla_record \<times> escalation_event option) list option" where
  "check_all isof [] now = Some []"
| "check_all isof (rec # recs) now =
     (case check_sla isof rec now of
        None \<Rightarrow> None
      | Some x \<Rightarrow> (case check_all isof recs now of None \<Rightarrow> None | Some xs \<Rightarrow> Some (x # xs)))"

section \<open>Stores\<close>

text \<open>
  The three module-level dictionaries. The SLA-event table has a key of its own, so its rows are only
  the finding id column and the payload, in insertion order.
\<close>

record ('a, 'b, 'c) risk_state =
  risk_store :: "(risk_assessment, 'a) kstore"
  sla_store :: "(sla_record, 'b) kstore"
  escalation_store :: "(string, escalation_event list) dict"
  escalation_rows :: "(string \<times> 'c) list option"

type_synonym ('a, 'b, 'c) risk_codecs =
  "(risk_assessment, 'a) codec \<times> (sla_record, 'b) codec \<times> (escalation_event, 'c) codec"

definition record_risk ::
    "('a, 'b, 'c) risk_codecs \<Rightarrow> risk_assessment \<Rightarrow> ('a, 'b, 'c) risk_state \<Rightarrow> ('a, 'b, 'c) risk_state" where
  "record_risk c a s = s\<lparr>risk_store := kstore_put (fst c) (rk_finding_id a) a (risk_store s)\<rparr>"

definition record_sla ::
    "('a, 'b, 'c) risk_codecs \<Rightarrow> sla_record \<Rightarrow> ('a, 'b, 'c) risk_state \<Rightarrow> ('a, 'b, 'c) risk_state" where
  "record_sla c rec s = s\<lparr>sla_store := kstore_put (fst (snd c)) (sl_finding_id rec) rec (sla_store s)\<rparr>"

definition record_escalation ::
    "('a, 'b, 'c) risk_codecs \<Rightarrow> escalation_event \<Rightarrow> ('a, 'b, 'c) risk_state \<Rightarrow> ('a, 'b, 'c) risk_state" where
  "record_escalation c e s =
     s\<lparr>escalation_store := dappend (es_finding_id e) e (escalation_store s),
       escalation_rows := map_option (\<lambda>rows. rows @ [(es_finding_id e, dump (snd (snd c)) e)]) (escalation_rows s)\<rparr>"

definition get_escalations :: "('a, 'b, 'c) risk_state \<Rightarrow> string \<Rightarrow> escalation_event list" where
  "get_escalations s fid = dget_list (escalation_store s) fid"

definition get_sla :: "('a, 'b, 'c) risk_state \<Rightarrow> string \<Rightarrow> sla_record option" where
  "get_sla s fid = kstore_get (sla_store s) fid"

text \<open>
  \<open>check_and_persist_sla\<close>, whose lock makes it one step. The result is \<open>None\<close> when the clock is naive
  (the exception), otherwise the updated record and its event, if there is a record.
\<close>

definition check_and_persist_sla ::
    "('a, 'b, 'c) risk_codecs \<Rightarrow> (py_datetime \<Rightarrow> string) \<Rightarrow> string \<Rightarrow> py_datetime \<Rightarrow> ('a, 'b, 'c) risk_state
     \<Rightarrow> (sla_record \<times> escalation_event option) option option \<times> ('a, 'b, 'c) risk_state" where
  "check_and_persist_sla c isof fid now s =
     (case get_sla s fid of
        None \<Rightarrow> (Some None, s)
      | Some rec \<Rightarrow>
          (case check_sla isof rec now of
             None \<Rightarrow> (None, s)
           | Some (updated, event) \<Rightarrow>
               (let s1 = (if updated \<noteq> rec then record_sla c updated s else s);
                    s2 = (case event of None \<Rightarrow> s1 | Some e \<Rightarrow> record_escalation c e s1)
                in (Some (Some (updated, event)), s2))))"

definition remove_finding_state ::
    "string \<Rightarrow> ('a, 'b, 'c) risk_state \<Rightarrow> ('a, 'b, 'c) risk_state" where
  "remove_finding_state fid s =
     s\<lparr>risk_store := kstore_remove fid (risk_store s), sla_store := kstore_remove fid (sla_store s),
       escalation_store := dpop fid (escalation_store s),
       escalation_rows := map_option (filter (\<lambda>row. fst row \<noteq> fid)) (escalation_rows s)\<rparr>"

definition reset_risk_stores :: "('a, 'b, 'c) risk_state \<Rightarrow> ('a, 'b, 'c) risk_state" where
  "reset_risk_stores s =
     s\<lparr>risk_store := kstore_clear (risk_store s), sla_store := kstore_clear (sla_store s),
       escalation_store := [], escalation_rows := map_option (\<lambda>_. []) (escalation_rows s)\<rparr>"

text \<open>
  \<open>set_risk_store_factory\<close>: one factory serves the three tables; the caches are cleared first and
  rebuilt one after the other, so a row that does not validate leaves the later ones empty. The events of each
  finding are then sorted by their time.
\<close>

definition sort_events :: "escalation_event list \<Rightarrow> escalation_event list" where
  "sort_events es = sort_key (\<lambda>e. utc_instant (as_aware_utc (es_created_at e))) es"

definition set_risk_store_factory ::
    "('a, 'b, 'c) risk_codecs \<Rightarrow> ((string, 'a) dict \<times> (string, 'b) dict \<times> (string \<times> 'c) list) option
     \<Rightarrow> ('a, 'b, 'c) risk_state \<Rightarrow> bool \<times> ('a, 'b, 'c) risk_state" where
  "set_risk_store_factory c f s =
     (let cleared = s\<lparr>risk_store := \<lparr>cache = [], factory = map_option fst f\<rparr>,
            sla_store := \<lparr>cache = [], factory = map_option (\<lambda>x. fst (snd x)) f\<rparr>,
            escalation_store := [], escalation_rows := map_option (\<lambda>x. snd (snd x)) f\<rparr>
      in
      case db_load_all (fst c) (factory (risk_store cleared)) of
        None \<Rightarrow> (False, cleared)
      | Some risks \<Rightarrow>
          (let s1 = cleared\<lparr>risk_store := (risk_store cleared)\<lparr>cache := dput_all risks []\<rparr>\<rparr> in
           case db_load_all (fst (snd c)) (factory (sla_store s1)) of
             None \<Rightarrow> (False, s1)
           | Some slas \<Rightarrow>
               (let s2 = s1\<lparr>sla_store := (sla_store s1)\<lparr>cache := dput_all slas []\<rparr>\<rparr> in
                case db_load_all (snd (snd c)) (escalation_rows s2) of
                  None \<Rightarrow> (False, s2)
                | Some evs \<Rightarrow>
                    (True, s2\<lparr>escalation_store :=
                       dmap sort_events (fold (\<lambda>(_, e). dappend (es_finding_id e) e) evs [])\<rparr>))))"

section \<open>Handlers\<close>

definition assess_risk ::
    "('a, 'b, 'c) risk_codecs \<Rightarrow> risk_policy \<Rightarrow> candidate_finding \<Rightarrow> validation_result option \<Rightarrow> proof_result option
     \<Rightarrow> py_datetime \<Rightarrow> ('a, 'b, 'c) risk_state \<Rightarrow> risk_assessment \<times> ('a, 'b, 'c) risk_state" where
  "assess_risk c policy finding validation proof now s =
     (let a = assess policy finding validation proof now in (a, record_risk c a s))"

text \<open>\<open>_start_sla\<close>; \<open>None\<close> when there is no assessment (404). The clock of the service is aware.\<close>

definition start_sla ::
    "('a, 'b, 'c) risk_codecs \<Rightarrow> sla_policy \<Rightarrow> string \<Rightarrow> int \<Rightarrow> ('a, 'b, 'c) risk_state
     \<Rightarrow> sla_record option \<times> ('a, 'b, 'c) risk_state" where
  "start_sla c policy fid now s =
     (case kstore_get (risk_store s) fid of
        None \<Rightarrow> (None, s)
      | Some a \<Rightarrow>
          (let fresh = (case create_sla policy a (utc now) of
                  None \<Rightarrow> (None, s) | Some rec \<Rightarrow> (Some rec, record_sla c rec s))
           in
           case get_sla s fid of
             None \<Rightarrow> fresh
           | Some existing \<Rightarrow> if sl_priority existing = rk_priority a then (Some existing, s) else fresh))"

text \<open>The handler of \<open>/sla/resolve\<close>: it reads the record, resolves it and writes it back.\<close>

definition resolve_handler ::
    "('a, 'b, 'c) risk_codecs \<Rightarrow> string \<Rightarrow> py_datetime \<Rightarrow> ('a, 'b, 'c) risk_state
     \<Rightarrow> sla_record option \<times> ('a, 'b, 'c) risk_state" where
  "resolve_handler c fid now s =
     (case get_sla s fid of
        None \<Rightarrow> (None, s)
      | Some rec \<Rightarrow>
          (case resolve_sla rec now of None \<Rightarrow> (None, s) | Some upd \<Rightarrow> (Some upd, record_sla c upd s)))"

section \<open>The evaluator\<close>

record evaluation_stats =
  st_inspected :: nat
  st_breached :: nat
  st_skipped :: nat
  st_errors :: nat
  st_at :: py_datetime

definition evaluate_record ::
    "('a, 'b, 'c) risk_codecs \<Rightarrow> (py_datetime \<Rightarrow> string) \<Rightarrow> py_datetime \<Rightarrow> sla_record
     \<Rightarrow> evaluation_stats \<times> ('a, 'b, 'c) risk_state \<Rightarrow> evaluation_stats \<times> ('a, 'b, 'c) risk_state" where
  "evaluate_record c isof now rec acc =
     (case acc of (st, s) \<Rightarrow>
        if sl_status rec \<noteq> Sla_active then (st\<lparr>st_skipped := st_skipped st + 1\<rparr>, s)
        else
          (case check_and_persist_sla c isof (sl_finding_id rec) now s of
             (None, s') \<Rightarrow> (st\<lparr>st_errors := st_errors st + 1\<rparr>, s')
           | (Some (Some (updated, Some event)), s') \<Rightarrow> (st\<lparr>st_breached := st_breached st + 1\<rparr>, s')
           | (Some _, s') \<Rightarrow> (st, s')))"

definition evaluate_once ::
    "('a, 'b, 'c) risk_codecs \<Rightarrow> (py_datetime \<Rightarrow> string) \<Rightarrow> py_datetime \<Rightarrow> ('a, 'b, 'c) risk_state
     \<Rightarrow> evaluation_stats \<times> ('a, 'b, 'c) risk_state" where
  "evaluate_once c isof now s =
     (let records = sort_key sl_finding_id (kstore_all (sla_store s)) in
      fold (evaluate_record c isof now) records
        (\<lparr>st_inspected = length records, st_breached = 0, st_skipped = 0, st_errors = 0, st_at = now\<rparr>, s))"

end
