(* ===== verification/Risk_Properties.thy ===== *)
theory Risk_Properties
  imports Risk
begin

text \<open>
  Properties of risk scoring and SLA tracking: the score is explained by its factors, evidence never lowers
  it, an SLA breaches exactly once, and the stores keep the tie between records and escalation events under
  every operation.
\<close>

section \<open>Priorities\<close>

fun rank :: "priority \<Rightarrow> nat" where
  "rank P0 = 0" | "rank P1 = 1" | "rank P2 = 2" | "rank P3 = 3" | "rank P4 = 4"

lemma rank_inj: "rank p = rank q \<Longrightarrow> p = q"
  by (cases p; cases q) simp_all

text \<open>The order of urgency: \<open>P0\<close> is the least, \<open>P4\<close> the greatest.\<close>

instantiation priority :: linorder
begin

definition less_eq_priority_def: "p \<le> q \<longleftrightarrow> rank p \<le> rank q"
definition less_priority_def: "p < q \<longleftrightarrow> rank p < rank q"

instance
  by standard (auto simp: less_eq_priority_def less_priority_def rank_inj)

end

lemma P4_greatest [simp]: "p \<le> P4"
  by (cases p) (simp_all add: less_eq_priority_def)

text \<open>Thresholds listed from the most to the least urgent priority.\<close>

definition ordered_thresholds :: "risk_policy \<Rightarrow> bool" where
  "ordered_thresholds policy \<longleftrightarrow> sorted (map snd (priority_thresholds policy))"

lemma find_threshold_antimono:
  assumes "sorted (map snd th)" and "(s::int) \<le> s'" and "find (\<lambda>(t, p). t \<le> s) th = Some (t, p)"
  obtains t' p' where "find (\<lambda>(t, p). t \<le> s') th = Some (t', p')" and "p' \<le> p"
proof -
  have "\<exists>t' p'. find (\<lambda>(t, p). t \<le> s') th = Some (t', p') \<and> p' \<le> p"
    using assms
  proof (induction th)
    case (Cons x th)
    obtain u q where x: "x = (u, q)" by (cases x)
    have q: "\<forall>y \<in> set th. q \<le> snd y" using Cons.prems(1) by (auto simp: x)
    show ?case
    proof (cases "u \<le> s'")
      case True
      have "q \<le> p"
      proof (cases "u \<le> s")
        case False
        then have "find (\<lambda>(t, p). t \<le> s) th = Some (t, p)" using Cons.prems(3) x by simp
        then show ?thesis using find_SomeD q by fastforce
      qed (use Cons.prems(3) x in simp)
      then show ?thesis using True x by simp
    next
      case False
      then have "find (\<lambda>(t, p). t \<le> s) th = Some (t, p)" using Cons.prems x by simp
      then show ?thesis using Cons.IH Cons.prems False x by simp
    qed
  qed simp
  then show thesis using that by blast
qed

lemma priority_for_antimono:
  assumes "ordered_thresholds policy" and "s \<le> s'"
  shows "priority_for policy s' \<le> priority_for policy s"
proof (cases "find (\<lambda>(t, p). t \<le> s) (priority_thresholds policy)")
  case None
  then show ?thesis by (simp add: priority_for_def)
next
  case (Some x)
  obtain t p where x: "x = (t, p)" by (cases x)
  obtain t' p' where "find (\<lambda>(t, p). t \<le> s') (priority_thresholds policy) = Some (t', p')" "p' \<le> p"
    using find_threshold_antimono[OF assms(1)[unfolded ordered_thresholds_def] assms(2)] Some x by metis
  then show ?thesis using Some x by (simp add: priority_for_def)
qed

lemma priority_for_default:
  "priority_for default_risk_policy s =
     (if 90 \<le> s then P0 else if 75 \<le> s then P1 else if 50 \<le> s then P2 else if 25 \<le> s then P3 else P4)"
  by (simp add: priority_for_def default_risk_policy_def PRIORITY_THRESHOLDS_def)

section \<open>Scores\<close>

lemma factor_points:
  "severity_factor policy sev = (w, f) \<Longrightarrow> rf_points f = w"
  "validation_factor policy v = (n, fs) \<Longrightarrow> sum_list (map rf_points fs) = n"
  "proof_factor policy p = (m, gs) \<Longrightarrow> sum_list (map rf_points gs) = m"
  by (auto simp: severity_factor_def validation_factor_def proof_factor_def
      split: option.splits verdict.splits if_splits)

text \<open>C11. The score is explained by its factors: it is the sum of their points, clamped to 0..100, for any
  policy. The priority is the first threshold the score reaches, except that a false positive is always P4
  with score 0; under the default policy the thresholds are 90, 75, 50 and 25.\<close>
theorem risk_score_explained:
  "(case risk_score policy finding validation proof of (score, prio, factors) \<Rightarrow>
      score = max 0 (min 100 (sum_list (map rf_points factors))) \<and> 0 \<le> score \<and> score \<le> 100 \<and>
      (if map_option vr_verdict validation = Some False_positive then score = 0 \<and> prio = P4
       else prio = priority_for policy score)) \<and>
   priority_for default_risk_policy n =
     (if 90 \<le> n then P0 else if 75 \<le> n then P1 else if 50 \<le> n then P2 else if 25 \<le> n then P3 else P4)"
proof -
  obtain w sv where w: "severity_factor policy (f_severity finding) = (w, sv)"
    by (cases "severity_factor policy (f_severity finding)")
  obtain x xs where x: "validation_factor policy (map_option vr_verdict validation) = (x, xs)"
    by (cases "validation_factor policy (map_option vr_verdict validation)")
  obtain y ys where y: "proof_factor policy (map_option pr_status proof) = (y, ys)"
    by (cases "proof_factor policy (map_option pr_status proof)")
  show ?thesis
    using factor_points(1)[OF w] factor_points(2)[OF x] factor_points(3)[OF y]
    by (auto simp: risk_score_def w x y priority_for_default add.assoc Let_def)
qed

definition score_of where "score_of policy finding v p = fst (risk_score policy finding v p)"
definition prio_of where "prio_of policy finding v p = fst (snd (risk_score policy finding v p))"

lemma score_of_sum:
  "map_option vr_verdict v \<noteq> Some False_positive \<Longrightarrow>
     score_of policy finding v p =
       max 0 (min 100 (fst (severity_factor policy (f_severity finding)) +
         fst (validation_factor policy (map_option vr_verdict v)) +
         fst (proof_factor policy (map_option pr_status p)))) \<and>
     prio_of policy finding v p = priority_for policy (score_of policy finding v p)"
  by (auto simp: score_of_def prio_of_def risk_score_def Let_def split: prod.splits)

lemma false_positive_score:
  "map_option vr_verdict v = Some False_positive \<Longrightarrow>
     score_of policy finding v p = 0 \<and> prio_of policy finding v p = P4"
  by (simp add: score_of_def prio_of_def risk_score_def)

text \<open>Evidence never lowers a risk: with non-negative bonuses and thresholds ordered by urgency, a
  validation other than a false positive and any proof result leave the score at least as high and the
  priority at least as urgent as without them.\<close>
theorem evidence_never_lowers_risk:
  assumes "0 \<le> validated_bonus policy" and "0 \<le> proof_bonus policy" and "ordered_thresholds policy"
  shows "score_of policy finding v None \<le> score_of policy finding v p \<and>
         prio_of policy finding v p \<le> prio_of policy finding v None \<and>
         (map_option vr_verdict v \<noteq> Some False_positive \<longrightarrow>
            score_of policy finding None p \<le> score_of policy finding v p \<and>
            prio_of policy finding v p \<le> prio_of policy finding None p)"
proof -
  have vp: "0 \<le> fst (validation_factor policy v')" for v'
    using assms(1) by (auto simp: validation_factor_def split: option.splits verdict.splits)
  have pp: "0 \<le> fst (proof_factor policy p')" for p'
    using assms(2) by (auto simp: proof_factor_def)
  have none: "fst (validation_factor policy None) = 0" "fst (proof_factor policy None) = 0"
    by (simp_all add: validation_factor_def proof_factor_def)
  show ?thesis
  proof (cases "map_option vr_verdict v = Some False_positive")
    case True
    then show ?thesis by (simp add: false_positive_score)
  next
    case False
    have "score_of policy finding v None \<le> score_of policy finding v p"
         "score_of policy finding None p \<le> score_of policy finding v p"
      using vp[of "map_option vr_verdict v"] pp[of "map_option pr_status p"]
      by (simp_all add: score_of_sum[OF False] score_of_sum[where v = None, simplified] none)
    then show ?thesis
      using False assms(3)
      by (simp add: conjunct2[OF score_of_sum[OF False]] conjunct2[OF score_of_sum[where v = None, simplified]]
        priority_for_antimono)
  qed
qed

definition verified_proof :: proof_result where
  "verified_proof = proof_result_of (utc 0) 1 sample_finding (sample_validation True_positive) None Verified
     [] default_policy [] None"

theorem evidence_never_lowers_risk_witness:
  "score_of default_risk_policy sample_finding (Some (sample_validation Uncertain)) None
     \<le> score_of default_risk_policy sample_finding (Some (sample_validation Uncertain)) (Some verified_proof)"
proof -
  have "ordered_thresholds default_risk_policy"
    by (simp add: ordered_thresholds_def default_risk_policy_def PRIORITY_THRESHOLDS_def less_eq_priority_def)
  then show ?thesis
    using evidence_never_lowers_risk[of default_risk_policy sample_finding "Some (sample_validation Uncertain)"
        "Some verified_proof"]
    by (simp add: default_risk_policy_def)
qed

section \<open>One SLA record\<close>

datatype sla_op = Check py_datetime | Resolve py_datetime

fun run_sla :: "(py_datetime \<Rightarrow> string) \<Rightarrow> sla_op list \<Rightarrow> sla_record \<Rightarrow> (sla_record \<times> escalation_event list) option" where
  "run_sla isof [] rec = Some (rec, [])"
| "run_sla isof (Check t # ops) rec =
     (case check_sla isof rec t of
        None \<Rightarrow> None
      | Some (rec', e) \<Rightarrow>
          map_option (\<lambda>(last, es). (last, (case e of None \<Rightarrow> [] | Some ev \<Rightarrow> [ev]) @ es)) (run_sla isof ops rec'))"
| "run_sla isof (Resolve t # ops) rec =
     (case resolve_sla rec t of None \<Rightarrow> None | Some rec' \<Rightarrow> run_sla isof ops rec')"

fun op_time :: "sla_op \<Rightarrow> py_datetime" where
  "op_time (Check t) = t"
| "op_time (Resolve t) = t"

definition aware_ops :: "sla_op list \<Rightarrow> bool" where
  "aware_ops ops \<longleftrightarrow> (\<forall>op \<in> set ops. is_aware (op_time op))"

text \<open>The operation that decides the fate of an active record with deadline \<open>due\<close>, if any.\<close>

fun decides :: "int \<Rightarrow> sla_op \<Rightarrow> bool" where
  "decides due (Check t) = (due \<le> utc_instant t)"
| "decides due (Resolve t) = True"

lemma aware_utc_aware [simp]: "is_aware t \<Longrightarrow> aware_utc t = Some (utc (utc_instant t))"
  by (cases t) (simp_all add: is_aware_def aware_utc_def utc_def)

lemma aware_utc_Some_iff: "aware_utc t = Some u \<longleftrightarrow> is_aware t \<and> u = utc (utc_instant t)"
  by (cases t) (auto simp: is_aware_def aware_utc_def utc_def)

lemma check_settled:
  assumes "sl_status rec = Resolved \<or> (sl_status rec = Breached \<and> sl_due_at rec \<noteq> None)" and "is_aware t"
  shows "check_sla isof rec t = Some (rec\<lparr>sl_last_checked_at := Some (utc (utc_instant t))\<rparr>, None)"
  using assms by (auto simp: check_sla_def)

text \<open>A record that has left \<open>active\<close> never emits an event again.\<close>

lemma run_settled:
  assumes "sl_status rec = Resolved \<or> (sl_status rec = Breached \<and> sl_due_at rec \<noteq> None)" and "aware_ops ops"
  shows "\<exists>last. run_sla isof ops rec = Some (last, []) \<and>
           sl_status last = (if sl_status rec = Resolved \<or> (\<exists>t. Resolve t \<in> set ops) then Resolved else Breached) \<and>
           sl_escalation_level last = sl_escalation_level rec \<and> sl_breached_at last = sl_breached_at rec \<and>
           (sl_status rec = Resolved \<longrightarrow> sl_resolved_at last = sl_resolved_at rec)"
  using assms
proof (induction ops arbitrary: rec)
  case (Cons op ops)
  show ?case
  proof (cases op)
    case (Check t)
    have "is_aware t" "aware_ops ops" using Cons.prems(2) Check by (simp_all add: aware_ops_def)
    with Cons.IH[of "rec\<lparr>sl_last_checked_at := Some (utc (utc_instant t))\<rparr>"] Cons.prems(1) show ?thesis
      by (auto simp: Check check_settled)
  next
    case (Resolve t)
    have a: "is_aware t" "aware_ops ops" using Cons.prems(2) Resolve by (simp_all add: aware_ops_def)
    show ?thesis
    proof (cases "sl_status rec = Resolved")
      case True
      with Cons.IH[of rec] a show ?thesis by (simp add: Resolve resolve_sla_def)
    next
      case False
      with Cons.IH[of "rec\<lparr>sl_status := Resolved, sl_resolved_at := Some (utc (utc_instant t))\<rparr>"] a
      show ?thesis by (auto simp: Resolve resolve_sla_def)
    qed
  qed
qed auto

definition breach_event :: "(py_datetime \<Rightarrow> string) \<Rightarrow> sla_record \<Rightarrow> py_datetime \<Rightarrow> py_datetime \<Rightarrow> escalation_event" where
  "breach_event isof rec due t =
     \<lparr>es_finding_id = sl_finding_id rec, es_previous_level = 0, es_new_level = 1,
      es_reason = ''SLA breached for '' @ priority_text (sl_priority rec) @ '': due '' @ isof (as_aware_utc due) @
        '' exceeded at '' @ isof (utc (utc_instant t)),
      es_created_at = utc (utc_instant t)\<rparr>"

lemma run_active:
  assumes "sl_status rec = Sla_active" and "sl_due_at rec = Some due" and "sl_escalation_level rec = 0"
    and "aware_ops ops"
  shows "\<exists>last. run_sla isof ops rec = Some (last,
           case find (decides (utc_instant due)) ops of
             Some (Check t) \<Rightarrow> [breach_event isof rec due t] | _ \<Rightarrow> []) \<and>
         sl_status last =
           (if \<exists>t. Resolve t \<in> set ops then Resolved
            else if find (decides (utc_instant due)) ops = None then Sla_active else Breached) \<and>
         sl_escalation_level last =
           (case find (decides (utc_instant due)) ops of Some (Check t) \<Rightarrow> 1 | _ \<Rightarrow> 0)"
  using assms
proof (induction ops arbitrary: rec)
  case (Cons op ops)
  have aw: "aware_ops ops" and a: "is_aware (op_time op)" using Cons.prems(4) by (simp_all add: aware_ops_def)
  have due: "utc_instant (as_aware_utc due) = utc_instant due" by (cases due) simp_all
  show ?case
  proof (cases op)
    case (Check t)
    let ?t = "utc (utc_instant t)"
    show ?thesis
    proof (cases "utc_instant due \<le> utc_instant t")
      case True
      let ?b = "rec\<lparr>sl_status := Breached, sl_breached_at := Some ?t, sl_escalation_level := 1,
                   sl_last_checked_at := Some ?t\<rparr>"
      have "check_sla isof rec t = Some (?b, Some (breach_event isof rec due t))"
        using True Cons.prems a Check by (simp add: check_sla_def due breach_event_def)
      with run_settled[of ?b ops isof] aw Cons.prems(2) True show ?thesis
        by (auto simp: Check)
    next
      case False
      have "check_sla isof rec t = Some (rec\<lparr>sl_last_checked_at := Some ?t\<rparr>, None)"
        using False Cons.prems a Check by (simp add: check_sla_def due)
      moreover have "breach_event isof (rec\<lparr>sl_last_checked_at := Some ?t\<rparr>) = breach_event isof rec"
        by (simp add: breach_event_def fun_eq_iff)
      moreover from Cons.IH[of "rec\<lparr>sl_last_checked_at := Some ?t\<rparr>"] aw Cons.prems
      obtain last where "run_sla isof ops (rec\<lparr>sl_last_checked_at := Some ?t\<rparr>) = Some (last,
           case find (decides (utc_instant due)) ops of
             Some (Check t) \<Rightarrow> [breach_event isof (rec\<lparr>sl_last_checked_at := Some ?t\<rparr>) due t] | _ \<Rightarrow> [])"
        "sl_status last =
           (if \<exists>t. Resolve t \<in> set ops then Resolved
            else if find (decides (utc_instant due)) ops = None then Sla_active else Breached)"
        "sl_escalation_level last =
           (case find (decides (utc_instant due)) ops of Some (Check t) \<Rightarrow> 1 | _ \<Rightarrow> 0)"
        by auto
      ultimately show ?thesis using False by (intro exI[of _ last]) (auto simp: Check split: option.splits sla_op.splits)
    qed
  next
    case (Resolve t)
    let ?r = "rec\<lparr>sl_status := Resolved, sl_resolved_at := Some (utc (utc_instant t))\<rparr>"
    have "resolve_sla rec t = Some ?r" using Cons.prems a Resolve by (simp add: resolve_sla_def)
    with run_settled[of ?r ops isof] aw Cons.prems show ?thesis by (auto simp: Resolve)
  qed
qed simp

text \<open>C12. An SLA of a priority with a deadline escalates exactly once: along any sequence of aware checks and
  resolutions of a new record, one event from level 0 to 1 is emitted by the first check at or after
  the deadline, unless a resolution came first, and none otherwise; the record ends resolved if it was ever
  resolved, breached if only that check happened, and active otherwise.\<close>
theorem sla_escalates_exactly_once:
  assumes "duration_for policy (rk_priority a) = Some d" and "is_aware started" and "aware_ops ops"
  shows "\<exists>rec last. create_sla policy a started = Some rec \<and>
           sl_due_at rec = Some (utc (utc_instant started + d)) \<and> sl_status rec = Sla_active \<and>
           run_sla isof ops rec = Some (last,
             case find (decides (utc_instant started + d)) ops of
               Some (Check t) \<Rightarrow> [breach_event isof rec (utc (utc_instant started + d)) t] | _ \<Rightarrow> []) \<and>
           sl_status last =
             (if \<exists>t. Resolve t \<in> set ops then Resolved
              else if find (decides (utc_instant started + d)) ops = None then Sla_active else Breached) \<and>
           sl_escalation_level last =
             (case find (decides (utc_instant started + d)) ops of Some (Check t) \<Rightarrow> 1 | _ \<Rightarrow> 0)"
proof -
  obtain rec where rec: "create_sla policy a started = Some rec" "sl_due_at rec = Some (utc (utc_instant started + d))"
    "sl_status rec = Sla_active" "sl_escalation_level rec = 0"
    using assms(1,2) by (auto simp: create_sla_def utc_def Let_def)
  with run_active[OF rec(3,2,4) assms(3), of isof] show ?thesis by auto
qed

definition p1_risk :: risk_assessment where
  "p1_risk = assess default_risk_policy sample_finding None None (utc 0)"

theorem sla_escalates_exactly_once_witness:
  "\<exists>rec last e. create_sla DEFAULT_DEADLINES p1_risk (utc 0) = Some rec \<and>
     run_sla (\<lambda>_. []) [Check (utc 5), Check (utc (hours 24)), Check (utc (hours 30)), Resolve (utc (hours 31))] rec =
       Some (last, [e]) \<and> sl_status last = Resolved \<and> es_created_at e = utc (hours 24)"
proof -
  have d: "duration_for DEFAULT_DEADLINES (rk_priority p1_risk) = Some (hours 24)"
    by (simp add: p1_risk_def assess_def risk_score_def sample_finding_def severity_factor_def validation_factor_def
        proof_factor_def default_risk_policy_def SEVERITY_WEIGHTS_def priority_for_def PRIORITY_THRESHOLDS_def
        duration_for_def DEFAULT_DEADLINES_def lower_char_def)
  have "aware_ops [Check (utc 5), Check (utc (hours 24)), Check (utc (hours 30)), Resolve (utc (hours 31))]"
    by (simp add: aware_ops_def)
  from sla_escalates_exactly_once[OF d is_aware_utc this, of 0 "\<lambda>_. []"] show ?thesis
    by (auto simp: hours_def breach_event_def)
qed

end
