(* ===== verification/Risk_System.thy ===== *)
theory Risk_System
  imports Risk_Properties "HOL-Library.Sublist"
begin

text \<open>
  The risk, SLA and escalation stores as a system: its steps are the handlers, the evaluator's cycle, the
  removals and a restart, in any order and at any times. The invariant ties every SLA record to its priority's
  deadline and to the escalation events of its finding, and each table to its cache.
\<close>

section \<open>Well-formed records\<close>

definition record_ok :: "sla_policy \<Rightarrow> sla_record \<Rightarrow> bool" where
  "record_ok policy r \<longleftrightarrow>
     is_aware (sl_started_at r) \<and>
     sl_due_at r = map_option (add_micros (sl_started_at r)) (duration_for policy (sl_priority r)) \<and>
     sl_escalation_level r = (if sl_breached_at r = None then 0 else 1) \<and>
     (sl_status r = Resolved \<longleftrightarrow> sl_resolved_at r \<noteq> None) \<and>
     (sl_status r = Not_applicable \<longrightarrow> sl_due_at r = None) \<and>
     (sl_status r = Sla_active \<longrightarrow> sl_due_at r \<noteq> None \<and> sl_breached_at r = None) \<and>
     (sl_status r = Breached \<longrightarrow> sl_due_at r \<noteq> None \<and> sl_breached_at r \<noteq> None)"

lemma record_okD:
  assumes "record_ok policy r"
  shows "sl_status r = Sla_active \<Longrightarrow> \<exists>due. sl_due_at r = Some due"
    and "sl_status r = Sla_active \<Longrightarrow> sl_breached_at r = None \<and> sl_escalation_level r = 0"
    and "sl_status r = Not_applicable \<Longrightarrow> sl_due_at r = None"
    and "sl_status r = Breached \<Longrightarrow> \<exists>due. sl_due_at r = Some due"
  using assms unfolding record_ok_def
  by ((simp only: not_None_eq simp_thms if_True if_False)?, metis not_None_eq)+

definition overdue :: "py_datetime \<Rightarrow> sla_record \<Rightarrow> bool" where
  "overdue now r \<longleftrightarrow> sl_status r = Sla_active \<and>
     (case sl_due_at r of None \<Rightarrow> False | Some due \<Rightarrow> utc_instant due \<le> utc_instant now)"

definition after_check :: "py_datetime \<Rightarrow> sla_record \<Rightarrow> sla_record" where
  "after_check now r =
     (let t = Some (utc (utc_instant now)) in
      if overdue now r then r\<lparr>sl_status := Breached, sl_breached_at := t, sl_escalation_level := 1,
                              sl_last_checked_at := t\<rparr>
      else r\<lparr>sl_last_checked_at := t\<rparr>)"

definition check_event :: "(py_datetime \<Rightarrow> string) \<Rightarrow> py_datetime \<Rightarrow> sla_record \<Rightarrow> escalation_event option" where
  "check_event isof now r = (if overdue now r then Some (breach_event isof r (the (sl_due_at r)) now) else None)"

lemma utc_instant_as_aware [simp]: "utc_instant (as_aware_utc d) = utc_instant d"
  by (cases d) simp_all

lemma check_sla_ok:
  assumes "record_ok policy r" and "is_aware now"
  shows "check_sla isof r now = Some (after_check now r, check_event isof now r)"
proof (cases "sl_status r")
  case Sla_active
  then obtain due where "sl_due_at r = Some due" "sl_breached_at r = None" "sl_escalation_level r = 0"
    using record_okD[OF assms(1)] by blast
  with Sla_active show ?thesis
    using assms(2) by (simp add: check_sla_def after_check_def check_event_def overdue_def breach_event_def Let_def)
next
  case Not_applicable
  then have "sl_due_at r = None" using record_okD[OF assms(1)] by blast
  with Not_applicable show ?thesis
    using assms(2) by (simp add: check_sla_def after_check_def check_event_def overdue_def Let_def)
next
  case Breached
  then obtain due where "sl_due_at r = Some due" using record_okD[OF assms(1)] by blast
  with Breached show ?thesis
    using assms(2) by (simp add: check_sla_def after_check_def check_event_def overdue_def Let_def)
next
  case Resolved
  then show ?thesis
    using assms(2) by (simp add: check_sla_def after_check_def check_event_def overdue_def Let_def)
qed

lemma record_ok_after_check: "record_ok policy r \<Longrightarrow> record_ok policy (after_check now r)"
  by (auto simp: record_ok_def after_check_def overdue_def Let_def split: option.splits)

lemma after_check_fields [simp]:
  "sl_finding_id (after_check now r) = sl_finding_id r"
  "sl_breached_at (after_check now r) =
     (if overdue now r then Some (utc (utc_instant now)) else sl_breached_at r)"
  by (simp_all add: after_check_def Let_def)

lemma record_ok_create: "create_sla policy a started = Some r \<Longrightarrow> record_ok policy r \<and> sl_breached_at r = None \<and>
    sl_finding_id r = rk_finding_id a \<and> sl_priority r = rk_priority a"
  by (auto simp: create_sla_def record_ok_def Let_def aware_utc_Some_iff split: option.splits)

lemma record_ok_resolve: "record_ok policy r \<Longrightarrow> resolve_sla r t = Some r' \<Longrightarrow>
    record_ok policy r' \<and> sl_breached_at r' = sl_breached_at r \<and> sl_finding_id r' = sl_finding_id r \<and>
    sl_status r' = Resolved"
  by (auto simp: resolve_sla_def record_ok_def split: if_splits option.splits)

section \<open>The store invariant\<close>

definition risk_ok :: "sla_policy \<Rightarrow> ('a, 'b, 'c) risk_codecs \<Rightarrow> ('a, 'b, 'c) risk_state \<Rightarrow> bool" where
  "risk_ok policy c s \<longleftrightarrow>
     mirrors (fst c) (risk_store s) \<and> mirrors (fst (snd c)) (sla_store s) \<and>
     (\<forall>k a. kstore_get (risk_store s) k = Some a \<longrightarrow> rk_finding_id a = k) \<and>
     (\<forall>k r. get_sla s k = Some r \<longrightarrow> sl_finding_id r = k \<and> record_ok policy r) \<and>
     (\<forall>k r b. get_sla s k = Some r \<longrightarrow> sl_breached_at r = Some b \<longrightarrow>
        (\<exists>e \<in> set (get_escalations s k). es_created_at e = b)) \<and>
     distinct (dkeys (escalation_store s)) \<and>
     (\<forall>k. \<forall>e \<in> set (get_escalations s k). es_finding_id e = k \<and> es_previous_level e = 0 \<and> es_new_level e = 1) \<and>
     (\<forall>k rows. escalation_rows s = Some rows \<longrightarrow>
        mset (map snd (filter (\<lambda>row. fst row = k) rows)) = mset (map (dump (snd (snd c))) (get_escalations s k)))"

lemma risk_okD:
  assumes "risk_ok policy c s"
  shows "mirrors (fst c) (risk_store s)" and "mirrors (fst (snd c)) (sla_store s)"
    and "kstore_get (risk_store s) k = Some a \<Longrightarrow> rk_finding_id a = k"
    and "get_sla s k = Some r \<Longrightarrow> sl_finding_id r = k \<and> record_ok policy r"
    and "get_sla s k = Some r \<Longrightarrow> sl_breached_at r = Some b \<Longrightarrow>
           \<exists>e \<in> set (get_escalations s k). es_created_at e = b"
    and "distinct (dkeys (escalation_store s))"
    and "e \<in> set (get_escalations s k) \<Longrightarrow> es_finding_id e = k \<and> es_previous_level e = 0 \<and> es_new_level e = 1"
    and "escalation_rows s = Some rows \<Longrightarrow>
           mset (map snd (filter (\<lambda>row. fst row = k) rows)) = mset (map (dump (snd (snd c))) (get_escalations s k))"
  using assms unfolding risk_ok_def by blast+

lemma get_record_sla [simp]:
  "get_sla (record_sla c r s) k = (if k = sl_finding_id r then Some r else get_sla s k)"
  "get_escalations (record_sla c r s) k = get_escalations s k"
  "escalation_rows (record_sla c r s) = escalation_rows s"
  "escalation_store (record_sla c r s) = escalation_store s"
  "risk_store (record_sla c r s) = risk_store s"
  by (simp_all add: get_sla_def record_sla_def kstore_get_def kstore_put_def get_escalations_def)

lemma get_record_escalation [simp]:
  "get_sla (record_escalation c e s) k = get_sla s k"
  "get_escalations (record_escalation c e s) k =
     get_escalations s k @ (if k = es_finding_id e then [e] else [])"
  "risk_store (record_escalation c e s) = risk_store s"
  "sla_store (record_escalation c e s) = sla_store s"
  by (simp_all add: get_sla_def record_escalation_def get_escalations_def)

lemma get_record_risk [simp]:
  "kstore_get (risk_store (record_risk c a s)) k =
     (if k = rk_finding_id a then Some a else kstore_get (risk_store s) k)"
  "get_sla (record_risk c a s) k = get_sla s k"
  "get_escalations (record_risk c a s) k = get_escalations s k"
  by (simp_all add: get_sla_def record_risk_def kstore_get_def kstore_put_def get_escalations_def)

lemma record_sla_escalation:
  "record_escalation c e (record_sla c r s) = record_sla c r (record_escalation c e s)"
  by (simp add: record_escalation_def record_sla_def)

lemma risk_ok_record_sla:
  assumes "risk_ok policy c s" and "record_ok policy r"
    and "\<And>b. sl_breached_at r = Some b \<Longrightarrow> \<exists>e \<in> set (get_escalations s (sl_finding_id r)). es_created_at e = b"
  shows "risk_ok policy c (record_sla c r s)"
proof -
  have m: "mirrors (fst (snd c)) (sla_store (record_sla c r s))"
    using mirrors_put[OF risk_okD(2)[OF assms(1)]] by (simp add: record_sla_def)
  show ?thesis
    using assms risk_okD[OF assms(1)] m unfolding risk_ok_def by simp
qed

lemma risk_ok_record_escalation:
  assumes "risk_ok policy c s" and "es_previous_level e = 0" and "es_new_level e = 1"
  shows "risk_ok policy c (record_escalation c e s)"
proof -
  have rows: "mset (map snd (filter (\<lambda>row. fst row = k) rows)) =
      mset (map (dump (snd (snd c))) (get_escalations (record_escalation c e s) k))"
    if "escalation_rows (record_escalation c e s) = Some rows" for k rows
    using that risk_okD(8)[OF assms(1)] by (auto simp: record_escalation_def get_escalations_def)
  have d: "distinct (dkeys (escalation_store (record_escalation c e s)))"
    using risk_okD(6)[OF assms(1)] by (simp add: record_escalation_def)
  show ?thesis
    using assms(2,3) risk_okD(1-5,7)[OF assms(1)] rows d unfolding risk_ok_def by fastforce
qed

lemma risk_ok_record_risk:
  assumes "risk_ok policy c s"
  shows "risk_ok policy c (record_risk c a s)"
proof -
  have m: "mirrors (fst c) (risk_store (record_risk c a s))"
    using mirrors_put[OF risk_okD(1)[OF assms]] by (simp add: record_risk_def)
  have o: "sla_store (record_risk c a s) = sla_store s" "escalation_store (record_risk c a s) = escalation_store s"
    "escalation_rows (record_risk c a s) = escalation_rows s"
    by (simp_all add: record_risk_def)
  show ?thesis
    using risk_okD[OF assms] m unfolding risk_ok_def by (simp add: o)
qed

section \<open>The operations\<close>

text \<open>What the atomic check does to a well-formed store: one record is re-evaluated, one event may be appended.\<close>

lemma check_and_persist_effect:
  assumes "risk_ok policy c s" and "is_aware now"
  shows "fst (check_and_persist_sla c isof fid now s) =
           Some (map_option (\<lambda>r. (after_check now r, check_event isof now r)) (get_sla s fid)) \<and>
         risk_ok policy c (snd (check_and_persist_sla c isof fid now s)) \<and>
         get_sla (snd (check_and_persist_sla c isof fid now s)) =
           (get_sla s)(fid := map_option (after_check now) (get_sla s fid)) \<and>
         (\<forall>k. get_escalations (snd (check_and_persist_sla c isof fid now s)) k =
           get_escalations s k @ (if k = fid then
             (case Option.bind (get_sla s fid) (check_event isof now) of None \<Rightarrow> [] | Some e \<Rightarrow> [e]) else [])) \<and>
         risk_store (snd (check_and_persist_sla c isof fid now s)) = risk_store s"
proof (cases "get_sla s fid")
  case None
  then show ?thesis using assms(1) by (simp add: check_and_persist_sla_def fun_eq_iff)
next
  case (Some r)
  let ?u = "after_check now r"
  have r: "sl_finding_id r = fid" "record_ok policy r" using risk_okD(4)[OF assms(1) Some] by auto
  have chk: "check_sla isof r now = Some (?u, check_event isof now r)" using check_sla_ok[OF r(2) assms(2)] .
  have b: "\<exists>e \<in> set (get_escalations s fid). es_created_at e = b" if "sl_breached_at r = Some b" for b
    using risk_okD(5)[OF assms(1) Some that] .
  show ?thesis
  proof (cases "overdue now r")
    case True
    define e where "e = breach_event isof r (the (sl_due_at r)) now"
    have e: "check_event isof now r = Some e" "es_finding_id e = fid" "es_previous_level e = 0" "es_new_level e = 1"
      "es_created_at e = utc (utc_instant now)"
      using True by (simp_all add: check_event_def e_def breach_event_def r(1))
    have "?u \<noteq> r" using True by (auto simp: after_check_def Let_def overdue_def dest: arg_cong[of _ _ sl_status])
    then have s': "check_and_persist_sla c isof fid now s =
        (Some (Some (?u, Some e)), record_sla c ?u (record_escalation c e s))"
      by (simp add: check_and_persist_sla_def Some chk e(1) record_sla_escalation)
    have "risk_ok policy c (record_sla c ?u (record_escalation c e s))"
      using record_ok_after_check[OF r(2)] True e r(1)
      by (intro risk_ok_record_sla risk_ok_record_escalation assms(1)) auto
    then show ?thesis by (simp add: s' Some e fun_eq_iff r(1))
  next
    case False
    have none: "check_event isof now r = None" using False by (simp add: check_event_def)
    have s': "check_and_persist_sla c isof fid now s =
        (Some (Some (?u, None)), if ?u \<noteq> r then record_sla c ?u s else s)"
      by (simp add: check_and_persist_sla_def Some chk none)
    have "risk_ok policy c (record_sla c ?u s)"
      using record_ok_after_check[OF r(2)] False b r(1) by (intro risk_ok_record_sla assms(1)) auto
    then show ?thesis using assms(1) by (auto simp: s' Some none fun_eq_iff r(1))
  qed
qed

lemma check_and_persist_naive:
  assumes "\<not> is_aware now"
  shows "snd (check_and_persist_sla c isof fid now s) = s"
proof -
  have "aware_utc now = None" using assms by (cases now) (simp_all add: aware_utc_def is_aware_def)
  then show ?thesis by (simp add: check_and_persist_sla_def check_sla_def split: option.splits)
qed

lemma risk_ok_check:
  "risk_ok policy c s \<Longrightarrow> risk_ok policy c (snd (check_and_persist_sla c isof fid now s))"
  by (cases "is_aware now") (simp_all add: check_and_persist_effect check_and_persist_naive)

lemma risk_ok_assess: "risk_ok policy c s \<Longrightarrow> risk_ok policy c (snd (assess_risk c rp f v p now s))"
  by (simp add: assess_risk_def risk_ok_record_risk Let_def)

lemma start_sla_cases:
  obtains (missing) "kstore_get (risk_store s) fid = None" "start_sla c policy fid now s = (None, s)"
  | (kept) a r where "kstore_get (risk_store s) fid = Some a" "get_sla s fid = Some r"
      "sl_priority r = rk_priority a" "start_sla c policy fid now s = (Some r, s)"
  | (fresh) a r where "kstore_get (risk_store s) fid = Some a" "create_sla policy a (utc now) = Some r"
      "\<And>q. get_sla s fid = Some q \<Longrightarrow> sl_priority q \<noteq> rk_priority a"
      "start_sla c policy fid now s = (Some r, record_sla c r s)"
proof (cases "kstore_get (risk_store s) fid")
  case None
  then show thesis by (intro missing) (simp_all add: start_sla_def)
next
  case (Some a)
  obtain r where r: "create_sla policy a (utc now) = Some r"
    by (cases "duration_for policy (rk_priority a)") (auto simp: create_sla_def Let_def)
  show thesis
  proof (cases "\<exists>q. get_sla s fid = Some q \<and> sl_priority q = rk_priority a")
    case True
    then obtain q where "get_sla s fid = Some q" "sl_priority q = rk_priority a" by blast
    then show thesis using Some by (intro kept) (simp_all add: start_sla_def)
  next
    case False
    then show thesis using Some r by (intro fresh) (auto simp: start_sla_def Let_def split: option.splits)
  qed
qed

lemma risk_ok_start:
  assumes "risk_ok policy c s"
  shows "risk_ok policy c (snd (start_sla c policy fid now s))"
proof (cases rule: start_sla_cases[of s fid c policy now])
  case (fresh a r)
  then show ?thesis
    using record_ok_create[OF fresh(2)] by (auto intro!: risk_ok_record_sla assms)
qed (use assms in simp_all)

lemma resolve_handler_cases:
  obtains (same) "snd (resolve_handler c fid t s) = s" "fst (resolve_handler c fid t s) = None"
  | (resolved) r r' where "get_sla s fid = Some r" "resolve_sla r t = Some r'"
      "resolve_handler c fid t s = (Some r', record_sla c r' s)"
  by (cases "get_sla s fid"; cases "resolve_sla (the (get_sla s fid)) t") (auto simp: resolve_handler_def)

lemma risk_ok_resolve:
  assumes "risk_ok policy c s"
  shows "risk_ok policy c (snd (resolve_handler c fid t s))"
proof (cases rule: resolve_handler_cases[of c fid t s])
  case (resolved r r')
  have r: "sl_finding_id r = fid" "record_ok policy r" using risk_okD(4)[OF assms resolved(1)] by auto
  from record_ok_resolve[OF r(2) resolved(2)] risk_okD(5)[OF assms resolved(1)] r(1) show ?thesis
    by (auto simp: resolved(3) intro!: risk_ok_record_sla assms)
qed (use assms in simp)

lemma risk_ok_remove:
  assumes "risk_ok policy c s"
  shows "risk_ok policy c (remove_finding_state fid s)"
proof -
  let ?t = "remove_finding_state fid s"
  have m: "mirrors (fst c) (risk_store ?t)" "mirrors (fst (snd c)) (sla_store ?t)"
    using mirrors_remove risk_okD(1,2)[OF assms] by (auto simp: remove_finding_state_def)
  have get: "kstore_get (risk_store ?t) k = (if k = fid then None else kstore_get (risk_store s) k)"
    "get_sla ?t k = (if k = fid then None else get_sla s k)"
    "get_escalations ?t k = (if k = fid then [] else get_escalations s k)" for k
    by (simp_all add: remove_finding_state_def kstore_get_def kstore_remove_def get_sla_def get_escalations_def
        dget_list_def)
  have d: "distinct (dkeys (escalation_store ?t))"
    using risk_okD(6)[OF assms] by (auto simp: remove_finding_state_def)
  have rows: "mset (map snd (filter (\<lambda>row. fst row = k) rows)) = mset (map (dump (snd (snd c))) (get_escalations ?t k))"
    if rows: "escalation_rows ?t = Some rows" for k rows
  proof -
    from rows obtain old where old: "escalation_rows s = Some old" "rows = filter (\<lambda>row. fst row \<noteq> fid) old"
      by (auto simp: remove_finding_state_def)
    have "filter (\<lambda>row. fst row = k) rows = (if k = fid then [] else filter (\<lambda>row. fst row = k) old)"
      by (auto simp: old(2) filter_filter intro: filter_cong)
    then show ?thesis using risk_okD(8)[OF assms old(1), of k] by (simp add: get)
  qed
  show ?thesis
    using risk_okD(3-5,7)[OF assms] m d rows unfolding risk_ok_def by (auto simp: get)
qed

lemma risk_ok_reset: "risk_ok policy c s \<Longrightarrow> risk_ok policy c (reset_risk_stores s)"
  by (auto simp: risk_ok_def reset_risk_stores_def get_sla_def kstore_get_def kstore_clear_def get_escalations_def
      dget_list_def mirrors_clear[unfolded kstore_clear_def])


section \<open>The evaluator\<close>

lemma evaluate_record_effect:
  assumes ok: "risk_ok policy c s" and a: "is_aware now" and g: "get_sla s (sl_finding_id r) = Some r"
  shows "\<exists>t. evaluate_record c isof now r (st, s) =
      (if sl_status r \<noteq> Sla_active then st\<lparr>st_skipped := st_skipped st + 1\<rparr>
       else if overdue now r then st\<lparr>st_breached := st_breached st + 1\<rparr> else st, t) \<and>
    risk_ok policy c t \<and>
    get_sla t = (get_sla s)(sl_finding_id r := Some (if sl_status r = Sla_active then after_check now r else r)) \<and>
    (\<forall>k. get_escalations t k = get_escalations s k @
       (if k = sl_finding_id r then (case check_event isof now r of None \<Rightarrow> [] | Some e \<Rightarrow> [e]) else []))"
proof (cases "sl_status r = Sla_active")
  case False
  then have "check_event isof now r = None" by (simp add: check_event_def overdue_def)
  then show ?thesis using False g ok by (auto simp: evaluate_record_def fun_eq_iff)
next
  case True
  let ?p = "check_and_persist_sla c isof (sl_finding_id r) now s"
  note eff = check_and_persist_effect[OF ok a, of isof "sl_finding_id r"]
  obtain res t where p: "?p = (res, t)" by (cases ?p)
  have res: "res = Some (Some (after_check now r, check_event isof now r))" using eff p g by simp
  have "evaluate_record c isof now r (st, s) = (if overdue now r then st\<lparr>st_breached := st_breached st + 1\<rparr> else st, t)"
    using True by (simp add: evaluate_record_def p res check_event_def)
  then show ?thesis using eff p g True by auto
qed

lemma evaluate_fold:
  assumes "risk_ok policy c s" and a: "is_aware now" and "distinct (map sl_finding_id recs)"
    and "\<forall>r \<in> set recs. get_sla s (sl_finding_id r) = Some r"
  shows "\<exists>t. fold (evaluate_record c isof now) recs (st, s) =
      (st\<lparr>st_breached := st_breached st + length (filter (overdue now) recs),
         st_skipped := st_skipped st + length (filter (\<lambda>r. sl_status r \<noteq> Sla_active) recs)\<rparr>, t) \<and>
    risk_ok policy c t \<and>
    (\<forall>k. k \<notin> sl_finding_id ` set recs \<longrightarrow> get_sla t k = get_sla s k \<and> get_escalations t k = get_escalations s k) \<and>
    (\<forall>r \<in> set recs. get_sla t (sl_finding_id r) = Some (if sl_status r = Sla_active then after_check now r else r) \<and>
       get_escalations t (sl_finding_id r) = get_escalations s (sl_finding_id r) @
         (case check_event isof now r of None \<Rightarrow> [] | Some e \<Rightarrow> [e]))"
  using assms(1,3,4)
proof (induction recs arbitrary: st s)
  case (Cons r recs)
  from evaluate_record_effect[OF Cons.prems(1) a, of r isof st] Cons.prems(3)
  obtain st1 u where u: "evaluate_record c isof now r (st, s) = (st1, u)"
    "st1 = (if sl_status r \<noteq> Sla_active then st\<lparr>st_skipped := st_skipped st + 1\<rparr>
       else if overdue now r then st\<lparr>st_breached := st_breached st + 1\<rparr> else st)"
    "risk_ok policy c u"
    "get_sla u = (get_sla s)(sl_finding_id r := Some (if sl_status r = Sla_active then after_check now r else r))"
    "\<forall>k. get_escalations u k = get_escalations s k @
       (if k = sl_finding_id r then (case check_event isof now r of None \<Rightarrow> [] | Some e \<Rightarrow> [e]) else [])"
    by auto
  have new: "sl_finding_id r \<notin> sl_finding_id ` set recs" "distinct (map sl_finding_id recs)"
    using Cons.prems(2) by auto
  have "\<forall>q \<in> set recs. get_sla u (sl_finding_id q) = Some q"
    using Cons.prems(3) new(1) u(4) by (auto simp: image_iff)
  from Cons.IH[OF u(3) new(2) this, of st1] obtain t where t:
    "fold (evaluate_record c isof now) recs (st1, u) =
      (st1\<lparr>st_breached := st_breached st1 + length (filter (overdue now) recs),
         st_skipped := st_skipped st1 + length (filter (\<lambda>r. sl_status r \<noteq> Sla_active) recs)\<rparr>, t)"
    "risk_ok policy c t"
    "\<forall>k. k \<notin> sl_finding_id ` set recs \<longrightarrow> get_sla t k = get_sla u k \<and> get_escalations t k = get_escalations u k"
    "\<forall>r \<in> set recs. get_sla t (sl_finding_id r) = Some (if sl_status r = Sla_active then after_check now r else r) \<and>
       get_escalations t (sl_finding_id r) = get_escalations u (sl_finding_id r) @
         (case check_event isof now r of None \<Rightarrow> [] | Some e \<Rightarrow> [e])" by blast
  have st: "st1\<lparr>st_breached := st_breached st1 + length (filter (overdue now) recs),
         st_skipped := st_skipped st1 + length (filter (\<lambda>r. sl_status r \<noteq> Sla_active) recs)\<rparr> =
       st\<lparr>st_breached := st_breached st + length (filter (overdue now) (r # recs)),
         st_skipped := st_skipped st + length (filter (\<lambda>r. sl_status r \<noteq> Sla_active) (r # recs))\<rparr>"
    by (simp add: u(2) overdue_def)
  have tr: "get_sla t (sl_finding_id r) = Some (if sl_status r = Sla_active then after_check now r else r)"
    "get_escalations t (sl_finding_id r) = get_escalations s (sl_finding_id r) @
       (case check_event isof now r of None \<Rightarrow> [] | Some e \<Rightarrow> [e])"
    using t(3) new(1) u(4,5) by simp_all
  have tq: "get_escalations t (sl_finding_id q) = get_escalations s (sl_finding_id q) @
       (case check_event isof now q of None \<Rightarrow> [] | Some e \<Rightarrow> [e])" if "q \<in> set recs" for q
  proof -
    have "sl_finding_id q \<noteq> sl_finding_id r" using new(1) that by (auto simp: image_iff)
    then show ?thesis using t(4)[rule_format, OF that] u(5)[rule_format, of "sl_finding_id q"] by simp
  qed
  have run: "fold (evaluate_record c isof now) (r # recs) (st, s) =
      (st\<lparr>st_breached := st_breached st + length (filter (overdue now) (r # recs)),
         st_skipped := st_skipped st + length (filter (\<lambda>r. sl_status r \<noteq> Sla_active) (r # recs))\<rparr>, t)"
    unfolding fold_simps u(1) t(1) st ..
  have other: "get_sla t k = get_sla s k \<and> get_escalations t k = get_escalations s k"
    if "k \<notin> sl_finding_id ` set (r # recs)" for k
    using that t(3) u(4,5) by simp
  show ?case
  proof (intro exI[of _ t] conjI allI impI ballI)
    fix q assume "q \<in> set (r # recs)"
    then consider "q = r" | "q \<in> set recs" by auto
    then show "get_sla t (sl_finding_id q) = Some (if sl_status q = Sla_active then after_check now q else q)"
      and "get_escalations t (sl_finding_id q) = get_escalations s (sl_finding_id q) @
         (case check_event isof now q of None \<Rightarrow> [] | Some e \<Rightarrow> [e])"
      using tr tq t(4) by (cases; simp)+
  qed (use run other t(2) in blast)+
qed simp

lemma sla_records_ids:
  assumes "risk_ok policy c s"
  shows "distinct (map sl_finding_id (kstore_all (sla_store s)))"
    and "r \<in> set (kstore_all (sla_store s)) \<longleftrightarrow> get_sla s (sl_finding_id r) = Some r"
proof -
  have d: "distinct (dkeys (cache (sla_store s)))" using risk_okD(2)[OF assms] by (simp add: mirrors_def)
  have k: "sl_finding_id r = k" if "(k, r) \<in> set (cache (sla_store s))" for k r
    using that d risk_okD(4)[OF assms, of k r] by (simp add: get_sla_def kstore_get_def)
  have "map sl_finding_id (kstore_all (sla_store s)) = dkeys (cache (sla_store s))"
    using k by (auto simp: kstore_all_def)
  then show "distinct (map sl_finding_id (kstore_all (sla_store s)))" using d by simp
  show "r \<in> set (kstore_all (sla_store s)) \<longleftrightarrow> get_sla s (sl_finding_id r) = Some r"
    using d k risk_okD(4)[OF assms] by (auto simp: kstore_all_def get_sla_def kstore_get_def in_dvalues_iff)
qed

lemma distinct_sort_key [simp]: "distinct (map f (sort_key g xs)) = distinct (map f xs)"
  by (rule mset_eq_imp_distinct_iff) simp

lemma length_filter_sort_key [simp]: "length (filter P (sort_key g xs)) = length (filter P xs)"
  by (metis filter_sort length_sort)

lemma evaluate_once_effect:
  assumes "risk_ok policy c s" and "is_aware now"
  shows "\<exists>t. evaluate_once c isof now s =
      (\<lparr>st_inspected = length (kstore_all (sla_store s)),
         st_breached = length (filter (overdue now) (kstore_all (sla_store s))),
         st_skipped = length (filter (\<lambda>r. sl_status r \<noteq> Sla_active) (kstore_all (sla_store s))),
         st_errors = 0, st_at = now\<rparr>, t) \<and>
    risk_ok policy c t \<and>
    (\<forall>k. get_sla t k = map_option (\<lambda>r. if sl_status r = Sla_active then after_check now r else r) (get_sla s k)) \<and>
    (\<forall>k. get_escalations t k = get_escalations s k @
       (case Option.bind (get_sla s k) (check_event isof now) of None \<Rightarrow> [] | Some e \<Rightarrow> [e]))"
proof -
  let ?all = "kstore_all (sla_store s)"
  let ?recs = "sort_key sl_finding_id ?all"
  let ?st = "\<lparr>st_inspected = length ?recs, st_breached = 0, st_skipped = 0, st_errors = 0, st_at = now\<rparr>"
  have recs: "distinct (map sl_finding_id ?recs)" "\<forall>r \<in> set ?recs. get_sla s (sl_finding_id r) = Some r"
    using sla_records_ids[OF assms(1)] by simp_all
  from evaluate_fold[OF assms recs, of isof ?st] obtain t where t:
    "fold (evaluate_record c isof now) ?recs (?st, s) =
      (?st\<lparr>st_breached := st_breached ?st + length (filter (overdue now) ?recs),
         st_skipped := st_skipped ?st + length (filter (\<lambda>r. sl_status r \<noteq> Sla_active) ?recs)\<rparr>, t)"
    "risk_ok policy c t"
    "\<forall>k. k \<notin> sl_finding_id ` set ?recs \<longrightarrow> get_sla t k = get_sla s k \<and> get_escalations t k = get_escalations s k"
    "\<forall>r \<in> set ?recs. get_sla t (sl_finding_id r) = Some (if sl_status r = Sla_active then after_check now r else r) \<and>
       get_escalations t (sl_finding_id r) = get_escalations s (sl_finding_id r) @
         (case check_event isof now r of None \<Rightarrow> [] | Some e \<Rightarrow> [e])" by blast
  have "get_sla t k = map_option (\<lambda>r. if sl_status r = Sla_active then after_check now r else r) (get_sla s k) \<and>
      get_escalations t k = get_escalations s k @
       (case Option.bind (get_sla s k) (check_event isof now) of None \<Rightarrow> [] | Some e \<Rightarrow> [e])" for k
  proof (cases "get_sla s k")
    case None
    have "k \<notin> sl_finding_id ` set ?recs"
      using None recs(2) by auto
    then show ?thesis using t(3) None by simp
  next
    case (Some r)
    then have "r \<in> set ?recs" "sl_finding_id r = k"
      using sla_records_ids(2)[OF assms(1), of r] risk_okD(4)[OF assms(1) Some] by auto
    then show ?thesis using t(4) Some by auto
  qed
  then show ?thesis using t(1,2) by (intro exI[of _ t]) (simp add: evaluate_once_def Let_def)
qed


section \<open>Steps and reachability\<close>

text \<open>The operations that add to the history of a finding.\<close>

inductive risk_op ::
    "sla_policy \<Rightarrow> ('a, 'b, 'c) risk_codecs \<Rightarrow> (py_datetime \<Rightarrow> string) \<Rightarrow> ('a, 'b, 'c) risk_state
     \<Rightarrow> ('a, 'b, 'c) risk_state \<Rightarrow> bool"
  for policy c isof where
  op_assess: "risk_op policy c isof s (snd (assess_risk c rp f v p now s))"
| op_start: "risk_op policy c isof s (snd (start_sla c policy fid at_micros s))"
| op_check: "risk_op policy c isof s (snd (check_and_persist_sla c isof fid now s))"
| op_resolve: "risk_op policy c isof s (snd (resolve_handler c fid now s))"
| op_evaluate: "is_aware now \<Longrightarrow> risk_op policy c isof s (snd (evaluate_once c isof now s))"

text \<open>All steps: the operations, the deletions and a restart of a configured process.\<close>

inductive risk_step ::
    "sla_policy \<Rightarrow> ('a, 'b, 'c) risk_codecs \<Rightarrow> (py_datetime \<Rightarrow> string) \<Rightarrow> ('a, 'b, 'c) risk_state
     \<Rightarrow> ('a, 'b, 'c) risk_state \<Rightarrow> bool"
  for policy c isof where
  step_op: "risk_op policy c isof s t \<Longrightarrow> risk_step policy c isof s t"
| step_remove: "risk_step policy c isof s (remove_finding_state fid s)"
| step_reset: "risk_step policy c isof s (reset_risk_stores s)"
| step_restart: "lossless (fst c) \<Longrightarrow> lossless (fst (snd c)) \<Longrightarrow> lossless (snd (snd c)) \<Longrightarrow>
    factory (risk_store s) = Some a \<Longrightarrow> factory (sla_store s) = Some b \<Longrightarrow> escalation_rows s = Some d \<Longrightarrow>
    risk_step policy c isof s (snd (set_risk_store_factory c (Some (a, b, d)) fresh))"

inductive_cases risk_opE: "risk_op policy c isof s t"
inductive_cases risk_stepE: "risk_step policy c isof s t"

definition risk_init :: "('a, 'b, 'c) risk_state \<Rightarrow> bool" where
  "risk_init s \<longleftrightarrow> (\<exists>configured. s = \<lparr>risk_store = \<lparr>cache = [], factory = (if configured then Some [] else None)\<rparr>,
     sla_store = \<lparr>cache = [], factory = (if configured then Some [] else None)\<rparr>, escalation_store = [],
     escalation_rows = (if configured then Some [] else None)\<rparr>)"

lemma risk_ok_init: "risk_init s \<Longrightarrow> risk_ok policy c s"
  by (auto simp: risk_init_def risk_ok_def mirrors_def get_sla_def kstore_get_def get_escalations_def dget_list_def
      split: if_splits)

lemma risk_ok_evaluate:
  assumes "risk_ok policy c s" and "is_aware now"
  shows "risk_ok policy c (snd (evaluate_once c isof now s))"
  using evaluate_once_effect[OF assms, of isof] by auto

lemma risk_ok_op: "risk_ok policy c s \<Longrightarrow> risk_op policy c isof s t \<Longrightarrow> risk_ok policy c t"
  by (elim risk_opE) (simp_all add: risk_ok_assess risk_ok_start risk_ok_check risk_ok_resolve risk_ok_evaluate)

section \<open>Restart\<close>

lemma load_escalation_rows:
  assumes "lossless c" and "\<forall>row \<in> set rows. \<exists>e. snd row = dump c e \<and> es_finding_id e = fst row"
  shows "\<exists>evs. load_rows c rows = Some evs \<and> (\<forall>(k, e) \<in> set evs. es_finding_id e = k) \<and>
           rows = map (\<lambda>(k, e). (k, dump c e)) evs"
  using assms(2)
proof (induction rows)
  case (Cons row rows)
  obtain e where e: "row = (es_finding_id e, dump c e)" using Cons.prems by (cases row) auto
  obtain evs where "load_rows c rows = Some evs" "\<forall>(k, e) \<in> set evs. es_finding_id e = k"
    "rows = map (\<lambda>(k, e). (k, dump c e)) evs" using Cons by auto
  moreover have "load c (dump c e) = Some e" using assms(1) by (simp add: lossless_def)
  ultimately show ?case by (intro exI[of _ "(es_finding_id e, e) # evs"]) (simp add: e)
qed simp

lemma fold_dappend:
  assumes "\<forall>(k, e) \<in> set evs. es_finding_id e = k"
  shows "dget_list (fold (\<lambda>(_, e). dappend (es_finding_id e) e) evs d) k =
           dget_list d k @ map snd (filter (\<lambda>x. fst x = k) evs) \<and>
         distinct (dkeys (fold (\<lambda>(_, e). dappend (es_finding_id e) e) evs d)) = distinct (dkeys d)"
  using assms by (induction evs arbitrary: d) (auto split: prod.splits)

lemma dump_msets:
  assumes "lossless c" and "mset (map (dump c) xs) = mset (map (dump c) ys)"
  shows "mset xs = mset ys"
proof -
  have "mset zs = image_mset (the \<circ> load c) (mset (map (dump c) zs))" for zs
    using assms(1) by (induction zs) (auto simp: lossless_def)
  then show ?thesis using assms(2) by metis
qed

lemma restart_effect:
  assumes ok: "risk_ok policy c s" and l: "lossless (fst c)" "lossless (fst (snd c))" "lossless (snd (snd c))"
    and f: "factory (risk_store s) = Some a" "factory (sla_store s) = Some b" "escalation_rows s = Some d"
  shows "\<exists>t. set_risk_store_factory c (Some (a, b, d)) fresh = (True, t) \<and> risk_ok policy c t \<and>
           risk_store t = risk_store s \<and> sla_store t = sla_store s \<and> escalation_rows t = escalation_rows s \<and>
           (\<forall>k. mset (get_escalations t k) = mset (get_escalations s k) \<and>
                sorted (map (\<lambda>e. utc_instant (as_aware_utc (es_created_at e))) (get_escalations t k)))"
proof -
  let ?c3 = "snd (snd c)"
  have rows: "mset (map snd (filter (\<lambda>row. fst row = k) d)) = mset (map (dump ?c3) (get_escalations s k))" for k
    using risk_okD(8)[OF ok f(3)] .
  have "\<exists>e. snd row = dump ?c3 e \<and> es_finding_id e = fst row" if "row \<in> set d" for row
  proof -
    have "snd row \<in># mset (map snd (filter (\<lambda>r. fst r = fst row) d))" using that by simp
    then have "snd row \<in> dump ?c3 ` set (get_escalations s (fst row))" unfolding rows by simp
    then show ?thesis using risk_okD(7)[OF ok] by blast
  qed
  then obtain evs where evs: "load_rows ?c3 d = Some evs" "\<forall>(k, e) \<in> set evs. es_finding_id e = k"
    "d = map (\<lambda>(k, e). (k, dump ?c3 e)) evs" using load_escalation_rows[OF l(3), of d] by blast
  define folded where "folded = fold (\<lambda>(_, e). dappend (es_finding_id e) e) evs []"
  have fg: "dget_list folded k = map snd (filter (\<lambda>x. fst x = k) evs)" "distinct (dkeys folded)" for k
    using fold_dappend[OF evs(2), of "[]" k] by (simp_all add: folded_def dget_list_def)
  obtain ra sa where ra: "risk_store s = \<lparr>cache = ra, factory = Some a\<rparr>"
    and sa: "sla_store s = \<lparr>cache = sa, factory = Some b\<rparr>"
    using f(1,2) by (cases "risk_store s"; cases "sla_store s") simp
  have ca: "a = dmap (dump (fst c)) ra" "distinct (dkeys ra)"
    and cb: "b = dmap (dump (fst (snd c))) sa" "distinct (dkeys sa)"
    using risk_okD(1,2)[OF ok] by (simp_all add: mirrors_def ra sa)
  define t where "t = fresh\<lparr>risk_store := risk_store s, sla_store := sla_store s,
      escalation_store := dmap sort_events folded, escalation_rows := Some d\<rparr>"
  have run: "set_risk_store_factory c (Some (a, b, d)) fresh = (True, t)"
    by (simp add: set_risk_store_factory_def db_load_all_def load_rows_dmap_dump l ca cb evs(1) dput_all_empty
        t_def folded_def ra sa)
  have sort: "mset (sort_events es) = mset es" "sorted (map (\<lambda>e. utc_instant (as_aware_utc (es_created_at e))) (sort_events es))"
    "sort_events [] = []" for es by (simp_all add: sort_events_def)
  have g: "get_escalations t k = sort_events (map snd (filter (\<lambda>x. fst x = k) evs))" for k
    using fg(1) sort(3) by (simp add: get_escalations_def t_def dget_list_dmap)
  have m: "mset (get_escalations t k) = mset (get_escalations s k)" for k
  proof -
    have "map snd (filter (\<lambda>row. fst row = k) d) = map (dump ?c3) (map snd (filter (\<lambda>x. fst x = k) evs))"
      unfolding evs(3) by (induction evs) auto
    then have "mset (map (dump ?c3) (map snd (filter (\<lambda>x. fst x = k) evs))) = mset (map (dump ?c3) (get_escalations s k))"
      using rows[of k] by simp
    from dump_msets[OF l(3) this] show ?thesis by (simp add: g sort)
  qed
  have ts: "risk_store t = risk_store s" "sla_store t = sla_store s" "escalation_rows t = Some d"
    "escalation_store t = dmap sort_events folded" by (simp_all add: t_def)
  have gs: "get_sla t k = get_sla s k" for k by (simp add: get_sla_def ts)
  have sets: "set (get_escalations t k) = set (get_escalations s k)" for k
    using mset_eq_setD[OF m] .
  have mm: "mset (map (dump ?c3) (get_escalations t k)) = mset (map (dump ?c3) (get_escalations s k))" for k
    using m[of k] by simp
  have "risk_ok policy c t"
    unfolding risk_ok_def ts gs sets mm
    using risk_okD(1,2)[OF ok] risk_okD(3)[OF ok] risk_okD(4)[OF ok] risk_okD(5)[OF ok] risk_okD(7)[OF ok] fg(2) rows
    by (intro conjI) (blast | simp)+
  then show ?thesis using run ts f(3) m sort(2) g by auto
qed

lemma risk_ok_restart:
  assumes "risk_ok policy c s" "lossless (fst c)" "lossless (fst (snd c))" "lossless (snd (snd c))"
    "factory (risk_store s) = Some a" "factory (sla_store s) = Some b" "escalation_rows s = Some d"
  shows "risk_ok policy c (snd (set_risk_store_factory c (Some (a, b, d)) fresh))"
  using restart_effect[OF assms, of fresh] by auto

lemma risk_ok_step: "risk_ok policy c s \<Longrightarrow> risk_step policy c isof s t \<Longrightarrow> risk_ok policy c t"
  by (elim risk_stepE) (auto intro: risk_ok_op risk_ok_remove risk_ok_reset risk_ok_restart)

interpretation risk_sys: invariant_system risk_init "risk_step policy c isof" "risk_ok policy c"
  for policy and c :: "('a, 'b, 'c) risk_codecs" and isof
  by unfold_locales (auto intro: risk_ok_init risk_ok_step)

text \<open>Along the operations the events of every finding are only appended to.\<close>

lemma escalations_grow:
  assumes "risk_ok policy c s" and "risk_op policy c isof s t"
  shows "prefix (get_escalations s k) (get_escalations t k)"
  using assms(2)
proof (cases rule: risk_op.cases)
  case (op_start fid at_micros)
  then show ?thesis by (cases rule: start_sla_cases[of s fid c policy at_micros]) simp_all
next
  case (op_check fid now)
  then show ?thesis
    using check_and_persist_effect[OF assms(1), of now isof fid] check_and_persist_naive[of now c isof fid s]
    by (cases "is_aware now") auto
next
  case (op_resolve fid now)
  then show ?thesis by (cases rule: resolve_handler_cases[of c fid now s]) simp_all
next
  case (op_evaluate now)
  then show ?thesis using evaluate_once_effect[OF assms(1) op_evaluate(2), of isof] by auto
qed (simp add: assess_risk_def Let_def)

interpretation escalation_log: monotone_system risk_init "risk_op policy c isof" "risk_ok policy c"
    get_escalations "\<lambda>f g. \<forall>k. prefix (f k) (g k)"
  for policy and c :: "('a, 'b, 'c) risk_codecs" and isof
  by unfold_locales (auto intro: risk_ok_init risk_ok_op escalations_grow prefix_order.trans)


section \<open>Properties of the system\<close>

text \<open>A sample run: a \<open>P1\<close> risk is assessed, its SLA started at time 0 and evaluated after 24 hours.\<close>

definition sample_risk_codecs :: "(risk_assessment, sla_record, escalation_event) risk_codecs" where
  "sample_risk_codecs = (id_codec, id_codec, id_codec)"

definition risk0 :: "(risk_assessment, sla_record, escalation_event) risk_state" where
  "risk0 = \<lparr>risk_store = \<lparr>cache = [], factory = Some []\<rparr>, sla_store = \<lparr>cache = [], factory = Some []\<rparr>,
     escalation_store = [], escalation_rows = Some []\<rparr>"

definition risk1 where
  "risk1 = snd (assess_risk sample_risk_codecs default_risk_policy sample_finding None None (utc 0) risk0)"
definition risk2 where "risk2 = snd (start_sla sample_risk_codecs DEFAULT_DEADLINES ''f'' 0 risk1)"
definition risk3 where "risk3 = snd (evaluate_once sample_risk_codecs (\<lambda>_. []) (utc (hours 24)) risk2)"

definition sample_sla :: sla_record where
  "sample_sla = \<lparr>sl_finding_id = ''f'', sl_priority = P1, sl_started_at = utc 0, sl_due_at = Some (utc (hours 24)),
     sl_status = Sla_active, sl_breached_at = None, sl_escalation_level = 0, sl_last_checked_at = None,
     sl_resolved_at = None\<rparr>"

abbreviation sample_op where "sample_op \<equiv> risk_op DEFAULT_DEADLINES sample_risk_codecs (\<lambda>_. [])"

lemma risk_init0: "risk_init risk0"
  unfolding risk_init_def risk0_def by (rule exI[of _ True]) simp

lemma sample_assessment:
  "kstore_get (risk_store risk1) ''f'' = Some p1_risk" "rk_priority p1_risk = P1" "rk_finding_id p1_risk = ''f''"
  by (simp_all add: risk1_def assess_risk_def record_risk_def kstore_get_def kstore_put_def Let_def p1_risk_def assess_def
      risk_score_def sample_finding_def severity_factor_def validation_factor_def proof_factor_def
      default_risk_policy_def SEVERITY_WEIGHTS_def priority_for_def PRIORITY_THRESHOLDS_def lower_char_def)

lemma risk2_eq: "risk2 = record_sla sample_risk_codecs sample_sla risk1"
proof -
  have "get_sla risk1 k = None" for k
    by (simp add: risk1_def assess_risk_def Let_def) (simp add: risk0_def get_sla_def kstore_get_def)
  moreover have "create_sla DEFAULT_DEADLINES p1_risk (utc 0) = Some sample_sla"
    by (simp add: create_sla_def sample_assessment duration_for_def DEFAULT_DEADLINES_def sample_sla_def Let_def utc_def
        hours_def aware_utc_def)
  ultimately show ?thesis by (simp add: risk2_def start_sla_def sample_assessment)
qed

lemma sample_get_sla: "get_sla risk2 ''f'' = Some sample_sla"
  by (simp add: risk2_eq) (simp add: sample_sla_def)

lemma sample_reach: "sample_op\<^sup>*\<^sup>* risk0 risk2" "sample_op\<^sup>*\<^sup>* risk0 risk3"
proof -
  have "sample_op risk0 risk1" unfolding risk1_def by (rule op_assess)
  moreover have "sample_op risk1 risk2" unfolding risk2_def by (rule op_start)
  ultimately show two: "sample_op\<^sup>*\<^sup>* risk0 risk2" by simp
  have "sample_op risk2 risk3" unfolding risk3_def by (rule op_evaluate) simp
  with two show "sample_op\<^sup>*\<^sup>* risk0 risk3" by simp
qed

lemma ops_are_steps: "(risk_op policy c isof)\<^sup>*\<^sup>* s t \<Longrightarrow> (risk_step policy c isof)\<^sup>*\<^sup>* s t"
  by (erule rtranclp_mono[THEN predicate2D, rotated]) (auto intro: step_op)

lemma sample_ok: "risk_ok DEFAULT_DEADLINES sample_risk_codecs risk2"
  using escalation_log.inv_reachable[OF risk_init0 sample_reach(1)] .

text \<open>C13. In every state the operations, deletions and restarts reach, each SLA record is filed under its
  finding, its deadline is its start plus the duration of its priority, its level is 1 exactly when it
  has breached, a recorded breach has its escalation event, and every event of a finding is a
  transition from level 0 to 1 of that finding.\<close>
theorem sla_records_well_formed:
  assumes "risk_init s" and "(risk_step policy c isof)\<^sup>*\<^sup>* s t" and "get_sla t k = Some r"
  shows "sl_finding_id r = k \<and>
         sl_due_at r = map_option (add_micros (sl_started_at r)) (duration_for policy (sl_priority r)) \<and>
         sl_escalation_level r = (if sl_breached_at r = None then 0 else 1) \<and>
         (sl_status r = Breached \<longrightarrow> sl_breached_at r \<noteq> None) \<and>
         (sl_status r = Resolved \<longleftrightarrow> sl_resolved_at r \<noteq> None) \<and>
         (\<forall>b. sl_breached_at r = Some b \<longrightarrow> (\<exists>e \<in> set (get_escalations t k). es_created_at e = b)) \<and>
         (\<forall>e \<in> set (get_escalations t k).
            es_finding_id e = k \<and> es_previous_level e = 0 \<and> es_new_level e = 1)"
proof -
  have ok: "risk_ok policy c t" using risk_sys.inv_reachable[OF assms(1,2)] .
  from risk_okD(4)[OF ok assms(3)] risk_okD(5)[OF ok assms(3)] risk_okD(7)[OF ok] show ?thesis
    unfolding record_ok_def by blast
qed

theorem sla_records_well_formed_witness:
  "sl_due_at sample_sla = map_option (add_micros (utc 0)) (duration_for DEFAULT_DEADLINES P1) \<and>
   sl_finding_id sample_sla = ''f''"
  using sla_records_well_formed[OF risk_init0 ops_are_steps[OF sample_reach(1)] sample_get_sla]
  by (simp add: sample_sla_def)

text \<open>A cycle of the evaluator, in any reachable state and at an aware time, never fails, counts the records it
  inspected and skipped, breaches exactly the overdue active ones with one event each, leaves every
  other record's status alone, and leaves no overdue record behind.\<close>
theorem evaluator_cycle:
  assumes "risk_init s" and "(risk_step policy c isof)\<^sup>*\<^sup>* s u" and "is_aware now"
  shows "\<exists>stats t. evaluate_once c isof now u = (stats, t) \<and> st_errors stats = 0 \<and>
           st_inspected stats = length (kstore_all (sla_store u)) \<and>
           st_breached stats = length (filter (overdue now) (kstore_all (sla_store u))) \<and>
           st_skipped stats = length (filter (\<lambda>r. sl_status r \<noteq> Sla_active) (kstore_all (sla_store u))) \<and>
           (\<forall>k r. get_sla t k = Some r \<longrightarrow> \<not> overdue now r) \<and>
           (\<forall>k. map_option sl_status (get_sla t k) =
              map_option (\<lambda>r. if overdue now r then Breached else sl_status r) (get_sla u k)) \<and>
           (\<forall>k. length (get_escalations t k) = length (get_escalations u k) +
              (if \<exists>r. get_sla u k = Some r \<and> overdue now r then 1 else 0))"
proof -
  have ok: "risk_ok policy c u" using risk_sys.inv_reachable[OF assms(1,2)] .
  from evaluate_once_effect[OF ok assms(3), of isof] obtain stats t where t:
    "evaluate_once c isof now u = (stats, t)"
    "st_errors stats = 0" "st_inspected stats = length (kstore_all (sla_store u))"
    "st_breached stats = length (filter (overdue now) (kstore_all (sla_store u)))"
    "st_skipped stats = length (filter (\<lambda>r. sl_status r \<noteq> Sla_active) (kstore_all (sla_store u)))"
    "\<And>k. get_sla t k = map_option (\<lambda>r. if sl_status r = Sla_active then after_check now r else r) (get_sla u k)"
    "\<And>k. get_escalations t k = get_escalations u k @
       (case Option.bind (get_sla u k) (check_event isof now) of None \<Rightarrow> [] | Some e \<Rightarrow> [e])" by auto
  have calm: "\<not> overdue now (if sl_status r = Sla_active then after_check now r else r)" for r
    by (auto simp: overdue_def after_check_def Let_def)
  have none: "\<not> overdue now r" if "get_sla t k = Some r" for k r
    using that calm unfolding t(6) by (cases "get_sla u k") (simp_all only: option.map option.inject option.distinct, blast)
  have "sl_status (if sl_status r = Sla_active then after_check now r else r) =
      (if overdue now r then Breached else sl_status r)" for r
    by (auto simp: overdue_def after_check_def Let_def)
  then have "map_option sl_status (get_sla t k) =
      map_option (\<lambda>r. if overdue now r then Breached else sl_status r) (get_sla u k)" for k
    unfolding t(6) by (cases "get_sla u k") (simp_all only: option.map)
  then have "\<forall>k. map_option sl_status (get_sla t k) =
      map_option (\<lambda>r. if overdue now r then Breached else sl_status r) (get_sla u k)" by blast
  moreover have "\<forall>k. length (get_escalations t k) = length (get_escalations u k) +
      (if \<exists>r. get_sla u k = Some r \<and> overdue now r then 1 else 0)"
    by (auto simp: t(7) check_event_def split: Option.bind_splits)
  ultimately show ?thesis using t(1-5) none by (intro exI[of _ stats] exI[of _ t]) simp
qed

theorem evaluator_cycle_witness:
  "\<exists>stats t. evaluate_once sample_risk_codecs (\<lambda>_. []) (utc (hours 24)) risk2 = (stats, t) \<and> st_breached stats = 1"
proof -
  have "kstore_all (sla_store risk2) = [sample_sla]"
    by (simp add: risk2_eq record_sla_def risk1_def assess_risk_def record_risk_def Let_def risk0_def kstore_all_def
        kstore_put_def)
  moreover have "overdue (utc (hours 24)) sample_sla" by (simp add: overdue_def sample_sla_def)
  ultimately show ?thesis
    using evaluator_cycle[OF risk_init0 ops_are_steps[OF sample_reach(1)] is_aware_utc, of "hours 24"] by auto
qed


text \<open>A restart of a configured process in a reachable state loses nothing: assessments and SLA records come back
  as they were, and each finding has the same escalation events, now in the order of their time.\<close>
theorem risk_stores_survive_restart:
  assumes "risk_init s" and "(risk_step policy c isof)\<^sup>*\<^sup>* s t"
    and "lossless (fst c)" and "lossless (fst (snd c))" and "lossless (snd (snd c))"
    and "factory (risk_store t) = Some a" and "factory (sla_store t) = Some b" and "escalation_rows t = Some d"
  shows "\<exists>u. set_risk_store_factory c (Some (a, b, d)) fresh = (True, u) \<and>
           kstore_get (risk_store u) = kstore_get (risk_store t) \<and> get_sla u = get_sla t \<and>
           (\<forall>k. mset (get_escalations u k) = mset (get_escalations t k) \<and>
                sorted (map (\<lambda>e. utc_instant (as_aware_utc (es_created_at e))) (get_escalations u k)))"
  using restart_effect[OF risk_sys.inv_reachable[OF assms(1,2)] assms(3-8), of fresh]
  by (auto simp: get_sla_def fun_eq_iff)

theorem risk_stores_survive_restart_witness:
  "\<exists>u. set_risk_store_factory sample_risk_codecs (Some ([(''f'', p1_risk)], [(''f'', sample_sla)], [])) risk0 = (True, u) \<and>
     get_sla u ''f'' = Some sample_sla"
proof -
  have f: "factory (risk_store risk2) = Some [(''f'', p1_risk)]" "factory (sla_store risk2) = Some [(''f'', sample_sla)]"
    "escalation_rows risk2 = Some []"
    by (simp_all add: risk2_eq record_sla_def risk1_def assess_risk_def record_risk_def Let_def risk0_def
        kstore_put_def sample_risk_codecs_def id_codec_def)
      (simp_all add: p1_risk_def assess_def Let_def sample_finding_def sample_sla_def split: prod.splits)
  have l: "lossless (fst sample_risk_codecs)" "lossless (fst (snd sample_risk_codecs))"
    "lossless (snd (snd sample_risk_codecs))" by (simp_all add: sample_risk_codecs_def)
  from risk_stores_survive_restart[OF risk_init0 ops_are_steps[OF sample_reach(1)] l f, of risk0] show ?thesis
    by (metis sample_get_sla)
qed

text \<open>The handlers keep every escalation event, in its order: along any sequence of assessments, starts, checks,
  resolutions and evaluations from a reachable state, the events of a finding only grow at the end.\<close>
theorem escalations_append_only:
  assumes "risk_init s" and "(risk_step policy c isof)\<^sup>*\<^sup>* s t" and "(risk_op policy c isof)\<^sup>*\<^sup>* t u"
  shows "prefix (get_escalations t k) (get_escalations u k)"
  using escalation_log.obs_steps[OF assms(3) risk_sys.inv_reachable[OF assms(1,2)]] by blast

theorem escalations_append_only_witness:
  "prefix (get_escalations risk2 ''f'') (get_escalations risk3 ''f'')"
proof -
  have "sample_op risk2 risk3" unfolding risk3_def by (rule op_evaluate) simp
  then show ?thesis
    by (intro escalations_append_only[OF risk_init0 ops_are_steps[OF sample_reach(1)]] r_into_rtranclp)
qed

text \<open>Starting an SLA again after the priority of the finding has changed replaces its record, whatever the
  status of that record: a resolved SLA is active again, at level 0 and unresolved, although the service documents
  resolution as terminal.\<close>
theorem resolved_sla_reactivates:
  assumes "kstore_get (risk_store s) k = Some a" and "get_sla s k = Some r" and "sl_status r = Resolved"
    and "sl_priority r \<noteq> rk_priority a" and "rk_finding_id a = k" and "duration_for policy (rk_priority a) = Some d"
  shows "\<exists>q. start_sla c policy k now s = (Some q, record_sla c q s) \<and>
           get_sla (snd (start_sla c policy k now s)) k = Some q \<and>
           sl_status q = Sla_active \<and> sl_resolved_at q = None \<and> sl_escalation_level q = 0"
proof -
  obtain q where q: "create_sla policy a (utc now) = Some q" "sl_status q = Sla_active" "sl_resolved_at q = None"
    "sl_escalation_level q = 0"
    using assms(6) by (auto simp: create_sla_def Let_def)
  have id: "sl_finding_id q = k" using record_ok_create[OF q(1)] assms(5) by simp
  have "start_sla c policy k now s = (Some q, record_sla c q s)"
    using assms(1,2,4) q(1) by (simp add: start_sla_def Let_def)
  then show ?thesis using q id by simp
qed

definition resolved_sla :: sla_record where
  "resolved_sla = sample_sla\<lparr>sl_status := Resolved, sl_resolved_at := Some (utc 7), sl_priority := P0\<rparr>"

theorem resolved_sla_reactivates_witness:
  "\<exists>q. get_sla (snd (start_sla sample_risk_codecs DEFAULT_DEADLINES ''f'' 9
       (record_sla sample_risk_codecs resolved_sla risk1))) ''f'' = Some q \<and> sl_status q = Sla_active"
proof -
  let ?s = "record_sla sample_risk_codecs resolved_sla risk1"
  have "kstore_get (risk_store ?s) ''f'' = Some p1_risk" by (simp add: sample_assessment)
  moreover have "get_sla ?s ''f'' = Some resolved_sla" by (simp add: resolved_sla_def sample_sla_def)
  moreover have "sl_status resolved_sla = Resolved" "sl_priority resolved_sla \<noteq> rk_priority p1_risk"
    by (simp_all add: resolved_sla_def sample_assessment)
  moreover have "duration_for DEFAULT_DEADLINES (rk_priority p1_risk) = Some (hours 24)"
    by (simp add: sample_assessment duration_for_def DEFAULT_DEADLINES_def)
  ultimately show ?thesis
    using resolved_sla_reactivates[of ?s "''f''" p1_risk resolved_sla DEFAULT_DEADLINES "hours 24" sample_risk_codecs 9]
    by (auto simp: sample_assessment)
qed

text \<open>The resolve handler reads, resolves and writes its record outside the lock of the check: when the check
  breaches the record between the read and the write, the write restores level 0 and no breach time
  although the escalation event stays recorded.\<close>
theorem resolve_race_loses_breach:
  assumes "risk_ok policy c s" and "get_sla s k = Some r" and "overdue now r" and "is_aware now" and "is_aware later"
  shows "\<exists>stale event. resolve_sla r later = Some stale \<and>
           (let t = record_sla c stale (snd (check_and_persist_sla c isof k now s)) in
             get_sla t k = Some stale \<and> sl_escalation_level stale = 0 \<and> sl_breached_at stale = None \<and>
             last (get_escalations t k) = event \<and> es_new_level event = 1 \<and>
             length (get_escalations t k) = length (get_escalations s k) + 1)"
proof -
  have r: "sl_finding_id r = k" "record_ok policy r" using risk_okD(4)[OF assms(1,2)] by simp_all
  have act: "sl_status r = Sla_active" using assms(3) by (simp add: overdue_def)
  have fields: "sl_breached_at r = None" "sl_escalation_level r = 0" using record_okD(2)[OF r(2) act] by simp_all
  let ?e = "breach_event isof r (the (sl_due_at r)) now"
  have "get_escalations (snd (check_and_persist_sla c isof k now s)) k = get_escalations s k @ [?e]"
    using check_and_persist_effect[OF assms(1,4), of isof k] assms(2,3) by (simp add: check_event_def)
  then show ?thesis
    using act fields r(1) assms(5) by (auto simp: resolve_sla_def Let_def breach_event_def)
qed

theorem resolve_race_loses_breach_witness:
  "\<exists>stale. resolve_sla sample_sla (utc (hours 25)) = Some stale \<and> sl_escalation_level stale = 0 \<and>
     length (get_escalations (record_sla sample_risk_codecs stale (snd (check_and_persist_sla sample_risk_codecs
       (\<lambda>_. []) ''f'' (utc (hours 24)) risk2))) ''f'') = length (get_escalations risk2 ''f'') + 1"
proof -
  have "overdue (utc (hours 24)) sample_sla" by (simp add: overdue_def sample_sla_def)
  from resolve_race_loses_breach[OF sample_ok sample_get_sla this is_aware_utc is_aware_utc, of "hours 25" "\<lambda>_. []"]
  show ?thesis unfolding Let_def by blast
qed

end
