(* ===== verification/Scan_Runs.thy ===== *)
theory Scan_Runs
  imports Validate
begin

text \<open>
  Scan runs (backend/app/scan/run_models.py, run_store.py, run_service.py): a run of the scan route, the current
  status of each of its pipeline stages, the append-only history of stage executions, the findings a run
  produced, and the functions that record an execution around the stage's own work.

  The caches are dictionaries; the four tables are the lists of their rows. Stage rows have the composite key of
  run and stage, execution rows the execution id, lineage rows both ids and no payload. Clock readings and fresh
  identifiers are arguments.
\<close>

section \<open>Contracts\<close>

datatype run_status = Run_pending | Run_running | Run_completed | Run_failed

type_synonym stage_status = run_status

definition STAGE_NAMES :: "string list" where
  "STAGE_NAMES = [''PREPARE'', ''SCAN'', ''DEDUPLICATE'', ''RISK'', ''SLA'', ''VALIDATE'', ''PROVE'', ''APPROVAL'']"

record scan_run =
  rn_id :: string
  rn_project_id :: string
  rn_status :: run_status
  rn_started_at :: py_datetime
  rn_completed_at :: "py_datetime option"
  rn_scanned_file_count :: "nat option"
  rn_total_findings :: "nat option"
  rn_error :: "string option"
  rn_created_at :: py_datetime

record scan_stage_run =
  sg_run_id :: string
  sg_stage_name :: string
  sg_status :: stage_status
  sg_started_at :: "py_datetime option"
  sg_completed_at :: "py_datetime option"
  sg_error :: "string option"
  sg_execution_count :: nat
  sg_last_execution_at :: "py_datetime option"

record stage_execution =
  ex_id :: string
  ex_run_id :: string
  ex_stage_name :: string
  ex_status :: stage_status
  ex_started_at :: py_datetime
  ex_completed_at :: "py_datetime option"
  ex_error :: "string option"

section \<open>The store\<close>

record ('a, 'b, 'c) run_tables =
  run_rows :: "(string, 'a) dict"
  stage_rows :: "(string \<times> string, 'b) dict"
  execution_rows :: "(string, string \<times> 'c) dict"
  lineage_rows :: "(string \<times> string) list"

record ('a, 'b, 'c) run_store =
  runs :: "(string, scan_run) dict"
  stages :: "(string, (string, scan_stage_run) dict) dict"
  executions :: "(string, stage_execution list) dict"
  lineage :: "(string, string list) dict"
  run_factory :: "('a, 'b, 'c) run_tables option"

record ('a, 'b, 'c) run_codecs =
  run_codec :: "(scan_run, 'a) codec"
  stage_codec :: "(scan_stage_run, 'b) codec"
  execution_codec :: "(stage_execution, 'c) codec"

abbreviation on_tables ::
    "(('a, 'b, 'c) run_tables \<Rightarrow> ('a, 'b, 'c) run_tables) \<Rightarrow> ('a, 'b, 'c) run_store \<Rightarrow> ('a, 'b, 'c) run_store" where
  "on_tables f s \<equiv> s\<lparr>run_factory := map_option f (run_factory s)\<rparr>"

definition empty_run_store :: "('a, 'b, 'c) run_store" where
  "empty_run_store = \<lparr>runs = [], stages = [], executions = [], lineage = [], run_factory = None\<rparr>"

text \<open>Writes.\<close>

definition create_run :: "('a, 'b, 'c) run_codecs \<Rightarrow> scan_run \<Rightarrow> ('a, 'b, 'c) run_store \<Rightarrow> ('a, 'b, 'c) run_store" where
  "create_run c r s =
     on_tables (\<lambda>t. t\<lparr>run_rows := the (db_upsert (run_codec c) (rn_id r) r (Some (run_rows t)))\<rparr>)
       (s\<lparr>runs := dput (rn_id r) r (runs s)\<rparr>)"

definition update_run where "update_run = create_run"

definition upsert_stage ::
    "('a, 'b, 'c) run_codecs \<Rightarrow> scan_stage_run \<Rightarrow> ('a, 'b, 'c) run_store \<Rightarrow> ('a, 'b, 'c) run_store" where
  "upsert_stage c g s =
     (let inner = (case dget (stages s) (sg_run_id g) of None \<Rightarrow> [] | Some d \<Rightarrow> d) in
      on_tables (\<lambda>t. t\<lparr>stage_rows := dput (sg_run_id g, sg_stage_name g) (dump (stage_codec c) g) (stage_rows t)\<rparr>)
        (s\<lparr>stages := dput (sg_run_id g) (dput (sg_stage_name g) g inner) (stages s)\<rparr>))"

definition add_finding_lineage :: "string \<Rightarrow> string \<Rightarrow> ('a, 'b, 'c) run_store \<Rightarrow> ('a, 'b, 'c) run_store" where
  "add_finding_lineage run_id fid s =
     (let ids = dget_list (lineage s) run_id in
      on_tables (\<lambda>t. if (run_id, fid) \<in> set (lineage_rows t) then t
                    else t\<lparr>lineage_rows := lineage_rows t @ [(run_id, fid)]\<rparr>)
        (s\<lparr>lineage := dput run_id (if fid \<in> set ids then ids else ids @ [fid]) (lineage s)\<rparr>))"

definition upsert_execution_row ::
    "('a, 'b, 'c) run_codecs \<Rightarrow> stage_execution \<Rightarrow> ('a, 'b, 'c) run_store \<Rightarrow> ('a, 'b, 'c) run_store" where
  "upsert_execution_row c e s =
     on_tables (\<lambda>t. t\<lparr>execution_rows :=
         (case dget (execution_rows t) (ex_id e) of
            None \<Rightarrow> execution_rows t @ [(ex_id e, (ex_run_id e, dump (execution_codec c) e))]
          | Some (rid, _) \<Rightarrow> dput (ex_id e) (rid, dump (execution_codec c) e) (execution_rows t))\<rparr>) s"

definition stage_of :: "('a, 'b, 'c) run_store \<Rightarrow> string \<Rightarrow> string \<Rightarrow> scan_stage_run option" where
  "stage_of s run_id stage_name = (case dget (stages s) run_id of None \<Rightarrow> None | Some d \<Rightarrow> dget d stage_name)"

definition begin_stage_execution ::
    "('a, 'b, 'c) run_codecs \<Rightarrow> string \<Rightarrow> string \<Rightarrow> string \<Rightarrow> py_datetime \<Rightarrow> ('a, 'b, 'c) run_store
     \<Rightarrow> ('a, 'b, 'c) run_store" where
  "begin_stage_execution c run_id stage_name eid started_at s =
     (let e = \<lparr>ex_id = eid, ex_run_id = run_id, ex_stage_name = stage_name, ex_status = Run_running,
               ex_started_at = started_at, ex_completed_at = None, ex_error = None\<rparr>;
          s1 = upsert_execution_row c e (s\<lparr>executions := dappend run_id e (executions s)\<rparr>);
          previous = stage_of s1 run_id stage_name
      in upsert_stage c
           \<lparr>sg_run_id = run_id, sg_stage_name = stage_name, sg_status = Run_running,
            sg_started_at = Some started_at, sg_completed_at = None, sg_error = None,
            sg_execution_count = (case previous of None \<Rightarrow> 0 | Some p \<Rightarrow> sg_execution_count p) + 1,
            sg_last_execution_at = Some started_at\<rparr> s1)"

text \<open>\<open>executions[executions.index(x)] = y\<close> for the first element of a kind.\<close>

fun replace_first :: "('a \<Rightarrow> bool) \<Rightarrow> ('a \<Rightarrow> 'a) \<Rightarrow> 'a list \<Rightarrow> 'a list" where
  "replace_first P f [] = []"
| "replace_first P f (x # xs) = (if P x then f x # xs else x # replace_first P f xs)"

definition finish_execution ::
    "stage_status \<Rightarrow> py_datetime \<Rightarrow> string option \<Rightarrow> stage_execution \<Rightarrow> stage_execution" where
  "finish_execution status completed_at err e =
     e\<lparr>ex_status := status, ex_completed_at := Some completed_at, ex_error := err\<rparr>"

definition update_execution ::
    "('a, 'b, 'c) run_codecs \<Rightarrow> string \<Rightarrow> stage_status \<Rightarrow> py_datetime \<Rightarrow> string option \<Rightarrow> ('a, 'b, 'c) run_store
     \<Rightarrow> ('a, 'b, 'c) run_store" where
  "update_execution c eid status completed_at err s =
     (case find (\<lambda>(rid, es). \<exists>e \<in> set es. ex_id e = eid) (executions s) of
        None \<Rightarrow> s
      | Some (rid, es) \<Rightarrow>
          (case find (\<lambda>e. ex_id e = eid) es of
             None \<Rightarrow> s
           | Some e \<Rightarrow>
               upsert_execution_row c (finish_execution status completed_at err e)
                 (s\<lparr>executions :=
                    dput rid (replace_first (\<lambda>e. ex_id e = eid) (finish_execution status completed_at err) es)
                      (executions s)\<rparr>)))"

definition settle_stage ::
    "stage_status \<Rightarrow> string \<Rightarrow> string \<Rightarrow> py_datetime \<Rightarrow> string option \<Rightarrow> ('a, 'b, 'c) run_store \<Rightarrow> scan_stage_run" where
  "settle_stage status run_id stage_name completed_at err s =
     (let previous = stage_of s run_id stage_name in
      \<lparr>sg_run_id = run_id, sg_stage_name = stage_name, sg_status = status,
       sg_started_at = (case previous of None \<Rightarrow> None | Some p \<Rightarrow> sg_started_at p),
       sg_completed_at = Some completed_at, sg_error = err,
       sg_execution_count = (case previous of None \<Rightarrow> 0 | Some p \<Rightarrow> sg_execution_count p),
       sg_last_execution_at = (case previous of None \<Rightarrow> None | Some p \<Rightarrow> sg_last_execution_at p)\<rparr>)"

definition complete_stage_execution ::
    "('a, 'b, 'c) run_codecs \<Rightarrow> string \<Rightarrow> string \<Rightarrow> string \<Rightarrow> py_datetime \<Rightarrow> ('a, 'b, 'c) run_store
     \<Rightarrow> ('a, 'b, 'c) run_store" where
  "complete_stage_execution c run_id stage_name eid completed_at s =
     (let s1 = update_execution c eid Run_completed completed_at None s in
      upsert_stage c (settle_stage Run_completed run_id stage_name completed_at None s1) s1)"

definition fail_stage_execution ::
    "('a, 'b, 'c) run_codecs \<Rightarrow> string \<Rightarrow> string \<Rightarrow> string \<Rightarrow> py_datetime \<Rightarrow> string \<Rightarrow> ('a, 'b, 'c) run_store
     \<Rightarrow> ('a, 'b, 'c) run_store" where
  "fail_stage_execution c run_id stage_name eid completed_at err s =
     (let s1 = update_execution c eid Run_failed completed_at (Some err) s in
      upsert_stage c (settle_stage Run_failed run_id stage_name completed_at (Some err) s1) s1)"

text \<open>Reads. \<open>None\<close> is the exception: comparing a naive with an aware time, a lineage entry without its run.\<close>

definition comparable :: "py_datetime list \<Rightarrow> bool" where
  "comparable ts \<longleftrightarrow> list_all is_aware ts \<or> list_all (\<lambda>t. \<not> is_aware t) ts"

definition newest_first :: "scan_run list \<Rightarrow> scan_run list option" where
  "newest_first rs =
     (if comparable (map rn_started_at rs)
      then Some (rev (sort_key (\<lambda>r. utc_instant (rn_started_at r)) (rev rs))) else None)"

definition runs_for_project :: "('a, 'b, 'c) run_store \<Rightarrow> string \<Rightarrow> scan_run list option" where
  "runs_for_project s project_id = newest_first (filter (\<lambda>r. rn_project_id r = project_id) (dvalues (runs s)))"

fun lookup_runs :: "('a, 'b, 'c) run_store \<Rightarrow> string list \<Rightarrow> scan_run list option" where
  "lookup_runs s [] = Some []"
| "lookup_runs s (k # ks) =
     (case dget (runs s) k of
        None \<Rightarrow> None
      | Some r \<Rightarrow> (case lookup_runs s ks of None \<Rightarrow> None | Some rs \<Rightarrow> Some (r # rs)))"

definition runs_for_finding :: "('a, 'b, 'c) run_store \<Rightarrow> string \<Rightarrow> scan_run list option" where
  "runs_for_finding s fid =
     (case lookup_runs s (map fst (filter (\<lambda>(k, ids). fid \<in> set ids) (lineage s))) of
        None \<Rightarrow> None
      | Some rs \<Rightarrow> newest_first rs)"

definition stages_for_run :: "('a, 'b, 'c) run_store \<Rightarrow> string \<Rightarrow> scan_stage_run list" where
  "stages_for_run s run_id =
     (let d = (case dget (stages s) run_id of None \<Rightarrow> [] | Some d \<Rightarrow> d)
      in List.map_filter (\<lambda>n. dget d n) STAGE_NAMES)"

definition started_instant :: "stage_execution \<Rightarrow> int" where
  "started_instant e = utc_instant (as_aware_utc (ex_started_at e))"

definition executions_for_run :: "('a, 'b, 'c) run_store \<Rightarrow> string \<Rightarrow> stage_execution list" where
  "executions_for_run s run_id = sort_key started_instant (dget_list (executions s) run_id)"

definition finding_ids_for_run :: "('a, 'b, 'c) run_store \<Rightarrow> string \<Rightarrow> string list" where
  "finding_ids_for_run s run_id = dget_list (lineage s) run_id"

definition delete_project_runs :: "string \<Rightarrow> ('a, 'b, 'c) run_store \<Rightarrow> ('a, 'b, 'c) run_store" where
  "delete_project_runs project_id s =
     (let ids = map rn_id (filter (\<lambda>r. rn_project_id r = project_id) (dvalues (runs s)));
          s1 = s\<lparr>runs := fold dpop ids (runs s), stages := fold dpop ids (stages s),
                 executions := fold dpop ids (executions s), lineage := fold dpop ids (lineage s)\<rparr>
      in if ids = [] then s1
         else on_tables (\<lambda>t. t\<lparr>run_rows := filter (\<lambda>(k, _). k \<notin> set ids) (run_rows t),
                              stage_rows := filter (\<lambda>((k, _), _). k \<notin> set ids) (stage_rows t),
                              execution_rows := filter (\<lambda>(_, (k, _)). k \<notin> set ids) (execution_rows t),
                              lineage_rows := filter (\<lambda>(k, _). k \<notin> set ids) (lineage_rows t)\<rparr>) s1)"

definition clear_runs :: "('a, 'b, 'c) run_store \<Rightarrow> ('a, 'b, 'c) run_store" where
  "clear_runs s = s\<lparr>runs := [], stages := [], executions := [], lineage := [],
     run_factory := map_option (\<lambda>_. \<lparr>run_rows = [], stage_rows = [], execution_rows = [], lineage_rows = []\<rparr>)
       (run_factory s)\<rparr>"

text \<open>
  \<open>set_factory\<close>: rows are validated one by one; the first that does not validate raises (\<open>False\<close>) and
  leaves what was loaded before it.
\<close>

fun load_into :: "('p \<Rightarrow> 'v option) \<Rightarrow> ('v \<Rightarrow> 's \<Rightarrow> 's) \<Rightarrow> 'p list \<Rightarrow> 's \<Rightarrow> bool \<times> 's" where
  "load_into ld ins [] s = (True, s)"
| "load_into ld ins (p # ps) s =
     (case ld p of None \<Rightarrow> (False, s) | Some v \<Rightarrow> load_into ld ins ps (ins v s))"

definition load_stage :: "scan_stage_run \<Rightarrow> ('a, 'b, 'c) run_store \<Rightarrow> ('a, 'b, 'c) run_store" where
  "load_stage g s =
     (let inner = (case dget (stages s) (sg_run_id g) of None \<Rightarrow> [] | Some d \<Rightarrow> d)
      in s\<lparr>stages := dput (sg_run_id g) (dput (sg_stage_name g) g inner) (stages s)\<rparr>)"

definition load_execution :: "stage_execution \<Rightarrow> ('a, 'b, 'c) run_store \<Rightarrow> ('a, 'b, 'c) run_store" where
  "load_execution e s = s\<lparr>executions := dappend (ex_run_id e) e (executions s)\<rparr>"

definition load_lineage :: "(string \<times> string) list \<Rightarrow> (string, string list) dict" where
  "load_lineage rows = fold (\<lambda>(k, fid). dappend k fid) rows []"

definition set_run_factory ::
    "('a, 'b, 'c) run_codecs \<Rightarrow> ('a, 'b, 'c) run_tables option \<Rightarrow> ('a, 'b, 'c) run_store
     \<Rightarrow> bool \<times> ('a, 'b, 'c) run_store" where
  "set_run_factory c f s =
     (let s0 = s\<lparr>runs := [], stages := [], executions := [], lineage := [], run_factory := f\<rparr> in
      case f of
        None \<Rightarrow> (True, s0)
      | Some t \<Rightarrow>
          (case load_rows (run_codec c) (run_rows t) of
             None \<Rightarrow> (False, s0)
           | Some rs \<Rightarrow>
               (case load_into (load (stage_codec c)) load_stage (map snd (stage_rows t)) (s0\<lparr>runs := dput_all rs []\<rparr>) of
                  (False, s1) \<Rightarrow> (False, s1)
                | (True, s1) \<Rightarrow>
                    (case load_into (load (execution_codec c)) load_execution (map (\<lambda>x. snd (snd x)) (execution_rows t)) s1 of
                       (False, s2) \<Rightarrow> (False, s2)
                     | (True, s2) \<Rightarrow>
                         (True, s2\<lparr>executions := dmap (sort_key started_instant) (executions s2),
                                   lineage := load_lineage (lineage_rows t)\<rparr>)))))"

section \<open>Recording executions\<close>

text \<open>
  \<open>record_stage_execution\<close> wraps the work of a stage, a function on the run store and the rest of the
  state that returns a value or raises (\<open>Inl\<close> with the exception); \<open>str\<close> is the text of an
  exception. The optional condition turns a returned value into a failed execution.
\<close>

definition record_stage_execution ::
    "('e \<Rightarrow> string) \<Rightarrow> ('a, 'b, 'c) run_codecs \<Rightarrow> string \<Rightarrow> string \<Rightarrow> string \<Rightarrow> py_datetime \<Rightarrow> py_datetime
     \<Rightarrow> ('r \<Rightarrow> bool \<times> string) option
     \<Rightarrow> (('a, 'b, 'c) run_store \<times> 'w \<Rightarrow> ('e + 'r) \<times> ('a, 'b, 'c) run_store \<times> 'w)
     \<Rightarrow> ('a, 'b, 'c) run_store \<times> 'w \<Rightarrow> ('e + 'r) \<times> ('a, 'b, 'c) run_store \<times> 'w" where
  "record_stage_execution str c run_id stage_name eid t0 t1 error_condition fn state =
     (case fn (begin_stage_execution c run_id stage_name eid t0 (fst state), snd state) of
        (Inl exc, s, w) \<Rightarrow> (Inl exc, fail_stage_execution c run_id stage_name eid t1 (str exc) s, w)
      | (Inr result, s, w) \<Rightarrow>
          (case (case error_condition of None \<Rightarrow> (False, []) | Some cond \<Rightarrow> cond result) of
             (True, message) \<Rightarrow> (Inr result, fail_stage_execution c run_id stage_name eid t1 message s, w)
           | (False, _) \<Rightarrow> (Inr result, complete_stage_execution c run_id stage_name eid t1 s, w)))"

text \<open>The context checks: the status code and detail of the error, if any.\<close>

definition validate_stage_context :: "('a, 'b, 'c) run_store \<Rightarrow> string \<Rightarrow> string \<Rightarrow> (nat \<times> string) option" where
  "validate_stage_context s run_id fid =
     (case dget (runs s) run_id of
        None \<Rightarrow> Some (404, ''scan run not found: '' @ run_id)
      | Some _ \<Rightarrow>
          if fid \<notin> set (finding_ids_for_run s run_id)
          then Some (400, ''scan run '' @ run_id @ '' does not produce finding '' @ fid) else None)"

definition validate_stage_context_for_findings ::
    "(string list \<Rightarrow> string) \<Rightarrow> ('a, 'b, 'c) run_store \<Rightarrow> string \<Rightarrow> string list \<Rightarrow> (nat \<times> string) option" where
  "validate_stage_context_for_findings list_text s run_id fids =
     (case dget (runs s) run_id of
        None \<Rightarrow> Some (404, ''scan run not found: '' @ run_id)
      | Some _ \<Rightarrow>
          (let foreign = filter (\<lambda>fid. fid \<notin> set (finding_ids_for_run s run_id)) fids in
           if foreign \<noteq> []
           then Some (400, ''scan run '' @ run_id @ '' does not produce findings: '' @ list_text foreign) else None))"

section \<open>The scan route\<close>

text \<open>
  Clock readings, fresh identifiers and the hash of one call; \<open>en_scan_error\<close> is an exception raised
  inside the scan itself (recursion depth, memory, database), which the pure scan function cannot raise.
\<close>

record run_env =
  en_run_id :: string
  en_prepare_eid :: string
  en_scan_eid :: string
  en_report_id :: string
  en_now :: py_datetime
  en_scan_start :: py_datetime
  en_report_at :: py_datetime
  en_scan_end :: py_datetime
  en_end :: py_datetime
  en_sha :: "string \<Rightarrow> string"
  en_scan_error :: "string option"

definition do_scan ::
    "run_env \<Rightarrow> (candidate_finding, 'p) codec \<Rightarrow> string \<Rightarrow> code_model
     \<Rightarrow> ('a, 'b, 'c) run_store \<times> 'p finding_store \<Rightarrow> (string + scan_report) \<times> ('a, 'b, 'c) run_store \<times> 'p finding_store" where
  "do_scan env fc project_id cm state =
     (case en_scan_error env of
        Some message \<Rightarrow> (Inl message, state)
      | None \<Rightarrow>
          (let report = scan (en_sha env) None (en_report_id env) (en_report_at env) cm (Some project_id)
           in (Inr report, fold (\<lambda>f. add_finding_lineage (en_run_id env) (f_id f)) (rep_findings report) (fst state),
               finding_add_report fc report (snd state))))"

definition prepared_at :: "py_datetime option \<Rightarrow> py_datetime \<Rightarrow> py_datetime" where
  "prepared_at project_created_at now = (case project_created_at of None \<Rightarrow> now | Some t \<Rightarrow> as_aware_utc t)"

definition start_run ::
    "('a, 'b, 'c) run_codecs \<Rightarrow> run_env \<Rightarrow> string \<Rightarrow> py_datetime option \<Rightarrow> ('a, 'b, 'c) run_store
     \<Rightarrow> scan_run \<times> ('a, 'b, 'c) run_store" where
  "start_run c env project_id project_created_at s =
     (let run = \<lparr>rn_id = en_run_id env, rn_project_id = project_id, rn_status = Run_running,
                 rn_started_at = en_now env, rn_completed_at = None, rn_scanned_file_count = None,
                 rn_total_findings = None, rn_error = None, rn_created_at = en_now env\<rparr>;
          s1 = create_run c run s;
          s2 = fold (\<lambda>name. upsert_stage c
                 \<lparr>sg_run_id = en_run_id env, sg_stage_name = name, sg_status = Run_pending, sg_started_at = None,
                  sg_completed_at = None, sg_error = None, sg_execution_count = 0, sg_last_execution_at = None\<rparr>)
               STAGE_NAMES s1;
          at_time = prepared_at project_created_at (en_now env);
          s3 = begin_stage_execution c (en_run_id env) ''PREPARE'' (en_prepare_eid env) at_time s2;
          s4 = complete_stage_execution c (en_run_id env) ''PREPARE'' (en_prepare_eid env) at_time s3
      in (run, s4))"

definition execute_scan ::
    "('a, 'b, 'c) run_codecs \<Rightarrow> (candidate_finding, 'p) codec \<Rightarrow> run_env \<Rightarrow> string \<Rightarrow> code_model \<Rightarrow> py_datetime option
     \<Rightarrow> ('a, 'b, 'c) run_store \<times> 'p finding_store
     \<Rightarrow> (string + scan_run \<times> scan_report) \<times> ('a, 'b, 'c) run_store \<times> 'p finding_store" where
  "execute_scan c fc env project_id cm project_created_at state =
     (case start_run c env project_id project_created_at (fst state) of
        (run, s1) \<Rightarrow>
          (case record_stage_execution (\<lambda>message. message) c (en_run_id env) ''SCAN'' (en_scan_eid env) (en_scan_start env)
                  (en_scan_end env) None (do_scan env fc project_id cm) (s1, snd state) of
             (Inl message, s2, fs) \<Rightarrow>
               (Inl message,
                update_run c (run\<lparr>rn_status := Run_failed, rn_completed_at := Some (en_end env),
                                   rn_error := Some message\<rparr>) s2, fs)
           | (Inr report, s2, fs) \<Rightarrow>
               (let completed = run\<lparr>rn_status := Run_completed, rn_completed_at := Some (en_end env),
                      rn_scanned_file_count := Some (rep_scanned_file_count report),
                      rn_total_findings := Some (length (rep_findings report))\<rparr>
                in (Inr (completed, report), update_run c completed s2, fs))))"

end
