(* ===== verification/Scan_Run_System.thy ===== *)
theory Scan_Run_System
  imports Scan_Runs "HOL-Library.Sublist"
begin

text \<open>
  The run store as a system. Starting a run, the two ends of a stage execution, lineage entries, run updates and
  the deletion of a project are its steps, in any interleaving: two executions of one stage may overlap, as
  requests served by different threads do. The invariant ties stage records to the execution history and
  keeps execution ids unique.
\<close>

section \<open>Views\<close>

definition history :: "('a, 'b, 'c) run_store \<Rightarrow> string \<Rightarrow> stage_execution list" where
  "history s run_id = dget_list (executions s) run_id"

definition run_of :: "('a, 'b, 'c) run_store \<Rightarrow> string \<Rightarrow> scan_run option" where
  "run_of s run_id = dget (runs s) run_id"

lemma create_run_views [simp]:
  "run_of (create_run c r s) k = (if k = rn_id r then Some r else run_of s k)"
  "stage_of (create_run c r s) k n = stage_of s k n"
  "history (create_run c r s) k = history s k"
  "finding_ids_for_run (create_run c r s) k = finding_ids_for_run s k"
  "executions (create_run c r s) = executions s"
  "stages (create_run c r s) = stages s"
  "lineage (create_run c r s) = lineage s"
  by (simp_all add: create_run_def run_of_def stage_of_def history_def finding_ids_for_run_def)

lemma upsert_stage_views [simp]:
  "run_of (upsert_stage c g s) k = run_of s k"
  "stage_of (upsert_stage c g s) k n = (if k = sg_run_id g \<and> n = sg_stage_name g then Some g else stage_of s k n)"
  "history (upsert_stage c g s) k = history s k"
  "finding_ids_for_run (upsert_stage c g s) k = finding_ids_for_run s k"
  "executions (upsert_stage c g s) = executions s"
  "runs (upsert_stage c g s) = runs s"
  "lineage (upsert_stage c g s) = lineage s"
  by (auto simp: upsert_stage_def run_of_def stage_of_def history_def finding_ids_for_run_def Let_def
      split: option.splits)

lemma add_lineage_views [simp]:
  "run_of (add_finding_lineage r f s) k = run_of s k"
  "stage_of (add_finding_lineage r f s) k n = stage_of s k n"
  "history (add_finding_lineage r f s) k = history s k"
  "finding_ids_for_run (add_finding_lineage r f s) k =
     (if k = r \<and> f \<notin> set (finding_ids_for_run s r) then finding_ids_for_run s r @ [f] else finding_ids_for_run s k)"
  "executions (add_finding_lineage r f s) = executions s"
  "runs (add_finding_lineage r f s) = runs s"
  "stages (add_finding_lineage r f s) = stages s"
  by (auto simp: add_finding_lineage_def run_of_def stage_of_def history_def finding_ids_for_run_def Let_def
      dget_list_def split: option.splits)

lemma upsert_row_views [simp]:
  "run_of (upsert_execution_row c e s) k = run_of s k"
  "stage_of (upsert_execution_row c e s) k n = stage_of s k n"
  "history (upsert_execution_row c e s) k = history s k"
  "finding_ids_for_run (upsert_execution_row c e s) k = finding_ids_for_run s k"
  "executions (upsert_execution_row c e s) = executions s"
  "runs (upsert_execution_row c e s) = runs s"
  "stages (upsert_execution_row c e s) = stages s"
  "lineage (upsert_execution_row c e s) = lineage s"
  by (simp_all add: upsert_execution_row_def run_of_def stage_of_def history_def finding_ids_for_run_def)

definition begun :: "string \<Rightarrow> string \<Rightarrow> string \<Rightarrow> py_datetime \<Rightarrow> stage_execution" where
  "begun run_id stage_name eid t =
     \<lparr>ex_id = eid, ex_run_id = run_id, ex_stage_name = stage_name, ex_status = Run_running,
      ex_started_at = t, ex_completed_at = None, ex_error = None\<rparr>"

lemma begun_fields [simp]:
  "ex_id (begun k n i t) = i" "ex_run_id (begun k n i t) = k" "ex_stage_name (begun k n i t) = n"
  "ex_status (begun k n i t) = Run_running" "ex_started_at (begun k n i t) = t"
  "ex_completed_at (begun k n i t) = None" "ex_error (begun k n i t) = None"
  by (simp_all add: begun_def)

definition count_of :: "('a, 'b, 'c) run_store \<Rightarrow> string \<Rightarrow> string \<Rightarrow> nat" where
  "count_of s k n = (case stage_of s k n of None \<Rightarrow> 0 | Some g \<Rightarrow> sg_execution_count g)"

lemma begin_views [simp]:
  "run_of (begin_stage_execution c r m i t s) k = run_of s k"
  "history (begin_stage_execution c r m i t s) k = (if k = r then history s r @ [begun r m i t] else history s k)"
  "stage_of (begin_stage_execution c r m i t s) k n =
     (if k = r \<and> n = m then Some \<lparr>sg_run_id = r, sg_stage_name = m, sg_status = Run_running, sg_started_at = Some t,
        sg_completed_at = None, sg_error = None, sg_execution_count = count_of s r m + 1, sg_last_execution_at = Some t\<rparr>
      else stage_of s k n)"
  "finding_ids_for_run (begin_stage_execution c r m i t s) k = finding_ids_for_run s k"
  "runs (begin_stage_execution c r m i t s) = runs s"
  "lineage (begin_stage_execution c r m i t s) = lineage s"
  by (simp_all add: begin_stage_execution_def Let_def)
    (simp_all add: run_of_def stage_of_def history_def finding_ids_for_run_def begun_def count_of_def)

section \<open>Unique executions\<close>

definition unique_executions :: "('a, 'b, 'c) run_store \<Rightarrow> bool" where
  "unique_executions s \<longleftrightarrow> distinct (dkeys (executions s)) \<and>
     (\<forall>k. distinct (map ex_id (history s k)) \<and> (\<forall>e \<in> set (history s k). ex_run_id e = k)) \<and>
     (\<forall>k l e f. e \<in> set (history s k) \<longrightarrow> f \<in> set (history s l) \<longrightarrow> ex_id e = ex_id f \<longrightarrow> k = l)"

lemma replace_first_map:
  assumes "distinct (map ex_id es)" and "\<And>e. ex_id (f e) = ex_id e"
  shows "replace_first (\<lambda>e. ex_id e = i) f es = map (\<lambda>e. if ex_id e = i then f e else e) es"
  using assms(1) by (induction es) (auto intro!: map_idI[symmetric], metis image_eqI)

lemma finish_fields [simp]:
  "ex_id (finish_execution st t err e) = ex_id e"
  "ex_run_id (finish_execution st t err e) = ex_run_id e"
  "ex_stage_name (finish_execution st t err e) = ex_stage_name e"
  "ex_started_at (finish_execution st t err e) = ex_started_at e"
  "ex_status (finish_execution st t err e) = st"
  "ex_completed_at (finish_execution st t err e) = Some t"
  "ex_error (finish_execution st t err e) = err"
  by (simp_all add: finish_execution_def)

text \<open>Updating an execution changes exactly the entries with its id.\<close>

lemma update_execution_views:
  assumes "unique_executions s"
  shows "history (update_execution c i st t err s) k =
           map (\<lambda>e. if ex_id e = i then finish_execution st t err e else e) (history s k)"
    and "run_of (update_execution c i st t err s) k = run_of s k"
    and "stage_of (update_execution c i st t err s) k n = stage_of s k n"
    and "finding_ids_for_run (update_execution c i st t err s) k = finding_ids_for_run s k"
    and "runs (update_execution c i st t err s) = runs s"
    and "lineage (update_execution c i st t err s) = lineage s"
    and "stages (update_execution c i st t err s) = stages s"
    and "dkeys (executions (update_execution c i st t err s)) = dkeys (executions s)"
proof -
  let ?hit = "find (\<lambda>(rid, es). \<exists>e \<in> set es. ex_id e = i) (executions s)"
  have d: "distinct (dkeys (executions s))" using assms by (simp add: unique_executions_def)
  show "history (update_execution c i st t err s) k =
      map (\<lambda>e. if ex_id e = i then finish_execution st t err e else e) (history s k)"
  proof (cases ?hit)
    case None
    have "\<not> (ex_id e = i)" if "e \<in> set (history s k)" for e
    proof -
      have "(k, history s k) \<in> set (executions s)"
        using that by (auto simp: history_def dget_list_def split: option.splits dest: map_of_SomeD)
      then show ?thesis using None that by (auto simp: find_None_iff_all)
    qed
    then have "map (\<lambda>e. if ex_id e = i then finish_execution st t err e else e) (history s k) = history s k"
      by (intro map_idI) simp
    then show ?thesis using None by (simp add: update_execution_def)
  next
    case (Some p)
    obtain rid es where p: "p = (rid, es)" by (cases p)
    have mem: "(rid, es) \<in> set (executions s)" and hit: "\<exists>e \<in> set es. ex_id e = i"
      using find_SomeD[OF Some] by (auto simp: p)
    have g: "dget (executions s) rid = Some es" using mem d by simp
    have h: "history s rid = es" using g by (simp add: history_def dget_list_def)
    obtain e where e: "find (\<lambda>e. ex_id e = i) es = Some e"
      using hit by (cases "find (\<lambda>e. ex_id e = i) es") (auto simp: find_None_iff_all)
    have rf: "replace_first (\<lambda>e. ex_id e = i) (finish_execution st t err) es =
        map (\<lambda>e. if ex_id e = i then finish_execution st t err e else e) es"
      using assms h by (intro replace_first_map) (auto simp: unique_executions_def)
    have others: "map (\<lambda>e. if ex_id e = i then finish_execution st t err e else e) (history s k) = history s k"
      if "k \<noteq> rid"
    proof (intro map_idI)
      fix f assume "f \<in> set (history s k)"
      then have "ex_id f \<noteq> i" using assms hit h that unfolding unique_executions_def by metis
      then show "(if ex_id f = i then finish_execution st t err f else f) = f" by simp
    qed
    show ?thesis
    proof (cases "k = rid")
      case True
      then show ?thesis by (simp add: update_execution_def Some p e rf h history_def) (simp add: dget_list_def g)
    next
      case False
      then show ?thesis using others by (simp add: update_execution_def Some p e history_def) (simp add: dget_list_def)
    qed
  qed
  show "dkeys (executions (update_execution c i st t err s)) = dkeys (executions s)"
    by (auto simp: update_execution_def update_keys split: option.splits prod.splits dest!: find_SomeD
        intro!: image_eqI[where x = "(_, _)"])
qed (simp_all add: update_execution_def run_of_def stage_of_def finding_ids_for_run_def split: option.splits prod.splits)

section \<open>The invariant\<close>

definition execution_ok :: "stage_execution \<Rightarrow> bool" where
  "execution_ok e \<longleftrightarrow> ex_status e \<noteq> Run_pending \<and> (ex_status e = Run_running \<longleftrightarrow> ex_completed_at e = None) \<and>
     (ex_status e = Run_failed \<longleftrightarrow> ex_error e \<noteq> None)"

definition of_stage :: "string \<Rightarrow> stage_execution list \<Rightarrow> stage_execution list" where
  "of_stage n es = filter (\<lambda>e. ex_stage_name e = n) es"

definition runs_ok :: "('a, 'b, 'c) run_store \<Rightarrow> bool" where
  "runs_ok s \<longleftrightarrow> unique_executions s \<and> distinct (dkeys (runs s)) \<and> distinct (dkeys (lineage s)) \<and>
     (\<forall>k r. run_of s k = Some r \<longrightarrow> rn_id r = k) \<and>
     (\<forall>k. run_of s k = None \<longrightarrow> history s k = [] \<and> finding_ids_for_run s k = [] \<and> (\<forall>n. stage_of s k n = None)) \<and>
     (\<forall>k n. count_of s k n = length (of_stage n (history s k))) \<and>
     (\<forall>k n g. stage_of s k n = Some g \<longrightarrow> sg_run_id g = k \<and> sg_stage_name g = n) \<and>
     (\<forall>k. \<forall>e \<in> set (history s k). execution_ok e) \<and>
     (\<forall>k. distinct (finding_ids_for_run s k))"

lemma runs_okD:
  assumes "runs_ok s"
  shows "unique_executions s" and "distinct (dkeys (runs s))" and "distinct (dkeys (lineage s))"
    and "run_of s k = Some r \<Longrightarrow> rn_id r = k"
    and "run_of s k = None \<Longrightarrow> history s k = [] \<and> finding_ids_for_run s k = [] \<and> (\<forall>n. stage_of s k n = None)"
    and "count_of s k n = length (of_stage n (history s k))"
    and "stage_of s k n = Some g \<Longrightarrow> sg_run_id g = k \<and> sg_stage_name g = n"
    and "e \<in> set (history s k) \<Longrightarrow> execution_ok e"
    and "distinct (finding_ids_for_run s k)"
  using assms unfolding runs_ok_def by blast+

definition fresh_execution :: "('a, 'b, 'c) run_store \<Rightarrow> string \<Rightarrow> bool" where
  "fresh_execution s i \<longleftrightarrow> (\<forall>k. i \<notin> ex_id ` set (history s k))"

definition in_flight :: "('a, 'b, 'c) run_store \<Rightarrow> string \<Rightarrow> string \<Rightarrow> string \<Rightarrow> bool" where
  "in_flight s k n i \<longleftrightarrow>
     (\<exists>e \<in> set (history s k). ex_id e = i \<and> ex_stage_name e = n \<and> ex_status e = Run_running)"

lemma runs_ok_empty: "runs_ok \<lparr>runs = [], stages = [], executions = [], lineage = [], run_factory = f\<rparr>"
  by (simp add: runs_ok_def unique_executions_def history_def run_of_def stage_of_def finding_ids_for_run_def
      dget_list_def count_of_def of_stage_def)

lemma runs_ok_create:
  assumes "runs_ok s"
  shows "runs_ok (create_run c r s)"
proof -
  have "distinct (dkeys (runs (create_run c r s)))"
    using runs_okD(2)[OF assms] by (simp add: create_run_def)
  then show ?thesis
    using assms unfolding runs_ok_def unique_executions_def count_of_def by simp
qed

lemma runs_ok_upsert:
  assumes "runs_ok s" and "run_of s (sg_run_id g) \<noteq> None"
    and "sg_execution_count g = count_of s (sg_run_id g) (sg_stage_name g)"
  shows "runs_ok (upsert_stage c g s)"
proof -
  have "count_of (upsert_stage c g s) k n = count_of s k n" for k n
    using assms(3) by (simp add: count_of_def)
  then show ?thesis
    using assms(1,2) unfolding runs_ok_def unique_executions_def by (auto split: if_splits)
qed

lemma runs_ok_lineage:
  assumes "runs_ok s" and "run_of s r \<noteq> None"
  shows "runs_ok (add_finding_lineage r f s)"
proof -
  have d: "distinct (dkeys (lineage (add_finding_lineage r f s)))"
    using runs_okD(3)[OF assms(1)] by (simp add: add_finding_lineage_def Let_def)
  have c: "count_of (add_finding_lineage r f s) k n = count_of s k n" for k n by (simp add: count_of_def)
  show ?thesis
    using assms d c unfolding runs_ok_def unique_executions_def by auto
qed

lemma unique_begin:
  assumes "unique_executions s" and "fresh_execution s i"
  shows "unique_executions (begin_stage_execution c r m i t s)"
proof -
  have "distinct (dkeys (executions (begin_stage_execution c r m i t s)))"
    using assms(1) by (simp add: unique_executions_def begin_stage_execution_def Let_def)
  then show ?thesis
    using assms unfolding unique_executions_def fresh_execution_def by (auto split: if_splits)
qed

lemma of_stage_simps [simp]:
  "of_stage n [] = []" "of_stage n (es @ fs) = of_stage n es @ of_stage n fs"
  "of_stage n (e # es) = (if ex_stage_name e = n then e # of_stage n es else of_stage n es)"
  by (simp_all add: of_stage_def)

lemma count_begin:
  "count_of (begin_stage_execution c r m i t s) k n = count_of s k n + (if k = r \<and> n = m then 1 else 0)"
  by (simp add: count_of_def)

lemma runs_ok_begin:
  assumes "runs_ok s" and "run_of s r \<noteq> None" and "fresh_execution s i"
  shows "runs_ok (begin_stage_execution c r m i t s)"
proof -
  have u: "unique_executions (begin_stage_execution c r m i t s)"
    using unique_begin[OF runs_okD(1)[OF assms(1)] assms(3)] .
  have e: "execution_ok (begun r m i t)" by (simp add: execution_ok_def)
  have n: "run_of s k = None \<Longrightarrow> k \<noteq> r" for k using assms(2) by auto
  show ?thesis
    using runs_okD(2-9)[OF assms(1)] u e n unfolding runs_ok_def count_begin by (auto split: if_splits)
qed

lemma unique_update:
  assumes "unique_executions s"
  shows "unique_executions (update_execution c i st t err s)"
proof -
  have ids: "map ex_id (map (\<lambda>e. if ex_id e = i then finish_execution st t err e else e) es) = map ex_id es" for es
    by simp
  show ?thesis
    using assms unfolding unique_executions_def update_execution_views(1)[OF assms] update_execution_views(8)[OF assms]
    by (simp only: ids) (auto split: if_splits)
qed

lemma of_stage_update:
  "of_stage n (map (\<lambda>e. if ex_id e = i then finish_execution st t err e else e) es) =
   map (\<lambda>e. if ex_id e = i then finish_execution st t err e else e) (of_stage n es)"
  by (induction es) auto

lemma runs_ok_update:
  assumes ok: "runs_ok s" and st: "st = Run_completed \<and> err = None \<or> st = Run_failed \<and> err \<noteq> None"
  shows "runs_ok (update_execution c i st t err s)"
proof -
  note v = update_execution_views[OF runs_okD(1)[OF ok], of c i st t err]
  have c: "count_of (update_execution c i st t err s) k n = count_of s k n" for k n by (simp add: count_of_def v)
  have e: "execution_ok (finish_execution st t err e)" for e using st by (auto simp: execution_ok_def)
  show ?thesis
    using runs_okD(2-9)[OF ok] unique_update[OF runs_okD(1)[OF ok]] e
    unfolding runs_ok_def v c of_stage_update by (auto split: if_splits)
qed

lemma settle_fields [simp]:
  "sg_run_id (settle_stage st k n t err s) = k" "sg_stage_name (settle_stage st k n t err s) = n"
  "sg_status (settle_stage st k n t err s) = st" "sg_error (settle_stage st k n t err s) = err"
  "sg_completed_at (settle_stage st k n t err s) = Some t"
  "sg_execution_count (settle_stage st k n t err s) = count_of s k n"
  "sg_started_at (settle_stage st k n t err s) = Option.bind (stage_of s k n) sg_started_at"
  "sg_last_execution_at (settle_stage st k n t err s) = Option.bind (stage_of s k n) sg_last_execution_at"
  by (auto simp: settle_stage_def Let_def count_of_def split: option.splits)

text \<open>Both ends of an execution settle it in the same way.\<close>

definition finish_stage ::
    "('a, 'b, 'c) run_codecs \<Rightarrow> stage_status \<Rightarrow> string option \<Rightarrow> string \<Rightarrow> string \<Rightarrow> string \<Rightarrow> py_datetime
     \<Rightarrow> ('a, 'b, 'c) run_store \<Rightarrow> ('a, 'b, 'c) run_store" where
  "finish_stage c st err k n i t s =
     (let s1 = update_execution c i st t err s in upsert_stage c (settle_stage st k n t err s1) s1)"

lemma finish_stage_alt:
  "complete_stage_execution c k n i t s = finish_stage c Run_completed None k n i t s"
  "fail_stage_execution c k n i t message s = finish_stage c Run_failed (Some message) k n i t s"
  by (simp_all add: complete_stage_execution_def fail_stage_execution_def finish_stage_def)

lemma finish_stage_views:
  assumes "unique_executions s"
  shows "history (finish_stage c st err k n i t s) l =
           map (\<lambda>e. if ex_id e = i then finish_execution st t err e else e) (history s l)"
    and "run_of (finish_stage c st err k n i t s) l = run_of s l"
    and "stage_of (finish_stage c st err k n i t s) l m =
           (if l = k \<and> m = n then Some (settle_stage st k n t err s) else stage_of s l m)"
    and "finding_ids_for_run (finish_stage c st err k n i t s) l = finding_ids_for_run s l"
proof -
  have "settle_stage st k n t err (update_execution c i st t err s) = settle_stage st k n t err s"
    by (simp add: settle_stage_def update_execution_views[OF assms])
  then show "history (finish_stage c st err k n i t s) l =
           map (\<lambda>e. if ex_id e = i then finish_execution st t err e else e) (history s l)"
    "run_of (finish_stage c st err k n i t s) l = run_of s l"
    "stage_of (finish_stage c st err k n i t s) l m =
       (if l = k \<and> m = n then Some (settle_stage st k n t err s) else stage_of s l m)"
    "finding_ids_for_run (finish_stage c st err k n i t s) l = finding_ids_for_run s l"
    by (simp_all add: finish_stage_def Let_def update_execution_views[OF assms])
qed

lemma runs_ok_finish:
  assumes "runs_ok s" and "run_of s k \<noteq> None" and "st = Run_completed \<and> err = None \<or> st = Run_failed \<and> err \<noteq> None"
  shows "runs_ok (finish_stage c st err k n i t s)"
  unfolding finish_stage_def Let_def
  using assms by (intro runs_ok_upsert runs_ok_update)
    (simp_all add: update_execution_views[OF runs_okD(1)])


section \<open>Starting and deleting runs\<close>

definition pending_stage :: "string \<Rightarrow> string \<Rightarrow> scan_stage_run" where
  "pending_stage k n = \<lparr>sg_run_id = k, sg_stage_name = n, sg_status = Run_pending, sg_started_at = None,
     sg_completed_at = None, sg_error = None, sg_execution_count = 0, sg_last_execution_at = None\<rparr>"

lemma pending_fields [simp]:
  "sg_run_id (pending_stage k n) = k" "sg_stage_name (pending_stage k n) = n"
  "sg_execution_count (pending_stage k n) = 0" "sg_status (pending_stage k n) = Run_pending"
  by (simp_all add: pending_stage_def)

lemma register_stages_views:
  "run_of (fold (\<lambda>n. upsert_stage c (pending_stage k n)) ns s) l = run_of s l"
  "history (fold (\<lambda>n. upsert_stage c (pending_stage k n)) ns s) l = history s l"
  "finding_ids_for_run (fold (\<lambda>n. upsert_stage c (pending_stage k n)) ns s) l = finding_ids_for_run s l"
  "stage_of (fold (\<lambda>n. upsert_stage c (pending_stage k n)) ns s) l m =
     (if l = k \<and> m \<in> set ns then Some (pending_stage k m) else stage_of s l m)"
  by (induction ns arbitrary: s) auto

lemma register_stages_ok:
  assumes "runs_ok s" and "run_of s k \<noteq> None" and "\<forall>n \<in> set ns. count_of s k n = 0"
  shows "runs_ok (fold (\<lambda>n. upsert_stage c (pending_stage k n)) ns s)"
  using assms
proof (induction ns arbitrary: s)
  case (Cons n ns)
  have "runs_ok (upsert_stage c (pending_stage k n) s)"
    using Cons.prems by (intro runs_ok_upsert) simp_all
  then show ?case using Cons.prems Cons.IH[of "upsert_stage c (pending_stage k n) s"] by (simp add: count_of_def)
qed simp

text \<open>The store right after the run and its stages have been registered.\<close>

definition registered ::
    "('a, 'b, 'c) run_codecs \<Rightarrow> scan_run \<Rightarrow> ('a, 'b, 'c) run_store \<Rightarrow> ('a, 'b, 'c) run_store" where
  "registered c r s = fold (\<lambda>n. upsert_stage c (pending_stage (rn_id r) n)) STAGE_NAMES (create_run c r s)"

lemma registered_views [simp]:
  "run_of (registered c r s) l = (if l = rn_id r then Some r else run_of s l)"
  "history (registered c r s) l = history s l"
  "finding_ids_for_run (registered c r s) l = finding_ids_for_run s l"
  "stage_of (registered c r s) l m =
     (if l = rn_id r \<and> m \<in> set STAGE_NAMES then Some (pending_stage (rn_id r) m) else stage_of s l m)"
  unfolding registered_def by (simp_all add: register_stages_views)

lemma registered_ok:
  assumes "runs_ok s" and "run_of s (rn_id r) = None"
  shows "runs_ok (registered c r s)"
proof -
  have "stage_of s (rn_id r) n = None" for n using runs_okD(5)[OF assms] by simp
  then show ?thesis
    unfolding registered_def by (intro register_stages_ok runs_ok_create assms(1)) (simp_all add: count_of_def)
qed

definition new_run :: "run_env \<Rightarrow> string \<Rightarrow> scan_run" where
  "new_run env p = \<lparr>rn_id = en_run_id env, rn_project_id = p, rn_status = Run_running,
     rn_started_at = en_now env, rn_completed_at = None, rn_scanned_file_count = None,
     rn_total_findings = None, rn_error = None, rn_created_at = en_now env\<rparr>"

lemma start_run_eq:
  "start_run c env p at_project s =
     (let k = en_run_id env; t = prepared_at at_project (en_now env) in
      (new_run env p, finish_stage c Run_completed None k ''PREPARE'' (en_prepare_eid env) t
         (begin_stage_execution c k ''PREPARE'' (en_prepare_eid env) t (registered c (new_run env p) s))))"
  by (simp add: start_run_def Let_def new_run_def registered_def pending_stage_def finish_stage_alt)

definition fresh_env :: "('a, 'b, 'c) run_store \<Rightarrow> run_env \<Rightarrow> bool" where
  "fresh_env s env \<longleftrightarrow> run_of s (en_run_id env) = None \<and> fresh_execution s (en_prepare_eid env) \<and>
     fresh_execution s (en_scan_eid env) \<and> en_prepare_eid env \<noteq> en_scan_eid env"

lemma runs_ok_start:
  assumes "runs_ok s" and "run_of s (en_run_id env) = None" and "fresh_execution s (en_prepare_eid env)"
  shows "runs_ok (snd (start_run c env p at_project s))"
proof -
  let ?r = "new_run env p"
  have id: "rn_id ?r = en_run_id env" by (simp add: new_run_def)
  have "runs_ok (registered c ?r s)" using assms by (intro registered_ok) (simp_all add: id)
  moreover have "fresh_execution (registered c ?r s) (en_prepare_eid env)"
    using assms(3) by (simp add: fresh_execution_def)
  ultimately show ?thesis
    by (simp add: start_run_eq Let_def id runs_ok_finish runs_ok_begin)
qed

lemma delete_views:
  fixes p
  assumes "runs_ok s"
  defines "gone \<equiv> {k. \<exists>r. run_of s k = Some r \<and> rn_project_id r = p}"
  shows "run_of (delete_project_runs p s) k = (if k \<in> gone then None else run_of s k)"
    and "history (delete_project_runs p s) k = (if k \<in> gone then [] else history s k)"
    and "finding_ids_for_run (delete_project_runs p s) k = (if k \<in> gone then [] else finding_ids_for_run s k)"
    and "stage_of (delete_project_runs p s) k n = (if k \<in> gone then None else stage_of s k n)"
    and "distinct (dkeys (runs (delete_project_runs p s)))"
    and "distinct (dkeys (executions (delete_project_runs p s)))"
    and "distinct (dkeys (lineage (delete_project_runs p s)))"
proof -
  let ?ids = "map rn_id (filter (\<lambda>r. rn_project_id r = p) (dvalues (runs s)))"
  have d: "distinct (dkeys (runs s))" using runs_okD(2)[OF assms(1)] .
  have ids: "set ?ids = gone"
  proof -
    have "set ?ids = rn_id ` {r. (\<exists>k. run_of s k = Some r) \<and> rn_project_id r = p}"
      using in_dvalues_iff[OF d] by (auto simp: run_of_def)
    also have "\<dots> = gone"
      using runs_okD(4)[OF assms(1)] unfolding gone_def by force
    finally show ?thesis .
  qed
  have f: "runs (delete_project_runs p s) = fold dpop ?ids (runs s)"
    "stages (delete_project_runs p s) = fold dpop ?ids (stages s)"
    "executions (delete_project_runs p s) = fold dpop ?ids (executions s)"
    "lineage (delete_project_runs p s) = fold dpop ?ids (lineage s)"
    by (simp_all add: delete_project_runs_def Let_def)
  show "run_of (delete_project_runs p s) k = (if k \<in> gone then None else run_of s k)"
    "history (delete_project_runs p s) k = (if k \<in> gone then [] else history s k)"
    "finding_ids_for_run (delete_project_runs p s) k = (if k \<in> gone then [] else finding_ids_for_run s k)"
    "stage_of (delete_project_runs p s) k n = (if k \<in> gone then None else stage_of s k n)"
    unfolding run_of_def history_def finding_ids_for_run_def stage_of_def f fold_dpop ids dget_list_def dget_filter_not
    by simp_all
  have "distinct (dkeys xs) \<Longrightarrow> distinct (dkeys (filter P xs))" for P and xs :: "(string \<times> 'z) list"
    by (induction xs) auto
  then show "distinct (dkeys (runs (delete_project_runs p s)))"
    "distinct (dkeys (executions (delete_project_runs p s)))"
    "distinct (dkeys (lineage (delete_project_runs p s)))"
    unfolding f fold_dpop using runs_okD(1-3)[OF assms(1)] by (auto simp: unique_executions_def)
qed

lemma runs_ok_delete:
  assumes "runs_ok s"
  shows "runs_ok (delete_project_runs p s)"
proof -
  note v = delete_views[OF assms, of p]
  have u: "unique_executions (delete_project_runs p s)"
    using runs_okD(1)[OF assms] v(6) unfolding unique_executions_def v(2) by auto
  show ?thesis
    using runs_okD(4-9)[OF assms] u v(5,7) unfolding runs_ok_def v(1-4) count_of_def by auto
qed

section \<open>Steps\<close>

text \<open>
  The steps that record. Execution ids and run ids are fresh (they are \<open>uuid4\<close> values), an execution ends
  once, and a run is only touched while it exists.
\<close>

inductive run_event ::
    "('a, 'b, 'c) run_codecs \<Rightarrow> ('a, 'b, 'c) run_store \<Rightarrow> ('a, 'b, 'c) run_store \<Rightarrow> bool" for c where
  ev_start: "run_of s (en_run_id env) = None \<Longrightarrow> fresh_execution s (en_prepare_eid env) \<Longrightarrow>
    run_event c s (snd (start_run c env p at_project s))"
| ev_begin: "run_of s k \<noteq> None \<Longrightarrow> fresh_execution s i \<Longrightarrow> run_event c s (begin_stage_execution c k n i t s)"
| ev_complete: "run_of s k \<noteq> None \<Longrightarrow> in_flight s k n i \<Longrightarrow> run_event c s (complete_stage_execution c k n i t s)"
| ev_fail: "run_of s k \<noteq> None \<Longrightarrow> in_flight s k n i \<Longrightarrow> run_event c s (fail_stage_execution c k n i t message s)"
| ev_lineage: "run_of s k \<noteq> None \<Longrightarrow> run_event c s (add_finding_lineage k f s)"
| ev_update: "run_of s (rn_id r) \<noteq> None \<Longrightarrow> run_event c s (update_run c r s)"

inductive run_step ::
    "('a, 'b, 'c) run_codecs \<Rightarrow> ('a, 'b, 'c) run_store \<Rightarrow> ('a, 'b, 'c) run_store \<Rightarrow> bool" for c where
  rs_event: "run_event c s t \<Longrightarrow> run_step c s t"
| rs_delete: "run_step c s (delete_project_runs p s)"
| rs_clear: "run_step c s (clear_runs s)"

inductive_cases run_eventE: "run_event c s t"
inductive_cases run_stepE: "run_step c s t"

definition runs_empty :: "('a, 'b, 'c) run_store \<Rightarrow> bool" where
  "runs_empty s \<longleftrightarrow> runs s = [] \<and> stages s = [] \<and> executions s = [] \<and> lineage s = []"

lemma runs_ok_init: "runs_empty s \<Longrightarrow> runs_ok s"
  using runs_ok_empty[of "run_factory s"] by (cases s) (simp add: runs_empty_def)

lemma runs_ok_clear: "runs_ok (clear_runs s)"
  by (rule runs_ok_init) (simp add: runs_empty_def clear_runs_def)

lemma runs_ok_event: "runs_ok s \<Longrightarrow> run_event c s t \<Longrightarrow> runs_ok t"
  by (erule run_eventE)
    (simp_all add: runs_ok_start runs_ok_begin finish_stage_alt runs_ok_finish runs_ok_lineage update_run_def
      runs_ok_create)

lemma runs_ok_step: "runs_ok s \<Longrightarrow> run_step c s t \<Longrightarrow> runs_ok t"
  by (erule run_stepE) (simp_all add: runs_ok_event runs_ok_delete runs_ok_clear)

interpretation run_sys: invariant_system runs_empty "run_step c" runs_ok
  for c :: "('a, 'b, 'c) run_codecs"
  by unfold_locales (auto intro: runs_ok_init runs_ok_step)

section \<open>History grows\<close>

text \<open>
  A later history of a run extends an earlier one: the same executions in the same order, settled ones
  unchanged, running ones possibly settled, then new ones.
\<close>

definition same_or_settled :: "stage_execution \<Rightarrow> stage_execution \<Rightarrow> bool" where
  "same_or_settled e f \<longleftrightarrow> f = e \<or> (ex_status e = Run_running \<and>
     (\<exists>st t err. f = finish_execution st t err e))"

definition history_le :: "stage_execution list \<Rightarrow> stage_execution list \<Rightarrow> bool" where
  "history_le es fs \<longleftrightarrow> (\<exists>front rest. fs = front @ rest \<and> list_all2 same_or_settled es front)"

lemma finish_twice: "finish_execution st t err (finish_execution st' t' err' e) = finish_execution st t err e"
  by (simp add: finish_execution_def)

lemma same_or_settled_refl [simp]: "same_or_settled e e"
  by (simp add: same_or_settled_def)

lemma same_or_settled_trans: "same_or_settled d e \<Longrightarrow> same_or_settled e f \<Longrightarrow> same_or_settled d f"
  unfolding same_or_settled_def using finish_twice by metis

lemma history_le_append [simp]: "history_le es (es @ fs)"
  unfolding history_le_def by (intro exI[of _ es] exI[of _ fs]) (simp add: list.rel_refl)

lemma history_le_refl [simp]: "history_le es es"
  using history_le_append[of es "[]"] by simp

lemma history_le_Nil [simp]: "history_le [] es"
  using history_le_append[of "[]" es] by simp

lemma history_le_trans:
  assumes "history_le a b" and "history_le b d"
  shows "history_le a d"
proof -
  obtain b1 b2 where b: "b = b1 @ b2" "list_all2 same_or_settled a b1" using assms(1) by (auto simp: history_le_def)
  obtain d1 d2 where d: "d = d1 @ d2" "list_all2 same_or_settled b d1" using assms(2) by (auto simp: history_le_def)
  obtain d3 d4 where e: "d1 = d3 @ d4" "list_all2 same_or_settled b1 d3"
    using d(2) unfolding b(1) by (auto simp: list_all2_append1)
  have "list_all2 same_or_settled a d3"
    by (rule list_all2_trans[OF same_or_settled_trans b(2) e(2)])
  then show ?thesis using d(1) e(1) by (auto simp: history_le_def)
qed

lemma history_le_finish:
  assumes "unique_executions s" and "in_flight s k n i"
  shows "history_le (history s l) (map (\<lambda>e. if ex_id e = i then finish_execution st t err e else e) (history s l))"
proof -
  obtain e where e: "e \<in> set (history s k)" "ex_id e = i" "ex_status e = Run_running"
    using assms(2) by (auto simp: in_flight_def)
  have same: "f = e" if "f \<in> set (history s l)" "ex_id f = i" for f
  proof -
    have "l = k" using assms(1) that e(1,2) unfolding unique_executions_def by metis
    moreover have "distinct (map ex_id (history s k))" using assms(1) by (simp add: unique_executions_def)
    ultimately show ?thesis using that e(1,2) by (auto simp: distinct_map inj_on_def)
  qed
  have "same_or_settled f (if ex_id f = i then finish_execution st t err f else f)" if "f \<in> set (history s l)" for f
    using same[OF that] e(3) by (auto simp: same_or_settled_def)
  then have "list_all2 same_or_settled (history s l)
      (map (\<lambda>e. if ex_id e = i then finish_execution st t err e else e) (history s l))"
    by (simp add: list_all2_map2 list_all2_same)
  then show ?thesis by (auto simp: history_le_def)
qed

lemma history_le_event:
  assumes "runs_ok s" and "run_event c s t"
  shows "history_le (history s k) (history t k)"
  using assms(2)
proof (cases rule: run_event.cases)
  case (ev_start env p at_project)
  let ?r = "new_run env p"
  have "runs_ok (registered c ?r s)" using assms(1) ev_start(2) by (intro registered_ok) (simp_all add: new_run_def)
  moreover have "fresh_execution (registered c ?r s) (en_prepare_eid env)"
    using ev_start(3) by (simp add: fresh_execution_def)
  ultimately have u: "unique_executions (begin_stage_execution c (en_run_id env) ''PREPARE'' (en_prepare_eid env)
      (prepared_at at_project (en_now env)) (registered c ?r s))" by (intro unique_begin runs_okD(1))
  have "history s (en_run_id env) = []" using runs_okD(5)[OF assms(1) ev_start(2)] by simp
  moreover have "(if ex_id e = en_prepare_eid env then finish_execution st t' err e else e) = e"
    if "e \<in> set (history s k)" for e st t' err
    using ev_start(3) that unfolding fresh_execution_def by (metis image_eqI)
  ultimately show ?thesis
    unfolding ev_start(1) start_run_eq Let_def snd_conv finish_stage_views(1)[OF u]
    by (auto simp: map_idI)
next
  case (ev_complete l n i t')
  then show ?thesis
    using history_le_finish[OF runs_okD(1)[OF assms(1)]]
    by (simp add: finish_stage_alt finish_stage_views[OF runs_okD(1)[OF assms(1)]])
next
  case (ev_fail l n i t' message)
  then show ?thesis
    using history_le_finish[OF runs_okD(1)[OF assms(1)]]
    by (simp add: finish_stage_alt finish_stage_views[OF runs_okD(1)[OF assms(1)]])
qed (simp_all add: update_run_def)

interpretation run_log: monotone_system runs_empty "run_event c" runs_ok history
    "\<lambda>f g. \<forall>k. history_le (f k) (g k)"
  for c :: "('a, 'b, 'c) run_codecs"
  by unfold_locales (auto intro: runs_ok_init runs_ok_event history_le_event history_le_trans)


end
