(* ===== verification/Scan_Run_Properties.thy ===== *)
theory Scan_Run_Properties
  imports Scan_Run_System
begin

text \<open>
  Properties of scan runs: counts and histories agree in every reachable store, histories only grow, recording an
  execution reports exactly its outcome, and the scan route leaves the run, stage and lineage records it promises.
\<close>

section \<open>Recording one execution\<close>

text \<open>Work that leaves the run store's runs, stages and histories alone, as every stage body does.\<close>

definition keeps_records :: "('a, 'b, 'c) run_store \<Rightarrow> ('a, 'b, 'c) run_store \<Rightarrow> bool" where
  "keeps_records s t \<longleftrightarrow> executions t = executions s \<and> stages t = stages s \<and> runs t = runs s"

lemma keeps_views:
  assumes "keeps_records s t"
  shows "history t k = history s k" "stage_of t k n = stage_of s k n" "run_of t k = run_of s k"
    "unique_executions t = unique_executions s"
  using assms by (simp_all add: keeps_records_def history_def stage_of_def run_of_def unique_executions_def)

text \<open>The status and error an outcome stands for.\<close>

fun outcome ::
    "('e \<Rightarrow> string) \<Rightarrow> ('r \<Rightarrow> bool \<times> string) option \<Rightarrow> 'e + 'r \<Rightarrow> stage_status \<times> string option" where
  "outcome str cond (Inl exc) = (Run_failed, Some (str exc))"
| "outcome str None (Inr r) = (Run_completed, None)"
| "outcome str (Some f) (Inr r) = (case f r of (True, message) \<Rightarrow> (Run_failed, Some message) | (False, _) \<Rightarrow> (Run_completed, None))"

lemma record_stage_execution_eq:
  assumes "fn (begin_stage_execution c k n i t0 s, w) = (res, u, w')"
  shows "record_stage_execution str c k n i t0 t1 cond fn (s, w) =
           (res, finish_stage c (fst (outcome str cond res)) (snd (outcome str cond res)) k n i t1 u, w')"
  using assms
  by (cases res; cases cond) (auto simp: record_stage_execution_def finish_stage_alt split: prod.splits bool.splits)

lemma record_stage_execution_views:
  assumes "unique_executions s" and "fresh_execution s i"
    and fn: "fn (begin_stage_execution c k n i t0 s, w) = (res, u, w')"
    and keeps: "keeps_records (begin_stage_execution c k n i t0 s) u"
  shows "\<exists>t. record_stage_execution str c k n i t0 t1 cond fn (s, w) = (res, t, w') \<and>
           (\<forall>l. history t l = (if l = k then history s k @
              [finish_execution (fst (outcome str cond res)) t1 (snd (outcome str cond res)) (begun k n i t0)] else history s l)) \<and>
           (\<forall>l m. stage_of t l m = (if l = k \<and> m = n then Some
              \<lparr>sg_run_id = k, sg_stage_name = n, sg_status = fst (outcome str cond res), sg_started_at = Some t0,
               sg_completed_at = Some t1, sg_error = snd (outcome str cond res), sg_execution_count = count_of s k n + 1,
               sg_last_execution_at = Some t0\<rparr> else stage_of s l m)) \<and>
           (\<forall>l. run_of t l = run_of s l) \<and> (\<forall>l. finding_ids_for_run t l = finding_ids_for_run u l)"
proof -
  have u: "unique_executions u" using unique_begin[OF assms(1,2)] keeps_views(4)[OF keeps] by simp
  have old: "map (\<lambda>e. if ex_id e = i then finish_execution st t1 err e else e) (history s l) = history s l" for l st err
    using assms(2) unfolding fresh_execution_def by (intro map_idI) (metis image_eqI)
  show ?thesis
    unfolding record_stage_execution_eq[where fn = fn and s = s and w = w, OF fn]
    by (intro exI[of _ "finish_stage c (fst (outcome str cond res)) (snd (outcome str cond res)) k n i t1 u"])
      (auto simp: finish_stage_views[OF u] keeps_views[OF keeps] old settle_stage_def count_of_def)
qed

text \<open>C14. Recording a stage execution appends exactly one settled entry to the history of its run and makes the stage
  record that entry's: a raised error or a reported error condition is a failed execution with that message, anything
  else a completed one. The result of the stage's work is passed on unchanged, raised errors included, and
  no other stage, run or history changes.\<close>
theorem record_stage_execution_outcome:
  assumes "runs_empty s0" and "(run_step c)\<^sup>*\<^sup>* s0 s" and "fresh_execution s i"
    and "fn (begin_stage_execution c k n i t0 s, w) = (res, u, w')"
    and "keeps_records (begin_stage_execution c k n i t0 s) u"
  shows "\<exists>t g e. record_stage_execution str c k n i t0 t1 cond fn (s, w) = (res, t, w') \<and>
           history t k = history s k @ [e] \<and> stage_of t k n = Some g \<and>
           ex_id e = i \<and> ex_stage_name e = n \<and> ex_started_at e = t0 \<and> ex_completed_at e = Some t1 \<and>
           (ex_status e, ex_error e) = outcome str cond res \<and> (sg_status g, sg_error g) = outcome str cond res \<and>
           sg_started_at g = Some t0 \<and> sg_completed_at g = Some t1 \<and>
           sg_execution_count g = length (of_stage n (history s k)) + 1 \<and>
           (\<forall>l m. (l, m) \<noteq> (k, n) \<longrightarrow> stage_of t l m = stage_of s l m) \<and>
           (\<forall>l. l \<noteq> k \<longrightarrow> history t l = history s l)"
proof -
  have ok: "runs_ok s" using run_sys.inv_reachable[OF assms(1,2)] .
  from record_stage_execution_views[where fn = fn and s = s and w = w and ?t1.0 = t1 and cond = cond and str = str,
      OF runs_okD(1)[OF ok] assms(3-5)]
  obtain t where "record_stage_execution str c k n i t0 t1 cond fn (s, w) = (res, t, w')"
    "\<forall>l. history t l = (if l = k then history s k @
       [finish_execution (fst (outcome str cond res)) t1 (snd (outcome str cond res)) (begun k n i t0)] else history s l)"
    "\<forall>l m. stage_of t l m = (if l = k \<and> m = n then Some
       \<lparr>sg_run_id = k, sg_stage_name = n, sg_status = fst (outcome str cond res), sg_started_at = Some t0,
        sg_completed_at = Some t1, sg_error = snd (outcome str cond res), sg_execution_count = count_of s k n + 1,
        sg_last_execution_at = Some t0\<rparr> else stage_of s l m)" by blast
  then show ?thesis using runs_okD(6)[OF ok] by auto
qed

section \<open>The scan route\<close>

lemma lineage_fold:
  "keeps_records s (fold (\<lambda>f. add_finding_lineage k (f_id f)) fs s) \<and>
   set (finding_ids_for_run (fold (\<lambda>f. add_finding_lineage k (f_id f)) fs s) l) =
     set (finding_ids_for_run s l) \<union> (if l = k then f_id ` set fs else {}) \<and>
   (distinct (finding_ids_for_run s l) \<longrightarrow>
     distinct (finding_ids_for_run (fold (\<lambda>f. add_finding_lineage k (f_id f)) fs s) l)) \<and>
   (l \<noteq> k \<longrightarrow> finding_ids_for_run (fold (\<lambda>f. add_finding_lineage k (f_id f)) fs s) l = finding_ids_for_run s l)"
proof (induction fs arbitrary: s)
  case (Cons f fs)
  have "keeps_records s (add_finding_lineage k (f_id f) s)" by (simp add: keeps_records_def)
  then show ?case using Cons.IH[of "add_finding_lineage k (f_id f) s"] by (auto simp: keeps_records_def)
qed (simp add: keeps_records_def)

lemma start_run_views:
  assumes "runs_ok s" and "run_of s (en_run_id env) = None" and "fresh_execution s (en_prepare_eid env)"
  shows "fst (start_run c env p at_project s) = new_run env p"
    and "run_of (snd (start_run c env p at_project s)) l = (if l = en_run_id env then Some (new_run env p) else run_of s l)"
    and "history (snd (start_run c env p at_project s)) l =
           (if l = en_run_id env then [finish_execution Run_completed (prepared_at at_project (en_now env)) None
              (begun l ''PREPARE'' (en_prepare_eid env) (prepared_at at_project (en_now env)))] else history s l)"
    and "finding_ids_for_run (snd (start_run c env p at_project s)) l = finding_ids_for_run s l"
    and "m \<noteq> ''PREPARE'' \<Longrightarrow> stage_of (snd (start_run c env p at_project s)) l m =
           (if l = en_run_id env \<and> m \<in> set STAGE_NAMES then Some (pending_stage l m) else stage_of s l m)"
    and "map_option sg_status (stage_of (snd (start_run c env p at_project s)) (en_run_id env) ''PREPARE'') =
           Some Run_completed"
    and "l \<noteq> en_run_id env \<Longrightarrow> stage_of (snd (start_run c env p at_project s)) l m = stage_of s l m"
proof -
  let ?r = "new_run env p" and ?k = "en_run_id env" and ?i = "en_prepare_eid env"
  let ?t = "prepared_at at_project (en_now env)"
  have id: "rn_id ?r = ?k" by (simp add: new_run_def)
  have ok: "runs_ok (registered c ?r s)" using assms by (intro registered_ok) (simp_all add: id)
  have fresh: "fresh_execution (registered c ?r s) ?i" using assms(3) by (simp add: fresh_execution_def)
  have u: "unique_executions (begin_stage_execution c ?k ''PREPARE'' ?i ?t (registered c ?r s))"
    using unique_begin[OF runs_okD(1)[OF ok] fresh] .
  have none: "history s ?k = []" using runs_okD(5)[OF assms(1,2)] by simp
  have old: "map (\<lambda>e. if ex_id e = ?i then finish_execution st t1 err e else e) (history s l) = history s l" for l st t1 err
    using assms(3) unfolding fresh_execution_def by (intro map_idI) (metis image_eqI)
  note v = start_run_eq Let_def snd_conv fst_conv finish_stage_views[OF u] begin_views registered_views id
  show "fst (start_run c env p at_project s) = ?r" by (simp add: v)
  show "run_of (snd (start_run c env p at_project s)) l = (if l = ?k then Some ?r else run_of s l)" by (simp add: v)
  show "history (snd (start_run c env p at_project s)) l =
      (if l = ?k then [finish_execution Run_completed ?t None (begun l ''PREPARE'' ?i ?t)] else history s l)"
    using none old by (simp add: v)
  show "finding_ids_for_run (snd (start_run c env p at_project s)) l = finding_ids_for_run s l" by (simp add: v)
  show "m \<noteq> ''PREPARE'' \<Longrightarrow> stage_of (snd (start_run c env p at_project s)) l m =
      (if l = ?k \<and> m \<in> set STAGE_NAMES then Some (pending_stage l m) else stage_of s l m)" by (simp add: v)
  show "map_option sg_status (stage_of (snd (start_run c env p at_project s)) ?k ''PREPARE'') = Some Run_completed"
    by (simp add: v)
  show "l \<noteq> ?k \<Longrightarrow> stage_of (snd (start_run c env p at_project s)) l m = stage_of s l m" by (simp add: v)
qed

text \<open>The report the scan of a run produces.\<close>

definition run_report :: "run_env \<Rightarrow> string \<Rightarrow> code_model \<Rightarrow> scan_report" where
  "run_report env p cm = scan (en_sha env) None (en_report_id env) (en_report_at env) cm (Some p)"

lemma do_scan_eq:
  "do_scan env fc p cm (u, fs) =
     (case en_scan_error env of
        Some message \<Rightarrow> (Inl message, u, fs)
      | None \<Rightarrow> (Inr (run_report env p cm),
          fold (\<lambda>f. add_finding_lineage (en_run_id env) (f_id f)) (rep_findings (run_report env p cm)) u,
          finding_add_report fc (run_report env p cm) fs))"
  by (simp add: do_scan_def run_report_def Let_def split: option.splits)

definition finished_run :: "run_env \<Rightarrow> string \<Rightarrow> code_model \<Rightarrow> scan_run" where
  "finished_run env p cm =
     (case en_scan_error env of
        Some message \<Rightarrow> (new_run env p)\<lparr>rn_status := Run_failed, rn_completed_at := Some (en_end env),
                                         rn_error := Some message\<rparr>
      | None \<Rightarrow> (new_run env p)\<lparr>rn_status := Run_completed, rn_completed_at := Some (en_end env),
                  rn_scanned_file_count := Some (rep_scanned_file_count (run_report env p cm)),
                  rn_total_findings := Some (length (rep_findings (run_report env p cm)))\<rparr>)"

lemma finished_run_id [simp]: "rn_id (finished_run env p cm) = en_run_id env"
  by (simp add: finished_run_def new_run_def split: option.split)

lemma execute_scan_views:
  assumes ok: "runs_ok s" and env: "fresh_env s env"
  defines "k \<equiv> en_run_id env"
  defines "st \<equiv> (case en_scan_error env of None \<Rightarrow> Run_completed | Some _ \<Rightarrow> Run_failed)"
  shows "\<exists>t. execute_scan c fc env p cm at_project (s, fs) =
             ((case en_scan_error env of None \<Rightarrow> Inr (finished_run env p cm, run_report env p cm) | Some m \<Rightarrow> Inl m), t,
              (case en_scan_error env of None \<Rightarrow> finding_add_report fc (run_report env p cm) fs | Some m \<Rightarrow> fs)) \<and>
           run_of t k = Some (finished_run env p cm) \<and>
           map (\<lambda>e. (ex_stage_name e, ex_status e)) (history t k) = [(''PREPARE'', Run_completed), (''SCAN'', st)] \<and>
           map_option (\<lambda>g. (sg_status g, sg_error g)) (stage_of t k ''SCAN'') = Some (st, en_scan_error env) \<and>
           (\<forall>m \<in> set STAGE_NAMES - {''PREPARE'', ''SCAN''}. stage_of t k m = Some (pending_stage k m)) \<and>
           set (finding_ids_for_run t k) =
             (case en_scan_error env of None \<Rightarrow> f_id ` set (rep_findings (run_report env p cm)) | Some m \<Rightarrow> {}) \<and>
           distinct (finding_ids_for_run t k) \<and>
           (\<forall>l. l \<noteq> k \<longrightarrow> run_of t l = run_of s l \<and> history t l = history s l \<and>
              finding_ids_for_run t l = finding_ids_for_run s l)"
proof -
  have none: "run_of s k = None" and fresh: "fresh_execution s (en_prepare_eid env)" "fresh_execution s (en_scan_eid env)"
    "en_prepare_eid env \<noteq> en_scan_eid env"
    using env by (simp_all add: fresh_env_def k_def)
  note start = start_run_views[where c = c and p = p and at_project = at_project, OF ok none[unfolded k_def] fresh(1)]
  let ?s1 = "snd (start_run c env p at_project s)"
  have ok1: "runs_ok ?s1" using runs_ok_start[OF ok none[unfolded k_def] fresh(1)] .
  have fresh1: "fresh_execution ?s1 (en_scan_eid env)"
    using fresh(2,3) unfolding fresh_execution_def start(3) by (auto simp: image_iff)
  have ids: "finding_ids_for_run ?s1 k = []" using start(4) runs_okD(5)[OF ok none] by simp
  let ?b = "begin_stage_execution c k ''SCAN'' (en_scan_eid env) (en_scan_start env) ?s1"
  obtain res u fs' where fn: "do_scan env fc p cm (?b, fs) = (res, u, fs')"
    by (cases "do_scan env fc p cm (?b, fs)") auto
  have ulin: "finding_ids_for_run u l = (case en_scan_error env of Some m \<Rightarrow> finding_ids_for_run ?b l
     | None \<Rightarrow> finding_ids_for_run
         (fold (\<lambda>f. add_finding_lineage k (f_id f)) (rep_findings (run_report env p cm)) ?b) l)" for l
    using fn by (cases "en_scan_error env") (simp_all only: do_scan_eq option.case prod.inject k_def)
  have keeps: "keeps_records ?b u"
    using fn lineage_fold[of ?b k "rep_findings (run_report env p cm)"]
    by (auto simp: do_scan_eq k_def keeps_records_def split: option.splits)
  have out: "outcome (\<lambda>m. m) None res = (st, en_scan_error env)"
    using fn by (auto simp: do_scan_eq st_def split: option.splits)
  from record_stage_execution_views[where str = "\<lambda>m. m" and fn = "do_scan env fc p cm" and s = ?s1 and w = fs and ?t1.0 = "en_scan_end env"
      and cond = None, OF runs_okD(1)[OF ok1] fresh1 fn keeps]
  obtain t where t: "record_stage_execution (\<lambda>m. m) c k ''SCAN'' (en_scan_eid env) (en_scan_start env) (en_scan_end env) None
      (do_scan env fc p cm) (?s1, fs) = (res, t, fs')"
    "\<And>l. history t l = (if l = k then history ?s1 k @ [finish_execution st (en_scan_end env) (en_scan_error env)
       (begun k ''SCAN'' (en_scan_eid env) (en_scan_start env))] else history ?s1 l)"
    "\<And>l m. stage_of t l m = (if l = k \<and> m = ''SCAN'' then Some
       \<lparr>sg_run_id = k, sg_stage_name = ''SCAN'', sg_status = st, sg_started_at = Some (en_scan_start env),
        sg_completed_at = Some (en_scan_end env), sg_error = en_scan_error env,
        sg_execution_count = count_of ?s1 k ''SCAN'' + 1,
        sg_last_execution_at = Some (en_scan_start env)\<rparr> else stage_of ?s1 l m)"
    "\<And>l. run_of t l = run_of ?s1 l" "\<And>l. finding_ids_for_run t l = finding_ids_for_run u l"
    unfolding out by auto
  have run: "execute_scan c fc env p cm at_project (s, fs) =
      ((case en_scan_error env of None \<Rightarrow> Inr (finished_run env p cm, run_report env p cm) | Some m \<Rightarrow> Inl m),
       create_run c (finished_run env p cm) t, fs')"
    using t(1) fn start(1)
    by (cases "start_run c env p at_project s")
      (auto simp: execute_scan_def k_def do_scan_eq finished_run_def update_run_def Let_def split: option.splits)
  have fs': "fs' = (case en_scan_error env of None \<Rightarrow> finding_add_report fc (run_report env p cm) fs | Some m \<Rightarrow> fs)"
    using fn by (auto simp: do_scan_eq split: option.splits)
  have lin: "set (finding_ids_for_run u l) = set (finding_ids_for_run ?s1 l) \<union>
      (if l = k then (case en_scan_error env of None \<Rightarrow> f_id ` set (rep_findings (run_report env p cm)) | Some m \<Rightarrow> {}) else {})"
    "distinct (finding_ids_for_run ?s1 l) \<longrightarrow> distinct (finding_ids_for_run u l)"
    "l \<noteq> k \<longrightarrow> finding_ids_for_run u l = finding_ids_for_run ?s1 l" for l
  proof -
    have b: "finding_ids_for_run ?b l = finding_ids_for_run ?s1 l" by simp
    note lf = lineage_fold[of ?b k "rep_findings (run_report env p cm)" l, unfolded b]
    show "set (finding_ids_for_run u l) = set (finding_ids_for_run ?s1 l) \<union>
      (if l = k then (case en_scan_error env of None \<Rightarrow> f_id ` set (rep_findings (run_report env p cm)) | Some m \<Rightarrow> {}) else {})"
      "distinct (finding_ids_for_run ?s1 l) \<longrightarrow> distinct (finding_ids_for_run u l)"
      "l \<noteq> k \<longrightarrow> finding_ids_for_run u l = finding_ids_for_run ?s1 l"
      using ulin[of l] lf by (cases "en_scan_error env"; simp)+
  qed
  show ?thesis
    unfolding run fs'
  proof (intro exI[of _ "create_run c (finished_run env p cm) t"] conjI refl)
    show "run_of (create_run c (finished_run env p cm) t) k = Some (finished_run env p cm)" by (simp add: k_def)
    show "map (\<lambda>e. (ex_stage_name e, ex_status e)) (history (create_run c (finished_run env p cm) t) k) =
        [(''PREPARE'', Run_completed), (''SCAN'', st)]"
      using start(3)[of k] by (simp add: t(2) k_def)
    show "map_option (\<lambda>g. (sg_status g, sg_error g)) (stage_of (create_run c (finished_run env p cm) t) k ''SCAN'') =
        Some (st, en_scan_error env)" by (simp add: t(3))
    show "\<forall>m \<in> set STAGE_NAMES - {''PREPARE'', ''SCAN''}.
        stage_of (create_run c (finished_run env p cm) t) k m = Some (pending_stage k m)"
      using start(5)[of _ k] by (auto simp: t(3) k_def)
    show "set (finding_ids_for_run (create_run c (finished_run env p cm) t) k) =
        (case en_scan_error env of None \<Rightarrow> f_id ` set (rep_findings (run_report env p cm)) | Some m \<Rightarrow> {})"
      using lin(1)[of k] ids by (simp add: t(5))
    show "distinct (finding_ids_for_run (create_run c (finished_run env p cm) t) k)"
      using lin(2)[of k] ids by (simp add: t(5))
    show "\<forall>l. l \<noteq> k \<longrightarrow> run_of (create_run c (finished_run env p cm) t) l = run_of s l \<and>
        history (create_run c (finished_run env p cm) t) l = history s l \<and>
        finding_ids_for_run (create_run c (finished_run env p cm) t) l = finding_ids_for_run s l"
      using lin(3) start(2,3,4) by (simp add: t(2,4,5) k_def)
  qed
qed

text \<open>The scan route leaves exactly the records it promises. On success the run is completed with the
  report's counts, PREPARE and SCAN are completed, the stages of later requests are still pending, the lineage of the
  run is the report's findings without repetition and the finding store has the report; when the scan raises, the run
  and SCAN are failed with the error, there is no lineage and the finding store is untouched. No other run
  changes.\<close>
theorem execute_scan_records:
  assumes "runs_empty s0" and "(run_step c)\<^sup>*\<^sup>* s0 s" and "fresh_env s env"
  shows "\<exists>t. execute_scan c fc env p cm at_project (s, fs) =
             ((case en_scan_error env of None \<Rightarrow> Inr (finished_run env p cm, run_report env p cm) | Some m \<Rightarrow> Inl m), t,
              (case en_scan_error env of None \<Rightarrow> finding_add_report fc (run_report env p cm) fs | Some m \<Rightarrow> fs)) \<and>
           run_of t (en_run_id env) = Some (finished_run env p cm) \<and>
           map (\<lambda>e. (ex_stage_name e, ex_status e)) (history t (en_run_id env)) =
             [(''PREPARE'', Run_completed),
              (''SCAN'', case en_scan_error env of None \<Rightarrow> Run_completed | Some _ \<Rightarrow> Run_failed)] \<and>
           (\<forall>m \<in> set STAGE_NAMES - {''PREPARE'', ''SCAN''}.
              stage_of t (en_run_id env) m = Some (pending_stage (en_run_id env) m)) \<and>
           distinct (finding_ids_for_run t (en_run_id env)) \<and>
           (\<forall>fid. validate_stage_context t (en_run_id env) fid = None \<longleftrightarrow>
              en_scan_error env = None \<and> fid \<in> f_id ` set (rep_findings (run_report env p cm))) \<and>
           (\<forall>l. l \<noteq> en_run_id env \<longrightarrow> run_of t l = run_of s l \<and> history t l = history s l \<and>
              finding_ids_for_run t l = finding_ids_for_run s l)"
  using execute_scan_views[OF run_sys.inv_reachable[OF assms(1,2)] assms(3), of c fc p cm at_project fs]
  by (elim exE) (rule exI, auto simp: validate_stage_context_def run_of_def split: option.splits)

section \<open>Histories and counts\<close>


text \<open>The execution history of a run is append-only: while runs are only started, executed and updated, a later
  history has the earlier executions first, in order; settled ones are unchanged and running ones at most settled.\<close>
theorem execution_history_append_only:
  assumes "runs_empty s0" and "(run_step c)\<^sup>*\<^sup>* s0 s" and "(run_event c)\<^sup>*\<^sup>* s t"
  shows "history_le (history s k) (history t k)"
  using run_log.obs_steps[OF assms(3) run_sys.inv_reachable[OF assms(1,2)]] by blast

text \<open>When two executions of one stage overlap, the stage record mixes them: after the first, begun earlier,
  fails, the record is failed with its error and its end but with the start of the second, which is still running,
  and the second's end then erases the error.\<close>
theorem overlapping_executions_mix:
  assumes "runs_ok s" and "run_of s k \<noteq> None" and "fresh_execution s i" and "fresh_execution s j" and "i \<noteq> j"
  shows "let s2 = begin_stage_execution c k n j t2 (begin_stage_execution c k n i t1 s);
             s3 = fail_stage_execution c k n i t3 message s2;
             s4 = complete_stage_execution c k n j t4 s3
         in map_option (\<lambda>g. (sg_status g, sg_started_at g, sg_completed_at g, sg_error g)) (stage_of s3 k n) =
              Some (Run_failed, Some t2, Some t3, Some message) \<and> in_flight s3 k n j \<and>
            map_option (\<lambda>g. (sg_status g, sg_started_at g, sg_error g)) (stage_of s4 k n) =
              Some (Run_completed, Some t2, None)"
proof -
  let ?s1 = "begin_stage_execution c k n i t1 s" and ?s2 = "begin_stage_execution c k n j t2 (begin_stage_execution c k n i t1 s)"
  have ok1: "runs_ok ?s1" using runs_ok_begin[OF assms(1-3)] .
  have "fresh_execution ?s1 j" using assms(4,5) by (auto simp: fresh_execution_def image_iff)
  then have ok2: "runs_ok ?s2" using assms(2) by (intro runs_ok_begin[OF ok1]) simp_all
  note v2 = finish_stage_views[OF runs_okD(1)[OF ok2]]
  have ok3: "runs_ok (finish_stage c Run_failed (Some message) k n i t3 ?s2)"
    using ok2 assms(2) by (intro runs_ok_finish) simp_all
  note v3 = finish_stage_views[OF runs_okD(1)[OF ok3]]
  have "begun k n j t2 \<in> set (history (finish_stage c Run_failed (Some message) k n i t3 ?s2) k)"
    using assms(5) by (auto simp: v2)
  then have "in_flight (finish_stage c Run_failed (Some message) k n i t3 ?s2) k n j"
    unfolding in_flight_def by (intro bexI[of _ "begun k n j t2"]) simp_all
  then show ?thesis by (simp add: Let_def finish_stage_alt v2 v3)
qed


section \<open>A sample run\<close>

type_synonym sample_runs = "(scan_run, scan_stage_run, stage_execution) run_store"

definition sample_run_codecs :: "(scan_run, scan_stage_run, stage_execution) run_codecs" where
  "sample_run_codecs = \<lparr>run_codec = id_codec, stage_codec = id_codec, execution_codec = id_codec\<rparr>"

definition sample_run_env :: run_env where
  "sample_run_env = \<lparr>en_run_id = ''r'', en_prepare_eid = ''e1'', en_scan_eid = ''e2'', en_report_id = ''rep'',
     en_now = utc 1, en_scan_start = utc 2, en_report_at = utc 3, en_scan_end = utc 4, en_end = utc 5, en_sha = id,
     en_scan_error = None\<rparr>"

definition sample_model :: code_model where
  "sample_model = \<lparr>cm_project_id = ''p'', cm_files = [sample_file]\<rparr>"

definition runs0 :: sample_runs where "runs0 = empty_run_store"
definition runs1 :: sample_runs where "runs1 = snd (start_run sample_run_codecs sample_run_env ''p'' None runs0)"

lemma runs0_empty: "runs_empty runs0"
  by (simp add: runs_empty_def runs0_def empty_run_store_def)

lemma runs0_views [simp]: "run_of runs0 k = None" "history runs0 k = []"
  by (simp_all add: runs0_def empty_run_store_def run_of_def history_def dget_list_def)

lemma runs0_fresh: "fresh_env runs0 sample_run_env" "fresh_execution runs0 i"
  by (simp_all add: fresh_env_def fresh_execution_def sample_run_env_def)

lemma runs1_step: "run_event sample_run_codecs runs0 runs1"
  unfolding runs1_def by (rule ev_start) (simp_all add: runs0_fresh)

lemma runs1_reach: "(run_step sample_run_codecs)\<^sup>*\<^sup>* runs0 runs1"
  using runs1_step by (auto intro: rs_event)

lemma runs1_ok: "runs_ok runs1"
  using run_sys.inv_reachable[OF runs0_empty runs1_reach] .

lemma runs1_views:
  "run_of runs1 ''r'' = Some (new_run sample_run_env ''p'')"
  "map ex_id (history runs1 k) = (if k = ''r'' then [''e1''] else [])"
proof -
  note v = start_run_views[where env = sample_run_env, OF runs_ok_init[OF runs0_empty]]
  show "run_of runs1 ''r'' = Some (new_run sample_run_env ''p'')"
    unfolding runs1_def by (subst v(2)) (simp_all add: runs0_fresh sample_run_env_def)
  show "map ex_id (history runs1 k) = (if k = ''r'' then [''e1''] else [])"
    unfolding runs1_def by (subst v(3)) (simp_all add: runs0_fresh sample_run_env_def)
qed

lemma runs1_fresh: "i \<noteq> ''e1'' \<Longrightarrow> fresh_execution runs1 i"
proof -
  assume "i \<noteq> ''e1''"
  then have "i \<notin> set (map ex_id (history runs1 k))" for k by (simp add: runs1_views(2))
  then show ?thesis by (simp add: fresh_execution_def)
qed

theorem execute_scan_records_witness:
  "\<exists>t. snd (execute_scan sample_run_codecs id_codec sample_run_env ''p'' sample_model None
          (runs0, \<lparr>cache = [], factory = None\<rparr>)) = (t, finding_add_report id_codec
            (run_report sample_run_env ''p'' sample_model) \<lparr>cache = [], factory = None\<rparr>) \<and>
       run_of t ''r'' = Some (finished_run sample_run_env ''p'' sample_model)"
proof -
  have id: "en_run_id sample_run_env = ''r''" "en_scan_error sample_run_env = None"
    by (simp_all add: sample_run_env_def)
  from execute_scan_records[OF runs0_empty rtranclp.rtrancl_refl runs0_fresh(1), of sample_run_codecs id_codec "''p''"
      sample_model None "\<lparr>cache = [], factory = None\<rparr>", unfolded id] show ?thesis
    by (elim exE conjE) (rule exI, simp)
qed

theorem record_stage_execution_outcome_witness:
  "\<exists>t e. record_stage_execution (\<lambda>m. m) sample_run_codecs ''r'' ''PROVE'' ''e9'' (utc 7) (utc 8) None
          (\<lambda>(s, w). (Inl ''boom'' :: string + unit, s, w)) (runs1, ()) = (Inl ''boom'', t, ()) \<and>
       history t ''r'' = history runs1 ''r'' @ [e] \<and> ex_status e = Run_failed \<and> ex_error e = Some ''boom''"
proof -
  let ?fn = "\<lambda>(s :: sample_runs, w :: unit). (Inl ''boom'' :: string + unit, s, w)"
  have fn: "?fn (begin_stage_execution sample_run_codecs ''r'' ''PROVE'' ''e9'' (utc 7) runs1, ()) =
      (Inl ''boom'', begin_stage_execution sample_run_codecs ''r'' ''PROVE'' ''e9'' (utc 7) runs1, ())" by simp
  have k: "keeps_records s s" for s :: sample_runs by (simp add: keeps_records_def)
  have f: "fresh_execution runs1 ''e9''" by (rule runs1_fresh) simp
  from record_stage_execution_outcome[where str = "\<lambda>m. m" and fn = ?fn and cond = None and ?t1.0 = "utc 8", OF runs0_empty runs1_reach f fn k]
  show ?thesis by auto
qed


theorem execution_history_append_only_witness:
  "history_le (history runs0 ''r'') (history runs1 ''r'')"
  using execution_history_append_only[OF runs0_empty rtranclp.rtrancl_refl, of sample_run_codecs runs1]
    runs1_step by (simp add: r_into_rtranclp)

theorem overlapping_executions_mix_witness:
  "map_option sg_status (stage_of (fail_stage_execution sample_run_codecs ''r'' ''PROVE'' ''a'' (utc 9) ''boom''
     (begin_stage_execution sample_run_codecs ''r'' ''PROVE'' ''b'' (utc 8)
       (begin_stage_execution sample_run_codecs ''r'' ''PROVE'' ''a'' (utc 7) runs1))) ''r'' ''PROVE'') = Some Run_failed"
proof -
  have r: "run_of runs1 ''r'' \<noteq> None" by (simp add: runs1_views)
  have f: "fresh_execution runs1 ''a''" "fresh_execution runs1 ''b''" by (rule runs1_fresh, simp)+
  from overlapping_executions_mix[OF runs1_ok r f, of sample_run_codecs "''PROVE''" "utc 8" "utc 7" "utc 9" "''boom''" "utc 10"]
  show ?thesis by (auto simp: Let_def)
qed


end
