(* ===== verification/Dedup.thy ===== *)
theory Dedup
  imports Risk
begin

text \<open>
  Deduplication (backend/app/dedup/): the structural fingerprint of a finding, the grouping of one run, its merge
  into the registry of earlier runs and the removal of deleted findings. The tokens of a snippet come from the
  standard library's \<open>tokenize\<close> and the hash from \<open>hashlib\<close>; both are arguments (\<open>None\<close> is a
  \<open>TokenError\<close>, \<open>IndentationError\<close> or \<open>ValueError\<close> of the tokenizer).
\<close>

section \<open>Fingerprints\<close>

datatype token_kind = Op | Name_token | Literal | Other_token

type_synonym token = "token_kind \<times> string"
type_synonym tokenizer = "string \<Rightarrow> token list option"

fun normal_parts :: "token list \<Rightarrow> string list" where
  "normal_parts [] = []"
| "normal_parts ((Op, s) # ts) =
     (if s = ''.'' then
        (case ts of
           (Name_token, n) # us \<Rightarrow> (CHR 0x2E # n) # normal_parts us
         | _ \<Rightarrow> s # normal_parts ts)
      else s # normal_parts ts)"
| "normal_parts ((Name_token, s) # ts) = ''_n_'' # normal_parts ts"
| "normal_parts ((Literal, s) # ts) = ''_lit_'' # normal_parts ts"
| "normal_parts ((Other_token, s) # ts) = normal_parts ts"

definition normalize_snippet :: "tokenizer \<Rightarrow> string \<Rightarrow> string" where
  "normalize_snippet tokens snippet =
     (if strip snippet = [] then []
      else (case tokens snippet of None \<Rightarrow> ''_unparsable_'' | Some ts \<Rightarrow> join '' '' (normal_parts ts)))"

record finding_fingerprint =
  fp_value :: string
  fp_structural_signature :: string
  fp_vulnerability_type :: string
  fp_source_category :: string
  fp_sink_category :: string
  fp_normalized_source :: string
  fp_normalized_sink :: string
  fp_taint_structure :: string

fun step_text :: "step_type \<Rightarrow> string" where
  "step_text Source = ''source''"
| "step_text Assignment = ''assignment''"
| "step_text Propagation = ''propagation''"
| "step_text String_Construction = ''string_construction''"
| "step_text Sink = ''sink''"

definition taint_structure :: "candidate_finding \<Rightarrow> string" where
  "taint_structure f = join ''->'' (map (\<lambda>s. step_text (ts_type s)) (f_taint_path f))"

definition signature_parts :: "tokenizer \<Rightarrow> candidate_finding \<Rightarrow> string list" where
  "signature_parts tokens f =
     [f_vulnerability_type f, src_kind (f_source f), snk_kind (f_sink f),
      normalize_snippet tokens (src_snippet (f_source f)), normalize_snippet tokens (snk_snippet (f_sink f)),
      taint_structure f]"

definition build_fingerprint :: "tokenizer \<Rightarrow> (string \<Rightarrow> string) \<Rightarrow> candidate_finding \<Rightarrow> finding_fingerprint" where
  "build_fingerprint tokens sha f =
     (let sig = join ''|'' (signature_parts tokens f) in
      \<lparr>fp_value = sha sig, fp_structural_signature = sig, fp_vulnerability_type = f_vulnerability_type f,
       fp_source_category = src_kind (f_source f), fp_sink_category = snk_kind (f_sink f),
       fp_normalized_source = normalize_snippet tokens (src_snippet (f_source f)),
       fp_normalized_sink = normalize_snippet tokens (snk_snippet (f_sink f)),
       fp_taint_structure = taint_structure f\<rparr>)"

section \<open>Groups\<close>

record dedup_group =
  dg_fingerprint :: string
  dg_structural_signature :: string
  dg_canonical_finding_id :: string
  dg_member_finding_ids :: "string list"
  dg_occurrence_count :: nat
  dg_repositories :: "string list"
  dg_vulnerability_type :: string
  dg_representative_finding :: candidate_finding
  dg_match_reasons :: "string list"

record dedup_result =
  dd_total_findings :: nat
  dd_unique_findings :: nat
  dd_duplicate_findings :: int
  dd_groups :: "dedup_group list"

definition MATCH_REASONS :: "string list" where
  "MATCH_REASONS = [''same vulnerability type'', ''same source category'', ''same sink category'',
     ''same normalized source pattern'', ''same normalized sink pattern'', ''same normalized taint structure'']"

definition repo_label_for_file :: "string \<Rightarrow> string" where
  "repo_label_for_file path =
     (let parts = path_parts path in
      if parts = [] then ''unknown''
      else if 2 \<le> length parts then parts ! (length parts - 2)
      else last parts)"

type_synonym 'p group_registry = "(dedup_group, 'p) kstore"

type_synonym bucket = "finding_fingerprint \<times> candidate_finding list"

definition bucket_step ::
    "tokenizer \<Rightarrow> (string \<Rightarrow> string) \<Rightarrow> candidate_finding \<Rightarrow> (string, bucket) dict \<Rightarrow> (string, bucket) dict" where
  "bucket_step tokens sha f buckets =
     (let fp = build_fingerprint tokens sha f in
      case dget buckets (fp_value fp) of
        None \<Rightarrow> dput (fp_value fp) (fp, [f]) buckets
      | Some (fp0, members) \<Rightarrow> dput (fp_value fp) (fp0, members @ [f]) buckets)"

definition buckets_of ::
    "tokenizer \<Rightarrow> (string \<Rightarrow> string) \<Rightarrow> candidate_finding list \<Rightarrow> (string, bucket) dict" where
  "buckets_of tokens sha findings = fold (bucket_step tokens sha) findings []"

text \<open>The members of an earlier group that were not submitted again and still exist.\<close>

definition kept_members ::
    "(string \<Rightarrow> candidate_finding option) \<Rightarrow> string set \<Rightarrow> dedup_group option \<Rightarrow> candidate_finding list" where
  "kept_members finding_store submitted existing =
     (case existing of
        None \<Rightarrow> []
      | Some g \<Rightarrow> List.map_filter finding_store (filter (\<lambda>m. m \<notin> submitted) (dg_member_finding_ids g)))"

definition repositories_of :: "candidate_finding list \<Rightarrow> string list" where
  "repositories_of fs = sorted_set (map (\<lambda>f. repo_label_for_file (src_file (f_source f))) fs)"

definition make_group :: "string \<Rightarrow> finding_fingerprint \<Rightarrow> candidate_finding list \<Rightarrow> dedup_group" where
  "make_group fpv fp members =
     (let ordered = sort_key f_id members; canonical = hd ordered in
      \<lparr>dg_fingerprint = fpv, dg_structural_signature = fp_structural_signature fp,
       dg_canonical_finding_id = f_id canonical, dg_member_finding_ids = map f_id ordered,
       dg_occurrence_count = length ordered, dg_repositories = repositories_of ordered,
       dg_vulnerability_type = fp_vulnerability_type fp, dg_representative_finding = canonical,
       dg_match_reasons = MATCH_REASONS\<rparr>)"

definition group_step ::
    "(string \<Rightarrow> candidate_finding option) \<Rightarrow> string set \<Rightarrow> string \<times> bucket
     \<Rightarrow> (string, dedup_group) dict \<times> dedup_group list \<Rightarrow> (string, dedup_group) dict \<times> dedup_group list" where
  "group_step finding_store submitted kv acc =
     (case kv of (fpv, (fp, members)) \<Rightarrow>
      (case acc of (registry, groups) \<Rightarrow>
         (let g = make_group fpv fp (members @ kept_members finding_store submitted (dget registry fpv))
          in (dput fpv g registry, groups @ [g]))))"

definition persist_groups ::
    "(dedup_group, 'p) codec \<Rightarrow> (string, dedup_group) dict \<Rightarrow> 'p group_registry \<Rightarrow> 'p group_registry" where
  "persist_groups c registry s =
     s\<lparr>factory := fold (\<lambda>g. db_insert (dg_fingerprint g) (dump c g)) (dvalues registry) (db_delete_all (factory s))\<rparr>"

definition deduplicate ::
    "tokenizer \<Rightarrow> (string \<Rightarrow> string) \<Rightarrow> (dedup_group, 'p) codec \<Rightarrow> (string \<Rightarrow> candidate_finding option)
     \<Rightarrow> candidate_finding list \<Rightarrow> 'p group_registry \<Rightarrow> dedup_result \<times> 'p group_registry" where
  "deduplicate tokens sha c finding_store findings s =
     (case fold (group_step finding_store (f_id ` set findings)) (buckets_of tokens sha findings) (cache s, []) of
        (registry, groups) \<Rightarrow>
          (\<lparr>dd_total_findings = length findings, dd_unique_findings = length groups,
            dd_duplicate_findings = int (length findings) - int (length groups), dd_groups = groups\<rparr>,
           persist_groups c registry (s\<lparr>cache := dput_all registry []\<rparr>)))"

definition lookup_group :: "'p group_registry \<Rightarrow> string \<Rightarrow> dedup_group option" where
  "lookup_group s fpv = kstore_get s fpv"

text \<open>One step of \<open>remove_findings\<close>, over the snapshot of the registry.\<close>

definition remove_step ::
    "(string \<Rightarrow> candidate_finding option) \<Rightarrow> string set \<Rightarrow> string \<times> dedup_group
     \<Rightarrow> bool \<times> (string, dedup_group) dict \<Rightarrow> bool \<times> (string, dedup_group) dict" where
  "remove_step finding_store gone kv acc =
     (case kv of (fpv, g) \<Rightarrow>
      (case acc of (changed, registry) \<Rightarrow>
         (let remaining = filter (\<lambda>fid. fid \<notin> gone) (dg_member_finding_ids g) in
          if length remaining = length (dg_member_finding_ids g) then (changed, registry)
          else if remaining = [] then (True, dpop fpv registry)
          else
            (let members = List.map_filter finding_store remaining in
             if members = [] then (True, dpop fpv registry)
             else
               (let ordered = sort_key f_id members; canonical = hd ordered
                in (True, dput fpv (g\<lparr>dg_canonical_finding_id := f_id canonical,
                        dg_member_finding_ids := map f_id ordered, dg_occurrence_count := length ordered,
                        dg_repositories := repositories_of ordered, dg_representative_finding := canonical\<rparr>) registry))))))"

definition remove_findings ::
    "(dedup_group, 'p) codec \<Rightarrow> (string \<Rightarrow> candidate_finding option) \<Rightarrow> string set \<Rightarrow> 'p group_registry
     \<Rightarrow> 'p group_registry" where
  "remove_findings c finding_store gone s =
     (case fold (remove_step finding_store gone) (cache s) (False, cache s) of
        (changed, registry) \<Rightarrow>
          if changed then persist_groups c registry (s\<lparr>cache := registry\<rparr>) else s\<lparr>cache := registry\<rparr>)"

text \<open>The handler: \<open>Inl\<close> lists the ids that are not in the finding store (404).\<close>

definition deduplicate_findings ::
    "tokenizer \<Rightarrow> (string \<Rightarrow> string) \<Rightarrow> (dedup_group, 'p) codec \<Rightarrow> (string \<Rightarrow> candidate_finding option)
     \<Rightarrow> string list \<Rightarrow> 'p group_registry \<Rightarrow> (string list + dedup_result) \<times> 'p group_registry" where
  "deduplicate_findings tokens sha c finding_store ids s =
     (let missing = filter (\<lambda>i. finding_store i = None) ids in
      if missing \<noteq> [] then (Inl missing, s)
      else (case deduplicate tokens sha c finding_store (List.map_filter finding_store ids) s of
              (r, t) \<Rightarrow> (Inr r, t)))"

text \<open>\<open>RiskService.assess_group\<close>: the risk of a group is that of its canonical finding.\<close>

definition assess_group ::
    "risk_policy \<Rightarrow> dedup_group \<Rightarrow> validation_result option \<Rightarrow> proof_result option \<Rightarrow> py_datetime \<Rightarrow> risk_assessment" where
  "assess_group policy g validation proof assessed_at =
     (assess policy (dg_representative_finding g) validation proof assessed_at)
       \<lparr>rk_related_finding_ids := sort (dg_member_finding_ids g)\<rparr>"

end
