(* ===== verification/Dedup_Properties.thy ===== *)
theory Dedup_Properties
  imports Dedup
begin

text \<open>
  Properties of deduplication: a run partitions its findings by structure, the registry is well formed and mirrored
  by its table in every reachable state, removal leaves no trace of a finding, and two cases in which the groups are
  not what the service promises.
\<close>

section \<open>Buckets\<close>

definition fv :: "tokenizer \<Rightarrow> (string \<Rightarrow> string) \<Rightarrow> candidate_finding \<Rightarrow> string" where
  "fv tokens sha f = fp_value (build_fingerprint tokens sha f)"

definition class_of :: "tokenizer \<Rightarrow> (string \<Rightarrow> string) \<Rightarrow> candidate_finding list \<Rightarrow> string \<Rightarrow> candidate_finding list" where
  "class_of tokens sha fs v = filter (\<lambda>f. fv tokens sha f = v) fs"

lemma class_of_Nil_iff: "class_of tokens sha fs v = [] \<longleftrightarrow> v \<notin> fv tokens sha ` set fs"
  by (auto simp: class_of_def filter_empty_conv)

lemma buckets_snoc: "buckets_of tokens sha (fs @ [f]) = bucket_step tokens sha f (buckets_of tokens sha fs)"
  by (simp add: buckets_of_def)

text \<open>The one-pass grouping is the partition by fingerprint.\<close>

lemma buckets_of_spec:
  "distinct (dkeys (buckets_of tokens sha fs)) \<and> fst ` set (buckets_of tokens sha fs) = fv tokens sha ` set fs \<and>
   (\<forall>v. dget (buckets_of tokens sha fs) v =
      (if class_of tokens sha fs v = [] then None
       else Some (build_fingerprint tokens sha (hd (class_of tokens sha fs v)), class_of tokens sha fs v)))"
proof (induction fs rule: rev_induct)
  case Nil
  show ?case by (simp add: buckets_of_def class_of_def)
next
  case (snoc f fs)
  let ?b = "buckets_of tokens sha fs" and ?v = "fv tokens sha f"
  have step: "buckets_of tokens sha (fs @ [f]) = dput ?v
      (case dget ?b ?v of None \<Rightarrow> (build_fingerprint tokens sha f, [f]) | Some (fp0, ms) \<Rightarrow> (fp0, ms @ [f])) ?b"
    by (auto simp: buckets_snoc bucket_step_def Let_def fv_def split: option.splits)
  have cls: "class_of tokens sha (fs @ [f]) v = class_of tokens sha fs v @ (if v = ?v then [f] else [])" for v
    by (simp add: class_of_def)
  show ?case
    using snoc unfolding step cls by (auto simp: hd_append split: option.splits if_splits)
qed

definition new_group ::
    "(string \<Rightarrow> candidate_finding option) \<Rightarrow> string set \<Rightarrow> (string, dedup_group) dict \<Rightarrow> string \<times> bucket \<Rightarrow> dedup_group" where
  "new_group store sub reg kv =
     make_group (fst kv) (fst (snd kv)) (snd (snd kv) @ kept_members store sub (dget reg (fst kv)))"

lemma group_fold:
  assumes "distinct (dkeys kvs)"
  shows "fold (group_step store sub) kvs (reg, gs) =
           (fold (\<lambda>kv. dput (fst kv) (new_group store sub reg kv)) kvs reg, gs @ map (new_group store sub reg) kvs)"
  using assms
proof (induction kvs arbitrary: reg gs)
  case (Cons kv kvs)
  let ?g = "new_group store sub reg kv" and ?reg = "dput (fst kv) (new_group store sub reg kv) reg"
  have step: "group_step store sub kv (reg, gs) = (?reg, gs @ [?g])"
    by (cases kv) (auto simp: group_step_def new_group_def Let_def)
  have same: "new_group store sub ?reg x = new_group store sub reg x" if "x \<in> set kvs" for x
  proof -
    have "fst x \<noteq> fst kv" using Cons.prems that by (auto simp: image_iff)
    then show ?thesis by (simp add: new_group_def)
  qed
  have "fold (\<lambda>x. dput (fst x) (new_group store sub ?reg x)) kvs ?reg = fold (\<lambda>x. dput (fst x) (new_group store sub reg x)) kvs ?reg"
    using same by (intro fold_cong) auto
  then show ?case using Cons step same by simp
qed simp

lemma dget_fold_dput:
  assumes "distinct (map k xs)"
  shows "dget (fold (\<lambda>x. dput (k x) (g x)) xs d) v = (case find (\<lambda>x. k x = v) xs of None \<Rightarrow> dget d v | Some x \<Rightarrow> Some (g x))"
  using assms
proof (induction xs arbitrary: d)
  case (Cons x xs)
  have "find (\<lambda>y. k y = k x) xs = None" using Cons.prems by (auto simp: find_None_iff_all image_iff)
  then show ?case using Cons by (auto split: option.splits)
qed simp

lemma distinct_fold_dput:
  "distinct (dkeys (fold (\<lambda>x. dput (k x) (g x)) xs d)) = distinct (dkeys d)"
  by (induction xs arbitrary: d) simp_all

section \<open>Groups\<close>

text \<open>A well-formed group: sorted members, the smallest as canonical one, and the count of members.\<close>

definition group_ok :: "string \<Rightarrow> dedup_group \<Rightarrow> bool" where
  "group_ok v g \<longleftrightarrow> dg_fingerprint g = v \<and> dg_member_finding_ids g \<noteq> [] \<and> sorted (dg_member_finding_ids g) \<and>
     dg_canonical_finding_id g = hd (dg_member_finding_ids g) \<and>
     f_id (dg_representative_finding g) = dg_canonical_finding_id g \<and>
     dg_occurrence_count g = length (dg_member_finding_ids g)"

lemma sort_key_Nil_iff [simp]: "sort_key f xs = [] \<longleftrightarrow> xs = []"
  by (metis length_0_conv length_sort)

lemma make_group_fields:
  assumes "members \<noteq> []"
  shows "group_ok v (make_group v fp members)"
    and "mset (dg_member_finding_ids (make_group v fp members)) = image_mset f_id (mset members)"
proof -
  have "sort_key f_id members \<noteq> []" using assms by simp
  then have "map f_id (sort_key f_id members) \<noteq> []" "hd (map f_id (sort_key f_id members)) = f_id (hd (sort_key f_id members))"
    by (simp_all add: hd_map)
  then show "group_ok v (make_group v fp members)"
    by (simp add: group_ok_def make_group_def Let_def)
  show "mset (dg_member_finding_ids (make_group v fp members)) = image_mset f_id (mset members)"
    by (simp add: make_group_def Let_def)
qed

lemma canonical_least: "group_ok v g \<Longrightarrow> i \<in> set (dg_member_finding_ids g) \<Longrightarrow> dg_canonical_finding_id g \<le> i"
  by (cases "dg_member_finding_ids g") (auto simp: group_ok_def)

text \<open>Writing the table anew.\<close>

lemma insert_all:
  "fold (\<lambda>g. db_insert (dg_fingerprint g) (dump c g)) gs (db_delete_all f) =
   map_option (\<lambda>_. map (\<lambda>g. (dg_fingerprint g, dump c g)) gs) f"
proof -
  have "fold (\<lambda>g. db_insert (dg_fingerprint g) (dump c g)) gs (Some rows) =
      Some (rows @ map (\<lambda>g. (dg_fingerprint g, dump c g)) gs)" for rows
    by (induction gs arbitrary: rows) simp_all
  moreover have "fold (\<lambda>g. db_insert (dg_fingerprint g) (dump c g)) gs None = None"
    by (induction gs) simp_all
  ultimately show ?thesis by (cases f) simp_all
qed

lemma persist_views [simp]:
  "cache (persist_groups c reg s) = cache s"
  "factory (persist_groups c reg s) =
     map_option (\<lambda>_. map (\<lambda>g. (dg_fingerprint g, dump c g)) (dvalues reg)) (factory s)"
  by (simp_all add: persist_groups_def insert_all)

text \<open>The groups of one run.\<close>

lemma deduplicate_groups:
  assumes "deduplicate tokens sha c store fs s = (r, t)"
  defines "B \<equiv> buckets_of tokens sha fs"
  defines "G \<equiv> new_group store (f_id ` set fs) (cache s)"
  shows "dd_groups r = map G B" and "dd_total_findings r = length fs" and "dd_unique_findings r = length B"
    and "dd_duplicate_findings r = int (length fs) - int (length B)"
    and "distinct (dkeys (cache s)) \<Longrightarrow> cache t = fold (\<lambda>kv. dput (fst kv) (G kv)) B (cache s)"
    and "factory t = map_option (\<lambda>_. map (\<lambda>g. (dg_fingerprint g, dump c g)) (dvalues (fold (\<lambda>kv. dput (fst kv) (G kv)) B (cache s)))) (factory s)"
proof -
  have d: "distinct (dkeys B)" using buckets_of_spec by (simp add: B_def)
  let ?reg = "fold (\<lambda>kv. dput (fst kv) (G kv)) B (cache s)"
  have run: "r = \<lparr>dd_total_findings = length fs, dd_unique_findings = length (map G B),
        dd_duplicate_findings = int (length fs) - int (length (map G B)), dd_groups = map G B\<rparr>"
    "t = persist_groups c ?reg (s\<lparr>cache := dput_all ?reg []\<rparr>)"
    using assms(1) group_fold[OF d, of store "f_id ` set fs" "cache s" "[]"]
    by (simp_all add: deduplicate_def B_def[symmetric] G_def)
  show "dd_groups r = map G B" "dd_total_findings r = length fs" "dd_unique_findings r = length B"
    "dd_duplicate_findings r = int (length fs) - int (length B)" by (simp_all add: run)
  show "distinct (dkeys (cache s)) \<Longrightarrow> cache t = ?reg"
    by (simp add: run dput_all_empty distinct_fold_dput)
  show "factory t = map_option (\<lambda>_. map (\<lambda>g. (dg_fingerprint g, dump c g)) (dvalues ?reg)) (factory s)"
    by (simp add: run)
qed

lemma bucket_members:
  assumes "(v, (fp, ms)) \<in> set (buckets_of tokens sha fs)"
  shows "ms = class_of tokens sha fs v" "ms \<noteq> []" "fp = build_fingerprint tokens sha (hd ms)"
proof -
  have d: "distinct (dkeys (buckets_of tokens sha fs))" using buckets_of_spec by simp
  have "dget (buckets_of tokens sha fs) v = Some (fp, ms)" using map_of_is_SomeI[OF d assms] .
  then show "ms = class_of tokens sha fs v" "ms \<noteq> []" "fp = build_fingerprint tokens sha (hd ms)"
    using buckets_of_spec[of tokens sha fs] by (auto split: if_splits)
qed

text \<open>C16. One run partitions the submitted findings by fingerprint: its groups are one per fingerprint that occurs,
  each well formed, holding exactly the submitted findings with that fingerprint and the still existing members of
  the earlier group that were not submitted again, and the totals add up.\<close>
theorem deduplicate_partitions:
  "case deduplicate tokens sha c store fs s of (r, t) \<Rightarrow>
     distinct (map dg_fingerprint (dd_groups r)) \<and>
     set (map dg_fingerprint (dd_groups r)) = fv tokens sha ` set fs \<and>
     (\<forall>g \<in> set (dd_groups r). group_ok (dg_fingerprint g) g \<and>
        mset (dg_member_finding_ids g) =
          image_mset f_id (mset (class_of tokens sha fs (dg_fingerprint g))) +
          image_mset f_id (mset (kept_members store (f_id ` set fs) (dget (cache s) (dg_fingerprint g))))) \<and>
     dd_total_findings r = length fs \<and> dd_unique_findings r = length (dd_groups r) \<and>
     int (dd_unique_findings r) + dd_duplicate_findings r = int (length fs)"
proof -
  obtain r t where rt: "deduplicate tokens sha c store fs s = (r, t)" by (cases "deduplicate tokens sha c store fs s")
  note dg = deduplicate_groups[OF rt]
  let ?B = "buckets_of tokens sha fs" and ?G = "new_group store (f_id ` set fs) (cache s)"
  have fpv: "dg_fingerprint (?G kv) = fst kv" for kv by (simp add: new_group_def make_group_def Let_def)
  then have keys: "map dg_fingerprint (dd_groups r) = dkeys ?B" by (simp add: dg(1))
  have each: "group_ok (dg_fingerprint g) g \<and> mset (dg_member_finding_ids g) =
      image_mset f_id (mset (class_of tokens sha fs (dg_fingerprint g))) +
      image_mset f_id (mset (kept_members store (f_id ` set fs) (dget (cache s) (dg_fingerprint g))))"
    if mem: "g \<in> set (dd_groups r)" for g
  proof -
    obtain v fp ms where kv: "(v, (fp, ms)) \<in> set ?B" "g = ?G (v, (fp, ms))" using mem unfolding dg(1) by auto
    note b = bucket_members[OF kv(1)]
    show ?thesis using b(1,2) by (simp add: kv(2) fpv) (simp add: new_group_def make_group_fields)
  qed
  have "distinct (map dg_fingerprint (dd_groups r))" "set (map dg_fingerprint (dd_groups r)) = fv tokens sha ` set fs"
    unfolding keys using buckets_of_spec[of tokens sha fs] by simp_all
  moreover have "dd_unique_findings r = length (dd_groups r)" using dg(1,3) by simp
  ultimately show ?thesis using each dg(2-4) unfolding rt prod.case by simp
qed

section \<open>The registry\<close>

definition registry_ok :: "(dedup_group, 'p) codec \<Rightarrow> 'p group_registry \<Rightarrow> bool" where
  "registry_ok c s \<longleftrightarrow> mirrors c s \<and> (\<forall>v g. dget (cache s) v = Some g \<longrightarrow> group_ok v g)"

inductive dedup_step ::
    "tokenizer \<Rightarrow> (string \<Rightarrow> string) \<Rightarrow> (dedup_group, 'p) codec \<Rightarrow> 'p group_registry \<Rightarrow> 'p group_registry \<Rightarrow> bool"
  for tokens sha c where
  dd_run: "dedup_step tokens sha c s (snd (deduplicate tokens sha c store fs s))"
| dd_remove: "dedup_step tokens sha c s (remove_findings c store gone s)"
| dd_reset: "dedup_step tokens sha c s (kstore_clear s)"
| dd_restart: "durable c s \<Longrightarrow> dedup_step tokens sha c s (snd (kstore_restart c s))"

inductive_cases dedup_stepE: "dedup_step tokens sha c s t"

lemma group_rows:
  assumes "distinct (dkeys d)" and "\<forall>v g. dget d v = Some g \<longrightarrow> dg_fingerprint g = v"
  shows "map (\<lambda>g. (dg_fingerprint g, dump c g)) (dvalues d) = dmap (dump c) d"
proof -
  have "dg_fingerprint g = v" if "(v, g) \<in> set d" for v g using assms that by simp
  then show ?thesis by (auto simp: dmap_def)
qed

lemma registry_ok_persist:
  assumes "distinct (dkeys reg)" and "\<And>v g. dget reg v = Some g \<Longrightarrow> group_ok v g"
  shows "registry_ok c (persist_groups c reg (s\<lparr>cache := reg\<rparr>))"
proof -
  have "map (\<lambda>g. (dg_fingerprint g, dump c g)) (dvalues reg) = dmap (dump c) reg"
    using assms by (intro group_rows) (auto simp: group_ok_def)
  then show ?thesis using assms by (auto simp: registry_ok_def mirrors_def split: option.splits)
qed

lemma registry_fold:
  assumes "distinct (dkeys reg)" and "\<forall>v g. dget reg v = Some g \<longrightarrow> group_ok v g" and "distinct (map k xs)"
    and "\<forall>x \<in> set xs. group_ok (k x) (G x)"
  shows "dget (fold (\<lambda>x. dput (k x) (G x)) xs reg) v = Some g \<Longrightarrow> group_ok v g"
  using assms by (auto simp: dget_fold_dput split: option.splits dest: find_SomeD)

lemma new_group_ok: "kv \<in> set (buckets_of tokens sha fs) \<Longrightarrow> group_ok (fst kv) (new_group store sub reg kv)"
  by (cases kv) (auto simp: new_group_def bucket_members(2) intro!: make_group_fields(1) dest: bucket_members(2))

lemma registry_ok_run:
  assumes "registry_ok c s" and "deduplicate tokens sha c store fs s = (r, t)"
  shows "registry_ok c t"
proof -
  let ?B = "buckets_of tokens sha fs" and ?G = "new_group store (f_id ` set fs) (cache s)"
  let ?reg = "fold (\<lambda>kv. dput (fst kv) (?G kv)) ?B (cache s)"
  have d: "distinct (dkeys (cache s))" and g: "\<forall>v g. dget (cache s) v = Some g \<longrightarrow> group_ok v g"
    using assms(1) by (auto simp: registry_ok_def mirrors_def)
  have dB: "distinct (dkeys ?B)" using buckets_of_spec by simp
  have ok: "dget ?reg v = Some h \<Longrightarrow> group_ok v h" for v h
    using registry_fold[OF d g dB] new_group_ok by blast
  have dr: "distinct (dkeys ?reg)" using d by (simp add: distinct_fold_dput)
  have rows: "map (\<lambda>g. (dg_fingerprint g, dump c g)) (dvalues ?reg) = dmap (dump c) ?reg"
    using ok by (intro group_rows[OF dr]) (auto simp: group_ok_def)
  show ?thesis
    using deduplicate_groups(5,6)[OF assms(2)] d dr ok rows
    by (auto simp: registry_ok_def mirrors_def split: option.splits)
qed

definition removed :: "(string \<Rightarrow> candidate_finding option) \<Rightarrow> string set \<Rightarrow> dedup_group \<Rightarrow> dedup_group option" where
  "removed store gone g =
     (let remaining = filter (\<lambda>i. i \<notin> gone) (dg_member_finding_ids g);
          members = sort_key f_id (List.map_filter store remaining)
      in if length remaining = length (dg_member_finding_ids g) then Some g
         else if members = [] then None
         else Some (g\<lparr>dg_canonical_finding_id := f_id (hd members), dg_member_finding_ids := map f_id members,
                     dg_occurrence_count := length members, dg_repositories := repositories_of members,
                     dg_representative_finding := hd members\<rparr>))"

lemma remove_step_eq:
  "remove_step store gone (v, g) (ch, reg) =
     (case removed store gone g of
        None \<Rightarrow> (True, dpop v reg)
      | Some h \<Rightarrow> if length (filter (\<lambda>i. i \<notin> gone) (dg_member_finding_ids g)) = length (dg_member_finding_ids g)
                  then (ch, reg) else (True, dput v h reg))"
  by (auto simp: remove_step_def removed_def Let_def List.map_filter_simps)

lemma remove_fold:
  assumes "distinct (dkeys kvs)" and "distinct (dkeys reg)" and "\<forall>(v, g) \<in> set kvs. dget reg v = Some g"
  shows "(\<forall>v. dget (snd (fold (remove_step store gone) kvs (ch, reg))) v =
            (case dget kvs v of None \<Rightarrow> dget reg v | Some g \<Rightarrow> removed store gone g)) \<and>
         distinct (dkeys (snd (fold (remove_step store gone) kvs (ch, reg)))) \<and>
         (\<not> fst (fold (remove_step store gone) kvs (ch, reg)) \<longrightarrow> snd (fold (remove_step store gone) kvs (ch, reg)) = reg)"
  using assms
proof (induction kvs arbitrary: ch reg)
  case (Cons kv kvs)
  obtain v g where kv: "kv = (v, g)" by (cases kv)
  obtain ch' reg' where step: "remove_step store gone (v, g) (ch, reg) = (ch', reg')"
    by (cases "remove_step store gone (v, g) (ch, reg)")
  have g: "dget reg v = Some g" and new: "v \<notin> fst ` set kvs" using Cons.prems by (auto simp: kv)
  have reg': "dget reg' w = (if w = v then removed store gone g else dget reg w)" for w
    using step g by (auto simp: remove_step_eq removed_def Let_def split: option.splits if_splits)
  have dreg': "distinct (dkeys reg')"
    using step Cons.prems(2) by (auto simp: remove_step_eq split: option.splits if_splits)
  have mem: "\<forall>(w, h) \<in> set kvs. dget reg' w = Some h"
  proof (intro ballI, clarify)
    fix w h assume w: "(w, h) \<in> set kvs"
    then have "w \<noteq> v" using new by force
    moreover have "dget reg w = Some h" using Cons.prems(3) w by fastforce
    ultimately show "dget reg' w = Some h" by (simp add: reg')
  qed
  have mono: "fst (fold (remove_step store gone) xs (True, r))" for xs r
    by (induction xs arbitrary: r) (auto simp: remove_step_eq split: option.splits)
  have same: "reg' = reg" if "\<not> ch'"
    using step that by (auto simp: remove_step_eq split: option.splits if_splits)
  have dkvs: "distinct (dkeys kvs)" using Cons.prems(1) by simp
  note ih = Cons.IH[OF dkvs dreg' mem, of ch']
  have fold: "fold (remove_step store gone) (kv # kvs) (ch, reg) = fold (remove_step store gone) kvs (ch', reg')"
    by (simp add: kv step)
  have none: "dget kvs v = None" using new by (simp add: map_of_eq_None_iff)
  have get: "dget (snd (fold (remove_step store gone) kvs (ch', reg'))) w =
      (case dget (kv # kvs) w of None \<Rightarrow> dget reg w | Some g \<Rightarrow> removed store gone g)" for w
    using ih none by (cases "w = v") (simp_all add: kv reg' split: option.splits)
  have "snd (fold (remove_step store gone) kvs (ch', reg')) = reg"
    if "\<not> fst (fold (remove_step store gone) kvs (ch', reg'))"
  proof -
    have "\<not> ch'" using that mono[of kvs reg'] by (cases ch') simp_all
    then show ?thesis using ih that same by simp
  qed
  then show ?case unfolding fold using get ih by blast
qed simp

lemma removed_ok: "group_ok v g \<Longrightarrow> removed store gone g = Some h \<Longrightarrow> group_ok v h"
  by (auto simp: removed_def Let_def group_ok_def hd_map split: if_splits)

lemma remove_views:
  assumes "registry_ok c s"
  shows "registry_ok c (remove_findings c store gone s)"
    and "lookup_group (remove_findings c store gone s) v = Option.bind (lookup_group s v) (removed store gone)"
proof -
  have d: "distinct (dkeys (cache s))" and g: "\<forall>v g. dget (cache s) v = Some g \<longrightarrow> group_ok v g" and m: "mirrors c s"
    using assms by (auto simp: registry_ok_def mirrors_def)
  obtain ch reg where run: "fold (remove_step store gone) (cache s) (False, cache s) = (ch, reg)"
    by (cases "fold (remove_step store gone) (cache s) (False, cache s)")
  have "\<forall>(v, g) \<in> set (cache s). dget (cache s) v = Some g" using d by auto
  from remove_fold[OF d d this, of store gone False]
  have reg: "\<And>v. dget reg v = Option.bind (dget (cache s) v) (removed store gone)"
    and dr: "distinct (dkeys reg)" and same: "\<not> ch \<longrightarrow> reg = cache s"
    by (simp_all add: run) (auto split: option.splits)
  have ok: "dget reg v = Some h \<Longrightarrow> group_ok v h" for v h
    using g by (auto simp: reg bind_eq_Some_conv intro: removed_ok)
  have t: "remove_findings c store gone s = (if ch then persist_groups c reg (s\<lparr>cache := reg\<rparr>) else s\<lparr>cache := reg\<rparr>)"
    by (simp add: remove_findings_def run)
  show "registry_ok c (remove_findings c store gone s)"
  proof (cases ch)
    case True
    then show ?thesis using registry_ok_persist[OF dr ok] by (simp add: t)
  next
    case False
    then show ?thesis using assms same by (simp add: t)
  qed
  show "lookup_group (remove_findings c store gone s) v = Option.bind (lookup_group s v) (removed store gone)"
    by (simp add: t lookup_group_def kstore_get_def reg)
qed

lemma registry_ok_step: "registry_ok c s \<Longrightarrow> dedup_step tokens sha c s t \<Longrightarrow> registry_ok c t"
proof (elim dedup_stepE, goal_cases)
  case (1 store fs)
  then show ?case using registry_ok_run by (metis prod.collapse)
next
  case (3)
  then show ?case by (auto simp: registry_ok_def mirrors_clear) (simp add: kstore_clear_def)
qed (simp_all add: remove_views kstore_restart_durable)

interpretation dedup_sys: invariant_system "\<lambda>s. cache s = [] \<and> (factory s = None \<or> factory s = Some [])"
    "dedup_step tokens sha c" "registry_ok c"
  for tokens sha and c :: "(dedup_group, 'p) codec"
proof (unfold_locales, goal_cases)
  case (1 s)
  then show ?case by (auto simp: registry_ok_def mirrors_def)
next
  case (2 s t)
  then show ?case by (rule registry_ok_step)
qed

section \<open>Properties\<close>

definition no_groups :: "'p group_registry \<Rightarrow> bool" where
  "no_groups s \<longleftrightarrow> cache s = [] \<and> (factory s = None \<or> factory s = Some [])"

lemma registry_reachable: "no_groups s0 \<Longrightarrow> (dedup_step tokens sha c)\<^sup>*\<^sup>* s0 s \<Longrightarrow> registry_ok c s"
  unfolding no_groups_def by (rule dedup_sys.inv_reachable)

text \<open>Every group of a reachable registry is filed under its fingerprint, its members are sorted and not empty, its
  canonical finding is the least member and its representative, its count is the number of members, and the table,
  when there is one, holds exactly the registry, so that a restart restores it.\<close>
theorem dedup_registry_well_formed:
  assumes "no_groups s0" and "(dedup_step tokens sha c)\<^sup>*\<^sup>* s0 s"
  shows "(\<forall>v g. lookup_group s v = Some g \<longrightarrow> group_ok v g \<and>
            (\<forall>i \<in> set (dg_member_finding_ids g). dg_canonical_finding_id g \<le> i)) \<and>
         (lossless c \<longrightarrow> factory s \<noteq> None \<longrightarrow> kstore_restart c s = (True, s))"
proof -
  have ok: "registry_ok c s" using registry_reachable[OF assms] .
  have "lossless c \<Longrightarrow> factory s \<noteq> None \<Longrightarrow> durable c s"
    using ok by (simp add: registry_ok_def durable_def)
  moreover have "lookup_group s v = Some g \<Longrightarrow> group_ok v g" for v g
    using ok by (simp add: registry_ok_def lookup_group_def kstore_get_def)
  ultimately show ?thesis using kstore_restart_durable canonical_least by blast
qed

text \<open>Removing findings from a reachable registry leaves none of them in any group: a group keeps its other members
  that still exist, groups without removed members are unchanged, and no group is left empty.\<close>
theorem removed_findings_leave_no_trace:
  assumes "no_groups s0" and "(dedup_step tokens sha c)\<^sup>*\<^sup>* s0 s"
    and store: "\<And>i f. store i = Some f \<Longrightarrow> f_id f = i"
  shows "(\<forall>v g. lookup_group (remove_findings c store gone s) v = Some g \<longrightarrow>
            dg_member_finding_ids g \<noteq> [] \<and> set (dg_member_finding_ids g) \<inter> gone = {} \<and>
            (\<exists>h. lookup_group s v = Some h \<and> set (dg_member_finding_ids g) \<subseteq> set (dg_member_finding_ids h))) \<and>
         (\<forall>v g. lookup_group s v = Some g \<longrightarrow> set (dg_member_finding_ids g) \<inter> gone = {} \<longrightarrow>
            lookup_group (remove_findings c store gone s) v = Some g)"
proof -
  have ok: "registry_ok c s" using registry_reachable[OF assms(1,2)] .
  note view = remove_views(2)[OF ok, of store gone]
  have gok: "lookup_group s v = Some g \<Longrightarrow> group_ok v g" for v g
    using ok by (simp add: registry_ok_def lookup_group_def kstore_get_def)
  have "dg_member_finding_ids g \<noteq> [] \<and> set (dg_member_finding_ids g) \<inter> gone = {} \<and>
      set (dg_member_finding_ids g) \<subseteq> set (dg_member_finding_ids h)"
    if h: "group_ok v h" "removed store gone h = Some g" for v g h
  proof -
    let ?rest = "filter (\<lambda>i. i \<notin> gone) (dg_member_finding_ids h)"
    have ne: "dg_member_finding_ids g \<noteq> []" using removed_ok[OF h] by (simp add: group_ok_def)
    show ?thesis
    proof (cases "length ?rest = length (dg_member_finding_ids h)")
      case True
      then have "\<forall>i \<in> set (dg_member_finding_ids h). i \<notin> gone"
        using sum_length_filter_compl[of "\<lambda>i. i \<notin> gone" "dg_member_finding_ids h"]
        by (auto simp: filter_empty_conv)
      then show ?thesis using h(2) True ne by (auto simp: removed_def Let_def)
    next
      case False
      then have "dg_member_finding_ids g = map f_id (sort_key f_id (List.map_filter store ?rest))"
        using h(2) by (auto simp: removed_def Let_def split: if_splits)
      then have "set (dg_member_finding_ids g) \<subseteq> set ?rest"
        using store by (auto simp: List.map_filter_def)
      then show ?thesis using ne by auto
    qed
  qed
  moreover have "removed store gone g = Some g" if "set (dg_member_finding_ids g) \<inter> gone = {}" for g
  proof -
    have "filter (\<lambda>i. i \<notin> gone) (dg_member_finding_ids g) = dg_member_finding_ids g"
      using that by (auto simp: filter_id_conv)
    then show ?thesis by (simp add: removed_def)
  qed
  ultimately show ?thesis unfolding view using gok by (auto simp: bind_eq_Some_conv) blast+
qed

lemma join_bar_inj:
  assumes "length xs = length ys" and "\<forall>x \<in> set xs. CHR 0x7C \<notin> set x" and "\<forall>y \<in> set ys. CHR 0x7C \<notin> set y"
    and "join ''|'' xs = join ''|'' ys"
  shows "xs = ys"
  using assms
proof (induction xs ys rule: list_induct2)
  case (Cons x xs y ys)
  show ?case
  proof (cases xs)
    case Nil
    then show ?thesis using Cons by simp
  next
    case (Cons x' xs')
    then obtain y' ys' where ys: "ys = y' # ys'" using \<open>length xs = length ys\<close> by (cases ys) auto
    have eq: "x @ CHR 0x7C # join ''|'' xs = y @ CHR 0x7C # join ''|'' ys"
      using \<open>join ''|'' (x # xs) = join ''|'' (y # ys)\<close> by (simp add: Cons ys)
    have "x = y \<and> join ''|'' xs = join ''|'' ys"
      using eq Cons.prems by (simp add: append_eq_append_conv2) (auto simp: Cons_eq_append_conv append_eq_Cons_conv)
    then show ?thesis using Cons.IH Cons.prems by simp
  qed
qed simp

text \<open>The fingerprint is the structure: for a hash without collisions, and parts without the separator, two findings
  have the same fingerprint exactly when vulnerability type, source and sink kinds, normalised snippets and the types
  of their taint steps agree; file names, lines, ids, severity and confidence play no part.\<close>
theorem fingerprint_is_structure:
  assumes "inj sha" and "\<forall>p \<in> set (signature_parts tokens f). CHR 0x7C \<notin> set p"
    and "\<forall>p \<in> set (signature_parts tokens g). CHR 0x7C \<notin> set p"
  shows "fp_value (build_fingerprint tokens sha f) = fp_value (build_fingerprint tokens sha g) \<longleftrightarrow>
           f_vulnerability_type f = f_vulnerability_type g \<and>
           src_kind (f_source f) = src_kind (f_source g) \<and> snk_kind (f_sink f) = snk_kind (f_sink g) \<and>
           normalize_snippet tokens (src_snippet (f_source f)) = normalize_snippet tokens (src_snippet (f_source g)) \<and>
           normalize_snippet tokens (snk_snippet (f_sink f)) = normalize_snippet tokens (snk_snippet (f_sink g)) \<and>
           taint_structure f = taint_structure g"
proof -
  have "fp_value (build_fingerprint tokens sha f) = fp_value (build_fingerprint tokens sha g) \<longleftrightarrow>
      join ''|'' (signature_parts tokens f) = join ''|'' (signature_parts tokens g)"
    using assms(1) by (auto simp: build_fingerprint_def Let_def inj_def)
  also have "\<dots> \<longleftrightarrow> signature_parts tokens f = signature_parts tokens g"
    using join_bar_inj[OF _ assms(2,3)] by (auto simp: signature_parts_def)
  finally show ?thesis by (simp add: signature_parts_def)
qed

text \<open>An id submitted several times is grouped several times: the occurrence count of its group is the number of
  submissions, although the service promises that a finding survives inside exactly one group as one member.\<close>
theorem repeated_ids_are_counted_again:
  "case deduplicate tokens sha c store (replicate (Suc n) f) s of (r, t) \<Rightarrow>
     dd_unique_findings r = 1 \<and> dd_duplicate_findings r = int n \<and>
     (cache s = [] \<longrightarrow> (\<exists>g. dd_groups r = [g] \<and> dg_member_finding_ids g = replicate (Suc n) (f_id f) \<and>
        dg_occurrence_count g = Suc n))"
proof -
  obtain r t where rt: "deduplicate tokens sha c store (replicate (Suc n) f) s = (r, t)"
    by (cases "deduplicate tokens sha c store (replicate (Suc n) f) s")
  from deduplicate_partitions[where tokens = tokens and sha = sha and c = c and store = store and s = s
      and fs = "replicate (Suc n) f"]
  have p: "distinct (map dg_fingerprint (dd_groups r))" "set (map dg_fingerprint (dd_groups r)) = {fv tokens sha f}"
    "\<forall>g \<in> set (dd_groups r). group_ok (dg_fingerprint g) g \<and> mset (dg_member_finding_ids g) =
       image_mset f_id (mset (class_of tokens sha (replicate (Suc n) f) (dg_fingerprint g))) +
       image_mset f_id (mset (kept_members store (f_id ` set (replicate (Suc n) f)) (dget (cache s) (dg_fingerprint g))))"
    "dd_unique_findings r = length (dd_groups r)" "int (dd_unique_findings r) + dd_duplicate_findings r = int (Suc n)"
    by (simp_all only: rt prod.case length_replicate) (auto simp: image_constant_conv)
  have "length (dd_groups r) = card {fv tokens sha f}"
    using distinct_card[OF p(1)] p(2) by (metis length_map)
  then have len: "length (dd_groups r) = 1" by simp
  then obtain g where g: "dd_groups r = [g]" by (cases "dd_groups r") auto
  have v: "dg_fingerprint g = fv tokens sha f" using p(2) g by simp
  have cls: "class_of tokens sha (replicate (Suc n) f) (dg_fingerprint g) = replicate (Suc n) f"
    by (simp add: class_of_def v)
  have members: "dg_member_finding_ids g = replicate (Suc n) (f_id f) \<and> dg_occurrence_count g = Suc n" if "cache s = []"
  proof -
    have m: "mset (dg_member_finding_ids g) = mset (replicate (Suc n) (f_id f))"
      using p(3) that by (simp only: g list.set ball_simps cls) (simp add: kept_members_def)
    have "dg_member_finding_ids g = replicate (Suc n) (f_id f)"
      using mset_eq_length[OF m] mset_eq_setD[OF m] by (intro replicate_eqI) auto
    then show ?thesis using p(3) by (simp add: g group_ok_def)
  qed
  show ?thesis unfolding rt prod.case using p(4,5) len g members by simp
qed

text \<open>A finding whose code changed stays behind: when it is submitted again with a new fingerprint, the group of its
  old fingerprint is not looked at, so its id is a member of two groups of the registry.\<close>
theorem changed_finding_lingers:
  assumes "distinct (dkeys (cache s))" and "lookup_group s v = Some g" and "f_id f \<in> set (dg_member_finding_ids g)"
    and "fv tokens sha f \<noteq> v"
  shows "case deduplicate tokens sha c store [f] s of (r, t) \<Rightarrow>
           lookup_group t v = Some g \<and>
           (\<exists>h. lookup_group t (fv tokens sha f) = Some h \<and> f_id f \<in> set (dg_member_finding_ids h))"
proof -
  obtain r t where rt: "deduplicate tokens sha c store [f] s = (r, t)" by (cases "deduplicate tokens sha c store [f] s")
  have b: "buckets_of tokens sha [f] = [(fv tokens sha f, (build_fingerprint tokens sha f, [f]))]"
    by (simp add: buckets_of_def bucket_step_def fv_def Let_def)
  let ?G = "new_group store (f_id ` set [f]) (cache s) (fv tokens sha f, (build_fingerprint tokens sha f, [f]))"
  have t: "cache t = dput (fv tokens sha f) ?G (cache s)"
    using deduplicate_groups(5)[OF rt assms(1)] by (simp add: b)
  have "f_id f \<in># mset (dg_member_finding_ids ?G)"
    by (simp add: new_group_def make_group_fields del: set_mset_mset)
  then show ?thesis using assms(2,4) by (simp add: rt lookup_group_def kstore_get_def t)
qed

section \<open>Witnesses\<close>

definition no_tokens :: tokenizer where "no_tokens = (\<lambda>_. Some [])"

definition registry0 :: "dedup_group group_registry" where "registry0 = \<lparr>cache = [], factory = Some []\<rparr>"

definition registry1 :: "dedup_group group_registry" where
  "registry1 = snd (deduplicate no_tokens id id_codec (\<lambda>_. None) [sample_finding] registry0)"

lemma registry0_empty: "no_groups registry0"
  by (simp add: no_groups_def registry0_def)

lemma registry1_reach: "(dedup_step no_tokens id id_codec)\<^sup>*\<^sup>* registry0 registry1"
  unfolding registry1_def by (rule r_into_rtranclp) (rule dd_run)

lemma registry1_group:
  "\<exists>g. lookup_group registry1 (fv no_tokens id sample_finding) = Some g \<and> dg_member_finding_ids g = [''f'']"
proof -
  let ?v = "fv no_tokens id sample_finding"
  obtain r t where rt: "deduplicate no_tokens id id_codec (\<lambda>_. None) [sample_finding] registry0 = (r, t)"
    by (cases "deduplicate no_tokens id id_codec (\<lambda>_. None) [sample_finding] registry0")
  have b: "buckets_of no_tokens id [sample_finding] = [(?v, (build_fingerprint no_tokens id sample_finding, [sample_finding]))]"
    by (simp add: buckets_of_def bucket_step_def fv_def Let_def)
  let ?g = "new_group (\<lambda>_. None) (f_id ` set [sample_finding]) (cache registry0)
      (?v, (build_fingerprint no_tokens id sample_finding, [sample_finding]))"
  have "distinct (dkeys (cache registry0))" by (simp add: registry0_def)
  from deduplicate_groups(5)[OF rt this] have "cache t = dput ?v ?g (cache registry0)" unfolding b by simp
  moreover have "registry1 = t" by (simp add: registry1_def rt)
  moreover have "dg_member_finding_ids ?g = [f_id sample_finding]"
    by (simp add: new_group_def make_group_def kept_members_def Let_def registry0_def)
  moreover have "f_id sample_finding = ''f''" by (simp add: sample_finding_def)
  ultimately show ?thesis by (simp add: lookup_group_def kstore_get_def)
qed

theorem deduplicate_partitions_witness:
  "set (map dg_fingerprint (dd_groups (fst (deduplicate no_tokens id id_codec (\<lambda>_. None) [sample_finding] registry0)))) =
     {fv no_tokens id sample_finding} \<and>
   dd_total_findings (fst (deduplicate no_tokens id id_codec (\<lambda>_. None) [sample_finding] registry0)) = 1"
  using deduplicate_partitions[where tokens = no_tokens and sha = id and c = id_codec and store = "\<lambda>_. None"
      and fs = "[sample_finding]" and s = registry0]
  by (auto split: prod.splits)

theorem dedup_registry_well_formed_witness:
  "kstore_restart id_codec registry0 = (True, registry0) \<and>
   (\<exists>g. lookup_group registry1 (fv no_tokens id sample_finding) = Some g \<and> dg_occurrence_count g = 1)"
  using dedup_registry_well_formed[OF registry0_empty registry1_reach] registry1_group
    dedup_registry_well_formed[OF registry0_empty rtranclp.rtrancl_refl, of id_codec]
  by (auto simp: group_ok_def registry0_def)

theorem removed_findings_leave_no_trace_witness:
  "lookup_group (remove_findings id_codec (\<lambda>_. None) {''g''} registry1) (fv no_tokens id sample_finding) =
     lookup_group registry1 (fv no_tokens id sample_finding)"
proof -
  obtain g where g: "lookup_group registry1 (fv no_tokens id sample_finding) = Some g" "dg_member_finding_ids g = [''f'']"
    using registry1_group by blast
  from removed_findings_leave_no_trace[where gone = "{''g''}" and store = "\<lambda>_. None", OF registry0_empty registry1_reach] g
  show ?thesis by simp
qed

definition moved_finding :: candidate_finding where
  "moved_finding = sample_finding\<lparr>f_id := ''moved'', f_severity := ''low'',
     f_sink := (f_sink sample_finding)\<lparr>snk_file := ''other.py'', snk_line := 99\<rparr>\<rparr>"

theorem fingerprint_is_structure_witness:
  "fp_value (build_fingerprint no_tokens id sample_finding) = fp_value (build_fingerprint no_tokens id moved_finding)"
proof -
  have p: "\<forall>p \<in> set (signature_parts no_tokens sample_finding). CHR 0x7C \<notin> set p"
    "\<forall>p \<in> set (signature_parts no_tokens moved_finding). CHR 0x7C \<notin> set p"
    by (simp_all add: signature_parts_def moved_finding_def sample_finding_def normalize_snippet_def no_tokens_def
        taint_structure_def)
  show ?thesis
    using fingerprint_is_structure[OF inj_on_id p] by (simp add: moved_finding_def taint_structure_def)
qed

theorem changed_finding_lingers_witness:
  "\<exists>g h. lookup_group (snd (deduplicate no_tokens id id_codec (\<lambda>_. None) [sample_finding\<lparr>f_vulnerability_type := ''sql''\<rparr>] registry1))
          (fv no_tokens id sample_finding) = Some g \<and> ''f'' \<in> set (dg_member_finding_ids g) \<and>
        lookup_group (snd (deduplicate no_tokens id id_codec (\<lambda>_. None) [sample_finding\<lparr>f_vulnerability_type := ''sql''\<rparr>] registry1))
          (fv no_tokens id (sample_finding\<lparr>f_vulnerability_type := ''sql''\<rparr>)) = Some h \<and> ''f'' \<in> set (dg_member_finding_ids h)"
proof -
  let ?f = "sample_finding\<lparr>f_vulnerability_type := ''sql''\<rparr>"
  have d: "distinct (dkeys (cache registry1))"
    using registry_reachable[OF registry0_empty registry1_reach] by (simp add: registry_ok_def mirrors_def)
  obtain g where g: "lookup_group registry1 (fv no_tokens id sample_finding) = Some g" "dg_member_finding_ids g = [''f'']"
    using registry1_group by blast
  have m: "f_id ?f \<in> set (dg_member_finding_ids g)" by (simp add: g(2) sample_finding_def)
  have ne: "fv no_tokens id ?f \<noteq> fv no_tokens id sample_finding"
    by (simp add: fv_def build_fingerprint_def Let_def signature_parts_def sample_finding_def)
  from changed_finding_lingers[OF d g(1) m ne, of id_codec "\<lambda>_. None"] show ?thesis
    using m by (auto split: prod.splits simp: g(2) sample_finding_def)
qed

end
