(* ===== verification/Approval.thy ===== *)
theory Approval
  imports Prove
begin

text \<open>
  The human approval workflow (backend/app/approval/): policy, store with its two tables, and the
  service with its eligibility gates and state machine.

  Arguments: SHA-256, the fresh hex UUIDs, the ISO text of a time and the current time
  (\<open>approval_env\<close>), and the payload encodings of the two tables.
\<close>

section \<open>Contracts\<close>

datatype approval_status = Pending | Approved | Rejected | Changes_requested
datatype approval_action = Remediation | Other_action

record approval_request =
  ar_id :: string
  ar_finding_id :: string
  ar_status :: approval_status
  ar_requested_at :: py_datetime
  ar_requested_by :: string
  ar_reviewed_at :: "py_datetime option"
  ar_reviewed_by :: "string option"
  ar_reason :: "string option"
  ar_action :: approval_action
  ar_version :: nat
  ar_scan_run_id :: "string option"

record approval_event =
  ae_id :: string
  ae_approval_id :: string
  ae_finding_id :: string
  ae_previous_status :: "approval_status option"
  ae_new_status :: approval_status
  ae_actor :: string
  ae_reason :: "string option"
  ae_created_at :: py_datetime

record approval_policy =
  require_validation :: bool
  require_proof :: bool
  allowed_actions :: "approval_action list"
  allow_re_request_after_terminal :: bool

definition default_approval_policy :: approval_policy where
  "default_approval_policy =
     \<lparr>require_validation = True, require_proof = True, allowed_actions = [Remediation],
      allow_re_request_after_terminal = False\<rparr>"

fun ALLOWED_TRANSITIONS :: "approval_status \<Rightarrow> approval_status list" where
  "ALLOWED_TRANSITIONS Pending = [Approved, Rejected, Changes_requested]"
| "ALLOWED_TRANSITIONS Changes_requested = [Pending]"
| "ALLOWED_TRANSITIONS Approved = []"
| "ALLOWED_TRANSITIONS Rejected = []"

definition ACTIVE_STATUSES :: "approval_status list" where
  "ACTIVE_STATUSES = [Pending, Changes_requested]"

definition TERMINAL_STATUSES :: "approval_status list" where
  "TERMINAL_STATUSES = [Approved, Rejected]"

datatype approval_error =
  Gate_terminal approval_status
| Gate_not_validated
| Gate_verdict verdict
| Gate_not_proven
| Gate_proof proof_status
| Unknown_request string
| Invalid_transition approval_status approval_status
| Naive_datetime

section \<open>The store\<close>

text \<open>
  A request row holds its finding id in a column of its own, an event row its approval id; the payload
  follows. Event rows are only ever inserted.
\<close>

definition request_codec :: "(approval_request, 'p) codec \<Rightarrow> (approval_request, string \<times> 'p) codec" where
  "request_codec c = \<lparr>dump = (\<lambda>r. (ar_finding_id r, dump c r)), load = (\<lambda>(col, p). load c p)\<rparr>"

definition event_codec :: "(approval_event, 'q) codec \<Rightarrow> (approval_event, string \<times> 'q) codec" where
  "event_codec c = \<lparr>dump = (\<lambda>e. (ae_approval_id e, dump c e)), load = (\<lambda>(col, p). load c p)\<rparr>"

record ('p, 'q) approval_store =
  requests :: "(string, approval_request) dict"
  events :: "(string, approval_event list) dict"
  request_rows :: "(string \<times> 'p) db_table"
  event_rows :: "(string \<times> 'q) db_table"

type_synonym ('p, 'q) approval_codecs =
  "(approval_request, 'p) codec \<times> (approval_event, 'q) codec"

definition get_request :: "('p, 'q) approval_store \<Rightarrow> string \<Rightarrow> approval_request option" where
  "get_request s approval_id = dget (requests s) approval_id"

definition save_request ::
    "('p, 'q) approval_codecs \<Rightarrow> approval_request \<Rightarrow> ('p, 'q) approval_store \<Rightarrow> ('p, 'q) approval_store" where
  "save_request c r s =
     s\<lparr>requests := dput (ar_id r) r (requests s),
       request_rows := db_upsert (request_codec (fst c)) (ar_id r) r (request_rows s)\<rparr>"

definition record_event ::
    "('p, 'q) approval_codecs \<Rightarrow> approval_event \<Rightarrow> ('p, 'q) approval_store \<Rightarrow> ('p, 'q) approval_store" where
  "record_event c e s =
     s\<lparr>events := dappend (ae_approval_id e) e (events s),
       event_rows := db_insert (ae_id e) (dump (event_codec (snd c)) e) (event_rows s)\<rparr>"

definition events_for :: "('p, 'q) approval_store \<Rightarrow> string \<Rightarrow> approval_event list" where
  "events_for s approval_id = dget_list (events s) approval_id"

text \<open>\<open>max(matches, key=...)\<close>: the first element with the greatest key.\<close>

fun first_max :: "('a \<Rightarrow> int) \<Rightarrow> 'a list \<Rightarrow> 'a option" where
  "first_max key [] = None"
| "first_max key (x # xs) =
     Some (foldl (\<lambda>best y. if key best < key y then y else best) x xs)"

definition find_for_finding :: "('p, 'q) approval_store \<Rightarrow> string \<Rightarrow> approval_request option" where
  "find_for_finding s finding_id =
     first_max (\<lambda>r. utc_instant (as_aware_utc (ar_requested_at r)))
       (filter (\<lambda>r. ar_finding_id r = finding_id) (dvalues (requests s)))"

definition find_active ::
    "('p, 'q) approval_store \<Rightarrow> string \<Rightarrow> approval_action \<Rightarrow> approval_status list \<Rightarrow> approval_request option" where
  "find_active s finding_id action statuses =
     find (\<lambda>r. ar_finding_id r = finding_id \<and> ar_action r = action \<and> ar_status r \<in> set statuses)
       (dvalues (requests s))"

definition remove_finding ::
    "string \<Rightarrow> ('p, 'q) approval_store \<Rightarrow> ('p, 'q) approval_store" where
  "remove_finding finding_id s =
     (let request_ids = map ar_id (filter (\<lambda>r. ar_finding_id r = finding_id) (dvalues (requests s)));
          s1 = s\<lparr>requests := fold dpop request_ids (requests s),
                events := fold dpop request_ids (events s)\<rparr>
      in s1\<lparr>request_rows := map_option (filter (\<lambda>(k, col, p). col \<noteq> finding_id)) (request_rows s1),
            event_rows := (if request_ids = [] then event_rows s1
              else map_option (filter (\<lambda>(k, col, p). col \<notin> set request_ids)) (event_rows s1))\<rparr>)"

definition approvals_clear :: "('p, 'q) approval_store \<Rightarrow> ('p, 'q) approval_store" where
  "approvals_clear s =
     s\<lparr>requests := [], events := [], request_rows := db_delete_all (request_rows s),
       event_rows := db_delete_all (event_rows s)\<rparr>"

text \<open>
  \<open>set_factory\<close>: rebuild both dictionaries from the tables, the event lists sorted (stably) by
  creation time. \<open>None\<close> when a payload does not validate.
\<close>

definition rehydrate ::
    "('p, 'q) approval_codecs \<Rightarrow> (string \<times> 'p) db_table \<Rightarrow> (string \<times> 'q) db_table
     \<Rightarrow> ('p, 'q) approval_store option" where
  "rehydrate c rrows erows =
     (case (db_load_all (request_codec (fst c)) rrows, db_load_all (event_codec (snd c)) erows) of
        (Some rs, Some es) \<Rightarrow>
          Some \<lparr>requests = dput_all rs [],
             events = dmap (sort_key (\<lambda>e. utc_instant (as_aware_utc (ae_created_at e))))
               (fold (\<lambda>(k, e). dappend (ae_approval_id e) e) es []),
             request_rows = rrows, event_rows = erows\<rparr>
      | _ \<Rightarrow> None)"

section \<open>The service\<close>

record approval_env =
  env_sha :: "string \<Rightarrow> string"
  env_uuids :: "string \<times> string"
  env_isoformat :: "py_datetime \<Rightarrow> string"
  env_now :: py_datetime

definition new_id :: "(string \<Rightarrow> string) \<Rightarrow> string \<Rightarrow> string list \<Rightarrow> string" where
  "new_id sha uuid parts = take 32 (sha (join ''|'' parts)) @ take 32 uuid"

definition ensure_aware_utc :: "py_datetime \<Rightarrow> approval_error + py_datetime" where
  "ensure_aware_utc d = (case d of Naive _ \<Rightarrow> Inl Naive_datetime | Aware w off \<Rightarrow> Inr (Aware (w - off) 0))"

fun status_text :: "approval_status \<Rightarrow> string" where
  "status_text Pending = ''pending''"
| "status_text Approved = ''approved''"
| "status_text Rejected = ''rejected''"
| "status_text Changes_requested = ''changes_requested''"

fun action_text :: "approval_action \<Rightarrow> string" where
  "action_text Remediation = ''remediation''"
| "action_text Other_action = ''other''"

definition check_eligibility ::
    "approval_policy \<Rightarrow> validation_result option \<Rightarrow> proof_result option \<Rightarrow> approval_error option" where
  "check_eligibility policy validation proof =
     (let g1 = (if require_validation policy then
            (case validation of
               None \<Rightarrow> Some Gate_not_validated
             | Some v \<Rightarrow> if vr_verdict v \<noteq> True_positive then Some (Gate_verdict (vr_verdict v)) else None)
          else None)
      in
      case g1 of Some e \<Rightarrow> Some e
      | None \<Rightarrow>
          if require_proof policy then
            (case proof of
               None \<Rightarrow> Some Gate_not_proven
             | Some p \<Rightarrow> if pr_status p \<noteq> Verified then Some (Gate_proof (pr_status p)) else None)
          else None)"

definition request_approval ::
    "('p, 'q) approval_codecs \<Rightarrow> approval_env \<Rightarrow> approval_policy \<Rightarrow> (string \<Rightarrow> validation_result option)
     \<Rightarrow> (string \<Rightarrow> proof_result option) \<Rightarrow> string \<Rightarrow> approval_action \<Rightarrow> string \<Rightarrow> py_datetime option
     \<Rightarrow> string option \<Rightarrow> ('p, 'q) approval_store
     \<Rightarrow> (approval_error + approval_request) \<times> ('p, 'q) approval_store" where
  "request_approval c env policy validations proofs finding_id action requested_by requested_at scan_run_id s =
     (case find_active s finding_id action ACTIVE_STATUSES of
        Some existing \<Rightarrow> (Inr existing, s)
      | None \<Rightarrow>
          (case (case find_for_finding s finding_id of
                   Some terminal \<Rightarrow>
                     if ar_status terminal \<in> set TERMINAL_STATUSES \<and> \<not> allow_re_request_after_terminal policy
                     then Some (Gate_terminal (ar_status terminal)) else None
                 | None \<Rightarrow> None) of
             Some e \<Rightarrow> (Inl e, s)
           | None \<Rightarrow>
               (case check_eligibility policy (validations finding_id) (proofs finding_id) of
                  Some e \<Rightarrow> (Inl e, s)
                | None \<Rightarrow>
                    (case ensure_aware_utc (case requested_at of Some t \<Rightarrow> t | None \<Rightarrow> env_now env) of
                       Inl e \<Rightarrow> (Inl e, s)
                     | Inr now \<Rightarrow>
                         (let request =
                                \<lparr>ar_id = new_id (env_sha env) (fst (env_uuids env))
                                   [finding_id, action_text action, env_isoformat env now],
                                 ar_finding_id = finding_id, ar_status = Pending, ar_requested_at = now,
                                 ar_requested_by = requested_by, ar_reviewed_at = None,
                                 ar_reviewed_by = None, ar_reason = None, ar_action = action,
                                 ar_version = 1, ar_scan_run_id = scan_run_id\<rparr>;
                              event =
                                \<lparr>ae_id = new_id (env_sha env) (snd (env_uuids env))
                                   [ar_id request, ''pending'', env_isoformat env now],
                                 ae_approval_id = ar_id request, ae_finding_id = finding_id,
                                 ae_previous_status = None, ae_new_status = Pending,
                                 ae_actor = requested_by, ae_reason = None, ae_created_at = now\<rparr>
                          in (Inr request, record_event c event (save_request c request s)))))))"

definition transition ::
    "('p, 'q) approval_codecs \<Rightarrow> approval_env \<Rightarrow> string \<Rightarrow> approval_status \<Rightarrow> string \<Rightarrow> string option
     \<Rightarrow> py_datetime option \<Rightarrow> ('p, 'q) approval_store
     \<Rightarrow> (approval_error + approval_request) \<times> ('p, 'q) approval_store" where
  "transition c env approval_id new_status actor reason reviewed_at s =
     (case get_request s approval_id of
        None \<Rightarrow> (Inl (Unknown_request approval_id), s)
      | Some request \<Rightarrow>
          if new_status \<notin> set (ALLOWED_TRANSITIONS (ar_status request))
          then (Inl (Invalid_transition (ar_status request) new_status), s)
          else
            (case ensure_aware_utc (case reviewed_at of Some t \<Rightarrow> t | None \<Rightarrow> env_now env) of
               Inl e \<Rightarrow> (Inl e, s)
             | Inr now \<Rightarrow>
                 (let version = (if ar_status request = Changes_requested \<and> new_status = Pending
                                 then ar_version request + 1 else ar_version request);
                      updated = request\<lparr>ar_status := new_status, ar_reviewed_at := Some now,
                                  ar_reviewed_by := Some actor, ar_reason := reason, ar_version := version\<rparr>;
                      event = \<lparr>ae_id = new_id (env_sha env) (snd (env_uuids env))
                                 [ar_id request, status_text new_status, env_isoformat env now, actor],
                               ae_approval_id = ar_id request, ae_finding_id = ar_finding_id request,
                               ae_previous_status = Some (ar_status request), ae_new_status = new_status,
                               ae_actor = actor, ae_reason = reason, ae_created_at = now\<rparr>
                  in (Inr updated, record_event c event (save_request c updated s)))))"

definition approve where "approve c env a = transition c env a Approved"
definition reject where "reject c env a = transition c env a Rejected"
definition request_changes where "request_changes c env a = transition c env a Changes_requested"
definition resubmit where "resubmit c env a = transition c env a Pending"

definition is_action_allowed :: "approval_policy \<Rightarrow> string \<Rightarrow> ('p, 'q) approval_store \<Rightarrow> bool" where
  "is_action_allowed policy approval_id s =
     (case get_request s approval_id of
        None \<Rightarrow> False
      | Some r \<Rightarrow> ar_status r = Approved \<and> ar_action r \<in> set (allowed_actions policy))"

end
