(* ===== verification/Remediation.thy ===== *)
theory Remediation
  imports Approval Scan_Runs
begin

text \<open>
  Remediation (backend/app/remediation/): the application of a line-anchored patch to a source text, and the
  workflow that proposes, applies and verifies it behind the approval gate.

  What the workflow reads is an environment: the approval, finding and scan-run stores, the project rows, the code
  models PREPARE stored, the resolution of paths by the file system, the clock and Python's parser. The state is
  the remediation store and the files of the workspace. The rewriting of a statement for one vulnerability type is an
  argument here; theory \<open>Patches\<close> models it.
\<close>

section \<open>Contracts\<close>

datatype remediation_status =
  Rem_proposed | Rem_no_fix | Rem_applied | Rem_verified | Rem_still_present | Rem_error

fun rem_status_text :: "remediation_status \<Rightarrow> string" where
  "rem_status_text Rem_proposed = ''proposed''"
| "rem_status_text Rem_no_fix = ''no_fix_available''"
| "rem_status_text Rem_applied = ''applied''"
| "rem_status_text Rem_verified = ''verified''"
| "rem_status_text Rem_still_present = ''still_present''"
| "rem_status_text Rem_error = ''error''"

record remediation_proposal =
  rp_finding_id :: string
  rp_vulnerability_type :: string
  rp_file :: string
  rp_line :: nat
  rp_strategy :: string
  rp_before :: string
  rp_after :: string
  rp_import_to_add :: "string option"
  rp_rationale :: string

record remediation_record =
  rr_finding_id :: string
  rr_approval_id :: string
  rr_status :: remediation_status
  rr_proposal :: "remediation_proposal option"
  rr_applied_at :: "py_datetime option"
  rr_applied_by :: "string option"
  rr_verified_at :: "py_datetime option"
  rr_verification :: "string option"
  rr_error :: "string option"
  rr_created_at :: py_datetime

section \<open>Applying a patch\<close>

definition rstrip_newline :: "string \<Rightarrow> string" where
  "rstrip_newline s = rev (dropWhile (\<lambda>c. c = CR \<or> c = LF) (rev s))"

text \<open>\<open>len(s) - len(s.lstrip(" \t"))\<close>.\<close>

definition indent_of :: "string \<Rightarrow> nat" where
  "indent_of s = length (takeWhile (\<lambda>c. c = CHR 0x20 \<or> c = CHR 0x09) s)"

text \<open>How many of the lines after the anchored one belong to its statement.\<close>

fun statement_extent :: "nat \<Rightarrow> string list \<Rightarrow> nat" where
  "statement_extent start [] = 0"
| "statement_extent start (l # ls) =
     (let nxt = rstrip_newline l in
      if nxt = [] then 0
      else if start < indent_of nxt then Suc (statement_extent start ls)
      else if indent_of nxt = start \<and> strip nxt \<in> {'')'', '']'', ''}''} then 1
      else 0)"

definition ends_line :: "string \<Rightarrow> bool" where
  "ends_line s \<longleftrightarrow> s \<noteq> [] \<and> (last s = LF \<or> last s = CR)"

definition replacement_lines :: "string \<Rightarrow> string list" where
  "replacement_lines after =
     (let ls = splitlines_keepends after in
      if ls \<noteq> [] \<and> \<not> ends_line (last ls) then butlast ls @ [last ls @ [LF]] else ls)"

text \<open>
  Python's parser, as the patch code uses it: a syntax error with its text, or the line on which a leading docstring
  ends, if there is one.
\<close>

type_synonym py_parser = "string \<Rightarrow> string + nat option"

definition insert_import :: "py_parser \<Rightarrow> string \<Rightarrow> string \<Rightarrow> string" where
  "insert_import parse source import_line =
     (case parse source of
        Inl _ \<Rightarrow> source
      | Inr docstring_end \<Rightarrow>
          (let at_line = (case docstring_end of None \<Rightarrow> 0 | Some n \<Rightarrow> n); lines = splitlines_keepends source
           in concat (take at_line lines @ [import_line @ [LF]] @ drop at_line lines)))"

definition apply_proposal :: "py_parser \<Rightarrow> remediation_proposal \<Rightarrow> string \<Rightarrow> string + string" where
  "apply_proposal parse p source =
     (if rp_strategy p = ''no_automatic_fix'' then Inl ''no automatic fix available for this finding''
      else
        (let lines = splitlines_keepends source in
         if rp_line p = 0 \<or> length lines < rp_line p
         then Inl (''proposal line '' @ dec (rp_line p) @ '' is outside the file'')
         else
           (let idx = rp_line p - 1; current = rstrip_newline (lines ! idx) in
            if current \<noteq> rp_before p
            then Inl ''source changed since the proposal was generated; generate a new proposal before applying''
            else
              (let end_idx = idx + 1 + statement_extent (indent_of current) (drop (idx + 1) lines);
                   patched = concat (take idx lines @ replacement_lines (rp_after p) @ drop end_idx lines);
                   new_source = (case rp_import_to_add p of None \<Rightarrow> patched | Some i \<Rightarrow> insert_import parse patched i)
               in
               case parse new_source of
                 Inl exc \<Rightarrow> Inl (''patched source does not parse ('' @ exc @ ''); fix not applied'')
               | Inr _ \<Rightarrow> Inr new_source))))"

definition no_fix :: "candidate_finding \<Rightarrow> string \<Rightarrow> remediation_proposal" where
  "no_fix f reason =
     \<lparr>rp_finding_id = f_id f, rp_vulnerability_type = f_vulnerability_type f, rp_file = snk_file (f_sink f),
      rp_line = snk_line (f_sink f), rp_strategy = ''no_automatic_fix'', rp_before = snk_snippet (f_sink f),
      rp_after = snk_snippet (f_sink f), rp_import_to_add = None, rp_rationale = reason\<rparr>"

text \<open>The proposal of a type, or the message of a \<open>PatchError\<close>.\<close>

type_synonym rewriter = "candidate_finding \<Rightarrow> string \<Rightarrow> string + remediation_proposal"

definition build_proposal :: "rewriter \<Rightarrow> rewriter \<Rightarrow> rewriter" where
  "build_proposal sql_proposal cmd_proposal f source =
     (if f_vulnerability_type f = ''sql_injection'' then sql_proposal f source
      else if f_vulnerability_type f = ''command_injection'' then cmd_proposal f source
      else Inr (no_fix f (''no deterministic automatic fix is defined for '' @ f_vulnerability_type f @
                          ''; manual remediation is required'')))"

section \<open>The workflow\<close>

text \<open>A refused operation (409), a patch error that reaches the caller, a file that cannot be read.\<close>

datatype remediation_error = Rem_gate string | Rem_patch string | Rem_os string

text \<open>A row of the projects table (db/models.py).\<close>

record project_row =
  pj_id :: string
  pj_name :: string
  pj_source_type :: string
  pj_location :: string
  pj_language :: string
  pj_status :: string
  pj_snapshot_path :: string
  pj_created_at :: py_datetime

record ('p, 'q, 'a, 'b, 'c) rem_env =
  re_approvals :: "('p, 'q) approval_store"
  re_finding :: "string \<Rightarrow> candidate_finding option"
  re_runs :: "('a, 'b, 'c) run_store"
  re_project :: "string \<Rightarrow> project_row option"
  re_code_model :: "project_row \<Rightarrow> string + code_model"
  re_workspace :: string
  re_resolve :: "string \<Rightarrow> string"
  re_now :: py_datetime
  re_parse :: py_parser
  re_sql :: rewriter
  re_cmd :: rewriter
  re_sha :: "string \<Rightarrow> string"
  re_report_id :: string

record 'r rem_state =
  rm_store :: "(remediation_record, 'r) kstore"
  rm_files :: "(string, string) dict"

definition require_approved_approval ::
    "('p, 'q, 'a, 'b, 'c) rem_env \<Rightarrow> string \<Rightarrow> remediation_error + approval_request" where
  "require_approved_approval env fid =
     (case find_for_finding (re_approvals env) fid of
        None \<Rightarrow> Inl (Rem_gate (''finding '' @ fid @ '' has no approval request; remediation requires an approved approval''))
      | Some a \<Rightarrow>
          if ar_action a \<noteq> Remediation
          then Inl (Rem_gate (''approval '' @ ar_id a @ '' authorizes action '' @ [CHR 0x27] @ action_text (ar_action a) @
                              [CHR 0x27] @ '', not remediation''))
          else if ar_status a \<noteq> Approved
          then Inl (Rem_gate (''approval '' @ ar_id a @ '' is '' @ [CHR 0x27] @ status_text (ar_status a) @ [CHR 0x27] @
                              ''; remediation requires an approved approval''))
          else Inr a)"

definition project_for_finding ::
    "('p, 'q, 'a, 'b, 'c) rem_env \<Rightarrow> string \<Rightarrow> remediation_error + project_row" where
  "project_for_finding env fid =
     (case runs_for_finding (re_runs env) fid of
        None \<Rightarrow> Inl (Rem_os ''scan lineage'')
      | Some rs \<Rightarrow>
          (case sorted_set (map rn_project_id rs) of
             [pid] \<Rightarrow>
               (case re_project env pid of
                  None \<Rightarrow> Inl (Rem_gate (''owning project '' @ pid @ '' for finding '' @ fid @ '' no longer exists''))
                | Some p \<Rightarrow> Inr p)
           | ids \<Rightarrow> Inl (Rem_gate (''finding '' @ fid @ '' has '' @ dec (length ids) @
                      '' owning projects in its scan lineage; cannot resolve a workspace''))))"

definition workspace_repo_dir :: "('p, 'q, 'a, 'b, 'c) rem_env \<Rightarrow> project_row \<Rightarrow> remediation_error + string" where
  "workspace_repo_dir env p =
     (let repo_dir = re_resolve env (path_join (pj_snapshot_path p) ''repo'') in
      if is_relative_to repo_dir (re_resolve env (re_workspace env)) then Inr repo_dir
      else Inl (Rem_gate ''repository workspace is outside the application workspace''))"

text \<open>The path a workflow operation works on, checked to be inside the repository copy.\<close>

definition target_path ::
    "('p, 'q, 'a, 'b, 'c) rem_env \<Rightarrow> string \<Rightarrow> string \<Rightarrow> string \<Rightarrow> remediation_error + string" where
  "target_path env what fid rel_path =
     (case project_for_finding env fid of
        Inl e \<Rightarrow> Inl e
      | Inr p \<Rightarrow>
          (case workspace_repo_dir env p of
             Inl e \<Rightarrow> Inl e
           | Inr repo_dir \<Rightarrow>
               (let path = re_resolve env (path_join repo_dir rel_path) in
                if is_relative_to path repo_dir then Inr path
                else Inl (Rem_gate (what @ rel_path @ '' escapes the repository workspace'')))))"

definition read_text :: "'r rem_state \<Rightarrow> string \<Rightarrow> remediation_error + string" where
  "read_text s path =
     (case dget (rm_files s) path of
        None \<Rightarrow> Inl (Rem_os (''No such file: '' @ path))
      | Some text \<Rightarrow> Inr (universal_newlines text))"

definition rem_record ::
    "(remediation_record, 'r) codec \<Rightarrow> remediation_record \<Rightarrow> 'r rem_state \<Rightarrow> 'r rem_state" where
  "rem_record c r s = s\<lparr>rm_store := kstore_put c (rr_finding_id r) r (rm_store s)\<rparr>"

definition proposal_status :: "remediation_proposal \<Rightarrow> remediation_status" where
  "proposal_status p = (if rp_strategy p = ''no_automatic_fix'' then Rem_no_fix else Rem_proposed)"

definition propose ::
    "('p, 'q, 'a, 'b, 'c) rem_env \<Rightarrow> (remediation_record, 'r) codec \<Rightarrow> string \<Rightarrow> 'r rem_state
     \<Rightarrow> (remediation_error + remediation_record) \<times> 'r rem_state" where
  "propose env c fid s =
     (case re_finding env fid of
        None \<Rightarrow> (Inl (Rem_gate (''finding not found: '' @ fid)), s)
      | Some f \<Rightarrow>
        (case require_approved_approval env fid of
           Inl e \<Rightarrow> (Inl e, s)
         | Inr approval \<Rightarrow>
           (case target_path env ''finding source '' fid (snk_file (f_sink f)) of
              Inl e \<Rightarrow> (Inl e, s)
            | Inr path \<Rightarrow>
              (case read_text s path of
                 Inl e \<Rightarrow> (Inl e, s)
               | Inr source \<Rightarrow>
                 (case build_proposal (re_sql env) (re_cmd env) f source of
                    Inl message \<Rightarrow> (Inl (Rem_patch message), s)
                  | Inr p \<Rightarrow>
                    (let r = (case kstore_get (rm_store s) fid of
                           None \<Rightarrow> \<lparr>rr_finding_id = fid, rr_approval_id = ar_id approval, rr_status = proposal_status p,
                             rr_proposal = Some p, rr_applied_at = None, rr_applied_by = None, rr_verified_at = None,
                             rr_verification = None, rr_error = None, rr_created_at = re_now env\<rparr>
                         | Some old \<Rightarrow> old\<lparr>rr_approval_id := ar_id approval, rr_proposal := Some p,
                             rr_status := proposal_status p, rr_error := None\<rparr>)
                     in (Inr r, rem_record c r s)))))))"

definition DEMO_APPLIED_BY :: string where "DEMO_APPLIED_BY = ''security-analyst''"

definition apply_fix ::
    "('p, 'q, 'a, 'b, 'c) rem_env \<Rightarrow> (remediation_record, 'r) codec \<Rightarrow> string \<Rightarrow> bool \<Rightarrow> 'r rem_state
     \<Rightarrow> (remediation_error + remediation_record) \<times> 'r rem_state" where
  "apply_fix env c fid confirmed s =
     (case kstore_get (rm_store s) fid of
        None \<Rightarrow> (Inl (Rem_gate (''no remediation proposal for finding '' @ fid @ ''; generate one before applying'')), s)
      | Some r \<Rightarrow>
        (case rr_proposal r of
           None \<Rightarrow> (Inl (Rem_gate (''no remediation proposal for finding '' @ fid @ ''; generate one before applying'')), s)
         | Some p \<Rightarrow>
           if rr_status r = Rem_no_fix
           then (Inl (Rem_gate ''no automatic fix is available for this finding; manual remediation is required''), s)
           else if rr_status r = Rem_applied
           then (Inl (Rem_gate (''remediation for finding '' @ fid @ '' was already applied'')), s)
           else
             (case require_approved_approval env fid of
                Inl e \<Rightarrow> (Inl e, s)
              | Inr _ \<Rightarrow>
                if \<not> confirmed
                then (Inl (Rem_gate ''fix application requires explicit human confirmation (confirm=true)''), s)
                else
                  (case target_path env ''patch target '' fid (rp_file p) of
                     Inl e \<Rightarrow> (Inl e, s)
                   | Inr path \<Rightarrow>
                     (case read_text s path of
                        Inl e \<Rightarrow> (Inl e, s)
                      | Inr source \<Rightarrow>
                        (case apply_proposal (re_parse env) p source of
                           Inl message \<Rightarrow>
                             (Inl (Rem_gate message),
                              rem_record c (r\<lparr>rr_status := Rem_error, rr_error := Some message\<rparr>) s)
                         | Inr patched \<Rightarrow>
                             (let r' = r\<lparr>rr_status := Rem_applied, rr_applied_at := Some (re_now env),
                                        rr_applied_by := Some DEMO_APPLIED_BY, rr_error := None\<rparr>
                              in (Inr r', rem_record c r' (s\<lparr>rm_files := dput path patched (rm_files s)\<rparr>)))))))))"

definition verify_fix ::
    "('p, 'q, 'a, 'b, 'c) rem_env \<Rightarrow> (remediation_record, 'r) codec \<Rightarrow> string \<Rightarrow> 'r rem_state
     \<Rightarrow> (remediation_error + remediation_record) \<times> 'r rem_state" where
  "verify_fix env c fid s =
     (case kstore_get (rm_store s) fid of
        None \<Rightarrow> (Inl (Rem_gate (''no remediation record for finding '' @ fid)), s)
      | Some r \<Rightarrow>
        if rr_status r \<notin> {Rem_applied, Rem_verified, Rem_still_present}
        then (Inl (Rem_gate (''remediation for finding '' @ fid @ '' is '' @ [CHR 0x27] @ rem_status_text (rr_status r) @
               [CHR 0x27] @ ''; verify requires an applied fix'')), s)
        else
          (case project_for_finding env fid of
             Inl e \<Rightarrow> (Inl e, s)
           | Inr p \<Rightarrow>
             (case re_code_model env p of
                Inl message \<Rightarrow> (Inl (Rem_os message), s)
              | Inr cm \<Rightarrow>
                (let report = scan (re_sha env) None (re_report_id env) (re_now env) cm (Some (pj_id p));
                     still = (\<exists>f \<in> set (rep_findings report). f_id f = fid);
                     r' = r\<lparr>rr_status := (if still then Rem_still_present else Rem_verified),
                            rr_verification := Some (if still then ''still_present'' else ''verified''),
                            rr_verified_at := Some (re_now env), rr_error := None\<rparr>
                 in (Inr r', rem_record c r' s)))))"

section \<open>Endpoints\<close>

text \<open>A response: the record, or a status code with its detail.\<close>

type_synonym rem_response = "(nat \<times> string) + remediation_record"

definition handle_gate :: "remediation_error + remediation_record \<Rightarrow> rem_response" where
  "handle_gate x =
     (case x of
        Inr r \<Rightarrow> Inr r
      | Inl (Rem_gate m) \<Rightarrow> Inl (409, m)
      | Inl (Rem_patch _) \<Rightarrow> Inl (500, ''Internal Server Error'')
      | Inl (Rem_os _) \<Rightarrow> Inl (500, ''Internal Server Error''))"

definition with_finding ::
    "('p, 'q, 'a, 'b, 'c) rem_env \<Rightarrow> string \<Rightarrow> (rem_response \<times> 'r rem_state) \<Rightarrow> 'r rem_state
     \<Rightarrow> rem_response \<times> 'r rem_state" where
  "with_finding env fid body s =
     (case re_finding env fid of None \<Rightarrow> (Inl (404, ''finding not found: '' @ fid), s) | Some _ \<Rightarrow> body)"

definition get_remediation :: "string \<Rightarrow> 'r rem_state \<Rightarrow> rem_response" where
  "get_remediation fid s =
     (case kstore_get (rm_store s) fid of
        None \<Rightarrow> Inl (404, ''no remediation record for finding: '' @ fid)
      | Some r \<Rightarrow> Inr r)"

definition propose_remediation ::
    "('p, 'q, 'a, 'b, 'c) rem_env \<Rightarrow> (remediation_record, 'r) codec \<Rightarrow> string \<Rightarrow> 'r rem_state
     \<Rightarrow> rem_response \<times> 'r rem_state" where
  "propose_remediation env c fid s =
     with_finding env fid (let (x, s') = propose env c fid s in (handle_gate x, s')) s"

definition apply_remediation ::
    "('p, 'q, 'a, 'b, 'c) rem_env \<Rightarrow> (remediation_record, 'r) codec \<Rightarrow> string \<Rightarrow> bool \<Rightarrow> 'r rem_state
     \<Rightarrow> rem_response \<times> 'r rem_state" where
  "apply_remediation env c fid confirm s =
     with_finding env fid (let (x, s') = apply_fix env c fid confirm s in (handle_gate x, s')) s"

definition verify_remediation ::
    "('p, 'q, 'a, 'b, 'c) rem_env \<Rightarrow> (remediation_record, 'r) codec \<Rightarrow> string \<Rightarrow> 'r rem_state
     \<Rightarrow> rem_response \<times> 'r rem_state" where
  "verify_remediation env c fid s =
     with_finding env fid
       (let (x, s') = verify_fix env c fid s in
        (case x of
           Inl (Rem_gate m) \<Rightarrow> Inl (409, m)
         | Inl (Rem_patch _) \<Rightarrow> Inl (500, ''remediation verify failed'')
         | Inl (Rem_os _) \<Rightarrow> Inl (500, ''remediation verify failed'')
         | Inr r \<Rightarrow> Inr r, s')) s"

end
