(* ===== verification/Py_Ast.thy ===== *)
theory Py_Ast
  imports Prelude
begin

text \<open>
  The syntax trees of the standard library's \<open>ast\<close> module as data: a node has an identity, the name of its class,
  the line numbers its class may carry and its fields in the order of \<open>_fields\<close>. The operations of the module that
  walk a tree (\<open>iter_child_nodes\<close>, \<open>walk\<close>, \<open>NodeTransformer\<close>) are defined here; parsing and unparsing are not code of
  the repository and stay arguments (\<open>ast_env\<close>).
\<close>

section \<open>Nodes\<close>

datatype const = Str string | Bool bool | Other_const string

text \<open>A field holds a node, a list of nodes (with gaps, as the keys of a dict display), a string, a constant, or
  nothing. The integers \<open>lineno\<close> and \<open>end_lineno\<close> are attributes.\<close>

datatype py_node =
  Node (n_id: nat) (n_kind: string) (n_lineno: "nat option") (n_end: "nat option") (n_fields: "(string \<times> py_field) list")
and py_field = FNode py_node | FNodes "py_node option list" | FStr string | FConst const | FNone

fun field_nodes :: "py_field \<Rightarrow> py_node list" where
  "field_nodes (FNode n) = [n]"
| "field_nodes (FNodes ns) = List.map_filter (\<lambda>n. n) ns"
| "field_nodes _ = []"

text \<open>\<open>ast.iter_child_nodes\<close>.\<close>

definition children :: "py_node \<Rightarrow> py_node list" where
  "children n = concat (map (\<lambda>(_, f). field_nodes f) (n_fields n))"

definition getf :: "py_node \<Rightarrow> string \<Rightarrow> py_field" where
  "getf n name = (case map_of (n_fields n) name of None \<Rightarrow> FNone | Some f \<Rightarrow> f)"

definition getn :: "py_node \<Rightarrow> string \<Rightarrow> py_node option" where
  "getn n name = (case getf n name of FNode c \<Rightarrow> Some c | _ \<Rightarrow> None)"

definition getns :: "py_node \<Rightarrow> string \<Rightarrow> py_node list" where
  "getns n name = field_nodes (getf n name)"

definition gets :: "py_node \<Rightarrow> string \<Rightarrow> string option" where
  "gets n name = (case getf n name of FStr s \<Rightarrow> Some s | _ \<Rightarrow> None)"

definition getc :: "py_node \<Rightarrow> string \<Rightarrow> const option" where
  "getc n name = (case getf n name of FConst c \<Rightarrow> Some c | _ \<Rightarrow> None)"

abbreviation is_kind :: "string \<Rightarrow> py_node \<Rightarrow> bool" where
  "is_kind k n \<equiv> n_kind n = k"

section \<open>Walking\<close>

lemma field_nodes_size: "sum_list (map size (field_nodes f)) < Suc (size f)"
proof (cases f)
  case (FNodes ns)
  have "sum_list (map size (List.map_filter (\<lambda>n. n) ns)) \<le> size_list (size_option size) ns"
    by (induction ns) (auto simp: List.map_filter_def split: option.splits)
  then show ?thesis using FNodes by simp
qed simp_all

lemma children_size: "sum_list (map size (children n)) < size n"
proof (cases n)
  case (Node i k l e fs)
  have "sum_list (map size (concat (map (\<lambda>(_, f). field_nodes f) fs))) \<le> size_list (size_prod (\<lambda>_. 0) size) fs"
  proof (induction fs)
    case (Cons kf fs)
    obtain k f where kf: "kf = (k, f)" by (cases kf)
    show ?case using Cons field_nodes_size[of f] by (simp add: kf)
  qed simp
  then show ?thesis by (simp add: Node children_def)
qed

lemma child_size [termination_simp]: "c \<in> set (children n) \<Longrightarrow> size c < size n"
  using children_size[of n] member_le_sum_list[of "size c" "map size (children n)"] by fastforce

lemma getn_child: "getn n name = Some c \<Longrightarrow> c \<in> set (children n)"
  by (force simp: getn_def getf_def children_def dest!: map_of_SomeD split: option.splits py_field.splits)

lemma getn_size: "getn n name = Some c \<Longrightarrow> size c < size n"
  by (rule child_size[OF getn_child])

lemma size_pos: "0 < size (n :: py_node)"
  by (cases n) simp

text \<open>Depth first, parents before children.\<close>

function preorder :: "py_node \<Rightarrow> py_node list" where
  "preorder n = n # concat (map preorder (children n))"
  by pat_completeness auto
termination by (relation "measure size") (auto simp: child_size)

text \<open>\<open>ast.walk\<close>: breadth first from a queue.\<close>

function walk_queue :: "py_node list \<Rightarrow> py_node list" where
  "walk_queue [] = []"
| "walk_queue (n # queue) = n # walk_queue (queue @ children n)"
  by pat_completeness auto
termination
  by (relation "measure (\<lambda>q. sum_list (map size q))") (use children_size in \<open>simp_all add: add.commute\<close>)

abbreviation ast_walk :: "py_node \<Rightarrow> py_node list" where
  "ast_walk n \<equiv> walk_queue [n]"

declare preorder.simps [simp del]


lemma preorder_eq: "preorder n = n # concat (map preorder (children n))"
  by (rule preorder.simps)

lemma self_in_preorder [simp]: "n \<in> set (preorder n)"
  by (simp add: preorder_eq[of n])

lemma preorder_children: "c \<in> set (children n) \<Longrightarrow> set (preorder c) \<subseteq> set (preorder n)"
  by (auto simp: preorder_eq[of n])

text \<open>Both orders visit the same nodes.\<close>

lemma mset_walk_queue: "mset (walk_queue q) = mset (concat (map preorder q))"
proof (induction q rule: walk_queue.induct)
  case (2 n q)
  have "mset (walk_queue (n # q)) = {#n#} + mset (concat (map preorder q)) + mset (concat (map preorder (children n)))"
    using 2 by simp
  also have "\<dots> = mset (preorder n) + mset (concat (map preorder q))"
    by (simp add: preorder_eq[of n])
  finally show ?case by simp
qed simp

lemma mset_ast_walk: "mset (ast_walk n) = mset (preorder n)"
  using mset_walk_queue[of "[n]"] by simp

lemma set_ast_walk [simp]: "set (ast_walk n) = set (preorder n)"
  using mset_ast_walk mset_eq_setD by blast

lemma length_ast_walk: "length (ast_walk n) = length (preorder n)"
  using mset_ast_walk mset_eq_length by blast

text \<open>The number of nodes grows from a node to its ancestors.\<close>

lemma length_preorder_child:
  assumes "c \<in> set (children n)"
  shows "length (preorder c) < length (preorder n)"
proof -
  have "length (preorder c) \<le> sum_list (map length (map preorder (children n)))"
    using assms by (intro member_le_sum_list) auto
  then show ?thesis by (simp add: preorder_eq[of n] length_concat)
qed

end
