(* ===== verification/Patches.thy ===== *)
theory Patches
  imports Remediation Py_Ast "HOL-Library.While_Combinator"
begin

text \<open>
  The patch generator (backend/app/remediation/patches.py): how a proposal for a SQL or a command injection is made
  from the syntax tree of the file. A method that may raise returns the text of the exception on the left.
\<close>

section \<open>Python's \<open>ast\<close> module\<close>

text \<open>Parsing a file, parsing one expression (\<open>ast.parse(p, mode="eval").body\<close>) and \<open>ast.unparse\<close>.\<close>

record ast_env =
  ast_parse :: "string \<Rightarrow> string + py_node"
  ast_parse_expr :: "string \<Rightarrow> string + py_node"
  ast_unparse :: "py_node \<Rightarrow> string + string"

fun const_text :: "const \<Rightarrow> string" where
  "const_text (Str s) = s"
| "const_text (Bool b) = (if b then ''True'' else ''False'')"
| "const_text (Other_const s) = s"

definition const_str :: "py_node \<Rightarrow> string option" where
  "const_str n = (if is_kind ''Constant'' n then (case getc n ''value'' of Some (Str s) \<Rightarrow> Some s | _ \<Rightarrow> None) else None)"

definition names :: "string \<Rightarrow> py_node \<Rightarrow> bool" where
  "names x n \<longleftrightarrow> is_kind ''Name'' n \<and> gets n ''id'' = Some x"

definition is_function :: "py_node \<Rightarrow> bool" where
  "is_function n \<longleftrightarrow> n_kind n \<in> {''FunctionDef'', ''AsyncFunctionDef''}"

text \<open>Nodes the generator builds; \<open>copy_location\<close> keeps the lines of the replaced call.\<close>

definition constant_node :: "string \<Rightarrow> py_node" where
  "constant_node s = Node 0 ''Constant'' None None [(''value'', FConst (Str s)), (''kind'', FNone)]"

definition tuple_node :: "py_node list \<Rightarrow> py_node" where
  "tuple_node elts = Node 0 ''Tuple'' None None [(''elts'', FNodes (map Some elts)),
     (''ctx'', FNode (Node 0 ''Load'' None None []))]"

definition call_node :: "py_node \<Rightarrow> py_node list \<Rightarrow> py_node list \<Rightarrow> py_node" where
  "call_node call args keywords = Node 0 ''Call'' (n_lineno call) (n_end call)
     [(''func'', getf call ''func''), (''args'', FNodes (map Some args)), (''keywords'', FNodes (map Some keywords))]"

section \<open>Finding the sink\<close>

definition sink_lines :: "candidate_finding \<Rightarrow> string \<Rightarrow> string + nat \<times> string" where
  "sink_lines f source =
     (let lines = splitlines_keepends source; n = snk_line (f_sink f) in
      if n < 1 \<or> length lines < n then Inl (''sink line '' @ dec n @ '' is outside the file'')
      else Inr (n, lines ! (n - 1)))"

definition node_count :: "py_node \<Rightarrow> nat" where
  "node_count n = length (ast_walk n)"

text \<open>\<open>min(xs, key=key)\<close>: the first element with the least key.\<close>

fun first_min :: "('a \<Rightarrow> nat) \<Rightarrow> 'a list \<Rightarrow> 'a option" where
  "first_min key [] = None"
| "first_min key (x # xs) =
     (case first_min key xs of None \<Rightarrow> Some x | Some y \<Rightarrow> if key x \<le> key y then Some x else Some y)"

definition find_call_at :: "py_node \<Rightarrow> nat \<Rightarrow> py_node option" where
  "find_call_at tree line =
     first_min node_count (filter (\<lambda>n. is_kind ''Call'' n \<and> n_lineno n = Some line) (preorder tree))"

definition find_statement_at :: "py_node \<Rightarrow> nat \<Rightarrow> py_node option" where
  "find_statement_at tree line =
     find (\<lambda>n. n_kind n \<in> {''Assign'', ''AnnAssign'', ''AugAssign'', ''Expr'', ''Return'', ''If'', ''For'', ''While'',
                          ''With'', ''Try''} \<and> n_lineno n = Some line) (ast_walk tree)"

text \<open>The lines of a definition; the parser gives it both.\<close>

definition start_of :: "py_node \<Rightarrow> nat" where
  "start_of n = (case n_lineno n of Some l \<Rightarrow> l | None \<Rightarrow> 0)"

definition last_line :: "py_node \<Rightarrow> nat" where
  "last_line n = (case n_end n of Some e \<Rightarrow> if e = 0 then start_of n else e
                  | None \<Rightarrow> start_of n)"

definition enclosing_step :: "nat \<Rightarrow> py_node \<Rightarrow> py_node option \<Rightarrow> py_node option" where
  "enclosing_step line n best =
     (let start = start_of n in
      if is_function n \<and> start \<le> line \<and> line \<le> last_line n \<and>
         (case best of None \<Rightarrow> True | Some b \<Rightarrow> start_of b \<le> start)
      then Some n else best)"

definition find_enclosing_function :: "py_node \<Rightarrow> nat \<Rightarrow> py_node option" where
  "find_enclosing_function tree line = fold (enclosing_step line) (ast_walk tree) None"

section \<open>Rendering\<close>

text \<open>\<open>_Swap\<close>: the visitor replaces the call object it is looking for and rebuilds every other node.\<close>

fun swap :: "nat \<Rightarrow> py_node \<Rightarrow> py_node \<Rightarrow> py_node"
and swap_field :: "nat \<Rightarrow> py_node \<Rightarrow> py_field \<Rightarrow> py_field" where
  "swap old new (Node i k l e fs) =
     (if k = ''Call'' \<and> i = old then new else Node i k l e (map (\<lambda>(name, f). (name, swap_field old new f)) fs))"
| "swap_field old new (FNode n) = FNode (swap old new n)"
| "swap_field old new (FNodes ns) = FNodes (map (map_option (swap old new)) ns)"
| "swap_field old new f = f"

definition leading_blanks :: "string \<Rightarrow> string" where
  "leading_blanks s = takeWhile (\<lambda>c. c = CHR 0x20 \<or> c = CHR 0x09) s"

definition render_statement_line ::
    "ast_env \<Rightarrow> py_node \<Rightarrow> py_node \<Rightarrow> py_node \<Rightarrow> nat \<Rightarrow> string \<Rightarrow> string + string" where
  "render_statement_line A tree old_call new_call line source_line =
     (case find_statement_at tree line of
        None \<Rightarrow> ast_unparse A new_call
      | Some statement \<Rightarrow>
          (case ast_unparse A (swap (n_id old_call) new_call statement) of
             Inl e \<Rightarrow> Inl e
           | Inr text \<Rightarrow>
               (let rendered = splitlines text in
                if rendered = [] then ast_unparse A new_call
                else Inr (join [LF] (map (\<lambda>l. leading_blanks source_line @ l) rendered)))))"


section \<open>SQL: what a query argument is made of\<close>

text \<open>\<open>None\<close> when a value of the f-string is neither literal nor interpolation, or cannot be unparsed.\<close>

fun decompose_values :: "ast_env \<Rightarrow> py_node list \<Rightarrow> (string list \<times> string list) option" where
  "decompose_values A [] = Some ([], [])"
| "decompose_values A (v # vs) =
     (if is_kind ''Constant'' v then
        map_option (\<lambda>(parts, params). (const_text (the (getc v ''value'')) # parts, params)) (decompose_values A vs)
      else if is_kind ''FormattedValue'' v then
        (case ast_unparse A (the (getn v ''value'')) of
           Inl _ \<Rightarrow> None
         | Inr expr \<Rightarrow> map_option (\<lambda>(parts, params). (''?'' # parts, expr # params)) (decompose_values A vs))
      else None)"

definition decompose_fstring :: "ast_env \<Rightarrow> py_node \<Rightarrow> (string list \<times> string list) option" where
  "decompose_fstring A fstr = decompose_values A (getns fstr ''values'')"

definition interpolates :: "py_node \<Rightarrow> bool" where
  "interpolates fstr \<longleftrightarrow> list_ex (is_kind ''FormattedValue'') (getns fstr ''values'')"

definition resolve_assigned_fstring :: "py_node \<Rightarrow> string \<Rightarrow> py_node option" where
  "resolve_assigned_fstring tree name =
     (case List.map_filter (\<lambda>n.
             case getn n ''value'' of
               Some v \<Rightarrow> if is_kind ''Assign'' n \<and> list_ex (names name) (getns n ''targets'') \<and> is_kind ''JoinedStr'' v
                          then Some v else None
             | None \<Rightarrow> None) (preorder tree) of
        [v] \<Rightarrow> Some v
      | _ \<Rightarrow> None)"

definition is_add :: "py_node \<Rightarrow> bool" where
  "is_add n \<longleftrightarrow> (case getn n ''op'' of Some op \<Rightarrow> is_kind ''Add'' op | None \<Rightarrow> False)"

text \<open>The operands of a chain of additions, from left to right.\<close>

function collect_concat_parts :: "py_node \<Rightarrow> py_node list" where
  "collect_concat_parts n =
     (case (getn n ''left'', getn n ''right'') of
        (Some l, Some r) \<Rightarrow>
          if is_kind ''BinOp'' n \<and> is_add n then collect_concat_parts l @ collect_concat_parts r else [n]
      | _ \<Rightarrow> [n])"
  by pat_completeness auto
termination
  by (relation "measure size") (auto simp: getn_size)

declare collect_concat_parts.simps [simp del]

text \<open>
  The assigned values, below a list of children. \<open>scoped\<close> says that the search is limited to one function; another
  augmented operator than \<open>+=\<close> ends the search among the remaining children of the same parent.
\<close>

function collect_assigned :: "bool \<Rightarrow> string \<Rightarrow> py_node list \<Rightarrow> py_node list" where
  "collect_assigned scoped name [] = []"
| "collect_assigned scoped name (c # cs) =
     (if scoped \<and> n_kind c \<in> {''FunctionDef'', ''AsyncFunctionDef'', ''ClassDef''}
      then collect_assigned scoped name cs
      else if is_kind ''Assign'' c then
        (if list_ex (names name) (getns c ''targets'') then getns c ''value'' else []) @
        collect_assigned scoped name (children c) @ collect_assigned scoped name cs
      else if is_kind ''AugAssign'' c \<and> (case getn c ''target'' of Some t \<Rightarrow> names name t | None \<Rightarrow> False) then
        (if is_add c then getns c ''value'' @ collect_assigned scoped name (children c) @ collect_assigned scoped name cs
         else [])
      else collect_assigned scoped name (children c) @ collect_assigned scoped name cs)"
  by pat_completeness auto
termination
  by (relation "measure (\<lambda>(_, _, ns). sum_list (map size ns))") (use children_size size_pos in \<open>auto intro: trans_less_add1\<close>)

declare collect_assigned.simps(2) [simp del]

text \<open>A segment of the query: literal text, or the expression of a placeholder with the text \<open>?\<close>.\<close>

type_synonym segment = "string \<times> string"

fun segments_of_parts :: "ast_env \<Rightarrow> py_node list \<Rightarrow> segment list option" where
  "segments_of_parts A [] = Some []"
| "segments_of_parts A (p # ps) =
     (case const_str p of
        Some s \<Rightarrow> map_option (\<lambda>rest. (s, []) # rest) (segments_of_parts A ps)
      | None \<Rightarrow>
          if n_kind p \<in> {''Name'', ''Attribute'', ''Subscript''} then
            (case ast_unparse A p of
               Inl _ \<Rightarrow> None
             | Inr expr \<Rightarrow> map_option (\<lambda>rest. (''?'', expr) # rest) (segments_of_parts A ps))
          else None)"

definition resolve_assigned_concatenation ::
    "ast_env \<Rightarrow> py_node \<Rightarrow> string \<Rightarrow> py_node option \<Rightarrow> segment list option" where
  "resolve_assigned_concatenation A tree name enclosing =
     (let root = (case enclosing of None \<Rightarrow> tree | Some fn \<Rightarrow> fn);
          assignments = collect_assigned (enclosing \<noteq> None) name (children root)
      in if assignments = [] then None
         else segments_of_parts A (concat (map collect_concat_parts assignments)))"

section \<open>SQL: the proposal\<close>

definition query_of_segments :: "segment list \<Rightarrow> string \<times> string list" where
  "query_of_segments segs = (concat (map fst segs), map snd (filter (\<lambda>(l, _). l = ''?'') segs))"

text \<open>The query text and the expressions of its parameters; unpacking \<open>None\<close> raises.\<close>

definition sql_query :: "ast_env \<Rightarrow> py_node \<Rightarrow> nat \<Rightarrow> py_node \<Rightarrow> string + (string \<times> string list) option" where
  "sql_query A tree line arg =
     (let fstr = (if is_kind ''JoinedStr'' arg then (if interpolates arg then Some arg else None)
                  else if is_kind ''Name'' arg then
                    (case resolve_assigned_fstring tree (the (gets arg ''id'')) of
                       Some v \<Rightarrow> if interpolates v then Some v else None | None \<Rightarrow> None)
                  else None)
      in case fstr of
           Some v \<Rightarrow>
             (case decompose_fstring A v of
                None \<Rightarrow> Inl ''cannot unpack non-iterable NoneType object''
              | Some (parts, params) \<Rightarrow> Inr (Some (concat parts, params)))
         | None \<Rightarrow>
             Inr (if is_kind ''Name'' arg
                  then map_option query_of_segments
                         (resolve_assigned_concatenation A tree (the (gets arg ''id''))
                            (find_enclosing_function tree line))
                  else None))"

fun parse_params :: "ast_env \<Rightarrow> string list \<Rightarrow> string + py_node list" where
  "parse_params A [] = Inr []"
| "parse_params A (p # ps) =
     (case ast_parse_expr A p of
        Inl e \<Rightarrow> Inl e
      | Inr n \<Rightarrow> (case parse_params A ps of Inl e \<Rightarrow> Inl e | Inr ns \<Rightarrow> Inr (n # ns)))"

definition PATCH_SQL_METHODS :: "string list" where
  "PATCH_SQL_METHODS = [''execute'', ''executemany'', ''executescript'']"

definition SQL_RATIONALE :: string where
  "SQL_RATIONALE = ''Parameterized query: interpolated values are passed as query '' @
     ''parameters instead of being embedded in the SQL text, so user '' @
     ''input can no longer alter the statement structure.''"

definition sql_call :: "py_node \<Rightarrow> string \<Rightarrow> py_node list \<Rightarrow> py_node" where
  "sql_call call query params =
     call_node call [constant_node query, tuple_node params]
       (filter (\<lambda>k. gets k ''arg'' \<noteq> Some ''parameters'' \<and> gets k ''arg'' \<noteq> Some ''params'') (getns call ''keywords''))"

definition patch_proposal ::
    "candidate_finding \<Rightarrow> nat \<Rightarrow> string \<Rightarrow> string \<Rightarrow> string \<Rightarrow> string option \<Rightarrow> string \<Rightarrow> remediation_proposal" where
  "patch_proposal f line source_line strategy after import_line rationale =
     \<lparr>rp_finding_id = f_id f, rp_vulnerability_type = f_vulnerability_type f, rp_file = snk_file (f_sink f),
      rp_line = line, rp_strategy = strategy, rp_before = rstrip_newline source_line, rp_after = after,
      rp_import_to_add = import_line, rp_rationale = rationale\<rparr>"


definition unparsable :: "candidate_finding \<Rightarrow> string \<Rightarrow> remediation_proposal" where
  "unparsable f exc = no_fix f (''file does not parse ('' @ exc @ ''); automatic fix unavailable'')"

definition unrendered :: "candidate_finding \<Rightarrow> string \<Rightarrow> remediation_proposal" where
  "unrendered f exc = no_fix f (''rewritten sink cannot be rendered ('' @ exc @ '')'')"

text \<open>The part of the SQL proposal after the query has been found: parse its parameters, render the new statement.\<close>

definition sql_rewrite ::
    "ast_env \<Rightarrow> candidate_finding \<Rightarrow> py_node \<Rightarrow> py_node \<Rightarrow> nat \<Rightarrow> string \<Rightarrow> string \<Rightarrow> string list
     \<Rightarrow> string + remediation_proposal" where
  "sql_rewrite A f tree call line source_line query params =
     (case parse_params A params of
        Inl exc \<Rightarrow> Inl exc
      | Inr elts \<Rightarrow>
          (case render_statement_line A tree call (sql_call call query elts) line source_line of
             Inl exc \<Rightarrow> Inr (unrendered f exc)
           | Inr after \<Rightarrow>
               Inr (patch_proposal f line source_line ''parameterize_query'' after None SQL_RATIONALE)))"

definition sql_proposal :: "ast_env \<Rightarrow> rewriter" where
  "sql_proposal A f source =
     (case sink_lines f source of
        Inl e \<Rightarrow> Inl e
      | Inr (line, source_line) \<Rightarrow>
          (case ast_parse A source of
             Inl exc \<Rightarrow> Inr (unparsable f exc)
           | Inr tree \<Rightarrow>
               (case find_call_at tree (snk_line (f_sink f)) of
                  None \<Rightarrow> Inr (no_fix f ''sink is not a recognizable SQL execute call'')
                | Some call \<Rightarrow>
                    (case getn call ''func'' of
                       None \<Rightarrow> Inr (no_fix f ''sink is not a recognizable SQL execute call'')
                     | Some func \<Rightarrow>
                         if \<not> is_kind ''Attribute'' func
                         then Inr (no_fix f ''sink is not a recognizable SQL execute call'')
                         else if the (gets func ''attr'') \<notin> set PATCH_SQL_METHODS
                         then Inr (no_fix f ''sink method is not a SQL execute call'')
                         else
                           (case getns call ''args'' of
                              [] \<Rightarrow> Inr (no_fix f ''sink call has no query argument'')
                            | query_arg # _ \<Rightarrow>
                                (case sql_query A tree line query_arg of
                                   Inl exc \<Rightarrow> Inl exc
                                 | Inr None \<Rightarrow>
                                     Inr (no_fix f (''query argument cannot be decomposed into a parameterizable '' @
                                       ''form (f-string or string concatenation); automatic '' @
                                       ''parameterization is not safe here''))
                                 | Inr (Some (query, params)) \<Rightarrow>
                                     sql_rewrite A f tree call line source_line query params))))))"

section \<open>Commands\<close>

definition SUBPROCESS_SINKS :: "string list" where
  "SUBPROCESS_SINKS = [''subprocess.run'', ''subprocess.call'', ''subprocess.Popen'',
     ''subprocess.check_call'', ''subprocess.check_output'']"

definition SHELL_STRING_SINKS :: "string list" where
  "SHELL_STRING_SINKS = [''os.system'', ''os.popen'']"

definition VECTOR_RATIONALE :: string where
  "VECTOR_RATIONALE = ''Argument-vector form: the command is split into a list and '' @
     ''passed without a shell, so user-controlled text is never '' @ ''interpreted as shell syntax.''"

definition QUOTE_RATIONALE :: string where
  "QUOTE_RATIONALE = ''Shell-quoted argument: user-controlled text is quoted so it '' @
     ''cannot inject additional shell syntax into the command string.''"

text \<open>A keyword \<open>shell=True\<close>, with the literal.\<close>

definition shell_true :: "py_node \<Rightarrow> bool" where
  "shell_true k \<longleftrightarrow> gets k ''arg'' = Some ''shell'' \<and>
     (case getn k ''value'' of
        Some v \<Rightarrow> is_kind ''Constant'' v \<and> getc v ''value'' = Some (Bool True)
      | None \<Rightarrow> False)"

text \<open>How a command sink is rewritten: the text of its argument, the keywords it keeps, strategy and rationale.\<close>

definition cmd_plan ::
    "string \<Rightarrow> string \<Rightarrow> py_node list \<Rightarrow> (string \<times> py_node list \<times> string \<times> string) option" where
  "cmd_plan func_name cmd keywords =
     (if func_name \<in> set SUBPROCESS_SINKS then
        Some (''shlex.split('' @ cmd @ '')'', filter (\<lambda>k. \<not> shell_true k) keywords,
              ''shell_argument_vector'', VECTOR_RATIONALE)
      else if func_name \<in> set SHELL_STRING_SINKS then
        Some (''shlex.quote('' @ cmd @ '')'', keywords, ''shell_quote'', QUOTE_RATIONALE)
      else None)"

definition cmd_rewrite ::
    "ast_env \<Rightarrow> candidate_finding \<Rightarrow> string \<Rightarrow> py_node \<Rightarrow> py_node \<Rightarrow> nat \<Rightarrow> string
     \<Rightarrow> string \<times> py_node list \<times> string \<times> string \<Rightarrow> string + remediation_proposal" where
  "cmd_rewrite A f source tree call line source_line how =
     (case how of (arg_text, keywords, strategy, rationale) \<Rightarrow>
        (case ast_parse_expr A arg_text of
           Inl exc \<Rightarrow> Inl exc
         | Inr arg \<Rightarrow>
             (case render_statement_line A tree call (call_node call [arg] keywords) line source_line of
                Inl exc \<Rightarrow> Inr (unrendered f exc)
              | Inr after \<Rightarrow>
                  (let needs_import = (\<not> contains ''import shlex'' source \<and> \<not> contains ''from shlex'' source)
                   in Inr (patch_proposal f line source_line strategy after
                             (if needs_import then Some ''import shlex'' else None) rationale)))))"

definition cmd_proposal :: "ast_env \<Rightarrow> rewriter" where
  "cmd_proposal A f source =
     (case sink_lines f source of
        Inl e \<Rightarrow> Inl e
      | Inr (line, source_line) \<Rightarrow>
          (case ast_parse A source of
             Inl exc \<Rightarrow> Inr (unparsable f exc)
           | Inr tree \<Rightarrow>
               (case find_call_at tree (snk_line (f_sink f)) of
                  None \<Rightarrow> Inr (no_fix f ''sink is not a recognizable command execution call'')
                | Some call \<Rightarrow>
                    (case ast_unparse A (the (getn call ''func'')) of
                       Inl exc \<Rightarrow> Inl exc
                     | Inr func_name \<Rightarrow>
                         (case getns call ''args'' of
                            [] \<Rightarrow> Inr (no_fix f ''command call has no command argument'')
                          | arg # _ \<Rightarrow>
                              (case ast_unparse A arg of
                                 Inl exc \<Rightarrow> Inl exc
                               | Inr cmd \<Rightarrow>
                                   (case cmd_plan func_name cmd (getns call ''keywords'') of
                                      None \<Rightarrow> Inr (no_fix f ''unrecognized command execution sink'')
                                    | Some how \<Rightarrow> cmd_rewrite A f source tree call line source_line how)))))))"

section \<open>The generator and the parser of the workflow\<close>

text \<open>The end of a leading docstring, as \<open>_insert_import\<close> reads it from the tree.\<close>

definition docstring_end :: "py_node \<Rightarrow> nat option" where
  "docstring_end tree =
     (case getns tree ''body'' of
        [] \<Rightarrow> None
      | stmt # _ \<Rightarrow>
          if is_kind ''Expr'' stmt then
            (case getn stmt ''value'' of
               Some v \<Rightarrow> if const_str v \<noteq> None then n_end v else None
             | None \<Rightarrow> None)
          else None)"

definition parser_of :: "ast_env \<Rightarrow> py_parser" where
  "parser_of A source = map_sum (\<lambda>e. e) docstring_end (ast_parse A source)"

definition generate :: "ast_env \<Rightarrow> rewriter" where
  "generate A = build_proposal (sql_proposal A) (cmd_proposal A)"

section \<open>The loop of \<open>apply_proposal\<close>\<close>

text \<open>The \<open>while\<close> loop that looks for the end of the statement; the flag records a \<open>break\<close>.\<close>

definition extent_step :: "nat \<Rightarrow> string list \<Rightarrow> nat \<times> bool \<Rightarrow> nat \<times> bool" where
  "extent_step start_indent lines s =
     (let nxt = rstrip_newline (lines ! fst s) in
      if nxt = [] then (fst s, True)
      else if start_indent < indent_of nxt then (fst s + 1, False)
      else if indent_of nxt = start_indent \<and> strip nxt \<in> {'')'', '']'', ''}''} then (fst s + 1, True)
      else (fst s, True))"

definition extent_loop :: "nat \<Rightarrow> string list \<Rightarrow> nat \<Rightarrow> nat option" where
  "extent_loop start_indent lines end_idx =
     map_option fst (while_option (\<lambda>s. \<not> snd s \<and> fst s < length lines) (extent_step start_indent lines) (end_idx, False))"

end
