(* ===== verification/Approval_Workflow.thy ===== *)
theory Approval_Workflow
  imports Approval "HOL-Library.Sublist"
begin

text \<open>
  The approval workflow as a system: its steps are the service operations and the store removals, in any
  order and with any validation and proof results at each step. The invariant ties every request to its audit
  trail: replaying the trail over the state machine gives the status and version of the request.
\<close>

section \<open>Audit trails\<close>

fun replay_event :: "(approval_status \<times> nat) option \<Rightarrow> approval_event \<Rightarrow> (approval_status \<times> nat) option" where
  "replay_event None e =
     (if ae_previous_status e = None \<and> ae_new_status e = Pending then Some (Pending, 1) else None)"
| "replay_event (Some (st, v)) e =
     (if ae_previous_status e = Some st \<and> ae_new_status e \<in> set (ALLOWED_TRANSITIONS st)
      then Some (ae_new_status e, if st = Changes_requested \<and> ae_new_status e = Pending then v + 1 else v)
      else None)"

definition replay :: "approval_event list \<Rightarrow> (approval_status \<times> nat) option" where
  "replay es = foldl replay_event None es"

lemma replay_snoc: "replay (es @ [e]) = replay_event (replay es) e"
  by (simp add: replay_def)

definition trail_ok :: "approval_event list \<Rightarrow> approval_request \<Rightarrow> bool" where
  "trail_ok es r \<longleftrightarrow> replay es = Some (ar_status r, ar_version r) \<and>
     (\<forall>e \<in> set es. ae_approval_id e = ar_id r \<and> ae_finding_id e = ar_finding_id r)"

definition active :: "approval_request \<Rightarrow> bool" where
  "active r \<longleftrightarrow> ar_status r \<in> set ACTIVE_STATUSES"

definition terminal :: "approval_request \<Rightarrow> bool" where
  "terminal r \<longleftrightarrow> ar_status r \<in> set TERMINAL_STATUSES"

lemma terminal_iff: "terminal r \<longleftrightarrow> \<not> active r"
  by (cases "ar_status r") (simp_all add: terminal_def active_def ACTIVE_STATUSES_def TERMINAL_STATUSES_def)

text \<open>The store invariant.\<close>

definition store_ok :: "('p, 'q) approval_store \<Rightarrow> bool" where
  "store_ok s \<longleftrightarrow> distinct (dkeys (requests s)) \<and>
     (\<forall>k r. dget (requests s) k = Some r \<longrightarrow> ar_id r = k \<and> trail_ok (events_for s k) r) \<and>
     (\<forall>k. dget (requests s) k = None \<longrightarrow> dget (events s) k = None) \<and>
     (\<forall>k l r q. dget (requests s) k = Some r \<longrightarrow> dget (requests s) l = Some q \<longrightarrow> active r \<longrightarrow> active q \<longrightarrow>
        ar_finding_id r = ar_finding_id q \<longrightarrow> ar_action r = ar_action q \<longrightarrow> k = l)"

lemma store_okD:
  assumes "store_ok s"
  shows "distinct (dkeys (requests s))"
    and "dget (requests s) k = Some r \<Longrightarrow> ar_id r = k \<and> trail_ok (events_for s k) r"
    and "dget (requests s) k = None \<Longrightarrow> dget (events s) k = None"
    and "dget (requests s) k = Some r \<Longrightarrow> dget (requests s) l = Some q \<Longrightarrow> active r \<Longrightarrow> active q \<Longrightarrow>
           ar_finding_id r = ar_finding_id q \<Longrightarrow> ar_action r = ar_action q \<Longrightarrow> k = l"
  using assms unfolding store_ok_def by blast+

lemma in_requests_iff: "store_ok s \<Longrightarrow> r \<in> set (dvalues (requests s)) \<longleftrightarrow> (\<exists>k. dget (requests s) k = Some r)"
  using in_dvalues_iff[OF store_okD(1)] by simp

lemma find_active_None:
  assumes "store_ok s" and "find_active s fid action ACTIVE_STATUSES = None" and "dget (requests s) k = Some r"
    and "ar_finding_id r = fid" and "ar_action r = action"
  shows "\<not> active r"
  using assms in_requests_iff[OF assms(1), of r]
  by (auto simp: find_active_def find_None_iff active_def)

text \<open>The two writes of a service call: the request and its event.\<close>

lemma saved_fields [simp]:
  "requests (record_event c e (save_request c r s)) = dput (ar_id r) r (requests s)"
  "events_for (record_event c e (save_request c r s)) k =
     (if k = ae_approval_id e then events_for s k @ [e] else events_for s k)"
  "dget (events (record_event c e (save_request c r s))) k =
     (if k = ae_approval_id e then Some (events_for s k @ [e]) else dget (events s) k)"
  by (simp_all add: record_event_def save_request_def events_for_def dappend_def dget_list_def)

lemma save_ok:
  assumes "store_ok s" and "ae_approval_id e = ar_id r" and "ae_finding_id e = ar_finding_id r"
    and "trail_ok (events_for s (ar_id r) @ [e]) r"
    and "\<And>l q. active r \<Longrightarrow> dget (requests s) l = Some q \<Longrightarrow> active q \<Longrightarrow>
           ar_finding_id r = ar_finding_id q \<Longrightarrow> ar_action r = ar_action q \<Longrightarrow> l = ar_id r"
  shows "store_ok (record_event c e (save_request c r s))"
  unfolding store_ok_def
proof (intro conjI allI impI)
  note ok = store_okD[OF assms(1)]
  show "distinct (dkeys (requests (record_event c e (save_request c r s))))" by (simp add: ok(1))
  fix k q
  assume "dget (requests (record_event c e (save_request c r s))) k = Some q"
  then show "ar_id q = k" and "trail_ok (events_for (record_event c e (save_request c r s)) k) q"
    using ok(2)[of k q] assms(2,4) by (auto split: if_splits)
next
  note ok = store_okD[OF assms(1)]
  fix k
  assume "dget (requests (record_event c e (save_request c r s))) k = None"
  then show "dget (events (record_event c e (save_request c r s))) k = None"
    using ok(3)[of k] assms(2) by (auto split: if_splits)
next
  note ok = store_okD[OF assms(1)]
  fix k l q p
  assume k: "dget (requests (record_event c e (save_request c r s))) k = Some q"
    and l: "dget (requests (record_event c e (save_request c r s))) l = Some p"
    and same: "active q" "active p" "ar_finding_id q = ar_finding_id p" "ar_action q = ar_action p"
  consider "k = ar_id r" "l = ar_id r" | "k = ar_id r" "l \<noteq> ar_id r" | "k \<noteq> ar_id r" "l = ar_id r"
    | "k \<noteq> ar_id r" "l \<noteq> ar_id r" by blast
  then show "k = l"
  proof cases
    case 2
    then show ?thesis using k l same assms(5)[of l p] by simp
  next
    case 3
    then show ?thesis using k l same assms(5)[of k q] by simp
  next
    case 4
    then show ?thesis using k l same ok(4)[of k q l p] by simp
  qed simp
qed

section \<open>Steps\<close>

text \<open>An outcome of \<open>request_approval\<close> whose UUID is fresh, as \<open>uuid4\<close> promises.\<close>

definition fresh_outcome ::
    "('p, 'q) approval_store \<Rightarrow> (approval_error + approval_request) \<times> ('p, 'q) approval_store \<Rightarrow> bool" where
  "fresh_outcome s res \<longleftrightarrow>
     (\<forall>r. fst res = Inr r \<longrightarrow> dget (requests s) (ar_id r) = Some r \<or> dget (requests s) (ar_id r) = None)"

inductive workflow_step ::
    "('p, 'q) approval_codecs \<Rightarrow> ('p, 'q) approval_store \<Rightarrow> ('p, 'q) approval_store \<Rightarrow> bool"
  for c :: "('p, 'q) approval_codecs" where
  requestI: "fresh_outcome s (request_approval c env policy vals prfs fid action who ts run s) \<Longrightarrow>
     workflow_step c s (snd (request_approval c env policy vals prfs fid action who ts run s))"
| transitionI: "workflow_step c s (snd (transition c env aid new_status who reason ts s))"

inductive approval_step ::
    "('p, 'q) approval_codecs \<Rightarrow> ('p, 'q) approval_store \<Rightarrow> ('p, 'q) approval_store \<Rightarrow> bool"
  for c :: "('p, 'q) approval_codecs" where
  workflowI: "workflow_step c s t \<Longrightarrow> approval_step c s t"
| removeI: "approval_step c s (remove_finding fid s)"
| clearI: "approval_step c s (approvals_clear s)"

inductive_cases workflow_stepE: "workflow_step c s t"
inductive_cases approval_stepE: "approval_step c s t"

definition approvals_empty :: "('p, 'q) approval_store \<Rightarrow> bool" where
  "approvals_empty s \<longleftrightarrow> requests s = [] \<and> events s = []"

text \<open>What a request call does, in two cases.\<close>

definition opening_event ::
    "approval_env \<Rightarrow> approval_request \<Rightarrow> approval_event" where
  "opening_event env r =
     \<lparr>ae_id = new_id (env_sha env) (snd (env_uuids env))
        [ar_id r, ''pending'', env_isoformat env (ar_requested_at r)],
      ae_approval_id = ar_id r, ae_finding_id = ar_finding_id r, ae_previous_status = None,
      ae_new_status = Pending, ae_actor = ar_requested_by r, ae_reason = None,
      ae_created_at = ar_requested_at r\<rparr>"

lemma request_approval_cases:
  assumes "request_approval c env policy vals prfs fid action who ts run s = (res, t)"
  obtains (existing) r where "t = s" and "res = Inr r" and "find_active s fid action ACTIVE_STATUSES = Some r"
  | (refused) e where "t = s" and "res = Inl e" and "find_active s fid action ACTIVE_STATUSES = None"
  | (created) r where "t = record_event c (opening_event env r) (save_request c r s)" and "res = Inr r"
      and "find_active s fid action ACTIVE_STATUSES = None"
      and "check_eligibility policy (vals fid) (prfs fid) = None"
      and "ar_finding_id r = fid" and "ar_action r = action" and "ar_status r = Pending" and "ar_version r = 1"
      and "ar_requested_by r = who"
proof (cases "find_active s fid action ACTIVE_STATUSES")
  case (Some r)
  then show ?thesis using assms by (intro existing[of r]) (simp_all add: request_approval_def)
next
  case None
  show ?thesis
  proof (cases res)
    case (Inl e)
    then show ?thesis
      using assms None refused by (auto simp: request_approval_def Let_def split: option.splits sum.splits)
  next
    case (Inr r)
    then show ?thesis
      using assms None
      by (intro created[of r]) (auto simp: request_approval_def Let_def opening_event_def
          split: option.splits sum.splits)
  qed
qed

definition moved_to ::
    "approval_request \<Rightarrow> approval_status \<Rightarrow> string \<Rightarrow> string option \<Rightarrow> py_datetime \<Rightarrow> approval_request" where
  "moved_to r new_status who reason now =
     r\<lparr>ar_status := new_status, ar_reviewed_at := Some now, ar_reviewed_by := Some who, ar_reason := reason,
       ar_version := (if ar_status r = Changes_requested \<and> new_status = Pending then ar_version r + 1
                      else ar_version r)\<rparr>"

lemma moved_to_fields [simp]:
  "ar_id (moved_to r st who reason now) = ar_id r"
  "ar_finding_id (moved_to r st who reason now) = ar_finding_id r"
  "ar_action (moved_to r st who reason now) = ar_action r"
  "ar_status (moved_to r st who reason now) = st"
  "ar_version (moved_to r st who reason now) =
     (if ar_status r = Changes_requested \<and> st = Pending then ar_version r + 1 else ar_version r)"
  by (simp_all add: moved_to_def)

definition transition_event ::
    "approval_env \<Rightarrow> approval_request \<Rightarrow> approval_status \<Rightarrow> string \<Rightarrow> string option \<Rightarrow> py_datetime \<Rightarrow> approval_event" where
  "transition_event env r new_status actor reason now =
     \<lparr>ae_id = new_id (env_sha env) (snd (env_uuids env))
        [ar_id r, status_text new_status, env_isoformat env now, actor],
      ae_approval_id = ar_id r, ae_finding_id = ar_finding_id r, ae_previous_status = Some (ar_status r),
      ae_new_status = new_status, ae_actor = actor, ae_reason = reason, ae_created_at = now\<rparr>"

lemma transition_cases:
  assumes "transition c env aid new_status who reason ts s = (res, t)"
  obtains (unchanged) "t = s" "isl res"
  | (moved) r now e where "t = record_event c e (save_request c (moved_to r new_status who reason now) s)"
      and "res = Inr (moved_to r new_status who reason now)"
      and "dget (requests s) aid = Some r" and "new_status \<in> set (ALLOWED_TRANSITIONS (ar_status r))"
      and "ae_approval_id e = ar_id r" and "ae_finding_id e = ar_finding_id r"
      and "ae_previous_status e = Some (ar_status r)" and "ae_new_status e = new_status" and "ae_actor e = who"
proof (cases "get_request s aid")
  case None
  then show ?thesis using assms unchanged by (auto simp: transition_def)
next
  case (Some r)
  show ?thesis
  proof (cases "new_status \<in> set (ALLOWED_TRANSITIONS (ar_status r))")
    case False
    then show ?thesis using assms unchanged Some by (auto simp: transition_def)
  next
    case True
    show ?thesis
    proof (cases "ensure_aware_utc (case ts of Some t \<Rightarrow> t | None \<Rightarrow> env_now env)")
      case (Inl e)
      then show ?thesis using assms unchanged Some True by (auto simp: transition_def)
    next
      case (Inr now)
      show ?thesis
        by (rule moved[where r = r and now = now and e = "transition_event env r new_status who reason now", OF _ _ _ True])
          (use assms Some True Inr in \<open>simp_all add: transition_def Let_def moved_to_def get_request_def
             transition_event_def\<close>)
    qed
  qed
qed

section \<open>The invariant\<close>

lemma request_ok:
  assumes ok: "store_ok s"
    and fresh: "fresh_outcome s (request_approval c env policy vals prfs fid action who ts run s)"
  shows "store_ok (snd (request_approval c env policy vals prfs fid action who ts run s))"
proof -
  obtain res t where rt: "request_approval c env policy vals prfs fid action who ts run s = (res, t)"
    by (rule prod.exhaust)
  from rt show ?thesis
  proof (cases rule: request_approval_cases)
    case (created r)
    let ?e = "opening_event env r"
    have "\<not> active q" if "dget (requests s) l = Some q" "ar_finding_id q = fid" "ar_action q = action" for l q
      using find_active_None[OF ok] created that by blast
    moreover have "dget (requests s) (ar_id r) \<noteq> Some r"
      using calculation[of "ar_id r" r] created by (auto simp: active_def ACTIVE_STATUSES_def)
    then have "dget (requests s) (ar_id r) = None"
      using fresh created rt by (auto simp: fresh_outcome_def)
    then have none: "events_for s (ar_id r) = []"
      using store_okD(3)[OF ok] by (simp add: events_for_def dget_list_def)
    moreover have "trail_ok (events_for s (ar_id r) @ [?e]) r"
      using created none by (simp add: trail_ok_def replay_def opening_event_def)
    ultimately have "store_ok (record_event c ?e (save_request c r s))"
      using created by (intro save_ok[OF ok]) (auto simp: opening_event_def)
    then show ?thesis using rt created by simp
  qed (use ok rt in simp_all)
qed

lemma transition_ok:
  assumes ok: "store_ok s"
  shows "store_ok (snd (transition c env aid new_status who reason ts s))"
proof -
  obtain res t where rt: "transition c env aid new_status who reason ts s = (res, t)"
    by (rule prod.exhaust)
  from rt show ?thesis
  proof (cases rule: transition_cases)
    case unchanged
    then show ?thesis using ok rt by simp
  next
    case (moved r now e)
    note ok_r = store_okD(2)[OF ok moved(3)]
    have act: "active r"
      using moved by (cases "ar_status r") (simp_all add: active_def ACTIVE_STATUSES_def)
    have "store_ok (record_event c e (save_request c (moved_to r new_status who reason now) s))"
    proof (rule save_ok[OF ok])
      show "trail_ok (events_for s (ar_id (moved_to r new_status who reason now)) @ [e])
          (moved_to r new_status who reason now)"
        using ok_r moved by (simp add: trail_ok_def replay_snoc)
      fix l q
      assume "dget (requests s) l = Some q" "active q"
        "ar_finding_id (moved_to r new_status who reason now) = ar_finding_id q"
        "ar_action (moved_to r new_status who reason now) = ar_action q"
      then show "l = ar_id (moved_to r new_status who reason now)"
        using store_okD(4)[OF ok moved(3) _ act, of l q] ok_r by simp
    qed (use moved in simp_all)
    then show ?thesis using rt moved by simp
  qed
qed

lemma remove_fields:
  assumes "store_ok s"
  shows "dget (requests (remove_finding fid s)) k =
           (case dget (requests s) k of Some r \<Rightarrow> if ar_finding_id r = fid then None else Some r | None \<Rightarrow> None)"
    and "dget (events (remove_finding fid s)) k =
           (case dget (requests s) k of Some r \<Rightarrow> if ar_finding_id r = fid then None else dget (events s) k
            | None \<Rightarrow> None)"
    and "distinct (dkeys (requests (remove_finding fid s)))"
proof -
  note ok = store_okD[OF assms]
  let ?ids = "map ar_id (filter (\<lambda>r. ar_finding_id r = fid) (dvalues (requests s)))"
  have ids: "k \<in> set ?ids \<longleftrightarrow> (\<exists>r. dget (requests s) k = Some r \<and> ar_finding_id r = fid)" for k
  proof
    assume "k \<in> set ?ids"
    then obtain r where "r \<in> set (dvalues (requests s))" "ar_finding_id r = fid" "ar_id r = k" by auto
    then show "\<exists>r. dget (requests s) k = Some r \<and> ar_finding_id r = fid"
      using in_requests_iff[OF assms, of r] ok(2) by metis
  next
    assume "\<exists>r. dget (requests s) k = Some r \<and> ar_finding_id r = fid"
    then obtain r where r: "dget (requests s) k = Some r" "ar_finding_id r = fid" by blast
    then have "r \<in> set (dvalues (requests s))" using in_requests_iff[OF assms, of r] by blast
    then show "k \<in> set ?ids" using r ok(2)[OF r(1)] by (force simp: image_iff)
  qed
  define K where "K = set ?ids"
  have inK: "k \<in> K \<longleftrightarrow> (\<exists>r. dget (requests s) k = Some r \<and> ar_finding_id r = fid)" for k
    unfolding K_def by (rule ids)
  have req: "requests (remove_finding fid s) = filter (\<lambda>kv. fst kv \<notin> K) (requests s)"
    and ev: "events (remove_finding fid s) = filter (\<lambda>kv. fst kv \<notin> K) (events s)"
    unfolding K_def fold_dpop[symmetric] by (simp_all add: remove_finding_def Let_def)
  show "dget (requests (remove_finding fid s)) k =
           (case dget (requests s) k of Some r \<Rightarrow> if ar_finding_id r = fid then None else Some r | None \<Rightarrow> None)"
    unfolding req dget_filter_not using inK[of k] by (auto split: option.split)
  show "dget (events (remove_finding fid s)) k =
           (case dget (requests s) k of Some r \<Rightarrow> if ar_finding_id r = fid then None else dget (events s) k
            | None \<Rightarrow> None)"
    unfolding ev dget_filter_not using inK[of k] ok(3)[of k] by (auto split: option.split)
  show "distinct (dkeys (requests (remove_finding fid s)))"
    unfolding req by (rule distinct_map_filter[OF ok(1)])
qed

lemma remove_ok:
  assumes "store_ok s"
  shows "store_ok (remove_finding fid s)"
proof -
  note ok = store_okD[OF assms] and rem = remove_fields[OF assms]
  have kept: "dget (requests s) k = Some r \<and> ar_finding_id r \<noteq> fid"
    if "dget (requests (remove_finding fid s)) k = Some r" for k r
    using that by (auto simp: rem split: option.splits if_splits)
  have ev: "events_for (remove_finding fid s) k = events_for s k"
    if "dget (requests (remove_finding fid s)) k = Some r" for k r
    using kept[OF that] by (simp add: events_for_def dget_list_def rem)
  show ?thesis
    unfolding store_ok_def
  proof (intro conjI allI impI)
    show "distinct (dkeys (requests (remove_finding fid s)))" by (rule rem(3))
    fix k r
    assume k: "dget (requests (remove_finding fid s)) k = Some r"
    then show "ar_id r = k" and "trail_ok (events_for (remove_finding fid s) k) r"
      using ok(2)[of k r] kept[OF k] ev[OF k] by simp_all
  next
    fix k
    assume "dget (requests (remove_finding fid s)) k = None"
    then show "dget (events (remove_finding fid s)) k = None"
      by (auto simp: rem split: option.splits if_splits)
  next
    fix k l r q
    assume "dget (requests (remove_finding fid s)) k = Some r" "dget (requests (remove_finding fid s)) l = Some q"
      "active r" "active q" "ar_finding_id r = ar_finding_id q" "ar_action r = ar_action q"
    then show "k = l" using ok(4) kept by blast
  qed
qed

lemma clear_ok: "store_ok (approvals_clear s)"
  by (simp add: store_ok_def approvals_clear_def)

lemma workflow_step_ok: "workflow_step c s t \<Longrightarrow> store_ok s \<Longrightarrow> store_ok t"
  by (auto elim!: workflow_stepE intro: request_ok transition_ok)

lemma approval_step_ok: "approval_step c s t \<Longrightarrow> store_ok s \<Longrightarrow> store_ok t"
  by (auto elim!: approval_stepE intro: workflow_step_ok remove_ok clear_ok)

interpretation approvals: invariant_system approvals_empty "approval_step c" store_ok
  for c :: "('p, 'q) approval_codecs"
proof
  show "store_ok s" if "approvals_empty s" for s :: "('p, 'q) approval_store"
    using that by (simp add: approvals_empty_def store_ok_def)
  show "store_ok t" if "store_ok s" and "approval_step c s t" for s t
    using that approval_step_ok by blast
qed

section \<open>What a workflow never takes back\<close>

text \<open>
  The observation of the monotone system: every audit trail and every terminal request. Trails only
  grow at their end, terminal requests stay as they are.
\<close>

type_synonym approval_view = "(string \<Rightarrow> approval_event list) \<times> (string \<Rightarrow> approval_request option)"

definition approval_view :: "('p, 'q) approval_store \<Rightarrow> approval_view" where
  "approval_view s = (events_for s, dget (requests s))"

definition succeeds :: "approval_request \<Rightarrow> approval_request \<Rightarrow> bool" where
  "succeeds r q \<longleftrightarrow> ar_version r \<le> ar_version q \<and> ar_finding_id q = ar_finding_id r \<and>
     ar_action q = ar_action r \<and> (terminal r \<longrightarrow> q = r)"

lemma succeeds_refl [simp]: "succeeds r r"
  by (simp add: succeeds_def)

lemma succeeds_trans: "succeeds a b \<Longrightarrow> succeeds b d \<Longrightarrow> succeeds a d"
  by (auto simp: succeeds_def)

definition view_le :: "approval_view \<Rightarrow> approval_view \<Rightarrow> bool" where
  "view_le a b \<longleftrightarrow> (\<forall>k. prefix (fst a k) (fst b k)) \<and>
     (\<forall>k r. snd a k = Some r \<longrightarrow> (\<exists>q. snd b k = Some q \<and> succeeds r q))"

lemma view_le_refl: "view_le a a"
  by (auto simp: view_le_def)

lemma view_le_trans: "view_le a b \<Longrightarrow> view_le b d \<Longrightarrow> view_le a d"
  unfolding view_le_def by (meson prefix_order.trans succeeds_trans)

lemma save_view:
  assumes "\<And>q. dget (requests s) (ar_id r) = Some q \<Longrightarrow> succeeds q r"
  shows "view_le (approval_view s) (approval_view (record_event c e (save_request c r s)))"
  using assms by (simp add: view_le_def approval_view_def)

lemma workflow_view:
  assumes "store_ok s" and "workflow_step c s t"
  shows "view_le (approval_view s) (approval_view t)"
  using assms(2)
proof cases
  case (requestI env policy vals prfs fid action who ts run)
  obtain res where rt: "request_approval c env policy vals prfs fid action who ts run s = (res, t)"
    by (rule that[of "fst (request_approval c env policy vals prfs fid action who ts run s)"])
      (simp add: requestI(1))
  from rt show ?thesis
  proof (cases rule: request_approval_cases)
    case (created r)
    have "dget (requests s) (ar_id r) = None \<or> dget (requests s) (ar_id r) = Some r"
      using requestI(2) unfolding fresh_outcome_def rt created(2) by auto
    then show ?thesis unfolding created(1) by (intro save_view) auto
  qed (simp_all add: view_le_refl)
next
  case (transitionI env aid new_status who reason ts)
  obtain res where rt: "transition c env aid new_status who reason ts s = (res, t)"
    by (rule that[of "fst (transition c env aid new_status who reason ts s)"]) (simp add: transitionI)
  from rt show ?thesis
  proof (cases rule: transition_cases)
    case (moved r now e)
    have "\<not> terminal r"
      using moved(4) by (cases "ar_status r") (simp_all add: terminal_def TERMINAL_STATUSES_def)
    then show ?thesis
      unfolding moved(1) using moved(3) store_okD(2)[OF assms(1) moved(3)]
      by (intro save_view) (auto simp: succeeds_def)
  qed (simp add: view_le_refl)
qed

interpretation workflow: monotone_system approvals_empty "workflow_step c" store_ok approval_view view_le
  for c :: "('p, 'q) approval_codecs"
proof
  show "store_ok s" if "approvals_empty s" for s :: "('p, 'q) approval_store"
    using that by (simp add: approvals_empty_def store_ok_def)
  show "store_ok t" if "store_ok s" and "workflow_step c s t" for s t
    using that workflow_step_ok by blast
  show "view_le a b \<Longrightarrow> view_le b d \<Longrightarrow> view_le a d" for a b d by (rule view_le_trans)
qed (auto intro: view_le_refl workflow_view)

end
