(* ===== verification/Approval_Restart.thy ===== *)
theory Approval_Restart
  imports Approval_Workflow
begin

text \<open>
  Persistence of the approval workflow: on lossless tables the two dictionaries are the tables' content at
  every reachable store, so a restart serves the same requests and the same audit trails, the latter
  sorted by creation time.
\<close>

definition event_row :: "(approval_event, 'q) codec \<Rightarrow> approval_event \<Rightarrow> string \<times> string \<times> 'q" where
  "event_row c e = (ae_id e, dump (event_codec c) e)"

definition mirrored :: "('p, 'q) approval_codecs \<Rightarrow> ('p, 'q) approval_store \<Rightarrow> bool" where
  "mirrored c s \<longleftrightarrow>
     request_rows s = Some (dmap (dump (request_codec (fst c))) (requests s)) \<and>
     (\<exists>evs. event_rows s = Some (map (event_row (snd c)) evs) \<and>
        (\<forall>a. events_for s a = filter (\<lambda>e. ae_approval_id e = a) evs))"

lemma lossless_columns:
  "lossless c \<Longrightarrow> lossless (request_codec c)" "lossless d \<Longrightarrow> lossless (event_codec d)"
  by (simp_all add: lossless_def request_codec_def event_codec_def)

lemma mirrored_save:
  assumes "mirrored c s"
  shows "mirrored c (record_event c e (save_request c r s))"
proof -
  obtain evs where evs: "event_rows s = Some (map (event_row (snd c)) evs)"
      "\<And>a. events_for s a = filter (\<lambda>e. ae_approval_id e = a) evs"
    using assms by (auto simp: mirrored_def)
  have rows: "request_rows (record_event c e (save_request c r s)) =
      Some (dmap (dump (request_codec (fst c))) (requests (record_event c e (save_request c r s))))"
    using assms by (simp add: mirrored_def record_event_def save_request_def)
  moreover have "event_rows (record_event c e (save_request c r s)) = Some (map (event_row (snd c)) (evs @ [e]))"
    using evs(1) by (simp add: record_event_def save_request_def event_row_def)
  moreover have "events_for (record_event c e (save_request c r s)) a =
      filter (\<lambda>e. ae_approval_id e = a) (evs @ [e])" for a
    using evs(2) by auto
  ultimately show ?thesis unfolding mirrored_def by blast
qed

lemma mirrored_workflow:
  assumes "mirrored c s" and "workflow_step c s t"
  shows "mirrored c t"
  using assms(2)
proof cases
  case (requestI env policy vals prfs fid action who ts run)
  obtain res where "request_approval c env policy vals prfs fid action who ts run s = (res, t)"
    by (rule that[of "fst (request_approval c env policy vals prfs fid action who ts run s)"])
      (simp add: requestI(1))
  then show ?thesis
    by (cases rule: request_approval_cases) (auto intro: assms(1) mirrored_save)
next
  case (transitionI env aid new_status who reason ts)
  obtain res where "transition c env aid new_status who reason ts s = (res, t)"
    by (rule that[of "fst (transition c env aid new_status who reason ts s)"]) (simp add: transitionI)
  then show ?thesis
    by (cases rule: transition_cases) (auto intro: assms(1) mirrored_save)
qed

lemma mirrored_clear:
  assumes "mirrored c s"
  shows "mirrored c (approvals_clear s)"
  using assms by (auto simp: mirrored_def approvals_clear_def events_for_def dget_list_def
      intro: exI[of _ "[]"])

lemma mirrored_remove:
  assumes ok: "store_ok s" and "mirrored c s"
  shows "mirrored c (remove_finding fid s)"
proof -
  note wf = store_okD[OF ok]
  obtain evs where evs: "event_rows s = Some (map (event_row (snd c)) evs)"
      "\<And>a. events_for s a = filter (\<lambda>e. ae_approval_id e = a) evs"
    and rows: "request_rows s = Some (dmap (dump (request_codec (fst c))) (requests s))"
    using assms(2) by (auto simp: mirrored_def)
  define ids where "ids = map ar_id (filter (\<lambda>r. ar_finding_id r = fid) (dvalues (requests s)))"
  have ids: "k \<in> set ids \<longleftrightarrow> ar_finding_id r = fid" if "(k, r) \<in> set (requests s)" for k r
  proof -
    have get: "dget (requests s) k = Some r" using that wf(1) by simp
    then have "ar_id r = k" using wf(2) by blast
    moreover have "q = r" if "q \<in> set (dvalues (requests s))" "ar_id q = k" for q
      using that in_requests_iff[OF ok, of q] wf(2) get by (metis option.inject)
    ultimately show ?thesis using that unfolding ids_def by force
  qed
  have req: "requests (remove_finding fid s) = filter (\<lambda>kv. fst kv \<notin> set ids) (requests s)"
    and ev: "events (remove_finding fid s) = filter (\<lambda>kv. fst kv \<notin> set ids) (events s)"
    unfolding fold_dpop[symmetric] by (simp_all add: remove_finding_def Let_def ids_def)
  have "request_rows (remove_finding fid s) =
      Some (filter (\<lambda>(k, col, p). col \<noteq> fid) (dmap (dump (request_codec (fst c))) (requests s)))"
    using rows by (simp add: remove_finding_def Let_def)
  also have "filter (\<lambda>(k, col, p). col \<noteq> fid) (dmap (dump (request_codec (fst c))) (requests s)) =
      dmap (dump (request_codec (fst c))) (filter (\<lambda>kv. fst kv \<notin> set ids) (requests s))"
    unfolding dmap_def filter_map
    by (rule arg_cong[where f = "map _"], rule filter_cong) (auto simp: ids request_codec_def)
  finally have R: "request_rows (remove_finding fid s) =
      Some (dmap (dump (request_codec (fst c))) (requests (remove_finding fid s)))"
    by (simp only: req)
  let ?evs = "filter (\<lambda>e. ae_approval_id e \<notin> set ids) evs"
  have "event_rows (remove_finding fid s) =
      Some (filter (\<lambda>(k, col, p). col \<notin> set ids) (map (event_row (snd c)) evs))"
    using evs(1) by (cases "ids = []")
      (simp_all add: remove_finding_def Let_def case_prod_beta flip: ids_def)
  also have "filter (\<lambda>(k, col, p). col \<notin> set ids) (map (event_row (snd c)) evs) = map (event_row (snd c)) ?evs"
    unfolding filter_map
    by (rule arg_cong[where f = "map _"], rule filter_cong) (auto simp: event_row_def event_codec_def)
  finally have E: "event_rows (remove_finding fid s) = Some (map (event_row (snd c)) ?evs)" .
  have "events_for (remove_finding fid s) a = filter (\<lambda>e. ae_approval_id e = a) ?evs" for a
  proof -
    have "events_for (remove_finding fid s) a = (if a \<in> set ids then [] else events_for s a)"
      unfolding events_for_def dget_list_def ev dget_filter_not by simp
    also have "\<dots> = filter (\<lambda>e. ae_approval_id e = a) ?evs"
      by (cases "a \<in> set ids") (auto simp: evs(2) filter_empty_conv eq_commute[of "[]"] intro: filter_cong)
    finally show ?thesis .
  qed
  with R E show ?thesis unfolding mirrored_def by blast
qed

definition persistent :: "('p, 'q) approval_codecs \<Rightarrow> ('p, 'q) approval_store \<Rightarrow> bool" where
  "persistent c s \<longleftrightarrow> store_ok s \<and> mirrored c s"

definition tables_empty :: "('p, 'q) approval_store \<Rightarrow> bool" where
  "tables_empty s \<longleftrightarrow> approvals_empty s \<and> request_rows s = Some [] \<and> event_rows s = Some []"

interpretation persistence: invariant_system tables_empty "approval_step c" "persistent c"
  for c :: "('p, 'q) approval_codecs"
proof
  show "persistent c s" if "tables_empty s" for s
    using that approvals.inv_init[of s]
    by (auto simp: persistent_def tables_empty_def mirrored_def approvals_empty_def events_for_def
        dget_list_def intro: exI[of _ "[]"])
  show "persistent c t" if "persistent c s" and "approval_step c s t" for s t
    using that(2,1) approval_step_ok[OF that(2)]
    by (auto simp: persistent_def elim!: approval_stepE
        intro: mirrored_workflow mirrored_remove mirrored_clear)
qed

section \<open>Rehydration\<close>

lemma load_event_rows:
  "lossless d \<Longrightarrow> load_rows (event_codec d) (map (event_row d) evs) = Some (map (\<lambda>e. (ae_id e, e)) evs)"
  using lossless_columns(2)[of d] by (induction evs) (simp_all add: event_row_def lossless_def)

lemma regroup:
  "dget_list (fold (\<lambda>(k, e). dappend (ae_approval_id e) e) (map (\<lambda>e. (ae_id e, e)) evs) d) a =
     dget_list d a @ filter (\<lambda>e. ae_approval_id e = a) evs"
  by (induction evs arbitrary: d) auto

lemma rehydrate_persistent:
  assumes "lossless (fst c)" and "lossless (snd c)" and "persistent c s"
  shows "\<exists>s'. rehydrate c (request_rows s) (event_rows s) = Some s' \<and> requests s' = requests s \<and>
     (\<forall>k. events_for s' k = sort_key (\<lambda>e. utc_instant (ae_created_at e)) (events_for s k))"
proof -
  obtain evs where evs: "event_rows s = Some (map (event_row (snd c)) evs)"
      "\<And>a. events_for s a = filter (\<lambda>e. ae_approval_id e = a) evs"
    and rows: "request_rows s = Some (dmap (dump (request_codec (fst c))) (requests s))"
    using assms(3) by (auto simp: mirrored_def persistent_def)
  have dist: "distinct (dkeys (requests s))" using assms(3) store_okD(1) by (auto simp: persistent_def)
  have "db_load_all (request_codec (fst c)) (request_rows s) = Some (requests s)"
    using load_rows_dmap_dump[OF lossless_columns(1)[OF assms(1)]] by (simp add: rows db_load_all_def)
  moreover have "db_load_all (event_codec (snd c)) (event_rows s) = Some (map (\<lambda>e. (ae_id e, e)) evs)"
    using load_event_rows[OF assms(2)] by (simp add: evs(1) db_load_all_def)
  moreover define G where "G = fold (\<lambda>(k, e). dappend (ae_approval_id e) e) (map (\<lambda>e. (ae_id e, e)) evs) []"
  moreover define s' where "s' = \<lparr>requests = requests s,
      events = dmap (sort_key (\<lambda>e. utc_instant (ae_created_at e))) G,
      request_rows = request_rows s, event_rows = event_rows s\<rparr>"
  ultimately have "rehydrate c (request_rows s) (event_rows s) = Some s'"
    using dput_all_empty[OF dist] by (simp add: rehydrate_def as_aware_utc_alt)
  moreover have "events_for s' k = sort_key (\<lambda>e. utc_instant (ae_created_at e)) (events_for s k)" for k
  proof -
    have "events_for s' k = sort_key (\<lambda>e. utc_instant (ae_created_at e)) (dget_list G k)"
      by (simp add: events_for_def s'_def dget_list_dmap)
    also have "dget_list G k = events_for s k"
      using regroup[of evs "[]" k] by (simp add: G_def evs(2) dget_list_def)
    finally show ?thesis .
  qed
  moreover have "requests s' = requests s" by (simp add: s'_def)
  ultimately show ?thesis by blast
qed

end
