(* ===== verification/Approval_Properties.thy ===== *)
theory Approval_Properties
  imports Approval_Restart
begin

text \<open>
  The properties of the approval workflow, with a sample run for their witnesses: two requests for one
  finding, an approval of the first and a second request for it.
\<close>

section \<open>A sample run\<close>

definition open_policy :: approval_policy where
  "open_policy = \<lparr>require_validation = False, require_proof = False, allowed_actions = [Remediation],
     allow_re_request_after_terminal = False\<rparr>"

definition env_at :: "string \<Rightarrow> int \<Rightarrow> approval_env" where
  "env_at uuid now = \<lparr>env_sha = (\<lambda>_. []), env_uuids = (uuid, uuid), env_isoformat = (\<lambda>_. []), env_now = utc now\<rparr>"

type_synonym sample_store = "(approval_request, approval_event) approval_store"

definition sample_codecs :: "(approval_request, approval_event) approval_codecs" where
  "sample_codecs = (id_codec, id_codec)"

definition store0 :: sample_store where
  "store0 = \<lparr>requests = [], events = [], request_rows = Some [], event_rows = Some []\<rparr>"

definition ask :: "string \<Rightarrow> int \<Rightarrow> approval_action \<Rightarrow> sample_store \<Rightarrow> (approval_error + approval_request) \<times> sample_store" where
  "ask uuid now action s =
     request_approval sample_codecs (env_at uuid now) open_policy (\<lambda>_. None) (\<lambda>_. None) ''f'' action ''ann''
       None None s"

definition store1 :: sample_store where "store1 = snd (ask ''A'' 1 Remediation store0)"
definition store2 :: sample_store where "store2 = snd (ask ''B'' 2 Other_action store1)"
definition store3 :: sample_store where
  "store3 = snd (approve sample_codecs (env_at ''E'' 3) ''A'' ''bob'' None None store2)"

lemma status_in_store3:
  "map_option ar_status (get_request store3 ''A'') = Some Approved"
  "map_option ar_status (get_request store3 ''B'') = Some Pending"
  by code_simp+

lemma fresh_ids: "get_request store0 ''A'' = None" "get_request store1 ''B'' = None"
  by code_simp+

lemma ask_ids: "map_sum id ar_id (fst (ask ''A'' 1 Remediation store0)) = Inr ''A''"
  "map_sum id ar_id (fst (ask ''B'' 2 Other_action store1)) = Inr ''B''"
  by code_simp+

lemma fresh_by_id:
  assumes "map_sum id ar_id (fst res) = Inr k" and "get_request s k = None"
  shows "fresh_outcome s res"
  using assms by (cases "fst res") (auto simp: fresh_outcome_def get_request_def)

lemma reach_store3: "(workflow_step sample_codecs)\<^sup>*\<^sup>* store0 store3"
proof -
  have "workflow_step sample_codecs store0 store1"
    unfolding store1_def ask_def
    by (rule requestI, rule fresh_by_id[OF _ fresh_ids(1)]) (rule ask_ids[unfolded ask_def])
  moreover have "workflow_step sample_codecs store1 store2"
    unfolding store2_def ask_def
    by (rule requestI, rule fresh_by_id[OF _ fresh_ids(2)]) (rule ask_ids[unfolded ask_def])
  moreover have "workflow_step sample_codecs store2 store3"
    unfolding store3_def approve_def by (rule transitionI)
  ultimately show ?thesis
    by (blast intro: converse_rtranclp_into_rtranclp)
qed

lemma store0_empty [simp]: "approvals_empty store0"
  by (simp add: approvals_empty_def store0_def)

lemma workflow_reachable: "(workflow_step c)\<^sup>*\<^sup>* s t \<Longrightarrow> (approval_step c)\<^sup>*\<^sup>* s t"
  by (rule rtranclp_mono[THEN predicate2D]) (auto intro: workflowI)

section \<open>Properties\<close>

text \<open>C10. In every reachable store, whatever requests, decisions, deletions and clears happened in whatever
  order, a request is stored under its id and replaying its audit trail over the state machine
  (pending; approved, rejected or changes requested; changes requested back to pending with the version
  increased) gives exactly its status and version.\<close>

theorem approval_trail_replays:
  assumes "approvals_empty s0" and "(approval_step c)\<^sup>*\<^sup>* s0 s" and "get_request s k = Some r"
  shows "ar_id r = k \<and> replay (events_for s k) = Some (ar_status r, ar_version r)"
  using store_okD(2)[OF approvals.inv_reachable[OF assms(1,2)]] assms(3)
  by (simp add: get_request_def trail_ok_def)

theorem approval_trail_replays_witness:
  "\<exists>r. get_request store3 ''A'' = Some r \<and> replay (events_for store3 ''A'') = Some (Approved, ar_version r)"
proof -
  obtain r where "get_request store3 ''A'' = Some r" "ar_status r = Approved"
    using status_in_store3(1) by auto
  then show ?thesis
    using approval_trail_replays[OF store0_empty workflow_reachable[OF reach_store3]] by metis
qed

text \<open>At most one request per finding and action is open (pending or changes requested) in any reachable
  store.\<close>

theorem one_open_request:
  assumes "approvals_empty s0" and "(approval_step c)\<^sup>*\<^sup>* s0 s"
    and "get_request s k = Some r" and "get_request s l = Some q" and "active r" and "active q"
    and "ar_finding_id r = ar_finding_id q" and "ar_action r = ar_action q"
  shows "k = l \<and> r = q"
  using store_okD(4)[OF approvals.inv_reachable[OF assms(1,2)]] assms(3-) by (metis get_request_def option.inject)

theorem one_open_request_witness:
  "\<exists>r. get_request store3 ''B'' = Some r \<and> active r \<and> (''B'' = ''B'' \<and> r = r)"
proof -
  obtain r where r: "get_request store3 ''B'' = Some r" "active r"
    using status_in_store3(2) by (auto simp: active_def ACTIVE_STATUSES_def)
  from one_open_request[OF store0_empty workflow_reachable[OF reach_store3] r(1) r(1) r(2) r(2) refl refl] r
  show ?thesis by blast
qed

text \<open>Requests and decisions never rewrite the past: along them every audit trail keeps its events as a
  prefix, versions never decrease, and an approved or rejected request stays as it is for good.\<close>

theorem workflow_keeps_history:
  assumes "approvals_empty s0" and "(workflow_step c)\<^sup>*\<^sup>* s0 s" and "(workflow_step c)\<^sup>*\<^sup>* s t"
    and "get_request s k = Some r"
  shows "prefix (events_for s k) (events_for t k) \<and>
         (\<exists>q. get_request t k = Some q \<and> ar_version r \<le> ar_version q \<and> (terminal r \<longrightarrow> q = r))"
proof -
  have "view_le (approval_view s) (approval_view t)"
    using workflow.obs_steps[OF assms(3) workflow.inv_reachable[OF assms(1,2)]] .
  then show ?thesis
    using assms(4) unfolding view_le_def approval_view_def get_request_def succeeds_def fst_conv snd_conv
    by blast
qed

theorem workflow_keeps_history_witness:
  "\<exists>r. get_request store3 ''A'' = Some r \<and> terminal r \<and>
     get_request (snd (reject sample_codecs (env_at ''X'' 9) ''A'' ''eve'' None None store3)) ''A'' = Some r"
proof -
  obtain r where r: "get_request store3 ''A'' = Some r" "terminal r"
    using status_in_store3(1) by (auto simp: terminal_def TERMINAL_STATUSES_def)
  have "(workflow_step sample_codecs)\<^sup>*\<^sup>* store3
      (snd (reject sample_codecs (env_at ''X'' 9) ''A'' ''eve'' None None store3))"
    unfolding reject_def by (rule r_into_rtranclp) (rule transitionI)
  from workflow_keeps_history[OF store0_empty reach_store3 this r(1)] r show ?thesis by blast
qed

text \<open>Under the default policy a request that is not already stored is only created for a finding whose
  validation verdict is true positive and whose proof is verified; it starts pending with version 1, with one
  audit event.\<close>

theorem approval_gate:
  assumes "request_approval c env default_approval_policy vals prfs fid action who ts run s = (Inr r, t)"
    and "r \<notin> set (dvalues (requests s))"
  shows "(\<exists>v p. vals fid = Some v \<and> vr_verdict v = True_positive \<and> prfs fid = Some p \<and> pr_status p = Verified) \<and>
         ar_status r = Pending \<and> ar_version r = 1 \<and> ar_finding_id r = fid \<and> get_request t (ar_id r) = Some r \<and>
         length (events_for t (ar_id r)) = length (events_for s (ar_id r)) + 1"
  using assms(1)
proof (cases rule: request_approval_cases)
  case (existing q)
  then have "r \<in> set (dvalues (requests s))" by (auto simp: find_active_def dest: find_SomeD)
  then show ?thesis using assms(2) by simp
next
  case (created q)
  then have "r = q" by simp
  then show ?thesis
    using created
    by (auto simp: check_eligibility_def default_approval_policy_def get_request_def Let_def
        opening_event_def split: option.splits if_splits)
qed simp


definition proved_finding :: proof_result where
  "proved_finding = proof_result_of (utc 0) 1 sample_finding (sample_validation True_positive) None Verified
     [] default_policy [] None"

definition gated_request :: "(approval_error + approval_request) \<times> sample_store" where
  "gated_request = request_approval sample_codecs (env_at ''A'' 1) default_approval_policy
     [''f'' \<mapsto> sample_validation True_positive] [''f'' \<mapsto> proved_finding] ''f'' Remediation ''ann'' None None store0"

theorem approval_gate_witness:
  "\<exists>r t. gated_request = (Inr r, t) \<and> ar_status r = Pending \<and> get_request t (ar_id r) = Some r"
proof -
  obtain r t where rt: "gated_request = (Inr r, t)"
    by (cases gated_request)
      (auto simp: gated_request_def request_approval_def store0_def find_active_def find_for_finding_def
        check_eligibility_def default_approval_policy_def sample_validation_def proved_finding_def
        ensure_aware_utc_def env_at_def utc_def Let_def)
  moreover have "r \<notin> set (dvalues (requests store0))" by (simp add: store0_def)
  ultimately show ?thesis using approval_gate[OF rt[unfolded gated_request_def]] by blast
qed

text \<open>A refused request or decision changes nothing: whenever a service call ends in an error (a gate, an
  unknown id, a transition the state machine does not have, a naive time), the store is the one before.\<close>

theorem approval_errors_change_nothing:
  "(isl (fst (request_approval c env policy vals prfs fid action who ts run s)) \<longrightarrow>
      snd (request_approval c env policy vals prfs fid action who ts run s) = s) \<and>
   (isl (fst (transition c env aid st who reason ts s)) \<longrightarrow>
      snd (transition c env aid st who reason ts s) = s)"
proof (intro conjI impI)
  assume err: "isl (fst (request_approval c env policy vals prfs fid action who ts run s))"
  obtain res t where rt: "request_approval c env policy vals prfs fid action who ts run s = (res, t)"
    by (rule prod.exhaust)
  from rt show "snd (request_approval c env policy vals prfs fid action who ts run s) = s"
    by (cases rule: request_approval_cases) (use err rt in auto)
next
  assume err: "isl (fst (transition c env aid st who reason ts s))"
  obtain res t where rt: "transition c env aid st who reason ts s = (res, t)"
    by (rule prod.exhaust)
  from rt show "snd (transition c env aid st who reason ts s) = s"
    by (cases rule: transition_cases) (use err rt in auto)
qed

theorem approval_errors_change_nothing_witness:
  "isl (fst (approve sample_codecs (env_at ''E'' 3) ''nope'' ''bob'' None None store2)) \<and>
   snd (approve sample_codecs (env_at ''E'' 3) ''nope'' ''bob'' None None store2) = store2"
proof -
  have "get_request store2 ''nope'' = None" by code_simp
  then have "isl (fst (transition sample_codecs (env_at ''E'' 3) ''nope'' Approved ''bob'' None None store2))"
    by (simp add: transition_def)
  then show ?thesis
    using approval_errors_change_nothing[where c = sample_codecs and env = "env_at ''E'' 3" and aid = "''nope''"
        and st = Approved and who = "''bob''" and reason = None and ts = None and s = store2]
    by (simp add: approve_def)
qed

lemma replay_ends_approved:
  assumes "replay es = Some (Approved, v)"
  shows "\<exists>ds e. es = ds @ [e] \<and> ae_new_status e = Approved \<and> ae_previous_status e = Some Pending"
proof (cases es rule: rev_cases)
  case Nil
  then show ?thesis using assms by (simp add: replay_def)
next
  case (snoc ds e)
  then have step: "replay_event (replay ds) e = Some (Approved, v)" using assms by (simp add: replay_snoc)
  then obtain st w where d: "replay ds = Some (st, w)" by (cases "replay ds") (auto split: if_splits)
  then show ?thesis using step snoc by (cases st) (auto split: if_splits)
qed

text \<open>An action is only ever permitted by a recorded decision: when is_action_allowed says yes in a
  reachable store, the trail of the request ends with an event that moved it from pending to approved, and the
  policy lists its action.\<close>

theorem permission_needs_decision:
  assumes "approvals_empty s0" and "(approval_step c)\<^sup>*\<^sup>* s0 s" and "is_action_allowed policy k s"
  shows "(\<exists>ds e. events_for s k = ds @ [e] \<and> ae_new_status e = Approved \<and> ae_previous_status e = Some Pending) \<and>
         (\<exists>r. get_request s k = Some r \<and> ar_action r \<in> set (allowed_actions policy))"
proof -
  obtain r where r: "get_request s k = Some r" "ar_status r = Approved" "ar_action r \<in> set (allowed_actions policy)"
    using assms(3) by (auto simp: is_action_allowed_def split: option.splits)
  have "replay (events_for s k) = Some (ar_status r, ar_version r)"
    using store_okD(2)[OF approvals.inv_reachable[OF assms(1,2)]] r(1)
    by (simp add: get_request_def trail_ok_def)
  then show ?thesis using replay_ends_approved r by auto
qed

theorem permission_needs_decision_witness:
  "is_action_allowed open_policy ''A'' store3 \<and>
   (\<exists>ds e. events_for store3 ''A'' = ds @ [e] \<and> ae_new_status e = Approved \<and> ae_previous_status e = Some Pending)"
proof -
  have "is_action_allowed open_policy ''A'' store3" by code_simp
  then show ?thesis
    using permission_needs_decision[OF store0_empty workflow_reachable[OF reach_store3]] by blast
qed

text \<open>The policy against re-requests is per finding, not per finding and action: after a remediation was
  approved, an older pending request for another action lets a second remediation request through, although the
  policy forbids re-requests for the same finding and action.\<close>

theorem re_request_after_terminal_slips_through:
  "\<not> allow_re_request_after_terminal open_policy \<and>
   map_option (\<lambda>r. (ar_finding_id r, ar_action r, ar_status r)) (get_request store3 ''A'') =
     Some (''f'', Remediation, Approved) \<and>
   map_sum id (\<lambda>r. (ar_id r, ar_finding_id r, ar_action r, ar_status r)) (fst (ask ''C'' 4 Remediation store3)) =
     Inr (''C'', ''f'', Remediation, Pending)"
  by code_simp

text \<open>On lossless tables every reachable store survives a restart: the requests are the same and every audit
  trail has the same events, sorted (stably) by creation time.\<close>

theorem approvals_survive_restart:
  assumes "lossless (fst c)" and "lossless (snd c)"
    and "tables_empty s0" and "(approval_step c)\<^sup>*\<^sup>* s0 s"
  shows "\<exists>s'. rehydrate c (request_rows s) (event_rows s) = Some s' \<and> requests s' = requests s \<and>
     (\<forall>k. events_for s' k = sort_key (\<lambda>e. utc_instant (ae_created_at e)) (events_for s k))"
  by (rule rehydrate_persistent[OF assms(1,2) persistence.inv_reachable[OF assms(3,4)]])

theorem approvals_survive_restart_witness:
  "\<exists>s'. rehydrate sample_codecs (request_rows store3) (event_rows store3) = Some s' \<and> requests s' = requests store3"
proof -
  have "tables_empty store0" by (simp add: tables_empty_def) (simp add: store0_def)
  moreover have "lossless (fst sample_codecs)" "lossless (snd sample_codecs)" by (simp_all add: sample_codecs_def)
  ultimately show ?thesis
    using approvals_survive_restart[OF _ _ _ workflow_reachable[OF reach_store3]] by blast
qed

end
