(* ===== verification/Remediation_Properties.thy ===== *)
theory Remediation_Properties
  imports Remediation Approval_Properties
begin

text \<open>
  Remediation proved: a patch touches one statement, files change only behind the approval gate and inside the
  repository copy, the record's life cycle, what verification depends on, and four places where the workflow does
  something other than its documentation says.
\<close>

section \<open>The patch\<close>

lemma extent_le: "statement_extent n ls \<le> length ls"
  by (induction ls) (auto simp: Let_def)

definition closes :: "nat \<Rightarrow> string \<Rightarrow> bool" where
  "closes n l \<longleftrightarrow> indent_of (rstrip_newline l) = n \<and> strip (rstrip_newline l) \<in> {'')'', '']'', ''}''}"

definition continues :: "nat \<Rightarrow> string \<Rightarrow> bool" where
  "continues n l \<longleftrightarrow> rstrip_newline l \<noteq> [] \<and> n < indent_of (rstrip_newline l)"

text \<open>The lines of the extent: indented ones, then at most one closing bracket.\<close>

lemma extent_block:
  "\<exists>body closing. take (statement_extent n ls) ls = body @ closing \<and> (\<forall>l \<in> set body. continues n l) \<and>
     (closing = [] \<or> (\<exists>l. closing = [l] \<and> closes n l))"
proof (induction ls)
  case (Cons l ls)
  show ?case
  proof (cases "continues n l")
    case True
    then have "statement_extent n (l # ls) = Suc (statement_extent n ls)" by (simp add: continues_def Let_def)
    moreover obtain body closing where "take (statement_extent n ls) ls = body @ closing"
      and "\<forall>l \<in> set body. continues n l" and "closing = [] \<or> (\<exists>l. closing = [l] \<and> closes n l)"
      using Cons.IH by blast
    ultimately have "take (statement_extent n (l # ls)) (l # ls) = (l # body) @ closing"
      and "\<forall>x \<in> set (l # body). continues n x" and "closing = [] \<or> (\<exists>l. closing = [l] \<and> closes n l)"
      using True by auto
    then show ?thesis by blast
  next
    case False
    then have "take (statement_extent n (l # ls)) (l # ls) = [] \<or>
        take (statement_extent n (l # ls)) (l # ls) = [l] \<and> closes n l"
      by (auto simp: continues_def closes_def Let_def)
    then show ?thesis by force
  qed
qed simp

lemma insert_import_split:
  assumes "parse source = Inr d"
  shows "\<exists>a b. source = a @ b \<and> insert_import parse source i = a @ i @ [LF] @ b"
proof -
  define n where "n = (case d of None \<Rightarrow> 0 | Some m \<Rightarrow> m)"
  define ls where "ls = splitlines_keepends source"
  have "source = concat (take n ls) @ concat (drop n ls)"
    using concat_splitlines_keepends[of source] unfolding ls_def by (metis append_take_drop_id concat_append)
  moreover have "insert_import parse source i = concat (take n ls) @ i @ [LF] @ concat (drop n ls)"
    by (simp add: insert_import_def assms Let_def n_def ls_def)
  ultimately show ?thesis by blast
qed

text \<open>The patched text before an import is added.\<close>

definition patched_text :: "remediation_proposal \<Rightarrow> string list \<Rightarrow> string" where
  "patched_text p lines =
     (let idx = rp_line p - 1;
          end_idx = idx + 1 + statement_extent (indent_of (rp_before p)) (drop (idx + 1) lines)
      in concat (take idx lines @ replacement_lines (rp_after p) @ drop end_idx lines))"

lemma apply_proposal_Inr:
  assumes "apply_proposal parse p source = Inr out"
  shows "rp_strategy p \<noteq> ''no_automatic_fix''" and "0 < rp_line p"
    and "rp_line p \<le> length (splitlines_keepends source)"
    and "rstrip_newline (splitlines_keepends source ! (rp_line p - 1)) = rp_before p"
    and "out = (case rp_import_to_add p of None \<Rightarrow> patched_text p (splitlines_keepends source)
           | Some i \<Rightarrow> insert_import parse (patched_text p (splitlines_keepends source)) i)"
    and "\<exists>d. parse out = Inr d"
  using assms by (auto simp: apply_proposal_def patched_text_def Let_def split: if_splits option.splits sum.splits)

lemma extent_split:
  assumes "n < length ls"
  shows "\<exists>body closing after. ls = take n ls @ ls ! n # body @ closing @ after \<and>
     after = drop (n + 1 + statement_extent m (drop (n + 1) ls)) ls \<and>
     (\<forall>l \<in> set body. continues m l) \<and> (closing = [] \<or> (\<exists>l. closing = [l] \<and> closes m l))"
proof -
  define r where "r = drop (n + 1) ls"
  obtain body closing where bc: "take (statement_extent m r) r = body @ closing"
    and props: "\<forall>l \<in> set body. continues m l" "closing = [] \<or> (\<exists>l. closing = [l] \<and> closes m l)"
    using extent_block by blast
  have "r = (body @ closing) @ drop (statement_extent m r) r" unfolding bc[symmetric] by simp
  moreover have "ls = take n ls @ ls ! n # r" using assms by (simp add: r_def id_take_nth_drop)
  moreover have "drop (statement_extent m r) r = drop (n + 1 + statement_extent m r) ls"
    by (simp add: r_def add.commute)
  ultimately show ?thesis using props unfolding r_def by (metis append.assoc)
qed



text \<open>An os.system call over three lines and its shell-quoting proposal.\<close>

definition sys_text :: string where
  "sys_text = ''import os'' @ [LF] @ ''os.system('' @ [LF] @ ''    cmd'' @ [LF] @ '')'' @ [LF] @ ''done()'' @ [LF]"

definition sys_proposal :: remediation_proposal where
  "sys_proposal = \<lparr>rp_finding_id = ''f'', rp_vulnerability_type = ''command_injection'', rp_file = ''app.py'',
     rp_line = 2, rp_strategy = ''shell_quote'', rp_before = ''os.system('',
     rp_after = ''os.system(shlex.quote(cmd))'', rp_import_to_add = Some ''import shlex'', rp_rationale = []\<rparr>"

definition accepts_all :: py_parser where "accepts_all s = Inr None"

lemma sys_patched: "apply_proposal accepts_all sys_proposal sys_text =
    Inr (''import shlex'' @ [LF] @ ''import os'' @ [LF] @ ''os.system(shlex.quote(cmd))'' @ [LF] @ ''done()'' @ [LF])"
  by code_simp


text \<open>The replaced block stops at the first blank line: a loop over query results with a blank line in its
  body is rendered whole by the rewriting, but only its first half is removed, so the statements after the blank
  line run twice in the patched file.\<close>

definition loop_text :: string where
  "loop_text = ''for r in c.execute(q):'' @ [LF] @ ''    first(r)'' @ [LF] @ [LF] @ ''    charge(r)'' @ [LF]"

definition loop_proposal :: remediation_proposal where
  "loop_proposal = \<lparr>rp_finding_id = ''f'', rp_vulnerability_type = ''sql_injection'', rp_file = ''app.py'',
     rp_line = 1, rp_strategy = ''parameterize_query'', rp_before = ''for r in c.execute(q):'',
     rp_after = ''for r in c.execute(SQL, (x,)):'' @ [LF] @ ''    first(r)'' @ [LF] @ ''    charge(r)'',
     rp_import_to_add = None, rp_rationale = []\<rparr>"

theorem blank_line_duplicates_body:
  "apply_proposal accepts_all loop_proposal loop_text =
     Inr (''for r in c.execute(SQL, (x,)):'' @ [LF] @ ''    first(r)'' @ [LF] @ ''    charge(r)'' @ [LF] @
          [LF] @ ''    charge(r)'' @ [LF])"
  by code_simp

section \<open>The gate\<close>

lemma require_approvedD:
  assumes "require_approved_approval env fid = Inr a"
  shows "find_for_finding (re_approvals env) fid = Some a \<and> ar_action a = Remediation \<and> ar_status a = Approved"
  using assms by (auto simp: require_approved_approval_def split: option.splits if_splits)

lemma target_pathD:
  assumes "target_path env what fid rel = Inr path"
  shows "\<exists>pr repo. project_for_finding env fid = Inr pr \<and> repo = re_resolve env (path_join (pj_snapshot_path pr) ''repo'') \<and>
     is_relative_to repo (re_resolve env (re_workspace env)) \<and>
     path = re_resolve env (path_join repo rel) \<and> is_relative_to path repo"
  using assms
  by (auto simp: target_path_def workspace_repo_dir_def Let_def split: sum.splits if_splits)

text \<open>When apply reaches the patch: the record, its proposal, the file and its text.\<close>

definition apply_ready ::
    "('p, 'q, 'a, 'b, 'c) rem_env \<Rightarrow> string \<Rightarrow> bool \<Rightarrow> 'r rem_state \<Rightarrow> remediation_record \<Rightarrow>
     remediation_proposal \<Rightarrow> string \<Rightarrow> string \<Rightarrow> bool" where
  "apply_ready env fid confirmed s r p path text \<longleftrightarrow>
     kstore_get (rm_store s) fid = Some r \<and> rr_proposal r = Some p \<and> rr_status r \<notin> {Rem_no_fix, Rem_applied} \<and>
     (\<exists>a. require_approved_approval env fid = Inr a) \<and> confirmed \<and>
     target_path env ''patch target '' fid (rp_file p) = Inr path \<and> read_text s path = Inr text"

definition applied_record :: "('p, 'q, 'a, 'b, 'c) rem_env \<Rightarrow> remediation_record \<Rightarrow> remediation_record" where
  "applied_record env r = r\<lparr>rr_status := Rem_applied, rr_applied_at := Some (re_now env),
     rr_applied_by := Some DEMO_APPLIED_BY, rr_error := None\<rparr>"

lemma apply_fix_ready:
  assumes "apply_ready env fid confirmed s r p path src"
  shows "apply_fix env c fid confirmed s =
     (case apply_proposal (re_parse env) p src of
        Inl m \<Rightarrow> (Inl (Rem_gate m), rem_record c (r\<lparr>rr_status := Rem_error, rr_error := Some m\<rparr>) s)
      | Inr out \<Rightarrow> (Inr (applied_record env r),
                    rem_record c (applied_record env r) (s\<lparr>rm_files := dput path out (rm_files s)\<rparr>)))"
  using assms by (auto simp: apply_ready_def apply_fix_def applied_record_def Let_def split: sum.splits)

lemma apply_fix_refused:
  assumes none: "\<nexists>r p path src. apply_ready env fid confirmed s r p path src"
  shows "\<exists>e. apply_fix env c fid confirmed s = (Inl e, s)"
proof (cases "\<exists>r p. kstore_get (rm_store s) fid = Some r \<and> rr_proposal r = Some p \<and>
    rr_status r \<notin> {Rem_no_fix, Rem_applied} \<and> confirmed")
  case True
  then obtain r p where rp: "kstore_get (rm_store s) fid = Some r" "rr_proposal r = Some p"
    "rr_status r \<noteq> Rem_no_fix" "rr_status r \<noteq> Rem_applied" confirmed by blast
  show ?thesis
  proof (cases "require_approved_approval env fid")
    case (Inr a)
    show ?thesis
    proof (cases "target_path env ''patch target '' fid (rp_file p)")
      case target: (Inr path)
      then have "\<nexists>src. read_text s path = Inr src" using none rp Inr by (auto simp: apply_ready_def)
      then obtain e where "read_text s path = Inl e" by (cases "read_text s path") auto
      then show ?thesis using rp Inr target by (simp add: apply_fix_def)
    qed (use rp Inr in \<open>simp add: apply_fix_def\<close>)
  qed (use rp in \<open>simp add: apply_fix_def\<close>)
next
  case False
  then show ?thesis by (auto simp: apply_fix_def split: option.splits sum.splits)
qed

lemma apply_fix_cases:
  assumes "apply_fix env c fid confirmed s = (x, t)"
  obtains (refused) e where "x = Inl e" "t = s"
  | (unpatched) r p path src m where "apply_ready env fid confirmed s r p path src"
      "apply_proposal (re_parse env) p src = Inl m" "x = Inl (Rem_gate m)"
      "t = rem_record c (r\<lparr>rr_status := Rem_error, rr_error := Some m\<rparr>) s"
  | (patched) r p path src out where "apply_ready env fid confirmed s r p path src"
      "apply_proposal (re_parse env) p src = Inr out" "x = Inr (applied_record env r)"
      "t = rem_record c (applied_record env r) (s\<lparr>rm_files := dput path out (rm_files s)\<rparr>)"
proof (cases "\<exists>r p path src. apply_ready env fid confirmed s r p path src")
  case True
  then obtain r p path src where ready: "apply_ready env fid confirmed s r p path src" by blast
  show ?thesis
  proof (cases "apply_proposal (re_parse env) p src")
    case (Inl m)
    then show ?thesis using unpatched[OF ready Inl] assms apply_fix_ready[OF ready, of c] by simp
  next
    case (Inr out)
    then show ?thesis using patched[OF ready Inr] assms apply_fix_ready[OF ready, of c] by simp
  qed
next
  case False
  then show ?thesis using refused assms apply_fix_refused[OF False, of c] by auto
qed

definition proposed_record ::
    "('p, 'q, 'a, 'b, 'c) rem_env \<Rightarrow> approval_request \<Rightarrow> remediation_proposal \<Rightarrow> string \<Rightarrow>
     remediation_record option \<Rightarrow> remediation_record" where
  "proposed_record env a p fid old =
     (case old of
        None \<Rightarrow> \<lparr>rr_finding_id = fid, rr_approval_id = ar_id a, rr_status = proposal_status p,
          rr_proposal = Some p, rr_applied_at = None, rr_applied_by = None, rr_verified_at = None,
          rr_verification = None, rr_error = None, rr_created_at = re_now env\<rparr>
      | Some r \<Rightarrow> r\<lparr>rr_approval_id := ar_id a, rr_proposal := Some p, rr_status := proposal_status p,
          rr_error := None\<rparr>)"

lemma propose_cases:
  assumes run: "propose env c fid s = (x, t)"
  obtains (refused) e where "x = Inl e" "t = s"
  | (proposed) a p where "x = Inr (proposed_record env a p fid (kstore_get (rm_store s) fid))"
      "t = rem_record c (proposed_record env a p fid (kstore_get (rm_store s) fid)) s"
      "require_approved_approval env fid = Inr a"
proof (cases "\<exists>e. x = Inl e \<and> t = s")
  case True
  then show ?thesis using refused by blast
next
  case False
  obtain f a path src p where steps: "re_finding env fid = Some f" "require_approved_approval env fid = Inr a"
      "target_path env ''finding source '' fid (snk_file (f_sink f)) = Inr path" "read_text s path = Inr src"
      "build_proposal (re_sql env) (re_cmd env) f src = Inr p"
    using run False by (auto simp: propose_def split: option.splits sum.splits)
  show ?thesis
    by (rule proposed[of a p])
      (use run steps in \<open>auto simp: propose_def Let_def proposed_record_def split: option.splits\<close>)
qed

definition checked_record :: "('p, 'q, 'a, 'b, 'c) rem_env \<Rightarrow> bool \<Rightarrow> remediation_record \<Rightarrow> remediation_record" where
  "checked_record env still r = r\<lparr>rr_status := (if still then Rem_still_present else Rem_verified),
     rr_verification := Some (if still then ''still_present'' else ''verified''),
     rr_verified_at := Some (re_now env), rr_error := None\<rparr>"

text \<open>The findings verification looks at: those of a scan of the stored code model of the finding's project.\<close>

definition rescan :: "('p, 'q, 'a, 'b, 'c) rem_env \<Rightarrow> project_row \<Rightarrow> code_model \<Rightarrow> candidate_finding list" where
  "rescan env p cm = rep_findings (scan (re_sha env) None (re_report_id env) (re_now env) cm (Some (pj_id p)))"

lemma verify_fix_cases:
  assumes run: "verify_fix env c fid s = (x, t)"
  obtains (refused) e where "x = Inl e" "t = s"
  | (checked) r p cm where "kstore_get (rm_store s) fid = Some r"
      "rr_status r \<in> {Rem_applied, Rem_verified, Rem_still_present}"
      "project_for_finding env fid = Inr p" "re_code_model env p = Inr cm"
      "x = Inr (checked_record env (\<exists>f \<in> set (rescan env p cm). f_id f = fid) r)"
      "t = rem_record c (checked_record env (\<exists>f \<in> set (rescan env p cm). f_id f = fid) r) s"
proof (cases "\<exists>e. x = Inl e \<and> t = s")
  case True
  then show ?thesis using refused by blast
next
  case False
  obtain r p cm where steps: "kstore_get (rm_store s) fid = Some r"
      "rr_status r \<in> {Rem_applied, Rem_verified, Rem_still_present}"
      "project_for_finding env fid = Inr p" "re_code_model env p = Inr cm"
    using run False by (auto simp: verify_fix_def split: option.splits sum.splits if_splits)
  have "verify_fix env c fid s = (Inr (checked_record env (\<exists>f \<in> set (rescan env p cm). f_id f = fid) r),
      rem_record c (checked_record env (\<exists>f \<in> set (rescan env p cm). f_id f = fid) r) s)"
    using steps by (auto simp: verify_fix_def rescan_def checked_record_def Let_def)
  then show ?thesis using run by (intro checked[OF steps]) simp_all
qed

section \<open>The workflow as a system\<close>

text \<open>
  The endpoints, in any order and each with its own environment out of \<open>E\<close>, the removal of a record when its
  repository is deleted, and a restart.
\<close>

inductive rem_step ::
    "('p, 'q, 'a, 'b, 'c) rem_env set \<Rightarrow> (remediation_record, 'r) codec \<Rightarrow> 'r rem_state \<Rightarrow> 'r rem_state \<Rightarrow> bool"
  for E c where
  rem_propose: "env \<in> E \<Longrightarrow> rem_step E c s (snd (propose_remediation env c fid s))"
| rem_apply: "env \<in> E \<Longrightarrow> rem_step E c s (snd (apply_remediation env c fid confirm s))"
| rem_verify: "env \<in> E \<Longrightarrow> rem_step E c s (snd (verify_remediation env c fid s))"
| rem_remove: "rem_step E c s (s\<lparr>rm_store := kstore_remove fid (rm_store s)\<rparr>)"
| rem_restart: "rem_step E c s (s\<lparr>rm_store := snd (kstore_restart c (rm_store s))\<rparr>)"

inductive_cases rem_stepE: "rem_step E c s t"

lemma endpoint_states:
  "snd (propose_remediation env c fid s) = s \<or> snd (propose_remediation env c fid s) = snd (propose env c fid s)"
  "snd (apply_remediation env c fid conf s) = s \<or>
   snd (apply_remediation env c fid conf s) = snd (apply_fix env c fid conf s)"
  "snd (verify_remediation env c fid s) = s \<or> snd (verify_remediation env c fid s) = snd (verify_fix env c fid s)"
  by (auto simp: propose_remediation_def apply_remediation_def verify_remediation_def with_finding_def Let_def
      split: option.splits prod.splits)

text \<open>What one step does to the store and to the files.\<close>

lemma rem_step_cases:
  assumes "rem_step E c s t"
  obtains (idle) "t = s"
  | (proposed) env a p fid where "env \<in> E" "require_approved_approval env fid = Inr a"
      "t = rem_record c (proposed_record env a p fid (kstore_get (rm_store s) fid)) s"
  | (failed) env fid r p path src m where "env \<in> E" "apply_ready env fid True s r p path src"
      "apply_proposal (re_parse env) p src = Inl m"
      "t = rem_record c (r\<lparr>rr_status := Rem_error, rr_error := Some m\<rparr>) s"
  | (patched) env fid r p path src out where "env \<in> E" "apply_ready env fid True s r p path src"
      "apply_proposal (re_parse env) p src = Inr out"
      "t = rem_record c (applied_record env r) (s\<lparr>rm_files := dput path out (rm_files s)\<rparr>)"
      "t = snd (apply_remediation env c fid True s)"
  | (checked) env fid r p cm where "env \<in> E" "kstore_get (rm_store s) fid = Some r"
      "rr_status r \<in> {Rem_applied, Rem_verified, Rem_still_present}"
      "project_for_finding env fid = Inr p" "re_code_model env p = Inr cm"
      "t = rem_record c (checked_record env (\<exists>f \<in> set (rescan env p cm). f_id f = fid) r) s"
  | (removed) fid where "t = s\<lparr>rm_store := kstore_remove fid (rm_store s)\<rparr>"
  | (restarted) "t = s\<lparr>rm_store := snd (kstore_restart c (rm_store s))\<rparr>"
  using assms
proof (cases rule: rem_step.cases)
  case (rem_propose env fid)
  show ?thesis
  proof (cases "propose env c fid s" rule: prod.exhaust)
    case (Pair x u)
    from Pair show ?thesis
      by (cases rule: propose_cases) (use idle proposed rem_propose endpoint_states(1)[of env c fid s] Pair in auto)
  qed
next
  case (rem_apply env fid conf)
  show ?thesis
  proof (cases "apply_fix env c fid conf s" rule: prod.exhaust)
    case (Pair x u)
    have t: "t = s \<or> t = u" using rem_apply endpoint_states(2)[of env c fid conf s] Pair by auto
    from Pair show ?thesis
    proof (cases rule: apply_fix_cases)
      case refused
      then show ?thesis using idle t by blast
    next
      case (unpatched r p path src m)
      then have "conf" by (simp add: apply_ready_def)
      then show ?thesis using idle failed rem_apply unpatched t by metis
    next
      case (patched r p path src out)
      then have "conf" by (simp add: apply_ready_def)
      then have "t = s \<or> t = u \<and> u = rem_record c (applied_record env r) (s\<lparr>rm_files := dput path out (rm_files s)\<rparr>) \<and>
          t = snd (apply_remediation env c fid True s)" using rem_apply patched t by auto
      then show ?thesis using idle that(4)[of env fid r p path src out] rem_apply(2) patched \<open>conf\<close> by auto
    qed
  qed
next
  case (rem_verify env fid)
  show ?thesis
  proof (cases "verify_fix env c fid s" rule: prod.exhaust)
    case (Pair x u)
    have t: "t = s \<or> t = u" using rem_verify endpoint_states(3)[of env c fid s] Pair by auto
    from Pair show ?thesis
      by (cases rule: verify_fix_cases) (use idle checked rem_verify t in blast)+
  qed
next
  case (rem_remove fid)
  then show ?thesis by (rule removed)
next
  case rem_restart
  then show ?thesis by (rule restarted)
qed

lemma rem_record_files [simp]: "rm_files (rem_record c r s) = rm_files s"
  by (simp add: rem_record_def)

lemma files_change_cases:
  assumes "rem_step E c s t" and "dget (rm_files t) file \<noteq> dget (rm_files s) file"
  obtains env fid r p src out where "env \<in> E" "apply_ready env fid True s r p file src"
    "apply_proposal (re_parse env) p src = Inr out" "dget (rm_files t) file = Some out"
    "t = snd (apply_remediation env c fid True s)"
  using assms(1)
proof (cases rule: rem_step_cases)
  case (patched env fid r p path src out)
  then have "path = file" using assms(2) by (auto simp: dget_dput split: if_splits)
  then show ?thesis using that patched by (simp add: dget_dput)
qed (use assms(2) in simp_all)

lemma first_max_in: "first_max key xs = Some x \<Longrightarrow> x \<in> set xs"
proof (cases xs)
  case (Cons a l)
  have "foldl (\<lambda>best y. if key best < key y then y else best) a l \<in> insert a (set l)"
    by (induction l arbitrary: a) auto
  then show "first_max key xs = Some x \<Longrightarrow> x \<in> set xs" by (auto simp: Cons)
qed simp

lemma approved_trail:
  assumes "approvals_empty a0" and "(approval_step ca)\<^sup>*\<^sup>* a0 s"
    and "find_for_finding s fid = Some a" and "ar_status a = Approved"
  shows "\<exists>ds e. events_for s (ar_id a) = ds @ [e] \<and> ae_new_status e = Approved \<and> ae_previous_status e = Some Pending"
proof -
  note ok = approvals.inv_reachable[OF assms(1,2)]
  have "a \<in> set (dvalues (requests s))" using assms(3) first_max_in by (fastforce simp: find_for_finding_def)
  then obtain k where k: "dget (requests s) k = Some a" using in_requests_iff[OF ok] by blast
  from store_okD(2)[OF ok this] have "ar_id a = k" and "trail_ok (events_for s k) a" by simp_all
  then have "replay (events_for s (ar_id a)) = Some (Approved, ar_version a)" using assms(4) by (simp add: trail_ok_def)
  then show ?thesis by (rule replay_ends_approved)
qed

text \<open>The only way a file of the workspace changes: an apply request with explicit confirmation, for a finding
  whose latest approval request is for remediation and whose audit trail ends with its approval; the file lies
  inside the repository copy of the finding's only owning project, which lies inside the workspace, and its new
  content is the recorded proposal applied to its old text. Every other operation, and every refused one, leaves
  all files as they are.\<close>

theorem source_changes_need_approval_and_confirmation:
  assumes "approvals_empty a0" and "\<And>env. env \<in> E \<Longrightarrow> (approval_step ca)\<^sup>*\<^sup>* a0 (re_approvals env)"
    and "rem_step E c s t" and "dget (rm_files t) file \<noteq> dget (rm_files s) file"
  shows "\<exists>env \<in> E. \<exists>fid. t = snd (apply_remediation env c fid True s) \<and>
     (\<exists>a ds e. find_for_finding (re_approvals env) fid = Some a \<and> ar_action a = Remediation \<and>
        events_for (re_approvals env) (ar_id a) = ds @ [e] \<and> ae_new_status e = Approved \<and>
        ae_previous_status e = Some Pending) \<and>
     (\<exists>pr repo. project_for_finding env fid = Inr pr \<and>
        repo = re_resolve env (path_join (pj_snapshot_path pr) ''repo'') \<and>
        is_relative_to repo (re_resolve env (re_workspace env)) \<and> is_relative_to file repo) \<and>
     (\<exists>r p old out. kstore_get (rm_store s) fid = Some r \<and> rr_proposal r = Some p \<and>
        rr_status r \<notin> {Rem_no_fix, Rem_applied} \<and> dget (rm_files s) file = Some old \<and>
        apply_proposal (re_parse env) p (universal_newlines old) = Inr out \<and> dget (rm_files t) file = Some out)"
proof -
  obtain env fid r p src out where env: "env \<in> E" and ready: "apply_ready env fid True s r p file src"
    and patch: "apply_proposal (re_parse env) p src = Inr out" and new: "dget (rm_files t) file = Some out"
    and t: "t = snd (apply_remediation env c fid True s)"
    using files_change_cases[OF assms(3,4)] by blast
  obtain a where a: "require_approved_approval env fid = Inr a" using ready by (auto simp: apply_ready_def)
  note appr = require_approvedD[OF a]
  have trail: "\<exists>ds e. events_for (re_approvals env) (ar_id a) = ds @ [e] \<and> ae_new_status e = Approved \<and>
      ae_previous_status e = Some Pending"
    using appr by (intro approved_trail[OF assms(1) assms(2)[OF env]]) auto
  have target: "target_path env ''patch target '' fid (rp_file p) = Inr file" and content: "read_text s file = Inr src"
    and rec: "kstore_get (rm_store s) fid = Some r" "rr_proposal r = Some p" "rr_status r \<notin> {Rem_no_fix, Rem_applied}"
    using ready unfolding apply_ready_def by blast+
  obtain old where "dget (rm_files s) file = Some old" "src = universal_newlines old"
    using content by (auto simp: read_text_def split: option.splits)
  then show ?thesis using env t appr trail target_pathD[OF target] rec patch new by blast
qed


text \<open>A workspace with one approved finding, its proposal and its file.\<close>

definition approved_store :: sample_store where
  "approved_store = snd (approve sample_codecs (env_at ''E'' 3) ''A'' ''bob'' None None store1)"

definition sample_runs :: "(unit, unit, unit) run_store" where
  "sample_runs = \<lparr>runs = [(''r'', \<lparr>rn_id = ''r'', rn_project_id = ''p'', rn_status = Run_completed,
       rn_started_at = utc 0, rn_completed_at = None, rn_scanned_file_count = None, rn_total_findings = None,
       rn_error = None, rn_created_at = utc 0\<rparr>)],
     stages = [], executions = [], lineage = [(''r'', [''f''])], run_factory = None\<rparr>"

definition project_at :: "string \<Rightarrow> project_row" where
  "project_at i = \<lparr>pj_id = i, pj_name = [], pj_source_type = ''directory'', pj_location = [], pj_language = ''python'',
     pj_status = ''prepared'', pj_snapshot_path = ''/w/p'', pj_created_at = utc 0\<rparr>"

definition rem_env_of :: "code_model \<Rightarrow> (approval_request, approval_event, unit, unit, unit) rem_env" where
  "rem_env_of cm = \<lparr>re_approvals = approved_store, re_finding = (\<lambda>_. Some sample_finding), re_runs = sample_runs,
     re_project = (\<lambda>i. Some (project_at i)), re_code_model = (\<lambda>_. Inr cm),
     re_workspace = ''/w'', re_resolve = (\<lambda>x. x), re_now = utc 9, re_parse = accepts_all,
     re_sql = (\<lambda>_ _. Inr sys_proposal), re_cmd = (\<lambda>_ _. Inr sys_proposal), re_sha = (\<lambda>x. x), re_report_id = ''R''\<rparr>"

definition empty_model :: code_model where "empty_model = \<lparr>cm_project_id = ''p'', cm_files = []\<rparr>"

definition sample_record :: "remediation_status \<Rightarrow> remediation_record" where
  "sample_record st = \<lparr>rr_finding_id = ''f'', rr_approval_id = ''A'', rr_status = st, rr_proposal = Some sys_proposal,
     rr_applied_at = None, rr_applied_by = None, rr_verified_at = None, rr_verification = None, rr_error = None,
     rr_created_at = utc 8\<rparr>"

definition proposed_state :: "remediation_record rem_state" where
  "proposed_state = \<lparr>rm_store = \<lparr>cache = [(''f'', sample_record Rem_proposed)],
       factory = Some [(''f'', sample_record Rem_proposed)]\<rparr>,
     rm_files = [(''/w/p/repo/app.py'', sys_text)]\<rparr>"

definition patched_state :: "remediation_record rem_state" where
  "patched_state = snd (apply_remediation (rem_env_of empty_model) id_codec ''f'' True proposed_state)"

lemma patched_file: "dget (rm_files patched_state) ''/w/p/repo/app.py'' \<noteq> dget (rm_files proposed_state) ''/w/p/repo/app.py''"
  by code_simp

lemma approved_store_reachable: "(approval_step sample_codecs)\<^sup>*\<^sup>* store0 approved_store"
proof -
  have "workflow_step sample_codecs store0 store1"
    unfolding store1_def ask_def
    by (rule requestI, rule fresh_by_id[OF _ fresh_ids(1)]) (rule ask_ids[unfolded ask_def])
  moreover have "workflow_step sample_codecs store1 approved_store"
    unfolding approved_store_def approve_def by (rule transitionI)
  ultimately show ?thesis by (intro workflow_reachable) (blast intro: converse_rtranclp_into_rtranclp)
qed

theorem source_changes_need_approval_and_confirmation_witness:
  "\<exists>fid r p. patched_state = snd (apply_remediation (rem_env_of empty_model) id_codec fid True proposed_state) \<and>
     kstore_get (rm_store proposed_state) fid = Some r \<and> rr_proposal r = Some p \<and> rr_status r \<noteq> Rem_applied"
proof -
  have "rem_step {rem_env_of empty_model} id_codec proposed_state patched_state"
    unfolding patched_state_def by (rule rem_apply) simp
  moreover have "(approval_step sample_codecs)\<^sup>*\<^sup>* store0 (re_approvals env)" if "env \<in> {rem_env_of empty_model}" for env
    using that approved_store_reachable by (simp add: rem_env_of_def)
  ultimately show ?thesis
    using source_changes_need_approval_and_confirmation[OF store0_empty _ _ patched_file,
        of "{rem_env_of empty_model}" sample_codecs id_codec] by blast
qed

section \<open>The record\<close>

definition rem_wf :: "remediation_record \<Rightarrow> bool" where
  "rem_wf r \<longleftrightarrow>
     (\<exists>p. rr_proposal r = Some p \<and> (rr_status r = Rem_no_fix \<longleftrightarrow> rp_strategy p = ''no_automatic_fix'')) \<and>
     (rr_error r = None \<longleftrightarrow> rr_status r \<noteq> Rem_error) \<and>
     (rr_applied_by r = (if rr_applied_at r = None then None else Some DEMO_APPLIED_BY)) \<and>
     (rr_status r \<in> {Rem_applied, Rem_verified, Rem_still_present} \<longrightarrow> rr_applied_at r \<noteq> None) \<and>
     (rr_status r = Rem_verified \<longrightarrow> rr_verification r = Some ''verified'') \<and>
     (rr_status r = Rem_still_present \<longrightarrow> rr_verification r = Some ''still_present'') \<and>
     (rr_verified_at r = None \<longleftrightarrow> rr_verification r = None) \<and>
     (rr_verified_at r \<noteq> None \<longrightarrow> rr_applied_at r \<noteq> None)"

definition rem_ok :: "(remediation_record, 'r) codec \<Rightarrow> 'r rem_state \<Rightarrow> bool" where
  "rem_ok c s \<longleftrightarrow> durable c (rm_store s) \<and>
     (\<forall>k r. kstore_get (rm_store s) k = Some r \<longrightarrow> rr_finding_id r = k \<and> rem_wf r)"

lemma rem_ok_record:
  assumes "rem_ok c s" and "rem_wf r"
  shows "rem_ok c (rem_record c r (s\<lparr>rm_files := F\<rparr>))" and "rem_ok c (rem_record c r s)"
  using assms by (auto simp: rem_ok_def rem_record_def kst.abs_put intro: kst.ok_put)

lemma rem_wf_proposed:
  assumes "rem_ok c s"
  shows "rem_wf (proposed_record env a p fid (kstore_get (rm_store s) fid))"
proof (cases "kstore_get (rm_store s) fid")
  case None
  then show ?thesis by (simp add: proposed_record_def rem_wf_def proposal_status_def)
next
  case (Some r)
  then have "rem_wf r" using assms by (simp add: rem_ok_def)
  then show ?thesis
    unfolding Some by (auto simp: proposed_record_def rem_wf_def proposal_status_def)
qed

lemma rem_wf_updates:
  assumes "rem_wf r" and "rr_status r \<noteq> Rem_no_fix"
  shows "rem_wf (r\<lparr>rr_status := Rem_error, rr_error := Some m\<rparr>)"
    and "rem_wf (applied_record env r)"
    and "rr_status r \<in> {Rem_applied, Rem_verified, Rem_still_present} \<Longrightarrow> rem_wf (checked_record env b r)"
  using assms by (auto simp: rem_wf_def applied_record_def checked_record_def)

lemma rem_ok_step:
  assumes "rem_ok c s" and "rem_step E c s t"
  shows "rem_ok c t"
  using assms(2)
proof (cases rule: rem_step_cases)
  case (proposed env a p fid)
  then show ?thesis using rem_ok_record(2)[OF assms(1) rem_wf_proposed[OF assms(1)]] by simp
next
  case (failed env fid r p path src m)
  then have "rem_wf r" "rr_status r \<noteq> Rem_no_fix" using assms(1) by (auto simp: apply_ready_def rem_ok_def)
  then show ?thesis using failed rem_ok_record(2)[OF assms(1)] rem_wf_updates(1) by simp
next
  case (patched env fid r p path src out)
  then have "rem_wf r" "rr_status r \<noteq> Rem_no_fix" using assms(1) by (auto simp: apply_ready_def rem_ok_def)
  then show ?thesis unfolding patched(4) using rem_ok_record(1)[OF assms(1)] rem_wf_updates(2) by blast
next
  case (checked env fid r p cm)
  then have "rem_wf r" "rr_status r \<noteq> Rem_no_fix" using assms(1) by (auto simp: rem_ok_def)
  then show ?thesis unfolding checked(6) using checked(3) by (intro rem_ok_record(2)[OF assms(1)] rem_wf_updates(3))
next
  case (removed fid)
  then show ?thesis
    using assms(1) by (auto simp: rem_ok_def kst.abs_remove intro: kst.ok_remove split: if_splits)
next
  case restarted
  then show ?thesis using assms(1) by (simp add: rem_ok_def kstore_restart_durable)
qed (use assms(1) in simp)

definition rem_initial :: "(remediation_record, 'r) codec \<Rightarrow> 'r rem_state \<Rightarrow> bool" where
  "rem_initial c s \<longleftrightarrow> lossless c \<and> cache (rm_store s) = [] \<and> factory (rm_store s) = Some []"

interpretation rem_sys: invariant_system "rem_initial c" "rem_step E c" "rem_ok c"
  for E c
proof (unfold_locales, goal_cases)
  case (1 s)
  then show ?case by (simp add: rem_initial_def rem_ok_def durable_def mirrors_def kstore_get_def)
next
  case (2 s t)
  then show ?case by (rule rem_ok_step)
qed

text \<open>C18. In every reachable state, whatever was proposed, applied, verified or deleted and however often the
  application restarted, each record is stored under its finding, has a proposal, says that no fix is available
  exactly when the proposal has none, carries an error text exactly in the error state, was applied before it was
  verified, and shows the result of its last verification.\<close>

theorem remediation_records_well_formed:
  assumes "rem_initial c s0" and "(rem_step E c)\<^sup>*\<^sup>* s0 s" and "kstore_get (rm_store s) k = Some r"
  shows "rr_finding_id r = k \<and> rem_wf r \<and> kstore_restart c (rm_store s) = (True, rm_store s)"
  using rem_sys.inv_reachable[OF assms(1,2)] assms(3) by (simp add: rem_ok_def kstore_restart_durable)

definition fresh_state :: "remediation_record rem_state" where
  "fresh_state = \<lparr>rm_store = \<lparr>cache = [], factory = Some []\<rparr>, rm_files = [(''/w/p/repo/a.py'', sys_text)]\<rparr>"

definition offered_state :: "remediation_record rem_state" where
  "offered_state = snd (propose_remediation (rem_env_of empty_model) id_codec ''f'' fresh_state)"

theorem remediation_records_well_formed_witness:
  "\<exists>r. kstore_get (rm_store offered_state) ''f'' = Some r \<and> rr_finding_id r = ''f'' \<and> rem_wf r"
proof -
  have "rem_step {rem_env_of empty_model} id_codec fresh_state offered_state"
    unfolding offered_state_def by (rule rem_propose) simp
  moreover have "rem_initial id_codec fresh_state" by (simp add: rem_initial_def) (simp add: fresh_state_def)
  moreover have "kstore_get (rm_store offered_state) ''f'' \<noteq> None" by code_simp
  ultimately show ?thesis
    using remediation_records_well_formed[of id_codec fresh_state "{rem_env_of empty_model}" offered_state "''f''"]
    by blast
qed


section \<open>Verification\<close>

lemma verify_other_files:
  "verify_fix env c fid (s\<lparr>rm_files := F\<rparr>) = (let (x, t) = verify_fix env c fid s in (x, t\<lparr>rm_files := F\<rparr>))"
  by (simp add: verify_fix_def rem_record_def Let_def split: option.splits sum.splits)

lemma target_path_project: "target_path env what fid rel = Inr path \<Longrightarrow> \<exists>p. project_for_finding env fid = Inr p"
  by (auto simp: target_path_def split: sum.splits)

text \<open>Verification compares ids against the stored code model and reads no file: its answer and its record do
  not depend on what the files contain, and after a successful application it says still_present exactly when a
  scan of the code model that PREPARE stored still reports the finding's id, whatever the patch did.\<close>

theorem verify_reads_only_the_code_model:
  assumes "rem_ok c s" and "apply_fix env c fid True s = (Inr r, t)"
    and "project_for_finding env fid = Inr p" and "re_code_model env p = Inr cm"
  shows "\<exists>r' u. verify_fix env c fid t = (Inr r', u) \<and> rm_files u = rm_files t \<and>
       rr_status r' = (if fid \<in> f_id ` set (rescan env p cm) then Rem_still_present else Rem_verified) \<and>
       (\<forall>F. verify_fix env c fid (t\<lparr>rm_files := F\<rparr>) = (Inr r', u\<lparr>rm_files := F\<rparr>))"
proof -
  from assms(2) obtain r0 q path src out where ready: "apply_ready env fid True s r0 q path src"
    and t: "t = rem_record c (applied_record env r0) (s\<lparr>rm_files := dput path out (rm_files s)\<rparr>)"
    by (cases rule: apply_fix_cases) auto
  have id: "rr_finding_id r0 = fid" using ready assms(1) by (simp add: apply_ready_def rem_ok_def)
  have get: "kstore_get (rm_store t) fid = Some (applied_record env r0)"
    by (simp add: t rem_record_def kst.abs_put id applied_record_def)
  define still where "still = (fid \<in> f_id ` set (rescan env p cm))"
  have "verify_fix env c fid t = (Inr (checked_record env still (applied_record env r0)),
      rem_record c (checked_record env still (applied_record env r0)) t)"
    using get assms(3,4)
    by (auto simp: verify_fix_def applied_record_def checked_record_def still_def rescan_def Let_def)
  then show ?thesis by (auto simp: verify_other_files checked_record_def still_def)
qed

theorem verify_reads_only_the_code_model_witness:
  "\<exists>r u. verify_fix (rem_env_of empty_model) id_codec ''f'' patched_state = (Inr r, u) \<and>
     rr_status r = Rem_verified"
proof -
  have ok: "rem_ok id_codec proposed_state"
    by (auto simp: rem_ok_def durable_def mirrors_def kstore_get_def proposed_state_def id_codec_def lossless_def
        sample_record_def rem_wf_def sys_proposal_def dmap_def)
  obtain x t where run: "apply_fix (rem_env_of empty_model) id_codec ''f'' True proposed_state = (x, t)"
    by (cases "apply_fix (rem_env_of empty_model) id_codec ''f'' True proposed_state")
  have "\<not> isl (fst (apply_fix (rem_env_of empty_model) id_codec ''f'' True proposed_state))" by code_simp
  then obtain r where r: "x = Inr r" using run by (cases x) simp_all
  have found: "re_finding (rem_env_of empty_model) ''f'' \<noteq> None" by (simp add: rem_env_of_def)
  then have "patched_state = t" by (auto simp: patched_state_def apply_remediation_def with_finding_def run)
  moreover have "map_sum id pj_id (project_for_finding (rem_env_of empty_model) ''f'') = Inr ''p''" by code_simp
  then obtain p where p: "project_for_finding (rem_env_of empty_model) ''f'' = Inr p"
    by (cases "project_for_finding (rem_env_of empty_model) ''f''") auto
  moreover have "re_code_model (rem_env_of empty_model) p = Inr empty_model" by (simp add: rem_env_of_def)
  moreover have "rescan (rem_env_of empty_model) p empty_model = []"
    by (simp add: rescan_def scan_def raw_results_def empty_model_def Let_def map_replicate_const)
  ultimately show ?thesis
    using verify_reads_only_the_code_model[OF ok run[unfolded r] p, of empty_model] by auto
qed

text \<open>A file and the same file one line further down, as after the insertion of an import.\<close>

definition moved_request :: expr where
  "moved_request = Call (sample_info 3 ''request.args.get'')
     (Attribute (sample_info 3 ''request.args.get'')
       (Attribute (sample_info 3 ''request.args'') (Name (sample_info 3 ''request'') ''request'') ''args'')
       ''get'')
     [Constant (sample_info 3 ''q'') (CStr ''q'')] []"

definition moved_sink :: expr where
  "moved_sink = Call (sample_info 4 ''cursor.execute(sql + q)'')
     (Attribute (sample_info 4 ''cursor.execute'') (Name (sample_info 4 ''cursor'') ''cursor'') ''execute'')
     [BinOp (sample_info 4 ''sql + q'') (Name (sample_info 4 ''sql'') ''sql'') Add
        (Name (sample_info 4 ''q'') ''q'')] []"

definition moved_file :: source_file where
  "moved_file = \<lparr>sf_path = ''app.py'', sf_source = [], sf_error = False,
     sf_body = [FunctionDef 2 ''view'' (Params [] [] [] None None)
       [Assign 3 [Name (sample_info 3 ''q'') ''q''] moved_request, ExprStmt 4 moved_sink]]\<rparr>"

definition model_of :: "source_file \<Rightarrow> code_model" where
  "model_of cf = \<lparr>cm_project_id = ''p'', cm_files = [cf]\<rparr>"

definition sample_project :: project_row where
  "sample_project = project_at ''p''"

definition flagged :: "source_file \<Rightarrow> (string \<times> string \<times> string) list" where
  "flagged cf = map (\<lambda>f. (f_id f, f_vulnerability_type f, snk_snippet (f_sink f)))
     (rescan (rem_env_of (model_of cf)) sample_project (model_of cf))"

definition moved_env :: "(approval_request, approval_event, unit, unit, unit) rem_env" where
  "moved_env = (rem_env_of (model_of moved_file))
     \<lparr>re_runs := sample_runs\<lparr>lineage := [(''r'', map fst (flagged sample_file))]\<rparr>\<rparr>"

definition applied_elsewhere :: "remediation_record rem_state" where
  "applied_elsewhere = \<lparr>rm_store = \<lparr>cache = [(fst (hd (flagged sample_file)), sample_record Rem_applied)],
     factory = None\<rparr>, rm_files = []\<rparr>"

text \<open>Ids contain line numbers, so a finding that only moved counts as fixed: the scans of a file and of the
  same file one line further down flag the same sink, yet verifying the finding of the first against the second
  answers verified.\<close>

theorem moved_finding_counts_as_fixed:
  "map snd (flagged moved_file) = map snd (flagged sample_file) \<and> length (flagged sample_file) = 1 \<and>
   map_sum id rr_status (fst (verify_fix moved_env id_codec (fst (hd (flagged sample_file))) applied_elsewhere)) =
     Inr Rem_verified"
  by code_simp

definition verified_state :: "remediation_record rem_state" where
  "verified_state = snd (verify_remediation (rem_env_of empty_model) id_codec ''f'' patched_state)"

text \<open>A verified remediation can still be turned into an error: a second apply request on an applied record is
  refused and changes nothing, but on a verified one it runs against the already patched file, fails there, and
  overwrites the verified record.\<close>

theorem second_apply_breaks_verified_record:
  "map_option rr_status (kstore_get (rm_store patched_state) ''f'') = Some Rem_applied \<and>
   map_option rr_status (kstore_get (rm_store (snd (apply_remediation (rem_env_of empty_model) id_codec ''f'' True
     patched_state))) ''f'') = Some Rem_applied \<and>
   map_option rr_status (kstore_get (rm_store verified_state) ''f'') = Some Rem_verified \<and>
   map_option rr_status (kstore_get (rm_store (snd (apply_remediation (rem_env_of empty_model) id_codec ''f'' True
     verified_state))) ''f'') = Some Rem_error"
  by code_simp

end
