(* ===== verification/Patch_Properties.thy ===== *)
theory Patch_Properties
  imports Patches Remediation_Properties
begin

text \<open>
  The patch generator proved: the rendered statement differs from the original in the call only, a parameterized query
  bound to its parameters reads as the original text, a shell command loses its shell, and a proposal always applies
  to the file it was made from. Then the places where the generator does something else than it says.
\<close>

section \<open>Swapping the call\<close>

lemma children_swap_field:
  "n \<in> set (field_nodes f) \<Longrightarrow> (name, f) \<in> set fs \<Longrightarrow> n \<in> set (children (Node i k l e fs))"
  by (force simp: children_def)

lemma swap_back:
  assumes "\<forall>n \<in> set (preorder t). n_kind n = ''Call'' \<longrightarrow> n_id n = n_id old \<longrightarrow> n = old"
    and "\<forall>n \<in> set (preorder t). n_id n \<noteq> n_id new" and "n_kind new = ''Call''" and "n_kind old = ''Call''"
  shows "swap (n_id new) old (swap (n_id old) new t) = t"
  using assms(1,2)
proof (induction t rule: measure_induct_rule[where f = size])
  case (less t)
  obtain i k l e fs where t: "t = Node i k l e fs" by (cases t)
  show ?case
  proof (cases "k = ''Call'' \<and> i = n_id old")
    case True
    then have "t = old" using less.prems(1) self_in_preorder[of t] by (simp add: t)
    moreover have "swap (n_id old) new t = new" using True by (simp add: t)
    moreover have "swap (n_id new) old new = old" using assms(3) by (cases new) simp
    ultimately show ?thesis by simp
  next
    case False
    have "i \<noteq> n_id new" using bspec[OF less.prems(2) self_in_preorder] by (simp add: t)
    have restored: "swap (n_id new) old (swap (n_id old) new c) = c" if "c \<in> set (children t)" for c
      using less.IH[OF child_size[OF that]] less.prems preorder_children[OF that] by blast
    have "swap_field (n_id new) old (swap_field (n_id old) new f) = f" if "(name, f) \<in> set fs" for name f
    proof (cases f)
      case (FNode c)
      then show ?thesis using restored children_swap_field[OF _ that] by (simp add: t)
    next
      case (FNodes ns)
      have "map_option (swap (n_id new) old) (map_option (swap (n_id old) new) m) = m" if "m \<in> set ns" for m
      proof (cases m)
        case (Some c)
        then have "c \<in> set (field_nodes f)" using that FNodes
          by (force simp: List.map_filter_def)
        then show ?thesis using Some restored children_swap_field[OF _ \<open>(name, f) \<in> set fs\<close>] by (simp add: t)
      qed simp
      then show ?thesis using FNodes by (simp add: map_idI)
    qed simp_all
    then have "map (\<lambda>(name, f). (name, swap_field (n_id new) old f))
        (map (\<lambda>(name, f). (name, swap_field (n_id old) new f)) fs) = fs"
      by (auto simp: split_beta intro!: map_idI)
    then show ?thesis using False \<open>i \<noteq> n_id new\<close> by (auto simp: t)
  qed
qed

section \<open>Binding a parameterized query\<close>

text \<open>What the database would see if it put the parameters into the text, placeholder by placeholder.\<close>

fun bind_query :: "string \<Rightarrow> string list \<Rightarrow> string" where
  "bind_query [] vs = []"
| "bind_query (c # cs) vs =
     (if c = CHR 0x3F then (case vs of [] \<Rightarrow> c # bind_query cs [] | v # vs' \<Rightarrow> v @ bind_query cs vs')
      else c # bind_query cs vs)"

lemma bind_literal: "CHR 0x3F \<notin> set s \<Longrightarrow> bind_query (s @ q) vs = s @ bind_query q vs"
  by (induction s) auto

lemma bind_hole [simp]: "bind_query (CHR 0x3F # q) (v # vs) = v @ bind_query q vs"
  by simp

text \<open>The text of an f-string: literals as they are, interpolations as \<open>val\<close> renders their expression.\<close>

fun fstring_value :: "ast_env \<Rightarrow> (string \<Rightarrow> string) \<Rightarrow> py_node \<Rightarrow> string" where
  "fstring_value A val v =
     (if is_kind ''Constant'' v then const_text (the (getc v ''value''))
      else (case ast_unparse A (the (getn v ''value'')) of Inr e \<Rightarrow> val e | Inl _ \<Rightarrow> []))"

definition unmarked :: "py_node \<Rightarrow> bool" where
  "unmarked v \<longleftrightarrow> \<not> is_kind ''Constant'' v \<or> CHR 0x3F \<notin> set (const_text (the (getc v ''value'')))"

lemma decompose_values_binds:
  assumes "decompose_values A vs = Some (parts, params)" and "list_all unmarked vs"
  shows "bind_query (concat parts) (map val params) = concat (map (fstring_value A val) vs) \<and>
     length params = length (filter (is_kind ''FormattedValue'') vs)"
  using assms
proof (induction vs arbitrary: parts params)
  case (Cons v vs)
  show ?case
  proof (cases "is_kind ''Constant'' v")
    case True
    then obtain ps where "decompose_values A vs = Some (ps, params)" "parts = const_text (the (getc v ''value'')) # ps"
      using Cons.prems(1) by auto
    then show ?thesis using Cons.IH[of ps params] Cons.prems(2) True by (simp add: unmarked_def bind_literal)
  next
    case False
    then obtain e ps es where "ast_unparse A (the (getn v ''value'')) = Inr e" "is_kind ''FormattedValue'' v"
        "decompose_values A vs = Some (ps, es)" "parts = ''?'' # ps" "params = e # es"
      using Cons.prems(1) by (auto split: sum.splits if_splits)
    then show ?thesis using Cons.IH[of ps es] Cons.prems(2) by simp
  qed
qed simp


lemma decompose_values_parts:
  "decompose_values A vs = Some (parts, params) \<Longrightarrow>
     parts = map (\<lambda>v. if is_kind ''Constant'' v then const_text (the (getc v ''value'')) else ''?'') vs"
  by (induction vs arbitrary: parts params) (auto split: if_splits sum.splits)



section \<open>What a generated patch is\<close>

definition patches :: "remediation_proposal \<Rightarrow> bool" where
  "patches p \<longleftrightarrow> rp_strategy p \<noteq> ''no_automatic_fix''"

lemma not_patches [simp]: "\<not> patches (no_fix f r)" "\<not> patches (unparsable f r)" "\<not> patches (unrendered f r)"
  by (simp_all add: patches_def no_fix_def unparsable_def unrendered_def)

lemma sql_proposal_patched:
  assumes "sql_proposal A f source = Inr p" and "patches p"
  obtains line row tree call func arg rest query params elts after where
    "sink_lines f source = Inr (line, row)" "ast_parse A source = Inr tree" "find_call_at tree line = Some call"
    "getn call ''func'' = Some func" "the (gets func ''attr'') \<in> set PATCH_SQL_METHODS" "getns call ''args'' = arg # rest"
    "sql_query A tree line arg = Inr (Some (query, params))" "parse_params A params = Inr elts"
    "render_statement_line A tree call (sql_call call query elts) line row = Inr after"
    "p = patch_proposal f line row ''parameterize_query'' after None SQL_RATIONALE"
proof -
  obtain line row where src: "sink_lines f source = Inr (line, row)"
    using assms(1) by (auto simp: sql_proposal_def split: sum.splits)
  then have line: "line = snk_line (f_sink f)" by (auto simp: sink_lines_def Let_def split: if_splits)
  show ?thesis
    using assms src
    by (auto simp: sql_proposal_def sql_rewrite_def line[symmetric] split: sum.splits option.splits if_splits list.splits
        intro: that)
qed

lemma cmd_proposal_patched:
  assumes "cmd_proposal A f source = Inr p" and "patches p"
  obtains line row tree call func_name arg rest cmd arg_text kws strategy rationale new_arg after where
    "sink_lines f source = Inr (line, row)" "ast_parse A source = Inr tree" "find_call_at tree line = Some call"
    "ast_unparse A (the (getn call ''func'')) = Inr func_name" "getns call ''args'' = arg # rest"
    "ast_unparse A arg = Inr cmd"
    "cmd_plan func_name cmd (getns call ''keywords'') = Some (arg_text, kws, strategy, rationale)"
    "ast_parse_expr A arg_text = Inr new_arg"
    "render_statement_line A tree call (call_node call [new_arg] kws) line row = Inr after"
    "p = patch_proposal f line row strategy after
           (if \<not> contains ''import shlex'' source \<and> \<not> contains ''from shlex'' source then Some ''import shlex'' else None)
           rationale"
proof -
  obtain line row where src: "sink_lines f source = Inr (line, row)"
    using assms(1) by (auto simp: cmd_proposal_def split: sum.splits)
  then have line: "line = snk_line (f_sink f)" by (auto simp: sink_lines_def Let_def split: if_splits)
  obtain tree where tree: "ast_parse A source = Inr tree"
    using assms src by (auto simp: cmd_proposal_def split: sum.splits)
  obtain call where call: "find_call_at tree line = Some call"
    using assms src tree by (auto simp: cmd_proposal_def line[symmetric] split: option.splits)
  obtain func_name where func_name: "ast_unparse A (the (getn call ''func'')) = Inr func_name"
    using assms src tree call by (auto simp: cmd_proposal_def line[symmetric] split: sum.splits)
  obtain arg rest where arg: "getns call ''args'' = arg # rest"
    using assms src tree call func_name by (auto simp: cmd_proposal_def line[symmetric] split: list.splits)
  obtain cmd where cmd: "ast_unparse A arg = Inr cmd"
    using assms src tree call func_name arg by (auto simp: cmd_proposal_def line[symmetric] split: sum.splits)
  obtain arg_text kws strategy rationale where
    plan: "cmd_plan func_name cmd (getns call ''keywords'') = Some (arg_text, kws, strategy, rationale)"
    and res: "cmd_rewrite A f source tree call line row (arg_text, kws, strategy, rationale) = Inr p"
    using assms src tree call func_name arg cmd
    by (auto simp: cmd_proposal_def line[symmetric] split: option.splits)
  then obtain new_arg where new_arg: "ast_parse_expr A arg_text = Inr new_arg"
    by (auto simp: cmd_rewrite_def split: sum.splits)
  obtain after where after: "render_statement_line A tree call (call_node call [new_arg] kws) line row = Inr after"
    using res assms(2) new_arg by (auto simp: cmd_rewrite_def split: sum.splits)
  have "p = patch_proposal f line row strategy after
           (if \<not> contains ''import shlex'' source \<and> \<not> contains ''from shlex'' source then Some ''import shlex'' else None)
           rationale"
    using res new_arg after by (simp add: cmd_rewrite_def Let_def)
  then show ?thesis using that src tree call func_name arg cmd plan new_arg after by blast
qed

lemma generate_patches_type:
  assumes "generate A f source = Inr p" and "patches p"
  shows "sql_proposal A f source = Inr p \<or> cmd_proposal A f source = Inr p"
  using assms by (auto simp: generate_def build_proposal_def split: if_splits)


lemma first_min_in: "first_min key xs = Some x \<Longrightarrow> x \<in> set xs"
  by (induction xs arbitrary: x) (auto split: option.splits if_splits)

lemma find_call_atD:
  assumes "find_call_at tree line = Some call"
  shows "call \<in> set (preorder tree)" and "n_kind call = ''Call''" and "n_lineno call = Some line"
  using first_min_in[OF assms[unfolded find_call_at_def]] by auto

lemma preorder_trans: "s \<in> set (preorder t) \<Longrightarrow> set (preorder s) \<subseteq> set (preorder t)"
proof (induction t rule: measure_induct_rule[where f = size])
  case (less t)
  show ?case
  proof (cases "s = t")
    case False
    then obtain c where c: "c \<in> set (children t)" "s \<in> set (preorder c)"
      using less.prems by (auto simp: preorder_eq[of t])
    then show ?thesis using less.IH[OF child_size[OF c(1)] c(2)] preorder_children[OF c(1)] by blast
  qed simp
qed

lemma find_statement_at_in: "find_statement_at tree line = Some st \<Longrightarrow> st \<in> set (preorder tree)"
  unfolding find_statement_at_def find_Some_iff by (metis nth_mem set_ast_walk)

lemma map_filter_somes [simp]: "List.map_filter (\<lambda>n. n) (map Some xs) = xs"
  by (induction xs) (simp_all add: map_filter_simps)

lemma call_node_simps [simp]: "n_kind (call_node c as ks) = ''Call''" "n_id (call_node c as ks) = 0"
    "getf (call_node c as ks) ''func'' = getf c ''func''" "getns (call_node c as ks) ''args'' = as"
    "getns (call_node c as ks) ''keywords'' = ks"
  by (simp_all add: call_node_def getns_def getf_def)

text \<open>What rendering does, for a new call with the identity no node of the tree has.\<close>

lemma render_cases:
  assumes "render_statement_line A tree call new line row = Inr after"
    and "call \<in> set (preorder tree)" and "n_kind call = ''Call''" and "n_kind new = ''Call''" and "n_id new = 0"
    and "inj_on n_id (set (preorder tree))" and "0 \<notin> n_id ` set (preorder tree)"
  shows "ast_unparse A new = Inr after \<or>
     (\<exists>st st' code. find_statement_at tree line = Some st \<and> swap 0 call st' = st \<and> ast_unparse A st' = Inr code \<and>
        after = join [LF] (map (\<lambda>l. leading_blanks row @ l) (splitlines code)))"
proof (cases "find_statement_at tree line")
  case None
  then show ?thesis using assms(1) by (simp add: render_statement_line_def)
next
  case (Some st)
  note sub = preorder_trans[OF find_statement_at_in[OF Some]]
  have "\<forall>n \<in> set (preorder st). n_kind n = ''Call'' \<longrightarrow> n_id n = n_id call \<longrightarrow> n = call"
    using sub assms(2,6) by (meson inj_onD subsetD)
  moreover have "\<forall>n \<in> set (preorder st). n_id n \<noteq> n_id new"
    using sub assms(5,7) by (metis image_eqI subsetD)
  ultimately have "swap 0 call (swap (n_id call) new st) = st"
    using swap_back[of st call new] assms(3-5) by simp
  moreover obtain code where "ast_unparse A (swap (n_id call) new st) = Inr code"
    using assms(1) Some by (auto simp: render_statement_line_def split: sum.splits)
  ultimately show ?thesis using assms(1) Some by (auto simp: render_statement_line_def Let_def split: if_splits)
qed


text \<open>A proposal fits the file it was made from: applied to that file it is never stale and never out of range;
  it gives the new text, or it is refused because the new text does not parse.\<close>

theorem generated_patch_applies:
  assumes "generate A f source = Inr p" and "patches p"
  shows "(\<exists>new. apply_proposal parse p source = Inr new \<and> \<not> isl (parse new)) \<or>
     (\<exists>exc. apply_proposal parse p source = Inl (''patched source does not parse ('' @ exc @ ''); fix not applied''))"
proof -
  obtain line row after strategy imp rationale where src: "sink_lines f source = Inr (line, row)"
    and p: "p = patch_proposal f line row strategy after imp rationale"
    using generate_patches_type[OF assms] sql_proposal_patched[OF _ assms(2)] cmd_proposal_patched[OF _ assms(2)]
    by metis
  have "1 \<le> line" "line \<le> length (splitlines_keepends source)" "splitlines_keepends source ! (line - 1) = row"
    using src by (auto simp: sink_lines_def Let_def split: if_splits)
  moreover have "strategy \<noteq> ''no_automatic_fix''" using assms(2) by (simp add: p patches_def patch_proposal_def)
  ultimately show ?thesis
    by (auto simp: apply_proposal_def p patch_proposal_def Let_def split: sum.splits)
qed


lemma generated_file: "generate A f source = Inr p \<Longrightarrow> patches p \<Longrightarrow> rp_file p = snk_file (f_sink f)"
  using generate_patches_type[of A f source p]
  by (auto elim!: sql_proposal_patched cmd_proposal_patched simp: patch_proposal_def)

lemma target_path_what: "target_path env what fid rel = Inr path \<Longrightarrow> target_path env what' fid rel = Inr path"
  by (auto simp: target_path_def Let_def split: sum.splits if_splits)

text \<open>C24. A proposed fix can be applied: with the generator in place, when proposing succeeded with a patch and nothing
  happened in between, the confirmed application succeeds, records the fix as applied and writes a text that parses;
  or it is refused for one reason only, that the patched text would not parse.\<close>

theorem proposed_fix_can_be_applied:
  assumes "re_sql env = sql_proposal A" and "re_cmd env = cmd_proposal A" and "rem_ok c s"
    and "propose env c fid s = (Inr r, t)" and "rr_status r = Rem_proposed"
  shows "(\<exists>r' u path new. apply_fix env c fid True t = (Inr r', u) \<and> rr_status r' = Rem_applied \<and>
       dget (rm_files u) path = Some new \<and> \<not> isl (re_parse env new)) \<or>
     (\<exists>u exc. apply_fix env c fid True t =
       (Inl (Rem_gate (''patched source does not parse ('' @ exc @ ''); fix not applied'')), u))"
proof -
  obtain f a path src p where steps: "re_finding env fid = Some f" "require_approved_approval env fid = Inr a"
      "target_path env ''finding source '' fid (snk_file (f_sink f)) = Inr path" "read_text s path = Inr src"
      "build_proposal (re_sql env) (re_cmd env) f src = Inr p"
    using assms(4) by (auto simp: propose_def split: option.splits sum.splits)
  have made: "r = proposed_record env a p fid (kstore_get (rm_store s) fid)" "t = rem_record c r s"
    using assms(4) steps by (auto simp: propose_def Let_def proposed_record_def split: option.splits)
  have made_by: "generate A f src = Inr p" using steps(5) assms(1,2) by (simp add: generate_def)
  have ident: "rr_finding_id r = fid" and has: "rr_proposal r = Some p" and status: "rr_status r = proposal_status p"
    using assms(3) by (auto simp: made(1) proposed_record_def rem_ok_def split: option.splits)
  then have "patches p" using assms(5) by (auto simp: proposal_status_def patches_def split: if_splits)
  have "apply_ready env fid True t r p path src"
    using steps(2,4) target_path_what[OF steps(3)] generated_file[OF made_by \<open>patches p\<close>] ident has assms(5)
    by (auto simp: apply_ready_def made(2) rem_record_def kst.abs_put read_text_def)
  from apply_fix_ready[OF this, of c] generated_patch_applies[OF made_by \<open>patches p\<close>, of "re_parse env"]
  show ?thesis by (fastforce simp: applied_record_def rem_record_def)
qed

section \<open>A query built by concatenation\<close>

text \<open>The text of an expression: additions concatenate, a variable is what \<open>val\<close> says of its text.\<close>

function text_value :: "ast_env \<Rightarrow> (string \<Rightarrow> string) \<Rightarrow> py_node \<Rightarrow> string" where
  "text_value A val n =
     (let leaf = (case const_str n of
                    Some s \<Rightarrow> s
                  | None \<Rightarrow> (case ast_unparse A n of Inr e \<Rightarrow> val e | Inl _ \<Rightarrow> []))
      in case (getn n ''left'', getn n ''right'') of
           (Some l, Some r) \<Rightarrow> if is_kind ''BinOp'' n \<and> is_add n then text_value A val l @ text_value A val r else leaf
         | _ \<Rightarrow> leaf)"
  by pat_completeness auto
termination
  by (relation "measure (\<lambda>(_, _, n). size n)") (auto simp: getn_size)

declare text_value.simps [simp del]

definition leaf_value :: "ast_env \<Rightarrow> (string \<Rightarrow> string) \<Rightarrow> py_node \<Rightarrow> string" where
  "leaf_value A val n =
     (case const_str n of
        Some s \<Rightarrow> s
      | None \<Rightarrow> (case ast_unparse A n of Inr e \<Rightarrow> val e | Inl _ \<Rightarrow> []))"

lemma text_value_parts: "text_value A val n = concat (map (leaf_value A val) (collect_concat_parts n))"
proof (induction n rule: collect_concat_parts.induct)
  case (1 n)
  then show ?case
    by (subst text_value.simps, subst collect_concat_parts.simps)
      (auto simp: leaf_value_def[abs_def] Let_def split: option.splits)
qed

text \<open>The text a variable holds after a sequence of statements.\<close>

definition update_text :: "ast_env \<Rightarrow> (string \<Rightarrow> string) \<Rightarrow> string \<Rightarrow> py_node \<Rightarrow> string \<Rightarrow> string" where
  "update_text A val x s old =
     (if is_kind ''Assign'' s \<and> list_ex (names x) (getns s ''targets'')
      then concat (map (text_value A val) (getns s ''value''))
      else if is_kind ''AugAssign'' s \<and> is_add s \<and> (case getn s ''target'' of Some t \<Rightarrow> names x t | None \<Rightarrow> False)
      then old @ concat (map (text_value A val) (getns s ''value''))
      else old)"

definition run_text :: "ast_env \<Rightarrow> (string \<Rightarrow> string) \<Rightarrow> string \<Rightarrow> py_node list \<Rightarrow> string" where
  "run_text A val x body = fold (update_text A val x) body []"

definition assigns :: "py_node \<Rightarrow> bool" where
  "assigns n \<longleftrightarrow> n_kind n \<in> {''Assign'', ''AugAssign''}"

definition assigning_below :: "py_node \<Rightarrow> bool" where
  "assigning_below s \<longleftrightarrow> (\<exists>c \<in> set (children s). \<exists>d \<in> set (preorder c). assigns d)"

lemma collect_assigned_none:
  "\<forall>c \<in> set cs. \<forall>d \<in> set (preorder c). \<not> assigns d \<Longrightarrow> collect_assigned scoped x cs = []"
proof (induction scoped x cs rule: collect_assigned.induct)
  case (2 scoped x c cs)
  have "\<not> assigns c" using "2.prems" by simp
  moreover have "\<forall>d \<in> set (children c). \<forall>e \<in> set (preorder d). \<not> assigns e"
    using "2.prems" preorder_children by fastforce
  ultimately show ?case using 2 by (auto simp: collect_assigned.simps(2) assigns_def)
qed simp

text \<open>Straight-line code that builds a query: one assignment, then augmented ones.\<close>

definition builds :: "string \<Rightarrow> py_node list \<Rightarrow> bool" where
  "builds x body \<longleftrightarrow>
     (case body of
        [] \<Rightarrow> False
      | a # augs \<Rightarrow>
          is_kind ''Assign'' a \<and> list_ex (names x) (getns a ''targets'') \<and>
          list_all (\<lambda>s. is_kind ''AugAssign'' s \<and> is_add s \<and>
                        (case getn s ''target'' of Some t \<Rightarrow> names x t | None \<Rightarrow> False)) augs) \<and>
     list_all (\<lambda>s. \<not> assigning_below s) body"

lemma collect_assigned_append: 
  "list_all (\<lambda>s. \<not> (\<exists>d \<in> set (preorder s). assigns d)) cs \<Longrightarrow>
     collect_assigned scoped x (cs @ ds) = collect_assigned scoped x ds"
proof (induction cs)
  case (Cons c cs)
  have "collect_assigned scoped x (children c) = []"
    using Cons.prems preorder_children by (intro collect_assigned_none) fastforce
  moreover have "\<not> assigns c" using Cons.prems by simp
  ultimately show ?case using Cons by (auto simp: collect_assigned.simps(2) assigns_def)
qed simp

lemma collect_assigned_one:
  "\<not> assigning_below c \<Longrightarrow> collect_assigned scoped x (children c) = []"
  by (rule collect_assigned_none) (auto simp: assigning_below_def)

lemma collect_augs:
  assumes "list_all (\<lambda>s. is_kind ''AugAssign'' s \<and> is_add s \<and>
                        (case getn s ''target'' of Some t \<Rightarrow> names x t | None \<Rightarrow> False)) augs"
    and "list_all (\<lambda>s. \<not> assigning_below s) augs"
  shows "collect_assigned scoped x (augs @ ds) = concat (map (\<lambda>s. getns s ''value'') augs) @ collect_assigned scoped x ds \<and>
     fold (update_text A val x) augs old =
       old @ concat (map (text_value A val) (concat (map (\<lambda>s. getns s ''value'') augs)))"
  using assms
proof (induction augs arbitrary: old)
  case (Cons s augs)
  have "is_kind ''AugAssign'' s" "is_add s" using Cons.prems(1) by simp_all
  moreover obtain t where "getn s ''target'' = Some t" "names x t"
    using Cons.prems(1) by (auto split: option.splits)
  moreover have "collect_assigned scoped x (children s) = []" using Cons.prems(2) by (simp add: collect_assigned_one)
  ultimately show ?case using Cons by (simp add: collect_assigned.simps(2) update_text_def)
qed simp

lemma collect_builds:
  assumes "builds x body"
  shows "collect_assigned scoped x (body @ ds) = concat (map (\<lambda>s. getns s ''value'') body) @ collect_assigned scoped x ds \<and>
     run_text A val x body = concat (map (text_value A val) (concat (map (\<lambda>s. getns s ''value'') body)))"
proof -
  obtain a augs where body: "body = a # augs" "is_kind ''Assign'' a" "list_ex (names x) (getns a ''targets'')"
      "list_all (\<lambda>s. is_kind ''AugAssign'' s \<and> is_add s \<and>
         (case getn s ''target'' of Some t \<Rightarrow> names x t | None \<Rightarrow> False)) augs"
      "list_all (\<lambda>s. \<not> assigning_below s) augs" "\<not> assigning_below a"
    using assms by (cases body) (auto simp: builds_def)
  have "collect_assigned scoped x (children a) = []" using body(6) by (rule collect_assigned_one)
  then show ?thesis
    using body(1-3) collect_augs[OF body(4,5)] by (simp add: collect_assigned.simps(2) run_text_def update_text_def)
qed


lemma segments_bind:
  assumes "segments_of_parts A ps = Some segs"
    and "\<forall>p \<in> set ps. \<forall>s. const_str p = Some s \<longrightarrow> CHR 0x3F \<notin> set s"
  shows "bind_query (fst (query_of_segments segs)) (map val (snd (query_of_segments segs))) =
     concat (map (leaf_value A val) ps)"
  using assms
proof (induction ps arbitrary: segs)
  case (Cons p ps)
  show ?case
  proof (cases "const_str p")
    case (Some s)
    then obtain rest where rest: "segments_of_parts A ps = Some rest" "segs = (s, []) # rest" using Cons.prems(1) by auto
    have "CHR 0x3F \<notin> set s" using Cons.prems(2) Some by simp
    then have "s \<noteq> ''?''" by auto
    then show ?thesis
      using Cons.IH[OF rest(1)] Cons.prems(2) rest(2) Some \<open>CHR 0x3F \<notin> set s\<close>
      by (simp add: query_of_segments_def leaf_value_def bind_literal)
  next
    case None
    then obtain e rest where rest: "ast_unparse A p = Inr e" "segments_of_parts A ps = Some rest" "segs = (''?'', e) # rest"
      using Cons.prems(1) by (auto split: if_splits sum.splits)
    then show ?thesis
      using Cons.IH[OF rest(2)] Cons.prems(2) None by (simp add: query_of_segments_def leaf_value_def)
  qed
qed (simp add: query_of_segments_def)

lemma concat_leaves:
  "concat (map (leaf_value A val) (concat (map collect_concat_parts vs))) = concat (map (text_value A val) vs)"
  by (induction vs) (simp_all add: text_value_parts)

text \<open>Parameterizing a concatenation keeps what it says: when a function builds its query by one assignment and
  augmented assignments after it, binding the generated parameters to the placeholders of the generated query
  gives, for any values of the variables, the text the variable holds after these statements, provided no literal
  part contains a question mark.\<close>

theorem concat_query_binds_back:
  assumes "is_kind ''Name'' arg" and "gets arg ''id'' = Some x" and "resolve_assigned_fstring tree x = None"
    and "find_enclosing_function tree line = Some fn" and "children fn = before @ body @ rest"
    and "list_all (\<lambda>s. \<not> (\<exists>d \<in> set (preorder s). assigns d)) (before @ rest)" and "builds x body"
    and "sql_query A tree line arg = Inr (Some (query, params))"
    and "\<forall>s \<in> set body. \<forall>v \<in> set (getns s ''value''). \<forall>p \<in> set (collect_concat_parts v). \<forall>l.
           const_str p = Some l \<longrightarrow> CHR 0x3F \<notin> set l"
  shows "bind_query query (map val params) = run_text A val x body"
proof -
  let ?vals = "concat (map (\<lambda>s. getns s ''value'') body)"
  have "list_all (\<lambda>s. \<not> (\<exists>d \<in> set (preorder s). assigns d)) before" using assms(6) by simp
  from collect_assigned_append[OF this, of True x "body @ rest"]
  have "collect_assigned True x (children fn) = collect_assigned True x (body @ rest)" using assms(5) by simp
  also have "collect_assigned True x rest = []"
    by (rule collect_assigned_none) (use assms(6) in \<open>auto simp: list_all_iff\<close>)
  with collect_builds[OF assms(7), of True rest] have "collect_assigned True x (body @ rest) = ?vals" by simp
  finally have "collect_assigned True x (children fn) = ?vals" .
  moreover have "\<not> is_kind ''JoinedStr'' arg" using assms(1) by simp
  ultimately obtain segs where segs: "segments_of_parts A (concat (map collect_concat_parts ?vals)) = Some segs"
      "(query, params) = query_of_segments segs"
    using assms(1-4,8) by (auto simp: sql_query_def resolve_assigned_concatenation_def Let_def split: if_splits)
  have "bind_query (fst (query_of_segments segs)) (map val (snd (query_of_segments segs))) =
      concat (map (leaf_value A val) (concat (map collect_concat_parts ?vals)))"
    by (rule segments_bind[OF segs(1)]) (use assms(9) in auto)
  also have "\<dots> = concat (map (text_value A val) ?vals)"
    by (rule concat_leaves)
  finally show ?thesis using collect_builds[OF assms(7)] segs(2) by (metis fst_conv snd_conv)
qed


section \<open>Commands\<close>

text \<open>A command patch routes the command through \<open>shlex\<close>: the new call has one argument, \<open>shlex.split\<close> of the old
  first argument for the subprocess functions and \<open>shlex.quote\<close> of it for the shell-string functions; no literal
  \<open>shell=True\<close> survives on a subprocess call; every other keyword is kept; and the import is requested exactly
  when the source mentions no import of \<open>shlex\<close>.\<close>

theorem command_patch_shape:
  assumes "cmd_proposal A f source = Inr p" and "patches p" and "ast_parse A source = Inr tree"
  shows "\<exists>call func_name arg cmd new_arg kws. find_call_at tree (snk_line (f_sink f)) = Some call \<and>
     ast_unparse A (the (getn call ''func'')) = Inr func_name \<and> hd (getns call ''args'') = arg \<and>
     ast_unparse A arg = Inr cmd \<and>
     render_statement_line A tree call (call_node call [new_arg] kws) (rp_line p)
       (splitlines_keepends source ! (rp_line p - 1)) = Inr (rp_after p) \<and>
     (if func_name \<in> set SUBPROCESS_SINKS
      then ast_parse_expr A (''shlex.split('' @ cmd @ '')'') = Inr new_arg \<and> rp_strategy p = ''shell_argument_vector'' \<and>
        set kws = {k \<in> set (getns call ''keywords''). \<not> shell_true k}
      else func_name \<in> set SHELL_STRING_SINKS \<and> ast_parse_expr A (''shlex.quote('' @ cmd @ '')'') = Inr new_arg \<and>
        rp_strategy p = ''shell_quote'' \<and> kws = getns call ''keywords'') \<and>
     (rp_import_to_add p \<noteq> None \<longleftrightarrow> \<not> contains ''import shlex'' source \<and> \<not> contains ''from shlex'' source)"
proof -
  obtain line row call func_name arg rest cmd arg_text kws strategy rationale new_arg after where
    src: "sink_lines f source = Inr (line, row)" and call: "find_call_at tree line = Some call"
    and parts: "ast_unparse A (the (getn call ''func'')) = Inr func_name" "getns call ''args'' = arg # rest"
      "ast_unparse A arg = Inr cmd"
    and how: "cmd_plan func_name cmd (getns call ''keywords'') = Some (arg_text, kws, strategy, rationale)"
    and new_arg: "ast_parse_expr A arg_text = Inr new_arg"
    and after: "render_statement_line A tree call (call_node call [new_arg] kws) line row = Inr after"
    and p: "p = patch_proposal f line row strategy after
           (if \<not> contains ''import shlex'' source \<and> \<not> contains ''from shlex'' source then Some ''import shlex'' else None)
           rationale"
    by (rule cmd_proposal_patched[OF assms(1,2)]) (use assms(3) in simp)
  have line: "snk_line (f_sink f) = line" "splitlines_keepends source ! (line - 1) = row"
    using src by (auto simp: sink_lines_def Let_def split: if_splits)
  have plan: "if func_name \<in> set SUBPROCESS_SINKS
      then arg_text = ''shlex.split('' @ cmd @ '')'' \<and> strategy = ''shell_argument_vector'' \<and>
        set kws = {k \<in> set (getns call ''keywords''). \<not> shell_true k}
      else func_name \<in> set SHELL_STRING_SINKS \<and> arg_text = ''shlex.quote('' @ cmd @ '')'' \<and>
        strategy = ''shell_quote'' \<and> kws = getns call ''keywords''"
    using how by (auto simp: cmd_plan_def split: if_splits)
  have fields: "rp_line p = line" "rp_after p = after" "rp_strategy p = strategy"
      "rp_import_to_add p \<noteq> None \<longleftrightarrow> \<not> contains ''import shlex'' source \<and> \<not> contains ''from shlex'' source"
    by (simp_all add: p patch_proposal_def)
  have chosen: "if func_name \<in> set SUBPROCESS_SINKS
      then ast_parse_expr A (''shlex.split('' @ cmd @ '')'') = Inr new_arg \<and> rp_strategy p = ''shell_argument_vector'' \<and>
        set kws = {k \<in> set (getns call ''keywords''). \<not> shell_true k}
      else func_name \<in> set SHELL_STRING_SINKS \<and> ast_parse_expr A (''shlex.quote('' @ cmd @ '')'') = Inr new_arg \<and>
        rp_strategy p = ''shell_quote'' \<and> kws = getns call ''keywords''"
    using plan new_arg unfolding fields(3) by (cases "func_name \<in> set SUBPROCESS_SINKS") simp_all
  have "find_call_at tree (snk_line (f_sink f)) = Some call" "hd (getns call ''args'') = arg"
    "render_statement_line A tree call (call_node call [new_arg] kws) (rp_line p)
       (splitlines_keepends source ! (rp_line p - 1)) = Inr (rp_after p)"
    using call parts(2) after line by (simp_all add: fields(1,2))
  then show ?thesis using parts(1,3) chosen fields(4) by blast
qed

section \<open>Which call\<close>

lemma first_min_least: "first_min key xs = Some x \<Longrightarrow> y \<in> set xs \<Longrightarrow> key x \<le> key y"
proof (induction xs arbitrary: x)
  case (Cons a xs)
  then show ?case by (cases "first_min key xs"; cases xs) (auto split: if_splits option.splits intro: order_trans)
qed simp

lemma preorder_proper:
  assumes "s \<in> set (preorder t)" and "s \<noteq> t"
  shows "length (preorder s) < length (preorder t)"
  using assms
proof (induction t rule: measure_induct_rule[where f = size])
  case (less t)
  then obtain c where c: "c \<in> set (children t)" "s \<in> set (preorder c)" by (auto simp: preorder_eq[of t])
  then show ?case using less.IH[OF child_size[OF c(1)] c(2)] length_preorder_child[OF c(1)] by (cases "s = c") auto
qed

text \<open>The generator picks an innermost call of the line, although it means to prefer the outermost: below the call it
  rewrites there is no other call of that line.\<close>

theorem innermost_call_is_chosen:
  assumes "find_call_at tree line = Some call" and "inner \<in> set (preorder call)"
    and "n_kind inner = ''Call''" and "n_lineno inner = Some line"
  shows "inner = call"
proof (rule ccontr)
  assume "inner \<noteq> call"
  then have "node_count inner < node_count call"
    using preorder_proper[OF assms(2)] by (simp add: node_count_def length_ast_walk del: walk_queue.simps)
  moreover have "inner \<in> set (preorder tree)" using assms(2) preorder_trans find_call_atD(1)[OF assms(1)] by blast
  then have "node_count call \<le> node_count inner"
    using assms first_min_least[OF assms(1)[unfolded find_call_at_def]] by simp
  ultimately show False by simp
qed


section \<open>Samples\<close>

definition ctx_node :: py_node where "ctx_node = Node 99 ''Load'' None None []"

definition name_node :: "nat \<Rightarrow> nat \<Rightarrow> string \<Rightarrow> py_node" where
  "name_node i l x = Node i ''Name'' (Some l) (Some l) [(''id'', FStr x), (''ctx'', FNode ctx_node)]"

definition str_node :: "nat \<Rightarrow> nat \<Rightarrow> string \<Rightarrow> py_node" where
  "str_node i l s = Node i ''Constant'' (Some l) (Some l) [(''value'', FConst (Str s)), (''kind'', FNone)]"

definition keyword_node :: "nat \<Rightarrow> string \<Rightarrow> py_node \<Rightarrow> py_node" where
  "keyword_node i name v = Node i ''keyword'' (n_lineno v) (n_end v) [(''arg'', FStr name), (''value'', FNode v)]"

definition method_call :: "nat \<Rightarrow> nat \<Rightarrow> string \<Rightarrow> string \<Rightarrow> py_node list \<Rightarrow> py_node list \<Rightarrow> py_node" where
  "method_call i l obj meth args kws = Node i ''Call'' (Some l) (Some l)
     [(''func'', FNode (Node (i + 1) ''Attribute'' (Some l) (Some l)
         [(''value'', FNode (name_node (i + 2) l obj)), (''attr'', FStr meth), (''ctx'', FNode ctx_node)])),
      (''args'', FNodes (map Some args)), (''keywords'', FNodes (map Some kws))]"

definition expr_stmt :: "nat \<Rightarrow> nat \<Rightarrow> py_node \<Rightarrow> py_node" where
  "expr_stmt i l v = Node i ''Expr'' (Some l) (Some l) [(''value'', FNode v)]"

definition assign_stmt :: "nat \<Rightarrow> nat \<Rightarrow> string \<Rightarrow> py_node \<Rightarrow> py_node" where
  "assign_stmt i l x v = Node i ''Assign'' (Some l) (Some l)
     [(''targets'', FNodes [Some (name_node (i + 1) l x)]), (''value'', FNode v), (''type_comment'', FNone)]"

definition add_node :: "nat \<Rightarrow> nat \<Rightarrow> py_node \<Rightarrow> py_node \<Rightarrow> py_node" where
  "add_node i l a b = Node i ''BinOp'' (Some l) (Some l)
     [(''left'', FNode a), (''op'', FNode (Node 98 ''Add'' None None [])), (''right'', FNode b)]"

definition aug_stmt :: "nat \<Rightarrow> nat \<Rightarrow> string \<Rightarrow> py_node \<Rightarrow> py_node" where
  "aug_stmt i l x v = Node i ''AugAssign'' (Some l) (Some l)
     [(''target'', FNode (name_node (i + 1) l x)), (''op'', FNode (Node 98 ''Add'' None None [])), (''value'', FNode v)]"

definition function_node :: "nat \<Rightarrow> nat \<Rightarrow> nat \<Rightarrow> py_node list \<Rightarrow> py_node" where
  "function_node i l e body = Node i ''FunctionDef'' (Some l) (Some e)
     [(''name'', FStr ''view''), (''args'', FNode (Node (i + 1) ''arguments'' None None [])), (''body'', FNodes (map Some body))]"

definition module_node :: "py_node list \<Rightarrow> py_node" where
  "module_node body = Node 1 ''Module'' None None [(''body'', FNodes (map Some body))]"

definition fstring_node :: "nat \<Rightarrow> nat \<Rightarrow> py_node list \<Rightarrow> py_node" where
  "fstring_node i l vs = Node i ''JoinedStr'' (Some l) (Some l) [(''values'', FNodes (map Some vs))]"

definition hole_node :: "nat \<Rightarrow> nat \<Rightarrow> py_node \<Rightarrow> py_node" where
  "hole_node i l v = Node i ''FormattedValue'' (Some l) (Some l)
     [(''value'', FNode v), (''conversion'', FNone), (''format_spec'', FNone)]"

text \<open>An \<open>ast\<close> module for one tree: names and attributes unparse to their text, the empty text is no expression.\<close>

definition ast_of :: "py_node \<Rightarrow> ast_env" where
  "ast_of tree = \<lparr>ast_parse = (\<lambda>_. Inr tree),
     ast_parse_expr = (\<lambda>s. if s = [] then Inl ''invalid syntax'' else Inr (name_node 0 0 s)),
     ast_unparse = (\<lambda>n. Inr (if is_kind ''Name'' n then the (gets n ''id'')
        else if is_kind ''Attribute'' n
        then the (gets (the (getn n ''value'')) ''id'') @ ''.'' @ the (gets n ''attr'') else ''code''))\<rparr>"

definition sink_at :: "string \<Rightarrow> nat \<Rightarrow> candidate_finding" where
  "sink_at kind line = sample_finding\<lparr>f_vulnerability_type := kind,
     f_sink := (f_sink sample_finding)\<lparr>snk_line := line\<rparr>\<rparr>"

definition rows :: "nat \<Rightarrow> string" where "rows n = concat (replicate n [CHR ''x'', LF])"

text \<open>\<open>cur.execute(f"SELECT {x}")\<close>\<close>

definition fstring_arg :: py_node where
  "fstring_arg = fstring_node 10 1 [str_node 11 1 ''SELECT '', hole_node 12 1 (name_node 13 1 ''x'')]"

definition fstring_tree :: py_node where
  "fstring_tree = module_node [expr_stmt 2 1 (method_call 3 1 ''cur'' ''execute'' [fstring_arg] [])]"


theorem generated_patch_applies_witness:
  "\<exists>p. generate (ast_of fstring_tree) (sink_at ''sql_injection'' 1) (rows 2) = Inr p \<and>
     (\<exists>new. apply_proposal (parser_of (ast_of fstring_tree)) p (rows 2) = Inr new)"
proof -
  let ?A = "ast_of fstring_tree"
  have "map_sum id rp_strategy (generate ?A (sink_at ''sql_injection'' 1) (rows 2)) = Inr ''parameterize_query''" by code_simp
  then obtain p where p: "generate ?A (sink_at ''sql_injection'' 1) (rows 2) = Inr p" "patches p"
    by (cases "generate ?A (sink_at ''sql_injection'' 1) (rows 2)") (auto simp: patches_def)
  have "\<not> isl (case generate ?A (sink_at ''sql_injection'' 1) (rows 2) of
      Inr q \<Rightarrow> apply_proposal (parser_of ?A) q (rows 2) | Inl e \<Rightarrow> Inl e)" by code_simp
  then show ?thesis using p generated_patch_applies[OF p, of "parser_of ?A"] by auto
qed



text \<open>\<open>q = "SELECT " + x; q += " LIMIT 1"; cur.execute(q)\<close>\<close>

definition concat_tree :: "py_node list \<Rightarrow> py_node" where
  "concat_tree body = module_node [function_node 2 1 4
     (body @ [expr_stmt 30 4 (method_call 31 4 ''cur'' ''execute'' [name_node 40 4 ''q''] [])])]"

definition query_body :: "py_node list" where
  "query_body = [assign_stmt 10 2 ''q'' (add_node 12 2 (str_node 13 2 ''SELECT '') (name_node 14 2 ''x'')),
     aug_stmt 20 3 ''q'' (str_node 22 3 '' LIMIT 1'')]"

theorem concat_query_binds_back_witness:
  "sql_query (ast_of (concat_tree query_body)) (concat_tree query_body) 4 (name_node 40 4 ''q'') =
     Inr (Some (''SELECT ? LIMIT 1'', [''x''])) \<and>
   bind_query ''SELECT ? LIMIT 1'' [''7''] = run_text (ast_of (concat_tree query_body)) (\<lambda>_. ''7'') ''q'' query_body"
proof -
  let ?A = "ast_of (concat_tree query_body)" and ?call = "expr_stmt 30 4 (method_call 31 4 ''cur'' ''execute'' [name_node 40 4 ''q''] [])"
  have q: "sql_query ?A (concat_tree query_body) 4 (name_node 40 4 ''q'') = Inr (Some (''SELECT ? LIMIT 1'', [''x'']))"
    by code_simp
  have enc: "find_enclosing_function (concat_tree query_body) 4 = Some (function_node 2 1 4 (query_body @ [?call]))"
    by code_simp
  have kids: "children (function_node 2 1 4 (query_body @ [?call])) =
      [Node 3 ''arguments'' None None []] @ query_body @ [?call]" by code_simp
  have parts: "is_kind ''Name'' (name_node 40 4 ''q'')" "gets (name_node 40 4 ''q'') ''id'' = Some ''q''"
    "resolve_assigned_fstring (concat_tree query_body) ''q'' = None" "builds ''q'' query_body"
    "list_all (\<lambda>s. \<not> (\<exists>d \<in> set (preorder s). assigns d)) ([Node 3 ''arguments'' None None []] @ [?call])"
    "\<forall>s \<in> set query_body. \<forall>v \<in> set (getns s ''value''). \<forall>p \<in> set (collect_concat_parts v).
       case const_str p of Some l \<Rightarrow> CHR 0x3F \<notin> set l | None \<Rightarrow> True"
    by code_simp+
  have lits: "\<forall>s \<in> set query_body. \<forall>v \<in> set (getns s ''value''). \<forall>p \<in> set (collect_concat_parts v). \<forall>l.
       const_str p = Some l \<longrightarrow> CHR 0x3F \<notin> set l"
    using parts(6) by (auto split: option.splits)
  from concat_query_binds_back[OF parts(1-3) enc kids parts(5,4) q lits, of "\<lambda>_. ''7''"] q show ?thesis
    by (simp only: list.map simp_thms)
qed

definition shell_tree :: py_node where
  "shell_tree = module_node [expr_stmt 2 1 (method_call 3 1 ''subprocess'' ''run'' [name_node 10 1 ''cmd'']
     [keyword_node 11 ''shell'' (Node 12 ''Constant'' (Some 1) (Some 1) [(''value'', FConst (Bool True)), (''kind'', FNone)])])]"

theorem command_patch_shape_witness:
  "\<exists>p. cmd_proposal (ast_of shell_tree) (sink_at ''command_injection'' 1) (rows 1) = Inr p \<and>
     rp_strategy p = ''shell_argument_vector'' \<and> rp_import_to_add p \<noteq> None"
proof -
  let ?A = "ast_of shell_tree"
  have "map_sum id rp_strategy (cmd_proposal ?A (sink_at ''command_injection'' 1) (rows 1)) = Inr ''shell_argument_vector''"
    by code_simp
  then obtain p where p: "cmd_proposal ?A (sink_at ''command_injection'' 1) (rows 1) = Inr p"
      "rp_strategy p = ''shell_argument_vector''" "patches p"
    by (cases "cmd_proposal ?A (sink_at ''command_injection'' 1) (rows 1)") (auto simp: patches_def)
  have tree: "ast_parse ?A (rows 1) = Inr shell_tree" by (simp add: ast_of_def)
  have "\<not> contains ''import shlex'' (rows 1)" "\<not> contains ''from shlex'' (rows 1)" by code_simp+
  then have "rp_import_to_add p \<noteq> None" using command_patch_shape[OF p(1,3) tree] by blast
  then show ?thesis using p by blast
qed

section \<open>Where the generator does something else\<close>

text \<open>A literal part that is just a question mark is taken for a placeholder without an expression, and parsing the
  empty expression raises outside every handler: proposing a patch for this program fails instead of falling back
  to no automatic fix.\<close>

definition marked_body :: "py_node list" where
  "marked_body = [assign_stmt 10 2 ''q'' (add_node 12 2 (str_node 13 2 ''?'') (name_node 14 2 ''x''))]"

theorem literal_question_mark_raises:
  "generate (ast_of (concat_tree marked_body)) (sink_at ''sql_injection'' 4) (rows 4) = Inl ''invalid syntax''"
  by code_simp

text \<open>Every assignment to the variable counts as an addition: a query that is assigned again is parameterized to the
  concatenation of both texts.\<close>

definition reset_body :: "py_node list" where
  "reset_body = [assign_stmt 10 2 ''q'' (str_node 13 2 ''SELECT 1''),
     assign_stmt 20 3 ''q'' (add_node 22 3 (str_node 23 3 ''SELECT '') (name_node 24 3 ''x''))]"

theorem reassigned_query_is_concatenated:
  "sql_query (ast_of (concat_tree reset_body)) (concat_tree reset_body) 4 (name_node 40 4 ''q'') =
     Inr (Some (''SELECT 1SELECT ?'', [''x''])) \<and>
   run_text (ast_of (concat_tree reset_body)) (\<lambda>_. ''7'') ''q'' reset_body = ''SELECT 7''"
  by code_simp

text \<open>An interpolation between quotes becomes a quoted question mark, which is text and no placeholder.\<close>

definition quoted_arg :: py_node where
  "quoted_arg = fstring_node 10 1 [str_node 11 1 (''n = '' @ [CHR 0x27]), hole_node 12 1 (name_node 13 1 ''x''),
     str_node 14 1 [CHR 0x27]]"

theorem quoted_interpolation_loses_its_placeholder:
  "sql_query (ast_of (module_node [])) (module_node []) 1 quoted_arg =
     Inr (Some (''n = '' @ [CHR 0x27] @ ''?'' @ [CHR 0x27], [''x'']))"
  by code_simp

text \<open>Only the literal \<open>shell=True\<close> is removed; with \<open>shell=flag\<close> the patch promises a call without a shell and keeps
  the keyword.\<close>

definition flag_keyword :: py_node where "flag_keyword = keyword_node 11 ''shell'' (name_node 12 1 ''flag'')"

theorem shell_variable_survives:
  "map_option (\<lambda>(arg, kws, strategy, _). (kws, strategy)) (cmd_plan ''subprocess.run'' ''cmd'' [flag_keyword]) =
     Some ([flag_keyword], ''shell_argument_vector'')"
  by code_simp


section \<open>The generator in the workflow\<close>

definition generator_env :: "(approval_request, approval_event, unit, unit, unit) rem_env" where
  "generator_env = (rem_env_of empty_model)\<lparr>re_finding := (\<lambda>_. Some (sink_at ''sql_injection'' 1)),
     re_sql := sql_proposal (ast_of fstring_tree), re_cmd := cmd_proposal (ast_of fstring_tree)\<rparr>"

definition unproposed_state :: "remediation_record rem_state" where
  "unproposed_state = \<lparr>rm_store = \<lparr>cache = [], factory = Some []\<rparr>, rm_files = [(''/w/p/repo/a.py'', rows 2)]\<rparr>"

theorem proposed_fix_can_be_applied_witness:
  "\<exists>r t. propose generator_env id_codec ''f'' unproposed_state = (Inr r, t) \<and>
     (\<exists>r' u. apply_fix generator_env id_codec ''f'' True t = (Inr r', u) \<and> rr_status r' = Rem_applied)"
proof -
  have "map_sum id rr_status (fst (propose generator_env id_codec ''f'' unproposed_state)) = Inr Rem_proposed"
    by code_simp
  then obtain r t where r: "propose generator_env id_codec ''f'' unproposed_state = (Inr r, t)" "rr_status r = Rem_proposed"
    by (cases "propose generator_env id_codec ''f'' unproposed_state"; cases "fst (propose generator_env id_codec ''f'' unproposed_state)") auto
  have "\<not> isl (fst (apply_fix generator_env id_codec ''f'' True (snd (propose generator_env id_codec ''f'' unproposed_state))))"
    by code_simp
  moreover have "rem_ok id_codec unproposed_state"
    by (simp add: rem_ok_def durable_def mirrors_def kstore_get_def unproposed_state_def id_codec_def lossless_def)
  moreover have "re_sql generator_env = sql_proposal (ast_of fstring_tree)"
      "re_cmd generator_env = cmd_proposal (ast_of fstring_tree)"
    by (simp_all add: generator_env_def)
  ultimately show ?thesis
    using proposed_fix_can_be_applied[of generator_env "ast_of fstring_tree" id_codec unproposed_state "''f''" r t] r by auto
qed

section \<open>The loop that looks for the end of a statement\<close>

text \<open>C25. The loop by which apply_proposal looks for the end of the anchored statement ends for every file, start and
  indentation, and its index is the one the recursive statement_extent of the model gives.
\<close>

theorem extent_loop_terminates:
  "extent_loop start_indent lines end_idx = Some (end_idx + statement_extent start_indent (drop end_idx lines))"
proof (induction "length lines - end_idx" arbitrary: end_idx rule: less_induct)
  case less
  show ?case
  proof (cases "end_idx < length lines")
    case True
    define nxt where "nxt = rstrip_newline (lines ! end_idx)"
    have rest: "drop end_idx lines = lines ! end_idx # drop (Suc end_idx) lines" by (simp add: Cons_nth_drop_Suc True)
    have stop: "while_option (\<lambda>s. \<not> snd s \<and> fst s < length lines) f (n, True) = Some (n, True)" for f n
      by (subst while_option_unfold) simp
    show ?thesis
    proof (cases "nxt \<noteq> [] \<and> start_indent < indent_of nxt")
      case True
      then have "extent_loop start_indent lines end_idx = extent_loop start_indent lines (Suc end_idx)"
        using \<open>end_idx < length lines\<close> unfolding extent_loop_def nxt_def
        by (subst while_option_unfold) (simp add: extent_step_def Let_def)
      with less[of "Suc end_idx"] True \<open>end_idx < length lines\<close> show ?thesis by (simp add: rest nxt_def Let_def)
    next
      case False
      with \<open>end_idx < length lines\<close> show ?thesis unfolding extent_loop_def nxt_def
        by (subst while_option_unfold) (auto simp: extent_step_def Let_def rest stop)
    qed
  next
    case False
    then show ?thesis unfolding extent_loop_def by (subst while_option_unfold) simp
  qed
qed

end
