(* ===== verification/Auth.thy ===== *)
theory Auth
  imports Store
begin

text \<open>
  Authentication and access control (backend/app/auth/): users, server-side sessions, roles and their permissions,
  the login and logout routes and the seeding of the demo users.

  The tables are lists of rows in insertion order; SQLite returns datetimes without their offset. Password hashing,
  the token generator, the digest of a session id and the clock are an environment.
\<close>

section \<open>Roles and permissions\<close>

datatype role = Analyst | Manager | Developer | Auditor

datatype permission =
  View_dashboard | View_repositories | View_findings | View_scan_runs | View_validation | View_proof | View_risk
| View_approvals | View_remediation | View_benchmark
| May_scan | May_deduplicate | May_validate | May_prove | May_assess_risk | May_start_sla | May_check_sla
| May_request_approval
| May_approve | May_reject | May_request_changes | May_resubmit | View_approval_queue
| May_propose_remediation | May_apply_remediation | May_verify_remediation | May_reprepare
| May_create_repository | May_delete_repository
| May_run_benchmark

fun permission_value :: "permission \<Rightarrow> string" where
  "permission_value View_dashboard = ''view_dashboard''"
| "permission_value View_repositories = ''view_repositories''"
| "permission_value View_findings = ''view_findings''"
| "permission_value View_scan_runs = ''view_scan_runs''"
| "permission_value View_validation = ''view_validation''"
| "permission_value View_proof = ''view_proof''"
| "permission_value View_risk = ''view_risk''"
| "permission_value View_approvals = ''view_approvals''"
| "permission_value View_remediation = ''view_remediation''"
| "permission_value View_benchmark = ''view_benchmark''"
| "permission_value May_scan = ''scan''"
| "permission_value May_deduplicate = ''deduplicate''"
| "permission_value May_validate = ''validate''"
| "permission_value May_prove = ''prove''"
| "permission_value May_assess_risk = ''assess_risk''"
| "permission_value May_start_sla = ''start_sla''"
| "permission_value May_check_sla = ''check_sla''"
| "permission_value May_request_approval = ''request_approval''"
| "permission_value May_approve = ''approve''"
| "permission_value May_reject = ''reject''"
| "permission_value May_request_changes = ''request_changes''"
| "permission_value May_resubmit = ''resubmit''"
| "permission_value View_approval_queue = ''view_approval_queue''"
| "permission_value May_propose_remediation = ''propose_remediation''"
| "permission_value May_apply_remediation = ''apply_remediation''"
| "permission_value May_verify_remediation = ''verify_remediation''"
| "permission_value May_reprepare = ''reprepare''"
| "permission_value May_create_repository = ''create_repository''"
| "permission_value May_delete_repository = ''delete_repository''"
| "permission_value May_run_benchmark = ''run_benchmark''"

definition ANALYST_PERMISSIONS :: "permission list" where
  "ANALYST_PERMISSIONS =
     [View_dashboard, View_repositories, View_findings, View_scan_runs, View_validation, View_proof, View_risk,
      View_approvals, View_remediation, View_benchmark, May_scan, May_deduplicate, May_validate, May_prove,
      May_assess_risk, May_start_sla, May_check_sla, May_request_approval, May_create_repository, May_run_benchmark]"

definition MANAGER_PERMISSIONS :: "permission list" where
  "MANAGER_PERMISSIONS = ANALYST_PERMISSIONS @
     [May_approve, May_reject, May_request_changes, May_resubmit, View_approval_queue, May_propose_remediation,
      May_apply_remediation, May_verify_remediation, May_reprepare, May_delete_repository]"

definition DEVELOPER_PERMISSIONS :: "permission list" where
  "DEVELOPER_PERMISSIONS =
     [View_dashboard, View_repositories, View_findings, View_scan_runs, View_validation, View_proof, View_risk,
      View_approvals, View_remediation, View_benchmark, May_propose_remediation, May_apply_remediation,
      May_verify_remediation, May_reprepare, May_scan, May_create_repository]"

definition AUDITOR_PERMISSIONS :: "permission list" where
  "AUDITOR_PERMISSIONS =
     [View_dashboard, View_repositories, View_findings, View_scan_runs, View_validation, View_proof, View_risk,
      View_approvals, View_remediation, View_benchmark]"

fun ROLE_PERMISSIONS :: "role \<Rightarrow> permission list" where
  "ROLE_PERMISSIONS Analyst = ANALYST_PERMISSIONS"
| "ROLE_PERMISSIONS Manager = MANAGER_PERMISSIONS"
| "ROLE_PERMISSIONS Developer = DEVELOPER_PERMISSIONS"
| "ROLE_PERMISSIONS Auditor = AUDITOR_PERMISSIONS"

definition has_permission :: "role \<Rightarrow> permission \<Rightarrow> bool" where
  "has_permission r p \<longleftrightarrow> p \<in> set (ROLE_PERMISSIONS r)"

lemmas permission_tables = has_permission_def ANALYST_PERMISSIONS_def MANAGER_PERMISSIONS_def
  DEVELOPER_PERMISSIONS_def AUDITOR_PERMISSIONS_def

section \<open>Users and sessions\<close>

record user =
  u_id :: string
  u_username :: string
  u_display_name :: string
  u_password_hash :: string
  u_role :: role
  u_is_active :: bool
  u_created_at :: py_datetime

record user_public =
  up_id :: string
  up_username :: string
  up_display_name :: string
  up_role :: role
  up_is_active :: bool

record auth_session =
  ses_id :: string
  ses_user_id :: string
  ses_created_at :: py_datetime
  ses_expires_at :: py_datetime
  ses_revoked_at :: "py_datetime option"

record auth_db =
  db_users :: "user list"
  db_sessions :: "auth_session list"

text \<open>The clock reads UTC; \<open>au_checkpw\<close> is \<open>None\<close> when bcrypt raises.\<close>

record auth_env =
  au_now :: int
  au_uuid :: string
  au_salt :: string
  au_token :: string
  au_sha :: "string \<Rightarrow> string"
  au_hashpw :: "string \<Rightarrow> string \<Rightarrow> string"
  au_checkpw :: "string \<Rightarrow> string \<Rightarrow> bool option"

text \<open>7 days, in microseconds.\<close>

definition SESSION_LIFETIME :: int where
  "SESSION_LIFETIME = 7 * 24 * 60 * 60 * 1000000"

definition GENERIC_AUTH_ERROR :: string where
  "GENERIC_AUTH_ERROR = ''Invalid username or password''"

text \<open>What SQLite gives back for a stored datetime.\<close>

fun stored :: "py_datetime \<Rightarrow> py_datetime" where
  "stored (Naive w) = Naive w"
| "stored (Aware w off) = Naive w"

definition hash_password :: "auth_env \<Rightarrow> string \<Rightarrow> string" where
  "hash_password env password = au_hashpw env password (au_salt env)"

definition verify_password :: "auth_env \<Rightarrow> string \<Rightarrow> string \<Rightarrow> bool" where
  "verify_password env password password_hash =
     (case au_checkpw env password password_hash of None \<Rightarrow> False | Some b \<Rightarrow> b)"

definition session_id_hash :: "auth_env \<Rightarrow> string \<Rightarrow> string" where
  "session_id_hash env session_id = au_sha env session_id"

definition row_to_user :: "user \<Rightarrow> user" where
  "row_to_user r = r\<lparr>u_created_at := as_aware_utc (u_created_at r)\<rparr>"

text \<open>\<open>db.add\<close> and \<open>commit\<close>: \<open>None\<close> when the primary key or the unique username exists already.\<close>

definition insert_user :: "user \<Rightarrow> auth_db \<Rightarrow> auth_db option" where
  "insert_user u db =
     (if \<exists>r \<in> set (db_users db). u_id r = u_id u \<or> u_username r = u_username u then None
      else Some (db\<lparr>db_users := db_users db @ [u\<lparr>u_created_at := stored (u_created_at u)\<rparr>]\<rparr>))"

definition create_user ::
    "auth_env \<Rightarrow> string \<Rightarrow> string \<Rightarrow> string \<Rightarrow> role \<Rightarrow> bool \<Rightarrow> auth_db \<Rightarrow> (user \<times> auth_db) option" where
  "create_user env username display_name password r is_active db =
     (let u = \<lparr>u_id = take 16 (au_uuid env), u_username = username, u_display_name = display_name,
               u_password_hash = hash_password env password, u_role = r, u_is_active = is_active,
               u_created_at = utc (au_now env)\<rparr>
      in map_option (\<lambda>db'. (u, db')) (insert_user u db))"

definition get_user_by_username :: "auth_db \<Rightarrow> string \<Rightarrow> user option" where
  "get_user_by_username db username = map_option row_to_user (find (\<lambda>r. u_username r = username) (db_users db))"

definition get_user_by_id :: "auth_db \<Rightarrow> string \<Rightarrow> user option" where
  "get_user_by_id db user_id = map_option row_to_user (find (\<lambda>r. u_id r = user_id) (db_users db))"

definition row_to_session :: "auth_session \<Rightarrow> auth_session" where
  "row_to_session r = r\<lparr>ses_created_at := as_aware_utc (ses_created_at r),
     ses_expires_at := as_aware_utc (ses_expires_at r), ses_revoked_at := map_option as_aware_utc (ses_revoked_at r)\<rparr>"

definition insert_session :: "auth_session \<Rightarrow> auth_db \<Rightarrow> auth_db option" where
  "insert_session s db =
     (if \<exists>r \<in> set (db_sessions db). ses_id r = ses_id s then None
      else Some (db\<lparr>db_sessions := db_sessions db @
        [s\<lparr>ses_created_at := stored (ses_created_at s), ses_expires_at := stored (ses_expires_at s),
           ses_revoked_at := map_option stored (ses_revoked_at s)\<rparr>]\<rparr>))"

definition create_session :: "auth_env \<Rightarrow> string \<Rightarrow> auth_db \<Rightarrow> ((string \<times> auth_session) \<times> auth_db) option" where
  "create_session env user_id db =
     (let raw_id = au_token env;
          s = \<lparr>ses_id = session_id_hash env raw_id, ses_user_id = user_id, ses_created_at = utc (au_now env),
               ses_expires_at = utc (au_now env + SESSION_LIFETIME), ses_revoked_at = None\<rparr>
      in map_option (\<lambda>db'. ((raw_id, s), db')) (insert_session s db))"

definition get_session :: "auth_env \<Rightarrow> auth_db \<Rightarrow> string \<Rightarrow> auth_session option" where
  "get_session env db raw_session_id =
     (case find (\<lambda>r. ses_id r = session_id_hash env raw_session_id) (db_sessions db) of
        None \<Rightarrow> None
      | Some row \<Rightarrow>
          (let s = row_to_session row in
           if ses_revoked_at s \<noteq> None then None
           else if utc_instant (as_aware_utc (ses_expires_at s)) < au_now env then None
           else Some s))"

fun revoke_first :: "string \<Rightarrow> py_datetime \<Rightarrow> auth_session list \<Rightarrow> auth_session list" where
  "revoke_first h now [] = []"
| "revoke_first h now (r # rs) =
     (if ses_id r = h
      then (if ses_revoked_at r = None then r\<lparr>ses_revoked_at := Some (stored now)\<rparr> else r) # rs
      else r # revoke_first h now rs)"

definition revoke_session :: "auth_env \<Rightarrow> string \<Rightarrow> auth_db \<Rightarrow> auth_db" where
  "revoke_session env raw_session_id db =
     db\<lparr>db_sessions := revoke_first (session_id_hash env raw_session_id) (utc (au_now env)) (db_sessions db)\<rparr>"

definition revoke_all_user_sessions :: "auth_env \<Rightarrow> string \<Rightarrow> auth_db \<Rightarrow> auth_db" where
  "revoke_all_user_sessions env user_id db =
     db\<lparr>db_sessions := map (\<lambda>r. if ses_user_id r = user_id \<and> ses_revoked_at r = None
                              then r\<lparr>ses_revoked_at := Some (stored (utc (au_now env)))\<rparr> else r) (db_sessions db)\<rparr>"

definition authenticate_user :: "auth_env \<Rightarrow> auth_db \<Rightarrow> string \<Rightarrow> string \<Rightarrow> user option" where
  "authenticate_user env db username password =
     (case get_user_by_username db username of
        None \<Rightarrow> None
      | Some u \<Rightarrow>
          if \<not> verify_password env password (u_password_hash u) then None
          else if \<not> u_is_active u then None
          else Some u)"

definition to_public :: "user \<Rightarrow> user_public" where
  "to_public u = \<lparr>up_id = u_id u, up_username = u_username u, up_display_name = u_display_name u,
     up_role = u_role u, up_is_active = u_is_active u\<rparr>"

section \<open>Dependencies and routes\<close>

text \<open>An \<open>HTTPException\<close>: its status code and detail.\<close>

type_synonym http_error = "nat \<times> string"

definition get_current_user :: "auth_env \<Rightarrow> auth_db \<Rightarrow> string option \<Rightarrow> http_error + user" where
  "get_current_user env db sast_session =
     (case sast_session of
        None \<Rightarrow> Inl (401, ''Not authenticated'')
      | Some raw \<Rightarrow>
          if raw = [] then Inl (401, ''Not authenticated'')
          else
            (case get_session env db raw of
               None \<Rightarrow> Inl (401, ''Invalid or expired session'')
             | Some s \<Rightarrow>
                 (case get_user_by_id db (ses_user_id s) of
                    None \<Rightarrow> Inl (401, ''User not found'')
                  | Some u \<Rightarrow> if \<not> u_is_active u then Inl (401, ''User account is inactive'') else Inr u)))"

definition get_optional_user :: "auth_env \<Rightarrow> auth_db \<Rightarrow> string option \<Rightarrow> user option" where
  "get_optional_user env db sast_session =
     (case sast_session of
        None \<Rightarrow> None
      | Some raw \<Rightarrow>
          if raw = [] then None
          else
            (case get_session env db raw of
               None \<Rightarrow> None
             | Some s \<Rightarrow>
                 (case get_user_by_id db (ses_user_id s) of
                    None \<Rightarrow> None
                  | Some u \<Rightarrow> if \<not> u_is_active u then None else Some u)))"

definition require_permission :: "permission \<Rightarrow> auth_env \<Rightarrow> auth_db \<Rightarrow> string option \<Rightarrow> http_error + user" where
  "require_permission p env db sast_session =
     (case get_current_user env db sast_session of
        Inl e \<Rightarrow> Inl e
      | Inr u \<Rightarrow>
          if \<not> has_permission (u_role u) p then Inl (403, ''Permission denied: '' @ permission_value p) else Inr u)"

text \<open>The response of a login carries the public user and the cookie.\<close>

definition login ::
    "auth_env \<Rightarrow> string \<Rightarrow> string \<Rightarrow> auth_db \<Rightarrow> (http_error + user_public \<times> string) \<times> auth_db" where
  "login env username password db =
     (case authenticate_user env db username password of
        None \<Rightarrow> (Inl (401, GENERIC_AUTH_ERROR), db)
      | Some u \<Rightarrow>
          (case create_session env (u_id u) db of
             None \<Rightarrow> (Inl (500, ''Internal Server Error''), db)
           | Some ((raw, _), db') \<Rightarrow> (Inr (to_public u, raw), db')))"

definition logout :: "auth_env \<Rightarrow> string option \<Rightarrow> auth_db \<Rightarrow> auth_db" where
  "logout env sast_session db =
     (case sast_session of None \<Rightarrow> db | Some raw \<Rightarrow> if raw = [] then db else revoke_session env raw db)"

definition me :: "auth_env \<Rightarrow> auth_db \<Rightarrow> string option \<Rightarrow> http_error + user_public" where
  "me env db sast_session = map_sum (\<lambda>e. e) to_public (get_current_user env db sast_session)"

section \<open>Seeding\<close>

definition DEMO_PASSWORD :: string where "DEMO_PASSWORD = ''demo123''"

definition DEMO_USERS :: "(string \<times> string \<times> role) list" where
  "DEMO_USERS = [(''analyst'', ''Security Analyst'', Analyst), (''manager'', ''Security Manager'', Manager),
     (''developer'', ''Developer'', Developer), (''auditor'', ''Auditor'', Auditor)]"

fun rehash_first :: "string \<Rightarrow> string \<Rightarrow> user list \<Rightarrow> user list" where
  "rehash_first username h [] = []"
| "rehash_first username h (r # rs) =
     (if u_username r = username then r\<lparr>u_password_hash := h\<rparr> # rs else r # rehash_first username h rs)"

definition seed_user :: "(string \<Rightarrow> auth_env) \<Rightarrow> string \<times> string \<times> role \<Rightarrow> bool \<times> auth_db \<Rightarrow> bool \<times> auth_db" where
  "seed_user env demo acc =
     (case acc of (ok, db) \<Rightarrow>
       if \<not> ok then (False, db)
       else
         (case demo of (username, display_name, r) \<Rightarrow>
            (case get_user_by_username db username of
               Some existing \<Rightarrow>
                 if \<not> verify_password (env username) DEMO_PASSWORD (u_password_hash existing)
                 then (True, db\<lparr>db_users := rehash_first username (hash_password (env username) DEMO_PASSWORD)
                                              (db_users db)\<rparr>)
                 else (True, db)
             | None \<Rightarrow>
                 (case create_user (env username) username display_name DEMO_PASSWORD r True db of
                    None \<Rightarrow> (False, db)
                  | Some (_, db') \<Rightarrow> (True, db')))))"

text \<open>
  The flag says that no row was refused (an exception leaves the loop, what was committed before stays); the
  environment is the one of each user's calls.
\<close>

definition seed_demo_users :: "(string \<Rightarrow> auth_env) \<Rightarrow> auth_db \<Rightarrow> bool \<times> auth_db" where
  "seed_demo_users env db = fold (seed_user env) DEMO_USERS (True, db)"

end
