(* ===== verification/Api.thy ===== *)
theory Api
  imports Auth Remediation Dedup
begin

text \<open>
  The HTTP endpoints that change state (backend/app/api/routes/ and auth/routes.py), over one application state that
  holds every store: who may call them, in which order they check, how a scan-run context turns an action into a
  recorded stage execution, and the cascade that deletes a repository.

  A response is a value or an HTTP error. What one request reads from outside (clock, fresh ids, model provider,
  sandbox, prepared code model, file system) is its environment.
\<close>

section \<open>State and environment\<close>

text \<open>The exceptions the handlers see; \<open>Http\<close> is \<open>HTTPException\<close>.\<close>

datatype exn =
  Http nat string
| Config_exn config_error
| Proof_exn gate_error
| Approval_exn approval_error
| Value_exn string

record 'p api_codecs =
  co_runs :: "('p, 'p, 'p) run_codecs"
  co_finding :: "(candidate_finding, 'p) codec"
  co_validation :: "(validation_result, 'p) codec"
  co_proof :: "(proof_result, 'p) codec"
  co_approval :: "('p, 'p) approval_codecs"
  co_risk :: "('p, 'p, 'p) risk_codecs"
  co_group :: "(dedup_group, 'p) codec"
  co_rem :: "(remediation_record, 'p) codec"

record ('p, 'w) app =
  a_db :: auth_db
  a_projects :: "(string, project_row) dict"
  a_runs :: "('p, 'p, 'p) run_store"
  a_findings :: "'p finding_store"
  a_validations :: "'p validation_store"
  a_proofs :: "'p proof_store"
  a_approvals :: "('p, 'p) approval_store"
  a_risk :: "('p, 'p, 'p) risk_state"
  a_groups :: "'p group_registry"
  a_rem :: "'p rem_state"
  a_runner :: runner
  a_world :: 'w

text \<open>
  \<open>pe_str\<close> is the text of an exception, \<open>pe_list\<close> the text of a list of ids, \<open>pe_rmtree_keeps\<close> says which files an
  incomplete \<open>rmtree\<close> leaves behind.
\<close>

record 'w api_env =
  pe_auth :: auth_env
  pe_execution_id :: string
  pe_begin :: py_datetime
  pe_end :: py_datetime
  pe_now :: int
  pe_str :: "exn \<Rightarrow> string"
  pe_list :: "string list \<Rightarrow> string"
  pe_isoformat :: "py_datetime \<Rightarrow> string"
  pe_sha :: "string \<Rightarrow> string"
  pe_tokens :: tokenizer
  pe_provider :: "string \<Rightarrow> config_error + 'w provider"
  pe_repair_prompt :: string
  pe_duration :: rat
  pe_windows :: bool
  pe_sandbox :: sandbox_env
  pe_approval :: approval_env
  pe_run :: run_env
  pe_prepared_at :: "py_datetime option"
  pe_project_id :: string
  pe_prepare :: "repo_spec \<Rightarrow> http_error + string \<times> py_datetime"
  pe_code_model :: "project_row \<Rightarrow> string + code_model"
  pe_workspace :: string
  pe_resolve :: "string \<Rightarrow> string"
  pe_parse :: py_parser
  pe_sql :: rewriter
  pe_cmd :: rewriter
  pe_rmtree_keeps :: "string \<Rightarrow> bool"

section \<open>Responses\<close>

text \<open>An exception no handler catches is a 500, an \<open>HTTPException\<close> is its code and detail.\<close>

fun uncaught :: "exn \<Rightarrow> http_error" where
  "uncaught (Http code detail) = (code, detail)"
| "uncaught _ = (500, ''Internal Server Error'')"

definition respond :: "(exn \<Rightarrow> http_error) \<Rightarrow> (exn + 'r) \<times> 's \<Rightarrow> (http_error + 'r) \<times> 's" where
  "respond catch xs = (map_sum catch (\<lambda>r. r) (fst xs), snd xs)"

definition secured ::
    "permission \<Rightarrow> 'w api_env \<Rightarrow> string option \<Rightarrow> (user \<Rightarrow> ('p, 'w) app \<Rightarrow> (http_error + 'r) \<times> ('p, 'w) app)
     \<Rightarrow> ('p, 'w) app \<Rightarrow> (http_error + 'r) \<times> ('p, 'w) app" where
  "secured p env cookie body s =
     (case require_permission p (pe_auth env) (a_db s) cookie of Inl e \<Rightarrow> (Inl e, s) | Inr u \<Rightarrow> body u s)"

section \<open>Stage actions\<close>

text \<open>The work of a stage, recorded as an execution of it.\<close>

definition staged ::
    "'p api_codecs \<Rightarrow> 'w api_env \<Rightarrow> string \<Rightarrow> string \<Rightarrow> ('r \<Rightarrow> bool \<times> string) option
     \<Rightarrow> (('p, 'w) app \<Rightarrow> (exn + 'r) \<times> ('p, 'w) app) \<Rightarrow> ('p, 'w) app \<Rightarrow> (exn + 'r) \<times> ('p, 'w) app" where
  "staged c env run_id stage cond body s =
     (case record_stage_execution (pe_str env) (co_runs c) run_id stage (pe_execution_id env) (pe_begin env)
             (pe_end env) cond
             (\<lambda>(rs, a). case body (a\<lparr>a_runs := rs\<rparr>) of (x, a') \<Rightarrow> (x, a_runs a', a')) (a_runs s, s) of
        (x, rs, a) \<Rightarrow> (x, a\<lparr>a_runs := rs\<rparr>))"

text \<open>
  The optional scan-run context of an action: without one the action just runs; with one the run must produce the
  finding, and the action is recorded. The check \<open>chk\<close> comes after the context check.
\<close>

definition with_run ::
    "'p api_codecs \<Rightarrow> 'w api_env \<Rightarrow> string option \<Rightarrow> string \<Rightarrow> string \<Rightarrow> ('r \<Rightarrow> bool \<times> string) option
     \<Rightarrow> (('p, 'w) app \<Rightarrow> exn option) \<Rightarrow> (('p, 'w) app \<Rightarrow> (exn + 'r) \<times> ('p, 'w) app)
     \<Rightarrow> ('p, 'w) app \<Rightarrow> (exn + 'r) \<times> ('p, 'w) app" where
  "with_run c env scan_run fid stage cond chk body s =
     (case scan_run of
        None \<Rightarrow> (case chk s of Some e \<Rightarrow> (Inl e, s) | None \<Rightarrow> body s)
      | Some run_id \<Rightarrow>
          (case validate_stage_context (a_runs s) run_id fid of
             Some (code, detail) \<Rightarrow> (Inl (Http code detail), s)
           | None \<Rightarrow> (case chk s of Some e \<Rightarrow> (Inl e, s) | None \<Rightarrow> staged c env run_id stage cond body s)))"

abbreviation no_check :: "('p, 'w) app \<Rightarrow> exn option" where
  "no_check \<equiv> (\<lambda>_. None)"

definition not_found :: "string \<Rightarrow> http_error" where
  "not_found fid = (404, ''finding not found: '' @ fid)"

section \<open>Validation\<close>

definition validate_and_store ::
    "'p api_codecs \<Rightarrow> 'w api_env \<Rightarrow> string \<Rightarrow> string \<Rightarrow> ('p, 'w) app \<Rightarrow> (exn + validation_result) \<times> ('p, 'w) app" where
  "validate_and_store c env fid provider s =
     (case kstore_get (a_findings s) fid of
        None \<Rightarrow> (Inl (Value_exn ''no finding''), s)
      | Some f \<Rightarrow>
          (case service_validate (pe_provider env provider) (pe_repair_prompt env) (utc (pe_now env)) (pe_duration env)
                  [] f (a_world s) of
             (Inl e, w) \<Rightarrow> (Inl (Config_exn e), s\<lparr>a_world := w\<rparr>)
           | (Inr r, w) \<Rightarrow>
               (Inr r, s\<lparr>a_world := w,
                         a_validations := kstore_put (co_validation c) (vr_finding_id r) r (a_validations s)\<rparr>)))"

fun catch_config :: "exn \<Rightarrow> http_error" where
  "catch_config (Config_exn e) = (503, e)"
| "catch_config e = uncaught e"

definition validate_finding ::
    "'p api_codecs \<Rightarrow> 'w api_env \<Rightarrow> string option \<Rightarrow> string \<Rightarrow> string \<Rightarrow> string option \<Rightarrow> ('p, 'w) app
     \<Rightarrow> (http_error + validation_result) \<times> ('p, 'w) app" where
  "validate_finding c env cookie fid provider scan_run =
     secured May_validate env cookie (\<lambda>u s.
       if kstore_get (a_findings s) fid = None then (Inl (not_found fid), s)
       else respond catch_config
              (with_run c env scan_run fid ''VALIDATE'' None no_check (validate_and_store c env fid provider) s))"

section \<open>Proof\<close>

definition prove_and_store ::
    "'p api_codecs \<Rightarrow> 'w api_env \<Rightarrow> string \<Rightarrow> ('p, 'w) app \<Rightarrow> (exn + proof_result) \<times> ('p, 'w) app" where
  "prove_and_store c env fid s =
     (case kstore_get (a_findings s) fid of
        None \<Rightarrow> (Inl (Value_exn ''no finding''), s)
      | Some f \<Rightarrow>
          (case prove (pe_windows env) (pe_sandbox env) (utc (pe_now env)) (pe_duration env) f
                  (kstore_get (a_validations s) fid) (a_runner s) of
             (Inl e, rn) \<Rightarrow> (Inl (Proof_exn e), s\<lparr>a_runner := rn\<rparr>)
           | (Inr r, rn) \<Rightarrow>
               (Inr r, s\<lparr>a_runner := rn, a_proofs := proof_record (co_proof c) r (a_proofs s)\<rparr>)))"

definition proof_error_condition :: "proof_result \<Rightarrow> bool \<times> string" where
  "proof_error_condition r =
     (if pr_status r = Proof_error
      then (True, case pr_error r of
                    None \<Rightarrow> ''proof execution returned status=error''
                  | Some m \<Rightarrow> if m = [] then ''proof execution returned status=error'' else m)
      else (False, []))"

definition catch_gate :: "'w api_env \<Rightarrow> exn \<Rightarrow> http_error" where
  "catch_gate env e = (case e of Proof_exn _ \<Rightarrow> (409, pe_str env e) | _ \<Rightarrow> uncaught e)"

definition prove_finding ::
    "'p api_codecs \<Rightarrow> 'w api_env \<Rightarrow> string option \<Rightarrow> string \<Rightarrow> string option \<Rightarrow> ('p, 'w) app
     \<Rightarrow> (http_error + proof_result) \<times> ('p, 'w) app" where
  "prove_finding c env cookie fid scan_run =
     secured May_prove env cookie (\<lambda>u s.
       if kstore_get (a_findings s) fid = None then (Inl (not_found fid), s)
       else respond (catch_gate env)
              (with_run c env scan_run fid ''PROVE'' (Some proof_error_condition)
                 (\<lambda>s. if kstore_get (a_validations s) fid = None
                      then Some (Http 404 (''validation result missing: '' @ fid)) else None)
                 (prove_and_store c env fid) s))"

section \<open>Approval\<close>

definition is_gate :: "approval_error \<Rightarrow> bool" where
  "is_gate e \<longleftrightarrow> (case e of Gate_terminal _ \<Rightarrow> True | Gate_not_validated \<Rightarrow> True | Gate_verdict _ \<Rightarrow> True
     | Gate_not_proven \<Rightarrow> True | Gate_proof _ \<Rightarrow> True | _ \<Rightarrow> False)"

definition catch_approval :: "'w api_env \<Rightarrow> exn \<Rightarrow> http_error" where
  "catch_approval env e =
     (case e of Approval_exn a \<Rightarrow> if is_gate a then (409, pe_str env e) else uncaught e | _ \<Rightarrow> uncaught e)"

definition request_action ::
    "'p api_codecs \<Rightarrow> 'w api_env \<Rightarrow> string \<Rightarrow> approval_action \<Rightarrow> string \<Rightarrow> string option \<Rightarrow> ('p, 'w) app
     \<Rightarrow> (exn + approval_request) \<times> ('p, 'w) app" where
  "request_action c env fid action who scan_run s =
     (case request_approval (co_approval c) (pe_approval env) default_approval_policy (kstore_get (a_validations s))
             (kstore_get (a_proofs s)) fid action who None scan_run (a_approvals s) of
        (x, st) \<Rightarrow> (map_sum Approval_exn (\<lambda>r. r) x, s\<lparr>a_approvals := st\<rparr>))"

definition request_approval_route ::
    "'p api_codecs \<Rightarrow> 'w api_env \<Rightarrow> string option \<Rightarrow> string \<Rightarrow> approval_action \<Rightarrow> string option \<Rightarrow> ('p, 'w) app
     \<Rightarrow> (http_error + approval_request) \<times> ('p, 'w) app" where
  "request_approval_route c env cookie fid action scan_run =
     secured May_request_approval env cookie (\<lambda>u s.
       if kstore_get (a_findings s) fid = None then (Inl (not_found fid), s)
       else respond (catch_approval env)
              (with_run c env scan_run fid ''APPROVAL'' None no_check
                 (request_action c env fid action (u_username u) scan_run) s))"

definition do_transition ::
    "'p api_codecs \<Rightarrow> 'w api_env \<Rightarrow> string \<Rightarrow> approval_status \<Rightarrow> string \<Rightarrow> string option \<Rightarrow> ('p, 'w) app
     \<Rightarrow> (exn + approval_request) \<times> ('p, 'w) app" where
  "do_transition c env aid target who reason s =
     (case transition (co_approval c) (pe_approval env) aid target who reason None (a_approvals s) of
        (x, st) \<Rightarrow> (map_sum Approval_exn (\<lambda>r. r) x, s\<lparr>a_approvals := st\<rparr>))"

definition catch_transition :: "'w api_env \<Rightarrow> exn \<Rightarrow> http_error" where
  "catch_transition env e =
     (case e of Approval_exn (Invalid_transition _ _) \<Rightarrow> (409, pe_str env e) | _ \<Rightarrow> uncaught e)"

text \<open>A reason that is not blank is required by the request model (422).\<close>

definition blank :: "string option \<Rightarrow> bool" where
  "blank reason \<longleftrightarrow> (case reason of None \<Rightarrow> False | Some r \<Rightarrow> strip r = [])"

definition decide ::
    "permission \<Rightarrow> approval_status \<Rightarrow> 'p api_codecs \<Rightarrow> 'w api_env \<Rightarrow> string option \<Rightarrow> string \<Rightarrow> string option
     \<Rightarrow> ('p, 'w) app \<Rightarrow> (http_error + approval_request) \<times> ('p, 'w) app" where
  "decide p target c env cookie aid reason =
     secured p env cookie (\<lambda>u s.
       if blank reason then (Inl (422, ''reason must not be blank''), s)
       else
         (case get_request (a_approvals s) aid of
            None \<Rightarrow> (Inl (404, ''approval not found: '' @ aid), s)
          | Some r \<Rightarrow>
              (case ar_scan_run_id r of
                 None \<Rightarrow> respond (catch_transition env) (do_transition c env aid target (u_username u) reason s)
               | Some run_id \<Rightarrow>
                   if target \<notin> set (ALLOWED_TRANSITIONS (ar_status r))
                   then (Inl (409, ''invalid approval transition: '' @ status_text (ar_status r) @ '' -> '' @
                               status_text target @ '' is not allowed''), s)
                   else respond (catch_transition env)
                          (staged c env run_id ''APPROVAL'' None
                             (do_transition c env aid target (u_username u) reason) s))))"

definition approve_route where "approve_route = decide May_approve Approved"
definition reject_route where "reject_route = decide May_reject Rejected"
definition request_changes_route where "request_changes_route = decide May_request_changes Changes_requested"
definition resubmit_route where "resubmit_route = decide May_resubmit Pending"

section \<open>Deduplication\<close>

definition dedup_action ::
    "'p api_codecs \<Rightarrow> 'w api_env \<Rightarrow> candidate_finding list \<Rightarrow> ('p, 'w) app \<Rightarrow> (exn + dedup_result) \<times> ('p, 'w) app" where
  "dedup_action c env findings s =
     (case deduplicate (pe_tokens env) (pe_sha env) (co_group c) (kstore_get (a_findings s)) findings (a_groups s) of
        (r, g) \<Rightarrow> (Inr r, s\<lparr>a_groups := g\<rparr>))"

definition deduplicate_route ::
    "'p api_codecs \<Rightarrow> 'w api_env \<Rightarrow> string option \<Rightarrow> string list \<Rightarrow> string option \<Rightarrow> ('p, 'w) app
     \<Rightarrow> (http_error + dedup_result) \<times> ('p, 'w) app" where
  "deduplicate_route c env cookie ids scan_run =
     secured May_deduplicate env cookie (\<lambda>u s.
       let missing = filter (\<lambda>i. kstore_get (a_findings s) i = None) ids;
           run = dedup_action c env (List.map_filter (kstore_get (a_findings s)) ids)
       in
       if missing \<noteq> [] then (Inl (404, ''findings not found: '' @ pe_list env missing), s)
       else
         (case scan_run of
            None \<Rightarrow> respond uncaught (run s)
          | Some run_id \<Rightarrow>
              (case validate_stage_context_for_findings (pe_list env) (a_runs s) run_id ids of
                 Some e \<Rightarrow> (Inl e, s)
               | None \<Rightarrow> respond uncaught (staged c env run_id ''DEDUPLICATE'' None run s))))"

section \<open>Risk and SLA\<close>

definition assess_action ::
    "'p api_codecs \<Rightarrow> 'w api_env \<Rightarrow> string \<Rightarrow> ('p, 'w) app \<Rightarrow> (exn + risk_assessment) \<times> ('p, 'w) app" where
  "assess_action c env fid s =
     (case kstore_get (a_findings s) fid of
        None \<Rightarrow> (Inl (Http 404 (''finding not found: '' @ fid)), s)
      | Some f \<Rightarrow>
          (case assess_risk (co_risk c) default_risk_policy f (kstore_get (a_validations s) fid)
                  (kstore_get (a_proofs s) fid) (utc (pe_now env)) (a_risk s) of
             (a, st) \<Rightarrow> (Inr a, s\<lparr>a_risk := st\<rparr>)))"

definition assess_risk_route ::
    "'p api_codecs \<Rightarrow> 'w api_env \<Rightarrow> string option \<Rightarrow> string \<Rightarrow> string option \<Rightarrow> ('p, 'w) app
     \<Rightarrow> (http_error + risk_assessment) \<times> ('p, 'w) app" where
  "assess_risk_route c env cookie fid scan_run =
     secured May_assess_risk env cookie (\<lambda>u s.
       respond uncaught (with_run c env scan_run fid ''RISK'' None no_check (assess_action c env fid) s))"

definition start_sla_action ::
    "'p api_codecs \<Rightarrow> 'w api_env \<Rightarrow> string \<Rightarrow> ('p, 'w) app \<Rightarrow> (exn + sla_record) \<times> ('p, 'w) app" where
  "start_sla_action c env fid s =
     (case start_sla (co_risk c) DEFAULT_DEADLINES fid (pe_now env) (a_risk s) of
        (None, st) \<Rightarrow> (Inl (Http 404 (''no risk assessment for finding: '' @ fid)), s\<lparr>a_risk := st\<rparr>)
      | (Some r, st) \<Rightarrow> (Inr r, s\<lparr>a_risk := st\<rparr>))"

definition create_sla_route ::
    "'p api_codecs \<Rightarrow> 'w api_env \<Rightarrow> string option \<Rightarrow> string \<Rightarrow> string option \<Rightarrow> ('p, 'w) app
     \<Rightarrow> (http_error + sla_record) \<times> ('p, 'w) app" where
  "create_sla_route c env cookie fid scan_run =
     secured May_start_sla env cookie (\<lambda>u s.
       respond uncaught (with_run c env scan_run fid ''SLA'' None no_check (start_sla_action c env fid) s))"

definition naive_time :: "py_datetime option \<Rightarrow> bool" where
  "naive_time t \<longleftrightarrow> (case t of None \<Rightarrow> False | Some d \<Rightarrow> \<not> is_aware d)"

definition check_sla_action ::
    "'p api_codecs \<Rightarrow> 'w api_env \<Rightarrow> string \<Rightarrow> py_datetime option \<Rightarrow> ('p, 'w) app
     \<Rightarrow> (exn + sla_record \<times> escalation_event option) \<times> ('p, 'w) app" where
  "check_sla_action c env fid now s =
     (case check_and_persist_sla (co_risk c) (pe_isoformat env) fid
             (case now of None \<Rightarrow> utc (pe_now env) | Some t \<Rightarrow> t) (a_risk s) of
        (None, st) \<Rightarrow> (Inl (Value_exn ''naive datetime''), s\<lparr>a_risk := st\<rparr>)
      | (Some None, st) \<Rightarrow> (Inl (Http 404 (''no SLA record for finding: '' @ fid)), s\<lparr>a_risk := st\<rparr>)
      | (Some (Some x), st) \<Rightarrow> (Inr x, s\<lparr>a_risk := st\<rparr>))"

definition check_sla_route ::
    "'p api_codecs \<Rightarrow> 'w api_env \<Rightarrow> string option \<Rightarrow> string \<Rightarrow> py_datetime option \<Rightarrow> string option \<Rightarrow> ('p, 'w) app
     \<Rightarrow> (http_error + sla_record \<times> escalation_event option) \<times> ('p, 'w) app" where
  "check_sla_route c env cookie fid now scan_run =
     secured May_check_sla env cookie (\<lambda>u s.
       if naive_time now then (Inl (422, ''now must be timezone-aware''), s)
       else respond uncaught (with_run c env scan_run fid ''SLA'' None no_check (check_sla_action c env fid now) s))"

definition resolve_sla_route ::
    "'p api_codecs \<Rightarrow> 'w api_env \<Rightarrow> string option \<Rightarrow> string \<Rightarrow> py_datetime option \<Rightarrow> ('p, 'w) app
     \<Rightarrow> (http_error + sla_record) \<times> ('p, 'w) app" where
  "resolve_sla_route c env cookie fid resolved_at =
     secured May_check_sla env cookie (\<lambda>u s.
       if naive_time resolved_at then (Inl (422, ''resolved_at must be timezone-aware''), s)
       else if get_sla (a_risk s) fid = None then (Inl (404, ''no SLA record for finding: '' @ fid), s)
       else
         (case resolve_handler (co_risk c) fid (case resolved_at of None \<Rightarrow> utc (pe_now env) | Some t \<Rightarrow> t) (a_risk s) of
            (None, st) \<Rightarrow> (Inl (500, ''Internal Server Error''), s\<lparr>a_risk := st\<rparr>)
          | (Some r, st) \<Rightarrow> (Inr r, s\<lparr>a_risk := st\<rparr>)))"


section \<open>Remediation\<close>

definition rem_env_in :: "'w api_env \<Rightarrow> ('p, 'w) app \<Rightarrow> ('p, 'p, 'p, 'p, 'p) rem_env" where
  "rem_env_in env s =
     \<lparr>re_approvals = a_approvals s, re_finding = kstore_get (a_findings s), re_runs = a_runs s,
      re_project = dget (a_projects s), re_code_model = pe_code_model env, re_workspace = pe_workspace env,
      re_resolve = pe_resolve env, re_now = utc (pe_now env), re_parse = pe_parse env, re_sql = pe_sql env,
      re_cmd = pe_cmd env, re_sha = pe_sha env, re_report_id = pe_execution_id env\<rparr>"

definition on_rem ::
    "('p rem_state \<Rightarrow> (http_error + 'r) \<times> 'p rem_state) \<Rightarrow> ('p, 'w) app \<Rightarrow> (http_error + 'r) \<times> ('p, 'w) app" where
  "on_rem f s = (case f (a_rem s) of (x, r) \<Rightarrow> (x, s\<lparr>a_rem := r\<rparr>))"

definition propose_route ::
    "'p api_codecs \<Rightarrow> 'w api_env \<Rightarrow> string option \<Rightarrow> string \<Rightarrow> ('p, 'w) app
     \<Rightarrow> (http_error + remediation_record) \<times> ('p, 'w) app" where
  "propose_route c env cookie fid =
     secured May_propose_remediation env cookie (\<lambda>u s.
       on_rem (propose_remediation (rem_env_in env s) (co_rem c) fid) s)"

definition apply_route ::
    "'p api_codecs \<Rightarrow> 'w api_env \<Rightarrow> string option \<Rightarrow> string \<Rightarrow> bool \<Rightarrow> ('p, 'w) app
     \<Rightarrow> (http_error + remediation_record) \<times> ('p, 'w) app" where
  "apply_route c env cookie fid confirm =
     secured May_apply_remediation env cookie (\<lambda>u s.
       on_rem (apply_remediation (rem_env_in env s) (co_rem c) fid confirm) s)"

definition verify_route ::
    "'p api_codecs \<Rightarrow> 'w api_env \<Rightarrow> string option \<Rightarrow> string \<Rightarrow> ('p, 'w) app
     \<Rightarrow> (http_error + remediation_record) \<times> ('p, 'w) app" where
  "verify_route c env cookie fid =
     secured May_verify_remediation env cookie (\<lambda>u s.
       on_rem (verify_remediation (rem_env_in env s) (co_rem c) fid) s)"

section \<open>Repositories\<close>

text \<open>\<open>pe_prepare\<close> is the outcome of PREPARE: its error response, or the directory of the snapshot and when it was made.\<close>

definition create_project_route ::
    "'w api_env \<Rightarrow> string option \<Rightarrow> repo_spec \<Rightarrow> ('p, 'w) app \<Rightarrow> (http_error + string) \<times> ('p, 'w) app" where
  "create_project_route env cookie payload =
     secured May_create_repository env cookie (\<lambda>u s.
       case pe_prepare env payload of
         Inl e \<Rightarrow> (Inl e, s)
       | Inr (dir, created_at) \<Rightarrow>
           if dget (a_projects s) (pe_project_id env) \<noteq> None then (Inl (500, ''Internal Server Error''), s)
           else (Inr (pe_project_id env),
                 s\<lparr>a_projects := dput (pe_project_id env)
                     \<lparr>pj_id = pe_project_id env, pj_name = rs_name payload, pj_source_type = rs_source_type payload,
                      pj_location = rs_location payload, pj_language = rs_language payload, pj_status = ''prepared'',
                      pj_snapshot_path = dir, pj_created_at = created_at\<rparr> (a_projects s)\<rparr>))"

definition scan_project_route ::
    "'p api_codecs \<Rightarrow> 'w api_env \<Rightarrow> string option \<Rightarrow> string \<Rightarrow> ('p, 'w) app
     \<Rightarrow> (http_error + scan_run \<times> scan_report) \<times> ('p, 'w) app" where
  "scan_project_route c env cookie project_id =
     secured May_scan env cookie (\<lambda>u s.
       case dget (a_projects s) project_id of
         None \<Rightarrow> (Inl (404, ''project not found: '' @ project_id), s)
       | Some p \<Rightarrow>
           (case pe_code_model env p of
              Inl _ \<Rightarrow> (Inl (500, ''code model unavailable''), s)
            | Inr cm \<Rightarrow>
                (case execute_scan (co_runs c) (co_finding c) (pe_run env) project_id cm (pe_prepared_at env)
                        (a_runs s, a_findings s) of
                   (x, rs, fs) \<Rightarrow>
                     (map_sum (\<lambda>_. (500, ''Internal Server Error'')) (\<lambda>r. r) x, s\<lparr>a_runs := rs, a_findings := fs\<rparr>))))"

text \<open>One turn of the cascade over the findings of a deleted repository.\<close>

definition forget_finding :: "string \<Rightarrow> ('p, 'w) app \<Rightarrow> ('p, 'w) app" where
  "forget_finding fid s =
     s\<lparr>a_findings := kstore_remove fid (a_findings s), a_validations := kstore_remove fid (a_validations s),
       a_proofs := kstore_remove fid (a_proofs s), a_risk := remove_finding_state fid (a_risk s),
       a_approvals := remove_finding fid (a_approvals s),
       a_rem := (a_rem s)\<lparr>rm_store := kstore_remove fid (rm_store (a_rem s))\<rparr>\<rparr>"

text \<open>The prepared directory is only removed when it is where PREPARE puts it.\<close>

definition remove_project_workspace :: "'w api_env \<Rightarrow> string \<Rightarrow> string \<Rightarrow> ('p, 'w) app \<Rightarrow> ('p, 'w) app" where
  "remove_project_workspace env project_id snapshot_path s =
     (let expected = pe_resolve env (path_join (path_join (pe_workspace env) ''projects'') project_id);
          actual = pe_resolve env snapshot_path
      in if actual \<noteq> expected then s
         else s\<lparr>a_rem := (a_rem s)\<lparr>rm_files :=
                filter (\<lambda>(f, _). \<not> is_relative_to f actual \<or> pe_rmtree_keeps env f) (rm_files (a_rem s))\<rparr>\<rparr>)"

definition project_finding_ids :: "string \<Rightarrow> ('p, 'w) app \<Rightarrow> string list option" where
  "project_finding_ids project_id s =
     map_option (\<lambda>rs. remdups (concat (map (\<lambda>r. finding_ids_for_run (a_runs s) (rn_id r)) rs)))
       (runs_for_project (a_runs s) project_id)"

text \<open>The cascade over the stores, then the project's row.\<close>

definition delete_records :: "'p api_codecs \<Rightarrow> string \<Rightarrow> string list \<Rightarrow> ('p, 'w) app \<Rightarrow> ('p, 'w) app" where
  "delete_records c project_id fids s =
     (let s1 = fold forget_finding fids s;
          s2 = (if fids = [] then s1
                else s1\<lparr>a_groups := remove_findings (co_group c) (kstore_get (a_findings s1)) (set fids) (a_groups s1)\<rparr>);
          s3 = s2\<lparr>a_runs := delete_project_runs project_id (a_runs s2)\<rparr>
      in s3\<lparr>a_projects := dpop project_id (a_projects s3)\<rparr>)"

definition delete_project_route ::
    "'p api_codecs \<Rightarrow> 'w api_env \<Rightarrow> string option \<Rightarrow> string \<Rightarrow> ('p, 'w) app
     \<Rightarrow> (http_error + unit) \<times> ('p, 'w) app" where
  "delete_project_route c env cookie project_id =
     secured May_delete_repository env cookie (\<lambda>u s.
       case dget (a_projects s) project_id of
         None \<Rightarrow> (Inl (404, ''project not found: '' @ project_id), s)
       | Some p \<Rightarrow>
           (case project_finding_ids project_id s of
              None \<Rightarrow> (Inl (500, ''Internal Server Error''), s)
            | Some fids \<Rightarrow>
                (Inr (), remove_project_workspace env project_id (pj_snapshot_path p)
                           (delete_records c project_id fids s))))"

section \<open>All requests\<close>

datatype request =
  Validate_req string string "string option"
| Prove_req string "string option"
| Approval_req string approval_action "string option"
| Approve_req string "string option"
| Reject_req string "string option"
| Changes_req string "string option"
| Resubmit_req string "string option"
| Dedup_req "string list" "string option"
| Risk_req string "string option"
| Start_sla_req string "string option"
| Check_sla_req string "py_datetime option" "string option"
| Resolve_sla_req string "py_datetime option"
| Propose_req string
| Apply_req string bool
| Verify_req string
| Create_project_req repo_spec
| Scan_req string
| Delete_project_req string

text \<open>The error of a response, if it is one, and the state after it.\<close>

definition outcome_of :: "(http_error + 'r) \<times> 's \<Rightarrow> http_error option \<times> 's" where
  "outcome_of xs = (case fst xs of Inl e \<Rightarrow> Some e | Inr _ \<Rightarrow> None, snd xs)"

fun handle ::
    "'p api_codecs \<Rightarrow> 'w api_env \<Rightarrow> string option \<Rightarrow> request \<Rightarrow> ('p, 'w) app \<Rightarrow> http_error option \<times> ('p, 'w) app" where
  "handle c env k (Validate_req fid provider run) s = outcome_of (validate_finding c env k fid provider run s)"
| "handle c env k (Prove_req fid run) s = outcome_of (prove_finding c env k fid run s)"
| "handle c env k (Approval_req fid action run) s = outcome_of (request_approval_route c env k fid action run s)"
| "handle c env k (Approve_req aid reason) s = outcome_of (approve_route c env k aid reason s)"
| "handle c env k (Reject_req aid reason) s = outcome_of (reject_route c env k aid reason s)"
| "handle c env k (Changes_req aid reason) s = outcome_of (request_changes_route c env k aid reason s)"
| "handle c env k (Resubmit_req aid reason) s = outcome_of (resubmit_route c env k aid reason s)"
| "handle c env k (Dedup_req ids run) s = outcome_of (deduplicate_route c env k ids run s)"
| "handle c env k (Risk_req fid run) s = outcome_of (assess_risk_route c env k fid run s)"
| "handle c env k (Start_sla_req fid run) s = outcome_of (create_sla_route c env k fid run s)"
| "handle c env k (Check_sla_req fid now run) s = outcome_of (check_sla_route c env k fid now run s)"
| "handle c env k (Resolve_sla_req fid at_time) s = outcome_of (resolve_sla_route c env k fid at_time s)"
| "handle c env k (Propose_req fid) s = outcome_of (propose_route c env k fid s)"
| "handle c env k (Apply_req fid confirm) s = outcome_of (apply_route c env k fid confirm s)"
| "handle c env k (Verify_req fid) s = outcome_of (verify_route c env k fid s)"
| "handle c env k (Create_project_req payload) s = outcome_of (create_project_route env k payload s)"
| "handle c env k (Scan_req pid) s = outcome_of (scan_project_route c env k pid s)"
| "handle c env k (Delete_project_req pid) s = outcome_of (delete_project_route c env k pid s)"

end
