(* ===== verification/Auth_Properties.thy ===== *)
theory Auth_Properties
  imports Auth
begin

text \<open>
  Access control proved: the session table refines a map from session digests to users and expiry times, a logout
  is final, a login holds for exactly seven days, and what seeding does to the demo accounts.
\<close>

section \<open>The abstract session map\<close>

text \<open>What the table promises: for the digest of a live session its user and the last instant it is valid.\<close>

definition live :: "auth_db \<Rightarrow> string \<rightharpoonup> string \<times> int" where
  "live db h =
     (case find (\<lambda>r. ses_id r = h) (db_sessions db) of
        None \<Rightarrow> None
      | Some r \<Rightarrow> if ses_revoked_at r \<noteq> None then None
                  else Some (ses_user_id r, utc_instant (as_aware_utc (ses_expires_at r))))"

definition revoked :: "auth_db \<Rightarrow> string \<Rightarrow> bool" where
  "revoked db h \<longleftrightarrow> (\<exists>r. find (\<lambda>r. ses_id r = h) (db_sessions db) = Some r \<and> ses_revoked_at r \<noteq> None)"

lemma as_aware_stored [simp]: "as_aware_utc (stored (utc t)) = utc t" "utc_instant (stored (utc t)) = t"
  by (simp_all add: utc_def)

lemma find_revoke_first:
  "find (\<lambda>r. ses_id r = k) (revoke_first h now rs) =
     map_option (\<lambda>r. if k = h \<and> ses_revoked_at r = None then r\<lparr>ses_revoked_at := Some (stored now)\<rparr> else r)
       (find (\<lambda>r. ses_id r = k) rs)"
  by (induction rs) (auto simp: option.map_ident)

lemma find_map_keep:
  "(\<And>r. ses_id (f r) = ses_id r) \<Longrightarrow>
   find (\<lambda>r. ses_id r = k) (map f rs) = map_option f (find (\<lambda>r. ses_id r = k) rs)"
  by (induction rs) auto

lemma find_append_split: "find P (xs @ ys) = (case find P xs of None \<Rightarrow> find P ys | Some x \<Rightarrow> Some x)"
  by (induction xs) auto

lemma get_session_live:
  "get_session env db tok =
     (case live db (au_sha env tok) of
        None \<Rightarrow> None
      | Some (uid, e) \<Rightarrow>
          if e < au_now env then None
          else map_option row_to_session (find (\<lambda>r. ses_id r = au_sha env tok) (db_sessions db)))"
  by (auto simp: get_session_def live_def session_id_hash_def row_to_session_def Let_def time_simps
      split: option.splits)

lemma live_revoke: "live (revoke_session env tok db) = (live db)(au_sha env tok := None)"
  by (auto simp: live_def revoke_session_def session_id_hash_def find_revoke_first fun_eq_iff split: option.splits)

lemma live_revoke_all:
  "live (revoke_all_user_sessions env uid db) = (\<lambda>h. case live db h of
     None \<Rightarrow> None | Some (u, e) \<Rightarrow> if u = uid then None else Some (u, e))"
  by (auto simp: live_def revoke_all_user_sessions_def find_map_keep fun_eq_iff split: option.splits)

lemma create_session_live:
  assumes "create_session env uid db = Some ((raw, s), db')"
  shows "raw = au_token env" and "live db' = (live db)(au_sha env raw \<mapsto> (uid, au_now env + SESSION_LIFETIME))"
    and "db_users db' = db_users db" and "find (\<lambda>r. ses_id r = au_sha env raw) (db_sessions db) = None"
proof -
  have new: "\<not> (\<exists>r \<in> set (db_sessions db). ses_id r = au_sha env (au_token env))"
    and raw: "raw = au_token env"
    and db': "db' = db\<lparr>db_sessions := db_sessions db @
        [\<lparr>ses_id = au_sha env raw, ses_user_id = uid, ses_created_at = stored (utc (au_now env)),
          ses_expires_at = stored (utc (au_now env + SESSION_LIFETIME)), ses_revoked_at = None\<rparr>]\<rparr>"
    using assms
    by (auto simp: create_session_def insert_session_def session_id_hash_def Let_def split: if_splits)
  show "raw = au_token env" by (rule raw)
  show none: "find (\<lambda>r. ses_id r = au_sha env raw) (db_sessions db) = None"
    using new by (auto simp: find_None_iff raw)
  show "db_users db' = db_users db" by (simp add: db')
  show "live db' = (live db)(au_sha env raw \<mapsto> (uid, au_now env + SESSION_LIFETIME))"
    using none by (auto simp: live_def db' find_append_split fun_eq_iff time_simps split: option.splits)
qed

lemma login_cases:
  assumes "login env n pw db = (x, db')"
  obtains (refused) e where "x = Inl e" "db' = db"
  | (ok) u s where "x = Inr (to_public u, au_token env)" "authenticate_user env db n pw = Some u"
      "create_session env (u_id u) db = Some ((au_token env, s), db')"
proof (cases "authenticate_user env db n pw")
  case None
  then show ?thesis using assms refused by (auto simp: login_def)
next
  case (Some u)
  show ?thesis
  proof (cases "create_session env (u_id u) db")
    case None
    then show ?thesis using assms Some refused by (auto simp: login_def)
  next
    case (Some r)
    then obtain raw s d where r: "create_session env (u_id u) db = Some ((raw, s), d)" by (cases r) auto
    have "raw = au_token env" by (rule create_session_live(1)[OF r])
    then have "x = Inr (to_public u, au_token env)" "d = db'"
      using assms \<open>authenticate_user env db n pw = Some u\<close> r by (simp_all add: login_def)
    then show ?thesis using ok[of u s] \<open>authenticate_user env db n pw = Some u\<close> \<open>raw = au_token env\<close> r by simp
  qed
qed

text \<open>C19. The session table refines a map from session digests to a user and an expiry: a successful login adds its
  token's digest for seven days, a refused one changes nothing, a logout removes exactly the digest of its cookie,
  revoking a user removes exactly that user's digests, and a cookie is accepted exactly when the map holds its
  digest with an expiry that has not passed.\<close>

theorem sessions_refine_map:
  "live (snd (login env n pw db)) =
     (case fst (login env n pw db) of
        Inl _ \<Rightarrow> live db
      | Inr (u, tok) \<Rightarrow> (live db)(au_sha env tok \<mapsto> (up_id u, au_now env + SESSION_LIFETIME))) \<and>
   live (logout env (Some tok) db) = (if tok = [] then live db else (live db)(au_sha env tok := None)) \<and>
   live (revoke_all_user_sessions env uid db) = live db |` {h. map_option fst (live db h) \<noteq> Some uid} \<and>
   (get_session env db tok = None \<longleftrightarrow>
      (case live db (au_sha env tok) of None \<Rightarrow> True | Some (_, e) \<Rightarrow> e < au_now env))"
proof (intro conjI)
  obtain x db' where run: "login env n pw db = (x, db')" by (cases "login env n pw db")
  then show "live (snd (login env n pw db)) =
     (case fst (login env n pw db) of
        Inl _ \<Rightarrow> live db
      | Inr (u, tok) \<Rightarrow> (live db)(au_sha env tok \<mapsto> (up_id u, au_now env + SESSION_LIFETIME)))"
    by (cases rule: login_cases) (auto simp: run create_session_live(2) to_public_def)
  show "live (logout env (Some tok) db) = (if tok = [] then live db else (live db)(au_sha env tok := None))"
    by (simp add: logout_def live_revoke)
  show "live (revoke_all_user_sessions env uid db) = live db |` {h. map_option fst (live db h) \<noteq> Some uid}"
    by (auto simp: live_revoke_all restrict_map_def fun_eq_iff split: option.splits)
  show "get_session env db tok = None \<longleftrightarrow>
      (case live db (au_sha env tok) of None \<Rightarrow> True | Some (_, e) \<Rightarrow> e < au_now env)"
    by (auto simp: get_session_live live_def split: option.splits if_splits)
qed

section \<open>Reachable databases\<close>

text \<open>The operations on the tables, in any order, by anyone and at any time, with one digest function.\<close>

inductive auth_step :: "(string \<Rightarrow> string) \<Rightarrow> auth_db \<Rightarrow> auth_db \<Rightarrow> bool" for sha where
  step_login: "au_sha env = sha \<Longrightarrow> auth_step sha db (snd (login env n pw db))"
| step_logout: "au_sha env = sha \<Longrightarrow> auth_step sha db (logout env cookie db)"
| step_revoke_all: "auth_step sha db (revoke_all_user_sessions env uid db)"
| step_create: "create_user env n d pw r a db = Some (u, db') \<Longrightarrow> auth_step sha db db'"
| step_seed: "auth_step sha db (snd (seed_demo_users envs db))"

definition db_ok :: "auth_db \<Rightarrow> bool" where
  "db_ok db \<longleftrightarrow> distinct (map u_id (db_users db)) \<and> distinct (map u_username (db_users db)) \<and>
     distinct (map ses_id (db_sessions db))"

definition db_empty :: "auth_db \<Rightarrow> bool" where
  "db_empty db \<longleftrightarrow> db_users db = [] \<and> db_sessions db = []"

lemma db_ok_cong:
  "map ses_id (db_sessions db') = map ses_id (db_sessions db) \<Longrightarrow> db_users db' = db_users db \<Longrightarrow> db_ok db' = db_ok db"
  by (simp add: db_ok_def)

lemma ids_revoke_first [simp]: "map ses_id (revoke_first h now rs) = map ses_id rs"
  by (induction rs) auto

lemma keys_rehash_first [simp]:
  "map u_id (rehash_first n h us) = map u_id us" "map u_username (rehash_first n h us) = map u_username us"
  by (induction us) auto

lemma create_user_ok:
  assumes "create_user env n d pw r a db = Some (u, db')" and "db_ok db"
  shows "db_ok db' \<and> db_sessions db' = db_sessions db"
  using assms by (force simp: create_user_def insert_user_def db_ok_def Let_def split: if_splits)

lemma create_session_ok:
  assumes "create_session env uid db = Some (x, db')" and "db_ok db"
  shows "db_ok db' \<and> db_users db' = db_users db"
  using assms by (force simp: create_session_def insert_session_def db_ok_def Let_def split: if_splits)

lemma seed_fold_ok:
  assumes "db_ok (snd acc)"
  shows "db_ok (snd (fold (seed_user envs) demos acc)) \<and>
     db_sessions (snd (fold (seed_user envs) demos acc)) = db_sessions (snd acc)"
  using assms
proof (induction demos arbitrary: acc)
  case (Cons d ds)
  obtain ok db where acc: "acc = (ok, db)" by (cases acc)
  have "db_ok (snd (seed_user envs d acc)) \<and> db_sessions (snd (seed_user envs d acc)) = db_sessions (snd acc)"
    using Cons.prems
    by (auto simp: acc seed_user_def dest: create_user_ok split: prod.splits option.splits)
      (simp_all add: db_ok_def)
  then show ?case using Cons.IH[of "seed_user envs d acc"] by simp
qed simp

lemma auth_step_ok:
  assumes "db_ok db" and "auth_step sha db db'"
  shows "db_ok db'"
  using assms(2)
proof (cases rule: auth_step.cases)
  case (step_login env n pw)
  obtain x d where run: "login env n pw db = (x, d)" by (cases "login env n pw db")
  then show ?thesis
    by (cases rule: login_cases) (use step_login run assms(1) in \<open>auto dest: create_session_ok\<close>)
next
  case (step_logout env cookie)
  then show ?thesis using assms(1) by (auto simp: logout_def revoke_session_def db_ok_def split: option.splits)
next
  case (step_revoke_all env uid)
  have "map ses_id (db_sessions db') = map ses_id (db_sessions db)"
    by (simp add: step_revoke_all revoke_all_user_sessions_def)
  moreover have "db_users db' = db_users db" by (simp add: step_revoke_all revoke_all_user_sessions_def)
  ultimately show ?thesis using assms(1) db_ok_cong by blast
next
  case (step_create env n d pw r a u)
  then show ?thesis using create_user_ok assms(1) by blast
next
  case (step_seed envs)
  then show ?thesis using seed_fold_ok[of "(True, db)"] assms(1) by (simp add: seed_demo_users_def)
qed

interpretation auth_sys: invariant_system db_empty "auth_step sha" db_ok for sha
proof (unfold_locales, goal_cases)
  case (1 db)
  then show ?case by (simp add: db_empty_def db_ok_def)
next
  case (2 db db')
  then show ?case by (rule auth_step_ok)
qed

section \<open>Logout is final\<close>

lemma revoked_no_session: "revoked db (au_sha env tok) \<Longrightarrow> get_session env db tok = None"
  by (auto simp: get_session_live live_def revoked_def split: option.splits)

lemma sessions_revoked:
  "db_sessions db' = db_sessions db \<Longrightarrow> revoked db' h = revoked db h"
  by (simp add: revoked_def)

lemma create_user_sessions:
  "create_user env n d pw r a db = Some (u, db') \<Longrightarrow> db_sessions db' = db_sessions db"
  by (auto simp: create_user_def insert_user_def Let_def split: if_splits)

lemma seed_fold_sessions: "db_sessions (snd (fold (seed_user envs) demos acc)) = db_sessions (snd acc)"
proof (induction demos arbitrary: acc)
  case (Cons d ds)
  obtain ok db where acc: "acc = (ok, db)" by (cases acc)
  have "db_sessions (snd (seed_user envs d acc)) = db_sessions (snd acc)"
    by (auto simp: acc seed_user_def create_user_def insert_user_def Let_def split: prod.splits option.splits if_splits)
  then show ?case using Cons.IH[of "seed_user envs d acc"] by simp
qed simp

lemma revoked_step:
  assumes "revoked db h" and "auth_step sha db db'"
  shows "revoked db' h"
  using assms(2)
proof (cases rule: auth_step.cases)
  case (step_login env n pw)
  obtain x d where run: "login env n pw db = (x, d)" by (cases "login env n pw db")
  then show ?thesis
  proof (cases rule: login_cases)
    case refused
    then show ?thesis using step_login run assms(1) by simp
  next
    case (ok u s)
    then show ?thesis using step_login run assms(1)
      by (auto simp: create_session_def insert_session_def revoked_def find_append_split Let_def split: if_splits)
  qed
next
  case (step_logout env cookie)
  have "revoked (revoke_session env tok db) h" for tok
  proof -
    obtain r where "find (\<lambda>r. ses_id r = h) (db_sessions db) = Some r" "ses_revoked_at r \<noteq> None"
      using assms(1) by (auto simp: revoked_def)
    then show ?thesis by (simp add: revoked_def revoke_session_def find_revoke_first)
  qed
  then show ?thesis using step_logout assms(1) by (auto simp: logout_def split: option.splits)
next
  case (step_revoke_all env uid)
  obtain r where "find (\<lambda>r. ses_id r = h) (db_sessions db) = Some r" "ses_revoked_at r \<noteq> None"
    using assms(1) by (auto simp: revoked_def)
  then show ?thesis by (simp add: step_revoke_all revoke_all_user_sessions_def revoked_def find_map_keep)
next
  case (step_create env n d pw r a u)
  then show ?thesis using sessions_revoked[OF create_user_sessions, of env n d pw r a db u db' h] assms(1) by simp
next
  case (step_seed envs)
  then have "db_sessions db' = db_sessions db" by (simp add: seed_demo_users_def seed_fold_sessions)
  then show ?thesis using sessions_revoked[of db' db h] assms(1) by simp
qed

text \<open>C20. A logout is final: once the cookie of a session was used to log out, no request with it is
  authenticated again, whatever logins, logouts, revocations, new users and restarts follow and whenever it comes.\<close>

theorem logout_is_final:
  assumes "live db (sha tok) \<noteq> None" and "tok \<noteq> []" and "au_sha env = sha"
    and "(auth_step sha)\<^sup>*\<^sup>* (logout env (Some tok) db) db'" and "au_sha env' = sha"
  shows "get_current_user env' db' (Some tok) = Inl (401, ''Invalid or expired session'')"
proof -
  obtain r where "find (\<lambda>r. ses_id r = sha tok) (db_sessions db) = Some r" "ses_revoked_at r = None"
    using assms(1) by (auto simp: live_def split: option.splits if_splits)
  then have "revoked (logout env (Some tok) db) (sha tok)"
    using assms(2,3) by (simp add: logout_def revoke_session_def session_id_hash_def revoked_def find_revoke_first)
  with assms(4) have "revoked db' (sha tok)"
    by (induction rule: rtranclp_induct) (auto intro: revoked_step)
  then have "get_session env' db' tok = None" using revoked_no_session[of db' env' tok] assms(5) by simp
  then show ?thesis using assms(2) by (simp add: get_current_user_def)
qed

section \<open>A login holds for seven days\<close>

lemma find_id_unique:
  "distinct (map u_id us) \<Longrightarrow> r \<in> set us \<Longrightarrow> find (\<lambda>q. u_id q = u_id r) us = Some r"
  by (induction us) (auto simp: image_iff)

lemma authenticate_userD:
  assumes "db_ok db" and "authenticate_user env db n pw = Some u"
  shows "get_user_by_id db (u_id u) = Some u" and "u_is_active u" and "u_username u = n"
proof -
  obtain r where r: "find (\<lambda>r. u_username r = n) (db_users db) = Some r" "u = row_to_user r" "u_is_active r"
    using assms(2)
    by (auto simp: authenticate_user_def get_user_by_username_def row_to_user_def split: option.splits if_splits)
  have "r \<in> set (db_users db)" "u_username r = n" using r(1) by (auto simp: find_Some_iff)
  then show "get_user_by_id db (u_id u) = Some u" and "u_is_active u" and "u_username u = n"
    using find_id_unique[of "db_users db" r] assms(1) r
    by (simp_all add: get_user_by_id_def db_ok_def row_to_user_def)
qed

text \<open>C21. A login works and lasts: in a reachable database, after a successful login the returned cookie
  authenticates the very user who logged in at every moment up to and including seven days later, and from then on
  no more.\<close>

theorem login_holds_seven_days:
  assumes "db_empty db0" and "(auth_step sha)\<^sup>*\<^sup>* db0 db" and "au_sha env = sha" and "au_sha env' = sha"
    and "login env n pw db = (Inr (pu, tok), db')" and "tok \<noteq> []"
  shows "(if au_now env' \<le> au_now env + SESSION_LIFETIME
          then \<exists>u. get_current_user env' db' (Some tok) = Inr u \<and> to_public u = pu \<and> u_username u = n
          else get_current_user env' db' (Some tok) = Inl (401, ''Invalid or expired session''))"
proof -
  have ok: "db_ok db" using auth_sys.inv_reachable[OF assms(1,2)] .
  from assms(5) obtain u s where u: "pu = to_public u" "tok = au_token env" "authenticate_user env db n pw = Some u"
    and cs: "create_session env (u_id u) db = Some ((au_token env, s), db')"
    by (cases rule: login_cases) auto
  note made = create_session_live[OF cs, folded u(2)]
  have live: "live db' (sha tok) = Some (u_id u, au_now env + SESSION_LIFETIME)" using made(2) assms(3) by simp
  have user: "get_user_by_id db' (u_id u) = Some u" "u_is_active u" "u_username u = n"
    using authenticate_userD[OF ok u(3)] made(3) by (simp_all add: get_user_by_id_def)
  show ?thesis
  proof (cases "au_now env' \<le> au_now env + SESSION_LIFETIME")
    case True
    then obtain row where row: "find (\<lambda>r. ses_id r = sha tok) (db_sessions db') = Some row" "ses_user_id row = u_id u"
      using live by (auto simp: live_def split: option.splits if_splits)
    then have "get_session env' db' tok = Some (row_to_session row)"
      using True live assms(4) by (simp add: get_session_live)
    then show ?thesis using True user row(2) assms(6) u(1)
      by (auto simp: get_current_user_def row_to_session_def)
  next
    case False
    then have "get_session env' db' tok = None" using live assms(4) by (simp add: get_session_live)
    then show ?thesis using False assms(6) by (simp add: get_current_user_def)
  qed
qed

section \<open>Demo accounts\<close>

text \<open>The documented behaviour of bcrypt: a hash of a password verifies that password.\<close>

definition hash_verifies :: "auth_env \<Rightarrow> bool" where
  "hash_verifies env \<longleftrightarrow> (\<forall>pw salt. au_checkpw env pw (au_hashpw env pw salt) = Some True)"

definition opens_with :: "auth_env \<Rightarrow> string \<Rightarrow> auth_db \<Rightarrow> string \<Rightarrow> bool" where
  "opens_with env pw db n \<longleftrightarrow> (\<exists>u. get_user_by_username db n = Some u \<and> verify_password env pw (u_password_hash u))"

lemma find_rehash_first:
  "find (\<lambda>r. u_username r = m) (rehash_first n h us) =
     map_option (\<lambda>r. if m = n then r\<lparr>u_password_hash := h\<rparr> else r) (find (\<lambda>r. u_username r = m) us)"
  by (induction us) (auto simp: option.map_ident)

lemma seed_user_opens:
  assumes "hash_verifies (envs n)" and "seed_user envs (n, d, r) (True, db) = (True, db')"
  shows "opens_with (envs n) DEMO_PASSWORD db' n"
proof (cases "get_user_by_username db n")
  case None
  then have none: "find (\<lambda>r. u_username r = n) (db_users db) = None" by (simp add: get_user_by_username_def)
  obtain u where "create_user (envs n) n d DEMO_PASSWORD r True db = Some (u, db')"
    using assms(2) None by (auto simp: seed_user_def split: option.splits)
  then have "db_users db' = db_users db @ [u\<lparr>u_created_at := stored (u_created_at u)\<rparr>]" "u_username u = n"
      "u_password_hash u = hash_password (envs n) DEMO_PASSWORD"
    by (auto simp: create_user_def insert_user_def Let_def split: if_splits)
  then show ?thesis using none assms(1)
    by (simp add: opens_with_def get_user_by_username_def find_append_split row_to_user_def verify_password_def
        hash_password_def hash_verifies_def)
next
  case (Some u)
  show ?thesis
  proof (cases "verify_password (envs n) DEMO_PASSWORD (u_password_hash u)")
    case True
    then show ?thesis using Some assms(2) by (simp add: seed_user_def opens_with_def)
  next
    case False
    then have "db_users db' = rehash_first n (hash_password (envs n) DEMO_PASSWORD) (db_users db)"
      using Some assms(2) by (auto simp: seed_user_def)
    then show ?thesis using Some assms(1)
      by (auto simp: opens_with_def get_user_by_username_def find_rehash_first row_to_user_def verify_password_def
          hash_password_def hash_verifies_def)
  qed
qed

lemma seed_user_keeps:
  assumes "opens_with env DEMO_PASSWORD db m" and "fst (seed_user envs (n, d, r) (True, db))" and "m \<noteq> n"
  shows "opens_with env DEMO_PASSWORD (snd (seed_user envs (n, d, r) (True, db))) m"
  using assms
  by (auto simp: seed_user_def opens_with_def get_user_by_username_def find_rehash_first create_user_def
      insert_user_def find_append_split Let_def split: option.splits if_splits)


lemma opens_with_cong: "au_checkpw e1 = au_checkpw e2 \<Longrightarrow> opens_with e1 pw db n = opens_with e2 pw db n"
  by (simp add: opens_with_def verify_password_def)

lemma seed_failed: "fold (seed_user envs) demos (False, db) = (False, db)"
  by (induction demos) (simp_all add: seed_user_def)

text \<open>Once every account of \<open>ns\<close> opens with the demo password, seeding more accounts keeps that.\<close>

lemma seed_fold_opens:
  assumes "\<And>n. hash_verifies (envs n)" and "\<And>n. au_checkpw (envs n) = ck"
    and "distinct (ns @ map fst demos)" and "\<And>n. n \<in> set ns \<Longrightarrow> opens_with (envs n) DEMO_PASSWORD db n"
    and "fold (seed_user envs) demos (True, db) = (True, db')"
  shows "\<forall>n \<in> set (ns @ map fst demos). opens_with (envs n) DEMO_PASSWORD db' n"
  using assms(3-5)
proof (induction demos arbitrary: ns db)
  case (Cons demo demos)
  obtain n d r where demo: "demo = (n, d, r)" by (cases demo)
  obtain ok db1 where first: "seed_user envs (n, d, r) (True, db) = (ok, db1)"
    by (cases "seed_user envs (n, d, r) (True, db)")
  have "ok" using Cons.prems(3) first by (cases ok) (simp_all add: demo seed_failed)
  have "opens_with (envs n) DEMO_PASSWORD db1 n"
    using seed_user_opens[OF assms(1)] first \<open>ok\<close> by simp
  moreover have "opens_with (envs m) DEMO_PASSWORD db1 m" if "m \<in> set ns" for m
    using seed_user_keeps[of "envs m" db m envs n d r] Cons.prems(1,2) that first \<open>ok\<close> by (auto simp: demo)
  ultimately have "\<And>m. m \<in> set (ns @ [n]) \<Longrightarrow> opens_with (envs m) DEMO_PASSWORD db1 m" by auto
  moreover have "fold (seed_user envs) demos (True, db1) = (True, db')"
    using Cons.prems(3) first \<open>ok\<close> by (simp add: demo)
  moreover have "distinct ((ns @ [n]) @ map fst demos)" using Cons.prems(1) by (simp add: demo)
  ultimately show ?case using Cons.IH[of "ns @ [n]" db1] by (simp add: demo)
qed simp

text \<open>Seeding gives every demo account the demo password, also one that existed with a working password of its
  own: after a start-up whose seeding was not refused, each of the four accounts authenticates with it, if it is
  active.\<close>

theorem seeding_resets_demo_passwords:
  assumes "\<And>n. hash_verifies (envs n)" and "\<And>n. au_checkpw (envs n) = ck"
    and "seed_demo_users envs db = (True, db')" and "n \<in> set (map fst DEMO_USERS)"
  shows "\<exists>u. get_user_by_username db' n = Some u \<and>
     authenticate_user (envs n) db' n DEMO_PASSWORD = (if u_is_active u then Some u else None)"
proof -
  have "distinct ([] @ map fst DEMO_USERS)" by (simp add: DEMO_USERS_def)
  then have "opens_with (envs n) DEMO_PASSWORD db' n"
    using seed_fold_opens[where envs = envs and ns = "[]" and demos = DEMO_USERS and db = db and db' = db',
        OF assms(1,2)] assms(3,4) by (auto simp: seed_demo_users_def)
  then show ?thesis by (auto simp: opens_with_def authenticate_user_def)
qed

section \<open>Witnesses\<close>

definition sample_auth_env :: "string \<Rightarrow> int \<Rightarrow> auth_env" where
  "sample_auth_env token now = \<lparr>au_now = now, au_uuid = token, au_salt = [], au_token = token, au_sha = (\<lambda>s. s),
     au_hashpw = (\<lambda>pw salt. pw), au_checkpw = (\<lambda>pw h. Some (pw = h))\<rparr>"

definition auth_db0 :: auth_db where "auth_db0 = \<lparr>db_users = [], db_sessions = []\<rparr>"

definition auth_db1 :: auth_db where
  "auth_db1 = auth_db0\<lparr>db_users := [\<lparr>u_id = ''m'', u_username = ''manager'', u_display_name = [],
     u_password_hash = ''own'', u_role = Manager, u_is_active = True, u_created_at = stored (utc 0)\<rparr>]\<rparr>"

definition auth_db2 :: auth_db where "auth_db2 = snd (login (sample_auth_env ''tok'' 5) ''manager'' ''own'' auth_db1)"

lemma sample_auth_env_sha [simp]: "au_sha (sample_auth_env t n) = (\<lambda>s. s)" "au_now (sample_auth_env t n) = n"
  by (simp_all add: sample_auth_env_def)

lemma auth_db1_reach: "(auth_step (\<lambda>s. s))\<^sup>*\<^sup>* auth_db0 auth_db1"
proof -
  have "create_user (sample_auth_env ''m'' 0) ''manager'' [] ''own'' Manager True auth_db0 =
      Some (\<lparr>u_id = ''m'', u_username = ''manager'', u_display_name = [],
     u_password_hash = ''own'', u_role = Manager, u_is_active = True, u_created_at = utc 0\<rparr>, auth_db1)"
    by (simp add: create_user_def insert_user_def auth_db0_def auth_db1_def sample_auth_env_def hash_password_def)
  from step_create[OF this] show ?thesis by (rule r_into_rtranclp)
qed

lemma login_sample:
  "login (sample_auth_env ''tok'' 5) ''manager'' ''own'' auth_db1 =
     (Inr (\<lparr>up_id = ''m'', up_username = ''manager'', up_display_name = [], up_role = Manager, up_is_active = True\<rparr>,
           ''tok''), auth_db2)"
  unfolding auth_db2_def
  by (rule prod_eqI) (simp_all, code_simp)

theorem login_holds_seven_days_witness:
  "\<exists>u. get_current_user (sample_auth_env [] (5 + SESSION_LIFETIME)) auth_db2 (Some ''tok'') = Inr u \<and>
     u_username u = ''manager''"
proof -
  have "db_empty auth_db0" by (simp add: db_empty_def auth_db0_def)
  from login_holds_seven_days[OF this auth_db1_reach, of "sample_auth_env ''tok'' 5" "sample_auth_env [] (5 + SESSION_LIFETIME)",
      OF _ _ login_sample]
  show ?thesis by auto
qed

theorem logout_is_final_witness:
  "get_current_user (sample_auth_env [] 7) (logout (sample_auth_env [] 6) (Some ''tok'') auth_db2) (Some ''tok'') =
     Inl (401, ''Invalid or expired session'')"
proof -
  have "live auth_db2 ''tok'' \<noteq> None" by code_simp
  then show ?thesis
    using logout_is_final[where sha = "\<lambda>s. s" and db = auth_db2 and tok = "''tok''" and env = "sample_auth_env [] 6"
        and env' = "sample_auth_env [] 7"] by simp
qed

theorem seeding_resets_demo_passwords_witness:
  "authenticate_user (sample_auth_env ''x'' 0) auth_db1 ''manager'' DEMO_PASSWORD = None \<and>
   authenticate_user (sample_auth_env ''manager'' 0)
     (snd (seed_demo_users (\<lambda>n. sample_auth_env n 0) auth_db1)) ''manager'' DEMO_PASSWORD \<noteq> None"
proof -
  have v: "hash_verifies (sample_auth_env n 0)" for n by (simp add: hash_verifies_def sample_auth_env_def)
  have c: "au_checkpw (sample_auth_env n 0) = (\<lambda>pw h. Some (pw = h))" for n by (simp add: sample_auth_env_def)
  obtain ok db where run: "seed_demo_users (\<lambda>n. sample_auth_env n 0) auth_db1 = (ok, db)"
    by (cases "seed_demo_users (\<lambda>n. sample_auth_env n 0) auth_db1")
  have "fst (seed_demo_users (\<lambda>n. sample_auth_env n 0) auth_db1)" by code_simp
  then have t: "seed_demo_users (\<lambda>n. sample_auth_env n 0) auth_db1 = (True, db)" using run by simp
  have "''manager'' \<in> set (map fst DEMO_USERS)" by (simp add: DEMO_USERS_def)
  from seeding_resets_demo_passwords[where envs = "\<lambda>n. sample_auth_env n 0", OF v c t this]
  obtain u where u: "get_user_by_username db ''manager'' = Some u"
    "authenticate_user (sample_auth_env ''manager'' 0) db ''manager'' DEMO_PASSWORD = (if u_is_active u then Some u else None)"
    by blast
  have "map_option u_is_active (get_user_by_username (snd (seed_demo_users (\<lambda>n. sample_auth_env n 0) auth_db1)) ''manager'') =
      Some True" by code_simp
  then have "u_is_active u" using u(1) t by simp
  moreover have "authenticate_user (sample_auth_env ''x'' 0) auth_db1 ''manager'' DEMO_PASSWORD = None" by code_simp
  ultimately show ?thesis using u t by simp
qed

end
