(* ===== verification/Api_System.thy ===== *)
theory Api_System
  imports Api Auth_Properties Dedup_Properties Remediation_Properties
begin

text \<open>
  The application as a system: who a request acts for, what it can do to each store, and the invariant that every
  entry of the approval audit trail was written for a user whose role permits the decision.
\<close>

section \<open>Authorisation\<close>

fun permission_of :: "request \<Rightarrow> permission" where
  "permission_of (Validate_req _ _ _) = May_validate"
| "permission_of (Prove_req _ _) = May_prove"
| "permission_of (Approval_req _ _ _) = May_request_approval"
| "permission_of (Approve_req _ _) = May_approve"
| "permission_of (Reject_req _ _) = May_reject"
| "permission_of (Changes_req _ _) = May_request_changes"
| "permission_of (Resubmit_req _ _) = May_resubmit"
| "permission_of (Dedup_req _ _) = May_deduplicate"
| "permission_of (Risk_req _ _) = May_assess_risk"
| "permission_of (Start_sla_req _ _) = May_start_sla"
| "permission_of (Check_sla_req _ _ _) = May_check_sla"
| "permission_of (Resolve_sla_req _ _) = May_check_sla"
| "permission_of (Propose_req _) = May_propose_remediation"
| "permission_of (Apply_req _ _) = May_apply_remediation"
| "permission_of (Verify_req _) = May_verify_remediation"
| "permission_of (Create_project_req payload) = May_create_repository"
| "permission_of (Scan_req _) = May_scan"
| "permission_of (Delete_project_req _) = May_delete_repository"

definition may :: "'w api_env \<Rightarrow> string option \<Rightarrow> ('p, 'w) app \<Rightarrow> permission \<Rightarrow> user \<Rightarrow> bool" where
  "may env k s p u \<longleftrightarrow> get_current_user (pe_auth env) (a_db s) k = Inr u \<and> has_permission (u_role u) p"

lemma require_permission_iff: "require_permission p env db k = Inr u \<longleftrightarrow>
    get_current_user env db k = Inr u \<and> has_permission (u_role u) p"
  by (auto simp: require_permission_def split: sum.splits)

lemma current_user_error: "get_current_user env db k = Inl e \<Longrightarrow> fst e = 401"
  by (auto simp: get_current_user_def split: option.splits if_splits)

lemma require_permission_error: "require_permission p env db k = Inl e \<Longrightarrow> fst e \<in> {401, 403}"
  by (auto simp: require_permission_def dest: current_user_error split: sum.splits if_splits)

lemma secured_cases:
  assumes "secured p env k body s = (x, t)"
  obtains (denied) e where "x = Inl e" "t = s" "fst e \<in> {401, 403}" "\<And>u. \<not> may env k s p u"
  | (granted) u where "may env k s p u" "body u s = (x, t)"
proof (cases "require_permission p (pe_auth env) (a_db s) k")
  case (Inl e)
  then have "\<not> may env k s p u" for u
    using require_permission_iff[of p "pe_auth env" "a_db s" k u] by (auto simp: may_def)
  moreover have "x = Inl e" "t = s" using assms Inl by (simp_all add: secured_def)
  ultimately show ?thesis using denied require_permission_error[OF Inl] by blast
next
  case (Inr u)
  then show ?thesis using granted[of u] assms require_permission_iff[of p "pe_auth env" "a_db s" k u]
    by (simp add: secured_def may_def)
qed

lemmas route_defs = validate_finding_def prove_finding_def request_approval_route_def approve_route_def
  reject_route_def request_changes_route_def resubmit_route_def decide_def deduplicate_route_def
  assess_risk_route_def create_sla_route_def check_sla_route_def resolve_sla_route_def propose_route_def
  apply_route_def verify_route_def create_project_route_def scan_project_route_def delete_project_route_def

text \<open>Every request is secured by its own permission.\<close>

lemma secured_denied:
  assumes "\<And>u. \<not> may env k s p u"
  shows "\<exists>e. secured p env k body s = (Inl e, s) \<and> fst e \<in> {401, 403}"
proof (cases "require_permission p (pe_auth env) (a_db s) k")
  case (Inl e)
  then show ?thesis using require_permission_error[OF Inl] by (simp add: secured_def)
next
  case (Inr u)
  then show ?thesis using assms require_permission_iff[of p "pe_auth env" "a_db s" k u] by (simp add: may_def)
qed

lemma outcome_denied:
  assumes "\<And>u. \<not> may env k s p u"
  shows "\<exists>e. outcome_of (secured p env k body s) = (Some e, s) \<and> fst e \<in> {401, 403}"
  using secured_denied[OF assms, of body] by (auto simp: outcome_of_def)

lemma handle_denied:
  assumes "\<And>u. \<not> may env k s (permission_of req) u"
  shows "\<exists>e. handle c env k req s = (Some e, s) \<and> fst e \<in> {401, 403}"
  using assms
  by (cases req) (simp_all only: handle.simps route_defs permission_of.simps, (erule outcome_denied)+)


section \<open>What an action does to a store\<close>

lemma staged_state:
  "\<exists>rs rs'. snd (staged c env r st cond body s) = (snd (body (s\<lparr>a_runs := rs\<rparr>)))\<lparr>a_runs := rs'\<rparr>"
proof -
  let ?b = "begin_stage_execution (co_runs c) r st (pe_execution_id env) (pe_begin env) (a_runs s)"
  obtain x t where b: "body (s\<lparr>a_runs := ?b\<rparr>) = (x, t)" by (cases "body (s\<lparr>a_runs := ?b\<rparr>)")
  have "\<exists>rs'. snd (staged c env r st cond body s) = t\<lparr>a_runs := rs'\<rparr>"
    by (cases x) (auto simp: staged_def record_stage_execution_def b split: prod.splits bool.splits)
  then show ?thesis using b by (metis snd_conv)
qed

lemma with_run_state:
  "snd (with_run c env run fid st cond chk body s) = s \<or>
   snd (with_run c env run fid st cond chk body s) = snd (body s) \<or>
   (\<exists>rs rs'. snd (with_run c env run fid st cond chk body s) = (snd (body (s\<lparr>a_runs := rs\<rparr>)))\<lparr>a_runs := rs'\<rparr>)"
proof (cases run)
  case None
  then show ?thesis by (simp add: with_run_def split: option.splits)
next
  case (Some r)
  then show ?thesis using staged_state[of c env r st cond body s] by (auto simp: with_run_def split: option.splits)
qed

text \<open>A view of the state that recording does not touch: an action keeps it if its work does.\<close>

definition run_blind :: "(('p, 'w) app \<Rightarrow> 'v) \<Rightarrow> bool" where
  "run_blind view \<longleftrightarrow> (\<forall>s rs. view (s\<lparr>a_runs := rs\<rparr>) = view s)"

lemma staged_keeps:
  assumes "run_blind view" and "\<And>s. view (snd (body s)) = view s"
  shows "view (snd (staged c env r st cond body s)) = view s"
  using staged_state[of c env r st cond body s] assms unfolding run_blind_def by metis

lemma with_run_keeps:
  assumes "run_blind view" and "\<And>s. view (snd (body s)) = view s"
  shows "view (snd (with_run c env run fid st cond chk body s)) = view s"
  using with_run_state[of c env run fid st cond chk body s] assms unfolding run_blind_def by metis


text \<open>The parts of the state the properties below follow: accounts, approvals and remediation.\<close>

definition core :: "('p, 'w) app \<Rightarrow> auth_db \<times> ('p, 'p) approval_store \<times> 'p rem_state" where
  "core s = (a_db s, a_approvals s, a_rem s)"

lemma core_blind [simp]: "run_blind core" "core (s\<lparr>a_runs := rs\<rparr>) = core s"
  by (simp_all add: run_blind_def core_def)

lemma core_actions [simp]:
  "core (snd (validate_and_store c env fid provider s)) = core s"
  "core (snd (prove_and_store c env fid s)) = core s"
  "core (snd (assess_action c env fid s)) = core s"
  "core (snd (start_sla_action c env fid s)) = core s"
  "core (snd (check_sla_action c env fid now s)) = core s"
  "core (snd (dedup_action c env fs s)) = core s"
  by (simp_all add: core_def dedup_action_def validate_and_store_def prove_and_store_def assess_action_def start_sla_action_def
      check_sla_action_def split: option.splits sum.splits prod.splits)

lemma snd_respond [simp]: "snd (respond f xs) = snd xs"
  by (simp add: respond_def)

lemma snd_outcome [simp]: "snd (outcome_of xs) = snd xs"
  by (simp add: outcome_of_def)

lemma secured_keeps:
  assumes "\<And>u. may env k s p u \<Longrightarrow> view (snd (body u s)) = view s"
  shows "view (snd (secured p env k body s)) = view s"
proof -
  obtain x t where xt: "secured p env k body s = (x, t)" by (cases "secured p env k body s")
  from xt show ?thesis
  proof (cases rule: secured_cases)
    case (granted u)
    then show ?thesis using assms[OF granted(1)] xt by simp
  qed (use xt in simp)
qed

lemma core_with_run:
  assumes "\<And>s. core (snd (body s)) = core s"
  shows "core (snd (with_run c env run fid st cond chk body s)) = core s"
  by (rule with_run_keeps[OF core_blind(1) assms])

text \<open>The requests that leave accounts, approvals and remediation alone.\<close>

fun quiet :: "request \<Rightarrow> bool" where
  "quiet (Approval_req _ _ _) = False"
| "quiet (Approve_req _ _) = False"
| "quiet (Reject_req _ _) = False"
| "quiet (Changes_req _ _) = False"
| "quiet (Resubmit_req _ _) = False"
| "quiet (Propose_req _) = False"
| "quiet (Apply_req _ _) = False"
| "quiet (Verify_req _) = False"
| "quiet (Delete_project_req _) = False"
| "quiet _ = True"

lemma quiet_deduplicate: "core (snd (deduplicate_route c env k ids run s)) = core s"
  unfolding deduplicate_route_def Let_def
  by (rule secured_keeps) (simp add: staged_keeps[OF core_blind(1)] split: option.splits)

lemma quiet_core: "quiet req \<Longrightarrow> core (snd (handle c env k req s)) = core s"
proof (cases req)
  case (Dedup_req ids run)
  then show ?thesis by (simp add: quiet_deduplicate)
next
  case (Resolve_sla_req fid t)
  show ?thesis unfolding Resolve_sla_req handle.simps snd_outcome resolve_sla_route_def
    by (rule secured_keeps) (simp add: core_def split: option.splits prod.splits)
next
  case (Create_project_req payload)
  show ?thesis unfolding Create_project_req handle.simps snd_outcome create_project_route_def
    by (rule secured_keeps) (simp add: core_def split: sum.splits prod.splits)
next
  case (Scan_req p)
  show ?thesis unfolding Scan_req handle.simps snd_outcome scan_project_route_def
    by (rule secured_keeps) (simp add: core_def split: option.splits sum.splits prod.splits)
next
  case (Validate_req fid p run)
  show ?thesis unfolding Validate_req handle.simps snd_outcome validate_finding_def
    by (rule secured_keeps) (simp add: core_with_run)
next
  case (Prove_req fid run)
  show ?thesis unfolding Prove_req handle.simps snd_outcome prove_finding_def
    by (rule secured_keeps) (simp add: core_with_run)
next
  case (Risk_req fid run)
  show ?thesis unfolding Risk_req handle.simps snd_outcome assess_risk_route_def
    by (rule secured_keeps) (simp add: core_with_run)
next
  case (Start_sla_req fid run)
  show ?thesis unfolding Start_sla_req handle.simps snd_outcome create_sla_route_def
    by (rule secured_keeps) (simp add: core_with_run)
next
  case (Check_sla_req fid now run)
  show ?thesis unfolding Check_sla_req handle.simps snd_outcome check_sla_route_def
    by (rule secured_keeps) (simp add: core_with_run)
qed simp_all

section \<open>What a request does to approvals and remediation\<close>

fun decision :: "permission \<Rightarrow> approval_status option" where
  "decision May_approve = Some Approved"
| "decision May_reject = Some Rejected"
| "decision May_request_changes = Some Changes_requested"
| "decision May_resubmit = Some Pending"
| "decision _ = None"

abbreviation ask_by ::
    "'p api_codecs \<Rightarrow> 'w api_env \<Rightarrow> ('p, 'w) app \<Rightarrow> string \<Rightarrow> approval_action \<Rightarrow> string \<Rightarrow> string option
     \<Rightarrow> (approval_error + approval_request) \<times> ('p, 'p) approval_store" where
  "ask_by c env s fid action who run \<equiv>
     request_approval (co_approval c) (pe_approval env) default_approval_policy (kstore_get (a_validations s))
       (kstore_get (a_proofs s)) fid action who None run (a_approvals s)"

abbreviation decide_by ::
    "'p api_codecs \<Rightarrow> 'w api_env \<Rightarrow> ('p, 'w) app \<Rightarrow> string \<Rightarrow> approval_status \<Rightarrow> string \<Rightarrow> string option
     \<Rightarrow> (approval_error + approval_request) \<times> ('p, 'p) approval_store" where
  "decide_by c env s aid target who reason \<equiv>
     transition (co_approval c) (pe_approval env) aid target who reason None (a_approvals s)"

lemma core_request_action:
  "core (snd (request_action c env fid action who run s)) = (a_db s, snd (ask_by c env s fid action who run), a_rem s)"
  by (simp add: core_def request_action_def split: prod.splits)

lemma core_do_transition:
  "core (snd (do_transition c env aid target who reason s)) = (a_db s, snd (decide_by c env s aid target who reason), a_rem s)"
  by (simp add: core_def do_transition_def split: prod.splits)

lemma core_request_route:
  obtains "core (snd (request_approval_route c env k fid action run s)) = core s"
  | u where "may env k s May_request_approval u"
      "core (snd (request_approval_route c env k fid action run s)) =
         (a_db s, snd (ask_by c env s fid action (u_username u) run), a_rem s)"
proof -
  obtain x t where xt: "request_approval_route c env k fid action run s = (x, t)"
    by (cases "request_approval_route c env k fid action run s")
  from xt[unfolded request_approval_route_def] show ?thesis
  proof (cases rule: secured_cases)
    case denied
    then show ?thesis using that(1) xt by simp
  next
    case (granted u)
    let ?b = "request_action c env fid action (u_username u) run"
    have "t = s \<or> t = snd (with_run c env run fid ''APPROVAL'' None no_check ?b s)"
      using arg_cong[OF granted(2), of snd] by (auto split: if_splits)
    then have "core t = core s \<or> core t = (a_db s, snd (ask_by c env s fid action (u_username u) run), a_rem s)"
      using with_run_state[of c env run fid "''APPROVAL''" None no_check ?b s] by (auto simp: core_request_action)
    then show ?thesis using that granted(1) xt by auto
  qed
qed

lemma core_decide:
  obtains "core (snd (decide p target c env k aid reason s)) = core s"
  | u where "may env k s p u"
      "core (snd (decide p target c env k aid reason s)) =
         (a_db s, snd (decide_by c env s aid target (u_username u) reason), a_rem s)"
proof -
  obtain x t where xt: "decide p target c env k aid reason s = (x, t)"
    by (cases "decide p target c env k aid reason s")
  from xt[unfolded decide_def] show ?thesis
  proof (cases rule: secured_cases)
    case denied
    then show ?thesis using that(1) xt by simp
  next
    case (granted u)
    let ?b = "do_transition c env aid target (u_username u) reason"
    have "t = s \<or> t = snd (?b s) \<or> (\<exists>r. t = snd (staged c env r ''APPROVAL'' None ?b s))"
      using arg_cong[OF granted(2), of snd] by (auto split: if_splits option.splits)
    moreover have "core (snd (staged c env r ''APPROVAL'' None ?b s)) =
        (a_db s, snd (decide_by c env s aid target (u_username u) reason), a_rem s)" for r
      using staged_state[of c env r "''APPROVAL''" None ?b s] by (auto simp: core_do_transition)
    ultimately have "core t = core s \<or> core t = (a_db s, snd (decide_by c env s aid target (u_username u) reason), a_rem s)"
      by (auto simp: core_do_transition)
    then show ?thesis using that granted(1) xt by auto
  qed
qed


lemma core_on_rem: "core (snd (on_rem f s)) = (a_db s, a_approvals s, snd (f (a_rem s)))"
  by (simp add: core_def on_rem_def split: prod.splits)

lemma core_secured_on_rem:
  "core (snd (secured p env k (\<lambda>u s. on_rem (f s) s) s)) = core s \<or> (\<exists>u. may env k s p u \<and>
     core (snd (secured p env k (\<lambda>u s. on_rem (f s) s) s)) = (a_db s, a_approvals s, snd (f s (a_rem s))))"
proof -
  obtain x t where xt: "secured p env k (\<lambda>u s. on_rem (f s) s) s = (x, t)"
    by (cases "secured p env k (\<lambda>u s. on_rem (f s) s) s")
  from xt show ?thesis
  proof (cases rule: secured_cases)
    case (granted u)
    then have "core t = (a_db s, a_approvals s, snd (f s (a_rem s)))" using core_on_rem[of "f s" s] by simp
    then show ?thesis using granted(1) xt by auto
  qed (use xt in simp)
qed

lemma core_remediation_routes:
  "core (snd (propose_route c env k fid s)) \<in> {core s, (a_db s, a_approvals s,
     snd (propose_remediation (rem_env_in env s) (co_rem c) fid (a_rem s)))}"
  "core (snd (verify_route c env k fid s)) \<in> {core s, (a_db s, a_approvals s,
     snd (verify_remediation (rem_env_in env s) (co_rem c) fid (a_rem s)))}"
  "core (snd (apply_route c env k fid conf s)) = core s \<or> (\<exists>u. may env k s May_apply_remediation u \<and>
     core (snd (apply_route c env k fid conf s)) = (a_db s, a_approvals s,
       snd (apply_remediation (rem_env_in env s) (co_rem c) fid conf (a_rem s))))"
  using core_secured_on_rem[of May_propose_remediation env k "\<lambda>s. propose_remediation (rem_env_in env s) (co_rem c) fid" s]
    core_secured_on_rem[of May_verify_remediation env k "\<lambda>s. verify_remediation (rem_env_in env s) (co_rem c) fid" s]
    core_secured_on_rem[of May_apply_remediation env k "\<lambda>s. apply_remediation (rem_env_in env s) (co_rem c) fid conf" s]
  by (auto simp: propose_route_def verify_route_def apply_route_def)

lemma dget_filter_key: "dget (filter (\<lambda>(f, _). P f) d) k = (if P k then dget d k else None)"
  by (induction d) auto

lemma forget_fold:
  "a_approvals (fold forget_finding fids s) = fold remove_finding fids (a_approvals s)"
  "a_db (fold forget_finding fids s) = a_db s"
  "rm_files (a_rem (fold forget_finding fids s)) = rm_files (a_rem s)"
  by (induction fids arbitrary: s) (simp_all add: forget_finding_def)

lemma workspace_removed:
  "a_approvals (remove_project_workspace env pid dir s) = a_approvals s"
  "a_db (remove_project_workspace env pid dir s) = a_db s"
  "dget (rm_files (a_rem (remove_project_workspace env pid dir s))) f \<in> {None, dget (rm_files (a_rem s)) f}"
  by (simp_all add: remove_project_workspace_def Let_def dget_filter_key)

lemma core_delete_records: "core (delete_records c pid fids s) = core (fold forget_finding fids s)"
  by (simp add: delete_records_def core_def Let_def)

lemma core_delete_route:
  obtains (kept) "core (snd (delete_project_route c env k pid s)) = core s"
  | (deleted) fids where "a_db (snd (delete_project_route c env k pid s)) = a_db s"
      "a_approvals (snd (delete_project_route c env k pid s)) = fold remove_finding fids (a_approvals s)"
      "\<And>f. dget (rm_files (a_rem (snd (delete_project_route c env k pid s)))) f \<in> {None, dget (rm_files (a_rem s)) f}"
proof -
  obtain x t where xt: "delete_project_route c env k pid s = (x, t)" by (cases "delete_project_route c env k pid s")
  from xt[unfolded delete_project_route_def] show ?thesis
  proof (cases rule: secured_cases)
    case denied
    then show ?thesis using kept xt by simp
  next
    case (granted u)
    then have "t = s \<or> (\<exists>fids (p :: project_row). t = remove_project_workspace env pid (pj_snapshot_path p) (delete_records c pid fids s))"
    proof (cases "dget (a_projects s) pid")
      case (Some p)
      then show ?thesis
      proof (cases "project_finding_ids pid s")
        case (Some fids)
        then have "t = remove_project_workspace env pid (pj_snapshot_path p) (delete_records c pid fids s)"
          using granted(2) \<open>dget (a_projects s) pid = Some p\<close> by simp
        then show ?thesis by blast
      qed (use granted(2) in simp)
    qed (use granted(2) in simp)
    then consider "t = s" | fids and p :: project_row where
        "t = remove_project_workspace env pid (pj_snapshot_path p) (delete_records c pid fids s)" by blast
    then show ?thesis
    proof cases
      case 1
      then show ?thesis using kept xt by simp
    next
      case (2 fids p)
      let ?s4 = "delete_records c pid fids s"
      have "a_db ?s4 = a_db s" "a_approvals ?s4 = fold remove_finding fids (a_approvals s)"
          "rm_files (a_rem ?s4) = rm_files (a_rem s)"
        using core_delete_records[of c pid fids s] by (simp_all add: core_def forget_fold)
      then show ?thesis using deleted[of fids] xt 2 workspace_removed[of env pid "pj_snapshot_path p" ?s4] by simp
    qed
  qed
qed

section \<open>The invariant of the audit trail\<close>

text \<open>The permission an entry of the trail needed.\<close>

definition event_permission :: "approval_event \<Rightarrow> permission" where
  "event_permission e =
     (case ae_previous_status e of
        None \<Rightarrow> May_request_approval
      | Some _ \<Rightarrow>
          (case ae_new_status e of Approved \<Rightarrow> May_approve | Rejected \<Rightarrow> May_reject
           | Changes_requested \<Rightarrow> May_request_changes | Pending \<Rightarrow> May_resubmit))"

definition known_user :: "auth_db \<Rightarrow> string \<Rightarrow> permission \<Rightarrow> bool" where
  "known_user db n p \<longleftrightarrow> (\<exists>u \<in> set (db_users db). u_username u = n \<and> has_permission (u_role u) p)"

definition actors_known :: "auth_db \<Rightarrow> ('p, 'q) approval_store \<Rightarrow> bool" where
  "actors_known db s \<longleftrightarrow> (\<forall>k. \<forall>e \<in> set (events_for s k). known_user db (ae_actor e) (event_permission e))"

lemma may_known: "may env k s p u \<Longrightarrow> known_user (a_db s) (u_username u) p"
proof -
  assume may: "may env k s p u"
  then obtain uid r where r: "find (\<lambda>r. u_id r = uid) (db_users (a_db s)) = Some r" "u = row_to_user r"
    by (auto simp: may_def get_current_user_def get_user_by_id_def split: option.splits if_splits)
  then have "r \<in> set (db_users (a_db s))" by (auto simp: find_Some_iff)
  then show "known_user (a_db s) (u_username u) p"
    using may r(2) by (auto simp: may_def known_user_def row_to_user_def)
qed

lemma users_rehash_first:
  "u \<in> set us \<Longrightarrow> \<exists>v \<in> set (rehash_first n h us). u_username v = u_username u \<and> u_role v = u_role u"
  by (induction us) auto

definition users_kept :: "auth_db \<Rightarrow> auth_db \<Rightarrow> bool" where
  "users_kept db db' \<longleftrightarrow>
     (\<forall>u \<in> set (db_users db). \<exists>v \<in> set (db_users db'). u_username v = u_username u \<and> u_role v = u_role u)"

lemma users_kept_refl [simp]: "users_kept db db"
  by (auto simp: users_kept_def)

lemma users_kept_trans: "users_kept a b \<Longrightarrow> users_kept b d \<Longrightarrow> users_kept a d"
  unfolding users_kept_def by metis

lemma users_kept_eq: "db_users db' = db_users db \<Longrightarrow> users_kept db db'"
  by (auto simp: users_kept_def)

lemma users_kept_create: "create_user env n d pw r a db = Some (u, db') \<Longrightarrow> users_kept db db'"
  by (auto simp: create_user_def insert_user_def users_kept_def Let_def split: if_splits)

lemma users_kept_seed: "users_kept (snd acc) (snd (fold (seed_user envs) demos acc))"
proof (induction demos arbitrary: acc)
  case (Cons demo demos)
  obtain ok db where acc: "acc = (ok, db)" by (cases acc)
  obtain n d r where demo: "demo = (n, d, r)" by (cases demo)
  have "users_kept db (snd (seed_user envs (n, d, r) (ok, db)))"
    using users_rehash_first
    by (auto simp: seed_user_def users_kept_def dest: users_kept_create[unfolded users_kept_def] split: option.splits)
  then show ?case using Cons.IH[of "seed_user envs demo acc"] users_kept_trans by (simp add: acc demo)
qed simp

lemma users_kept_step:
  assumes "auth_step sha db db'"
  shows "users_kept db db'"
  using assms
proof (cases rule: auth_step.cases)
  case (step_login env n pw)
  obtain x d where run: "login env n pw db = (x, d)" by (cases "login env n pw db")
  then have "db_users d = db_users db" by (cases rule: login_cases) (auto dest: create_session_live(3))
  then show ?thesis using step_login run by (simp add: users_kept_eq)
next
  case (step_logout env cookie)
  then show ?thesis by (auto simp: logout_def revoke_session_def users_kept_eq split: option.splits)
next
  case (step_revoke_all env uid)
  then show ?thesis by (simp add: revoke_all_user_sessions_def users_kept_eq)
next
  case (step_create env n d pw r a u)
  then show ?thesis by (rule users_kept_create)
next
  case (step_seed envs)
  then show ?thesis using users_kept_seed[of "(True, db)" envs] by (simp add: seed_demo_users_def)
qed

lemma actors_known_users: "users_kept db db' \<Longrightarrow> actors_known db s \<Longrightarrow> actors_known db' s"
  unfolding actors_known_def known_user_def users_kept_def by metis

lemma actors_known_append:
  assumes "actors_known db s" and "known_user db (ae_actor e) (event_permission e)"
    and "\<And>k. events_for t k = (if k = ae_approval_id e then events_for s k @ [e] else events_for s k)"
  shows "actors_known db t"
  using assms by (auto simp: actors_known_def)


lemma actors_known_request:
  assumes "actors_known db s" and "known_user db who May_request_approval"
  shows "actors_known db (snd (request_approval c env policy vals prfs fid action who ts run s))"
proof -
  obtain res t where rt: "request_approval c env policy vals prfs fid action who ts run s = (res, t)"
    by (cases "request_approval c env policy vals prfs fid action who ts run s")
  from rt show ?thesis
  proof (cases rule: request_approval_cases)
    case (created r)
    have "known_user db (ae_actor (opening_event env r)) (event_permission (opening_event env r))"
      using assms(2) created(9) by (simp add: opening_event_def event_permission_def)
    then show ?thesis unfolding rt snd_conv created(1)
      by (rule actors_known_append[OF assms(1)]) (simp add: opening_event_def)
  qed (use rt assms(1) in simp_all)
qed

lemma actors_known_transition:
  assumes "actors_known db s" and "decision p = Some target" and "known_user db who p"
  shows "actors_known db (snd (transition c env aid target who reason ts s))"
proof -
  obtain res t where rt: "transition c env aid target who reason ts s = (res, t)"
    by (cases "transition c env aid target who reason ts s")
  from rt show ?thesis
  proof (cases rule: transition_cases)
    case (moved r now e)
    have "event_permission e = p"
      using assms(2) moved(7,8) by (cases p) (auto simp: event_permission_def)
    then have "known_user db (ae_actor e) (event_permission e)" using assms(3) moved(9) by simp
    then show ?thesis unfolding rt snd_conv moved(1)
      by (rule actors_known_append[OF assms(1)]) simp
  qed (use rt assms(1) in simp_all)
qed

lemma actors_known_remove:
  assumes "actors_known db s" and "store_ok s"
  shows "actors_known db (remove_finding fid s)"
proof -
  have "set (events_for (remove_finding fid s) k) \<subseteq> set (events_for s k)" for k
    using remove_fields(2)[OF assms(2), of fid k]
    by (auto simp: events_for_def dget_list_def split: option.splits if_splits)
  then show ?thesis using assms(1) unfolding actors_known_def by blast
qed

lemma removes_ok:
  assumes "store_ok s" and "actors_known db s"
  shows "store_ok (fold remove_finding fids s) \<and> actors_known db (fold remove_finding fids s)"
  using assms by (induction fids arbitrary: s) (auto intro: remove_ok actors_known_remove)

section \<open>The system\<close>

text \<open>A request served with identifiers that are new to the store, as \<open>uuid4\<close> promises.\<close>

definition fresh_ids :: "'p api_codecs \<Rightarrow> 'w api_env \<Rightarrow> ('p, 'w) app \<Rightarrow> bool" where
  "fresh_ids c env s \<longleftrightarrow> (\<forall>fid action who run. fresh_outcome (a_approvals s) (ask_by c env s fid action who run))"

inductive app_step :: "'p api_codecs \<Rightarrow> (string \<Rightarrow> string) \<Rightarrow> ('p, 'w) app \<Rightarrow> ('p, 'w) app \<Rightarrow> bool" for c sha where
  app_request: "fresh_ids c env s \<Longrightarrow> app_step c sha s (snd (handle c env k req s))"
| app_auth: "auth_step sha (a_db s) db \<Longrightarrow> app_step c sha s (s\<lparr>a_db := db\<rparr>)"

definition app_ok :: "('p, 'w) app \<Rightarrow> bool" where
  "app_ok s \<longleftrightarrow> store_ok (a_approvals s) \<and> actors_known (a_db s) (a_approvals s)"

lemma app_ok_core: "core t = core s \<Longrightarrow> app_ok s \<Longrightarrow> app_ok t"
  by (simp add: core_def app_ok_def)

lemma app_ok_request:
  assumes ok: "app_ok s" and fresh: "fresh_ids c env s"
  shows "app_ok (snd (handle c env k req s))"
proof -
  have decided: "app_ok (snd (decide p target c env k aid reason s))" if "decision p = Some target" for p target aid reason
  proof (cases rule: core_decide[of p target c env k aid reason s])
    case 1
    then show ?thesis using app_ok_core ok by blast
  next
    case (2 u)
    have "approval_step (co_approval c) (a_approvals s) (snd (decide_by c env s aid target (u_username u) reason))"
      by (intro workflowI transitionI)
    from approval_step_ok[OF this] have "store_ok (snd (decide_by c env s aid target (u_username u) reason))"
      using ok by (simp add: app_ok_def)
    moreover have "actors_known (a_db s) (snd (decide_by c env s aid target (u_username u) reason))"
      by (rule actors_known_transition[OF _ that may_known[OF 2(1)]]) (use ok in \<open>simp add: app_ok_def\<close>)
    ultimately show ?thesis using 2(2) by (simp add: app_ok_def core_def)
  qed
  have asked: "app_ok (snd (request_approval_route c env k fid action run s))" for fid action run
  proof (cases rule: core_request_route[of c env k fid action run s])
    case 1
    then show ?thesis using app_ok_core ok by blast
  next
    case (2 u)
    have "approval_step (co_approval c) (a_approvals s) (snd (ask_by c env s fid action (u_username u) run))"
      using fresh by (intro workflowI requestI) (simp add: fresh_ids_def)
    from approval_step_ok[OF this] have "store_ok (snd (ask_by c env s fid action (u_username u) run))"
      using ok by (simp add: app_ok_def)
    moreover have "actors_known (a_db s) (snd (ask_by c env s fid action (u_username u) run))"
      by (rule actors_known_request[OF _ may_known[OF 2(1)]]) (use ok in \<open>simp add: app_ok_def\<close>)
    ultimately show ?thesis using 2(2) by (simp add: app_ok_def core_def)
  qed
  have deleted: "app_ok (snd (delete_project_route c env k pid s))" for pid
  proof (cases rule: core_delete_route[of c env k pid s])
    case kept
    then show ?thesis using app_ok_core ok by blast
  next
    case (deleted fids)
    then show ?thesis using removes_ok[of "a_approvals s" "a_db s" fids] ok by (simp add: app_ok_def)
  qed
  have remediated: "app_ok t" if "core t = core s \<or> (\<exists>r. core t = (a_db s, a_approvals s, r))" for t
    using that ok by (auto simp: core_def app_ok_def)
  show ?thesis
  proof (cases "quiet req")
    case True
    then show ?thesis using app_ok_core[OF quiet_core] ok by blast
  next
    case False
    then show ?thesis
    proof (cases req)
      case (Propose_req fid)
      then show ?thesis using core_remediation_routes(1)[of c env k fid s] by (auto intro!: remediated)
    next
      case (Verify_req fid)
      then show ?thesis using core_remediation_routes(2)[of c env k fid s] by (auto intro!: remediated)
    next
      case (Apply_req fid conf)
      then show ?thesis using core_remediation_routes(3)[of c env k fid conf s] by (auto intro!: remediated)
    qed (simp_all add: decided asked deleted approve_route_def reject_route_def request_changes_route_def resubmit_route_def)
  qed
qed

definition app_initial :: "('p, 'w) app \<Rightarrow> bool" where
  "app_initial s \<longleftrightarrow> approvals_empty (a_approvals s)"

interpretation app_sys: invariant_system app_initial "app_step c sha" app_ok for c sha
proof (unfold_locales, goal_cases)
  case (1 s)
  then show ?case
    using approvals.inv_init[of "a_approvals s"]
    by (auto simp: app_initial_def app_ok_def actors_known_def approvals_empty_def events_for_def dget_list_def)
next
  case (2 s t)
  from 2(2) show ?case
  proof (cases rule: app_step.cases)
    case (app_request env k req)
    then show ?thesis using app_ok_request 2(1) by blast
  next
    case (app_auth db)
    have "actors_known db (a_approvals s)"
      by (rule actors_known_users[OF users_kept_step[OF app_auth(2)]]) (use 2(1) in \<open>simp add: app_ok_def\<close>)
    then show ?thesis using 2(1) app_auth(1) by (simp add: app_ok_def)
  qed
qed

lemma decided_by:
  assumes "app_ok s" and "get_request (a_approvals s) aid = Some r" and "ar_status r = Approved"
  shows "\<exists>ds e u. events_for (a_approvals s) aid = ds @ [e] \<and> ae_new_status e = Approved \<and>
     u \<in> set (db_users (a_db s)) \<and> u_username u = ae_actor e \<and> u_role u = Manager"
proof -
  have "trail_ok (events_for (a_approvals s) aid) r"
    using store_okD(2)[of "a_approvals s" aid r] assms(1,2) by (simp add: app_ok_def get_request_def)
  then have "replay (events_for (a_approvals s) aid) = Some (Approved, ar_version r)"
    using assms(3) by (simp add: trail_ok_def)
  from replay_ends_approved[OF this] obtain ds e where e: "events_for (a_approvals s) aid = ds @ [e]"
    "ae_new_status e = Approved" "ae_previous_status e = Some Pending" by blast
  have "actors_known (a_db s) (a_approvals s)" using assms(1) by (simp add: app_ok_def)
  moreover have "e \<in> set (events_for (a_approvals s) aid)" using e(1) by simp
  ultimately have "known_user (a_db s) (ae_actor e) (event_permission e)" unfolding actors_known_def by blast
  then have "known_user (a_db s) (ae_actor e) May_approve" using e by (simp add: event_permission_def)
  then obtain u where u: "u \<in> set (db_users (a_db s))" "u_username u = ae_actor e" "has_permission (u_role u) May_approve"
    by (auto simp: known_user_def)
  then have "u_role u = Manager" by (cases "u_role u") (simp_all add: permission_tables)
  then show ?thesis using e u by blast
qed


section \<open>Properties of the whole\<close>

text \<open>C6. The audit trail names who was allowed to act: in every reachable state, whatever requests were made by whom
  and in whatever order, each entry of an approval's trail carries the name of a user whose role has the permission
  for that decision, and an approved request was approved by a manager.\<close>

theorem decisions_by_permitted_users:
  assumes "app_initial s0" and "(app_step c sha)\<^sup>*\<^sup>* s0 s"
  shows "(\<forall>k. \<forall>e \<in> set (events_for (a_approvals s) k).
            \<exists>u \<in> set (db_users (a_db s)). u_username u = ae_actor e \<and> has_permission (u_role u) (event_permission e)) \<and>
         (\<forall>aid r. get_request (a_approvals s) aid = Some r \<longrightarrow> ar_status r = Approved \<longrightarrow>
            (\<exists>ds e u. events_for (a_approvals s) aid = ds @ [e] \<and> ae_new_status e = Approved \<and>
               u \<in> set (db_users (a_db s)) \<and> u_username u = ae_actor e \<and> u_role u = Manager))"
proof -
  have ok: "app_ok s" using app_sys.inv_reachable[OF assms] .
  then have "actors_known (a_db s) (a_approvals s)" by (simp add: app_ok_def)
  then show ?thesis using decided_by[OF ok] unfolding actors_known_def known_user_def by blast
qed

lemma approved_request:
  assumes "store_ok s" and "find_for_finding s fid = Some a"
  shows "get_request s (ar_id a) = Some a"
proof -
  have "a \<in> set (dvalues (requests s))" using assms(2) first_max_in by (fastforce simp: find_for_finding_def)
  then obtain k where k: "dget (requests s) k = Some a" using in_requests_iff[OF assms(1)] by blast
  then show ?thesis using store_okD(2)[OF assms(1) k] by (simp add: get_request_def)
qed

lemma rem_request_files:
  assumes "dget (rm_files (a_rem (snd (handle c env k req s)))) file = Some new"
    and "dget (rm_files (a_rem s)) file \<noteq> Some new"
  obtains fid u where "req = Apply_req fid True" "may env k s May_apply_remediation u"
    "dget (rm_files (snd (apply_remediation (rem_env_in env s) (co_rem c) fid True (a_rem s)))) file = Some new"
proof -
  let ?t = "snd (handle c env k req s)" and ?E = "{rem_env_in env s}"
  have changed: "core ?t \<noteq> core s" using assms by (auto simp: core_def)
  have untouched: "dget (rm_files r) file = dget (rm_files (a_rem s)) file"
    if "r \<in> {snd (propose_remediation (rem_env_in env s) (co_rem c) fid (a_rem s)),
             snd (verify_remediation (rem_env_in env s) (co_rem c) fid (a_rem s))}" for r fid
  proof (rule ccontr)
    assume ne: "dget (rm_files r) file \<noteq> dget (rm_files (a_rem s)) file"
    have "rm_files r = rm_files (a_rem s)"
    proof (cases "r = snd (propose_remediation (rem_env_in env s) (co_rem c) fid (a_rem s))")
      case True
      obtain x u where run: "propose (rem_env_in env s) (co_rem c) fid (a_rem s) = (x, u)"
        by (cases "propose (rem_env_in env s) (co_rem c) fid (a_rem s)")
      then have "rm_files u = rm_files (a_rem s)" by (cases rule: propose_cases) simp_all
      then show ?thesis using True endpoint_states(1)[of "rem_env_in env s" "co_rem c" fid "a_rem s"] run by auto
    next
      case False
      then have r: "r = snd (verify_remediation (rem_env_in env s) (co_rem c) fid (a_rem s))" using that by simp
      obtain x u where run: "verify_fix (rem_env_in env s) (co_rem c) fid (a_rem s) = (x, u)"
        by (cases "verify_fix (rem_env_in env s) (co_rem c) fid (a_rem s)")
      then have "rm_files u = rm_files (a_rem s)" by (cases rule: verify_fix_cases) simp_all
      then show ?thesis using r endpoint_states(3)[of "rem_env_in env s" "co_rem c" fid "a_rem s"] run by auto
    qed
    then show False using ne by simp
  qed
  have "\<not> quiet req" using quiet_core[of req c env k s] changed by blast
  then show ?thesis
  proof (cases req)
    case (Approval_req fid action run)
    then show ?thesis
      using core_request_route[of c env k fid action run s] assms by (force simp: core_def)
  next
    case (Approve_req aid reason)
    then show ?thesis
      using core_decide[of May_approve Approved c env k aid reason s] assms by (force simp: core_def approve_route_def)
  next
    case (Reject_req aid reason)
    then show ?thesis
      using core_decide[of May_reject Rejected c env k aid reason s] assms by (force simp: core_def reject_route_def)
  next
    case (Changes_req aid reason)
    then show ?thesis
      using core_decide[of May_request_changes Changes_requested c env k aid reason s] assms
      by (force simp: core_def request_changes_route_def)
  next
    case (Resubmit_req aid reason)
    then show ?thesis
      using core_decide[of May_resubmit Pending c env k aid reason s] assms by (force simp: core_def resubmit_route_def)
  next
    case (Propose_req fid)
    then show ?thesis using core_remediation_routes(1)[of c env k fid s] assms
        untouched[of "snd (propose_remediation (rem_env_in env s) (co_rem c) fid (a_rem s))" fid] by (auto simp: core_def)
  next
    case (Verify_req fid)
    then show ?thesis using core_remediation_routes(2)[of c env k fid s] assms
        untouched[of "snd (verify_remediation (rem_env_in env s) (co_rem c) fid (a_rem s))" fid] by (auto simp: core_def)
  next
    case (Delete_project_req pid)
    have "dget (rm_files (a_rem ?t)) file \<in> {None, dget (rm_files (a_rem s)) file}"
      using changed by (cases rule: core_delete_route[of c env k pid s]) (auto simp: Delete_project_req)
    then show ?thesis using assms by auto
  next
    case (Apply_req fid conf)
    then obtain u where u: "may env k s May_apply_remediation u"
        "a_rem ?t = snd (apply_remediation (rem_env_in env s) (co_rem c) fid conf (a_rem s))"
      using core_remediation_routes(3)[of c env k fid conf s] changed by (auto simp: core_def)
    have conf
    proof (rule ccontr)
      assume "\<not> conf"
      obtain x v where run: "apply_fix (rem_env_in env s) (co_rem c) fid conf (a_rem s) = (x, v)"
        by (cases "apply_fix (rem_env_in env s) (co_rem c) fid conf (a_rem s)")
      then have "v = a_rem s" by (cases rule: apply_fix_cases) (use \<open>\<not> conf\<close> in \<open>simp_all add: apply_ready_def\<close>)
      then show False
        using u(2) assms endpoint_states(2)[of "rem_env_in env s" "co_rem c" fid conf "a_rem s"] run by auto
    qed
    then show ?thesis using that[of fid u] Apply_req u assms(1) by simp
  qed simp_all
qed



section \<open>Witnesses\<close>

text \<open>An application without a database: a manager is logged in, one finding is validated and proven, its patch
  is proposed.\<close>

definition unit_codec :: "('v, unit) codec" where "unit_codec = \<lparr>dump = (\<lambda>_. ()), load = (\<lambda>_. None)\<rparr>"

definition sample_api_codecs :: "unit api_codecs" where
  "sample_api_codecs = \<lparr>co_runs = \<lparr>run_codec = unit_codec, stage_codec = unit_codec, execution_codec = unit_codec\<rparr>,
     co_finding = unit_codec, co_validation = unit_codec, co_proof = unit_codec, co_approval = (unit_codec, unit_codec),
     co_risk = (unit_codec, unit_codec, unit_codec), co_group = unit_codec, co_rem = unit_codec\<rparr>"

definition sample_api_env :: "string \<Rightarrow> int \<Rightarrow> unit api_env" where
  "sample_api_env uuid now = \<lparr>pe_auth = sample_auth_env uuid now, pe_execution_id = uuid, pe_begin = utc now,
     pe_end = utc now, pe_now = now, pe_str = (\<lambda>_. []), pe_list = concat, pe_isoformat = (\<lambda>_. []), pe_sha = (\<lambda>x. x),
     pe_tokens = (\<lambda>_. None), pe_provider = Inl, pe_repair_prompt = [], pe_duration = 1, pe_windows = False,
     pe_sandbox = \<lparr>se_mkdtemp = Inl [], se_write_error = None, se_execute = (\<lambda>_ _ _. Raised [])\<rparr>,
     pe_approval = env_at uuid now,
     pe_run = \<lparr>en_run_id = uuid, en_prepare_eid = uuid, en_scan_eid = uuid, en_report_id = uuid, en_now = utc now,
        en_scan_start = utc now, en_report_at = utc now, en_scan_end = utc now, en_end = utc now, en_sha = (\<lambda>x. x),
        en_scan_error = None\<rparr>,
     pe_prepared_at = None, pe_project_id = uuid, pe_prepare = (\<lambda>_. Inr ([], utc now)), pe_code_model = (\<lambda>_. Inr empty_model),
     pe_workspace = ''/w'', pe_resolve = (\<lambda>x. x), pe_parse = accepts_all, pe_sql = (\<lambda>_ _. Inr sys_proposal),
     pe_cmd = (\<lambda>_ _. Inr sys_proposal), pe_rmtree_keeps = (\<lambda>_. False)\<rparr>"

definition app0 :: "(unit, unit) app" where
  "app0 = \<lparr>a_db = auth_db2, a_projects = [(''p'', sample_project)], a_runs = sample_runs,
     a_findings = \<lparr>cache = [(''f'', sample_finding)], factory = None\<rparr>,
     a_validations = \<lparr>cache = [(''f'', sample_validation True_positive)], factory = None\<rparr>,
     a_proofs = \<lparr>cache = [(''f'', proved_finding)], factory = None\<rparr>,
     a_approvals = \<lparr>requests = [], events = [], request_rows = None, event_rows = None\<rparr>,
     a_risk = \<lparr>risk_store = \<lparr>cache = [], factory = None\<rparr>, sla_store = \<lparr>cache = [], factory = None\<rparr>,
        escalation_store = [], escalation_rows = None\<rparr>,
     a_groups = \<lparr>cache = [], factory = None\<rparr>,
     a_rem = \<lparr>rm_store = \<lparr>cache = [(''f'', sample_record Rem_proposed)], factory = None\<rparr>,
        rm_files = [(''/w/p/repo/app.py'', sys_text)]\<rparr>,
     a_runner = \<lparr>rn_policy = default_policy, rn_workspaces = []\<rparr>, a_world = ()\<rparr>"

abbreviation serve :: "string \<Rightarrow> int \<Rightarrow> request \<Rightarrow> (unit, unit) app \<Rightarrow> http_error option \<times> (unit, unit) app" where
  "serve uuid now \<equiv> handle sample_api_codecs (sample_api_env uuid now) (Some ''tok'')"

text \<open>The manager asks for the approval of the patch, and approves it.\<close>

definition asked_request :: approval_request where
  "asked_request = \<lparr>ar_id = ''A'', ar_finding_id = ''f'', ar_status = Pending, ar_requested_at = utc 10,
     ar_requested_by = ''manager'', ar_reviewed_at = None, ar_reviewed_by = None, ar_reason = None,
     ar_action = Remediation, ar_version = 1, ar_scan_run_id = None\<rparr>"

definition asked_event :: approval_event where
  "asked_event = \<lparr>ae_id = ''A'', ae_approval_id = ''A'', ae_finding_id = ''f'', ae_previous_status = None,
     ae_new_status = Pending, ae_actor = ''manager'', ae_reason = None, ae_created_at = utc 10\<rparr>"

definition app1 :: "(unit, unit) app" where
  "app1 = app0\<lparr>a_approvals := \<lparr>requests = [(''A'', asked_request)], events = [(''A'', [asked_event])],
     request_rows = None, event_rows = None\<rparr>\<rparr>"

definition approved_request_row :: approval_request where
  "approved_request_row = asked_request\<lparr>ar_status := Approved, ar_reviewed_at := Some (utc 11),
     ar_reviewed_by := Some ''manager''\<rparr>"

definition approved_event :: approval_event where
  "approved_event = \<lparr>ae_id = ''B'', ae_approval_id = ''A'', ae_finding_id = ''f'', ae_previous_status = Some Pending,
     ae_new_status = Approved, ae_actor = ''manager'', ae_reason = None, ae_created_at = utc 11\<rparr>"

definition app2 :: "(unit, unit) app" where
  "app2 = app0\<lparr>a_approvals := \<lparr>requests = [(''A'', approved_request_row)],
     events = [(''A'', [asked_event, approved_event])], request_rows = None, event_rows = None\<rparr>\<rparr>"

definition app3 :: "(unit, unit) app" where "app3 = snd (serve ''C'' 12 (Apply_req ''f'' True) app2)"

lemma served1: "snd (serve ''A'' 10 (Approval_req ''f'' Remediation None) app0) = app1"
  by code_simp

lemma served2: "snd (serve ''B'' 11 (Approve_req ''A'' None) app1) = app2"
  by code_simp

lemma app3_rem: "a_rem app3 = snd (apply_remediation (rem_env_in (sample_api_env ''C'' 12) app2) unit_codec ''f'' True (a_rem app2))"
proof -
  have "\<not> isl (require_permission May_apply_remediation (sample_auth_env ''C'' 12) (a_db app2) (Some ''tok''))"
    by code_simp
  then obtain u where u: "require_permission May_apply_remediation (sample_auth_env ''C'' 12) (a_db app2) (Some ''tok'') = Inr u"
    by (cases "require_permission May_apply_remediation (sample_auth_env ''C'' 12) (a_db app2) (Some ''tok'')") simp_all
  have "co_rem sample_api_codecs = unit_codec" "pe_auth (sample_api_env ''C'' 12) = sample_auth_env ''C'' 12"
    by (simp_all add: sample_api_codecs_def sample_api_env_def)
  then show ?thesis
    by (simp add: app3_def apply_route_def secured_def u on_rem_def split: prod.splits)
qed

definition rem_env2 :: "(unit, unit, unit, unit, unit) rem_env" where
  "rem_env2 = \<lparr>re_approvals = \<lparr>requests = [(''A'', approved_request_row)],
       events = [(''A'', [asked_event, approved_event])], request_rows = None, event_rows = None\<rparr>,
     re_finding = kstore_get (\<lparr>cache = [(''f'', sample_finding)], factory = None\<rparr> :: unit finding_store), re_runs = sample_runs,
     re_project = dget [(''p'', sample_project)], re_code_model = (\<lambda>_. Inr empty_model),
     re_workspace = ''/w'', re_resolve = (\<lambda>x. x), re_now = utc 12, re_parse = accepts_all,
     re_sql = (\<lambda>_ _. Inr sys_proposal), re_cmd = (\<lambda>_ _. Inr sys_proposal), re_sha = (\<lambda>x. x), re_report_id = ''C''\<rparr>"

definition rem2 :: "unit rem_state" where
  "rem2 = \<lparr>rm_store = \<lparr>cache = [(''f'', sample_record Rem_proposed)], factory = None\<rparr>,
     rm_files = [(''/w/p/repo/app.py'', sys_text)]\<rparr>"

lemma rem_app2: "rem_env_in (sample_api_env ''C'' 12) app2 = rem_env2" "a_rem app2 = rem2"
  by (simp_all add: rem_env_in_def rem_env2_def app2_def app0_def sample_api_env_def rem2_def)

lemma app3_patched:
  "dget (rm_files (a_rem app3)) ''/w/p/repo/app.py'' \<noteq> dget (rm_files (a_rem app2)) ''/w/p/repo/app.py''"
  "dget (rm_files (a_rem app3)) ''/w/p/repo/app.py'' \<noteq> None"
  unfolding app3_rem rem_app2 by code_simp+

lemma request_new_id:
  assumes "request_approval c env policy vals prfs fid action who ts run s = (Inr r, t)"
    and "find_active s fid action ACTIVE_STATUSES = None" and "env_sha env = (\<lambda>_. [])"
  shows "ar_id r = take 32 (fst (env_uuids env))"
  using assms by (auto simp: request_approval_def new_id_def Let_def split: option.splits sum.splits if_splits)

lemma fresh_ids_uuid:
  assumes "store_ok (a_approvals s)" and "env_sha (pe_approval env) = (\<lambda>_. [])"
    and "dget (requests (a_approvals s)) (take 32 (fst (env_uuids (pe_approval env)))) = None"
  shows "fresh_ids c env s"
proof -
  have "dget (requests (a_approvals s)) (ar_id r) = Some r \<or> dget (requests (a_approvals s)) (ar_id r) = None"
    if "fst (ask_by c env s fid action who run) = Inr r" for fid action who run r
  proof -
    obtain x t where xt: "ask_by c env s fid action who run = (x, t)" by (cases "ask_by c env s fid action who run")
    then have rt: "ask_by c env s fid action who run = (Inr r, t)" using that by simp
    from rt show ?thesis
    proof (cases rule: request_approval_cases)
      case (existing q)
      then have "r \<in> set (dvalues (requests (a_approvals s)))"
        by (auto simp: find_active_def find_Some_iff)
      then show ?thesis using in_requests_iff[OF assms(1)] store_okD(2)[OF assms(1)] by fastforce
    next
      case (created q)
      have "ar_id r = take 32 (fst (env_uuids (pe_approval env)))"
        using request_new_id[OF rt created(3) assms(2)] .
      then show ?thesis using assms(3) by simp
    qed simp
  qed
  then show ?thesis by (simp add: fresh_ids_def fresh_outcome_def)
qed

lemma app0_initial: "app_initial app0"
  by (simp add: app_initial_def app0_def approvals_empty_def)

lemma app2_reached: "(app_step sample_api_codecs sha)\<^sup>*\<^sup>* app0 app2"
proof -
  have ok0: "app_ok app0" using app_sys.inv_reachable[OF app0_initial] by blast
  have step1: "app_step sample_api_codecs sha app0 app1"
    unfolding served1[symmetric]
    by (rule app_request, rule fresh_ids_uuid) (use ok0 in \<open>simp_all add: app_ok_def sample_api_env_def env_at_def app0_def\<close>)
  have "app_ok app1" by (rule app_sys.inv_step[OF ok0 step1])
  then have "app_step sample_api_codecs sha app1 app2"
    unfolding served2[symmetric]
    by (intro app_request fresh_ids_uuid) (simp_all add: app_ok_def sample_api_env_def env_at_def app1_def)
  then show ?thesis using step1 by (blast intro: converse_rtranclp_into_rtranclp)
qed


theorem decisions_by_permitted_users_witness:
  "\<exists>ds e u. events_for (a_approvals app2) ''A'' = ds @ [e] \<and> ae_new_status e = Approved \<and>
     u \<in> set (db_users (a_db app2)) \<and> u_username u = ae_actor e \<and> u_role u = Manager"
proof -
  have "get_request (a_approvals app2) ''A'' = Some approved_request_row" "ar_status approved_request_row = Approved"
    by (simp_all add: get_request_def app2_def approved_request_row_def)
  then show ?thesis
    using decisions_by_permitted_users[OF app0_initial app2_reached[of "\<lambda>x. x"]] by blast
qed


end
