(* ===== verification/Benchmark.thy ===== *)
theory Benchmark
  imports Scan_Service Validate Auth
begin

text \<open>
  The benchmark (backend/app/benchmark/ and api/routes/benchmark.py): matching findings against each other and
  against the ground truth, the metrics, the reading of the external scanner's output, the service and its report
  store.

  Floating point: a quotient is the nearest double of the exact one, with ties to even, and \<open>round(x, 4)\<close> rounds the
  exact value of the double to four decimals with ties to even, and takes the nearest double of that. Arguments are
  the JSON decoder, the text of a JSON value, the decoding of bytes, the outcome of the scanner's process, SHA-256,
  the clock and the parsed fixture.
\<close>

section \<open>Contracts\<close>

record benchmark_finding =
  bf_tool :: string
  bf_vulnerability_type :: string
  bf_file :: string
  bf_line :: int
  bf_function :: "string option"
  bf_message :: string
  bf_fingerprint :: string

record benchmark_result =
  br_tool :: string
  br_available :: bool
  br_findings :: "benchmark_finding list"
  br_duration_ms :: "int option"
  br_error :: "string option"

record benchmark_metrics =
  bm_tool :: string
  bm_true_positives :: nat
  bm_false_positives :: nat
  bm_false_negatives :: int
  bm_precision :: "rat option"
  bm_recall :: "rat option"
  bm_f1 :: "rat option"
  bm_total_findings :: nat

record benchmark_comparison =
  bc_shared_findings :: "benchmark_finding list"
  bc_ours_only :: "benchmark_finding list"
  bc_semgrep_only :: "benchmark_finding list"
  bc_shared_vulnerability_types :: "string list"
  bc_safe_cases_detected_incorrectly :: "string list"

record benchmark_report =
  bp_benchmark_id :: string
  bp_fixture :: string
  bp_ground_truth_count :: nat
  bp_our_result :: benchmark_result
  bp_semgrep_result :: benchmark_result
  bp_metrics :: "benchmark_metrics list"
  bp_comparison :: benchmark_comparison
  bp_created_at :: py_datetime

record ground_truth_case =
  gt_case_id :: string
  gt_file :: string
  gt_function :: string
  gt_vulnerability_type :: string
  gt_expected_vulnerable :: bool
  gt_source_description :: string
  gt_sink_description :: string
  gt_source_line :: int
  gt_sink_line :: int

section \<open>Ground truth\<close>

abbreviation quoted :: "string \<Rightarrow> string" where
  "quoted s \<equiv> [CHR 0x27] @ s @ [CHR 0x27]"

definition FIXTURE_GROUND_TRUTH :: "(string, ground_truth_case list) dict" where
  "FIXTURE_GROUND_TRUTH = [(''vulnerable_python_app'',
     [\<lparr>gt_case_id = ''sql-app-get-user'', gt_file = ''app.py'', gt_function = ''get_user'',
       gt_vulnerability_type = ''sql_injection'', gt_expected_vulnerable = True,
       gt_source_description = ''user_id parameter interpolated into SQL'',
       gt_sink_description = ''conn.execute(query) with f-string query'', gt_source_line = 12, gt_sink_line = 15\<rparr>,
      \<lparr>gt_case_id = ''sql-app-get-user-safe'', gt_file = ''app.py'', gt_function = ''get_user_safe'',
       gt_vulnerability_type = ''sql_injection'', gt_expected_vulnerable = False,
       gt_source_description = ''parameterized query with ? placeholder'',
       gt_sink_description = ''conn.execute('' @ quoted ''SELECT ... WHERE id = ?'' @ '', (user_id,))'',
       gt_source_line = 23, gt_sink_line = 25\<rparr>,
      \<lparr>gt_case_id = ''cmd-app-run-command'', gt_file = ''app.py'', gt_function = ''run_command'',
       gt_vulnerability_type = ''command_injection'', gt_expected_vulnerable = True,
       gt_source_description = ''cmd parameter passed to shell'',
       gt_sink_description = ''subprocess.run(cmd, shell=True)'', gt_source_line = 33, gt_sink_line = 34\<rparr>,
      \<lparr>gt_case_id = ''cmd-app-run-command-safe'', gt_file = ''app.py'', gt_function = ''run_command_safe'',
       gt_vulnerability_type = ''command_injection'', gt_expected_vulnerable = False,
       gt_source_description = ''constant command string'',
       gt_sink_description = ''subprocess.run('' @ quoted ''ls -la'' @ '', shell=True)'',
       gt_source_line = 50, gt_sink_line = 51\<rparr>,
      \<lparr>gt_case_id = ''ssrf-app-fetch-url'', gt_file = ''app.py'', gt_function = ''fetch_url'',
       gt_vulnerability_type = ''ssrf'', gt_expected_vulnerable = True,
       gt_source_description = ''url parameter passed to requests'',
       gt_sink_description = ''requests.get(url, timeout=5)'', gt_source_line = 37, gt_sink_line = 40\<rparr>,
      \<lparr>gt_case_id = ''ssrf-app-fetch-safe'', gt_file = ''app.py'', gt_function = ''fetch_safe'',
       gt_vulnerability_type = ''ssrf'', gt_expected_vulnerable = False,
       gt_source_description = ''constant https URL'',
       gt_sink_description = ''requests.get('' @ quoted ''https://example.com'' @ '')'',
       gt_source_line = 44, gt_sink_line = 47\<rparr>,
      \<lparr>gt_case_id = ''sql-db-execute'', gt_file = ''db.py'', gt_function = ''execute'',
       gt_vulnerability_type = ''sql_injection'', gt_expected_vulnerable = True,
       gt_source_description = ''sql parameter forwarded to connection'',
       gt_sink_description = ''self.connection.execute(sql)'', gt_source_line = 14, gt_sink_line = 17\<rparr>,
      \<lparr>gt_case_id = ''sql-db-query-users'', gt_file = ''db.py'', gt_function = ''query_users'',
       gt_vulnerability_type = ''sql_injection'', gt_expected_vulnerable = True,
       gt_source_description = ''user_id interpolated into SQL f-string'',
       gt_sink_description = ''self.execute(f'' @ quoted ''SELECT ... id = {user_id}'' @ '')'',
       gt_source_line = 19, gt_sink_line = 20\<rparr>])]"

definition get_ground_truth :: "string \<Rightarrow> ground_truth_case list" where
  "get_ground_truth fixture = (case dget FIXTURE_GROUND_TRUTH fixture of None \<Rightarrow> [] | Some cs \<Rightarrow> cs)"

definition vulnerable_cases :: "string \<Rightarrow> ground_truth_case list" where
  "vulnerable_cases fixture = filter gt_expected_vulnerable (get_ground_truth fixture)"

definition safe_cases :: "string \<Rightarrow> ground_truth_case list" where
  "safe_cases fixture = filter (\<lambda>c. \<not> gt_expected_vulnerable c) (get_ground_truth fixture)"

section \<open>Matching\<close>

definition DEFAULT_TOLERANCE :: int where "DEFAULT_TOLERANCE = 3"

text \<open>Two optional names are equal and not empty.\<close>

definition same_function :: "string option \<Rightarrow> string option \<Rightarrow> bool" where
  "same_function a b \<longleftrightarrow> a = b \<and> a \<noteq> None \<and> a \<noteq> Some []"

definition same_finding :: "int \<Rightarrow> benchmark_finding \<Rightarrow> benchmark_finding \<Rightarrow> bool" where
  "same_finding tolerance a b =
     (if bf_file a \<noteq> bf_file b then False
      else if bf_vulnerability_type a \<noteq> bf_vulnerability_type b then False
      else \<bar>bf_line a - bf_line b\<bar> \<le> tolerance \<or> same_function (bf_function a) (bf_function b))"

definition matches_case :: "int \<Rightarrow> benchmark_finding \<Rightarrow> ground_truth_case \<Rightarrow> bool" where
  "matches_case tolerance f c =
     (if bf_file f \<noteq> gt_file c then False
      else if bf_vulnerability_type f \<noteq> gt_vulnerability_type c then False
      else \<bar>bf_line f - gt_source_line c\<bar> \<le> tolerance \<or> \<bar>bf_line f - gt_sink_line c\<bar> \<le> tolerance \<or>
           same_function (bf_function f) (Some (gt_function c)))"

text \<open>\<open>remaining.remove(partner)\<close> removes the first equal element.\<close>

definition cross_step ::
    "int \<Rightarrow> benchmark_finding \<Rightarrow> benchmark_finding list \<times> benchmark_finding list \<times> benchmark_finding list
     \<Rightarrow> benchmark_finding list \<times> benchmark_finding list \<times> benchmark_finding list" where
  "cross_step tolerance f acc =
     (case acc of (shared, ours_only, remaining) \<Rightarrow>
        (case find (same_finding tolerance f) remaining of
           None \<Rightarrow> (shared, ours_only @ [f], remaining)
         | Some partner \<Rightarrow> (shared @ [f], ours_only, remove1 partner remaining)))"

definition match_cross_tool ::
    "int \<Rightarrow> benchmark_finding list \<Rightarrow> benchmark_finding list
     \<Rightarrow> benchmark_finding list \<times> benchmark_finding list \<times> benchmark_finding list" where
  "match_cross_tool tolerance ours theirs = fold (cross_step tolerance) ours ([], [], theirs)"

record classification =
  cl_matched :: "string list"
  cl_false_positives :: "benchmark_finding list"
  cl_consumed_vulnerable :: "string set"
  cl_consumed_safe :: "string set"

definition classify_step ::
    "int \<Rightarrow> ground_truth_case list \<Rightarrow> ground_truth_case list \<Rightarrow> benchmark_finding \<Rightarrow> classification \<Rightarrow> classification" where
  "classify_step tolerance vulnerable safe f s =
     (case find (\<lambda>c. gt_case_id c \<notin> cl_consumed_vulnerable s \<and> matches_case tolerance f c) vulnerable of
        Some hit \<Rightarrow>
          s\<lparr>cl_consumed_vulnerable := insert (gt_case_id hit) (cl_consumed_vulnerable s),
            cl_matched := cl_matched s @ [gt_case_id hit]\<rparr>
      | None \<Rightarrow>
          (let consumed = (case find (\<lambda>c. gt_case_id c \<notin> cl_consumed_safe s \<and> matches_case tolerance f c) safe of
                             Some safe_hit \<Rightarrow> insert (gt_case_id safe_hit) (cl_consumed_safe s)
                           | None \<Rightarrow> cl_consumed_safe s)
           in s\<lparr>cl_consumed_safe := consumed, cl_false_positives := cl_false_positives s @ [f]\<rparr>))"

definition classify ::
    "int \<Rightarrow> benchmark_finding list \<Rightarrow> ground_truth_case list \<Rightarrow> string list \<times> benchmark_finding list" where
  "classify tolerance findings cases =
     (let s = fold (classify_step tolerance (filter gt_expected_vulnerable cases)
                      (filter (\<lambda>c. \<not> gt_expected_vulnerable c) cases)) findings
                \<lparr>cl_matched = [], cl_false_positives = [], cl_consumed_vulnerable = {}, cl_consumed_safe = {}\<rparr>
      in (cl_matched s, cl_false_positives s))"

section \<open>Metrics\<close>

definition half_even :: "rat \<Rightarrow> int" where
  "half_even q =
     (let n = \<lfloor>q\<rfloor>; d = q - of_int n in
      if d < 1 / 2 then n else if 1 / 2 < d then n + 1 else if even n then n else n + 1)"

text \<open>The nearest double of a number in the normal range below \<open>2 ^ 53\<close>; the results here are at most 2.\<close>

definition double :: "rat \<Rightarrow> rat" where
  "double q =
     (case find (\<lambda>e. 2 ^ 52 \<le> q * 2 ^ e) [0..<1075] of
        None \<Rightarrow> 0
      | Some e \<Rightarrow> of_int (half_even (q * 2 ^ e)) / 2 ^ e)"

definition round4 :: "rat \<Rightarrow> rat" where
  "round4 x = double (of_int (half_even (x * 10000)) / 10000)"

definition ratio :: "rat \<Rightarrow> rat \<Rightarrow> rat option" where
  "ratio numerator denominator = (if denominator = 0 then None else Some (round4 (double (numerator / denominator))))"

definition f1_of :: "rat option \<Rightarrow> rat option \<Rightarrow> rat option" where
  "f1_of precision recall =
     (case (precision, recall) of
        (Some p, Some r) \<Rightarrow>
          if 0 < double (p + r) then ratio (double (double (2 * p) * r)) (double (p + r)) else None
      | _ \<Rightarrow> None)"

definition compute_metrics :: "string \<Rightarrow> benchmark_finding list \<Rightarrow> string \<Rightarrow> int \<Rightarrow> benchmark_metrics" where
  "compute_metrics tool findings fixture tolerance =
     (let cases = vulnerable_cases fixture @ safe_cases fixture;
          (matched_ids, false_positives) = classify tolerance findings cases;
          tp = length matched_ids;
          fn = int (length (vulnerable_cases fixture)) - int tp;
          fp = length false_positives;
          precision = ratio (of_nat tp) (of_nat (tp + fp));
          recall = ratio (of_nat tp) (of_int (int tp + fn))
      in \<lparr>bm_tool = tool, bm_true_positives = tp, bm_false_positives = fp, bm_false_negatives = fn,
          bm_precision = precision, bm_recall = recall, bm_f1 = f1_of precision recall,
          bm_total_findings = length findings\<rparr>)"


section \<open>The external scanner\<close>

datatype json = JNull | JBool bool | JInt int | JFloat bool string | JStr string | JList "json list"
  | JObj "(string \<times> json) list"

text \<open>\<open>JFloat\<close> says whether the number is zero. \<open>repr_json\<close> below is \<open>str\<close> of a value that is not a string.\<close>

fun truthy :: "json \<Rightarrow> bool" where
  "truthy JNull = False"
| "truthy (JBool b) = b"
| "truthy (JInt n) = (n \<noteq> 0)"
| "truthy (JFloat zero _) = (\<not> zero)"
| "truthy (JStr s) = (s \<noteq> [])"
| "truthy (JList xs) = (xs \<noteq> [])"
| "truthy (JObj kvs) = (kvs \<noteq> [])"

definition member :: "(string \<times> json) list \<Rightarrow> string \<Rightarrow> json" where
  "member kvs k = (case map_of kvs k of None \<Rightarrow> JNull | Some v \<Rightarrow> v)"

fun str_json :: "(json \<Rightarrow> string) \<Rightarrow> json \<Rightarrow> string" where
  "str_json repr_json (JStr s) = s"
| "str_json repr_json v = repr_json v"

text \<open>The first match of \<open>def\s+(\w+)\<close>: the name, if there is one.\<close>

fun function_name :: "string \<Rightarrow> string option" where
  "function_name [] = None"
| "function_name (c # cs) =
     (let rest = drop 3 (c # cs); name = takeWhile is_word (dropWhile is_space rest) in
      if startswith ''def'' (c # cs) \<and> (case rest of [] \<Rightarrow> False | b # _ \<Rightarrow> is_space b) \<and> name \<noteq> [] then Some name
      else function_name cs)"

definition canonical_type :: "string \<Rightarrow> string" where
  "canonical_type check_id =
     (let lowered = map lower_char check_id in
      if contains ''sql'' lowered then ''sql_injection''
      else if contains ''command'' lowered \<or> contains ''shell'' lowered \<or> contains ''subprocess'' lowered
      then ''command_injection''
      else if contains ''ssrf'' lowered \<or> contains ''url'' lowered \<or> contains ''request'' lowered then ''ssrf''
      else check_id)"

text \<open>\<open>Path(path).name\<close>.\<close>

definition path_name :: "string \<Rightarrow> string" where
  "path_name p = (let parts = path_parts p in
     if parts = [] \<or> last parts \<in> {''/'', ''//''} then [] else last parts)"

text \<open>Integers, and booleans, which are integers too.\<close>

fun int_of :: "json \<Rightarrow> int option" where
  "int_of (JInt n) = Some n"
| "int_of (JBool b) = Some (if b then 1 else 0)"
| "int_of _ = None"

definition first_line :: "json \<Rightarrow> string" where
  "first_line lines_text =
     (case lines_text of
        JStr s \<Rightarrow> if strip s = [] then [] else hd (splitlines (strip s))
      | _ \<Rightarrow> [])"

text \<open>One entry of the results: skipped, a finding, or the text of an exception.\<close>

definition parse_entry ::
    "(json \<Rightarrow> string) \<Rightarrow> (string \<Rightarrow> string) \<Rightarrow> string \<Rightarrow> json \<Rightarrow> string + benchmark_finding option" where
  "parse_entry repr_json sha tool raw =
     (case raw of
        JObj kvs \<Rightarrow>
          (let check_id = (if truthy (member kvs ''check_id'') then str_json repr_json (member kvs ''check_id'')
                           else ''unknown'');
               path = (if truthy (member kvs ''path'') then str_json repr_json (member kvs ''path'') else [])
           in case (if truthy (member kvs ''start'') then member kvs ''start'' else JObj []) of
                JObj start \<Rightarrow>
                  (case int_of (member start ''line'') of
                     None \<Rightarrow> Inr None
                   | Some line \<Rightarrow>
                       if path = [] then Inr None
                       else
                         (let extra = (case member kvs ''extra'' of JObj e \<Rightarrow> e | _ \<Rightarrow> []);
                              message = (if truthy (member extra ''message'') then str_json repr_json (member extra ''message'')
                                         else check_id);
                              lines_text = (if truthy (member extra ''lines'') then member extra ''lines'' else JStr []);
                              function = (case lines_text of JStr _ \<Rightarrow> function_name (first_line lines_text) | _ \<Rightarrow> None)
                          in Inr (Some \<lparr>bf_tool = tool, bf_vulnerability_type = canonical_type check_id,
                               bf_file = path_name path, bf_line = line, bf_function = function, bf_message = message,
                               bf_fingerprint = sha (join ''|'' [check_id, path, repr_json (member start ''line''),
                                  (case function of None \<Rightarrow> ''None'' | Some g \<Rightarrow> g), message])\<rparr>)))
              | _ \<Rightarrow> Inl ''object has no attribute get'')
      | _ \<Rightarrow> Inr None)"

fun parse_entries ::
    "(json \<Rightarrow> string) \<Rightarrow> (string \<Rightarrow> string) \<Rightarrow> string \<Rightarrow> json list \<Rightarrow> string + benchmark_finding list" where
  "parse_entries repr_json sha tool [] = Inr []"
| "parse_entries repr_json sha tool (raw # rest) =
     (case parse_entry repr_json sha tool raw of
        Inl e \<Rightarrow> Inl e
      | Inr f \<Rightarrow>
          (case parse_entries repr_json sha tool rest of
             Inl e \<Rightarrow> Inl e
           | Inr fs \<Rightarrow> Inr ((case f of None \<Rightarrow> [] | Some x \<Rightarrow> [x]) @ fs)))"

text \<open>What \<open>for raw in results\<close> iterates over: elements, keys, characters; other values raise.\<close>

fun iterate :: "json \<Rightarrow> (json list) option" where
  "iterate (JList xs) = Some xs"
| "iterate (JObj kvs) = Some (map (\<lambda>(k, _). JStr k) kvs)"
| "iterate (JStr s) = Some (map (\<lambda>c. JStr [c]) s)"
| "iterate _ = None"

text \<open>\<open>loads\<close> is \<open>json.loads\<close>; the result is the findings and an error text, or an exception.\<close>

definition parse_semgrep_json ::
    "(string \<Rightarrow> string + json) \<Rightarrow> (json \<Rightarrow> string) \<Rightarrow> (string \<Rightarrow> string) \<Rightarrow> string
     \<Rightarrow> string + benchmark_finding list \<times> string option" where
  "parse_semgrep_json loads repr_json sha input =
     (case loads input of
        Inl exc \<Rightarrow> Inr ([], Some (''malformed semgrep JSON: '' @ exc))
      | Inr (JObj payload) \<Rightarrow>
          (let results = (if truthy (member payload ''results'') then member payload ''results'' else JList []) in
           case iterate results of
             None \<Rightarrow> Inl ''object is not iterable''
           | Some raws \<Rightarrow>
               (case parse_entries repr_json sha ''semgrep'' raws of
                  Inl e \<Rightarrow> Inl e
                | Inr findings \<Rightarrow> Inr (findings, None)))
      | Inr _ \<Rightarrow> Inr ([], Some ''malformed semgrep JSON: expected an object''))"

text \<open>The outcome of the subprocess; outputs are bytes.\<close>

datatype process_outcome = Proc_timeout | Proc_os_error string | Proc_done int string string

record semgrep_env =
  sg_available :: bool
  sg_rules_dir :: string
  sg_rules_present :: bool
  sg_timeout_s :: nat
  sg_max_output_bytes :: nat
  sg_process :: "string list \<Rightarrow> process_outcome"
  sg_duration :: int
  sg_decode :: "string \<Rightarrow> string"
  sg_loads :: "string \<Rightarrow> string + json"
  sg_repr :: "json \<Rightarrow> string"
  sg_sha :: "string \<Rightarrow> string"

definition build_command :: "semgrep_env \<Rightarrow> string \<Rightarrow> string list" where
  "build_command env target = [''semgrep'', ''--json'', ''--config'', sg_rules_dir env, ''--timeout'',
     dec (sg_timeout_s env), target]"

definition semgrep_result :: "bool \<Rightarrow> benchmark_finding list \<Rightarrow> int option \<Rightarrow> string option \<Rightarrow> benchmark_result" where
  "semgrep_result available findings duration err =
     \<lparr>br_tool = ''semgrep'', br_available = available, br_findings = findings, br_duration_ms = duration, br_error = err\<rparr>"

definition dec_int :: "int \<Rightarrow> string" where
  "dec_int n = (if n < 0 then ''-'' @ dec (nat (- n)) else dec (nat n))"

definition semgrep_run :: "semgrep_env \<Rightarrow> string \<Rightarrow> string + benchmark_result" where
  "semgrep_run env target =
     (if \<not> sg_available env then
        Inr (semgrep_result False [] None (Some (''semgrep CLI not installed; benchmark unavailable. '' @
          ''No fake findings are reported in its place. '' @ ''(install semgrep separately to enable this benchmark)'')))
      else if \<not> sg_rules_present env then
        Inr (semgrep_result True [] None (Some (''benchmark rules directory missing: '' @ sg_rules_dir env)))
      else
        (let d = Some (sg_duration env) in
         case sg_process env (build_command env target) of
           Proc_timeout \<Rightarrow>
             Inr (semgrep_result True [] d (Some (''semgrep timed out after '' @ dec (sg_timeout_s env) @ ''s'')))
         | Proc_os_error exc \<Rightarrow> Inr (semgrep_result True [] d (Some (''semgrep failed to start: '' @ exc)))
         | Proc_done code out err \<Rightarrow>
             if sg_max_output_bytes env < length out \<or> sg_max_output_bytes env < length err then
               Inr (semgrep_result True [] d (Some ''semgrep output exceeded size limit; result discarded''))
             else if 2 \<le> code then
               Inr (semgrep_result True [] d (Some (''semgrep exited with code '' @ dec_int code @ '': '' @
                 take 500 (strip (sg_decode env err)))))
             else
               (case parse_semgrep_json (sg_loads env) (sg_repr env) (sg_sha env) (sg_decode env out) of
                  Inl exc \<Rightarrow> Inl exc
                | Inr (findings, Some e) \<Rightarrow> Inr (semgrep_result True [] d (Some e))
                | Inr (findings, None) \<Rightarrow> Inr (semgrep_result True findings d None))))"

section \<open>The service\<close>

definition to_benchmark_finding :: "(string \<Rightarrow> string) \<Rightarrow> candidate_finding \<Rightarrow> benchmark_finding" where
  "to_benchmark_finding sha f =
     (let function = function_name (src_snippet (f_source f)) in
      \<lparr>bf_tool = ''our-sast'', bf_vulnerability_type = f_vulnerability_type f, bf_file = src_file (f_source f),
       bf_line = int (src_line (f_source f)), bf_function = function,
       bf_message = f_vulnerability_type f @ '': '' @ snk_snippet (f_sink f) @ '' (source '' @ src_kind (f_source f) @
         '' at line '' @ dec (src_line (f_source f)) @ '')'',
       bf_fingerprint = sha (join ''|'' [f_vulnerability_type f, src_file (f_source f), dec (src_line (f_source f)),
         (case function of None \<Rightarrow> [] | Some g \<Rightarrow> g), snk_snippet (f_sink f)])\<rparr>)"

definition build_comparison ::
    "int \<Rightarrow> benchmark_finding list \<Rightarrow> benchmark_finding list \<Rightarrow> ground_truth_case list \<Rightarrow> benchmark_comparison" where
  "build_comparison tolerance ours theirs cases =
     (if theirs = [] then
        \<lparr>bc_shared_findings = [], bc_ours_only = ours, bc_semgrep_only = [],
         bc_shared_vulnerability_types = sorted_set (map bf_vulnerability_type ours),
         bc_safe_cases_detected_incorrectly = []\<rparr>
      else
        (case match_cross_tool tolerance ours theirs of
           (shared, ours_only, theirs_only) \<Rightarrow>
             \<lparr>bc_shared_findings = shared, bc_ours_only = ours_only, bc_semgrep_only = theirs_only,
              bc_shared_vulnerability_types = sorted_set (map bf_vulnerability_type shared),
              bc_safe_cases_detected_incorrectly =
                sorted_set (map gt_case_id (filter (\<lambda>c. \<not> gt_expected_vulnerable c \<and>
                   list_ex (\<lambda>f. matches_case tolerance f c) (ours @ theirs)) cases))\<rparr>))"

text \<open>\<open>re.fullmatch(r"[A-Za-z0-9_]+", name)\<close>.\<close>

definition valid_fixture_name :: "string \<Rightarrow> bool" where
  "valid_fixture_name s \<longleftrightarrow> s \<noteq> [] \<and> list_all (\<lambda>c. let n = of_char c :: nat in
     (48 \<le> n \<and> n \<le> 57) \<or> (65 \<le> n \<and> n \<le> 90) \<or> n = 95 \<or> (97 \<le> n \<and> n \<le> 122)) s"

text \<open>\<open>be_fixture\<close> is the directory of a fixture with its parsed files, if it is a directory.\<close>

record bench_env =
  be_fixture :: "string \<Rightarrow> (string \<times> code_model) option"
  be_semgrep :: semgrep_env
  be_sha :: "string \<Rightarrow> string"
  be_report_id :: string
  be_scan_id :: string
  be_now :: py_datetime
  be_duration :: int

datatype bench_error = Invalid_fixture_name string | Unknown_fixture string | Bench_exception string

definition resolve_fixture :: "bench_env \<Rightarrow> string \<Rightarrow> bench_error + string \<times> code_model" where
  "resolve_fixture env fixture =
     (if \<not> valid_fixture_name fixture
      then Inl (Invalid_fixture_name ''fixture name may only contain letters, digits and underscores'')
      else (case be_fixture env fixture of
              None \<Rightarrow> Inl (Unknown_fixture (''unknown fixture: '' @ fixture))
            | Some dir \<Rightarrow> Inr dir))"

type_synonym 'p report_store = "(benchmark_report, 'p) kstore"

definition run_benchmark ::
    "bench_env \<Rightarrow> (benchmark_report, 'p) codec \<Rightarrow> int \<Rightarrow> string \<Rightarrow> 'p report_store
     \<Rightarrow> (bench_error + benchmark_report) \<times> 'p report_store" where
  "run_benchmark env c tolerance fixture s =
     (case resolve_fixture env fixture of
        Inl e \<Rightarrow> (Inl e, s)
      | Inr (dir, cm) \<Rightarrow>
          (let cases = get_ground_truth fixture;
               ours = map (to_benchmark_finding (be_sha env))
                        (rep_findings (scan (be_sha env) None (be_scan_id env) (be_now env) cm None));
               our_result = \<lparr>br_tool = ''our-sast'', br_available = True, br_findings = ours,
                             br_duration_ms = Some (be_duration env), br_error = None\<rparr>
           in case semgrep_run (be_semgrep env) dir of
                Inl exc \<Rightarrow> (Inl (Bench_exception exc), s)
              | Inr theirs \<Rightarrow>
                  (let report = \<lparr>bp_benchmark_id = take 32 (be_report_id env), bp_fixture = fixture,
                         bp_ground_truth_count = length cases, bp_our_result = our_result, bp_semgrep_result = theirs,
                         bp_metrics = compute_metrics ''our-sast'' ours fixture tolerance #
                           (if br_available theirs
                            then [compute_metrics ''semgrep'' (br_findings theirs) fixture tolerance] else []),
                         bp_comparison = build_comparison tolerance ours (br_findings theirs) cases,
                         bp_created_at = be_now env\<rparr>
                   in (Inr report, kstore_put c (bp_benchmark_id report) report s))))"

definition get_report :: "string \<Rightarrow> 'p report_store \<Rightarrow> benchmark_report option" where
  "get_report i s = kstore_get s i"

definition list_reports :: "'p report_store \<Rightarrow> benchmark_report list" where
  "list_reports s = sort_key (\<lambda>r. - utc_instant (as_aware_utc (bp_created_at r))) (kstore_all s)"

definition clear_reports :: "'p report_store \<Rightarrow> 'p report_store" where
  "clear_reports s = kstore_clear s"

text \<open>The method of the service forgets the cache only.\<close>

definition service_clear :: "'p report_store \<Rightarrow> 'p report_store" where
  "service_clear s = s\<lparr>cache := []\<rparr>"

section \<open>The endpoints\<close>

record benchmark_summary =
  bs_benchmark_id :: string
  bs_fixture :: string
  bs_created_at :: py_datetime
  bs_semgrep_available :: bool
  bs_semgrep_error :: "string option"
  bs_our_f1 :: "rat option"
  bs_semgrep_f1 :: "rat option"
  bs_ground_truth_cases :: nat
  bs_vulnerable_cases :: "nat option"
  bs_safe_cases :: "nat option"

definition metric_f1 :: "benchmark_report \<Rightarrow> string \<Rightarrow> rat option" where
  "metric_f1 r tool = (case find (\<lambda>m. bm_tool m = tool) (bp_metrics r) of None \<Rightarrow> None | Some m \<Rightarrow> bm_f1 m)"

definition to_summary :: "benchmark_report \<Rightarrow> benchmark_summary" where
  "to_summary r =
     (let cases = get_ground_truth (bp_fixture r); vulnerable = length (filter gt_expected_vulnerable cases) in
      \<lparr>bs_benchmark_id = bp_benchmark_id r, bs_fixture = bp_fixture r, bs_created_at = bp_created_at r,
       bs_semgrep_available = br_available (bp_semgrep_result r), bs_semgrep_error = br_error (bp_semgrep_result r),
       bs_our_f1 = metric_f1 r ''our-sast'', bs_semgrep_f1 = metric_f1 r ''semgrep'',
       bs_ground_truth_cases = bp_ground_truth_count r,
       bs_vulnerable_cases = (if cases = [] then None else Some vulnerable),
       bs_safe_cases = (if cases = [] then None else Some (length cases - vulnerable))\<rparr>)"

definition run_benchmark_route ::
    "auth_env \<Rightarrow> auth_db \<Rightarrow> string option \<Rightarrow> bench_env \<Rightarrow> (benchmark_report, 'p) codec \<Rightarrow> string \<Rightarrow> 'p report_store
     \<Rightarrow> (http_error + benchmark_report) \<times> 'p report_store" where
  "run_benchmark_route auth db cookie env c fixture s =
     (case require_permission May_run_benchmark auth db cookie of
        Inl e \<Rightarrow> (Inl e, s)
      | Inr _ \<Rightarrow>
          if strip fixture = [] then (Inl (422, ''fixture must not be blank''), s)
          else
            (case run_benchmark env c DEFAULT_TOLERANCE (strip fixture) s of
               (Inl (Invalid_fixture_name m), t) \<Rightarrow> (Inl (422, m), t)
             | (Inl (Unknown_fixture m), t) \<Rightarrow> (Inl (404, m), t)
             | (Inl (Bench_exception m), t) \<Rightarrow> (Inl (500, ''Internal Server Error''), t)
             | (Inr r, t) \<Rightarrow> (Inr r, t)))"

definition list_benchmarks ::
    "auth_env \<Rightarrow> auth_db \<Rightarrow> string option \<Rightarrow> 'p report_store \<Rightarrow> http_error + bool \<times> benchmark_summary list" where
  "list_benchmarks auth db cookie s =
     (case require_permission View_benchmark auth db cookie of
        Inl e \<Rightarrow> Inl e
      | Inr _ \<Rightarrow> Inr (list_reports s \<noteq> [], map to_summary (list_reports s)))"

definition get_benchmark ::
    "auth_env \<Rightarrow> auth_db \<Rightarrow> string option \<Rightarrow> string \<Rightarrow> 'p report_store \<Rightarrow> http_error + benchmark_report" where
  "get_benchmark auth db cookie i s =
     (case require_permission View_benchmark auth db cookie of
        Inl e \<Rightarrow> Inl e
      | Inr _ \<Rightarrow>
          (case get_report i s of
             None \<Rightarrow> Inl (404, ''benchmark not found: '' @ i)
           | Some r \<Rightarrow> Inr r))"

end
