(* ===== verification/Benchmark_Properties.thy ===== *)
theory Benchmark_Properties
  imports Benchmark "HOL-Library.Sublist"
begin

text \<open>
  The benchmark proved: the greedy matchings, the counts and quotients of the metrics, the reading of the external
  scanner's report and the report store. The floating point arithmetic enters through the laws of a rounding.
\<close>

section \<open>Rounding\<close>

lemma half_even_int [simp]: "half_even (of_int n) = n"
  by (simp add: half_even_def)

lemma half_even_bounds: "of_int \<lfloor>q\<rfloor> \<le> (of_int (half_even q) :: rat)" "half_even q \<le> \<lfloor>q\<rfloor> + 1"
  by (simp_all add: half_even_def Let_def)

lemma half_even_mono:
  assumes "x \<le> y"
  shows "half_even x \<le> half_even y"
proof (cases "\<lfloor>x\<rfloor> = \<lfloor>y\<rfloor>")
  case True
  then show ?thesis using assms by (simp add: half_even_def Let_def)
next
  case False
  then have "\<lfloor>x\<rfloor> + 1 \<le> \<lfloor>y\<rfloor>" using floor_mono[OF assms] by simp
  then show ?thesis using half_even_bounds(2)[of x] half_even_bounds(1)[of y] by simp
qed

lemma half_even_le: "q \<le> of_int n \<Longrightarrow> half_even q \<le> n"
  using half_even_mono[of q "of_int n"] by simp

lemma half_even_ge: "of_int n \<le> q \<Longrightarrow> n \<le> half_even q"
  using half_even_mono[of "of_int n" q] by simp

lemma le_rat: "a \<le> b \<Longrightarrow> (of_int a :: rat) \<le> of_int b"
  by simp

text \<open>The exponent of a number, and what the search for it means.\<close>

definition exponent :: "rat \<Rightarrow> nat option" where
  "exponent q = find (\<lambda>e. 2 ^ 52 \<le> q * 2 ^ e) [0..<1075]"

lemma exponent_Some:
  assumes "exponent q = Some e"
  shows "2 ^ 52 \<le> q * 2 ^ e" "e < 1075" "e = 0 \<or> q * 2 ^ e < 2 ^ 53" "\<And>d. d < e \<Longrightarrow> q * 2 ^ d < 2 ^ 52"
proof -
  obtain i where i: "i < 1075" "2 ^ 52 \<le> q * 2 ^ i" "e = i" and least: "\<forall>j < i. \<not> 2 ^ 52 \<le> q * 2 ^ j"
    using assms by (auto simp: exponent_def find_Some_iff)
  show "2 ^ 52 \<le> q * 2 ^ e" "e < 1075" "\<And>d. d < e \<Longrightarrow> q * 2 ^ d < 2 ^ 52" using i least by auto
  show "e = 0 \<or> q * 2 ^ e < 2 ^ 53"
  proof (cases e)
    case (Suc d)
    then have "q * 2 ^ d < 2 ^ 52" using i least by auto
    then show ?thesis by (simp add: Suc)
  qed simp
qed

lemma exponent_None: "exponent q = None \<Longrightarrow> e < 1075 \<Longrightarrow> q * 2 ^ e < 2 ^ 52"
  by (fastforce simp: exponent_def find_None_iff)

lemma double_exponent:
  "double q = (case exponent q of None \<Rightarrow> 0 | Some e \<Rightarrow> of_int (half_even (q * 2 ^ e)) / 2 ^ e)"
  by (simp add: double_def exponent_def)

lemma exponent_positive: "exponent q = Some e \<Longrightarrow> 0 < q"
proof -
  assume "exponent q = Some e"
  then have "0 < q * 2 ^ e" using exponent_Some(1) by (force intro: less_le_trans[rotated])
  then show "0 < q" by (simp add: zero_less_mult_iff)
qed

lemma exponent_antimono:
  assumes "x \<le> y" and "exponent x = Some e"
  shows "\<exists>d \<le> e. exponent y = Some d"
proof -
  have at_e: "2 ^ 52 \<le> y * 2 ^ e"
    using exponent_Some(1)[OF assms(2)] mult_right_mono[OF assms(1), of "2 ^ e"] by (simp add: order_trans)
  then obtain d where d: "exponent y = Some d"
    using exponent_None[of y e] exponent_Some(2)[OF assms(2)] by fastforce
  moreover have "d \<le> e" using exponent_Some(4)[OF d] at_e by (metis not_le)
  ultimately show ?thesis by blast
qed

lemma double_nonneg: "0 \<le> double q"
proof (cases "exponent q")
  case (Some e)
  then have "0 < q" by (rule exponent_positive)
  then have "0 \<le> half_even (q * 2 ^ e)" by (intro half_even_ge) simp
  then show ?thesis by (simp add: double_exponent Some)
qed (simp add: double_exponent)

lemma double_mono:
  assumes "x \<le> y"
  shows "double x \<le> double y"
proof (cases "exponent x")
  case None
  then show ?thesis by (simp add: double_exponent[of x] double_nonneg)
next
  case (Some e)
  obtain d where d: "d \<le> e" "exponent y = Some d" using exponent_antimono[OF assms Some] by blast
  show ?thesis
  proof (cases "d = e")
    case True
    then show ?thesis using d Some assms
      by (simp add: double_exponent divide_right_mono half_even_mono mult_right_mono)
  next
    case False
    then obtain k where e: "e = Suc (d + k)" using d(1) by (metis less_iff_Suc_add nat_less_le)
    have "x * 2 ^ e \<le> of_int (2 ^ 53)" using exponent_Some(3)[OF Some] False d(1) by auto
    then have "half_even (x * 2 ^ e) \<le> 2 ^ 53" by (rule half_even_le)
    then have "double x \<le> of_int (2 ^ 53) / 2 ^ e"
      unfolding double_exponent Some option.case by (intro divide_right_mono le_rat) simp_all
    also have "\<dots> \<le> of_int (2 ^ 52) / (2 ^ d :: rat)" by (simp add: e power_add field_simps)
    also have "\<dots> \<le> double y"
    proof -
      have "(2 ^ 52 :: int) \<le> half_even (y * 2 ^ d)" using exponent_Some(1)[OF d(2)] by (intro half_even_ge) simp
      then show ?thesis unfolding double_exponent d(2) option.case by (intro divide_right_mono le_rat) simp_all
    qed
    finally show ?thesis .
  qed
qed

text \<open>A 53-bit number over a power of two is a double.\<close>

lemma double_exact:
  assumes "m = 0 \<or> 2 ^ 52 \<le> m" and "m \<le> 2 ^ 53" and "k < 1075"
  shows "double (of_int m / 2 ^ k) = of_int m / 2 ^ k"
proof (cases "exponent (of_int m / 2 ^ k)")
  case None
  then have "of_int m / 2 ^ k * 2 ^ k < (2 ^ 52 :: rat)" using assms(3) by (rule exponent_None)
  then have "of_int m < (of_int (2 ^ 52) :: rat)" by simp
  then have "m < 2 ^ 52" by (simp only: of_int_less_iff)
  then have "m = 0" using assms(1) by auto
  then show ?thesis using None by (simp add: double_exponent)
next
  case (Some e)
  show ?thesis
  proof (cases "k \<le> e")
    case True
    then obtain i where e: "e = k + i" using le_Suc_ex by blast
    have "of_int m / 2 ^ k * 2 ^ e = (of_int (m * 2 ^ i) :: rat)" by (simp add: e power_add)
    then have "double (of_int m / 2 ^ k) = of_int (m * 2 ^ i) / 2 ^ e" by (simp only: double_exponent Some option.case half_even_int)
    then show ?thesis by (simp add: e power_add)
  next
    case False
    then obtain i where k: "k = Suc (e + i)" by (metis less_iff_Suc_add not_le)
    then have "of_int m / 2 ^ k * 2 ^ e = of_int m / (2 * 2 ^ i :: rat)" by (simp add: power_add)
    with exponent_Some(1)[OF Some] have "2 ^ 52 \<le> of_int m / (2 * 2 ^ i :: rat)" by simp
    then have large: "2 ^ 53 * 2 ^ i \<le> (of_int m :: rat)" by (simp add: pos_le_divide_eq)
    have small: "(of_int m :: rat) \<le> 2 ^ 53" using le_rat[OF assms(2)] by simp
    have "2 ^ i \<le> (2 ^ 0 :: rat)" using large small by simp
    then have "\<not> (1 :: rat) < 2 ^ i" by (simp only: not_less power_0)
    then have "i = 0" using one_less_power[of "2 :: rat" i] by (metis one_less_numeral_iff semiring_norm(76) gr0I)
    then have "(of_int m :: rat) = 2 ^ 53" using large small by simp
    then have "of_int m / 2 ^ k * 2 ^ e = (of_int (2 ^ 52) :: rat)" by (simp add: k \<open>i = 0\<close> power_add)
    then have "double (of_int m / 2 ^ k) = of_int (2 ^ 52) / 2 ^ e"
      by (simp only: double_exponent Some option.case half_even_int)
    then show ?thesis by (simp add: k \<open>i = 0\<close> \<open>(of_int m :: rat) = 2 ^ 53\<close>)
  qed
qed

lemma exponent_0: "2 ^ 52 \<le> q \<Longrightarrow> exponent q = Some 0"
  unfolding exponent_def find_Some_iff by (intro exI[of _ 0]) simp

lemma double_double: "double (double q) = double q" "q \<le> 1 \<Longrightarrow> double (2 * double q) = 2 * double q"
proof -
  have m: "exponent q = Some e \<Longrightarrow> 2 ^ 52 \<le> half_even (q * 2 ^ e)" for e
    using exponent_Some(1) by (intro half_even_ge) simp
  have le: "exponent q = Some e \<Longrightarrow> e \<noteq> 0 \<Longrightarrow> half_even (q * 2 ^ e) \<le> 2 ^ 53" for e
    using exponent_Some(3) by (intro half_even_le) force
  show "double (double q) = double q"
  proof (cases "exponent q")
    case (Some e)
    show ?thesis
    proof (cases e)
      case 0
      have "2 ^ 52 \<le> half_even q" using m Some 0 by simp
      from le_rat[OF this] have "exponent (of_int (half_even q)) = Some 0" by (intro exponent_0) simp
      then show ?thesis using Some 0 by (simp add: double_exponent)
    next
      case (Suc d)
      then show ?thesis
        using double_exact[of "half_even (q * 2 ^ e)" e] m[OF Some] le[OF Some] exponent_Some(2)[OF Some]
        by (simp add: double_exponent[of q] Some)
    qed
  next
    case None
    then show ?thesis using double_exact[of 0 0] by (simp add: double_exponent[of q])
  qed
  assume "q \<le> 1"
  show "double (2 * double q) = 2 * double q"
  proof (cases "exponent q")
    case (Some e)
    then have "e \<noteq> 0" using exponent_Some(1)[OF Some] \<open>q \<le> 1\<close> by (cases e) auto
    then obtain d where e: "e = Suc d" by (cases e) auto
    have "2 * double q = of_int (half_even (q * 2 ^ e)) / 2 ^ d" by (simp add: double_exponent Some e)
    then show ?thesis using double_exact[of "half_even (q * 2 ^ e)" d] m[OF Some] le[OF Some] exponent_Some(2)[OF Some]
      by (simp add: e)
  next
    case None
    then show ?thesis using double_exact[of 0 0] by (simp add: double_exponent[of q])
  qed
qed

lemma double_of_bool: "double 0 = 0" "double 1 = 1" "double 2 = 2"
  using double_exact[of 0 0] double_exact[of "2 ^ 52" 52] double_exact[of "2 ^ 53" 52] by simp_all

section \<open>The quotients of the metrics\<close>

text \<open>What the metrics need of the machine's rounding of real numbers.\<close>

locale rounding =
  fixes rnd :: "rat \<Rightarrow> rat"
  assumes mono: "x \<le> y \<Longrightarrow> rnd x \<le> rnd y"
    and zero: "rnd 0 = 0" and one: "rnd 1 = 1" and two: "rnd 2 = 2"
    and idem: "rnd (rnd x) = rnd x"
    and twice: "x \<le> 1 \<Longrightarrow> rnd (2 * rnd x) = 2 * rnd x"
begin

lemma nonneg: "0 \<le> x \<Longrightarrow> 0 \<le> rnd x"
  using mono[of 0 x] zero by simp

lemma le_one: "x \<le> 1 \<Longrightarrow> rnd x \<le> 1"
  using mono[of x 1] one by simp

lemma unit: "0 \<le> x \<Longrightarrow> x \<le> 1 \<Longrightarrow> 0 \<le> rnd x \<and> rnd x \<le> 1"
  by (simp add: nonneg le_one)

text \<open>The rounded harmonic mean of two rounded numbers of the unit interval stays below their rounded sum.\<close>

lemma harmonic:
  assumes "0 \<le> p" "p \<le> 1" "0 \<le> r" "r \<le> 1" and "rnd p = p"
  shows "0 \<le> rnd (rnd (2 * p) * r)" "rnd (rnd (2 * p) * r) \<le> rnd (p + r)"
proof -
  have double: "rnd (2 * p) = 2 * p" using twice[OF assms(2)] by (simp add: assms(5))
  show "0 \<le> rnd (rnd (2 * p) * r)" using assms by (intro nonneg) (simp add: double)
  have "p * r \<le> p" "p * r \<le> r" using assms by (simp_all add: mult_left_le mult_left_le_one_le)
  then have "2 * p * r \<le> p + r" by simp
  then show "rnd (rnd (2 * p) * r) \<le> rnd (p + r)" unfolding double by (rule mono)
qed

end

interpretation dbl: rounding double
  by unfold_locales (simp_all add: double_mono double_of_bool double_double)

lemma round4_unit: "0 \<le> x \<Longrightarrow> x \<le> 1 \<Longrightarrow> 0 \<le> round4 x \<and> round4 x \<le> 1"
proof -
  assume x: "0 \<le> x" "x \<le> 1"
  then have "0 \<le> half_even (x * 10000)" "half_even (x * 10000) \<le> 10000"
    by (auto intro!: half_even_ge half_even_le)
  from this[THEN le_rat] show ?thesis unfolding round4_def by (intro dbl.unit) simp_all
qed

lemma round4_double: "double (round4 x) = round4 x"
  by (simp add: round4_def dbl.idem)

lemma ratio_unit:
  assumes "ratio n d = Some q" and "0 \<le> n" and "n \<le> d"
  shows "0 \<le> q \<and> q \<le> 1 \<and> double q = q"
proof -
  have "d \<noteq> 0" "q = round4 (double (n / d))" using assms(1) by (auto simp: ratio_def split: if_splits)
  moreover have "0 \<le> n / d" "n / d \<le> 1" using assms(2,3) \<open>d \<noteq> 0\<close> by (auto simp: divide_le_eq_1)
  ultimately show ?thesis using round4_unit[of "double (n / d)"] dbl.unit by (simp add: round4_double)
qed

lemma f1_unit:
  assumes "f1_of (Some p) (Some r) = Some q" and "0 \<le> p" "p \<le> 1" "double p = p" "0 \<le> r" "r \<le> 1"
  shows "0 \<le> q \<and> q \<le> 1"
proof -
  have "ratio (double (double (2 * p) * r)) (double (p + r)) = Some q"
    using assms(1) by (auto simp: f1_of_def split: if_splits)
  then show ?thesis using ratio_unit dbl.harmonic[OF assms(2,3,5,6,4)] by blast
qed

section \<open>Findings against ground truth\<close>

lemma classify_fold:
  fixes tol v sf
  defines "st \<equiv> classify_step tol v sf"
  assumes "distinct (cl_matched s)" and "set (cl_matched s) = cl_consumed_vulnerable s"
    and "set (cl_matched s) \<subseteq> gt_case_id ` {c \<in> set v. \<exists>f \<in> F. matches_case tol f c}"
    and "\<And>f c. f \<in> set (cl_false_positives s) \<Longrightarrow> c \<in> set v \<Longrightarrow> matches_case tol f c \<Longrightarrow> gt_case_id c \<in> set (cl_matched s)"
    and "set fs \<subseteq> F"
  shows "distinct (cl_matched (fold st fs s)) \<and>
    set (cl_matched (fold st fs s)) \<subseteq> gt_case_id ` {c \<in> set v. \<exists>f \<in> F. matches_case tol f c} \<and>
    (\<forall>f \<in> set (cl_false_positives (fold st fs s)). \<forall>c \<in> set v. matches_case tol f c \<longrightarrow>
       gt_case_id c \<in> set (cl_matched (fold st fs s))) \<and>
    length (cl_matched (fold st fs s)) + length (cl_false_positives (fold st fs s)) =
      length (cl_matched s) + length (cl_false_positives s) + length fs \<and>
    (\<exists>more. cl_false_positives (fold st fs s) = cl_false_positives s @ more \<and> subseq more fs)"
  using assms(2-)
proof (induction fs arbitrary: s)
  case Nil
  have "\<exists>more. cl_false_positives s = cl_false_positives s @ more \<and> subseq more []" by (intro exI[of _ "[]"]) simp
  then show ?case using Nil by simp
next
  case (Cons f fs)
  define u where "u = st f s"
  note step = u_def st_def classify_step_def Let_def
  show ?case
  proof (cases "find (\<lambda>c. gt_case_id c \<notin> cl_consumed_vulnerable s \<and> matches_case tol f c) v")
    case None
    then have none: "\<And>c. c \<in> set v \<Longrightarrow> matches_case tol f c \<Longrightarrow> gt_case_id c \<in> set (cl_matched s)"
      using Cons.prems(2) by (auto simp: find_None_iff)
    have u: "cl_matched u = cl_matched s" "cl_consumed_vulnerable u = cl_consumed_vulnerable s"
        "cl_false_positives u = cl_false_positives s @ [f]"
      by (simp_all add: step None)
    have IH: "distinct (cl_matched (fold st fs u)) \<and>
      set (cl_matched (fold st fs u)) \<subseteq> gt_case_id ` {c \<in> set v. \<exists>f \<in> F. matches_case tol f c} \<and>
      (\<forall>f \<in> set (cl_false_positives (fold st fs u)). \<forall>c \<in> set v. matches_case tol f c \<longrightarrow>
         gt_case_id c \<in> set (cl_matched (fold st fs u))) \<and>
      length (cl_matched (fold st fs u)) + length (cl_false_positives (fold st fs u)) =
        length (cl_matched u) + length (cl_false_positives u) + length fs \<and>
      (\<exists>more. cl_false_positives (fold st fs u) = cl_false_positives u @ more \<and> subseq more fs)"
      using Cons.prems none by (intro Cons.IH) (auto simp: u)
    then obtain more where "cl_false_positives (fold st fs u) = cl_false_positives u @ more" "subseq more fs" by blast
    then have "cl_false_positives (fold st fs u) = cl_false_positives s @ (f # more)" "subseq (f # more) (f # fs)"
      by (simp_all add: u)
    then have "\<exists>more. cl_false_positives (fold st fs u) = cl_false_positives s @ more \<and> subseq more (f # fs)" by blast
    with IH show ?thesis by (simp add: u flip: u_def)
  next
    case (Some c)
    then have c: "c \<in> set v" "matches_case tol f c" "gt_case_id c \<notin> set (cl_matched s)"
      using Cons.prems(2) by (auto simp: find_Some_iff)
    have u: "cl_matched u = cl_matched s @ [gt_case_id c]"
        "cl_consumed_vulnerable u = insert (gt_case_id c) (cl_consumed_vulnerable s)"
        "cl_false_positives u = cl_false_positives s"
      by (simp_all add: step Some)
    have "gt_case_id c \<in> gt_case_id ` {c \<in> set v. \<exists>f \<in> F. matches_case tol f c}" using c Cons.prems(5) by auto
    then show ?thesis using Cons.IH[of u, unfolded u] Cons.prems c by (auto simp flip: u_def)
  qed
qed

text \<open>
  Classifying the findings of a tool splits them: every finding is a true positive or a false positive, no case is
  counted twice, a matched case is a vulnerable one some finding matches, false positives keep their order, and every
  vulnerable case that a false positive matches is already matched.
\<close>

theorem classify_splits_findings:
  "case classify tol findings cases of (matched, false_positives) \<Rightarrow>
     length matched + length false_positives = length findings \<and> distinct matched \<and>
     subseq false_positives findings \<and>
     (\<forall>i \<in> set matched. \<exists>c \<in> set cases. gt_expected_vulnerable c \<and> gt_case_id c = i \<and>
        (\<exists>f \<in> set findings. matches_case tol f c)) \<and>
     (\<forall>f \<in> set false_positives. \<forall>c \<in> set cases. gt_expected_vulnerable c \<and> matches_case tol f c \<longrightarrow>
        gt_case_id c \<in> set matched)"
proof -
  let ?s = "\<lparr>cl_matched = [], cl_false_positives = [], cl_consumed_vulnerable = {}, cl_consumed_safe = {}\<rparr>"
  show ?thesis
    using classify_fold[of ?s "filter gt_expected_vulnerable cases" "set findings" tol findings
        "filter (\<lambda>c. \<not> gt_expected_vulnerable c) cases"]
    unfolding classify_def Let_def by fastforce
qed

lemma classify_lengths:
  assumes "classify tol findings cases = (matched, false_positives)"
  shows "length matched + length false_positives = length findings"
    and "length matched \<le> length (filter gt_expected_vulnerable cases)"
proof -
  let ?s = "\<lparr>cl_matched = [], cl_false_positives = [], cl_consumed_vulnerable = {}, cl_consumed_safe = {}\<rparr>"
  let ?v = "filter gt_expected_vulnerable cases"
  have inv: "distinct matched" "set matched \<subseteq> gt_case_id ` set ?v"
      "length matched + length false_positives = length findings"
    using classify_fold[of ?s ?v "set findings" tol findings "filter (\<lambda>c. \<not> gt_expected_vulnerable c) cases"] assms
    unfolding classify_def Let_def by auto
  show "length matched + length false_positives = length findings" by (rule inv)
  have "length matched = card (set matched)" using inv(1) by (simp add: distinct_card)
  also have "\<dots> \<le> card (gt_case_id ` set ?v)" using inv(2) by (intro card_mono) auto
  also have "\<dots> \<le> length ?v" by (meson card_image_le card_length finite_set le_trans)
  finally show "length matched \<le> length ?v" .
qed

section \<open>The metrics\<close>

lemma vulnerable_case_count:
  "length (vulnerable_cases fixture) = (if fixture = ''vulnerable_python_app'' then 5 else 0)"
  by (simp add: vulnerable_cases_def get_ground_truth_def FIXTURE_GROUND_TRUTH_def)

lemma case_filters [simp]:
  "filter gt_expected_vulnerable (vulnerable_cases x @ safe_cases x) = vulnerable_cases x"
  by (simp add: vulnerable_cases_def safe_cases_def)

lemma eighth: "1 / 8 \<le> x \<Longrightarrow> 1 / 8 \<le> double x" "1 / 8 \<le> x \<Longrightarrow> 1 / 8 \<le> round4 (double x)"
proof -
  have eighth: "double (1 / 8) = 1 / 8" using double_exact[of "2 ^ 52" 55] by simp
  show le: "1 / 8 \<le> x \<Longrightarrow> 1 / 8 \<le> double x" for x using dbl.mono[of "1 / 8" x] eighth by simp
  assume "1 / 8 \<le> x"
  then have "1250 \<le> double x * 10000" using le[of x] by simp
  then have "1250 \<le> half_even (double x * 10000)" by (intro half_even_ge) simp
  from le_rat[OF this] have "1 / 8 \<le> (of_int (half_even (double x * 10000)) / 10000 :: rat)" by simp
  then show "1 / 8 \<le> round4 (double x)" unfolding round4_def by (rule le)
qed

text \<open>C32. The metrics of a tool are consistent: true and false positives add up to its findings, true positives and false
  negatives to the vulnerable cases of the fixture, precision, recall and F1 lie between 0 and 1, and each is undefined
  exactly when its denominator is zero.
\<close>

theorem metrics_consistent:
  "let m = compute_metrics tool findings fixture tol; tp = bm_true_positives m in
     tp + bm_false_positives m = length findings \<and> bm_total_findings m = length findings \<and>
     int tp + bm_false_negatives m = int (length (vulnerable_cases fixture)) \<and> 0 \<le> bm_false_negatives m \<and>
     set_option (bm_precision m) \<union> set_option (bm_recall m) \<union> set_option (bm_f1 m) \<subseteq> {0..1} \<and>
     (bm_precision m = None \<longleftrightarrow> findings = []) \<and> (bm_recall m = None \<longleftrightarrow> vulnerable_cases fixture = []) \<and>
     (bm_f1 m = None \<longleftrightarrow> tp = 0)"
proof -
  let ?cases = "vulnerable_cases fixture @ safe_cases fixture"
  obtain matched fps where cl: "classify tol findings ?cases = (matched, fps)" by fastforce
  define tp v n where "tp = length matched" and "v = length (vulnerable_cases fixture)" and "n = length findings"
  have lens: "tp + length fps = n" "tp \<le> v"
    using classify_lengths[OF cl] unfolding case_filters by (simp_all add: tp_def v_def n_def)
  define m p r where "m = compute_metrics tool findings fixture tol"
    and "p = ratio (of_nat tp) (of_nat (tp + length fps))"
    and "r = ratio (of_nat tp) (of_int (int tp + (int v - int tp)))"
  have m: "bm_true_positives m = tp" "bm_false_positives m = length fps" "bm_false_negatives m = int v - int tp"
      "bm_total_findings m = n" "bm_precision m = p" "bm_recall m = r" "bm_f1 m = f1_of p r"
    by (simp_all only: m_def compute_metrics_def Let_def cl prod.case benchmark_metrics.simps p_def r_def tp_def v_def n_def)
  have none: "p = None \<longleftrightarrow> n = 0" "r = None \<longleftrightarrow> v = 0" using lens by (auto simp: p_def r_def ratio_def)
  have unit: "0 \<le> a \<and> a \<le> 1 \<and> double a = a" if "p = Some a \<or> r = Some a" for a
    using that lens ratio_unit[of "of_nat tp" "of_nat (tp + length fps)" a] ratio_unit[of "of_nat tp" "of_nat v" a]
    by (auto simp: p_def r_def)
  have f1: "0 \<le> q \<and> q \<le> 1" if f: "f1_of p r = Some q" for q
  proof -
    obtain a b where "p = Some a" "r = Some b" using f by (auto simp: f1_of_def split: option.splits)
    then show ?thesis using f1_unit[of a b q] f unit by auto
  qed
  have "f1_of p r = None \<longleftrightarrow> tp = 0"
  proof (cases "tp = 0")
    case True
    have "half_even 0 = 0" using half_even_int[of 0] by simp
    with True show ?thesis by (auto simp: f1_of_def p_def r_def ratio_def round4_def double_of_bool)
  next
    case False
    then have "n \<noteq> 0" "v \<noteq> 0" using lens by simp_all
    then have "v = 5" by (simp add: v_def vulnerable_case_count split: if_splits)
    obtain a b where ab: "p = Some a" "r = Some b" using none \<open>n \<noteq> 0\<close> \<open>v \<noteq> 0\<close> by auto
    have "b = round4 (double (of_nat tp / 5))" using ab by (simp add: r_def ratio_def \<open>v = 5\<close> split: if_splits)
    moreover have "(1 :: rat) \<le> of_nat tp" using False by simp
    ultimately have "1 / 8 \<le> b" using eighth(2)[of "of_nat tp / 5"] by simp
    then have "1 / 8 \<le> double (a + b)" using unit[of a] ab by (intro eighth) simp
    then show ?thesis using False ab by (simp add: f1_of_def ratio_def)
  qed
  then show ?thesis using lens none f1 unit unfolding Let_def m_def[symmetric] m by (auto simp: n_def v_def)
qed

section \<open>Findings against findings\<close>

lemma cross_step_eq:
  "cross_step tol f (sh, ou, re) =
     (case find (same_finding tol f) re of
        None \<Rightarrow> (sh, ou @ [f], re) | Some p \<Rightarrow> (sh @ [f], ou, remove1 p re))"
  by (simp add: cross_step_def)

lemma remaining_shrinks:
  "fold (cross_step tol) fs (sh, ou, re) = (sh', ou', re') \<Longrightarrow> set re' \<subseteq> set re"
proof (induction fs arbitrary: sh ou re)
  case (Cons f fs)
  then show ?case
    by (cases "find (same_finding tol f) re") (auto simp: cross_step_eq dest!: Cons.IH set_mp[OF set_remove1_subset])
qed simp

lemma cross_fold:
  assumes "fold (cross_step tol) fs (sh, ou, re) = (sh', ou', re')"
  shows "\<exists>shared ours_only partners. sh' = sh @ shared \<and> ou' = ou @ ours_only \<and>
    mset fs = mset shared + mset ours_only \<and> subseq shared fs \<and> subseq ours_only fs \<and>
    list_all2 (same_finding tol) shared partners \<and> mset re = mset partners + mset re' \<and>
    (\<forall>a \<in> set ours_only. \<forall>b \<in> set re'. \<not> same_finding tol a b)"
  using assms
proof (induction fs arbitrary: sh ou re)
  case Nil
  then show ?case by (intro exI[of _ "[]"]) simp
next
  case (Cons f fs)
  show ?case
  proof (cases "find (same_finding tol f) re")
    case None
    then have rest: "fold (cross_step tol) fs (sh, ou @ [f], re) = (sh', ou', re')"
      using Cons.prems by (simp add: cross_step_eq)
    obtain shared ours_only partners where ih: "sh' = sh @ shared" "ou' = (ou @ [f]) @ ours_only"
        "mset fs = mset shared + mset ours_only" "subseq shared fs" "subseq ours_only fs"
        "list_all2 (same_finding tol) shared partners" "mset re = mset partners + mset re'"
        "\<forall>a \<in> set ours_only. \<forall>b \<in> set re'. \<not> same_finding tol a b"
      using Cons.IH[OF rest] by blast
    have none: "\<forall>b \<in> set re'. \<not> same_finding tol f b" using None remaining_shrinks[OF rest] by (auto simp: find_None_iff)
    show ?thesis
      by (rule exI[of _ shared], rule exI[of _ "f # ours_only"], rule exI[of _ partners]) (use ih none in \<open>simp add: list_emb_Cons\<close>)
  next
    case (Some p)
    then have p: "p \<in> set re" "same_finding tol f p" by (auto simp: find_Some_iff)
    have rest: "fold (cross_step tol) fs (sh @ [f], ou, remove1 p re) = (sh', ou', re')"
      using Cons.prems Some by (simp add: cross_step_eq)
    obtain shared ours_only partners where ih: "sh' = (sh @ [f]) @ shared" "ou' = ou @ ours_only"
        "mset fs = mset shared + mset ours_only" "subseq shared fs" "subseq ours_only fs"
        "list_all2 (same_finding tol) shared partners" "mset (remove1 p re) = mset partners + mset re'"
        "\<forall>a \<in> set ours_only. \<forall>b \<in> set re'. \<not> same_finding tol a b"
      using Cons.IH[OF rest] by blast
    have "mset re = add_mset p (mset (remove1 p re))" using p(1) by simp
    then show ?thesis using ih p(2)
      by - (rule exI[of _ "f # shared"], rule exI[of _ ours_only], rule exI[of _ "p # partners"],
          simp add: list_emb_Cons)
  qed
qed

text \<open>C33. The comparison of two tools is a maximal matching: the shared and the remaining findings of ours are all of ours,
  in order; every shared finding has a partner of its own among theirs; what is left of theirs is the rest; and no
  finding left of ours matches one left of theirs.
\<close>

theorem cross_tool_matching_is_maximal:
  "case match_cross_tool tol ours theirs of (shared, ours_only, theirs_only) \<Rightarrow>
     mset ours = mset shared + mset ours_only \<and> subseq shared ours \<and> subseq ours_only ours \<and>
     (\<exists>partners. list_all2 (same_finding tol) shared partners \<and> mset theirs = mset partners + mset theirs_only) \<and>
     (\<forall>a \<in> set ours_only. \<forall>b \<in> set theirs_only. \<not> same_finding tol a b)"
proof -
  obtain sh ou re where m: "match_cross_tool tol ours theirs = (sh, ou, re)" by (metis prod_cases3)
  then show ?thesis using cross_fold[of tol ours "[]" "[]" theirs sh ou re] by (auto simp: match_cross_tool_def)
qed

section \<open>Reading the external scanner's report\<close>

text \<open>An entry whose start is a true value that is no object makes the reading raise.\<close>

definition bad_start :: "json \<Rightarrow> bool" where
  "bad_start raw \<longleftrightarrow> (case raw of JObj kvs \<Rightarrow>
     truthy (member kvs ''start'') \<and> (case member kvs ''start'' of JObj _ \<Rightarrow> False | _ \<Rightarrow> True) | _ \<Rightarrow> False)"

lemma parse_entry_raises: "(\<exists>e. parse_entry repr_json sha tool raw = Inl e) \<longleftrightarrow> bad_start raw"
proof (cases raw)
  case (JObj kvs)
  then show ?thesis
    by (cases "member kvs ''start''")
      (auto simp: parse_entry_def bad_start_def Let_def split: option.splits)
qed (simp_all add: parse_entry_def bad_start_def)

lemma parse_entries_raises: "(\<exists>e. parse_entries repr_json sha tool raws = Inl e) \<longleftrightarrow> list_ex bad_start raws"
proof (induction raws)
  case (Cons raw raws)
  then show ?case using parse_entry_raises[of repr_json sha tool raw]
    by (auto split: sum.splits)
qed simp


text \<open>
  The external scanner's findings are never invented: a result with findings comes from an installed scanner with
  its bundled rules whose run ended with a code below 2 and within the size limit, the findings are the ones read from
  its output, and the result has no error text.
\<close>

theorem no_fake_findings:
  assumes "semgrep_run env target = Inr r" and "br_findings r \<noteq> []"
  shows "\<exists>code out err. sg_available env \<and> sg_rules_present env \<and>
    sg_process env (build_command env target) = Proc_done code out err \<and> code < 2 \<and>
    length out \<le> sg_max_output_bytes env \<and> br_available r \<and> br_error r = None \<and>
    parse_semgrep_json (sg_loads env) (sg_repr env) (sg_sha env) (sg_decode env out) = Inr (br_findings r, None)"
  using assms
  by (auto simp: semgrep_run_def semgrep_result_def Let_def
      split: if_splits process_outcome.splits sum.splits prod.splits option.splits)

section \<open>The service and its reports\<close>

text \<open>
  A benchmark that fails leaves the report store as it was and one that succeeds was asked for a fixture whose name
  consists of letters, digits and underscores and adds its report under the new id: the other reports are as before,
  and the report survives a restart.
\<close>

theorem benchmark_report_kept:
  assumes "run_benchmark env c tol fixture s = (result, s')" and "durable c s"
  shows "case result of
      Inl _ \<Rightarrow> s' = s
    | Inr r \<Rightarrow> valid_fixture_name fixture \<and> be_fixture env fixture \<noteq> None \<and> bp_fixture r = fixture \<and>
        bp_benchmark_id r = take 32 (be_report_id env) \<and> get_report (bp_benchmark_id r) s' = Some r \<and>
        (\<forall>i. i \<noteq> bp_benchmark_id r \<longrightarrow> get_report i s' = get_report i s) \<and> kstore_restart c s' = (True, s')"
proof (cases result)
  case (Inl e)
  then show ?thesis using assms(1)
    by (auto simp: run_benchmark_def Let_def split: sum.splits prod.splits)
next
  case (Inr r)
  have "s' = kstore_put c (bp_benchmark_id r) r s \<and> valid_fixture_name fixture \<and> be_fixture env fixture \<noteq> None \<and>
      bp_fixture r = fixture \<and> bp_benchmark_id r = take 32 (be_report_id env)"
    using assms(1) unfolding Inr run_benchmark_def resolve_fixture_def Let_def
    by (auto split: sum.splits prod.splits option.splits if_splits)
  then show ?thesis using kst.ok_put[OF assms(2)] kst.get_put_same kst.get_put_other
    by (auto simp: Inr get_report_def kstore_restart_durable)
qed

text \<open>The method of the service empties the cache only: after a restart every report is back.\<close>

lemma service_clear_is_undone_by_a_restart:
  assumes "durable c s" and "kstore_get s i = Some r"
  shows "get_report i (service_clear s) = None" "kstore_restart c (service_clear s) = (True, s)"
    "get_report i (snd (kstore_restart c (clear_reports s))) = None"
proof -
  show "get_report i (service_clear s) = None" by (simp add: get_report_def service_clear_def kstore_get_def)
  have "kstore_restart c (service_clear s) = kstore_restart c s" by (simp add: kstore_restart_def service_clear_def)
  then show "kstore_restart c (service_clear s) = (True, s)" using kstore_restart_durable[OF assms(1)] by simp
  have "kstore_get (snd (kstore_restart c (clear_reports s))) = Map.empty"
    using kstore_restart_durable[OF kst.ok_clear[OF assms(1)]] kst.abs_clear by (simp add: clear_reports_def)
  then show "get_report i (snd (kstore_restart c (clear_reports s))) = None" by (simp add: get_report_def)
qed

section \<open>Samples\<close>

definition sample_finding :: "string \<Rightarrow> int \<Rightarrow> benchmark_finding" where
  "sample_finding tool line =
     \<lparr>bf_tool = tool, bf_vulnerability_type = ''ssrf'', bf_file = ''app.py'', bf_line = line, bf_function = None,
      bf_message = ''m'', bf_fingerprint = ''fp''\<rparr>"

lemmas sample_simps = sample_finding_def same_finding_def matches_case_def same_function_def

lemma sample_classified:
  "classify 3 [sample_finding ''t'' 38, sample_finding ''t'' 46, sample_finding ''t'' 39]
     (get_ground_truth ''vulnerable_python_app'') =
     ([''ssrf-app-fetch-url''], [sample_finding ''t'' 46, sample_finding ''t'' 39])"
  by (simp add: classify_def classify_step_def get_ground_truth_def FIXTURE_GROUND_TRUTH_def sample_simps)

theorem classify_splits_findings_witness:
  "\<exists>matched false_positives.
     classify 3 [sample_finding ''t'' 38, sample_finding ''t'' 46, sample_finding ''t'' 39]
       (get_ground_truth ''vulnerable_python_app'') = (matched, false_positives) \<and>
     length matched + length false_positives = 3 \<and> matched = [''ssrf-app-fetch-url'']"
  using classify_splits_findings[where tol = 3 and findings = "[sample_finding ''t'' 38, sample_finding ''t'' 46, sample_finding ''t'' 39]"
      and cases = "get_ground_truth ''vulnerable_python_app''"]
  unfolding sample_classified by simp

text \<open>The greedy matching is not a maximum one: the order of our findings decides how many are shared.\<close>

lemma greedy_matching_depends_on_order:
  "match_cross_tool 3 [sample_finding ''o'' 10, sample_finding ''o'' 14] [sample_finding ''s'' 12, sample_finding ''s'' 8] =
     ([sample_finding ''o'' 10], [sample_finding ''o'' 14], [sample_finding ''s'' 8])"
  "match_cross_tool 3 [sample_finding ''o'' 14, sample_finding ''o'' 10] [sample_finding ''s'' 12, sample_finding ''s'' 8] =
     ([sample_finding ''o'' 14, sample_finding ''o'' 10], [], [])"
  by (simp_all add: match_cross_tool_def cross_step_eq sample_simps)

theorem cross_tool_matching_is_maximal_witness:
  "\<exists>shared ours_only theirs_only.
     match_cross_tool 3 [sample_finding ''o'' 10, sample_finding ''o'' 14]
       [sample_finding ''s'' 12, sample_finding ''s'' 8] = (shared, ours_only, theirs_only) \<and>
     \<not> same_finding 3 (hd ours_only) (hd theirs_only) \<and> shared \<noteq> []"
  using cross_tool_matching_is_maximal[where tol = 3 and ours = "[sample_finding ''o'' 10, sample_finding ''o'' 14]"
      and theirs = "[sample_finding ''s'' 12, sample_finding ''s'' 8]"]
  unfolding greedy_matching_depends_on_order by simp

text \<open>
  Without findings of the other tool the comparison reports the types of our findings as shared and no safe case as
  detected incorrectly, whatever ours detect.
\<close>

lemma comparison_without_theirs:
  "matches_case 3 (sample_finding ''our-sast'' 46) c \<Longrightarrow> \<not> gt_expected_vulnerable c \<Longrightarrow>
   bc_shared_vulnerability_types (build_comparison 3 [sample_finding ''our-sast'' 46] [] [c]) = [''ssrf''] \<and>
   bc_safe_cases_detected_incorrectly (build_comparison 3 [sample_finding ''our-sast'' 46] [] [c]) = [] \<and>
   bc_safe_cases_detected_incorrectly
     (build_comparison 3 [sample_finding ''our-sast'' 46] [sample_finding ''semgrep'' 90] [c]) = [gt_case_id c]"
  by (auto simp: build_comparison_def sample_finding_def sorted_set_def split: prod.splits)

definition sample_semgrep :: semgrep_env where
  "sample_semgrep =
     \<lparr>sg_available = True, sg_rules_dir = ''/rules'', sg_rules_present = True, sg_timeout_s = 30,
      sg_max_output_bytes = 100, sg_process = (\<lambda>_. Proc_done 1 ''{}'' []), sg_duration = 5, sg_decode = (\<lambda>s. s),
      sg_loads = (\<lambda>_. Inr (JObj [(''results'', JList [JObj [(''check_id'', JStr ''ssrf-rule''), (''path'', JStr ''a/app.py''),
        (''start'', JObj [(''line'', JInt 38)])]])])),
      sg_repr = (\<lambda>_. []), sg_sha = (\<lambda>s. s)\<rparr>"

lemma sample_semgrep_run:
  "semgrep_run sample_semgrep ''/fx'' =
     Inr (semgrep_result True [\<lparr>bf_tool = ''semgrep'', bf_vulnerability_type = ''ssrf'', bf_file = ''app.py'', bf_line = 38,
        bf_function = None, bf_message = ''ssrf-rule'', bf_fingerprint = ''ssrf-rule|a/app.py||None|ssrf-rule''\<rparr>] (Some 5) None)"
  by code_simp

theorem no_fake_findings_witness:
  "\<exists>r code out err. semgrep_run sample_semgrep ''/fx'' = Inr r \<and> br_findings r \<noteq> [] \<and>
     sg_process sample_semgrep (build_command sample_semgrep ''/fx'') = Proc_done code out err \<and> code < 2"
  using no_fake_findings[OF sample_semgrep_run] by (auto simp: sample_semgrep_run semgrep_result_def)

definition sample_bench :: bench_env where
  "sample_bench =
     \<lparr>be_fixture = (\<lambda>n. if n = ''fx'' then Some (''/fx'', \<lparr>cm_project_id = [], cm_files = []\<rparr>) else None),
      be_semgrep = sample_semgrep, be_sha = (\<lambda>s. s), be_report_id = ''id'', be_scan_id = ''scan'', be_now = Naive 0,
      be_duration = 1\<rparr>"

definition report_codec :: "(benchmark_report, benchmark_report) codec" where
  "report_codec = \<lparr>dump = (\<lambda>v. v), load = Some\<rparr>"

theorem benchmark_report_kept_witness:
  "\<exists>r s'. run_benchmark sample_bench report_codec 3 ''fx'' \<lparr>cache = [], factory = Some []\<rparr> = (Inr r, s') \<and>
     get_report ''id'' s' = Some r \<and> kstore_restart report_codec s' = (True, s')"
proof -
  let ?s = "\<lparr>cache = [], factory = Some []\<rparr> :: (benchmark_report, benchmark_report) kstore"
  have d: "durable report_codec ?s" by (simp add: durable_def lossless_def report_codec_def mirrors_def dmap_def)
  have v: "valid_fixture_name ''fx''" by code_simp
  obtain r s' where run: "run_benchmark sample_bench report_codec 3 ''fx'' ?s = (Inr r, s')"
    by (auto simp: run_benchmark_def resolve_fixture_def v sample_bench_def sample_semgrep_run Let_def)
  show ?thesis using benchmark_report_kept[OF run d] run by (auto simp: sample_bench_def)
qed

end
