(* ===== verification/Fetch.thy ===== *)
theory Fetch
  imports Scan_Models Regex "HOL-Library.Word" "HOL-Library.Sublist"
begin

text \<open>
  Repository ingestion (backend/app/prepare/fetcher.py): a local directory, a ZIP archive or a git clone is brought
  into a workspace directory under size and count limits.

  The disk is a map from absolute paths (lists of segments) to file contents; directories are implied by the files in
  them. Arguments are the directory tree \<open>os.walk\<close> sees, the entries \<open>zipfile\<close> reads from an archive, the outcome of
  the git process, \<open>Path.resolve\<close> and \<open>repr\<close> of a string.
\<close>

unbundle bit_operations_syntax

section \<open>Names that are not ingested\<close>

definition IGNORED_DIR_NAMES :: "string list" where
  "IGNORED_DIR_NAMES =
     [''.git'', ''.hg'', ''.svn'', ''node_modules'', ''__pycache__'', ''.venv'', ''venv'', ''env'', ''.env'', ''.tox'',
      ''.nox'', ''.mypy_cache'', ''.pytest_cache'', ''.ruff_cache'', ''.eggs'', ''dist'', ''build'', ''target'',
      ''.idea'', ''.vscode'', ''.coverage'', ''htmlcov'']"

definition is_ignored_dir :: "string \<Rightarrow> bool" where
  "is_ignored_dir name \<longleftrightarrow> name \<in> set IGNORED_DIR_NAMES"

text \<open>The patterns \<open>*.pyc\<close> and \<open>*.pyo\<close>.\<close>

definition is_ignored_file :: "string \<Rightarrow> bool" where
  "is_ignored_file name \<longleftrightarrow> endswith ''.pyc'' name \<or> endswith ''.pyo'' name"

section \<open>Results, limits and the disk\<close>

record limits =
  max_file_size_bytes :: nat
  max_total_size_bytes :: nat
  max_files :: nat
  git_clone_timeout_seconds :: nat

record fetch_result =
  fr_copied_files :: "string list"
  fr_ignored_paths :: "string list"
  fr_skipped :: "(string \<times> string) list"
  fr_total_bytes :: nat

definition empty_result :: fetch_result where
  "empty_result = \<lparr>fr_copied_files = [], fr_ignored_paths = [], fr_skipped = [], fr_total_bytes = 0\<rparr>"

datatype fetch_error = Fetcher_error string | Security_error string | Other_exception string

type_synonym disk = "(string list, string) dict"

text \<open>Making the parent directories and writing a file; an existing file or directory may stand in the way.\<close>

definition write_file :: "string list \<Rightarrow> string \<Rightarrow> disk \<Rightarrow> fetch_error option \<times> disk" where
  "write_file target content d =
     (if list_ex (\<lambda>k. strict_prefix k target) (dkeys d) then (Some (Other_exception ''not a directory''), d)
      else if list_ex (\<lambda>k. strict_prefix target k) (dkeys d) then (Some (Other_exception ''is a directory''), d)
      else (None, dput target content d))"

text \<open>What an ingestion has done so far: its result, the counter of files and the disk.\<close>

record ingest =
  ig_result :: fetch_result
  ig_count :: nat
  ig_disk :: disk

text \<open>Statements in sequence: an exception leaves the state where it is.\<close>

definition next_step ::
    "fetch_error option \<times> ingest \<Rightarrow> (ingest \<Rightarrow> fetch_error option \<times> ingest) \<Rightarrow> fetch_error option \<times> ingest" where
  "next_step r f = (case r of (None, s) \<Rightarrow> f s | (Some e, s) \<Rightarrow> (Some e, s))"

abbreviation ignore_path :: "string \<Rightarrow> ingest \<Rightarrow> ingest" where
  "ignore_path p s \<equiv> s\<lparr>ig_result := (ig_result s)\<lparr>fr_ignored_paths := fr_ignored_paths (ig_result s) @ [p]\<rparr>\<rparr>"

abbreviation skip_path :: "string \<Rightarrow> string \<Rightarrow> ingest \<Rightarrow> ingest" where
  "skip_path p reason s \<equiv> s\<lparr>ig_result := (ig_result s)\<lparr>fr_skipped := fr_skipped (ig_result s) @ [(p, reason)]\<rparr>\<rparr>"

text \<open>
  Counting a file: the counter and the sum are checked one after the other, \<open>what\<close> is \<open>repository\<close> or \<open>zip\<close>.
\<close>

definition count_file :: "limits \<Rightarrow> string \<Rightarrow> nat \<Rightarrow> ingest \<Rightarrow> fetch_error option \<times> ingest" where
  "count_file L what bytes s =
     (let s1 = s\<lparr>ig_count := ig_count s + 1\<rparr> in
      if max_files L < ig_count s1
      then (Some (Fetcher_error (what @ '' exceeds max_files limit ('' @ dec (max_files L) @ '')'')), s1)
      else
        (let s2 = s1\<lparr>ig_result := (ig_result s1)\<lparr>fr_total_bytes := fr_total_bytes (ig_result s1) + bytes\<rparr>\<rparr> in
         if max_total_size_bytes L < fr_total_bytes (ig_result s2)
         then (Some (Fetcher_error (what @ '' exceeds max_total_size limit ('' @ dec (max_total_size_bytes L) @
                 '' bytes)'')), s2)
         else (None, s2)))"

definition put_file :: "string list \<Rightarrow> string \<Rightarrow> ingest \<Rightarrow> fetch_error option \<times> ingest" where
  "put_file target content s = (case write_file target content (ig_disk s) of (e, d) \<Rightarrow> (e, s\<lparr>ig_disk := d\<rparr>))"

definition list_copied :: "string list \<Rightarrow> ingest \<Rightarrow> fetch_error option \<times> ingest" where
  "list_copied rel s =
     (None, s\<lparr>ig_result := (ig_result s)\<lparr>fr_copied_files := fr_copied_files (ig_result s) @ [join ''/'' rel]\<rparr>\<rparr>)"

section \<open>Directories\<close>

text \<open>
  What \<open>os.walk\<close> and \<open>stat\<close> tell about an entry: a regular file with its size and content, a symbolic link (to a
  directory or not), a file that cannot be examined, a directory with its entries in the order of the file system.
\<close>

datatype dir_entry = File nat string | Link bool | No_stat string | Dir "(string \<times> dir_entry) list"

fun is_dirname :: "dir_entry \<Rightarrow> bool" where
  "is_dirname (Dir _) = True"
| "is_dirname (Link to_dir) = to_dir"
| "is_dirname _ = False"

text \<open>
  One file of a directory. \<open>_fetch_directory\<close> copies it below \<open>dest\<close>; \<open>_walk\<close> runs the same checks on a tree in
  place and copies nothing: there \<open>dest\<close> is \<open>None\<close>.
\<close>

definition ingest_file ::
    "limits \<Rightarrow> string list option \<Rightarrow> string list \<Rightarrow> string \<times> dir_entry \<Rightarrow> ingest \<Rightarrow> fetch_error option \<times> ingest" where
  "ingest_file L dest rel_dir entry s =
     (let name = fst entry; rel = rel_dir @ [name] in
      if is_ignored_file name then (None, ignore_path (join ''/'' rel) s)
      else
        (case snd entry of
           Link _ \<Rightarrow> (None, skip_path (join ''/'' rel) ''symlink'' s)
         | No_stat exc \<Rightarrow> (None, skip_path (join ''/'' rel) (''stat_error: '' @ exc) s)
         | File bytes content \<Rightarrow>
             if max_file_size_bytes L < bytes then (None, skip_path (join ''/'' rel) ''too_large'' s)
             else
               next_step (count_file L ''repository'' bytes s)
                 (\<lambda>s. next_step (case dest of None \<Rightarrow> (None, s) | Some d \<Rightarrow> put_file (d @ rel) content s)
                    (list_copied rel))
         | Dir _ \<Rightarrow> (None, s)))"

fun ingest_files ::
    "limits \<Rightarrow> string list option \<Rightarrow> string list \<Rightarrow> (string \<times> dir_entry) list \<Rightarrow> ingest \<Rightarrow> fetch_error option \<times> ingest" where
  "ingest_files L dest rel_dir [] s = (None, s)"
| "ingest_files L dest rel_dir (f # fs) s = next_step (ingest_file L dest rel_dir f s) (ingest_files L dest rel_dir fs)"

definition file_entries :: "(string \<times> dir_entry) list \<Rightarrow> (string \<times> dir_entry) list" where
  "file_entries es = sort_key fst (filter (\<lambda>e. \<not> is_dirname (snd e)) es)"

definition pruned_names :: "(string \<times> dir_entry) list \<Rightarrow> string list" where
  "pruned_names es = map fst (filter (\<lambda>e. is_dirname (snd e) \<and> is_ignored_dir (fst e)) es)"

text \<open>
  One directory of the walk: the pruned names, the files in sorted order, then the subdirectories that are neither
  ignored nor links.
\<close>

function walk_dir ::
    "limits \<Rightarrow> string list option \<Rightarrow> string list \<Rightarrow> (string \<times> dir_entry) list \<Rightarrow> ingest \<Rightarrow> fetch_error option \<times> ingest"
and walk_subdirs ::
    "limits \<Rightarrow> string list option \<Rightarrow> string list \<Rightarrow> (string \<times> dir_entry) list \<Rightarrow> ingest \<Rightarrow> fetch_error option \<times> ingest" where
  "walk_dir L dest rel_dir es s =
     next_step
       (ingest_files L dest rel_dir (file_entries es)
          (fold (\<lambda>d. ignore_path (join ''/'' (rel_dir @ [d]))) (pruned_names es) s))
       (walk_subdirs L dest rel_dir es)"
| "walk_subdirs L dest rel_dir [] s = (None, s)"
| "walk_subdirs L dest rel_dir ((name, e) # es) s =
     (case e of
        Dir sub \<Rightarrow>
          if is_ignored_dir name then walk_subdirs L dest rel_dir es s
          else next_step (walk_dir L dest (rel_dir @ [name]) sub s) (walk_subdirs L dest rel_dir es)
      | _ \<Rightarrow> walk_subdirs L dest rel_dir es s)"
  by pat_completeness auto
termination
  by (relation "measure (\<lambda>x. case x of
        Inl (_, _, _, es, _) \<Rightarrow> 2 * size_list (size_prod (\<lambda>_. 0) size) es + 1
      | Inr (_, _, _, es, _) \<Rightarrow> 2 * size_list (size_prod (\<lambda>_. 0) size) es)") auto

definition outcome :: "fetch_error option \<times> ingest \<Rightarrow> (fetch_error + fetch_result) \<times> disk" where
  "outcome r = (case r of (None, s) \<Rightarrow> (Inr (ig_result s), ig_disk s) | (Some e, s) \<Rightarrow> (Inl e, ig_disk s))"

definition start_ingest :: "disk \<Rightarrow> ingest" where
  "start_ingest d = \<lparr>ig_result = empty_result, ig_count = 0, ig_disk = d\<rparr>"

text \<open>\<open>source\<close> is the tree at the resolved location, if it is a directory.\<close>

definition fetch_directory ::
    "limits \<Rightarrow> string \<Rightarrow> (string \<times> dir_entry) list option \<Rightarrow> string list \<Rightarrow> disk
     \<Rightarrow> (fetch_error + fetch_result) \<times> disk" where
  "fetch_directory L location source dest d =
     (case source of
        None \<Rightarrow> (Inl (Fetcher_error (''directory not found: '' @ location)), d)
      | Some es \<Rightarrow> outcome (walk_dir L (Some dest) [] es (start_ingest d)))"

definition walk_in_place ::
    "limits \<Rightarrow> (string \<times> dir_entry) list \<Rightarrow> disk \<Rightarrow> (fetch_error + fetch_result) \<times> disk" where
  "walk_in_place L es d = outcome (walk_dir L None [] es (start_ingest d))"

section \<open>Archives\<close>

text \<open>
  An entry of an archive as \<open>zipfile\<close> reads it. Opening it may raise; reading it may raise after a part of the content
  has been written.
\<close>

datatype entry_data = Unopenable string | Broken string string | Content string

record zip_entry =
  ze_filename :: string
  ze_external_attr :: "32 word"
  ze_flag_bits :: "16 word"
  ze_file_size :: nat
  ze_data :: entry_data

definition is_symlink_mode :: "32 word \<Rightarrow> bool" where
  "is_symlink_mode mode \<longleftrightarrow> mode AND 0xF000 = 0xA000"

text \<open>What the loop decides about an entry before it counts it.\<close>

datatype zip_verdict = Pass_over | Ignore string | Reject string | Too_large string | Accept "string list"

definition zip_parts :: "string \<Rightarrow> string list" where
  "zip_parts name = filter (\<lambda>p. p \<noteq> [] \<and> p \<noteq> ''.'') (split_on (CHR 0x2F) name)"

fun first_index :: "('a \<Rightarrow> bool) \<Rightarrow> 'a list \<Rightarrow> nat option" where
  "first_index P [] = None"
| "first_index P (x # xs) = (if P x then Some 0 else map_option Suc (first_index P xs))"

definition drive_like :: "string \<Rightarrow> bool" where
  "drive_like p \<longleftrightarrow> length p = 2 \<and> p ! 1 = CHR 0x3A"

definition zip_verdict :: "(string \<Rightarrow> string) \<Rightarrow> limits \<Rightarrow> zip_entry \<Rightarrow> zip_verdict" where
  "zip_verdict py_repr L e =
     (let name = map (\<lambda>c. if c = CHR 0x5C then CHR 0x2F else c) (ze_filename e) in
      if name = [] \<or> endswith ''/'' name then Pass_over
      else
        (let parts = zip_parts name in
         if parts = [] \<or> ''..'' \<in> set parts
         then Reject (''zip entry escapes destination: '' @ py_repr (ze_filename e))
         else if startswith ''/'' name \<or> drive_like (hd parts)
         then Reject (''zip entry is an absolute path: '' @ py_repr (ze_filename e))
         else
           (let ignored_idx = first_index is_ignored_dir (butlast parts) in
            if ignored_idx \<noteq> None \<or> is_ignored_dir (hd parts)
            then Ignore (join ''/'' (take (case ignored_idx of Some i \<Rightarrow> i + 1 | None \<Rightarrow> 1) parts))
            else if is_ignored_file (last parts) then Ignore (join ''/'' parts)
            else if is_symlink_mode (drop_bit 16 (ze_external_attr e))
            then Reject (''zip entry is a symlink: '' @ py_repr (ze_filename e))
            else if ze_flag_bits e AND 1 \<noteq> 0
            then Reject (''zip entry is encrypted: '' @ py_repr (ze_filename e))
            else if max_file_size_bytes L < ze_file_size e then Too_large (join ''/'' parts)
            else Accept parts)))"

text \<open>Extracting an accepted entry to the resolved target, if that is below the resolved destination.\<close>

definition extract_entry ::
    "(string \<Rightarrow> string) \<Rightarrow> (string list \<Rightarrow> string list) \<Rightarrow> string list \<Rightarrow> zip_entry \<Rightarrow> string list \<Rightarrow> ingest
     \<Rightarrow> fetch_error option \<times> ingest" where
  "extract_entry py_repr resolve dest e parts s =
     (let target = resolve (dest @ parts) in
      if \<not> prefix (resolve dest) target
      then (Some (Security_error (''zip entry escapes destination: '' @ py_repr (ze_filename e))), s)
      else
        (case ze_data e of
           Unopenable exc \<Rightarrow> (Some (Other_exception exc), s)
         | Broken exc part \<Rightarrow> next_step (put_file target part s) (\<lambda>s. (Some (Other_exception exc), s))
         | Content content \<Rightarrow> next_step (put_file target content s) (list_copied parts)))"

definition zip_step ::
    "(string \<Rightarrow> string) \<Rightarrow> (string list \<Rightarrow> string list) \<Rightarrow> limits \<Rightarrow> string list \<Rightarrow> zip_entry \<Rightarrow> ingest
     \<Rightarrow> fetch_error option \<times> ingest" where
  "zip_step py_repr resolve L dest e s =
     (case zip_verdict py_repr L e of
        Pass_over \<Rightarrow> (None, s)
      | Ignore p \<Rightarrow> (None, ignore_path p s)
      | Reject msg \<Rightarrow> (Some (Security_error msg), s)
      | Too_large p \<Rightarrow> (None, skip_path p ''too_large'' s)
      | Accept parts \<Rightarrow>
          next_step (count_file L ''zip'' (ze_file_size e) s) (extract_entry py_repr resolve dest e parts))"

fun zip_loop ::
    "(string \<Rightarrow> string) \<Rightarrow> (string list \<Rightarrow> string list) \<Rightarrow> limits \<Rightarrow> string list \<Rightarrow> zip_entry list \<Rightarrow> ingest
     \<Rightarrow> fetch_error option \<times> ingest" where
  "zip_loop py_repr resolve L dest [] s = (None, s)"
| "zip_loop py_repr resolve L dest (e # es) s =
     next_step (zip_step py_repr resolve L dest e s) (zip_loop py_repr resolve L dest es)"

text \<open>\<open>archive\<close> is what \<open>zipfile\<close> makes of the file at the location, if there is one: an exception or the entries.\<close>

definition fetch_zip ::
    "(string \<Rightarrow> string) \<Rightarrow> (string list \<Rightarrow> string list) \<Rightarrow> limits \<Rightarrow> string \<Rightarrow> (string + zip_entry list) option
     \<Rightarrow> string list \<Rightarrow> disk \<Rightarrow> (fetch_error + fetch_result) \<times> disk" where
  "fetch_zip py_repr resolve L location archive dest d =
     (case archive of
        None \<Rightarrow> (Inl (Fetcher_error (''zip file not found: '' @ location)), d)
      | Some (Inl exc) \<Rightarrow> (Inl (Other_exception exc), d)
      | Some (Inr es) \<Rightarrow> outcome (zip_loop py_repr resolve L dest es (start_ingest d)))"

section \<open>Clones\<close>

text \<open>\<open>://([^/@:\s]+):([^/@\s]+)@\<close>.\<close>

definition url_credentials_re :: re where
  "url_credentials_re = seqs [lit ''://'',
     plus_re (Cls (\<lambda>c. c \<noteq> CHR 0x2F \<and> c \<noteq> CHR 0x40 \<and> c \<noteq> CHR 0x3A \<and> \<not> is_space c)), lit '':'',
     plus_re (Cls (\<lambda>c. c \<noteq> CHR 0x2F \<and> c \<noteq> CHR 0x40 \<and> \<not> is_space c)), lit ''@'']"

definition redact_credentials :: "string \<Rightarrow> string" where
  "redact_credentials s = re_sub url_credentials_re ''://<redacted>:<redacted>@'' (At [] s)"

definition git_command :: "string \<Rightarrow> string \<Rightarrow> string list" where
  "git_command location dest = [''git'', ''clone'', ''--depth'', ''1'', location, dest]"

text \<open>The outcome of the process: its exit code, its two outputs and the tree it leaves at the destination.\<close>

datatype git_outcome = Git_missing | Git_timeout | Git_done int string string "(string \<times> dir_entry) list"

definition clone_error_detail :: "string \<Rightarrow> string \<Rightarrow> string" where
  "clone_error_detail err out =
     (let detail = strip (if err \<noteq> [] then err else out) in drop (length detail - 500) detail)"

definition abs_path :: "string list \<Rightarrow> string" where
  "abs_path ps = ''/'' @ join ''/'' ps"

definition fetch_git ::
    "limits \<Rightarrow> (string list \<Rightarrow> git_outcome) \<Rightarrow> string \<Rightarrow> string list \<Rightarrow> disk \<Rightarrow> (fetch_error + fetch_result) \<times> disk" where
  "fetch_git L git location dest d =
     (if list_ex (strict_prefix dest) (dkeys d)
      then (Inl (Fetcher_error (''destination already exists: '' @ abs_path dest)), d)
      else
        (case git (git_command location (abs_path dest)) of
           Git_missing \<Rightarrow> (Inl (Fetcher_error ''git executable not found on PATH''), d)
         | Git_timeout \<Rightarrow>
             (Inl (Fetcher_error (''git clone timed out after '' @ dec (git_clone_timeout_seconds L) @ ''s'')), d)
         | Git_done code out err tree \<Rightarrow>
             if code \<noteq> 0
             then (Inl (Fetcher_error (''git clone failed: '' @ redact_credentials (clone_error_detail err out))), d)
             else walk_in_place L tree d))"

section \<open>Fetching\<close>

text \<open>What the fetcher finds at a location.\<close>

record fetch_env =
  fe_limits :: limits
  fe_repr :: "string \<Rightarrow> string"
  fe_resolve :: "string list \<Rightarrow> string list"
  fe_directory :: "string \<Rightarrow> (string \<times> dir_entry) list option"
  fe_archive :: "string \<Rightarrow> (string + zip_entry list) option"
  fe_git :: "string list \<Rightarrow> git_outcome"

definition fetch :: "fetch_env \<Rightarrow> repo_spec \<Rightarrow> string list \<Rightarrow> disk \<Rightarrow> (fetch_error + fetch_result) \<times> disk" where
  "fetch E spec dest d =
     (if rs_source_type spec = ''directory'' then
        fetch_directory (fe_limits E) (rs_location spec) (fe_directory E (rs_location spec)) dest d
      else if rs_source_type spec = ''zip'' then
        fetch_zip (fe_repr E) (fe_resolve E) (fe_limits E) (rs_location spec) (fe_archive E (rs_location spec)) dest d
      else if rs_source_type spec = ''git'' then fetch_git (fe_limits E) (fe_git E) (rs_location spec) dest d
      else (Inl (Fetcher_error (''unsupported source_type: '' @ rs_source_type spec)), d))"

end
