(* ===== verification/Parser.thy ===== *)
theory Parser
  imports Py_Ast
begin

text \<open>
  The PREPARE parser (backend/app/prepare/parser.py), the code model builders (prepare/base.py,
  prepare/python_builder.py) and the contracts they fill (core/contracts.py).

  Arguments are \<open>ast.parse\<close>, \<open>ast.unparse\<close>, SHA-256, the character of the ellipsis (outside the code points a
  \<open>char\<close> has) and where, if at all, the interpreter's stack runs out.
\<close>

section \<open>Contracts\<close>

record import_info =
  im_module :: string
  im_name :: string
  im_alias :: "string option"
  im_kind :: string
  im_file :: string
  im_line :: nat

record function_info =
  fn_name :: string
  fn_qualified_name :: string
  fn_file :: string
  fn_line :: nat
  fn_end_line :: nat
  fn_args :: "string list"
  fn_decorators :: "string list"
  fn_is_method :: bool
  fn_is_async :: bool

record class_info =
  cl_name :: string
  cl_file :: string
  cl_line :: nat
  cl_end_line :: nat
  cl_bases :: "string list"
  cl_decorators :: "string list"
  cl_methods :: "string list"

record call_info =
  ca_func :: string
  ca_args :: "string list"
  ca_num_args :: nat
  ca_keywords :: "string list"
  ca_is_method_call :: bool
  ca_file :: string
  ca_line :: nat

record assignment_info =
  as_targets :: "string list"
  as_value_kind :: string
  as_value_expr :: string
  as_file :: string
  as_line :: nat

record parse_error_info =
  pe_lineno :: nat
  pe_offset :: nat
  pe_message :: string

section \<open>Serializing a tree\<close>

text \<open>The JSON-friendly values \<open>_ast_to_dict\<close> makes: dictionaries, lists, strings, line numbers, other constants, null.\<close>

datatype ast_value =
  ADict "(string \<times> ast_value) list" | AList "ast_value list" | AStr string | ANum nat | AConst const | ANull

text \<open>
  The class name and the line number come first; a field of the same name overwrites them in place.
\<close>

function ast_to_dict :: "py_node \<Rightarrow> (string, ast_value) dict" where
  "ast_to_dict n =
     fold (\<lambda>(name, f). dput name
        (case f of
           FNode c \<Rightarrow> ADict (ast_to_dict c)
         | FNodes cs \<Rightarrow> AList (map (\<lambda>c. case c of Some m \<Rightarrow> ADict (ast_to_dict m) | None \<Rightarrow> ANull) cs)
         | FStr s \<Rightarrow> AStr s
         | FConst c \<Rightarrow> AConst c
         | FNone \<Rightarrow> ANull))
       (n_fields n)
       ((''type'', AStr (n_kind n)) # (case n_lineno n of Some l \<Rightarrow> [(''lineno'', ANum l)] | None \<Rightarrow> []))"
  by pat_completeness auto
termination
proof (relation "measure size", simp, goal_cases)
  case (1 n kf k f c)
  then have "c \<in> set (children n)" by (force simp: children_def)
  then show ?case by (simp add: child_size)
next
  case (2 n kf k f cs c m)
  then have "m \<in> set (children n)" by (force simp: children_def List.map_filter_def)
  then show ?case by (simp add: child_size)
qed

declare ast_to_dict.simps [simp del]

section \<open>Collecting\<close>

record parser_env =
  ps_unparse :: "py_node \<Rightarrow> string"
  ps_ellipsis :: char

definition UNPARSE_CAP :: nat where "UNPARSE_CAP = 200"
definition ARGS_CAP :: nat where "ARGS_CAP = 10"

definition truncate_text :: "parser_env \<Rightarrow> string \<Rightarrow> nat \<Rightarrow> string" where
  "truncate_text E s limit = (if length s \<le> limit then s else take (limit - 1) s @ [ps_ellipsis E])"

abbreviation shown :: "parser_env \<Rightarrow> py_node \<Rightarrow> string" where
  "shown E n \<equiv> truncate_text E (ps_unparse E n) UNPARSE_CAP"

definition value_kind :: "py_node option \<Rightarrow> string" where
  "value_kind v = (case v of
     None \<Rightarrow> ''none''
   | Some n \<Rightarrow>
       if is_kind ''Call'' n then ''call''
       else if is_kind ''Attribute'' n then ''attribute''
       else if is_kind ''Name'' n then ''name''
       else if is_kind ''Constant'' n then ''constant''
       else if is_kind ''BinOp'' n then ''binary_op''
       else if n_kind n \<in> {''List'', ''Tuple'', ''Set'', ''Dict''} then ''collection''
       else if is_kind ''Subscript'' n then ''subscript''
       else if is_kind ''Lambda'' n then ''lambda''
       else if is_kind ''IfExp'' n then ''ifexp''
       else ''other'')"

definition string_field :: "py_node \<Rightarrow> string \<Rightarrow> string" where
  "string_field n k = (case gets n k of Some s \<Rightarrow> s | None \<Rightarrow> [])"

definition line_of :: "py_node \<Rightarrow> nat" where
  "line_of n = (case n_lineno n of Some l \<Rightarrow> l | None \<Rightarrow> 0)"

text \<open>\<open>node.end_lineno or node.lineno\<close>.\<close>

definition end_line_of :: "py_node \<Rightarrow> nat" where
  "end_line_of n = (case n_end n of Some l \<Rightarrow> if l = 0 then line_of n else l | None \<Rightarrow> line_of n)"

definition function_node :: "py_node \<Rightarrow> bool" where
  "function_node n \<longleftrightarrow> n_kind n \<in> {''FunctionDef'', ''AsyncFunctionDef''}"

definition argument_names :: "py_node \<Rightarrow> string list" where
  "argument_names n = (case getn n ''args'' of
     None \<Rightarrow> []
   | Some a \<Rightarrow>
       map (\<lambda>x. string_field x ''arg'') (getns a ''posonlyargs'' @ getns a ''args'' @ getns a ''kwonlyargs'') @
       (case getn a ''vararg'' of None \<Rightarrow> [] | Some x \<Rightarrow> [''*'' @ string_field x ''arg'']) @
       (case getn a ''kwarg'' of None \<Rightarrow> [] | Some x \<Rightarrow> [''**'' @ string_field x ''arg'']))"

definition make_function ::
    "parser_env \<Rightarrow> string \<Rightarrow> string list \<Rightarrow> string list \<Rightarrow> py_node \<Rightarrow> function_info" where
  "make_function E path class_stack fn_stack n =
     \<lparr>fn_name = string_field n ''name'',
      fn_qualified_name = join ''.'' (class_stack @ fn_stack @ [string_field n ''name'']),
      fn_file = path, fn_line = line_of n, fn_end_line = end_line_of n, fn_args = argument_names n,
      fn_decorators = map (shown E) (getns n ''decorator_list''),
      fn_is_method = (class_stack \<noteq> [] \<and> fn_stack = []), fn_is_async = is_kind ''AsyncFunctionDef'' n\<rparr>"

definition make_class :: "parser_env \<Rightarrow> string \<Rightarrow> py_node \<Rightarrow> class_info" where
  "make_class E path n =
     \<lparr>cl_name = string_field n ''name'', cl_file = path, cl_line = line_of n, cl_end_line = end_line_of n,
      cl_bases = map (shown E) (getns n ''bases''), cl_decorators = map (shown E) (getns n ''decorator_list''),
      cl_methods = map (\<lambda>m. string_field m ''name'') (filter function_node (getns n ''body''))\<rparr>"

definition make_call :: "parser_env \<Rightarrow> string \<Rightarrow> py_node \<Rightarrow> call_info" where
  "make_call E path n =
     \<lparr>ca_func = (case getn n ''func'' of Some f \<Rightarrow> shown E f | None \<Rightarrow> []),
      ca_args = take ARGS_CAP (map (shown E) (getns n ''args'')),
      ca_num_args = length (getns n ''args'') + length (getns n ''keywords''),
      ca_keywords = filter (\<lambda>k. k \<noteq> []) (map (\<lambda>k. string_field k ''arg'') (getns n ''keywords'')),
      ca_is_method_call = (case getn n ''func'' of
          None \<Rightarrow> False
        | Some f \<Rightarrow> is_kind ''Attribute'' f \<and> (case getn f ''value'' of Some v \<Rightarrow> \<not> is_kind ''Name'' v | None \<Rightarrow> True)),
      ca_file = path, ca_line = line_of n\<rparr>"

definition make_assignment :: "parser_env \<Rightarrow> string \<Rightarrow> py_node \<Rightarrow> assignment_info" where
  "make_assignment E path n =
     (let value = getn n ''value'' in
      \<lparr>as_targets = (if is_kind ''Assign'' n then map (shown E) (getns n ''targets'') else map (shown E) (getns n ''target'')),
       as_value_kind = value_kind value,
       as_value_expr = (case value of Some v \<Rightarrow> shown E v | None \<Rightarrow> []),
       as_file = path, as_line = line_of n\<rparr>)"

definition make_imports :: "string \<Rightarrow> py_node \<Rightarrow> import_info list" where
  "make_imports path n =
     (if is_kind ''Import'' n then
        map (\<lambda>a. \<lparr>im_module = string_field a ''name'',
                  im_name = (if string_field a ''asname'' \<noteq> [] then string_field a ''asname''
                             else hd (split_on (CHR 0x2E) (string_field a ''name''))),
                  im_alias = gets a ''asname'', im_kind = ''import'', im_file = path, im_line = line_of n\<rparr>)
          (getns n ''names'')
      else
        map (\<lambda>a. \<lparr>im_module = string_field n ''module'', im_name = string_field a ''name'', im_alias = gets a ''asname'',
                  im_kind = (if string_field a ''name'' = ''*'' then ''import_star'' else ''from_import''),
                  im_file = path, im_line = line_of n\<rparr>)
          (getns n ''names''))"

text \<open>
  The collector. \<open>co_left\<close> is the number of nodes it can still visit before the interpreter's stack runs out
  (\<open>None\<close>: it never does); once \<open>RecursionError\<close> is raised nothing more is recorded.
\<close>

record collector =
  co_functions :: "function_info list"
  co_classes :: "class_info list"
  co_imports :: "import_info list"
  co_calls :: "call_info list"
  co_assignments :: "assignment_info list"
  co_left :: "nat option"
  co_raised :: bool

definition new_collector :: "nat option \<Rightarrow> collector" where
  "new_collector left =
     \<lparr>co_functions = [], co_classes = [], co_imports = [], co_calls = [], co_assignments = [], co_left = left,
      co_raised = False\<rparr>"

function visit :: "parser_env \<Rightarrow> string \<Rightarrow> string list \<Rightarrow> string list \<Rightarrow> py_node \<Rightarrow> collector \<Rightarrow> collector" where
  "visit E path class_stack fn_stack n c =
     (if co_raised c then c
      else if co_left c = Some 0 then c\<lparr>co_raised := True\<rparr>
      else
        (let c = c\<lparr>co_left := map_option (\<lambda>k. k - 1) (co_left c)\<rparr> in
         if function_node n then
           fold (\<lambda>m. visit E path class_stack (fn_stack @ [string_field n ''name'']) m) (children n)
             (c\<lparr>co_functions := co_functions c @ [make_function E path class_stack fn_stack n]\<rparr>)
         else if is_kind ''ClassDef'' n then
           fold (\<lambda>m. visit E path (class_stack @ [string_field n ''name'']) fn_stack m) (children n)
             (c\<lparr>co_classes := co_classes c @ [make_class E path n]\<rparr>)
         else if is_kind ''Call'' n then
           fold (\<lambda>m. visit E path class_stack fn_stack m) (children n)
             (c\<lparr>co_calls := co_calls c @ [make_call E path n]\<rparr>)
         else if n_kind n \<in> {''Assign'', ''AnnAssign'', ''AugAssign''} then
           fold (\<lambda>m. visit E path class_stack fn_stack m) (children n)
             (c\<lparr>co_assignments := co_assignments c @ [make_assignment E path n]\<rparr>)
         else if n_kind n \<in> {''Import'', ''ImportFrom''} then
           c\<lparr>co_imports := co_imports c @ make_imports path n\<rparr>
         else fold (\<lambda>m. visit E path class_stack fn_stack m) (children n) c))"
  by pat_completeness auto
termination by (relation "measure (\<lambda>(E, path, cs, fs, n, c). size n)") (auto simp: child_size)

declare visit.simps [simp del]

definition collect :: "parser_env \<Rightarrow> string \<Rightarrow> py_node \<Rightarrow> nat option \<Rightarrow> collector" where
  "collect E path tree left = fold (\<lambda>m. visit E path [] [] m) (children tree) (new_collector left)"

section \<open>Parsing a file\<close>

record parsed_file =
  pf_path :: string
  pf_source :: string
  pf_sha256 :: string
  pf_line_count :: nat
  pf_ast :: "(string, ast_value) dict option"
  pf_functions :: "function_info list"
  pf_classes :: "class_info list"
  pf_imports :: "import_info list"
  pf_calls :: "call_info list"
  pf_assignments :: "assignment_info list"
  pf_error :: "parse_error_info option"

record syntax_error =
  se_lineno :: "nat option"
  se_offset :: "nat option"
  se_msg :: "string option"
  se_str :: string

text \<open>\<open>sp_left\<close> and \<open>sp_deep\<close> say when collecting and serializing a tree exceed the stack.\<close>

record source_env = parser_env +
  sp_parse :: "string \<Rightarrow> syntax_error + py_node"
  sp_sha :: "string \<Rightarrow> string"
  sp_left :: "py_node \<Rightarrow> nat option"
  sp_deep :: "py_node \<Rightarrow> bool"

definition parse_file :: "source_env \<Rightarrow> string \<Rightarrow> string \<Rightarrow> parsed_file" where
  "parse_file E path source =
     (let sha256 = sp_sha E source; line_count = length (splitlines source) in
      case sp_parse E source of
        Inl exc \<Rightarrow>
          \<lparr>pf_path = path, pf_source = source, pf_sha256 = sha256, pf_line_count = line_count, pf_ast = None,
           pf_functions = [], pf_classes = [], pf_imports = [], pf_calls = [], pf_assignments = [],
           pf_error = Some
             \<lparr>pe_lineno = (case se_lineno exc of Some l \<Rightarrow> l | None \<Rightarrow> 0),
              pe_offset = (case se_offset exc of Some l \<Rightarrow> l | None \<Rightarrow> 0),
              pe_message = (case se_msg exc of Some m \<Rightarrow> if m = [] then se_str exc else m | None \<Rightarrow> se_str exc)\<rparr>\<rparr>
      | Inr tree \<Rightarrow>
          (let c = collect (parser_env.truncate E) path tree (sp_left E tree) in
           \<lparr>pf_path = path, pf_source = source, pf_sha256 = sha256, pf_line_count = line_count,
            pf_ast = (if co_raised c \<or> sp_deep E tree then None else Some (ast_to_dict tree)),
            pf_functions = co_functions c, pf_classes = co_classes c, pf_imports = co_imports c,
            pf_calls = co_calls c, pf_assignments = co_assignments c, pf_error = None\<rparr>))"

section \<open>Building the code model\<close>

record skip_info =
  sk_path :: string
  sk_reason :: string

record snapshot_summary =
  sm_fetched_files :: nat
  sm_fetched_bytes :: nat
  sm_python_files :: nat
  sm_parse_failures :: nat
  sm_total_lines :: nat
  sm_function_count :: nat
  sm_class_count :: nat
  sm_call_count :: nat
  sm_import_count :: nat
  sm_assignment_count :: nat

record project_snapshot =
  sn_project_id :: string
  sn_repo_name :: string
  sn_language :: string
  sn_created_at :: py_datetime
  sn_files :: "parsed_file list"
  sn_ignored_paths :: "string list"
  sn_skipped_files :: "(string \<times> string) list"
  sn_summary :: snapshot_summary

record built_model =
  bl_language :: string
  bl_project_id :: string
  bl_files :: "parsed_file list"
  bl_module_map :: "(string, string) dict"
  bl_function_index :: "function_info list"
  bl_built_at :: py_datetime

definition py_module_name :: "string \<Rightarrow> string" where
  "py_module_name path =
     map (\<lambda>c. if c = CHR 0x2F \<or> c = CHR 0x5C then CHR 0x2E else c)
       (if endswith ''.py'' path then take (length path - 3) path else path)"

definition build_code_model :: "py_datetime \<Rightarrow> project_snapshot \<Rightarrow> built_model" where
  "build_code_model now sn =
     \<lparr>bl_language = sn_language sn, bl_project_id = sn_project_id sn, bl_files = sn_files sn,
      bl_module_map = dput_all (map (\<lambda>f. (py_module_name (pf_path f), pf_path f)) (sn_files sn)) [],
      bl_function_index = concat (map pf_functions (sn_files sn)), bl_built_at = now\<rparr>"

text \<open>The registry of builders, by language.\<close>

type_synonym builder = "py_datetime \<Rightarrow> project_snapshot \<Rightarrow> built_model"

definition register_builder :: "string \<Rightarrow> builder \<Rightarrow> (string, builder) dict \<Rightarrow> (string, builder) dict" where
  "register_builder language cls builders = dput language cls builders"

definition BUILDERS :: "(string, builder) dict" where
  "BUILDERS = register_builder ''python'' build_code_model []"

definition get_builder :: "(string, builder) dict \<Rightarrow> string \<Rightarrow> string + builder" where
  "get_builder builders language =
     (case dget builders language of
        Some b \<Rightarrow> Inr b
      | None \<Rightarrow> Inl (''no code model builder registered for language='' @ [CHR 0x27] @ language @ [CHR 0x27]))"

end
