(* ===== verification/Prepare.thy ===== *)
theory Prepare
  imports Fetch Parser Store
begin

text \<open>
  The PREPARE stage (backend/app/prepare/service.py): a repository is fetched, its Python files are parsed into a
  snapshot, and snapshot and code model are stored in the project's workspace directory.

  The two JSON files are rows of a workspace beside the disk; a codec stands for their format. Reading the bytes of a
  file, decoding them and the clock are arguments.
\<close>

record prepare_env =
  pr_fetch :: fetch_env
  pr_source :: source_env
  pr_walk_tree :: "string list \<Rightarrow> (string \<times> dir_entry) list option"
  pr_read_bytes :: "string list \<Rightarrow> string + string"
  pr_decode :: "string \<Rightarrow> string"
  pr_now :: py_datetime

text \<open>The workspace: files of the repositories, and the snapshot and the code model of each project directory.\<close>

record ('a, 'b) workspace =
  ws_disk :: disk
  ws_snapshots :: "(string list, 'a) dict"
  ws_code_models :: "(string list, 'b) dict"

record ('a, 'b) prepare_codecs =
  pc_snapshot :: "(project_snapshot, 'a) codec"
  pc_code_model :: "(built_model, 'b) codec"

datatype prepare_error = Prepare_error string | Prepare_security string | Prepare_exception string

definition is_binary :: "string \<Rightarrow> bool" where
  "is_binary raw \<longleftrightarrow> CHR 0x00 \<in> set (take 8192 raw)"

text \<open>The loop over the copied files; a file that cannot be read is left out.\<close>

definition parse_copied :: "prepare_env \<Rightarrow> string list \<Rightarrow> string \<Rightarrow> parsed_file option" where
  "parse_copied E repo_dir rel_path =
     (if \<not> endswith ''.py'' rel_path then None
      else
        (case pr_read_bytes E (repo_dir @ split_on (CHR 0x2F) rel_path) of
           Inl _ \<Rightarrow> None
         | Inr raw \<Rightarrow>
             Some (parse_file (pr_source E) rel_path
               (if is_binary raw then ''<binary content>'' @ [LF] else pr_decode E raw))))"

definition parse_all :: "prepare_env \<Rightarrow> string list \<Rightarrow> string list \<Rightarrow> parsed_file list" where
  "parse_all E repo_dir copied = List.map_filter (parse_copied E repo_dir) (sort copied)"

definition summarize :: "fetch_result \<Rightarrow> parsed_file list \<Rightarrow> snapshot_summary" where
  "summarize r fs =
     \<lparr>sm_fetched_files = length (fr_copied_files r), sm_fetched_bytes = fr_total_bytes r,
      sm_python_files = length fs, sm_parse_failures = length (filter (\<lambda>f. pf_error f \<noteq> None) fs),
      sm_total_lines = sum_list (map pf_line_count fs),
      sm_function_count = sum_list (map (\<lambda>f. length (pf_functions f)) fs),
      sm_class_count = sum_list (map (\<lambda>f. length (pf_classes f)) fs),
      sm_call_count = sum_list (map (\<lambda>f. length (pf_calls f)) fs),
      sm_import_count = sum_list (map (\<lambda>f. length (pf_imports f)) fs),
      sm_assignment_count = sum_list (map (\<lambda>f. length (pf_assignments f)) fs)\<rparr>"

definition build_snapshot ::
    "prepare_env \<Rightarrow> repo_spec \<Rightarrow> string \<Rightarrow> fetch_result \<Rightarrow> parsed_file list \<Rightarrow> project_snapshot" where
  "build_snapshot E spec project_id r fs =
     \<lparr>sn_project_id = project_id, sn_repo_name = rs_name spec, sn_language = rs_language spec,
      sn_created_at = pr_now E, sn_files = fs, sn_ignored_paths = fr_ignored_paths r, sn_skipped_files = fr_skipped r,
      sn_summary = summarize r fs\<rparr>"

text \<open>Building the snapshot of fetched files and storing it, then building the code model and storing it.\<close>

definition store_prepared ::
    "prepare_env \<Rightarrow> ('a, 'b) prepare_codecs \<Rightarrow> repo_spec \<Rightarrow> string \<Rightarrow> string list \<Rightarrow> fetch_result \<Rightarrow> ('a, 'b) workspace
     \<Rightarrow> (prepare_error + project_snapshot \<times> built_model) \<times> ('a, 'b) workspace" where
  "store_prepared E C spec project_id project_dir r w =
     (let snapshot = build_snapshot E spec project_id r (parse_all E (project_dir @ [''repo'']) (fr_copied_files r));
          w1 = w\<lparr>ws_snapshots := dput project_dir (dump (pc_snapshot C) snapshot) (ws_snapshots w)\<rparr>
      in case get_builder BUILDERS (rs_language spec) of
           Inl exc \<Rightarrow> (Inl (Prepare_exception exc), w1)
         | Inr build \<Rightarrow>
             (let code_model = build (pr_now E) snapshot in
              (Inr (snapshot, code_model),
               w1\<lparr>ws_code_models := dput project_dir (dump (pc_code_model C) code_model) (ws_code_models w1)\<rparr>)))"

definition prepare ::
    "prepare_env \<Rightarrow> ('a, 'b) prepare_codecs \<Rightarrow> string list \<Rightarrow> repo_spec \<Rightarrow> string \<Rightarrow> ('a, 'b) workspace
     \<Rightarrow> (prepare_error + project_snapshot \<times> built_model \<times> string list) \<times> ('a, 'b) workspace" where
  "prepare E C workspace_dir spec project_id w =
     (let project_dir = workspace_dir @ [''projects'', project_id] in
      case fetch (pr_fetch E) spec (project_dir @ [''repo'']) (ws_disk w) of
        (Inl (Security_error m), d) \<Rightarrow> (Inl (Prepare_security m), w\<lparr>ws_disk := d\<rparr>)
      | (Inl (Fetcher_error m), d) \<Rightarrow> (Inl (Prepare_error m), w\<lparr>ws_disk := d\<rparr>)
      | (Inl (Other_exception m), d) \<Rightarrow> (Inl (Prepare_exception m), w\<lparr>ws_disk := d\<rparr>)
      | (Inr r, d) \<Rightarrow>
          (case store_prepared E C spec project_id project_dir r (w\<lparr>ws_disk := d\<rparr>) of
             (Inl e, w') \<Rightarrow> (Inl e, w')
           | (Inr (snapshot, code_model), w') \<Rightarrow> (Inr (snapshot, code_model, project_dir), w')))"

text \<open>Preparing again from the files that are in the workspace; an exception of the walk is not translated.\<close>

definition reprepare ::
    "prepare_env \<Rightarrow> ('a, 'b) prepare_codecs \<Rightarrow> string \<Rightarrow> string \<Rightarrow> string \<Rightarrow> string \<Rightarrow> string \<Rightarrow> string list
     \<Rightarrow> ('a, 'b) workspace \<Rightarrow> (prepare_error + project_snapshot \<times> built_model \<times> string list) \<times> ('a, 'b) workspace" where
  "reprepare E C project_id name source_type language location project_dir w =
     (case pr_walk_tree E (project_dir @ [''repo'']) of
        None \<Rightarrow>
          (Inl (Prepare_error (''no workspace copy to re-prepare at '' @ abs_path (project_dir @ [''repo'']))), w)
      | Some tree \<Rightarrow>
          (case walk_in_place (fe_limits (pr_fetch E)) tree (ws_disk w) of
             (Inl (Security_error m), _) \<Rightarrow> (Inl (Prepare_security m), w)
           | (Inl (Fetcher_error m), _) \<Rightarrow> (Inl (Prepare_exception m), w)
           | (Inl (Other_exception m), _) \<Rightarrow> (Inl (Prepare_exception m), w)
           | (Inr r, _) \<Rightarrow>
               (let spec = \<lparr>rs_name = name, rs_source_type = source_type,
                            rs_location = (if location = [] then ''n/a'' else location), rs_language = language\<rparr>
                in case store_prepared E C spec project_id project_dir r w of
                     (Inl e, w') \<Rightarrow> (Inl e, w')
                   | (Inr (snapshot, code_model), w') \<Rightarrow> (Inr (snapshot, code_model, project_dir), w'))))"

text \<open>Loading: nothing when the file is missing or does not validate.\<close>

definition load_snapshot :: "('a, 'b) prepare_codecs \<Rightarrow> string list \<Rightarrow> ('a, 'b) workspace \<Rightarrow> project_snapshot option" where
  "load_snapshot C project_dir w = Option.bind (dget (ws_snapshots w) project_dir) (load (pc_snapshot C))"

definition load_code_model :: "('a, 'b) prepare_codecs \<Rightarrow> string list \<Rightarrow> ('a, 'b) workspace \<Rightarrow> built_model option" where
  "load_code_model C project_dir w = Option.bind (dget (ws_code_models w) project_dir) (load (pc_code_model C))"

end
