(* ===== verification/Fetch_Properties.thy ===== *)
theory Fetch_Properties
  imports Fetch
begin

text \<open>
  Repository ingestion proved: nothing is written outside the destination, successful ingestions respect the limits, a
  walk lists exactly the regular files of the tree, an archive with a hostile entry is never ingested. Then two places
  where the clone does less than it says.
\<close>

lemma next_step_simps [simp]:
  "next_step (None, s) f = f s" "next_step (Some e, s) f = (Some e, s)"
  by (simp_all add: next_step_def)

lemma next_step_cases:
  assumes "next_step r f = (x, t)"
  obtains (raised) e where "r = (Some e, t)" "x = Some e" | (went_on) s where "r = (None, s)" "f s = (x, t)"
  using assms by (cases r; cases "fst r") (auto simp: next_step_def split: option.splits)

section \<open>What a walk does\<close>

text \<open>The walk as a list of actions: a path passed over, a file skipped, a file to take.\<close>

datatype action = Pass string | Skip string string | Take "string list" nat string

definition file_action :: "limits \<Rightarrow> string list \<Rightarrow> string \<times> dir_entry \<Rightarrow> action list" where
  "file_action L rel_dir entry =
     (let rel = rel_dir @ [fst entry] in
      if is_ignored_file (fst entry) then [Pass (join ''/'' rel)]
      else (case snd entry of
              Link _ \<Rightarrow> [Skip (join ''/'' rel) ''symlink'']
            | No_stat exc \<Rightarrow> [Skip (join ''/'' rel) (''stat_error: '' @ exc)]
            | File bytes content \<Rightarrow>
                if max_file_size_bytes L < bytes then [Skip (join ''/'' rel) ''too_large''] else [Take rel bytes content]
            | Dir _ \<Rightarrow> []))"

function dir_actions :: "limits \<Rightarrow> string list \<Rightarrow> (string \<times> dir_entry) list \<Rightarrow> action list"
and subdir_actions :: "limits \<Rightarrow> string list \<Rightarrow> (string \<times> dir_entry) list \<Rightarrow> action list" where
  "dir_actions L rel_dir es =
     map (\<lambda>d. Pass (join ''/'' (rel_dir @ [d]))) (pruned_names es) @
     concat (map (file_action L rel_dir) (file_entries es)) @ subdir_actions L rel_dir es"
| "subdir_actions L rel_dir [] = []"
| "subdir_actions L rel_dir ((name, e) # es) =
     (case e of Dir sub \<Rightarrow> if is_ignored_dir name then [] else dir_actions L (rel_dir @ [name]) sub | _ \<Rightarrow> []) @
     subdir_actions L rel_dir es"
  by pat_completeness auto
termination
  by (relation "measure (\<lambda>x. case x of
        Inl (_, _, es) \<Rightarrow> 2 * size_list (size_prod (\<lambda>_. 0) size) es + 1
      | Inr (_, _, es) \<Rightarrow> 2 * size_list (size_prod (\<lambda>_. 0) size) es)") auto

fun perform :: "limits \<Rightarrow> string list option \<Rightarrow> action \<Rightarrow> ingest \<Rightarrow> fetch_error option \<times> ingest" where
  "perform L dest (Pass p) s = (None, ignore_path p s)"
| "perform L dest (Skip p reason) s = (None, skip_path p reason s)"
| "perform L dest (Take rel bytes content) s =
     next_step (count_file L ''repository'' bytes s)
       (\<lambda>s. next_step (case dest of None \<Rightarrow> (None, s) | Some d \<Rightarrow> put_file (d @ rel) content s) (list_copied rel))"

fun perform_all :: "limits \<Rightarrow> string list option \<Rightarrow> action list \<Rightarrow> ingest \<Rightarrow> fetch_error option \<times> ingest" where
  "perform_all L dest [] s = (None, s)"
| "perform_all L dest (a # as) s = next_step (perform L dest a s) (perform_all L dest as)"

lemma perform_all_append:
  "perform_all L dest (as @ bs) s = next_step (perform_all L dest as s) (perform_all L dest bs)"
proof (induction as arbitrary: s)
  case (Cons a as)
  then show ?case by (cases "perform L dest a s"; cases "fst (perform L dest a s)") auto
qed simp

lemma ingest_file_actions: "ingest_file L dest rel e s = perform_all L dest (file_action L rel e) s"
  by (cases "snd e") (auto simp: ingest_file_def file_action_def Let_def next_step_def split: prod.splits option.splits)

lemma ingest_files_actions:
  "ingest_files L dest rel es s = perform_all L dest (concat (map (file_action L rel) es)) s"
proof (induction es arbitrary: s)
  case (Cons e es)
  then have "ingest_files L dest rel es = perform_all L dest (concat (map (file_action L rel) es))" by blast
  then show ?case by (simp add: ingest_file_actions perform_all_append)
qed simp

lemma pruned_actions:
  "perform_all L dest (map (\<lambda>d. Pass (join ''/'' (rel @ [d]))) ds) s =
     (None, fold (\<lambda>d. ignore_path (join ''/'' (rel @ [d]))) ds s)"
  by (induction ds arbitrary: s) simp_all

lemma walk_actions:
  "walk_dir L dest rel es s = perform_all L dest (dir_actions L rel es) s"
  "walk_subdirs L dest rel es s = perform_all L dest (subdir_actions L rel es) s"
proof (induction L dest rel es s and L dest rel es s rule: walk_dir_walk_subdirs.induct)
  case (1 L dest rel es s)
  let ?s = "fold (\<lambda>d. ignore_path (join ''/'' (rel @ [d]))) (pruned_names es) s"
  have "walk_dir L dest rel es s = next_step (perform_all L dest (concat (map (file_action L rel) (file_entries es))) ?s)
      (walk_subdirs L dest rel es)"
    by (simp add: ingest_files_actions)
  also have "\<dots> = perform_all L dest (dir_actions L rel es) s" using 1
    by (auto simp: perform_all_append pruned_actions next_step_def split: prod.splits option.splits)
  finally show ?case .
next
  case (3 L dest rel name e es s)
  then show ?case
    by (auto simp: perform_all_append next_step_def split: dir_entry.splits prod.splits option.splits)
qed simp

declare walk_dir.simps [simp del] walk_subdirs.simps [simp del] dir_actions.simps [simp del] subdir_actions.simps [simp del]

section \<open>The limits\<close>

definition taken :: "action list \<Rightarrow> (string list \<times> nat) list" where
  "taken as = List.map_filter (\<lambda>a. case a of Take rel n _ \<Rightarrow> Some (rel, n) | _ \<Rightarrow> None) as"

lemma taken_simps [simp]:
  "taken [] = []" "taken (Pass p # as) = taken as" "taken (Skip p r # as) = taken as"
  "taken (Take rel n c # as) = (rel, n) # taken as"
  by (simp_all add: taken_def List.map_filter_def)

text \<open>The result once all actions have been performed.\<close>

definition with_actions :: "action list \<Rightarrow> ingest \<Rightarrow> ingest" where
  "with_actions as s = s\<lparr>ig_count := ig_count s + length (taken as), ig_result := (ig_result s)\<lparr>
     fr_copied_files := fr_copied_files (ig_result s) @ map (\<lambda>(rel, _). join ''/'' rel) (taken as),
     fr_ignored_paths := fr_ignored_paths (ig_result s) @ List.map_filter (\<lambda>a. case a of Pass p \<Rightarrow> Some p | _ \<Rightarrow> None) as,
     fr_skipped := fr_skipped (ig_result s) @ List.map_filter (\<lambda>a. case a of Skip p r \<Rightarrow> Some (p, r) | _ \<Rightarrow> None) as,
     fr_total_bytes := fr_total_bytes (ig_result s) + sum_list (map snd (taken as))\<rparr>\<rparr>"

definition within :: "limits \<Rightarrow> nat \<Rightarrow> nat \<Rightarrow> bool" where
  "within L n bytes \<longleftrightarrow> n \<le> max_files L \<and> bytes \<le> max_total_size_bytes L"

lemma perform_all_in_place:
  "(if within L (ig_count s + length (taken as)) (fr_total_bytes (ig_result s) + sum_list (map snd (taken as)))
      \<or> taken as = []
    then perform_all L None as s = (None, with_actions as s)
    else \<exists>msg t. perform_all L None as s = (Some (Fetcher_error msg), t) \<and> ig_disk t = ig_disk s)"
proof (induction as arbitrary: s)
  case Nil
  then show ?case by (simp add: with_actions_def List.map_filter_def)
next
  case (Cons a as)
  show ?case
  proof (cases a)
    case (Take rel n c)
    define u where "u = snd (list_copied rel (snd (count_file L ''repository'' n s)))"
    show ?thesis
    proof (cases "within L (ig_count s + 1) (fr_total_bytes (ig_result s) + n)")
      case True
      then have step: "perform L None a s = (None, u)" and u: "ig_count u = ig_count s + 1"
          "fr_total_bytes (ig_result u) = fr_total_bytes (ig_result s) + n" "ig_disk u = ig_disk s"
          "with_actions as u = with_actions (a # as) s"
        by (auto simp: u_def Take count_file_def list_copied_def within_def with_actions_def List.map_filter_def)
      show ?thesis using Cons.IH[of u] True step u
        by (auto simp: Take within_def add.assoc split: if_splits)
    next
      case False
      then have "\<exists>msg t. perform L None a s = (Some (Fetcher_error msg), t) \<and> ig_disk t = ig_disk s"
        by (cases "max_files L < Suc (ig_count s)") (simp_all add: Take count_file_def within_def Let_def not_le)
      moreover have "\<not> within L (ig_count s + length (taken (a # as)))
          (fr_total_bytes (ig_result s) + sum_list (map snd (taken (a # as))))"
        using False by (auto simp: Take within_def)
      ultimately show ?thesis by (auto simp: Take)
    qed
  next
    case (Pass p)
    have "with_actions as (ignore_path p s) = with_actions (a # as) s"
      by (simp add: Pass with_actions_def List.map_filter_def)
    then show ?thesis using Cons.IH[of "ignore_path p s"] by (auto simp: Pass split: if_splits)
  next
    case (Skip p r)
    have "with_actions as (skip_path p r s) = with_actions (a # as) s"
      by (simp add: Skip with_actions_def List.map_filter_def)
    then show ?thesis using Cons.IH[of "skip_path p r s"] by (auto simp: Skip split: if_splits)
  qed
qed

section \<open>Which files a walk takes\<close>

text \<open>The entry of a tree at a path.\<close>

inductive entry_at :: "(string \<times> dir_entry) list \<Rightarrow> string list \<Rightarrow> dir_entry \<Rightarrow> bool" where
  entry_here: "(name, e) \<in> set es \<Longrightarrow> entry_at es [name] e"
| entry_below: "(name, Dir sub) \<in> set es \<Longrightarrow> entry_at sub path e \<Longrightarrow> entry_at es (name # path) e"

inductive_cases entry_atE: "entry_at es path e"

lemma entry_at_not_Nil [simp]: "\<not> entry_at es [] e"
  by (auto elim: entry_at.cases)

text \<open>The regular files of a tree that are small enough and have no ignored name.\<close>

definition regular_files :: "limits \<Rightarrow> (string \<times> dir_entry) list \<Rightarrow> (string list \<times> nat) set" where
  "regular_files L es = {(rel, n). \<exists>content. entry_at es rel (File n content) \<and> n \<le> max_file_size_bytes L \<and>
     \<not> is_ignored_file (last rel) \<and> (\<forall>d \<in> set (butlast rel). \<not> is_ignored_dir d)}"

lemma taken_append [simp]: "taken (as @ bs) = taken as @ taken bs"
  by (simp add: taken_def List.map_filter_def)

lemma taken_pass [simp]: "taken (map (\<lambda>d. Pass (f d)) ds) = []"
  by (induction ds) simp_all

lemma taken_concat [simp]: "taken (concat xs) = concat (map taken xs)"
  by (induction xs) simp_all

lemma taken_file_action:
  "(p, n) \<in> set (taken (file_action L rel entry)) \<longleftrightarrow>
     p = rel @ [fst entry] \<and> \<not> is_ignored_file (fst entry) \<and> n \<le> max_file_size_bytes L \<and> (\<exists>c. snd entry = File n c)"
  by (cases "snd entry") (auto simp: file_action_def Let_def)

lemma regular_files_cons:
  "(p, n) \<in> regular_files L es \<longleftrightarrow>
     (\<exists>name c. (name, File n c) \<in> set es \<and> p = [name] \<and> n \<le> max_file_size_bytes L \<and> \<not> is_ignored_file name) \<or>
     (\<exists>name sub q. (name, Dir sub) \<in> set es \<and> \<not> is_ignored_dir name \<and> p = name # q \<and> (q, n) \<in> regular_files L sub)"
    (is "?lhs \<longleftrightarrow> ?rhs")
proof
  assume ?lhs
  then obtain c where c: "entry_at es p (File n c)" "n \<le> max_file_size_bytes L" "\<not> is_ignored_file (last p)"
      "\<forall>d \<in> set (butlast p). \<not> is_ignored_dir d"
    by (auto simp: regular_files_def)
  from c(1) show ?rhs
  proof cases
    case (entry_below name sub q)
    then have "q \<noteq> []" by auto
    then have "(q, n) \<in> regular_files L sub" "\<not> is_ignored_dir name"
      using c entry_below by (auto simp: regular_files_def)
    then show ?thesis using entry_below by blast
  qed (use c in auto)
next
  assume ?rhs
  then show ?lhs
  proof (elim disjE exE conjE)
    fix name sub q
    assume h: "(name, Dir sub) \<in> set es" "\<not> is_ignored_dir name" "p = name # q" "(q, n) \<in> regular_files L sub"
    then obtain c where c: "entry_at sub q (File n c)" "n \<le> max_file_size_bytes L" "\<not> is_ignored_file (last q)"
        "\<forall>d \<in> set (butlast q). \<not> is_ignored_dir d"
      by (auto simp: regular_files_def)
    then have "q \<noteq> []" by auto
    then show ?lhs using h c by (auto simp: regular_files_def intro: entry_below)
  qed (auto simp: regular_files_def intro: entry_here)
qed

lemma taken_dir:
  "set (taken (dir_actions L rel es)) = (\<lambda>(p, n). (rel @ p, n)) ` regular_files L es"
  "set (taken (subdir_actions L rel es)) =
     {(rel @ name # q, n) |name sub q n. (name, Dir sub) \<in> set es \<and> \<not> is_ignored_dir name \<and> (q, n) \<in> regular_files L sub}"
proof (induction L rel es and L rel es rule: dir_actions_subdir_actions.induct)
  case (1 L rel es)
  have split: "set (taken (dir_actions L rel es)) =
      (\<Union>e \<in> {e \<in> set es. \<not> is_dirname (snd e)}. set (taken (file_action L rel e))) \<union> set (taken (subdir_actions L rel es))"
    by (auto simp: dir_actions.simps file_entries_def)
  have "(p, n) \<in> set (taken (dir_actions L rel es)) \<longleftrightarrow> (\<exists>q. p = rel @ q \<and> (q, n) \<in> regular_files L es)" for p n
  proof -
    have "(p, n) \<in> set (taken (dir_actions L rel es)) \<longleftrightarrow>
        (\<exists>e \<in> set es. \<not> is_dirname (snd e) \<and> (p, n) \<in> set (taken (file_action L rel e))) \<or>
        (\<exists>name sub q. p = rel @ name # q \<and> (name, Dir sub) \<in> set es \<and> \<not> is_ignored_dir name \<and> (q, n) \<in> regular_files L sub)"
      unfolding split 1 by blast
    also have "\<dots> \<longleftrightarrow> (\<exists>q. p = rel @ q \<and> (q, n) \<in> regular_files L es)"
    proof
      assume "(\<exists>e \<in> set es. \<not> is_dirname (snd e) \<and> (p, n) \<in> set (taken (file_action L rel e))) \<or>
        (\<exists>name sub q. p = rel @ name # q \<and> (name, Dir sub) \<in> set es \<and> \<not> is_ignored_dir name \<and> (q, n) \<in> regular_files L sub)"
      then show "\<exists>q. p = rel @ q \<and> (q, n) \<in> regular_files L es"
        unfolding taken_file_action regular_files_cons[of _ n L es] by fastforce
    next
      assume "\<exists>q. p = rel @ q \<and> (q, n) \<in> regular_files L es"
      then obtain q where q: "p = rel @ q" "(q, n) \<in> regular_files L es" by blast
      from iffD1[OF regular_files_cons q(2)]
      show "(\<exists>e \<in> set es. \<not> is_dirname (snd e) \<and> (p, n) \<in> set (taken (file_action L rel e))) \<or>
        (\<exists>name sub q. p = rel @ name # q \<and> (name, Dir sub) \<in> set es \<and> \<not> is_ignored_dir name \<and> (q, n) \<in> regular_files L sub)"
      proof (elim disjE exE conjE)
        fix name c
        assume "(name, File n c) \<in> set es" "q = [name]" "n \<le> max_file_size_bytes L" "\<not> is_ignored_file name"
        then show ?thesis unfolding taken_file_action q(1)
          by (intro disjI1 bexI[of _ "(name, File n c)"]) auto
      qed (auto simp: q(1))
    qed
    finally show ?thesis .
  qed
  then show ?case by force
next
  case (3 L rel name e es)
  have here: "set (taken (case e of Dir sub \<Rightarrow> if is_ignored_dir name then [] else dir_actions L (rel @ [name]) sub | _ \<Rightarrow> [])) =
      {(rel @ name # q, n) |sub q n. e = Dir sub \<and> \<not> is_ignored_dir name \<and> (q, n) \<in> regular_files L sub}"
  proof (cases e)
    case (Dir sub)
    show ?thesis
    proof (cases "is_ignored_dir name")
      case False
      then show ?thesis using 3(1)[OF Dir] by (force simp: Dir)
    qed (simp add: Dir)
  qed simp_all
  have rest: "set (taken (subdir_actions L rel es)) =
      {(rel @ name # q, n) |name sub q n. (name, Dir sub) \<in> set es \<and> \<not> is_ignored_dir name \<and> (q, n) \<in> regular_files L sub}"
    by (rule 3(2))
  show ?case unfolding subdir_actions.simps taken_append set_append here rest by auto
qed (simp add: subdir_actions.simps)

text \<open>C28. Walking a tree takes exactly its regular files that are small enough, have no ignored name and lie below no
  ignored directory or link: when they respect both limits the result lists them with the sum of their sizes, and
  otherwise the walk fails; the disk is as before.
\<close>

theorem walk_lists_regular_files:
  "\<exists>files. set files = regular_files L es \<and>
     (if files = [] \<or> within L (length files) (sum_list (map snd files))
      then \<exists>r. walk_in_place L es d = (Inr r, d) \<and> fr_copied_files r = map (\<lambda>(rel, _). join ''/'' rel) files \<and>
        fr_total_bytes r = sum_list (map snd files)
      else \<exists>msg. walk_in_place L es d = (Inl (Fetcher_error msg), d))"
proof (intro exI conjI)
  let ?as = "dir_actions L [] es"
  show "set (taken ?as) = regular_files L es" using taken_dir(1)[of L "[]" es] by simp
  show "if taken ?as = [] \<or> within L (length (taken ?as)) (sum_list (map snd (taken ?as)))
      then \<exists>r. walk_in_place L es d = (Inr r, d) \<and> fr_copied_files r = map (\<lambda>(rel, _). join ''/'' rel) (taken ?as) \<and>
        fr_total_bytes r = sum_list (map snd (taken ?as))
      else \<exists>msg. walk_in_place L es d = (Inl (Fetcher_error msg), d)"
    using perform_all_in_place[of L "start_ingest d" ?as]
    by (auto simp: walk_in_place_def walk_actions outcome_def start_ingest_def empty_result_def with_actions_def
        split: if_splits)
qed

section \<open>Where files are written\<close>

text \<open>The disk changes at paths of a set only.\<close>

definition only_changes :: "(string list \<Rightarrow> bool) \<Rightarrow> disk \<Rightarrow> disk \<Rightarrow> bool" where
  "only_changes P d d' \<longleftrightarrow> (\<forall>p. dget d' p \<noteq> dget d p \<longrightarrow> P p)"

lemma only_changes_refl [simp]: "only_changes P d d"
  by (simp add: only_changes_def)

lemma only_changes_trans: "only_changes P d d' \<Longrightarrow> only_changes P d' d'' \<Longrightarrow> only_changes P d d''"
  unfolding only_changes_def by metis

lemma put_file_changes: "put_file t c s = (e, s') \<Longrightarrow> P t \<Longrightarrow> only_changes P (ig_disk s) (ig_disk s')"
  by (auto simp: put_file_def write_file_def only_changes_def split: if_splits prod.splits)

lemma count_file_disk: "count_file L what n s = (e, s') \<Longrightarrow> ig_disk s' = ig_disk s"
  by (auto simp: count_file_def Let_def split: if_splits)

lemma next_step_changes:
  assumes "next_step r f = (e, t)"
    and "only_changes P d (ig_disk (snd r))"
    and "\<And>s e t. r = (None, s) \<Longrightarrow> f s = (e, t) \<Longrightarrow> only_changes P (ig_disk s) (ig_disk t)"
  shows "only_changes P d (ig_disk t)"
  using assms(1)
proof (cases rule: next_step_cases)
  case (raised x)
  then show ?thesis using assms(2) by simp
next
  case (went_on s)
  then show ?thesis using assms(2,3) only_changes_trans by fastforce
qed

lemma taking_changes:
  assumes "next_step (count_file L what n s) f = (e, t)"
    and "\<And>s e t. f s = (e, t) \<Longrightarrow> only_changes P (ig_disk s) (ig_disk t)"
  shows "only_changes P (ig_disk s) (ig_disk t)"
  using assms(1)
proof (rule next_step_changes)
  show "only_changes P (ig_disk s) (ig_disk (snd (count_file L what n s)))"
    by (simp add: count_file_disk[OF prod.collapse[symmetric]])
qed (rule assms(2))

lemma list_copied_changes: "list_copied rel s = (e, t) \<Longrightarrow> only_changes P (ig_disk s) (ig_disk t)"
  by (simp add: list_copied_def) auto

lemma storing_changes:
  "next_step (put_file target c s) (list_copied rel) = (e, t) \<Longrightarrow> P target \<Longrightarrow> only_changes P (ig_disk s) (ig_disk t)"
  by (erule next_step_changes) (auto intro: put_file_changes[OF prod.collapse[symmetric]] list_copied_changes)

lemma perform_all_changes:
  "perform_all L dest as s = (e, t) \<Longrightarrow>
   only_changes (\<lambda>p. case dest of None \<Rightarrow> False | Some d \<Rightarrow> prefix d p) (ig_disk s) (ig_disk t)"
    (is "_ \<Longrightarrow> only_changes ?P _ _")
proof (induction as arbitrary: s e t)
  case (Cons a as)
  have one: "only_changes ?P (ig_disk s) (ig_disk (snd (perform L dest a s)))"
  proof (cases a)
    case (Take rel n c)
    have store: "only_changes ?P (ig_disk u) (ig_disk v)"
      if "next_step (case dest of None \<Rightarrow> (None, u) | Some d \<Rightarrow> put_file (d @ rel) c u) (list_copied rel) = (x, v)" for u v x
    proof (cases dest)
      case (Some d)
      then show ?thesis using storing_changes[of "d @ rel" c u rel x v ?P] that by simp
    qed (use that list_copied_changes in auto)
    show ?thesis unfolding Take perform.simps
      by (rule taking_changes[OF prod.collapse[symmetric]]) (rule store)
  qed simp_all
  show ?case using Cons.prems unfolding perform_all.simps
    by (rule next_step_changes) (use one Cons.IH in auto)
qed simp

lemma zip_step_changes:
  assumes "zip_step py_repr resolve L dest e s = (x, t)"
  shows "only_changes (prefix (resolve dest)) (ig_disk s) (ig_disk t)"
proof (cases "zip_verdict py_repr L e")
  case (Accept parts)
  have "only_changes (prefix (resolve dest)) (ig_disk u) (ig_disk v)"
    if "extract_entry py_repr resolve dest e parts u = (y, v)" for u y v
  proof (cases "prefix (resolve dest) (resolve (dest @ parts))")
    case True
    show ?thesis
    proof (cases "ze_data e")
      case (Broken exc part)
      have "next_step (put_file (resolve (dest @ parts)) part u) (\<lambda>s. (Some (Other_exception exc), s)) = (y, v)"
        using that True Broken by (simp add: extract_entry_def Let_def)
      then show ?thesis
        by (rule next_step_changes) (auto intro: put_file_changes[OF prod.collapse[symmetric]] True)
    qed (use that True storing_changes in \<open>auto simp: extract_entry_def Let_def\<close>)
  qed (use that in \<open>auto simp: extract_entry_def Let_def\<close>)
  then show ?thesis using assms taking_changes by (simp add: zip_step_def Accept)
qed (use assms in \<open>auto simp: zip_step_def\<close>)

lemma zip_loop_changes:
  "zip_loop py_repr resolve L dest es s = (x, t) \<Longrightarrow> only_changes (prefix (resolve dest)) (ig_disk s) (ig_disk t)"
proof (induction es arbitrary: s x t)
  case (Cons e es)
  show ?case using Cons.prems unfolding zip_loop.simps
    by (rule next_step_changes) (use zip_step_changes[OF prod.collapse[symmetric]] Cons.IH in auto)
qed simp

lemma outcome_disk: "outcome r = (x, d) \<Longrightarrow> d = ig_disk (snd r)"
  by (auto simp: outcome_def split: prod.splits option.splits)

lemma walk_in_place_disk: "walk_in_place L es d = (x, d') \<Longrightarrow> d' = d"
  using perform_all_changes[where dest = None and L = L and as = "dir_actions L [] es" and s = "start_ingest d",
      OF prod.collapse[symmetric]] perform_all_in_place[of L "start_ingest d" "dir_actions L [] es"]
  by (auto simp: walk_in_place_def walk_actions outcome_def start_ingest_def with_actions_def split: if_splits)

lemma fetch_changes:
  assumes "fetch E spec dest d = (result, d')" and "dget d' path \<noteq> dget d path"
  shows "prefix dest path \<or> rs_source_type spec = ''zip'' \<and> prefix (fe_resolve E dest) path"
proof -
  consider (dir) "rs_source_type spec = ''directory''" | (zip) "rs_source_type spec = ''zip''"
    | (other) "rs_source_type spec \<noteq> ''directory''" "rs_source_type spec \<noteq> ''zip''" by blast
  then show ?thesis
  proof cases
    case dir
    then obtain es where "outcome (walk_dir (fe_limits E) (Some dest) [] es (start_ingest d)) = (result, d')"
      using assms by (auto simp: fetch_def fetch_directory_def split: option.splits)
    from outcome_disk[OF this] have "only_changes (prefix dest) d d'"
      using perform_all_changes[where L = "fe_limits E" and dest = "Some dest" and s = "start_ingest d",
          OF prod.collapse[symmetric]]
      by (fastforce simp: walk_actions start_ingest_def)
    then show ?thesis using assms(2) by (auto simp: only_changes_def)
  next
    case zip
    show ?thesis
    proof (cases "\<exists>es. fe_archive E (rs_location spec) = Some (Inr es)")
      case True
      then obtain es where
        "outcome (zip_loop (fe_repr E) (fe_resolve E) (fe_limits E) dest es (start_ingest d)) = (result, d')"
        using assms zip by (auto simp: fetch_def fetch_zip_def)
      from outcome_disk[OF this] have "only_changes (prefix (fe_resolve E dest)) d d'"
        using zip_loop_changes[where py_repr = "fe_repr E" and resolve = "fe_resolve E" and L = "fe_limits E" and
            dest = dest and es = es and s = "start_ingest d", OF prod.collapse[symmetric]]
        by (simp add: start_ingest_def)
      then show ?thesis using assms(2) zip by (auto simp: only_changes_def)
    next
      case False
      then have "d' = d" using assms(1) zip by (auto simp: fetch_def fetch_zip_def split: option.splits sum.splits)
      then show ?thesis using assms(2) by simp
    qed
  next
    case other
    then have "d' = d" using assms(1) walk_in_place_disk
      by (auto simp: fetch_def fetch_git_def split: if_splits git_outcome.splits)
    then show ?thesis using assms(2) by simp
  qed
qed


section \<open>Archives\<close>

text \<open>An accepted entry has a plain relative path.\<close>

lemma zip_accepted:
  assumes "zip_verdict py_repr L e = Accept parts"
  shows "parts \<noteq> []" "''..'' \<notin> set parts" "\<forall>p \<in> set parts. p \<noteq> [] \<and> p \<noteq> ''.'' \<and> CHR 0x2F \<notin> set p"
    "\<forall>d \<in> set (butlast parts). \<not> is_ignored_dir d" "\<not> is_ignored_file (last parts)"
    "ze_file_size e \<le> max_file_size_bytes L"
proof -
  define name where "name = map (\<lambda>c. if c = CHR 0x5C then CHR 0x2F else c) (ze_filename e)"
  have parts: "parts = zip_parts name" and ok: "parts \<noteq> []" "''..'' \<notin> set parts"
      "first_index is_ignored_dir (butlast parts) = None" "\<not> is_ignored_file (last parts)"
      "ze_file_size e \<le> max_file_size_bytes L"
    using assms by (auto simp: zip_verdict_def Let_def name_def split: if_splits)
  show "parts \<noteq> []" "''..'' \<notin> set parts" "\<not> is_ignored_file (last parts)" "ze_file_size e \<le> max_file_size_bytes L"
    by (rule ok)+
  show "\<forall>p \<in> set parts. p \<noteq> [] \<and> p \<noteq> ''.'' \<and> CHR 0x2F \<notin> set p"
    by (auto simp: parts zip_parts_def dest: split_on_no_sep)
  have "first_index P xs = None \<Longrightarrow> \<forall>x \<in> set xs. \<not> P x" for P and xs :: "string list"
    by (induction xs) (auto split: if_splits)
  then show "\<forall>d \<in> set (butlast parts). \<not> is_ignored_dir d" using ok(3) .
qed

definition accepted :: "(string \<Rightarrow> string) \<Rightarrow> limits \<Rightarrow> zip_entry list \<Rightarrow> (string list \<times> zip_entry) list" where
  "accepted py_repr L es =
     List.map_filter (\<lambda>e. case zip_verdict py_repr L e of Accept parts \<Rightarrow> Some (parts, e) | _ \<Rightarrow> None) es"

lemma accepted_Nil [simp]: "accepted py_repr L [] = []"
  by (simp add: accepted_def List.map_filter_def)

lemma accepted_Cons:
  "accepted py_repr L (e # es) =
     (case zip_verdict py_repr L e of Accept parts \<Rightarrow> [(parts, e)] | _ \<Rightarrow> []) @ accepted py_repr L es"
  by (simp add: accepted_def List.map_filter_def split: zip_verdict.splits)

text \<open>What a successful step has done.\<close>

definition zip_progress ::
    "(string list \<Rightarrow> string list) \<Rightarrow> limits \<Rightarrow> string list \<Rightarrow> (string list \<times> zip_entry) list \<Rightarrow> ingest \<Rightarrow> ingest \<Rightarrow> bool" where
  "zip_progress resolve L dest new s t \<longleftrightarrow>
     ig_count t = ig_count s + length new \<and>
     fr_copied_files (ig_result t) = fr_copied_files (ig_result s) @ map (\<lambda>(parts, _). join ''/'' parts) new \<and>
     fr_total_bytes (ig_result t) = fr_total_bytes (ig_result s) + sum_list (map (\<lambda>(_, e). ze_file_size e) new) \<and>
     (new \<noteq> [] \<longrightarrow> within L (ig_count t) (fr_total_bytes (ig_result t))) \<and>
     (\<forall>(parts, e) \<in> set new. prefix (resolve dest) (resolve (dest @ parts)) \<and> (\<exists>c. ze_data e = Content c)) \<and>
     ig_disk t = fold (\<lambda>(parts, e). case ze_data e of Content c \<Rightarrow> dput (resolve (dest @ parts)) c | _ \<Rightarrow> id) new (ig_disk s)"

lemma zip_step_progress:
  assumes "zip_step py_repr resolve L dest e s = (None, t)"
  shows "zip_progress resolve L dest (case zip_verdict py_repr L e of Accept parts \<Rightarrow> [(parts, e)] | _ \<Rightarrow> []) s t"
    "\<forall>msg. zip_verdict py_repr L e \<noteq> Reject msg"
proof -
  show "\<forall>msg. zip_verdict py_repr L e \<noteq> Reject msg" using assms by (auto simp: zip_step_def)
  show "zip_progress resolve L dest (case zip_verdict py_repr L e of Accept parts \<Rightarrow> [(parts, e)] | _ \<Rightarrow> []) s t"
  proof (cases "zip_verdict py_repr L e")
    case (Accept parts)
    then have "next_step (count_file L ''zip'' (ze_file_size e) s) (extract_entry py_repr resolve dest e parts) = (None, t)"
      using assms by (simp add: zip_step_def)
    then show ?thesis
    proof (cases rule: next_step_cases)
      case (went_on u)
      obtain c v where c: "ze_data e = Content c" "prefix (resolve dest) (resolve (dest @ parts))"
          "put_file (resolve (dest @ parts)) c u = (None, v)" "list_copied parts v = (None, t)"
        using went_on(2) by (auto simp: extract_entry_def Let_def next_step_def
            split: if_splits entry_data.splits prod.splits option.splits)
      have u: "ig_count u = ig_count s + 1" "ig_disk u = ig_disk s"
          "ig_result u = (ig_result s)\<lparr>fr_total_bytes := fr_total_bytes (ig_result s) + ze_file_size e\<rparr>"
          "within L (ig_count u) (fr_total_bytes (ig_result u))"
        using went_on(1) by (auto simp: count_file_def Let_def within_def split: if_splits)
      have v: "v = u\<lparr>ig_disk := dput (resolve (dest @ parts)) c (ig_disk u)\<rparr>"
        using c(3) by (auto simp: put_file_def write_file_def split: if_splits)
      show ?thesis using c u v by (auto simp: zip_progress_def Accept list_copied_def)
    qed auto
  qed (use assms in \<open>auto simp: zip_step_def zip_progress_def\<close>)
qed

lemma zip_progress_trans:
  assumes "zip_progress resolve L dest new s t" and "zip_progress resolve L dest new' t u"
  shows "zip_progress resolve L dest (new @ new') s u"
  using assms unfolding zip_progress_def by (cases "new' = []") auto

lemma zip_loop_progress:
  "zip_loop py_repr resolve L dest es s = (None, t) \<Longrightarrow>
   zip_progress resolve L dest (accepted py_repr L es) s t \<and> (\<forall>e \<in> set es. \<forall>msg. zip_verdict py_repr L e \<noteq> Reject msg)"
proof (induction es arbitrary: s)
  case Nil
  then show ?case by (simp add: zip_progress_def)
next
  case (Cons e es)
  from Cons.prems have "next_step (zip_step py_repr resolve L dest e s) (zip_loop py_repr resolve L dest es) = (None, t)"
    by simp
  then show ?case
  proof (cases rule: next_step_cases)
    case (went_on u)
    then show ?thesis using zip_step_progress[OF went_on(1)] Cons.IH[OF went_on(2)] zip_progress_trans
      by (auto simp: accepted_Cons)
  qed auto
qed


section \<open>Copying and walking agree\<close>

lemma perform_all_copy:
  "perform_all L (Some dest) as s = (None, t) \<Longrightarrow>
   perform_all L None as (s\<lparr>ig_disk := d\<rparr>) = (None, t\<lparr>ig_disk := d\<rparr>)"
proof (induction as arbitrary: s)
  case (Cons a as)
  from Cons.prems obtain u where u: "perform L (Some dest) a s = (None, u)" "perform_all L (Some dest) as u = (None, t)"
    by (auto elim: next_step_cases)
  have "perform L None a (s\<lparr>ig_disk := d\<rparr>) = (None, u\<lparr>ig_disk := d\<rparr>)"
  proof (cases a)
    case (Take rel n c)
    then show ?thesis using u(1)
      by (auto simp: count_file_def put_file_def list_copied_def next_step_def Let_def split: if_splits prod.splits option.splits)
  qed (use u(1) in auto)
  then show ?case using Cons.IH[OF u(2)] by simp
qed simp

text \<open>A directory that was copied has the result that walking it in place gives.\<close>

lemma copy_result_is_walk_result:
  assumes "fetch_directory L location (Some es) dest d = (Inr r, d')"
  shows "walk_in_place L es x = (Inr r, x)"
proof -
  obtain t where t: "perform_all L (Some dest) (dir_actions L [] es) (start_ingest d) = (None, t)" "ig_result t = r"
    using assms by (auto simp: fetch_directory_def outcome_def walk_actions split: prod.splits option.splits)
  have "(start_ingest d)\<lparr>ig_disk := x\<rparr> = start_ingest x" by (simp add: start_ingest_def)
  then show ?thesis using perform_all_copy[OF t(1), of x] t(2)
    by (simp add: walk_in_place_def walk_actions outcome_def)
qed

section \<open>Clones\<close>

lemma credentials_need_scheme:
  assumes "first_match url_credentials_re (At b v) \<noteq> None"
  shows "startswith ''://'' v"
proof -
  have "matches url_credentials_re (At b v) \<noteq> []" using assms by (auto simp: first_match.simps split: list.splits)
  then have "matches (lit ''://'') (At b v) \<noteq> []" by (auto simp: url_credentials_re_def simp del: lit.simps)
  then show ?thesis by (auto simp: startswith_def split: list.splits if_splits)
qed

lemma redact_nothing:
  assumes "\<not> contains ''://'' v"
  shows "redact_credentials v = v"
  unfolding redact_credentials_def
proof (rule re_sub_no_match)
  fix u w
  assume v: "v = u @ w"
  have "startswith ''://'' w \<Longrightarrow> contains ''://'' (u @ w)" by (induction u) (cases w; simp add: startswith_def)+
  then show "first_match url_credentials_re (At (rev u @ []) w) = None"
    using assms v credentials_need_scheme by blast
qed

text \<open>
  The error text is cut to its last 500 characters before credentials are redacted: when the cut falls inside a URL,
  the text keeps the token.
\<close>

lemma cut_before_redaction:
  assumes "strip err = u @ v" and "length v = 500" and "err \<noteq> []" and "\<not> contains ''://'' v" and "code \<noteq> 0"
    and "\<not> list_ex (strict_prefix dest) (dkeys d)"
  shows "fst (fetch_git L (\<lambda>_. Git_done code out err tree) location dest d) =
    Inl (Fetcher_error (''git clone failed: '' @ v))"
  using assms by (simp add: fetch_git_def clone_error_detail_def Let_def redact_nothing)

lemma contains_x: "\<not> contains ''://'' (replicate n CHR ''x'')"
  by (induction n) (simp_all add: startswith_def)

lemma strip_text: "s \<noteq> [] \<Longrightarrow> \<not> is_space (hd s) \<Longrightarrow> \<not> is_space (last s) \<Longrightarrow> strip s = s"
  by (simp add: strip_def hd_rev dropWhile_eq_self_iff[THEN iffD2])

lemma token_in_error_text:
  "fst (fetch_git L (\<lambda>_. Git_done 128 [] (''fatal: https://user:'' @ ''token@host/'' @ replicate 489 CHR ''x'') []) l dest []) =
     Inl (Fetcher_error (''git clone failed: '' @ ''token@host/'' @ replicate 489 CHR ''x''))"
proof (rule cut_before_redaction)
  have x: "n \<noteq> 0 \<Longrightarrow> last (replicate n CHR ''x'') = CHR ''x''" for n by (induction n) auto
  show "strip (''fatal: https://user:'' @ ''token@host/'' @ replicate 489 CHR ''x'') =
      ''fatal: https://user:'' @ (''token@host/'' @ replicate 489 CHR ''x'')"
    by (rule strip_text) (simp_all add: is_space_def x last_append)
  show "\<not> contains ''://'' (''token@host/'' @ replicate 489 CHR ''x'')"
    using contains_x[of 489] by (simp add: startswith_def)
qed simp_all

section \<open>Samples\<close>

definition sample_limits :: limits where
  "sample_limits = \<lparr>max_file_size_bytes = 10, max_total_size_bytes = 15, max_files = 2, git_clone_timeout_seconds = 60\<rparr>"

definition sample_entry :: "string \<Rightarrow> nat \<Rightarrow> string \<Rightarrow> zip_entry" where
  "sample_entry name n content =
     \<lparr>ze_filename = name, ze_external_attr = 0x81A40000, ze_flag_bits = 0, ze_file_size = n, ze_data = Content content\<rparr>"

lemma sample_archive_ingested:
  "fetch_zip (\<lambda>x. x) (\<lambda>p. p) sample_limits ''l'' (Some (Inr
       [sample_entry ''a/'' 0 [], sample_entry ''a/b.py'' 5 ''x = 1'', sample_entry ''.git/config'' 3 ''cfg'',
        sample_entry ''a/big'' 11 ''-''])) [''w''] [] =
     (Inr \<lparr>fr_copied_files = [''a/b.py''], fr_ignored_paths = [''.git''], fr_skipped = [(''a/big'', ''too_large'')],
        fr_total_bytes = 5\<rparr>, [([''w'', ''a'', ''b.py''], ''x = 1'')])"
  by code_simp


definition sample_fetch :: fetch_env where
  "sample_fetch =
     \<lparr>fe_limits = sample_limits, fe_repr = (\<lambda>x. x), fe_resolve = (\<lambda>p. p), fe_directory = (\<lambda>_. None),
      fe_archive = (\<lambda>_. Some (Inr [sample_entry ''a/b.py'' 5 ''x = 1'', sample_entry ''../evil'' 1 ''!''])),
      fe_git = (\<lambda>_. Git_missing)\<rparr>"

lemma sample_fetch_stopped:
  "fetch sample_fetch \<lparr>rs_name = ''n'', rs_source_type = ''zip'', rs_location = ''l'', rs_language = ''python''\<rparr> [''w''] [] =
     (Inl (Security_error ''zip entry escapes destination: ../evil''), [([''w'', ''a'', ''b.py''], ''x = 1'')])"
  by code_simp


text \<open>At the root of an archive a plain file with the name of an ignored directory is passed over; in a directory it is not.\<close>

lemma root_file_named_like_a_directory:
  "zip_verdict (\<lambda>x. x) sample_limits (sample_entry ''build'' 1 ''x'') = Ignore ''build''"
  "walk_in_place sample_limits [(''build'', File 1 ''x'')] [] =
     (Inr (empty_result\<lparr>fr_copied_files := [''build''], fr_total_bytes := 1\<rparr>), [])"
  by code_simp+

end
