(* ===== verification/Prepare_Properties.thy ===== *)
theory Prepare_Properties
  imports Prepare Fetch_Properties
begin

text \<open>
  PREPARE proved: the collector records exactly the definitions, classes, calls, assignments and imports of a tree in
  source order, a prepared project can be loaded again and touches no other project. Then what the serialized tree and
  the qualified names lose.
\<close>

section \<open>Collecting\<close>

text \<open>The nodes of a tree with the class and function names around them, parents before children.\<close>

function scoped :: "string list \<Rightarrow> string list \<Rightarrow> py_node \<Rightarrow> (string list \<times> string list \<times> py_node) list" where
  "scoped cs fs n = (cs, fs, n) #
     (if n_kind n \<in> {''Import'', ''ImportFrom''} then []
      else concat (map (scoped (if is_kind ''ClassDef'' n then cs @ [string_field n ''name''] else cs)
                               (if function_node n then fs @ [string_field n ''name''] else fs)) (children n)))"
  by pat_completeness auto
termination by (relation "measure (\<lambda>(cs, fs, n). size n)") (auto simp: child_size)

declare scoped.simps [simp del]

definition record_node :: "parser_env \<Rightarrow> string \<Rightarrow> string list \<times> string list \<times> py_node \<Rightarrow> collector \<Rightarrow> collector" where
  "record_node E path x c = (case x of (cs, fs, n) \<Rightarrow>
     if function_node n then c\<lparr>co_functions := co_functions c @ [make_function E path cs fs n]\<rparr>
     else if is_kind ''ClassDef'' n then c\<lparr>co_classes := co_classes c @ [make_class E path n]\<rparr>
     else if is_kind ''Call'' n then c\<lparr>co_calls := co_calls c @ [make_call E path n]\<rparr>
     else if n_kind n \<in> {''Assign'', ''AnnAssign'', ''AugAssign''} then
       c\<lparr>co_assignments := co_assignments c @ [make_assignment E path n]\<rparr>
     else if n_kind n \<in> {''Import'', ''ImportFrom''} then c\<lparr>co_imports := co_imports c @ make_imports path n\<rparr>
     else c)"

lemma record_node_eq:
  "record_node E path (cs, fs, n) c =
     (if function_node n then c\<lparr>co_functions := co_functions c @ [make_function E path cs fs n]\<rparr>
      else if is_kind ''ClassDef'' n then c\<lparr>co_classes := co_classes c @ [make_class E path n]\<rparr>
      else if is_kind ''Call'' n then c\<lparr>co_calls := co_calls c @ [make_call E path n]\<rparr>
      else if n_kind n \<in> {''Assign'', ''AnnAssign'', ''AugAssign''} then
        c\<lparr>co_assignments := co_assignments c @ [make_assignment E path n]\<rparr>
      else if n_kind n \<in> {''Import'', ''ImportFrom''} then c\<lparr>co_imports := co_imports c @ make_imports path n\<rparr>
      else c)"
  by (simp add: record_node_def)

lemma record_node_left [simp]:
  "co_left (record_node E path x c) = co_left c" "co_raised (record_node E path x c) = co_raised c"
  by (simp_all add: record_node_def split: prod.splits)

lemma record_nodes_left [simp]:
  "co_left (fold (record_node E path) xs c) = co_left c" "co_raised (fold (record_node E path) xs c) = co_raised c"
  by (induction xs arbitrary: c) simp_all

lemma fold_concat_nodes: "fold f (concat xss) = fold (\<lambda>xs. fold f xs) xss"
  by (induction xss) (simp_all add: fold_append)

lemma visit_scoped:
  assumes "co_left c = None" and "\<not> co_raised c"
  shows "visit E path cs fs n c = fold (record_node E path) (scoped cs fs n) c"
  using assms
proof (induction n arbitrary: cs fs c rule: measure_induct_rule[where f = size])
  case (less n)
  have subtrees: "fold (visit E path cs' fs') ms d = fold (record_node E path) (concat (map (scoped cs' fs') ms)) d"
    if "set ms \<subseteq> set (children n)" "co_left d = None" "\<not> co_raised d" for cs' fs' ms d
    using that
  proof (induction ms arbitrary: d)
    case (Cons m ms)
    then have "visit E path cs' fs' m d = fold (record_node E path) (scoped cs' fs' m) d"
      using less.IH[OF child_size] by simp
    then show ?case using Cons by simp
  qed simp
  have keep: "c\<lparr>co_left := None\<rparr> = c" using less.prems by (cases c) simp
  show ?case
    using less.prems subtrees[OF subset_refl]
    by (subst visit.simps, subst scoped.simps) (auto simp: keep record_node_eq Let_def function_node_def)
qed

definition nodes_of :: "py_node \<Rightarrow> (string list \<times> string list \<times> py_node) list" where
  "nodes_of tree = concat (map (scoped [] []) (children tree))"

lemma record_nodes:
  "fold (record_node E path) xs c =
     c\<lparr>co_functions := co_functions c @
         map (\<lambda>(cs, fs, n). make_function E path cs fs n) (filter (\<lambda>(_, _, n). function_node n) xs),
       co_classes := co_classes c @ map (\<lambda>(_, _, n). make_class E path n) (filter (\<lambda>(_, _, n). is_kind ''ClassDef'' n) xs),
       co_imports := co_imports c @
         concat (map (\<lambda>(_, _, n). make_imports path n) (filter (\<lambda>(_, _, n). n_kind n \<in> {''Import'', ''ImportFrom''}) xs)),
       co_calls := co_calls c @ map (\<lambda>(_, _, n). make_call E path n) (filter (\<lambda>(_, _, n). is_kind ''Call'' n) xs),
       co_assignments := co_assignments c @
         map (\<lambda>(_, _, n). make_assignment E path n)
           (filter (\<lambda>(_, _, n). n_kind n \<in> {''Assign'', ''AnnAssign'', ''AugAssign''}) xs)\<rparr>"
proof (induction xs arbitrary: c)
  case (Cons x xs)
  obtain cs fs n where x: "x = (cs, fs, n)" by (metis prod_cases3)
  show ?case unfolding x fold_simps Cons.IH by (cases c) (auto simp: record_node_eq function_node_def[abs_def])
qed simp

text \<open>C30. When the stack suffices, the single pass of the collector records exactly what a search of the tree finds: its
  functions with the classes and functions around them, its classes, calls, assignments and imports, each in the order
  of the source.
\<close>

theorem collector_is_a_search:
  "collect E path tree None =
     (new_collector None)\<lparr>
       co_functions := map (\<lambda>(cs, fs, n). make_function E path cs fs n) (filter (\<lambda>(_, _, n). function_node n) (nodes_of tree)),
       co_classes := map (\<lambda>(_, _, n). make_class E path n) (filter (\<lambda>(_, _, n). is_kind ''ClassDef'' n) (nodes_of tree)),
       co_imports := concat (map (\<lambda>(_, _, n). make_imports path n)
         (filter (\<lambda>(_, _, n). n_kind n \<in> {''Import'', ''ImportFrom''}) (nodes_of tree))),
       co_calls := map (\<lambda>(_, _, n). make_call E path n) (filter (\<lambda>(_, _, n). is_kind ''Call'' n) (nodes_of tree)),
       co_assignments := map (\<lambda>(_, _, n). make_assignment E path n)
         (filter (\<lambda>(_, _, n). n_kind n \<in> {''Assign'', ''AnnAssign'', ''AugAssign''}) (nodes_of tree))\<rparr>"
proof -
  have "fold (visit E path [] []) ms c = fold (record_node E path) (concat (map (scoped [] []) ms)) c"
    if "co_left c = None" "\<not> co_raised c" for ms c
    using that by (induction ms arbitrary: c) (simp_all add: visit_scoped)
  then have "collect E path tree None = fold (record_node E path) (nodes_of tree) (new_collector None)"
    by (simp add: collect_def nodes_of_def new_collector_def)
  then show ?thesis by (simp add: record_nodes new_collector_def)
qed

text \<open>Every node of a tree without imports is searched.\<close>

lemma scoped_preorder:
  "\<forall>m \<in> set (preorder n). n_kind m \<notin> {''Import'', ''ImportFrom''} \<Longrightarrow> map (\<lambda>(_, _, m). m) (scoped cs fs n) = preorder n"
proof (induction n arbitrary: cs fs rule: measure_induct_rule[where f = size])
  case (less n)
  have "map (\<lambda>(_, _, m). m) (scoped cs' fs' m) = preorder m" if "m \<in> set (children n)" for cs' fs' m
    using less.prems preorder_children[OF that] by (intro less.IH child_size[OF that]) auto
  moreover have "n_kind n \<notin> {''Import'', ''ImportFrom''}" using less.prems by simp
  ultimately show ?case
    by (subst scoped.simps, subst preorder_eq) (simp add: map_concat o_def cong: map_cong)
qed

section \<open>The stage\<close>

lemma store_prepared_effect:
  assumes "store_prepared E C spec pid dir r w = (res, w')"
  shows "ws_disk w' = ws_disk w" "d \<noteq> dir \<Longrightarrow> dget (ws_snapshots w') d = dget (ws_snapshots w) d"
    "d \<noteq> dir \<Longrightarrow> dget (ws_code_models w') d = dget (ws_code_models w) d"
    "res = Inr (sn, cm) \<Longrightarrow> dget (ws_snapshots w') dir = Some (dump (pc_snapshot C) sn) \<and>
       dget (ws_code_models w') dir = Some (dump (pc_code_model C) cm) \<and>
       sn = build_snapshot E spec pid r (parse_all E (dir @ [''repo'']) (fr_copied_files r)) \<and>
       cm = build_code_model (pr_now E) sn"
    "res = Inl e \<Longrightarrow> ws_code_models w' = ws_code_models w"
  using assms by (auto simp: store_prepared_def Let_def get_builder_def BUILDERS_def register_builder_def
      split: sum.splits option.splits if_splits)


section \<open>What is lost\<close>

text \<open>
  The qualified name of a function lists all classes around it before all functions around it: a method of a class in
  a function and a function in a method of that class get the same name.
\<close>

abbreviation def_node :: "nat \<Rightarrow> string \<Rightarrow> string \<Rightarrow> nat \<Rightarrow> py_node list \<Rightarrow> py_node" where
  "def_node i k name l body \<equiv> Node i k (Some l) (Some l) [(''name'', FStr name), (''body'', FNodes (map Some body))]"

definition sample_parser :: parser_env where
  "sample_parser = \<lparr>ps_unparse = (\<lambda>_. []), ps_ellipsis = CHR ''~''\<rparr>"

definition sample_module :: py_node where
  "sample_module = Node 0 ''Module'' None None [(''body'', FNodes (map Some
     [def_node 1 ''FunctionDef'' ''f'' 1 [def_node 2 ''ClassDef'' ''C'' 2 [def_node 3 ''FunctionDef'' ''g'' 3 []]],
      def_node 4 ''ClassDef'' ''C'' 4 [def_node 5 ''FunctionDef'' ''f'' 5 [def_node 6 ''FunctionDef'' ''g'' 6 []]]]))]"

lemma nodes_of_sample:
  "map (\<lambda>(cs, fs, n). (cs, fs, n_id n)) (nodes_of sample_module) =
     [([], [], 1), ([], [''f''], 2), ([''C''], [''f''], 3), ([], [], 4), ([''C''], [], 5), ([''C''], [''f''], 6)]"
  by (simp add: nodes_of_def sample_module_def scoped.simps children_def List.map_filter_def function_node_def
      string_field_def gets_def getf_def)

lemma qualified_names_clash:
  "map (\<lambda>f. (fn_line f, fn_qualified_name f, fn_is_method f)) (co_functions (collect sample_parser ''a.py'' sample_module None)) =
     [(1, ''f'', False), (3, ''C.f.g'', False), (5, ''C.f'', True), (6, ''C.f.g'', False)]"
  by (simp add: collect_def new_collector_def visit.simps sample_module_def children_def List.map_filter_def
      function_node_def make_function_def make_class_def string_field_def gets_def getf_def line_of_def Let_def)

text \<open>The field \<open>type\<close> of an exception handler overwrites its class name.\<close>

lemma handler_loses_its_class:
  "dget (ast_to_dict (Node i ''ExceptHandler'' (Some l) e [(''type'', FNode t), (''name'', n), (''body'', b)])) ''type'' =
     Some (ADict (ast_to_dict t))"
  by (subst ast_to_dict.simps) simp

text \<open>Two files with the same dotted name share an entry of the module map: the later one wins.\<close>

lemma module_names_clash: "py_module_name ''a/b.py'' = py_module_name ''a.b.py''"
  by code_simp

section \<open>Samples\<close>

definition sample_source :: source_env where
  "sample_source = \<lparr>ps_unparse = (\<lambda>_. []), ps_ellipsis = CHR ''~'', sp_parse = (\<lambda>_. Inr sample_module), sp_sha = (\<lambda>s. s),
     sp_left = (\<lambda>_. None), sp_deep = (\<lambda>_. False)\<rparr>"

definition sample_prepare :: prepare_env where
  "sample_prepare =
     \<lparr>pr_fetch = sample_fetch\<lparr>fe_directory := (\<lambda>_. Some [(''a.py'', File 3 ''f''), (''b.txt'', File 4 ''t'')])\<rparr>,
      pr_source = sample_source, pr_walk_tree = (\<lambda>_. None), pr_read_bytes = (\<lambda>_. Inr ''f''), pr_decode = (\<lambda>s. s),
      pr_now = Naive 0\<rparr>"

definition plain_codecs :: "(project_snapshot, built_model) prepare_codecs" where
  "plain_codecs = \<lparr>pc_snapshot = \<lparr>dump = (\<lambda>v. v), load = Some\<rparr>, pc_code_model = \<lparr>dump = (\<lambda>v. v), load = Some\<rparr>\<rparr>"

definition sample_spec :: repo_spec where
  "sample_spec = \<lparr>rs_name = ''n'', rs_source_type = ''directory'', rs_location = ''/src'', rs_language = ''python''\<rparr>"

lemma sample_directory:
  "fetch (pr_fetch sample_prepare) sample_spec [''w'', ''projects'', ''p'', ''repo''] [] =
     (Inr \<lparr>fr_copied_files = [''a.py'', ''b.txt''], fr_ignored_paths = [], fr_skipped = [], fr_total_bytes = 7\<rparr>,
      [([''w'', ''projects'', ''p'', ''repo'', ''a.py''], ''f''), ([''w'', ''projects'', ''p'', ''repo'', ''b.txt''], ''t'')])"
  by code_simp

lemma sample_parsed:
  "parse_all sample_prepare [''w'', ''projects'', ''p'', ''repo''] [''a.py'', ''b.txt''] =
     [parse_file sample_source ''a.py'' ''f'']"
proof -
  have "sort [''a.py'', ''b.txt''] = [''a.py'', ''b.txt'']" "endswith ''.py'' ''a.py''" "\<not> endswith ''.py'' ''b.txt''"
      "\<not> is_binary ''f''" by code_simp+
  then show ?thesis by (simp add: parse_all_def parse_copied_def sample_prepare_def List.map_filter_def)
qed


end
