(* ===== verification/Cpg.thy ===== *)
theory Cpg
  imports Parser
begin

text \<open>
  The code property graph (backend/app/prepare/cpg/): nodes and edges of three layers, built from the serialized
  syntax trees and from the sources parsed again, and the queries on it.

  The lazily built index of \<open>node_by_id\<close> is part of the graph's state: it is made at the first lookup and never
  again. Parsing is an argument.
\<close>

section \<open>The graph\<close>

datatype node_kind =
  FILE | MODULE | CLASS | FUNCTION | BLOCK | STATEMENT | EXPRESSION | NAME | CALL | CONSTANT | ASSIGNMENT | RETURN
| IF | FOR | WHILE | TRY | WITH | IMPORT | DECORATOR

datatype edge_type =
  AST_CHILD | AST_FILE | AST_CLASS | AST_FUNCTION | AST_BODY
| CFG_SEQ | CFG_TRUE | CFG_FALSE | CFG_LOOP_BODY | CFG_LOOP_NEXT | CFG_EXCEPT | CFG_FINAL
| DFG_DEF | DFG_USE | DFG_PARAM | DFG_RETURN | DFG_CALL_ARG | DFG_CALL_RESULT | DFG_ASSIGN_RHS

text \<open>\<open>edge_type.value.startswith("dfg_")\<close>.\<close>

fun is_dfg :: "edge_type \<Rightarrow> bool" where
  "is_dfg t = (t \<in> {DFG_DEF, DFG_USE, DFG_PARAM, DFG_RETURN, DFG_CALL_ARG, DFG_CALL_RESULT, DFG_ASSIGN_RHS})"

record cpg_node =
  cn_id :: string
  cn_kind :: node_kind
  cn_file :: string
  cn_line :: nat
  cn_name :: "string option"
  cn_label :: string
  cn_ast_type :: string

record cpg_edge =
  ce_src :: string
  ce_dst :: string
  ce_type :: edge_type
  ce_param_name :: "string option"

record cpg =
  g_project_id :: string
  g_language :: string
  g_node_count :: nat
  g_edge_count :: nat
  g_nodes :: "cpg_node list"
  g_edges :: "cpg_edge list"
  g_file_nodes :: "string list"
  g_function_nodes :: "string list"
  g_call_nodes :: "string list"
  g_index :: "(string \<times> cpg_node) list option"

text \<open>The index holds the last node of each id; later nodes are not in it.\<close>

definition build_index :: "cpg \<Rightarrow> cpg" where
  "build_index g =
     (case g_index g of
        None \<Rightarrow> g\<lparr>g_index := Some (rev (map (\<lambda>n. (cn_id n, n)) (g_nodes g)))\<rparr>
      | Some _ \<Rightarrow> g)"

definition node_by_id :: "string \<Rightarrow> cpg \<Rightarrow> cpg_node option \<times> cpg" where
  "node_by_id i g = (let g = build_index g in (Option.bind (g_index g) (\<lambda>ix. map_of ix i), g))"

definition edges_from :: "cpg \<Rightarrow> string \<Rightarrow> edge_type option \<Rightarrow> cpg_edge list" where
  "edges_from g i t = filter (\<lambda>e. ce_src e = i \<and> (t = None \<or> t = Some (ce_type e))) (g_edges g)"

definition edges_to :: "cpg \<Rightarrow> string \<Rightarrow> edge_type option \<Rightarrow> cpg_edge list" where
  "edges_to g i t = filter (\<lambda>e. ce_dst e = i \<and> (t = None \<or> t = Some (ce_type e))) (g_edges g)"

text \<open>The breadth-first search of \<open>dfg_reachability\<close>: nodes seen, and the queue with depths.\<close>

function bfs :: "cpg \<Rightarrow> string \<Rightarrow> nat \<Rightarrow> string set \<Rightarrow> (string \<times> nat) list \<Rightarrow> bool" where
  "bfs g target_id max_depth visited [] = False"
| "bfs g target_id max_depth visited ((current, depth) # queue) =
     (if current = target_id then True
      else if max_depth \<le> depth \<or> current \<in> visited then bfs g target_id max_depth visited queue
      else bfs g target_id max_depth (insert current visited)
             (queue @ map (\<lambda>e. (ce_dst e, depth + 1)) (filter (\<lambda>e. is_dfg (ce_type e)) (edges_from g current None))))"
  by pat_completeness auto
termination
proof (relation "measures [\<lambda>(g, t, m, visited, q). card (ce_src ` set (g_edges g) - visited), \<lambda>(g, t, m, v, q). length q]",
    goal_cases)
  case (3 g t m visited current depth queue)
  let ?next = "filter (\<lambda>e. is_dfg (ce_type e)) (edges_from g current None)"
  show ?case
  proof (cases "current \<in> ce_src ` set (g_edges g)")
    case True
    then have "ce_src ` set (g_edges g) - insert current visited \<subset> ce_src ` set (g_edges g) - visited"
      using 3 by blast
    then show ?thesis by (simp add: psubset_card_mono)
  next
    case False
    then have "?next = []" by (auto simp: edges_from_def filter_empty_conv)
    moreover have "ce_src ` set (g_edges g) - insert current visited = ce_src ` set (g_edges g) - visited"
      using False by blast
    ultimately show ?thesis by simp
  qed
qed auto

definition dfg_reachability :: "cpg \<Rightarrow> string \<Rightarrow> string \<Rightarrow> nat \<Rightarrow> bool" where
  "dfg_reachability g source_id target_id max_depth = bfs g target_id max_depth {} [(source_id, 0)]"

section \<open>Building: the syntax layer\<close>

definition node_kind_of :: "string \<Rightarrow> node_kind" where
  "node_kind_of ast_type =
     (case map_of
        [(''Module'', MODULE), (''FunctionDef'', FUNCTION), (''AsyncFunctionDef'', FUNCTION), (''ClassDef'', CLASS),
         (''Assign'', ASSIGNMENT), (''AnnAssign'', ASSIGNMENT), (''AugAssign'', ASSIGNMENT), (''Return'', RETURN),
         (''If'', IF), (''For'', FOR), (''While'', WHILE), (''Try'', TRY), (''With'', WITH), (''Import'', IMPORT),
         (''ImportFrom'', IMPORT), (''Call'', CALL), (''Name'', NAME), (''Attribute'', EXPRESSION),
         (''Subscript'', EXPRESSION), (''Constant'', CONSTANT), (''JoinedStr'', EXPRESSION), (''BinOp'', EXPRESSION),
         (''Decorator'', DECORATOR)] ast_type of
        Some k \<Rightarrow> k
      | None \<Rightarrow> EXPRESSION)"

text \<open>Whether a value counts as true.\<close>

fun truthy_value :: "ast_value \<Rightarrow> bool" where
  "truthy_value (ADict kvs) = (kvs \<noteq> [])"
| "truthy_value (AList vs) = (vs \<noteq> [])"
| "truthy_value (AStr s) = (s \<noteq> [])"
| "truthy_value (ANum n) = (n \<noteq> 0)"
| "truthy_value (AConst c) = (case c of Str s \<Rightarrow> s \<noteq> [] | Bool b \<Rightarrow> b | Other_const _ \<Rightarrow> True)"
| "truthy_value ANull = False"

text \<open>\<open>node.get("name") or node.get("id")\<close>, if that is a string.\<close>

definition name_value :: "(string, ast_value) dict \<Rightarrow> string option" where
  "name_value kvs =
     (case (case dget kvs ''name'' of Some v \<Rightarrow> if truthy_value v then Some v else dget kvs ''id'' | None \<Rightarrow> dget kvs ''id'') of
        Some (AStr s) \<Rightarrow> Some s
      | Some (AConst (Str s)) \<Rightarrow> Some s
      | _ \<Rightarrow> None)"

definition label_for :: "string \<Rightarrow> (string, ast_value) dict \<Rightarrow> string" where
  "label_for ast_type kvs =
     (case name_value kvs of Some s \<Rightarrow> if s = [] then ast_type else ast_type @ '': '' @ s | None \<Rightarrow> ast_type)"

definition add_node :: "cpg_node \<Rightarrow> cpg \<Rightarrow> cpg" where
  "add_node n g = g\<lparr>g_nodes := g_nodes g @ [n]\<rparr>"

definition add_edge :: "string \<Rightarrow> string \<Rightarrow> edge_type \<Rightarrow> cpg \<Rightarrow> cpg" where
  "add_edge a b t g = g\<lparr>g_edges := g_edges g @ [\<lparr>ce_src = a, ce_dst = b, ce_type = t, ce_param_name = None\<rparr>]\<rparr>"

text \<open>The line of a dictionary: its \<open>lineno\<close>, 1 for a module without one, otherwise none.\<close>

definition node_line :: "(string, ast_value) dict \<Rightarrow> string \<Rightarrow> nat" where
  "node_line kvs ast_type =
     (let line = (case dget kvs ''lineno'' of Some (ANum l) \<Rightarrow> l | _ \<Rightarrow> 0) in
      if line = 0 \<and> ast_type = ''Module'' then 1 else line)"

text \<open>Registering the node: the node, the edge from its parent, the lists of functions and calls.\<close>

definition enter_node ::
    "string \<Rightarrow> string \<Rightarrow> (string, ast_value) dict \<Rightarrow> string \<Rightarrow> string \<Rightarrow> cpg \<Rightarrow> cpg" where
  "enter_node path ast_type kvs parent_id node_id g =
     (let kind = node_kind_of ast_type;
          g = add_edge parent_id node_id AST_CHILD
                (add_node \<lparr>cn_id = node_id, cn_kind = kind, cn_file = path, cn_line = node_line kvs ast_type,
                           cn_name = name_value kvs, cn_label = label_for ast_type kvs, cn_ast_type = ast_type\<rparr> g);
          g = (if kind = FUNCTION then g\<lparr>g_function_nodes := g_function_nodes g @ [node_id]\<rparr> else g)
      in if kind = CALL then g\<lparr>g_call_nodes := g_call_nodes g @ [node_id]\<rparr> else g)"

text \<open>
  The walk over a serialized tree; it returns the id of the node it made, if any. A type that is no string cannot be
  looked up in the table of kinds: the exception is on the left.
\<close>

function walk_ast ::
    "string \<Rightarrow> (string, ast_value) dict \<Rightarrow> string \<Rightarrow> nat \<Rightarrow> cpg \<Rightarrow> string + cpg \<times> string option"
and walk_fields ::
    "string \<Rightarrow> (string, ast_value) dict \<Rightarrow> node_kind \<Rightarrow> string \<Rightarrow> nat \<Rightarrow> cpg \<Rightarrow> string + cpg"
and walk_items ::
    "string \<Rightarrow> ast_value list \<Rightarrow> string \<Rightarrow> node_kind \<Rightarrow> string \<Rightarrow> nat \<Rightarrow> cpg \<Rightarrow> string + cpg" where
  "walk_ast path kvs parent_id depth g =
     (case dget kvs ''type'' of
        Some (AStr ast_type) \<Rightarrow>
          if ast_type = [] \<or> node_line kvs ast_type = 0 then Inr (g, None)
          else
            (let node_id = path @ '':'' @ ast_type @ '':'' @ dec (node_line kvs ast_type) @ '':'' @ dec depth in
             case walk_fields path kvs (node_kind_of ast_type) node_id depth
                    (enter_node path ast_type kvs parent_id node_id g) of
               Inl e \<Rightarrow> Inl e
             | Inr g \<Rightarrow> Inr (g, Some node_id))
      | Some v \<Rightarrow>
          if \<not> truthy_value v \<or> node_line kvs [] = 0 then Inr (g, None) else Inl ''unhashable type''
      | None \<Rightarrow> Inr (g, None))"
| "walk_fields path [] kind node_id depth g = Inr g"
| "walk_fields path ((field_name, v) # kvs) kind node_id depth g =
     (if field_name \<in> {''type'', ''lineno'', ''end_lineno''} then walk_fields path kvs kind node_id depth g
      else
        (case v of
           ADict child \<Rightarrow>
             (case walk_ast path child node_id (depth + 1) g of
                Inl e \<Rightarrow> Inl e
              | Inr (g, child_id) \<Rightarrow>
                  walk_fields path kvs kind node_id depth
                    (case child_id of
                       Some c \<Rightarrow> if field_name = ''value'' then add_edge c node_id DFG_ASSIGN_RHS g else g
                     | None \<Rightarrow> g))
         | AList items \<Rightarrow>
             (case walk_items path items field_name kind node_id depth g of
                Inl e \<Rightarrow> Inl e
              | Inr g \<Rightarrow> walk_fields path kvs kind node_id depth g)
         | _ \<Rightarrow> walk_fields path kvs kind node_id depth g))"
| "walk_items path [] field_name kind node_id depth g = Inr g"
| "walk_items path (v # vs) field_name kind node_id depth g =
     (case v of
        ADict child \<Rightarrow>
          (case walk_ast path child node_id (depth + 1) g of
             Inl e \<Rightarrow> Inl e
           | Inr (g, child_id) \<Rightarrow>
               walk_items path vs field_name kind node_id depth
                 (case child_id of
                    Some c \<Rightarrow> if field_name = ''args'' \<and> kind = CALL then add_edge c node_id DFG_CALL_ARG g else g
                  | None \<Rightarrow> g))
      | _ \<Rightarrow> walk_items path vs field_name kind node_id depth g)"
  by pat_completeness auto
termination
  by (relation "measure (\<lambda>x. case x of
        Inl (_, kvs, _, _, _) \<Rightarrow> 2 * size_list (size_prod (\<lambda>_. 0) size) kvs + 1
      | Inr (Inl (_, kvs, _, _, _, _)) \<Rightarrow> 2 * size_list (size_prod (\<lambda>_. 0) size) kvs
      | Inr (Inr (_, vs, _, _, _, _, _)) \<Rightarrow> 2 * size_list size vs)") auto

declare walk_ast.simps [simp del] walk_fields.simps [simp del] walk_items.simps [simp del]

section \<open>Building: the control flow layer\<close>

definition stmt_id :: "string \<Rightarrow> py_node \<Rightarrow> string" where
  "stmt_id path s = path @ '':'' @ n_kind s @ '':'' @ dec (line_of s) @ '':stmt''"

text \<open>The first of some nodes, given by their ids, that satisfies a test; every lookup goes through the index.\<close>

fun lookup_first :: "(cpg_node \<Rightarrow> bool) \<Rightarrow> string list \<Rightarrow> cpg \<Rightarrow> string option \<times> cpg" where
  "lookup_first P [] g = (None, g)"
| "lookup_first P (i # is) g =
     (case node_by_id i g of
        (Some n, g) \<Rightarrow> if P n then (Some i, g) else lookup_first P is g
      | (None, g) \<Rightarrow> lookup_first P is g)"

definition first_of :: "string \<Rightarrow> py_node \<Rightarrow> string \<Rightarrow> edge_type \<Rightarrow> (string \<times> edge_type) list" where
  "first_of path s field t = (case getns s field of [] \<Rightarrow> [] | b # _ \<Rightarrow> [(stmt_id path b, t)])"

text \<open>The targets of the branches of a statement.\<close>

definition branches :: "string \<Rightarrow> py_node \<Rightarrow> (string \<times> edge_type) list" where
  "branches path s =
     (if is_kind ''If'' s then first_of path s ''body'' CFG_TRUE @ first_of path s ''orelse'' CFG_FALSE
      else if is_kind ''For'' s then first_of path s ''body'' CFG_LOOP_BODY
      else if is_kind ''While'' s then first_of path s ''body'' CFG_LOOP_BODY
      else if is_kind ''Try'' s then
        concat (map (\<lambda>h. first_of path h ''body'' CFG_EXCEPT) (getns s ''handlers'')) @
        first_of path s ''finalbody'' CFG_FINAL
      else [])"

fun cfg_stmts :: "string \<Rightarrow> string option \<Rightarrow> py_node list \<Rightarrow> cpg \<Rightarrow> cpg" where
  "cfg_stmts path prev_stmt_id [] g = g"
| "cfg_stmts path prev_stmt_id (s # ss) g =
     (let g = (case prev_stmt_id of None \<Rightarrow> g | Some p \<Rightarrow> add_edge p (stmt_id path s) CFG_SEQ g)
      in cfg_stmts path (Some (stmt_id path s)) ss
           (fold (\<lambda>(b, t). add_edge (stmt_id path s) b t) (branches path s) g))"

definition is_function_at :: "function_info \<Rightarrow> py_node \<Rightarrow> bool" where
  "is_function_at fn c \<longleftrightarrow> function_node c \<and> string_field c ''name'' = fn_name fn \<and> line_of c = fn_line fn"

text \<open>\<open>parse\<close> is \<open>ast.parse\<close> once more; on a syntax error nothing is added.\<close>

definition build_cfg :: "(string \<Rightarrow> string + py_node) \<Rightarrow> parsed_file \<Rightarrow> function_info \<Rightarrow> cpg \<Rightarrow> cpg" where
  "build_cfg parse sf fn g =
     (case parse (pf_source sf) of
        Inl _ \<Rightarrow> g
      | Inr tree \<Rightarrow>
          (case lookup_first (\<lambda>n. cn_name n = Some (fn_name fn) \<and> cn_file n = pf_path sf) (g_function_nodes g) g of
             (None, g) \<Rightarrow> g
           | (Some _, g) \<Rightarrow>
               (case find (is_function_at fn) (children tree) of
                  None \<Rightarrow> g
                | Some c \<Rightarrow> cfg_stmts (pf_path sf) None (getns c ''body'') g)))"

section \<open>Building: the data flow layer\<close>

text \<open>A node for a definition or a use, unless the index knows one of that id.\<close>

definition add_name_node :: "string \<Rightarrow> string \<Rightarrow> nat \<Rightarrow> string \<Rightarrow> string \<Rightarrow> cpg \<Rightarrow> cpg" where
  "add_name_node path x line suffix what g =
     (let i = path @ '':Name:'' @ x @ '':'' @ dec line @ suffix in
      case node_by_id i g of
        (None, g) \<Rightarrow>
          add_node \<lparr>cn_id = i, cn_kind = NAME, cn_file = path, cn_line = line, cn_name = Some x,
                    cn_label = x @ what, cn_ast_type = ''Name''\<rparr> g
      | (Some _, g) \<Rightarrow> g)"

function dfg_expr :: "string \<Rightarrow> string set \<Rightarrow> py_node \<Rightarrow> cpg \<Rightarrow> cpg" where
  "dfg_expr path scope e g =
     fold (\<lambda>c. dfg_expr path scope c) (children e)
       (if is_kind ''Name'' e \<and> string_field e ''id'' \<in> scope
        then add_name_node path (string_field e ''id'') (line_of e) '':use'' '' (used)'' g
        else g)"
  by pat_completeness auto
termination by (relation "measure (\<lambda>(_, _, e, _). size e)") (auto simp: child_size)

declare dfg_expr.simps [simp del]

lemma getns_child: "c \<in> set (getns n k) \<Longrightarrow> c \<in> set (children n)"
  by (force simp: getns_def getf_def children_def dest: map_of_SomeD split: option.splits)

lemma getns_size [termination_simp]: "c \<in> set (getns n k) \<Longrightarrow> size c < size n"
  by (rule child_size[OF getns_child])

definition optional_expr :: "string \<Rightarrow> string set \<Rightarrow> py_node option \<Rightarrow> cpg \<Rightarrow> cpg" where
  "optional_expr path scope e g = (case e of None \<Rightarrow> g | Some e \<Rightarrow> dfg_expr path scope e g)"

definition define_target :: "string \<Rightarrow> nat \<Rightarrow> py_node \<Rightarrow> string set \<times> cpg \<Rightarrow> string set \<times> cpg" where
  "define_target path line target sg =
     (if is_kind ''Name'' target
      then (insert (string_field target ''id'') (fst sg),
            add_name_node path (string_field target ''id'') line '':def'' '' (defined)'' (snd sg))
      else sg)"

function dfg_stmt :: "string \<Rightarrow> py_node \<Rightarrow> string set \<times> cpg \<Rightarrow> string set \<times> cpg" where
  "dfg_stmt path s sg =
     (if is_kind ''Assign'' s then
        fold (define_target path (line_of s)) (getns s ''targets'')
          (fst sg, optional_expr path (fst sg) (getn s ''value'') (snd sg))
      else if function_node s then sg
      else if is_kind ''If'' s then
        fold (dfg_stmt path) (getns s ''orelse'') (fold (dfg_stmt path) (getns s ''body'') sg)
      else if is_kind ''For'' s then
        fold (dfg_stmt path) (getns s ''body'')
          (case getn s ''target'' of
             Some t \<Rightarrow> if is_kind ''Name'' t then (insert (string_field t ''id'') (fst sg), snd sg) else sg
           | None \<Rightarrow> sg)
      else if is_kind ''While'' s then fold (dfg_stmt path) (getns s ''body'') sg
      else if is_kind ''Return'' s \<or> is_kind ''Expr'' s then
        (fst sg, optional_expr path (fst sg) (getn s ''value'') (snd sg))
      else if is_kind ''Try'' s then
        fold (dfg_stmt path) (getns s ''finalbody'')
          (fold (dfg_stmt path) (getns s ''orelse'')
             (fold (dfg_stmt path) (concat (map (\<lambda>h. getns h ''body'') (getns s ''handlers'')))
                (fold (dfg_stmt path) (getns s ''body'') sg)))
      else sg)"
  by pat_completeness auto
termination
  by (relation "measure (\<lambda>(_, s, _). size s)") (auto dest!: getns_size)

text \<open>The bodies of the handlers are walked one after the other.\<close>

lemma handler_bodies:
  "fold f (concat (map (\<lambda>h. getns h ''body'') hs)) sg = fold (\<lambda>h. fold f (getns h ''body'')) hs sg"
  by (induction hs arbitrary: sg) simp_all

declare dfg_stmt.simps [simp del]

definition parameter_nodes :: "py_node \<Rightarrow> py_node list" where
  "parameter_nodes fn = (case getn fn ''args'' of
     None \<Rightarrow> [] | Some a \<Rightarrow> getns a ''args'' @ getns a ''posonlyargs'' @ getns a ''kwonlyargs'')"

definition add_param_edge :: "string \<Rightarrow> string \<Rightarrow> nat \<Rightarrow> py_node \<Rightarrow> cpg \<Rightarrow> cpg" where
  "add_param_edge path func_node_id line arg g =
     (let x = string_field arg ''arg'' in
      g\<lparr>g_edges := g_edges g @ [\<lparr>ce_src = func_node_id, ce_dst = path @ '':param:'' @ x @ '':'' @ dec line,
                                ce_type = DFG_PARAM, ce_param_name = Some x\<rparr>]\<rparr>)"

fun dfg_children :: "parsed_file \<Rightarrow> function_info \<Rightarrow> py_node list \<Rightarrow> cpg \<Rightarrow> cpg" where
  "dfg_children sf fn [] g = g"
| "dfg_children sf fn (c # cs) g =
     (if is_function_at fn c then
        (case lookup_first (\<lambda>n. cn_name n = Some (fn_name fn) \<and> cn_file n = pf_path sf \<and> cn_line n = fn_line fn)
                (g_function_nodes g) g of
           (None, g) \<Rightarrow> dfg_children sf fn cs g
         | (Some i, g) \<Rightarrow>
             snd (fold (dfg_stmt (pf_path sf)) (getns c ''body'')
                    (set (fn_args fn), fold (add_param_edge (pf_path sf) i (line_of c)) (parameter_nodes c) g)))
      else dfg_children sf fn cs g)"

definition build_dfg :: "(string \<Rightarrow> string + py_node) \<Rightarrow> parsed_file \<Rightarrow> function_info \<Rightarrow> cpg \<Rightarrow> cpg" where
  "build_dfg parse sf fn g =
     (case parse (pf_source sf) of
        Inl _ \<Rightarrow> g
      | Inr tree \<Rightarrow> dfg_children sf fn (children tree) g)"

section \<open>Building: files and projects\<close>

definition build_file :: "(string \<Rightarrow> string + py_node) \<Rightarrow> parsed_file \<Rightarrow> cpg \<Rightarrow> string + cpg" where
  "build_file parse sf g =
     (case pf_ast sf of
        None \<Rightarrow> Inr g
      | Some kvs \<Rightarrow>
          (let file_id = ''file:'' @ pf_path sf;
               g = add_node \<lparr>cn_id = file_id, cn_kind = FILE, cn_file = pf_path sf, cn_line = 1,
                             cn_name = Some (pf_path sf), cn_label = pf_path sf, cn_ast_type = ''File''\<rparr> g;
               g = g\<lparr>g_file_nodes := g_file_nodes g @ [file_id]\<rparr>
           in case walk_ast (pf_path sf) kvs file_id 0 g of
                Inl e \<Rightarrow> Inl e
              | Inr (g, _) \<Rightarrow>
                  Inr (fold (build_dfg parse sf) (pf_functions sf) (fold (build_cfg parse sf) (pf_functions sf) g))))"

fun build_files :: "(string \<Rightarrow> string + py_node) \<Rightarrow> parsed_file list \<Rightarrow> cpg \<Rightarrow> string + cpg" where
  "build_files parse [] g = Inr g"
| "build_files parse (sf # sfs) g =
     (if pf_error sf \<noteq> None then build_files parse sfs g
      else (case build_file parse sf g of Inl e \<Rightarrow> Inl e | Inr g \<Rightarrow> build_files parse sfs g))"

definition empty_graph :: "string \<Rightarrow> string \<Rightarrow> cpg" where
  "empty_graph project_id language =
     \<lparr>g_project_id = project_id, g_language = language, g_node_count = 0, g_edge_count = 0, g_nodes = [], g_edges = [],
      g_file_nodes = [], g_function_nodes = [], g_call_nodes = [], g_index = None\<rparr>"

definition build_graph :: "(string \<Rightarrow> string + py_node) \<Rightarrow> project_snapshot \<Rightarrow> string + cpg" where
  "build_graph parse sn =
     (case build_files parse (sn_files sn) (empty_graph (sn_project_id sn) (sn_language sn)) of
        Inl e \<Rightarrow> Inl e
      | Inr g \<Rightarrow> Inr (g\<lparr>g_node_count := length (g_nodes g), g_edge_count := length (g_edges g)\<rparr>))"

text \<open>The builder interface: the graph is built and its size logged; the code model does not contain it.\<close>

definition cpg_build :: "(string \<Rightarrow> string + py_node) \<Rightarrow> py_datetime \<Rightarrow> project_snapshot \<Rightarrow> string + built_model" where
  "cpg_build parse now sn =
     (case build_graph parse sn of
        Inl e \<Rightarrow> Inl e
      | Inr g \<Rightarrow>
          Inr \<lparr>bl_language = sn_language sn, bl_project_id = sn_project_id sn, bl_files = sn_files sn,
               bl_module_map = dput_all (map (\<lambda>f. (py_module_name (pf_path f), pf_path f)) (sn_files sn)) [],
               bl_function_index = concat (map pf_functions (sn_files sn)), bl_built_at = now\<rparr>)"

end
