(* ===== verification/Cpg_Properties.thy ===== *)
theory Cpg_Properties
  imports Cpg
begin

text \<open>
  The code property graph proved: the bounded search finds exactly the bounded paths, and what a built graph contains.
  Then what its layers lack.
\<close>

section \<open>Reachability\<close>

definition dstep :: "cpg \<Rightarrow> string \<Rightarrow> string \<Rightarrow> bool" where
  "dstep g a b \<longleftrightarrow> (\<exists>e \<in> set (g_edges g). ce_src e = a \<and> ce_dst e = b \<and> is_dfg (ce_type e))"

text \<open>A step that does not leave a node seen before.\<close>

definition fresh_step :: "cpg \<Rightarrow> string set \<Rightarrow> string \<Rightarrow> string \<Rightarrow> bool" where
  "fresh_step g visited a b \<longleftrightarrow> dstep g a b \<and> a \<notin> visited"

abbreviation successors :: "cpg \<Rightarrow> string \<Rightarrow> nat \<Rightarrow> (string \<times> nat) list" where
  "successors g current depth \<equiv>
     map (\<lambda>e. (ce_dst e, depth + 1)) (filter (\<lambda>e. is_dfg (ce_type e)) (edges_from g current None))"

lemma set_successors: "set (successors g c d) = {(b, d + 1) |b. dstep g c b}"
  by (auto simp: edges_from_def dstep_def image_iff simp del: is_dfg.simps)

lemma bfs_sound:
  "bfs g t m visited queue \<Longrightarrow> \<forall>(v, d) \<in> set queue. d \<le> m \<Longrightarrow>
   \<exists>(v, d) \<in> set queue. \<exists>n. d + n \<le> m \<and> (dstep g ^^ n) v t"
proof (induction g t m visited queue rule: bfs.induct)
  case (2 g t m visited c d queue)
  show ?case
  proof (cases "c = t")
    case True
    then show ?thesis using "2.prems"(2) by (auto intro!: exI[of _ 0])
  next
    case False
    show ?thesis
    proof (cases "m \<le> d \<or> c \<in> visited")
      case True
      then have "bfs g t m visited queue" using "2.prems"(1) False by simp
      then show ?thesis using "2.IH"(1)[OF False True] "2.prems"(2) by auto
    next
      case more: False
      then have "bfs g t m (insert c visited) (queue @ successors g c d)" using "2.prems"(1) False by simp
      moreover have "\<forall>(v, d) \<in> set (queue @ successors g c d). d \<le> m"
        using "2.prems"(2) more set_successors[where g = g and c = c and d = d] by auto
      ultimately obtain v k n where v: "(v, k) \<in> set (queue @ successors g c d)" "k + n \<le> m" "(dstep g ^^ n) v t"
        using "2.IH"(2)[OF False more] by blast
      show ?thesis
      proof (cases "(v, k) \<in> set queue")
        case False
        then have "dstep g c v" "k = d + 1" using v(1) set_successors[where g = g and c = c and d = d] by auto
        then have "(dstep g ^^ Suc n) c t" "d + Suc n \<le> m" using v relpowp_Suc_I2[where P = "dstep g" and x = c and y = v and n = n and z = t] by auto
        then have "\<exists>n. d + n \<le> m \<and> (dstep g ^^ n) c t" by blast
        then show ?thesis by auto
      qed (use v in auto)
    qed
  qed
qed simp

text \<open>A path either avoids a node or has a shorter part that starts behind it and avoids it.\<close>

lemma path_cut:
  "(fresh_step g visited ^^ n) v t \<Longrightarrow>
   (fresh_step g (insert c visited) ^^ n) v t \<or>
   (\<exists>k < n. \<exists>b. dstep g c b \<and> (fresh_step g (insert c visited) ^^ k) b t)"
proof (induction n arbitrary: v)
  case (Suc n)
  obtain w where w: "fresh_step g visited v w" "(fresh_step g visited ^^ n) w t"
    using relpowp_Suc_D2[OF Suc.prems] by blast
  show ?case
  proof (cases "(fresh_step g (insert c visited) ^^ n) w t")
    case True
    show ?thesis
    proof (cases "v = c")
      case True
      then have "dstep g c w" using w(1) by (simp add: fresh_step_def)
      then show ?thesis using \<open>(fresh_step g (insert c visited) ^^ n) w t\<close> lessI by blast
    next
      case False
      then have "fresh_step g (insert c visited) v w" using w(1) by (simp add: fresh_step_def)
      from relpowp_Suc_I2[OF this True] show ?thesis by (rule disjI1)
    qed
  next
    case False
    then obtain k b where "k < n" "dstep g c b \<and> (fresh_step g (insert c visited) ^^ k) b t"
      using Suc.IH[OF w(2)] by blast
    moreover from this have "k < Suc n" by simp
    ultimately show ?thesis by blast
  qed
qed simp

lemma bfs_complete:
  "sorted (map snd queue) \<Longrightarrow> \<forall>x \<in> set queue. snd x \<le> snd (hd queue) + 1 \<Longrightarrow>
   \<exists>(v, d) \<in> set queue. \<exists>n. d + n \<le> m \<and> (fresh_step g visited ^^ n) v t \<Longrightarrow> bfs g t m visited queue"
proof (induction g t m visited queue rule: bfs.induct)
  case (2 g t m visited c d queue)
  obtain v k n where v: "(v, k) \<in> set ((c, d) # queue)" "k + n \<le> m" "(fresh_step g visited ^^ n) v t"
    using "2.prems"(3) by blast
  have "d \<le> k" using v(1) "2.prems"(1) by auto
  show ?case
  proof (cases "c = t")
    case False
    have tail: "sorted (map snd queue)" "\<forall>x \<in> set queue. snd x \<le> snd (hd queue) + 1"
      using "2.prems"(1,2) by (cases queue; fastforce)+
    show ?thesis
    proof (cases "m \<le> d \<or> c \<in> visited")
      case True
      have "(v, k) \<in> set queue"
      proof (rule ccontr)
        assume "(v, k) \<notin> set queue"
        then have "v = c" "k = d" using v(1) by auto
        then obtain i where "n = Suc i" using v(3) False by (cases n) auto
        then have "c \<notin> visited" "d < m"
          using v \<open>v = c\<close> \<open>k = d\<close> relpowp_Suc_D2[of i "fresh_step g visited" v t] by (auto simp: fresh_step_def)
        then show False using True by simp
      qed
      then have "bfs g t m visited queue" using "2.IH"(1)[OF False True tail] v by blast
      then show ?thesis using True False by simp
    next
      case more: False
      let ?q = "queue @ successors g c d"
      have sorted: "sorted (map snd ?q)" using tail(1) "2.prems"(2)
        by (auto simp: sorted_append comp_def map_replicate_const simp del: is_dfg.simps)
      have "d \<le> snd (hd ?q)" if "?q \<noteq> []"
        using that "2.prems"(1) by (cases queue) (auto simp: hd_map)
      moreover have "snd x \<le> d + 1" if "x \<in> set ?q" for x
        using that "2.prems"(2) set_successors[where g = g and c = c and d = d] by (auto simp del: is_dfg.simps)
      ultimately have close: "\<forall>x \<in> set ?q. snd x \<le> snd (hd ?q) + 1"
      proof (intro ballI)
        fix x
        assume x: "x \<in> set ?q" and d: "?q \<noteq> [] \<Longrightarrow> d \<le> snd (hd ?q)" and le: "\<And>x. x \<in> set ?q \<Longrightarrow> snd x \<le> d + 1"
        have "d \<le> snd (hd ?q)" by (rule d) (metis x empty_iff list.set(1))
        then show "snd x \<le> snd (hd ?q) + 1" using le[OF x] by linarith
      qed
      have "\<exists>(v, d) \<in> set ?q. \<exists>n. d + n \<le> m \<and> (fresh_step g (insert c visited) ^^ n) v t"
        using path_cut[OF v(3), of c]
      proof (elim disjE exE conjE)
        assume path: "(fresh_step g (insert c visited) ^^ n) v t"
        have "(v, k) \<in> set queue"
        proof (rule ccontr)
          assume "(v, k) \<notin> set queue"
          then have "v = c" using v(1) by auto
          then show False using path False relpowp_Suc_D2[of _ "fresh_step g (insert c visited)" c t]
            by (cases n) (auto simp: fresh_step_def)
        qed
        then show ?thesis using path v(2) by auto
      next
        fix i b
        assume "i < n" "dstep g c b" "(fresh_step g (insert c visited) ^^ i) b t"
        then have "(b, d + 1) \<in> set ?q" "d + 1 + i \<le> m" using set_successors[where g = g and c = c and d = d] v(2) \<open>d \<le> k\<close> by auto
        then show ?thesis using \<open>(fresh_step g (insert c visited) ^^ i) b t\<close> by blast
      qed
      then have "bfs g t m (insert c visited) ?q" using "2.IH"(2)[OF False more sorted close] by blast
      then show ?thesis using more False by simp
    qed
  qed simp
qed simp

text \<open>C31. The bounded breadth-first search answers exactly whether the target can be reached from the source over at most
  the given number of data flow edges; its search ends on every graph, cyclic ones included.
\<close>

theorem dfg_reachability_is_bounded_reachability:
  "dfg_reachability g source_id target_id max_depth \<longleftrightarrow> (\<exists>n \<le> max_depth. (dstep g ^^ n) source_id target_id)"
proof
  assume "dfg_reachability g source_id target_id max_depth"
  then show "\<exists>n \<le> max_depth. (dstep g ^^ n) source_id target_id"
    using bfs_sound[of g target_id max_depth "{}" "[(source_id, 0)]"] by (auto simp: dfg_reachability_def)
next
  assume "\<exists>n \<le> max_depth. (dstep g ^^ n) source_id target_id"
  moreover have "fresh_step g {} = dstep g" by (auto simp: fresh_step_def fun_eq_iff)
  ultimately show "dfg_reachability g source_id target_id max_depth"
    using bfs_complete[of "[(source_id, 0)]" max_depth g "{}" target_id] by (auto simp: dfg_reachability_def)
qed

section \<open>What a built graph contains\<close>

abbreviation node_ids :: "cpg \<Rightarrow> string set" where
  "node_ids g \<equiv> cn_id ` set (g_nodes g)"

abbreviation SYNTAX_EDGES :: "edge_type set" where
  "SYNTAX_EDGES \<equiv> {AST_CHILD, DFG_ASSIGN_RHS, DFG_CALL_ARG}"

abbreviation CONTROL_EDGES :: "edge_type set" where
  "CONTROL_EDGES \<equiv> {CFG_SEQ, CFG_TRUE, CFG_FALSE, CFG_LOOP_BODY, CFG_EXCEPT, CFG_FINAL}"

text \<open>Ids of statements end in a letter no other id ends in.\<close>

definition ends_in_t :: "string \<Rightarrow> bool" where
  "ends_in_t i \<longleftrightarrow> i \<noteq> [] \<and> last i = CHR ''t''"

definition edge_ok :: "cpg \<Rightarrow> cpg_edge \<Rightarrow> bool" where
  "edge_ok g e \<longleftrightarrow>
     ce_type e \<in> SYNTAX_EDGES \<and> ce_src e \<in> node_ids g \<and> ce_dst e \<in> node_ids g \<or>
     ce_type e = DFG_PARAM \<and> ce_src e \<in> set (g_function_nodes g) \<or>
     ce_type e \<in> CONTROL_EDGES \<and> ends_in_t (ce_src e) \<and> ends_in_t (ce_dst e)"

definition graph_ok :: "cpg \<Rightarrow> bool" where
  "graph_ok g \<longleftrightarrow>
     g_file_nodes g = map cn_id (filter (\<lambda>n. cn_kind n = FILE) (g_nodes g)) \<and>
     g_function_nodes g = map cn_id (filter (\<lambda>n. cn_kind n = FUNCTION) (g_nodes g)) \<and>
     g_call_nodes g = map cn_id (filter (\<lambda>n. cn_kind n = CALL) (g_nodes g)) \<and>
     (\<forall>n \<in> set (g_nodes g). \<not> ends_in_t (cn_id n)) \<and> (\<forall>e \<in> set (g_edges g). edge_ok g e)"

text \<open>What every step of the builder does: it keeps the graph well formed and its nodes.\<close>

definition grows :: "cpg \<Rightarrow> cpg \<Rightarrow> bool" where
  "grows g g' \<longleftrightarrow> (graph_ok g \<longrightarrow> graph_ok g') \<and> node_ids g \<subseteq> node_ids g' \<and>
     set (g_function_nodes g) \<subseteq> set (g_function_nodes g')"

lemma grows_refl [simp, intro]: "grows g g"
  by (simp add: grows_def)

lemma grows_trans: "grows g h \<Longrightarrow> grows h k \<Longrightarrow> grows g k"
  unfolding grows_def by blast

lemma grows_fold: "(\<And>x g. x \<in> set xs \<Longrightarrow> grows g (f x g)) \<Longrightarrow> grows g (fold f xs g)"
proof (induction xs arbitrary: g)
  case (Cons x xs)
  then show ?case using grows_trans[of g "f x g"] by simp
qed simp

lemma edge_ok_mono:
  "edge_ok g e \<Longrightarrow> node_ids g \<subseteq> node_ids g' \<Longrightarrow> set (g_function_nodes g) \<subseteq> set (g_function_nodes g') \<Longrightarrow> edge_ok g' e"
  unfolding edge_ok_def by blast

lemma grows_index [simp]: "grows g (build_index g)" "g_nodes (build_index g) = g_nodes g"
    "g_function_nodes (build_index g) = g_function_nodes g"
  by (auto simp: grows_def graph_ok_def build_index_def edge_ok_def split: option.splits)

lemma grows_lookup: "grows g (snd (node_by_id i g))"
  by (simp add: node_by_id_def Let_def)

lemma grows_add_edge:
  assumes "t \<in> SYNTAX_EDGES \<and> a \<in> node_ids g \<and> b \<in> node_ids g \<or> t \<in> CONTROL_EDGES \<and> ends_in_t a \<and> ends_in_t b"
  shows "grows g (add_edge a b t g)"
proof -
  have "edge_ok (add_edge a b t g) e" if "edge_ok g e" for e
    using that by (rule edge_ok_mono) (simp_all add: add_edge_def)
  moreover have "edge_ok (add_edge a b t g) \<lparr>ce_src = a, ce_dst = b, ce_type = t, ce_param_name = None\<rparr>"
    using assms by (auto simp: edge_ok_def add_edge_def)
  ultimately show ?thesis by (auto simp: grows_def graph_ok_def add_edge_def)
qed

text \<open>A new node, with the lists of files, functions and calls brought up to date.\<close>

lemma grows_add_node:
  assumes "\<not> ends_in_t (cn_id n)"
    and "h = (add_node n g)\<lparr>g_file_nodes := g_file_nodes g @ (if cn_kind n = FILE then [cn_id n] else []),
      g_function_nodes := g_function_nodes g @ (if cn_kind n = FUNCTION then [cn_id n] else []),
      g_call_nodes := g_call_nodes g @ (if cn_kind n = CALL then [cn_id n] else [])\<rparr>"
  shows "grows g h" "cn_id n \<in> node_ids h"
proof -
  have mono: "node_ids g \<subseteq> node_ids h" "set (g_function_nodes g) \<subseteq> set (g_function_nodes h)"
    by (auto simp: assms(2) add_node_def)
  have "graph_ok h" if "graph_ok g"
  proof -
    have "\<forall>e \<in> set (g_edges h). edge_ok h e"
      using that edge_ok_mono[OF _ mono] by (simp add: graph_ok_def assms(2) add_node_def)
    then show ?thesis using that assms(1) by (auto simp: graph_ok_def assms(2) add_node_def)
  qed
  then show "grows g h" using mono by (simp add: grows_def)
  show "cn_id n \<in> node_ids h" by (simp add: assms(2) add_node_def)
qed

lemma ends_dec: "\<not> ends_in_t (s @ dec n)"
proof -
  have "last (dec n) \<in> set (dec n)" by simp
  then have "last (dec n) \<noteq> CHR ''t''" using dec_digits[of "last (dec n)" n] by auto
  then show ?thesis by (simp add: ends_in_t_def)
qed

lemma kind_never_file: "node_kind_of k \<noteq> FILE"
  by (auto simp: node_kind_of_def split: option.splits dest!: map_of_SomeD)

lemma grows_enter_node:
  assumes "parent_id \<in> node_ids g" and "\<not> ends_in_t node_id"
  shows "grows g (enter_node path k kvs parent_id node_id g)"
    "node_id \<in> node_ids (enter_node path k kvs parent_id node_id g)"
proof -
  define n where "n = \<lparr>cn_id = node_id, cn_kind = node_kind_of k, cn_file = path, cn_line = node_line kvs k,
    cn_name = name_value kvs, cn_label = label_for k kvs, cn_ast_type = k\<rparr>"
  define h where "h = (add_node n g)\<lparr>g_file_nodes := g_file_nodes g @ (if cn_kind n = FILE then [cn_id n] else []),
      g_function_nodes := g_function_nodes g @ (if cn_kind n = FUNCTION then [cn_id n] else []),
      g_call_nodes := g_call_nodes g @ (if cn_kind n = CALL then [cn_id n] else [])\<rparr>"
  have enter: "enter_node path k kvs parent_id node_id g = add_edge parent_id node_id AST_CHILD h"
    using kind_never_file[of k]
    by (auto simp: enter_node_def Let_def h_def n_def add_node_def add_edge_def)
  have h: "grows g h" "node_id \<in> node_ids h"
    using grows_add_node[of n h g] assms(2) by (auto simp: h_def n_def)
  then have "parent_id \<in> node_ids h" using assms(1) by (auto simp: grows_def)
  then show "grows g (enter_node path k kvs parent_id node_id g)"
    unfolding enter using grows_trans[OF h(1) grows_add_edge] h(2) by simp
  show "node_id \<in> node_ids (enter_node path k kvs parent_id node_id g)"
    using h(2) by (simp add: enter add_edge_def)
qed

lemma optional_edge:
  assumes "grows g g'" "n \<in> node_ids g" "t \<in> SYNTAX_EDGES" "\<And>c. r = Some c \<Longrightarrow> c \<in> node_ids g'"
  shows "grows g (case r of Some c \<Rightarrow> if P then add_edge c n t g' else g' | None \<Rightarrow> g')"
    "n \<in> node_ids (case r of Some c \<Rightarrow> if P then add_edge c n t g' else g' | None \<Rightarrow> g')"
proof -
  have n: "n \<in> node_ids g'" using assms(1,2) by (auto simp: grows_def)
  show "grows g (case r of Some c \<Rightarrow> if P then add_edge c n t g' else g' | None \<Rightarrow> g')"
    using assms n grows_trans[OF assms(1) grows_add_edge] by (simp split: option.split)
  show "n \<in> node_ids (case r of Some c \<Rightarrow> if P then add_edge c n t g' else g' | None \<Rightarrow> g')"
    using n by (simp add: add_edge_def split: option.split)
qed

lemma walk_grows:
  "parent_id \<in> node_ids g \<Longrightarrow> walk_ast path kvs parent_id depth g = Inr (g', r) \<Longrightarrow>
     grows g g' \<and> (\<forall>i. r = Some i \<longrightarrow> i \<in> node_ids g')"
  "node_id \<in> node_ids g \<Longrightarrow> walk_fields path kvs kind node_id depth g = Inr g'' \<Longrightarrow> grows g g''"
  "node_id \<in> node_ids g \<Longrightarrow> walk_items path vs field_name kind node_id depth g = Inr g'' \<Longrightarrow> grows g g''"
proof (induction path kvs parent_id depth g and path kvs kind node_id depth g and path vs field_name kind node_id depth g
    arbitrary: g' r and g'' and g'' rule: walk_ast_walk_fields_walk_items.induct)
  case (1 path kvs parent_id depth g)
  show ?case
  proof (cases "\<exists>k. dget kvs ''type'' = Some (AStr k) \<and> k \<noteq> [] \<and> node_line kvs k \<noteq> 0")
    case True
    then obtain k where k: "dget kvs ''type'' = Some (AStr k)" "\<not> (k = [] \<or> node_line kvs k = 0)" by auto
    define i where "i = path @ '':'' @ k @ '':'' @ dec (node_line kvs k) @ '':'' @ dec depth"
    define h where "h = enter_node path k kvs parent_id i g"
    have "\<not> ends_in_t i" unfolding i_def using ends_dec[of "path @ '':'' @ k @ '':'' @ dec (node_line kvs k) @ '':''" depth] by simp
    then have h: "grows g h" "i \<in> node_ids h" using grows_enter_node "1.prems"(1) by (simp_all add: h_def)
    have walk: "walk_fields path kvs (node_kind_of k) i depth h = Inr g'" "r = Some i"
      using "1.prems"(2) k unfolding walk_ast.simps[of path kvs parent_id depth g] i_def h_def
      by (simp_all add: Let_def split: sum.splits)
    have "grows h g'"
      by (rule "1.IH"[OF k(1) refl k(2) i_def, folded h_def]) (use h(2) walk(1) in simp_all)
    then show ?thesis using h walk(2) grows_trans unfolding grows_def by blast
  next
    case False
    then show ?thesis using "1.prems"(2)
      unfolding walk_ast.simps[of path kvs parent_id depth g]
      by (auto split: option.splits ast_value.splits if_splits)
  qed
next
  case (3 path field_name v kvs kind node_id depth g)
  show ?case
  proof (cases "field_name \<in> {''type'', ''lineno'', ''end_lineno''}")
    case True
    then show ?thesis using 3 by (simp add: walk_fields.simps)
  next
    case False
    show ?thesis
    proof (cases v)
      case (ADict child)
      obtain h r where w: "walk_ast path child node_id (depth + 1) g = Inr (h, r)"
        using "3.prems"(2) False by (auto simp: walk_fields.simps ADict split: sum.splits)
      have h: "grows g h" "\<And>i. r = Some i \<Longrightarrow> i \<in> node_ids h" using "3.IH"(2)[OF False ADict] "3.prems"(1) w by auto
      define k where "k = (case r of Some c \<Rightarrow> if field_name = ''value'' then add_edge c node_id DFG_ASSIGN_RHS h else h | None \<Rightarrow> h)"
      have k: "grows g k" "node_id \<in> node_ids k" unfolding k_def using optional_edge[OF h(1) "3.prems"(1)] h(2) by simp_all
      have "walk_fields path kvs kind node_id depth k = Inr g''"
        using "3.prems"(2) False w by (simp add: walk_fields.simps ADict k_def)
      then have "grows k g''" using "3.IH"(3)[OF False ADict w] k(2) unfolding k_def by blast
      then show ?thesis using k(1) grows_trans by blast
    next
      case (AList items)
      obtain h where w: "walk_items path items field_name kind node_id depth g = Inr h"
        using "3.prems"(2) False by (auto simp: walk_fields.simps AList split: sum.splits)
      have h: "grows g h" using "3.IH"(4)[OF False AList] "3.prems"(1) w by blast
      then have "node_id \<in> node_ids h" using "3.prems"(1) by (auto simp: grows_def)
      moreover have "walk_fields path kvs kind node_id depth h = Inr g''"
        using "3.prems"(2) False w by (simp add: walk_fields.simps AList)
      ultimately have "grows h g''" using "3.IH"(5)[OF False AList w] by blast
      then show ?thesis using h grows_trans by blast
    qed (use 3 False in \<open>simp_all add: walk_fields.simps\<close>)
  qed
next
  case (5 path v vs field_name kind node_id depth g)
  show ?case
  proof (cases v)
    case (ADict child)
    obtain h r where w: "walk_ast path child node_id (depth + 1) g = Inr (h, r)"
      using "5.prems"(2) by (auto simp: walk_items.simps ADict split: sum.splits)
    have h: "grows g h" "\<And>i. r = Some i \<Longrightarrow> i \<in> node_ids h" using "5.IH"(1)[OF ADict] "5.prems"(1) w by auto
    define k where "k = (case r of Some c \<Rightarrow> if field_name = ''args'' \<and> kind = CALL then add_edge c node_id DFG_CALL_ARG h else h | None \<Rightarrow> h)"
    have k: "grows g k" "node_id \<in> node_ids k" unfolding k_def using optional_edge[OF h(1) "5.prems"(1)] h(2) by simp_all
    have "walk_items path vs field_name kind node_id depth k = Inr g''"
      using "5.prems"(2) w by (simp add: walk_items.simps ADict k_def)
    then have "grows k g''" using "5.IH"(2)[OF ADict w] k(2) unfolding k_def by blast
    then show ?thesis using k(1) grows_trans by blast
  qed (use 5 in \<open>simp_all add: walk_items.simps\<close>)
qed (simp_all add: walk_fields.simps walk_items.simps)

text \<open>The control flow layer adds edges between ids of statements.\<close>

lemma stmt_id_ends: "ends_in_t (stmt_id path s)"
  by (simp add: stmt_id_def ends_in_t_def)

lemma branches_ok: "(b, t) \<in> set (branches path s) \<Longrightarrow> t \<in> CONTROL_EDGES \<and> ends_in_t b"
  by (auto simp: branches_def first_of_def stmt_id_ends split: if_splits list.splits)

lemma grows_branches: "grows g (fold (\<lambda>(b, t). add_edge (stmt_id path s) b t) (branches path s) g)"
proof (rule grows_fold, goal_cases)
  case (1 x h)
  obtain b t where x: "x = (b, t)" by (cases x)
  from grows_add_edge[of t "stmt_id path s" h b] branches_ok[of b t path s] 1 stmt_id_ends[of path s]
  show ?case unfolding x prod.case by blast
qed

lemma grows_cfg_stmts: "(\<forall>p. prev_stmt = Some p \<longrightarrow> ends_in_t p) \<Longrightarrow> grows g (cfg_stmts path prev_stmt ss g)"
proof (induction ss arbitrary: prev_stmt g)
  case (Cons s ss)
  let ?g = "case prev_stmt of None \<Rightarrow> g | Some p \<Rightarrow> add_edge p (stmt_id path s) CFG_SEQ g"
  have "grows g ?g" using Cons.prems by (auto split: option.split intro!: grows_add_edge simp: stmt_id_ends)
  moreover have "grows (fold (\<lambda>(b, t). add_edge (stmt_id path s) b t) (branches path s) ?g)
      (cfg_stmts path (Some (stmt_id path s)) ss (fold (\<lambda>(b, t). add_edge (stmt_id path s) b t) (branches path s) ?g))"
    by (rule Cons.IH) (simp add: stmt_id_ends)
  ultimately show ?case unfolding cfg_stmts.simps Let_def using grows_branches grows_trans by blast
qed simp

lemma lookup_first_nodes: "lookup_first P is g = (r, h) \<Longrightarrow> h = g \<or> h = build_index g"
proof (induction "is" arbitrary: g)
  case (Cons i "is")
  have idem: "build_index (build_index g) = build_index g" by (simp add: build_index_def split: option.splits)
  show ?case using Cons.prems Cons.IH[of "build_index g"]
    by (auto simp: node_by_id_def Let_def idem split: option.splits if_splits)
qed simp

lemma lookup_first_member: "lookup_first P is g = (Some i, h) \<Longrightarrow> i \<in> set is"
  by (induction P "is" g rule: lookup_first.induct) (auto split: prod.splits option.splits if_splits)

lemma grows_lookup_first: "lookup_first P is g = (r, h) \<Longrightarrow> grows g h"
  using lookup_first_nodes by fastforce

lemma grows_build_cfg: "grows g (build_cfg parse sf fn g)"
proof -
  have "grows h (cfg_stmts path None ss h)" for path ss h by (rule grows_cfg_stmts) simp
  then show ?thesis unfolding build_cfg_def
    by (auto split: sum.split prod.split option.split dest: grows_lookup_first intro: grows_trans)
qed

text \<open>The data flow layer adds nodes for names, and edges from functions to parameters.\<close>

lemma grows_add_name_node:
  assumes "suffix \<in> {'':use'', '':def''}"
  shows "grows g (add_name_node path x line suffix what g)"
proof -
  define i where "i = path @ '':Name:'' @ x @ '':'' @ dec line @ suffix"
  define n where "n = \<lparr>cn_id = i, cn_kind = NAME, cn_file = path, cn_line = line, cn_name = Some x, cn_label = x @ what,
    cn_ast_type = ''Name''\<rparr>"
  have "\<not> ends_in_t i" using assms by (auto simp: i_def ends_in_t_def)
  then have "grows h (add_node n h)" for h
    by (intro grows_add_node(1)[of n "add_node n h" h]) (simp_all add: n_def add_node_def)
  then have "grows g (add_node n (build_index g))" using grows_trans[OF grows_index(1)] by blast
  then show ?thesis unfolding add_name_node_def Let_def node_by_id_def n_def i_def
    by (simp split: option.split)
qed

lemma grows_dfg_expr: "grows g (dfg_expr path scope e g)"
proof (induction e arbitrary: g rule: measure_induct_rule[where f = size])
  case (less e)
  show ?case
    by (subst dfg_expr.simps, rule grows_trans[OF _ grows_fold])
      (auto intro: less.IH child_size grows_add_name_node)
qed

lemma grows_optional_expr: "grows g (optional_expr path scope e g)"
  by (simp add: optional_expr_def grows_dfg_expr split: option.split)

lemma grows_state_fold:
  "(\<And>x sg. x \<in> set xs \<Longrightarrow> grows (snd sg) (snd (f x sg))) \<Longrightarrow> grows (snd sg) (snd (fold f xs sg))"
proof (induction xs arbitrary: sg)
  case (Cons x xs)
  then show ?case using grows_trans[of "snd sg" "snd (f x sg)"] by simp
qed simp

lemma grows_dfg_stmt: "grows (snd sg) (snd (dfg_stmt path s sg))"
proof (induction s arbitrary: sg rule: measure_induct_rule[where f = size])
  case (less s)
  have part: "grows g (snd (fold (dfg_stmt path) (getns s k) tg))" if "grows g (snd tg)" for k tg g
    by (rule grows_trans[OF that grows_state_fold]) (use less.IH getns_size in blast)
  have nested: "grows g (snd (fold (dfg_stmt path) (concat (map (\<lambda>h. getns h ''body'') (getns s k))) tg))"
    if "grows g (snd tg)" for k tg g
    by (rule grows_trans[OF that grows_state_fold]) (auto dest!: getns_size intro: less.IH)
  have targets: "grows g (snd (fold (define_target path l) ts tg))" if "grows g (snd tg)" for l ts tg g
    by (rule grows_trans[OF that grows_state_fold]) (simp add: define_target_def grows_add_name_node)
  show ?case
    by (subst dfg_stmt.simps)
      (auto simp: grows_optional_expr intro!: part nested targets split: option.split)
qed

lemma grows_add_param_edge:
  assumes "i \<in> set (g_function_nodes g)"
  shows "grows g (add_param_edge path i l arg g)" "i \<in> set (g_function_nodes (add_param_edge path i l arg g))"
proof -
  let ?h = "add_param_edge path i l arg g"
  have "edge_ok ?h e" if "edge_ok g e" for e
    using that by (rule edge_ok_mono) (simp_all add: add_param_edge_def Let_def)
  then show "grows g ?h" using assms
    by (auto simp: grows_def graph_ok_def edge_ok_def add_param_edge_def Let_def)
  show "i \<in> set (g_function_nodes ?h)" using assms by (simp add: add_param_edge_def Let_def)
qed

lemma grows_params: "i \<in> set (g_function_nodes g) \<Longrightarrow> grows g (fold (add_param_edge path i l) args g)"
proof (induction args arbitrary: g)
  case (Cons a as)
  have "grows (add_param_edge path i l a g) (fold (add_param_edge path i l) as (add_param_edge path i l a g))"
    by (rule Cons.IH) (rule grows_add_param_edge(2)[OF Cons.prems])
  with grows_add_param_edge(1)[OF Cons.prems] show ?case unfolding fold_simps by (rule grows_trans)
qed simp

lemma grows_dfg_children: "grows g (dfg_children sf fn cs g)"
proof (induction cs arbitrary: g)
  case (Cons c cs)
  show ?case
  proof (cases "is_function_at fn c")
    case True
    let ?P = "\<lambda>n. cn_name n = Some (fn_name fn) \<and> cn_file n = pf_path sf \<and> cn_line n = fn_line fn"
    obtain r h where l: "lookup_first ?P (g_function_nodes g) g = (r, h)" by fastforce
    have h: "grows g h" "g_function_nodes h = g_function_nodes g"
      using grows_lookup_first[OF l] lookup_first_nodes[OF l] by auto
    show ?thesis
    proof (cases r)
      case None
      then have "dfg_children sf fn (c # cs) g = dfg_children sf fn cs h" using True l by simp
      then show ?thesis using h(1) Cons.IH[of h] grows_trans by metis
    next
      case (Some i)
      then have "i \<in> set (g_function_nodes h)" using lookup_first_member l h(2) by metis
      then have "grows h (fold (add_param_edge (pf_path sf) i (line_of c)) (parameter_nodes c) h)" by (rule grows_params)
      then have "grows h (snd (fold (dfg_stmt (pf_path sf)) (getns c ''body'')
          (set (fn_args fn), fold (add_param_edge (pf_path sf) i (line_of c)) (parameter_nodes c) h)))"
        using grows_trans grows_state_fold[of "getns c ''body''" "dfg_stmt (pf_path sf)"
            "(set (fn_args fn), fold (add_param_edge (pf_path sf) i (line_of c)) (parameter_nodes c) h)"]
          grows_dfg_stmt by auto
      moreover have "dfg_children sf fn (c # cs) g = snd (fold (dfg_stmt (pf_path sf)) (getns c ''body'')
          (set (fn_args fn), fold (add_param_edge (pf_path sf) i (line_of c)) (parameter_nodes c) h))"
        using True l Some by simp
      ultimately show ?thesis using h(1) grows_trans by metis
    qed
  qed (use Cons.IH in simp)
qed simp

lemma grows_build_dfg: "grows g (build_dfg parse sf fn g)"
  by (simp add: build_dfg_def grows_dfg_children split: sum.split)

section \<open>Whole graphs\<close>

lemma grows_build_file:
  assumes "endswith ''.py'' (pf_path sf)" and "build_file parse sf g = Inr g'"
  shows "grows g g'"
proof (cases "pf_ast sf")
  case (Some kvs)
  define i where "i = ''file:'' @ pf_path sf"
  define n where "n = \<lparr>cn_id = i, cn_kind = FILE, cn_file = pf_path sf, cn_line = 1, cn_name = Some (pf_path sf),
    cn_label = pf_path sf, cn_ast_type = ''File''\<rparr>"
  define h where "h = (add_node n g)\<lparr>g_file_nodes := g_file_nodes g @ [i]\<rparr>"
  have "last (pf_path sf) = CHR ''y''" "pf_path sf \<noteq> []"
    using assms(1) by (cases "pf_path sf" rule: rev_cases; auto simp: endswith_def startswith_def)+
  then have "\<not> ends_in_t i" by (simp add: i_def ends_in_t_def)
  then have h: "grows g h" "i \<in> node_ids h"
    using grows_add_node[of n h g] by (simp_all add: n_def h_def add_node_def)
  obtain k r where w: "walk_ast (pf_path sf) kvs i 0 h = Inr (k, r)"
      "g' = fold (build_dfg parse sf) (pf_functions sf) (fold (build_cfg parse sf) (pf_functions sf) k)"
    using assms(2) Some by (auto simp: build_file_def Let_def i_def n_def h_def add_node_def split: sum.splits)
  have "grows h k" using walk_grows(1)[OF h(2) w(1)] by blast
  moreover have "grows k (fold (build_cfg parse sf) (pf_functions sf) k)" by (rule grows_fold) (rule grows_build_cfg)
  moreover have "grows (fold (build_cfg parse sf) (pf_functions sf) k) g'" unfolding w(2)
    by (rule grows_fold) (rule grows_build_dfg)
  ultimately show ?thesis using h(1) grows_trans by blast
qed (use assms(2) in \<open>simp add: build_file_def\<close>)

lemma grows_build_files:
  "\<forall>sf \<in> set sfs. endswith ''.py'' (pf_path sf) \<Longrightarrow> build_files parse sfs g = Inr g' \<Longrightarrow> grows g g'"
proof (induction sfs arbitrary: g)
  case (Cons sf sfs)
  then show ?case using grows_build_file grows_trans by (fastforce split: if_splits sum.splits)
qed simp

text \<open>In a built graph of Python files the counts and the lists of files, functions and calls are those of the nodes;
  containment, argument and right-hand-side edges join nodes of the graph and parameter edges start at a function;
  every other edge is a control flow edge, whose ends are both no nodes of the graph.
\<close>

theorem built_graph_layers:
  assumes "build_graph parse sn = Inr g" and "\<forall>sf \<in> set (sn_files sn). endswith ''.py'' (pf_path sf)"
  shows "g_node_count g = length (g_nodes g) \<and> g_edge_count g = length (g_edges g) \<and>
    g_file_nodes g = map cn_id (filter (\<lambda>n. cn_kind n = FILE) (g_nodes g)) \<and>
    g_function_nodes g = map cn_id (filter (\<lambda>n. cn_kind n = FUNCTION) (g_nodes g)) \<and>
    g_call_nodes g = map cn_id (filter (\<lambda>n. cn_kind n = CALL) (g_nodes g)) \<and>
    (\<forall>e \<in> set (g_edges g).
       ce_type e \<in> {AST_CHILD, DFG_ASSIGN_RHS, DFG_CALL_ARG} \<and> ce_src e \<in> node_ids g \<and> ce_dst e \<in> node_ids g \<or>
       ce_type e = DFG_PARAM \<and> ce_src e \<in> set (g_function_nodes g) \<or>
       ce_type e \<in> {CFG_SEQ, CFG_TRUE, CFG_FALSE, CFG_LOOP_BODY, CFG_EXCEPT, CFG_FINAL} \<and>
         ce_src e \<notin> node_ids g \<and> ce_dst e \<notin> node_ids g)"
proof -
  obtain h where h: "build_files parse (sn_files sn) (empty_graph (sn_project_id sn) (sn_language sn)) = Inr h"
      "g = h\<lparr>g_node_count := length (g_nodes h), g_edge_count := length (g_edges h)\<rparr>"
    using assms(1) by (auto simp: build_graph_def split: sum.splits)
  have "graph_ok (empty_graph (sn_project_id sn) (sn_language sn))" by (simp add: graph_ok_def empty_graph_def)
  then have ok: "graph_ok h" using grows_build_files[OF assms(2) h(1)] by (simp add: grows_def)
  then have "ends_in_t i \<Longrightarrow> i \<notin> node_ids h" for i by (auto simp: graph_ok_def)
  then have "\<forall>e \<in> set (g_edges h).
       ce_type e \<in> {AST_CHILD, DFG_ASSIGN_RHS, DFG_CALL_ARG} \<and> ce_src e \<in> node_ids h \<and> ce_dst e \<in> node_ids h \<or>
       ce_type e = DFG_PARAM \<and> ce_src e \<in> set (g_function_nodes h) \<or>
       ce_type e \<in> {CFG_SEQ, CFG_TRUE, CFG_FALSE, CFG_LOOP_BODY, CFG_EXCEPT, CFG_FINAL} \<and>
         ce_src e \<notin> node_ids h \<and> ce_dst e \<notin> node_ids h"
    using ok unfolding graph_ok_def edge_ok_def by metis
  then show ?thesis using ok by (simp add: h(2) graph_ok_def)
qed

section \<open>What the layers lack\<close>

text \<open>
  The index of \<open>node_by_id\<close> is built at the first lookup and then kept. A file whose nodes came later has no function
  node the passes can find: its control and data flow layers stay empty.
\<close>

lemma index_is_kept: "g_index g = Some ix \<Longrightarrow> node_by_id i g = (map_of ix i, g)"
  by (simp add: node_by_id_def build_index_def Let_def)

lemma lookup_in_old_index:
  assumes "g_index g = Some ix" and "\<forall>n \<in> snd ` set ix. cn_file n \<noteq> path" and "\<And>n. P n \<Longrightarrow> cn_file n = path"
  shows "lookup_first P is g = (None, g)"
proof (induction "is")
  case (Cons i "is")
  have "map_of ix i = Some n \<Longrightarrow> \<not> P n" for n using assms(2,3) by (force dest: map_of_SomeD)
  then show ?case using Cons by (simp add: index_is_kept[OF assms(1)] split: option.split)
qed simp

lemma later_files_have_no_flow:
  assumes "g_index g = Some ix" and "\<forall>n \<in> snd ` set ix. cn_file n \<noteq> pf_path sf"
  shows "build_cfg parse sf fn g = g" "build_dfg parse sf fn g = g"
proof -
  show "build_cfg parse sf fn g = g"
    using lookup_in_old_index[OF assms, of "\<lambda>n. cn_name n = Some (fn_name fn) \<and> cn_file n = pf_path sf"]
    by (simp add: build_cfg_def split: sum.split)
  have "dfg_children sf fn cs g = g" for cs
    using lookup_in_old_index[OF assms, of "\<lambda>n. cn_name n = Some (fn_name fn) \<and> cn_file n = pf_path sf \<and> cn_line n = fn_line fn"]
    by (induction cs) simp_all
  then show "build_dfg parse sf fn g = g" by (simp add: build_dfg_def split: sum.split)
qed

text \<open>A handler for a named exception stops the builder: the type of its dictionary is a dictionary.\<close>

lemma typed_handler_raises:
  assumes "l \<noteq> 0"
  shows "walk_ast path (ast_to_dict (Node i ''ExceptHandler'' (Some l) e [(''type'', FNode t), (''name'', n), (''body'', b)]))
           parent_id depth g = Inl ''unhashable type''"
proof -
  have "dget (ast_to_dict t) ''type'' \<noteq> None"
  proof -
    have keep: "dget d ''type'' \<noteq> None \<Longrightarrow> dget (fold (\<lambda>(name, f). dput name (v f)) fs d) ''type'' \<noteq> None"
      for d :: "(string, ast_value) dict" and fs and v :: "py_field \<Rightarrow> ast_value"
      by (induction fs arbitrary: d) auto
    show ?thesis by (subst ast_to_dict.simps) (rule keep, simp)
  qed
  then have "ast_to_dict t \<noteq> []" by auto
  then show ?thesis using assms
    by (simp add: walk_ast.simps node_line_def ast_to_dict.simps[of "Node i ''ExceptHandler'' (Some l) e _"])
qed

text \<open>A node without a line, such as a \<open>with\<close> item or the arguments of a function, drops its whole subtree.\<close>

lemma lineless_node_is_dropped:
  "n_lineno n = None \<Longrightarrow> n_kind n \<noteq> ''Module'' \<Longrightarrow>
   \<forall>(name, f) \<in> set (n_fields n). name \<notin> {''type'', ''lineno''} \<Longrightarrow>
   walk_ast path (ast_to_dict n) parent_id depth g = Inr (g, None)"
proof -
  assume h: "n_lineno n = None" "n_kind n \<noteq> ''Module''" "\<forall>(name, f) \<in> set (n_fields n). name \<notin> {''type'', ''lineno''}"
  have keep: "\<forall>(name, f) \<in> set fs. name \<noteq> k \<Longrightarrow> dget (fold (\<lambda>(name, f). dput name (v f)) fs d) k = dget d k"
    for d :: "(string, ast_value) dict" and fs and v :: "py_field \<Rightarrow> ast_value" and k
    by (induction fs arbitrary: d) auto
  have "dget (ast_to_dict n) ''type'' = Some (AStr (n_kind n))" "dget (ast_to_dict n) ''lineno'' = None"
    using h by (subst ast_to_dict.simps, subst keep; auto)+
  then show ?thesis using h(2) by (simp add: walk_ast.simps node_line_def)
qed

section \<open>A sample\<close>

definition name_node :: "nat \<Rightarrow> string \<Rightarrow> nat \<Rightarrow> py_node" where
  "name_node i x l = Node i ''Name'' (Some l) (Some l) [(''id'', FStr x)]"

text \<open>\<open>def f(): pass; pass\<close>.\<close>

definition flow_tree :: py_node where
  "flow_tree = Node 0 ''Module'' None None [(''body'', FNodes [Some
     (Node 1 ''FunctionDef'' (Some 1) (Some 3)
        [(''name'', FStr ''f''),
         (''body'', FNodes [Some (Node 2 ''Pass'' (Some 2) (Some 2) []), Some (Node 3 ''Pass'' (Some 3) (Some 3) [])])])])]"

definition flow_file :: "string \<Rightarrow> parsed_file" where
  "flow_file path =
     \<lparr>pf_path = path, pf_source = [], pf_sha256 = [], pf_line_count = 3, pf_ast = Some (ast_to_dict flow_tree),
      pf_functions = [\<lparr>fn_name = ''f'', fn_qualified_name = ''f'', fn_file = path, fn_line = 1, fn_end_line = 3,
        fn_args = [], fn_decorators = [], fn_is_method = False, fn_is_async = False\<rparr>],
      pf_classes = [], pf_imports = [], pf_calls = [], pf_assignments = [], pf_error = None\<rparr>"

definition flow_snapshot :: project_snapshot where
  "flow_snapshot =
     \<lparr>sn_project_id = [], sn_repo_name = [], sn_language = [], sn_created_at = Naive 0, sn_files = [flow_file ''.py''],
      sn_ignored_paths = [], sn_skipped_files = [],
      sn_summary = \<lparr>sm_fetched_files = 1, sm_fetched_bytes = 0, sm_python_files = 1, sm_parse_failures = 0,
        sm_total_lines = 3, sm_function_count = 1, sm_class_count = 0, sm_call_count = 0, sm_import_count = 0,
        sm_assignment_count = 0\<rparr>\<rparr>"

lemma flow_sample:
  "(case build_graph (\<lambda>_. Inr flow_tree) flow_snapshot of
      Inl _ \<Rightarrow> False
    | Inr g \<Rightarrow>
        map (\<lambda>e. (ce_src e, ce_dst e)) (filter (\<lambda>e. ce_type e = CFG_SEQ) (g_edges g)) =
          [(''.py:Pass:2:stmt'', ''.py:Pass:3:stmt'')])"
  by code_simp

text \<open>Two arguments of a call on one line share their id, which is documented to be unique.\<close>

lemma node_ids_clash:
  "(case walk_ast ''p'' (ast_to_dict (Node 1 ''Call'' (Some 3) (Some 3)
       [(''args'', FNodes [Some (name_node 2 ''a'' 3), Some (name_node 3 ''b'' 3)])])) [] 0 (empty_graph [] []) of
      Inl _ \<Rightarrow> False
    | Inr (g, _) \<Rightarrow> map cn_id (g_nodes g) = [''p:Call:3:0'', ''p:Name:3:1'', ''p:Name:3:1''])"
  by code_simp

theorem built_graph_layers_witness:
  "\<exists>g. build_graph (\<lambda>_. Inr flow_tree) flow_snapshot = Inr g \<and>
     (\<exists>e \<in> set (g_edges g). ce_type e = CFG_SEQ \<and> ce_src e \<notin> node_ids g \<and> ce_dst e \<notin> node_ids g)"
proof -
  obtain g where g: "build_graph (\<lambda>_. Inr flow_tree) flow_snapshot = Inr g"
      "map (\<lambda>e. (ce_src e, ce_dst e)) (filter (\<lambda>e. ce_type e = CFG_SEQ) (g_edges g)) =
          [(''.py:Pass:2:stmt'', ''.py:Pass:3:stmt'')]"
    using flow_sample by (auto split: sum.splits)
  then have "filter (\<lambda>e. ce_type e = CFG_SEQ) (g_edges g) \<noteq> []" by auto
  then obtain e where e: "e \<in> set (g_edges g)" "ce_type e = CFG_SEQ" by (auto simp: filter_empty_conv)
  have py: "\<forall>sf \<in> set (sn_files flow_snapshot). endswith ''.py'' (pf_path sf)"
    by (simp add: flow_snapshot_def flow_file_def endswith_def startswith_def)
  show ?thesis using built_graph_layers[OF g(1) py] g(1) e by fastforce
qed

end
