(* ===== verification/Llm.thy ===== *)
theory Llm
  imports Validate Benchmark
begin

text \<open>
  The model backends (backend/app/validate/providers/__init__.py, openai_compatible.py, huggingface.py): which
  provider the environment configures, and one completion with its errors.

  Arguments are the process environment, Python's \<open>float\<close> of a text, \<open>repr\<close> and the other side of the request:
  a transport error, or an answer with its status and what \<open>json()\<close> makes of its body.
\<close>

section \<open>Configuration\<close>

type_synonym environ = "string \<Rightarrow> string option"

definition getenv :: "environ \<Rightarrow> string \<Rightarrow> string \<Rightarrow> string" where
  "getenv env name fallback = (case env name of None \<Rightarrow> fallback | Some v \<Rightarrow> v)"

text \<open>The keyword arguments that override the environment.\<close>

record llm_kwargs =
  kw_base_url :: "string option"
  kw_api_key :: "string option"
  kw_model :: "string option"
  kw_timeout_seconds :: "rat option"

record llm_client =
  lc_provider_name :: string
  lc_base_url :: string
  lc_api_key :: string
  lc_model :: string
  lc_timeout_seconds :: rat

definition env_float :: "(string \<Rightarrow> rat option) \<Rightarrow> environ \<Rightarrow> string \<Rightarrow> rat \<Rightarrow> rat" where
  "env_float py_float env name fallback =
     (case env name of
        None \<Rightarrow> fallback
      | Some raw \<Rightarrow> if strip raw = [] then fallback else (case py_float raw of None \<Rightarrow> fallback | Some x \<Rightarrow> x))"

text \<open>\<open>base_url or os.getenv(...)\<close>: an empty text counts as missing.\<close>

definition or_else :: "string option \<Rightarrow> string \<Rightarrow> string" where
  "or_else v fallback = (case v of None \<Rightarrow> fallback | Some s \<Rightarrow> if s = [] then fallback else s)"

definition openai_compatible ::
    "(string \<Rightarrow> rat option) \<Rightarrow> environ \<Rightarrow> string \<Rightarrow> llm_kwargs \<Rightarrow> config_error + llm_client" where
  "openai_compatible py_float env provider_name kw =
     (let url = or_else (kw_base_url kw) (getenv env ''LLM_BASE_URL'' []);
          client = \<lparr>lc_provider_name = provider_name,
            lc_base_url = rev (dropWhile (\<lambda>c. c = CHR 0x2F) (rev url)),
            lc_api_key = (case kw_api_key kw of None \<Rightarrow> getenv env ''LLM_API_KEY'' [] | Some k \<Rightarrow> k),
            lc_model = (case kw_model kw of None \<Rightarrow> getenv env ''LLM_MODEL'' [] | Some m \<Rightarrow> m),
            lc_timeout_seconds = (case kw_timeout_seconds kw of
               None \<Rightarrow> env_float py_float env ''LLM_TIMEOUT_SECONDS'' 30 | Some t \<Rightarrow> t)\<rparr>
      in if lc_base_url client = [] \<or> lc_api_key client = []
         then Inl (''LLM is not configured: set LLM_BASE_URL and LLM_API_KEY '' @
                   ''(and optionally LLM_PROVIDER / LLM_MODEL) to enable validation'')
         else Inr client)"

definition DEFAULT_BASE_URL :: string where
  "DEFAULT_BASE_URL = ''https://router.huggingface.co/v1''"

definition huggingface ::
    "(string \<Rightarrow> rat option) \<Rightarrow> environ \<Rightarrow> llm_kwargs \<Rightarrow> config_error + llm_client" where
  "huggingface py_float env kw =
     (case openai_compatible py_float env ''huggingface''
             (kw\<lparr>kw_base_url := Some (or_else (kw_base_url kw) (getenv env ''LLM_BASE_URL'' DEFAULT_BASE_URL))\<rparr>) of
        Inl e \<Rightarrow> Inl e
      | Inr client \<Rightarrow>
          if lc_model client = []
          then Inl (''LLM is not configured: set LLM_MODEL to the Hugging Face model id '' @
                    ''(e.g. a model hosted on or routed through the Inference API)'')
          else Inr client)"

definition PROVIDERS ::
    "(string, (string \<Rightarrow> rat option) \<Rightarrow> environ \<Rightarrow> llm_kwargs \<Rightarrow> config_error + llm_client) dict" where
  "PROVIDERS = [(''huggingface'', huggingface),
     (''openai_compatible'', \<lambda>py_float env. openai_compatible py_float env ''openai_compatible'')]"

definition provider_choice :: "environ \<Rightarrow> string option \<Rightarrow> string" where
  "provider_choice env name = or_else name (getenv env ''LLM_PROVIDER'' ''huggingface'')"

definition get_provider ::
    "(string \<Rightarrow> string) \<Rightarrow> (string \<Rightarrow> rat option) \<Rightarrow> environ \<Rightarrow> string option \<Rightarrow> llm_kwargs \<Rightarrow> config_error + llm_client" where
  "get_provider py_repr py_float env name kw =
     (let provider_name = provider_choice env name in
      case dget PROVIDERS provider_name of
        None \<Rightarrow> Inl (''unknown LLM provider '' @ py_repr provider_name @ ''; supported: ['' @ quoted ''huggingface'' @
                      '', '' @ quoted ''openai_compatible'' @ '']'')
      | Some build \<Rightarrow>
          (case build py_float env kw of
             Inl exc \<Rightarrow> Inl (''provider '' @ py_repr provider_name @ '': '' @ exc)
           | Inr client \<Rightarrow> Inr client))"

definition client_model :: "llm_client \<Rightarrow> string option" where
  "client_model client = (if lc_model client = [] then None else Some (lc_model client))"

definition client_repr :: "(string \<Rightarrow> string) \<Rightarrow> string \<Rightarrow> llm_client \<Rightarrow> string" where
  "client_repr py_repr class_name client =
     class_name @ ''(provider_name='' @ py_repr (lc_provider_name client) @ '', base_url='' @
     py_repr (lc_base_url client) @ '', model='' @
     (case client_model client of None \<Rightarrow> ''None'' | Some m \<Rightarrow> py_repr m) @ '', api_key=<redacted>)''"

section \<open>A completion\<close>

record llm_answer =
  la_status_code :: int
  la_json :: "string + json"

text \<open>\<open>Request_error\<close> is every \<open>httpx.RequestError\<close> but a timeout, \<open>Request_exception\<close> any other exception.\<close>

datatype llm_outcome = Request_timeout | Request_error | Request_exception string | Answered llm_answer

datatype llm_exn = Llm_config config_error | Llm_exception string

record llm_request =
  lq_url :: string
  lq_model :: string
  lq_system :: string
  lq_prompt :: string
  lq_authorization :: string
  lq_timeout :: rat

definition UNAVAILABLE :: string where
  "UNAVAILABLE = ''LLM validation is currently unavailable''"

definition unavailable :: "string \<Rightarrow> llm_exn" where
  "unavailable why = Llm_config (UNAVAILABLE @ '': '' @ why)"

text \<open>\<open>data["key"]\<close> and \<open>data[0]\<close>; nothing stands for \<open>KeyError\<close>, \<open>IndexError\<close> and \<open>TypeError\<close>.\<close>

fun json_key :: "string \<Rightarrow> json \<Rightarrow> json option" where
  "json_key k (JObj kvs) = map_of kvs k"
| "json_key k _ = None"

fun json_first :: "json \<Rightarrow> json option" where
  "json_first (JList (x # _)) = Some x"
| "json_first (JStr (c # _)) = Some (JStr [c])"
| "json_first _ = None"

definition content_of :: "json \<Rightarrow> json option" where
  "content_of data =
     Option.bind (json_key ''choices'' data) (\<lambda>choices.
     Option.bind (json_first choices) (\<lambda>choice.
     Option.bind (json_key ''message'' choice) (json_key ''content'')))"

text \<open>\<open>raise_for_status\<close> raises for every status that is not in 200..299. The content need not be a text.\<close>

definition read_answer :: "llm_answer \<Rightarrow> llm_exn + json" where
  "read_answer r =
     (let code = la_status_code r in
      if code = 401 \<or> code = 403 then Inl (unavailable ''the API key was rejected by the provider'')
      else if code = 429 then Inl (unavailable ''rate limited by the provider'')
      else if 500 \<le> code then Inl (unavailable (''provider error (status '' @ dec_int code @ '')''))
      else if \<not> (200 \<le> code \<and> code \<le> 299) then Inl (unavailable (''provider error (status '' @ dec_int code @ '')''))
      else
        (case la_json r of
           Inl _ \<Rightarrow> Inl (unavailable ''malformed provider response'')
         | Inr data \<Rightarrow>
             (case content_of data of
                None \<Rightarrow> Inl (unavailable ''unexpected response shape from the provider'')
              | Some content \<Rightarrow> Inr content)))"

definition completion_request :: "string \<Rightarrow> llm_client \<Rightarrow> string \<Rightarrow> llm_request" where
  "completion_request system_prompt client prompt =
     \<lparr>lq_url = lc_base_url client @ ''/chat/completions'',
      lq_model = (if lc_model client = [] then ''default'' else lc_model client), lq_system = system_prompt,
      lq_prompt = prompt, lq_authorization = ''Bearer '' @ lc_api_key client, lq_timeout = lc_timeout_seconds client\<rparr>"

definition complete ::
    "(llm_request \<Rightarrow> 'w \<Rightarrow> llm_outcome \<times> 'w) \<Rightarrow> string \<Rightarrow> llm_client \<Rightarrow> string \<Rightarrow> 'w \<Rightarrow> (llm_exn + json) \<times> 'w" where
  "complete send system_prompt client prompt w =
     (case send (completion_request system_prompt client prompt) w of
        (Request_timeout, w') \<Rightarrow> (Inl (unavailable ''the model request timed out''), w')
      | (Request_error, w') \<Rightarrow> (Inl (unavailable ''network error while contacting the model endpoint''), w')
      | (Request_exception exc, w') \<Rightarrow> (Inl (Llm_exception exc), w')
      | (Answered r, w') \<Rightarrow> (read_answer r, w'))"

section \<open>Properties\<close>

definition url_of :: "environ \<Rightarrow> llm_kwargs \<Rightarrow> string \<Rightarrow> string" where
  "url_of env kw fallback =
     rev (dropWhile (\<lambda>c. c = CHR 0x2F) (rev (or_else (kw_base_url kw) (getenv env ''LLM_BASE_URL'' fallback))))"

definition configured_as :: "(string \<Rightarrow> rat option) \<Rightarrow> environ \<Rightarrow> llm_kwargs \<Rightarrow> string \<Rightarrow> string \<Rightarrow> llm_client \<Rightarrow> bool" where
  "configured_as py_float env kw n fallback client \<longleftrightarrow>
     lc_provider_name client = n \<and> lc_base_url client = url_of env kw fallback \<and> lc_base_url client \<noteq> [] \<and>
     lc_api_key client = (case kw_api_key kw of None \<Rightarrow> getenv env ''LLM_API_KEY'' [] | Some k \<Rightarrow> k) \<and>
     lc_api_key client \<noteq> [] \<and>
     lc_model client = (case kw_model kw of None \<Rightarrow> getenv env ''LLM_MODEL'' [] | Some m \<Rightarrow> m) \<and>
     lc_timeout_seconds client = (case kw_timeout_seconds kw of
        None \<Rightarrow> env_float py_float env ''LLM_TIMEOUT_SECONDS'' 30 | Some t \<Rightarrow> t)"

lemma openai_iff:
  "openai_compatible py_float env n kw = Inr client \<longleftrightarrow> configured_as py_float env kw n [] client"
proof -
  have eq: "client = r \<longleftrightarrow> lc_provider_name client = lc_provider_name r \<and> lc_base_url client = lc_base_url r \<and>
      lc_api_key client = lc_api_key r \<and> lc_model client = lc_model r \<and> lc_timeout_seconds client = lc_timeout_seconds r"
    for r by (cases client; cases r) simp
  show ?thesis
    unfolding openai_compatible_def configured_as_def url_of_def Let_def by (auto simp: eq)
qed

lemma hugging_iff:
  "huggingface py_float env kw = Inr client \<longleftrightarrow>
     configured_as py_float env kw ''huggingface'' DEFAULT_BASE_URL client \<and> lc_model client \<noteq> []"
proof -
  let ?kw = "kw\<lparr>kw_base_url := Some (or_else (kw_base_url kw) (getenv env ''LLM_BASE_URL'' DEFAULT_BASE_URL))\<rparr>"
  have "url_of env ?kw [] = url_of env kw DEFAULT_BASE_URL"
    by (auto simp: url_of_def or_else_def getenv_def DEFAULT_BASE_URL_def split: option.splits)
  then have "openai_compatible py_float env ''huggingface'' ?kw = Inr client \<longleftrightarrow>
      configured_as py_float env kw ''huggingface'' DEFAULT_BASE_URL client"
    by (simp add: openai_iff configured_as_def)
  then show ?thesis
    by (cases "openai_compatible py_float env ''huggingface'' ?kw") (auto simp: huggingface_def)
qed

text \<open>A provider is built exactly when its name is known, the key is set, the address without its trailing slashes is
  not empty and, for Hugging Face, a model is set; it then carries the arguments where they are given and the
  values of the environment elsewhere.\<close>

theorem get_provider_iff:
  "get_provider py_repr py_float env name kw = Inr client \<longleftrightarrow>
     provider_choice env name = ''huggingface'' \<and> lc_model client \<noteq> [] \<and>
       configured_as py_float env kw ''huggingface'' DEFAULT_BASE_URL client \<or>
     provider_choice env name = ''openai_compatible'' \<and>
       configured_as py_float env kw ''openai_compatible'' [] client"
proof -
  have "get_provider py_repr py_float env name kw = Inr client \<longleftrightarrow>
      provider_choice env name = ''huggingface'' \<and> huggingface py_float env kw = Inr client \<or>
      provider_choice env name = ''openai_compatible'' \<and>
        openai_compatible py_float env ''openai_compatible'' kw = Inr client"
    by (auto simp: get_provider_def PROVIDERS_def Let_def split: sum.splits)
  then show ?thesis by (auto simp: openai_iff hugging_iff)
qed


text \<open>A content that is null is handed on as the completion, although the signature promises a text.\<close>

lemma null_content_is_completed:
  "read_answer \<lparr>la_status_code = 200, la_json = Inr (JObj [(''choices'', JList [JObj [(''message'',
     JObj [(''content'', JNull)])]])])\<rparr> = Inr JNull"
  by (simp add: read_answer_def content_of_def Let_def)

end
