(* ===== verification/Defectdojo.thy ===== *)
theory Defectdojo
  imports Benchmark Dedup
begin

text \<open>
  The export to DefectDojo (backend/app/defectdojo/ and api/routes/defectdojo.py): the client with its errors, the
  translation of a finding, the tickets with their table, and the endpoints.

  The other side of a request is an argument that also transforms the world: a transport error, or an answer with its
  status, its text and what \<open>json()\<close> makes of it. Arguments too are Pydantic's validation of the collected fields,
  the texts of exceptions, the clock and the arrow of the taint summary, which is no ASCII character.
\<close>

section \<open>Contracts\<close>

record dd_config =
  dc_url :: string
  dc_api_key :: string
  dc_enabled :: bool
  dc_product_id :: "int option"
  dc_engagement_id :: "int option"
  dc_test_type_name :: string
  dc_timeout_seconds :: int

record dd_finding_create =
  dj_title :: string
  dj_severity :: string
  dj_description :: string
  dj_numerical_severity :: int
  dj_mitigation :: string
  dj_product_id :: "int option"
  dj_engagement_id :: "int option"
  dj_test_type_name :: string
  dj_file_path :: string
  dj_line :: "int option"

record dd_finding_response =
  dr_id :: int
  dr_url :: string
  dr_title :: string
  dr_severity :: string
  dr_numerical_severity :: int
  dr_active :: bool
  dr_verified :: bool
  dr_created :: string
  dr_updated :: string

datatype ticket_status = Ticket_pending | Ticket_created | Ticket_synced | Ticket_error

record dd_ticket =
  tk_finding_id :: string
  tk_defectdojo_finding_id :: "int option"
  tk_defectdojo_url :: string
  tk_status :: ticket_status
  tk_error_message :: "string option"
  tk_created_at :: "py_datetime option"
  tk_updated_at :: "py_datetime option"
  tk_payload :: candidate_finding

record connection_test =
  ct_success :: bool
  ct_message :: string
  ct_url :: string
  ct_version :: "string option"

record dd_sync_result =
  sy_total :: nat
  sy_created :: nat
  sy_updated :: nat
  sy_errors :: nat
  sy_tickets :: "dd_ticket list"
  sy_error_messages :: "string list"

section \<open>The client\<close>

text \<open>The four errors of the client, with message, status and body, and every other exception.\<close>

datatype dd_kind = Client_error | Auth_error | Not_found_error | Validation_error

datatype dd_exn = Dd_error dd_kind string "int option" "string option" | Dd_other string

record http_response =
  hp_status_code :: int
  hp_text :: string
  hp_json :: "string + json"

datatype http_outcome = Connect_error string | Timeout_exception | Transport_error string | Answer http_response

type_synonym fields = "(string \<times> json) list"

record 'w dd_env =
  de_get :: "string \<Rightarrow> (string \<times> string) list \<Rightarrow> 'w \<Rightarrow> http_outcome \<times> 'w"
  de_post :: "string \<Rightarrow> fields \<Rightarrow> (string \<times> string) list \<Rightarrow> 'w \<Rightarrow> http_outcome \<times> 'w"
  de_patch :: "string \<Rightarrow> fields \<Rightarrow> (string \<times> string) list \<Rightarrow> 'w \<Rightarrow> http_outcome \<times> 'w"
  de_response :: "fields \<Rightarrow> string + dd_finding_response"
  de_version :: "json \<Rightarrow> string + string option"
  de_no_get :: "json \<Rightarrow> string"
  de_no_item :: "json \<Rightarrow> string"
  de_now :: "'w \<Rightarrow> py_datetime \<times> 'w"
  de_arrow :: string

definition is_configured :: "dd_config \<Rightarrow> bool" where
  "is_configured cfg \<longleftrightarrow> dc_url cfg \<noteq> [] \<and> dc_api_key cfg \<noteq> []"

definition is_enabled :: "dd_config \<Rightarrow> bool" where
  "is_enabled cfg \<longleftrightarrow> dc_enabled cfg \<and> is_configured cfg"

definition base_url :: "dd_config \<Rightarrow> string" where
  "base_url cfg = rev (dropWhile (\<lambda>c. c = CHR 0x2F) (rev (dc_url cfg)))"

definition headers :: "dd_config \<Rightarrow> (string \<times> string) list" where
  "headers cfg = [(''Authorization'', ''Token '' @ dc_api_key cfg), (''Content-Type'', ''application/json''),
     (''Accept'', ''application/json'')]"

definition api_url :: "dd_config \<Rightarrow> string \<Rightarrow> string" where
  "api_url cfg path = base_url cfg @ ''/api/v2/'' @ dropWhile (\<lambda>c. c = CHR 0x2F) path"

definition failed_test :: "dd_config \<Rightarrow> string \<Rightarrow> connection_test" where
  "failed_test cfg message = \<lparr>ct_success = False, ct_message = message, ct_url = dc_url cfg, ct_version = None\<rparr>"

definition unexpected :: "dd_config \<Rightarrow> string \<Rightarrow> connection_test" where
  "unexpected cfg exc = failed_test cfg (''Unexpected error connecting to DefectDojo: '' @ exc)"

text \<open>The answer to a connection test; an exception while it is read is an unexpected error.\<close>

definition test_answer :: "'w dd_env \<Rightarrow> dd_config \<Rightarrow> http_response \<Rightarrow> connection_test" where
  "test_answer E cfg r =
     (if hp_status_code r = 200 then
        (case (if hp_text r = [] then Inr (JObj []) else hp_json r) of
           Inl exc \<Rightarrow> unexpected cfg exc
         | Inr (JObj kvs) \<Rightarrow>
             (case de_version E (if truthy (member kvs ''version'') then member kvs ''version''
                                 else member kvs ''scm_branch'') of
                Inl exc \<Rightarrow> unexpected cfg exc
              | Inr v \<Rightarrow> \<lparr>ct_success = True, ct_message = ''Connected to DefectDojo successfully'',
                          ct_url = dc_url cfg, ct_version = v\<rparr>)
         | Inr v \<Rightarrow> unexpected cfg (de_no_get E v))
      else if hp_status_code r \<in> {401, 403} then
        failed_test cfg (''Authentication failed (HTTP '' @ dec_int (hp_status_code r) @ ''). Check your API key.'')
      else failed_test cfg (''DefectDojo returned HTTP '' @ dec_int (hp_status_code r) @ '': '' @ take 200 (hp_text r)))"

definition test_connection :: "'w dd_env \<Rightarrow> dd_config \<Rightarrow> 'w \<Rightarrow> connection_test \<times> 'w" where
  "test_connection E cfg w =
     (if \<not> is_configured cfg then
        (\<lparr>ct_success = False, ct_message = ''DefectDojo is not configured (missing URL or API key)'', ct_url = [],
          ct_version = None\<rparr>, w)
      else
        (case de_get E (api_url cfg ''connection/test'') (headers cfg) w of
           (Answer r, w') \<Rightarrow> (test_answer E cfg r, w')
         | (Connect_error exc, w') \<Rightarrow>
             (failed_test cfg (''Cannot connect to DefectDojo at '' @ dc_url cfg @ '': '' @ exc), w')
         | (Timeout_exception, w') \<Rightarrow>
             (failed_test cfg (''Connection to DefectDojo timed out after '' @ dec_int (dc_timeout_seconds cfg) @ ''s''), w')
         | (Transport_error exc, w') \<Rightarrow> (unexpected cfg exc, w')))"

text \<open>\<open>model_dump(exclude_none=True)\<close>.\<close>

definition opt_field :: "string \<Rightarrow> int option \<Rightarrow> fields" where
  "opt_field k v = (case v of None \<Rightarrow> [] | Some n \<Rightarrow> [(k, JInt n)])"

definition create_payload :: "dd_finding_create \<Rightarrow> fields" where
  "create_payload f =
     [(''title'', JStr (dj_title f)), (''severity'', JStr (dj_severity f)), (''description'', JStr (dj_description f)),
      (''numerical_severity'', JInt (dj_numerical_severity f)), (''mitigation'', JStr (dj_mitigation f)),
      (''impact'', JStr []), (''steps_to_reproduce'', JStr []), (''references'', JStr []), (''active'', JBool True),
      (''verified'', JBool False), (''false_p'', JBool False), (''out_of_scope'', JBool False)] @
     opt_field ''product_id'' (dj_product_id f) @ opt_field ''engagement_id'' (dj_engagement_id f) @
     [(''test_type_name'', JStr (dj_test_type_name f)), (''file_path'', JStr (dj_file_path f))] @
     opt_field ''line'' (dj_line f) @ [(''component_name'', JStr [])]"

definition with_default :: "fields \<Rightarrow> string \<Rightarrow> json \<Rightarrow> json" where
  "with_default kvs k d = (case map_of kvs k of None \<Rightarrow> d | Some v \<Rightarrow> v)"

text \<open>
  The response is built from the JSON of the answer: the id is required, the other fields have defaults. A body that
  is no JSON, no dictionary, without an id or with a field of the wrong type raises an exception of its own.
\<close>

definition finding_response :: "'w dd_env \<Rightarrow> string \<Rightarrow> string \<Rightarrow> int \<Rightarrow> http_response \<Rightarrow> dd_exn + dd_finding_response" where
  "finding_response E title sev numerical r =
     (case hp_json r of
        Inl exc \<Rightarrow> Inl (Dd_other exc)
      | Inr (JObj kvs) \<Rightarrow>
          (case map_of kvs ''id'' of
             None \<Rightarrow> Inl (Dd_other (quoted ''id''))
           | Some i \<Rightarrow>
               map_sum Dd_other (\<lambda>v. v)
                 (de_response E [(''id'', i), (''url'', with_default kvs ''url'' (JStr [])),
                    (''title'', with_default kvs ''title'' (JStr title)),
                    (''severity'', with_default kvs ''severity'' (JStr sev)),
                    (''numerical_severity'', with_default kvs ''numerical_severity'' (JInt numerical)),
                    (''active'', with_default kvs ''active'' (JBool True)),
                    (''verified'', with_default kvs ''verified'' (JBool False)),
                    (''created'', with_default kvs ''created'' (JStr [])),
                    (''updated'', with_default kvs ''updated'' (JStr []))]))
      | Inr v \<Rightarrow> Inl (Dd_other (de_no_item E v)))"

definition create_answer :: "'w dd_env \<Rightarrow> dd_finding_create \<Rightarrow> http_response \<Rightarrow> dd_exn + dd_finding_response" where
  "create_answer E f r =
     (let code = hp_status_code r in
      if code \<in> {200, 201} then finding_response E (dj_title f) (dj_severity f) (dj_numerical_severity f) r
      else if code \<in> {401, 403} then
        Inl (Dd_error Auth_error (''Authentication failed (HTTP '' @ dec_int code @ '')'') (Some code) None)
      else if code = 400 then
        Inl (Dd_error Validation_error (''Validation error: '' @ take 500 (hp_text r)) (Some 400) (Some (hp_text r)))
      else if code = 404 then
        Inl (Dd_error Not_found_error ''API endpoint not found. Check your DefectDojo URL.'' (Some 404) None)
      else
        Inl (Dd_error Client_error (''DefectDojo returned HTTP '' @ dec_int code @ '': '' @ take 300 (hp_text r))
               (Some code) (Some (hp_text r))))"

text \<open>\<open>ConnectError\<close> and \<open>TimeoutException\<close> are translated, other transport errors are not.\<close>

definition transport :: "http_outcome \<times> 'w \<Rightarrow> (http_response \<Rightarrow> dd_exn + 'r) \<Rightarrow> int \<Rightarrow> (dd_exn + 'r) \<times> 'w" where
  "transport o' answered timeout =
     (case o' of
        (Answer r, w) \<Rightarrow> (answered r, w)
      | (Connect_error exc, w) \<Rightarrow> (Inl (Dd_error Client_error (''Cannot connect to DefectDojo: '' @ exc) None None), w)
      | (Timeout_exception, w) \<Rightarrow>
          (Inl (Dd_error Client_error (''DefectDojo request timed out after '' @ dec_int timeout @ ''s'') None None), w)
      | (Transport_error exc, w) \<Rightarrow> (Inl (Dd_other exc), w))"

definition create_finding ::
    "'w dd_env \<Rightarrow> dd_config \<Rightarrow> dd_finding_create \<Rightarrow> 'w \<Rightarrow> (dd_exn + dd_finding_response) \<times> 'w" where
  "create_finding E cfg f w =
     (if \<not> is_enabled cfg then
        (Inl (Dd_error Client_error (''DefectDojo integration is not enabled. '' @
                ''Set SAST_DEFECTDOJO_ENABLED=true and configure URL/API key.'') None None), w)
      else transport (de_post E (api_url cfg ''findings/'') (create_payload f) (headers cfg) w)
             (create_answer E f) (dc_timeout_seconds cfg))"

definition update_finding ::
    "'w dd_env \<Rightarrow> dd_config \<Rightarrow> int \<Rightarrow> fields \<Rightarrow> 'w \<Rightarrow> (dd_exn + dd_finding_response) \<times> 'w" where
  "update_finding E cfg i updates w =
     (if \<not> is_enabled cfg then
        (Inl (Dd_error Client_error ''DefectDojo integration is not enabled.'' None None), w)
      else transport (de_patch E (api_url cfg (''findings/'' @ dec_int i @ ''/'')) updates (headers cfg) w)
             (\<lambda>r. if hp_status_code r = 200 then finding_response E [] [] 0 r
                  else Inl (Dd_error Client_error (''DefectDojo update failed (HTTP '' @ dec_int (hp_status_code r) @
                         ''): '' @ take 300 (hp_text r)) (Some (hp_status_code r)) None))
             (dc_timeout_seconds cfg))"

section \<open>The service\<close>

definition SEVERITY_MAP :: "(string, int \<times> string) dict" where
  "SEVERITY_MAP = [(''critical'', 1, ''Critical''), (''high'', 2, ''High''), (''medium'', 3, ''Medium''),
     (''low'', 4, ''Low''), (''info'', 5, ''Info'')]"

type_synonym 'p ticket_store = "(dd_ticket, 'p) kstore"

definition ticket_key :: "(string \<Rightarrow> string) \<Rightarrow> string \<Rightarrow> string" where
  "ticket_key sha finding_id = take 32 (sha (''defectdojo|'' @ finding_id))"

definition get_ticket :: "string \<Rightarrow> 'p ticket_store \<Rightarrow> dd_ticket option" where
  "get_ticket finding_id s = kstore_get s finding_id"

definition all_tickets :: "'p ticket_store \<Rightarrow> dd_ticket list" where
  "all_tickets s = kstore_all s"

definition persist_ticket :: "(dd_ticket, 'p) codec \<Rightarrow> dd_ticket \<Rightarrow> 'p ticket_store \<Rightarrow> 'p ticket_store" where
  "persist_ticket c t s = kstore_put c (tk_finding_id t) t s"

definition mitigation_for :: "string \<Rightarrow> string" where
  "mitigation_for vuln_type =
     (case map_of
        [(''sql_injection'', ''Use parameterized queries or an ORM. Never construct SQL strings with user input. Example: '' @
            ''cursor.execute('' @ quoted ''SELECT * FROM t WHERE id = ?'' @ '', (user_id,))''),
         (''command_injection'', ''Avoid shell execution with user input. Use subprocess with '' @
            ''list arguments (shell=False). Example: subprocess.run(['' @ quoted ''ls'' @ '', directory], shell=False)''),
         (''ssrf'', ''Validate and whitelist allowed URLs before making HTTP '' @
            ''requests. Restrict network access to trusted hosts only.''),
         (''deserialization'', ''Never deserialize untrusted data with pickle, marshal, or '' @
            ''yaml.load. Use safe alternatives like json.loads() or yaml.safe_load().'')] vuln_type of
        None \<Rightarrow> ''Review and remediate as appropriate.''
      | Some m \<Rightarrow> m)"

text \<open>\<open>{confidence:.2f}\<close> of a confidence in hundredths.\<close>

definition fixed2 :: "int \<Rightarrow> string" where
  "fixed2 n = dec_int (n div 100) @ ''.'' @ dec_int (n mod 100 div 10) @ dec_int (n mod 10)"

definition back_quoted :: "string \<Rightarrow> string" where
  "back_quoted s = [CHR 0x60] @ s @ [CHR 0x60]"

definition describe :: "'w dd_env \<Rightarrow> candidate_finding \<Rightarrow> string" where
  "describe E f =
     (let place = (\<lambda>file line. file @ '':'' @ dec line) in
      ''**Vulnerability Type:** '' @ f_vulnerability_type f @ [LF] @
      ''**Scanner Confidence:** '' @ fixed2 (f_confidence f) @ [LF] @
      ''**Source:** '' @ place (src_file (f_source f)) (src_line (f_source f)) @ '' ('' @ src_kind (f_source f) @ '')'' @ [LF] @
      ''**Sink:** '' @ place (snk_file (f_sink f)) (snk_line (f_sink f)) @ '' ('' @ snk_kind (f_sink f) @ '')'' @ [LF] @
      ''**Taint Path:** '' @ join ('' '' @ de_arrow E @ '' '')
         (map (\<lambda>t. step_text (ts_type t) @ ''('' @ place (ts_file t) (ts_line t) @ '')'') (f_taint_path f)) @ [LF] @
      ''**Source Snippet:** '' @ back_quoted (src_snippet (f_source f)) @ [LF] @
      ''**Sink Snippet:** '' @ back_quoted (snk_snippet (f_sink f)) @ [LF])"

definition to_defectdojo_finding :: "'w dd_env \<Rightarrow> dd_config \<Rightarrow> candidate_finding \<Rightarrow> dd_finding_create" where
  "to_defectdojo_finding E cfg f =
     (let (num_severity, severity_label) =
            (case dget SEVERITY_MAP (f_severity f) of None \<Rightarrow> (3, ''Medium'') | Some p \<Rightarrow> p)
      in \<lparr>dj_title = f_vulnerability_type f @ '': '' @ take 80 (snk_snippet (f_sink f)), dj_severity = severity_label,
          dj_description = describe E f, dj_numerical_severity = num_severity,
          dj_mitigation = mitigation_for (f_vulnerability_type f), dj_product_id = dc_product_id cfg,
          dj_engagement_id = dc_engagement_id cfg, dj_test_type_name = dc_test_type_name cfg,
          dj_file_path = src_file (f_source f), dj_line = Some (int (src_line (f_source f)))\<rparr>)"

definition not_enabled_message :: string where
  "not_enabled_message = ''DefectDojo integration is not enabled. '' @
     ''Configure SAST_DEFECTDOJO_URL, SAST_DEFECTDOJO_API_KEY, and SAST_DEFECTDOJO_ENABLED=true.''"

text \<open>
  Creating a ticket. An error of the client becomes the ticket's; any other exception leaves the function before the
  ticket is recorded.
\<close>

definition create_ticket ::
    "'w dd_env \<Rightarrow> (dd_ticket, 'p) codec \<Rightarrow> dd_config \<Rightarrow> candidate_finding \<Rightarrow> 'p ticket_store \<times> 'w
     \<Rightarrow> (dd_exn + dd_ticket) \<times> 'p ticket_store \<times> 'w" where
  "create_ticket E c cfg f sw =
     (case sw of (s, w0) \<Rightarrow>
      case de_now E w0 of (created, w1) \<Rightarrow>
        let ticket = \<lparr>tk_finding_id = f_id f, tk_defectdojo_finding_id = None, tk_defectdojo_url = [],
                      tk_status = Ticket_pending, tk_error_message = None, tk_created_at = Some created,
                      tk_updated_at = None, tk_payload = f\<rparr>
        in if \<not> is_enabled cfg then
             (let t = ticket\<lparr>tk_status := Ticket_error, tk_error_message := Some not_enabled_message\<rparr>
              in (Inr t, persist_ticket c t s, w1))
           else
             (case create_finding E cfg (to_defectdojo_finding E cfg f) w1 of
                (Inr r, w2) \<Rightarrow>
                  (case de_now E w2 of (updated, w3) \<Rightarrow>
                     let t = ticket\<lparr>tk_defectdojo_finding_id := Some (dr_id r), tk_defectdojo_url := dr_url r,
                                    tk_status := Ticket_created, tk_updated_at := Some updated\<rparr>
                     in (Inr t, persist_ticket c t s, w3))
              | (Inl (Dd_error k m code body), w2) \<Rightarrow>
                  (case de_now E w2 of (updated, w3) \<Rightarrow>
                     let t = ticket\<lparr>tk_status := Ticket_error, tk_error_message := Some m, tk_updated_at := Some updated\<rparr>
                     in (Inr t, persist_ticket c t s, w3))
              | (Inl (Dd_other exc), w2) \<Rightarrow> (Inl (Dd_other exc), s, w2)))"

definition is_synced :: "ticket_status \<Rightarrow> bool" where
  "is_synced st \<longleftrightarrow> st = Ticket_created \<or> st = Ticket_synced"

text \<open>One round of the loop of a synchronisation, and the loop, which an exception ends.\<close>

definition count_ticket :: "dd_ticket \<Rightarrow> dd_sync_result \<Rightarrow> dd_sync_result" where
  "count_ticket t r =
     (let r = r\<lparr>sy_tickets := sy_tickets r @ [t]\<rparr> in
      if is_synced (tk_status t) then r\<lparr>sy_created := sy_created r + 1\<rparr>
      else r\<lparr>sy_errors := sy_errors r + 1,
             sy_error_messages := sy_error_messages r @
               (case tk_error_message t of None \<Rightarrow> [] | Some m \<Rightarrow> if m = [] then [] else [m])\<rparr>)"

fun sync_loop ::
    "'w dd_env \<Rightarrow> (dd_ticket, 'p) codec \<Rightarrow> dd_config \<Rightarrow> candidate_finding list \<Rightarrow> dd_sync_result \<Rightarrow> 'p ticket_store \<times> 'w
     \<Rightarrow> (dd_exn + dd_sync_result) \<times> 'p ticket_store \<times> 'w" where
  "sync_loop E c cfg [] r sw = (Inr r, sw)"
| "sync_loop E c cfg (f # fs) r sw =
     (if (case get_ticket (f_id f) (fst sw) of None \<Rightarrow> False | Some t \<Rightarrow> is_synced (tk_status t))
      then sync_loop E c cfg fs r sw
      else
        (case create_ticket E c cfg f sw of
           (Inl e, sw') \<Rightarrow> (Inl e, sw')
         | (Inr t, sw') \<Rightarrow> sync_loop E c cfg fs (count_ticket t r) sw'))"

definition sync_findings ::
    "'w dd_env \<Rightarrow> (dd_ticket, 'p) codec \<Rightarrow> dd_config \<Rightarrow> candidate_finding list \<Rightarrow> 'p ticket_store \<times> 'w
     \<Rightarrow> (dd_exn + dd_sync_result) \<times> 'p ticket_store \<times> 'w" where
  "sync_findings E c cfg fs sw =
     sync_loop E c cfg fs \<lparr>sy_total = length fs, sy_created = 0, sy_updated = 0, sy_errors = 0, sy_tickets = [],
       sy_error_messages = []\<rparr> sw"

record dd_integration_status =
  ds_enabled :: bool
  ds_configured :: bool
  ds_url :: string
  ds_product_id :: "int option"
  ds_engagement_id :: "int option"
  ds_ticket_count :: nat
  ds_tickets_with_error :: nat

definition get_status :: "dd_config \<Rightarrow> 'p ticket_store \<Rightarrow> dd_integration_status" where
  "get_status cfg s =
     \<lparr>ds_enabled = dc_enabled cfg, ds_configured = (dc_url cfg \<noteq> [] \<and> dc_api_key cfg \<noteq> []), ds_url = dc_url cfg,
      ds_product_id = dc_product_id cfg, ds_engagement_id = dc_engagement_id cfg,
      ds_ticket_count = length (all_tickets s),
      ds_tickets_with_error = length (filter (\<lambda>t. tk_status t = Ticket_error) (all_tickets s))\<rparr>"

section \<open>The endpoints\<close>

text \<open>Any signed-in user may call them; an exception is a 500.\<close>

definition signed_in :: "auth_env \<Rightarrow> auth_db \<Rightarrow> string option \<Rightarrow> 's \<Rightarrow> (http_error + 'r) \<times> 's \<Rightarrow> (http_error + 'r) \<times> 's" where
  "signed_in auth db cookie s body = (case get_current_user auth db cookie of Inl e \<Rightarrow> (Inl e, s) | Inr _ \<Rightarrow> body)"

definition or_500 :: "(dd_exn + 'r) \<times> 's \<Rightarrow> (http_error + 'r) \<times> 's" where
  "or_500 xs = (map_sum (\<lambda>_. (500, ''Internal Server Error'')) (\<lambda>r. r) (fst xs), snd xs)"

definition defectdojo_status ::
    "auth_env \<Rightarrow> auth_db \<Rightarrow> string option \<Rightarrow> dd_config \<Rightarrow> 'p ticket_store \<Rightarrow> http_error + dd_integration_status" where
  "defectdojo_status auth db cookie cfg s = fst (signed_in auth db cookie s (Inr (get_status cfg s), s))"

definition test_connection_route ::
    "auth_env \<Rightarrow> auth_db \<Rightarrow> string option \<Rightarrow> 'w dd_env \<Rightarrow> dd_config \<Rightarrow> 'w \<Rightarrow> (http_error + connection_test) \<times> 'w" where
  "test_connection_route auth db cookie E cfg w =
     signed_in auth db cookie w (case test_connection E cfg w of (r, w') \<Rightarrow> (Inr r, w'))"

definition create_ticket_route ::
    "auth_env \<Rightarrow> auth_db \<Rightarrow> string option \<Rightarrow> 'w dd_env \<Rightarrow> (dd_ticket, 'p) codec \<Rightarrow> dd_config \<Rightarrow> 'q finding_store \<Rightarrow> string
     \<Rightarrow> 'p ticket_store \<times> 'w \<Rightarrow> (http_error + dd_ticket) \<times> 'p ticket_store \<times> 'w" where
  "create_ticket_route auth db cookie E c cfg findings finding_id sw =
     signed_in auth db cookie sw
       (case kstore_get findings finding_id of
          None \<Rightarrow> (Inl (404, ''Finding '' @ finding_id @ '' not found''), sw)
        | Some f \<Rightarrow> or_500 (create_ticket E c cfg f sw))"

definition sync_findings_route ::
    "auth_env \<Rightarrow> auth_db \<Rightarrow> string option \<Rightarrow> 'w dd_env \<Rightarrow> (dd_ticket, 'p) codec \<Rightarrow> dd_config \<Rightarrow> 'q finding_store
     \<Rightarrow> 'p ticket_store \<times> 'w \<Rightarrow> (http_error + dd_sync_result) \<times> 'p ticket_store \<times> 'w" where
  "sync_findings_route auth db cookie E c cfg findings sw =
     signed_in auth db cookie sw (or_500 (sync_findings E c cfg (kstore_all findings) sw))"

definition list_tickets ::
    "auth_env \<Rightarrow> auth_db \<Rightarrow> string option \<Rightarrow> 'p ticket_store \<Rightarrow> http_error + dd_ticket list" where
  "list_tickets auth db cookie s = fst (signed_in auth db cookie s (Inr (all_tickets s), s))"

definition get_ticket_detail ::
    "auth_env \<Rightarrow> auth_db \<Rightarrow> string option \<Rightarrow> string \<Rightarrow> 'p ticket_store \<Rightarrow> http_error + dd_ticket" where
  "get_ticket_detail auth db cookie finding_id s =
     fst (signed_in auth db cookie s
       (case get_ticket finding_id s of
          None \<Rightarrow> (Inl (404, ''No DefectDojo ticket for finding '' @ finding_id), s)
        | Some t \<Rightarrow> (Inr t, s)))"

end
