(* ===== verification/Defectdojo_Properties.thy ===== *)
theory Defectdojo_Properties
  imports Defectdojo
begin

text \<open>
  What the export guarantees: a ticket is only marked as created on an answer that carried an id, every store that
  operations and restarts reach holds well-formed tickets under the id of their finding, and a synchronisation that
  met no error leaves nothing to do for the next one. Then what it does not: an answer that cannot be read loses the
  ticket, and the endpoints ask for a session only.
\<close>

section \<open>A single ticket\<close>

lemma get_ticket_persist:
  "get_ticket k (persist_ticket c t s) = (if k = tk_finding_id t then Some t else get_ticket k s)"
  by (simp add: get_ticket_def persist_ticket_def kstore_get_def kstore_put_def dget_dput)

definition ticket_ok :: "dd_ticket \<Rightarrow> bool" where
  "ticket_ok t \<longleftrightarrow> f_id (tk_payload t) = tk_finding_id t \<and> tk_created_at t \<noteq> None \<and>
     (tk_status t = Ticket_created \<and> tk_defectdojo_finding_id t \<noteq> None \<and> tk_error_message t = None \<or>
      tk_status t = Ticket_error \<and> tk_defectdojo_finding_id t = None \<and> tk_error_message t \<noteq> None)"

lemma create_ticket_cases:
  assumes "create_ticket E c cfg f sw = (result, sw')"
  obtains exc where "result = Inl (Dd_other exc)" "fst sw' = fst sw"
  | t where "result = Inr t" "fst sw' = persist_ticket c t (fst sw)" "ticket_ok t" "tk_finding_id t = f_id f"
  using assms
  by (cases sw)
    (auto simp: create_ticket_def Let_def ticket_ok_def split: if_splits prod.splits sum.splits dd_exn.splits)


lemma create_finding_answer:
  assumes "is_enabled cfg" and "de_post E (api_url cfg ''findings/'') (create_payload f) (headers cfg) w = (x, u)"
  shows "\<exists>y. create_finding E cfg f w = (y, u) \<and> (\<forall>v. y = Inr v \<longleftrightarrow> (\<exists>r. x = Answer r \<and> create_answer E f r = Inr v))"
  using assms by (cases x) (simp_all add: create_finding_def transport_def)

text \<open>A ticket is never made up: creating one ends with a ticket marked as created exactly when the integration is
  enabled and the request was answered with status 200 or 201 and a body that validates; then the ticket carries the
  id and the address of that answer. In every other case that returns, it is an error ticket with a message.\<close>

theorem created_tickets_were_answered:
  assumes "create_ticket E c cfg f (s, w) = (Inr t, s', w')"
  shows "(tk_status t = Ticket_created \<longleftrightarrow>
       is_enabled cfg \<and>
       (\<exists>r v u. de_post E (api_url cfg ''findings/'') (create_payload (to_defectdojo_finding E cfg f)) (headers cfg)
                 (snd (de_now E w)) = (Answer r, u) \<and>
          hp_status_code r \<in> {200, 201} \<and> create_answer E (to_defectdojo_finding E cfg f) r = Inr v \<and>
          tk_defectdojo_finding_id t = Some (dr_id v) \<and> tk_defectdojo_url t = dr_url v)) \<and>
    (tk_status t = Ticket_error \<longleftrightarrow> tk_error_message t \<noteq> None) \<and> tk_status t \<in> {Ticket_created, Ticket_error} \<and>
    get_ticket (f_id f) s' = Some t"
proof -
  obtain created w1 where w1: "de_now E w = (created, w1)" by fastforce
  have stored: "get_ticket (f_id f) s' = Some t"
    using assms by (cases rule: create_ticket_cases) (auto simp: get_ticket_persist)
  show ?thesis
  proof (cases "is_enabled cfg")
    case False
    then show ?thesis using assms w1 stored by (auto simp: create_ticket_def Let_def)
  next
    case True
    let ?f = "to_defectdojo_finding E cfg f"
    obtain x w2 where post: "de_post E (api_url cfg ''findings/'') (create_payload ?f) (headers cfg) w1 = (x, w2)"
      by fastforce
    obtain y where y: "create_finding E cfg ?f w1 = (y, w2)" "\<And>v. y = Inr v \<longleftrightarrow> (\<exists>r. x = Answer r \<and> create_answer E ?f r = Inr v)"
      using create_finding_answer[OF True post] by blast
    have code: "hp_status_code r \<in> {200, 201}" if "create_answer E ?f r = Inr v" for r v
      using that by (auto simp: create_answer_def Let_def split: if_splits)
    show ?thesis
    proof (cases y)
      case (Inr v)
      with y obtain r where r: "x = Answer r" "create_answer E ?f r = Inr v" by blast
      have t: "tk_status t = Ticket_created" "tk_defectdojo_finding_id t = Some (dr_id v)" "tk_defectdojo_url t = dr_url v"
          "tk_error_message t = None"
        using assms w1 True y(1) Inr by (auto simp: create_ticket_def Let_def split: prod.splits)
      then show ?thesis using True w1 post r code[OF r(2)] stored by auto
    next
      case (Inl e)
      then obtain k m code body where e: "y = Inl (Dd_error k m code body)"
        using assms w1 True y(1) by (cases e) (auto simp: create_ticket_def Let_def split: prod.splits)
      have t: "tk_status t = Ticket_error" "tk_error_message t = Some m"
        using assms w1 True y(1) e by (auto simp: create_ticket_def Let_def split: prod.splits)
      have "create_answer E ?f r \<noteq> Inr v" if "x = Answer r" for r v using y(2)[of v] that Inl by auto
      then show ?thesis using t w1 post stored by auto
    qed
  qed
qed

section \<open>The store\<close>

definition tickets_ok :: "'p ticket_store \<Rightarrow> bool" where
  "tickets_ok s \<longleftrightarrow> (\<forall>k t. get_ticket k s = Some t \<longrightarrow> tk_finding_id t = k \<and> ticket_ok t)"

lemma tickets_ok_create:
  assumes "create_ticket E c cfg f sw = (result, sw')" and "tickets_ok (fst sw)"
  shows "tickets_ok (fst sw')"
  using assms(1)
  by (cases rule: create_ticket_cases) (use assms(2) in \<open>auto simp: tickets_ok_def get_ticket_persist\<close>)

lemma durable_put: "durable c s \<Longrightarrow> durable c (kstore_put c k v s)"
  unfolding durable_def using mirrors_put[of c s k v] by (auto simp: kstore_put_def)

lemma durable_create:
  assumes "create_ticket E c cfg f sw = (result, sw')" and "durable c (fst sw)"
  shows "durable c (fst sw')"
  using assms(1)
  by (cases rule: create_ticket_cases) (use assms(2) in \<open>auto simp: persist_ticket_def durable_put\<close>)

text \<open>What every step of a synchronisation keeps, the whole keeps.\<close>

lemma sync_loop_keeps:
  assumes "sync_loop E c cfg fs r sw = (result, sw')" and "P (fst sw)"
    and "\<And>f x y res. create_ticket E c cfg f x = (res, y) \<Longrightarrow> P (fst x) \<Longrightarrow> P (fst y)"
  shows "P (fst sw')"
  using assms(1,2)
proof (induction fs arbitrary: r sw)
  case (Cons f fs)
  then show ?case using assms(3)
    by (auto simp: split: if_splits prod.splits sum.splits option.splits)
qed simp

inductive ticket_step :: "'w dd_env \<Rightarrow> (dd_ticket, 'p) codec \<Rightarrow> 'p ticket_store \<Rightarrow> 'p ticket_store \<Rightarrow> bool" for E c where
  create: "create_ticket E c cfg f (s, w) = (result, s', w') \<Longrightarrow> ticket_step E c s s'"
| sync: "sync_findings E c cfg fs (s, w) = (outcome, s', w') \<Longrightarrow> ticket_step E c s s'"
| restart: "kstore_restart c s = (done', s') \<Longrightarrow> ticket_step E c s s'"

definition no_tickets :: "(dd_ticket, 'p) codec \<Rightarrow> 'p ticket_store \<Rightarrow> bool" where
  "no_tickets c s \<longleftrightarrow> lossless c \<and> cache s = [] \<and> factory s = Some []"

interpretation ticket_sys: invariant_system "no_tickets c" "ticket_step E c" "\<lambda>s. durable c s \<and> tickets_ok s" for c E
proof
  show "durable c s \<and> tickets_ok s" if "no_tickets c s" for s
    using that by (simp add: no_tickets_def durable_def mirrors_def tickets_ok_def get_ticket_def kstore_get_def)
next
  fix s t
  assume inv: "durable c s \<and> tickets_ok s" and "ticket_step E c s t"
  from this(2) show "durable c t \<and> tickets_ok t"
  proof cases
    case (create cfg f w result w')
    with inv show ?thesis using durable_create[OF create] tickets_ok_create[OF create] by simp
  next
    case (sync cfg fs w outcome w')
    with sync_loop_keeps[OF sync[unfolded sync_findings_def], where P = "\<lambda>s. durable c s \<and> tickets_ok s"] inv
    show ?thesis by (auto dest: durable_create tickets_ok_create)
  next
    case (restart d)
    with inv show ?thesis by (simp add: kstore_restart_durable)
  qed
qed

text \<open>In every ticket store that ticket creations, synchronisations and restarts reach from an empty one, in any
  order and under any behaviour of the other side, each ticket is stored under the id of its finding and is either
  created, with an id and no error, or an error with a message and no id; and a restart serves the same tickets.\<close>

theorem tickets_well_formed:
  assumes "no_tickets c s0" and "(ticket_step E c)\<^sup>*\<^sup>* s0 s"
  shows "(\<forall>k t. get_ticket k s = Some t \<longrightarrow> tk_finding_id t = k \<and> f_id (tk_payload t) = k \<and>
       (tk_status t = Ticket_created \<and> tk_defectdojo_finding_id t \<noteq> None \<and> tk_error_message t = None \<or>
        tk_status t = Ticket_error \<and> tk_defectdojo_finding_id t = None \<and> tk_error_message t \<noteq> None)) \<and>
    kstore_restart c s = (True, s)"
  using ticket_sys.inv_reachable[OF assms] by (auto simp: tickets_ok_def ticket_ok_def kstore_restart_durable)

section \<open>Synchronisation\<close>

definition synced_in :: "'p ticket_store \<Rightarrow> string \<Rightarrow> bool" where
  "synced_in s k \<longleftrightarrow> (case get_ticket k s of None \<Rightarrow> False | Some t \<Rightarrow> is_synced (tk_status t))"

lemma sync_loop_skip:
  "\<forall>f \<in> set fs. synced_in (fst sw) (f_id f) \<Longrightarrow> sync_loop E c cfg fs r sw = (Inr r, sw)"
  by (induction fs) (auto simp: synced_in_def)

lemma count_ticket_simps [simp]:
  "sy_total (count_ticket t r) = sy_total r"
  "length (sy_tickets (count_ticket t r)) = Suc (length (sy_tickets r))"
  "sy_created (count_ticket t r) = (if is_synced (tk_status t) then Suc (sy_created r) else sy_created r)"
  "sy_errors (count_ticket t r) = (if is_synced (tk_status t) then sy_errors r else Suc (sy_errors r))"
  by (simp_all add: count_ticket_def Let_def)

lemma sync_loop_result:
  assumes "sync_loop E c cfg fs r sw = (Inr r', sw')"
  shows "sy_total r' = sy_total r \<and>
    sy_created r' + sy_errors r' + length (sy_tickets r) = sy_created r + sy_errors r + length (sy_tickets r') \<and>
    sy_errors r \<le> sy_errors r' \<and>
    (\<forall>k. get_ticket k (fst sw) \<noteq> None \<longrightarrow> get_ticket k (fst sw') \<noteq> None) \<and>
    (\<forall>k. synced_in (fst sw) k \<longrightarrow> get_ticket k (fst sw') = get_ticket k (fst sw)) \<and>
    (\<forall>f \<in> set fs. get_ticket (f_id f) (fst sw') \<noteq> None) \<and>
    (sy_errors r' = sy_errors r \<longrightarrow> (\<forall>f \<in> set fs. synced_in (fst sw') (f_id f)))"
  using assms
proof (induction fs arbitrary: r sw)
  case (Cons f fs)
  show ?case
  proof (cases "synced_in (fst sw) (f_id f)")
    case True
    then have "sync_loop E c cfg fs r sw = (Inr r', sw')"
      using Cons.prems by (simp add: synced_in_def split: option.splits)
    from Cons.IH[OF this] True show ?thesis by (auto simp: synced_in_def split: option.splits)
  next
    case False
    then obtain t sw1 where t: "create_ticket E c cfg f sw = (Inr t, sw1)"
        and rest: "sync_loop E c cfg fs (count_ticket t r) sw1 = (Inr r', sw')"
      using Cons.prems by (auto simp: synced_in_def split: option.splits prod.splits sum.splits if_splits)
    from t have sw1: "fst sw1 = persist_ticket c t (fst sw)" "tk_finding_id t = f_id f"
      by (cases rule: create_ticket_cases; auto)+
    have get: "get_ticket k (fst sw1) = (if k = f_id f then Some t else get_ticket k (fst sw))" for k
      using sw1 by (simp add: get_ticket_persist)
    from Cons.IH[OF rest] show ?thesis
      using False get by (auto simp: synced_in_def split: if_splits)
  qed
qed simp

text \<open>C35. A synchronisation that returns has counted every ticket it made as created or failed, leaves a ticket for
  every finding and keeps the tickets that were synchronised before. When it met no error, the next one has nothing
  to do: it sends no request and changes neither the store nor the world.\<close>

theorem sync_leaves_nothing_to_do:
  assumes "sync_findings E c cfg fs (s, w) = (Inr r, s', w')"
  shows "sy_total r = length fs \<and> sy_created r + sy_errors r = length (sy_tickets r) \<and>
    (\<forall>f \<in> set fs. get_ticket (f_id f) s' \<noteq> None) \<and>
    (\<forall>k t. get_ticket k s = Some t \<and> is_synced (tk_status t) \<longrightarrow> get_ticket k s' = Some t) \<and>
    (sy_errors r = 0 \<longrightarrow> sync_findings E c cfg fs (s', w') =
       (Inr \<lparr>sy_total = length fs, sy_created = 0, sy_updated = 0, sy_errors = 0, sy_tickets = [],
             sy_error_messages = []\<rparr>, s', w'))"
  using sync_loop_result[OF assms[unfolded sync_findings_def]] sync_loop_skip[of fs "(s', w')" E c cfg]
  by (auto simp: sync_findings_def synced_in_def)

section \<open>Samples\<close>

text \<open>A server whose world is the number of requests it got and that gives the answer \<open>x\<close> to each.\<close>

definition sample_dd :: "http_outcome \<Rightarrow> nat dd_env" where
  "sample_dd x =
     \<lparr>de_get = (\<lambda>_ _ n. (x, n)), de_post = (\<lambda>_ _ _ n. (x, Suc n)), de_patch = (\<lambda>_ _ _ n. (x, n)),
      de_response = (\<lambda>kvs. case map_of kvs ''id'' of
         Some (JInt i) \<Rightarrow> Inr \<lparr>dr_id = i, dr_url = ''u'', dr_title = [], dr_severity = [], dr_numerical_severity = 1,
                            dr_active = True, dr_verified = False, dr_created = [], dr_updated = []\<rparr>
       | _ \<Rightarrow> Inl ''invalid''),
      de_version = (\<lambda>_. Inr None), de_no_get = (\<lambda>_. ''no get''), de_no_item = (\<lambda>_. ''no item''),
      de_now = (\<lambda>n. (utc 0, n)), de_arrow = ''->''\<rparr>"

definition sample_config :: dd_config where
  "sample_config = \<lparr>dc_url = ''https://dd/'', dc_api_key = ''k'', dc_enabled = True, dc_product_id = None,
     dc_engagement_id = Some 3, dc_test_type_name = ''SAST Engine'', dc_timeout_seconds = 30\<rparr>"

definition dd_sample_finding :: candidate_finding where
  "dd_sample_finding =
     \<lparr>f_id = ''f'', f_vulnerability_type = ''ssrf'', f_severity = ''high'', f_confidence = 85,
      f_source = \<lparr>src_file = ''a.py'', src_line = 1, src_snippet = ''u'', src_kind = ''parameter''\<rparr>,
      f_sink = \<lparr>snk_file = ''a.py'', snk_line = 2, snk_snippet = ''get(u)'', snk_kind = ''http''\<rparr>,
      f_taint_path = [],
      f_evidence = \<lparr>ev_source_snippet = [], ev_sink_snippet = [], ev_taint_path = [], ev_relevant_lines = [],
                    ev_sanitizer_observations = []\<rparr>\<rparr>"

abbreviation created_answer :: http_outcome where
  "created_answer \<equiv> Answer \<lparr>hp_status_code = 201, hp_text = ''{}'', hp_json = Inr (JObj [(''id'', JInt 7)])\<rparr>"

abbreviation unreadable_answer :: http_outcome where
  "unreadable_answer \<equiv> Answer \<lparr>hp_status_code = 201, hp_text = ''{}'', hp_json = Inr (JObj [])\<rparr>"

definition no_tickets_yet :: "dd_ticket ticket_store" where
  "no_tickets_yet = \<lparr>cache = [], factory = Some []\<rparr>"

lemma sample_enabled: "is_enabled sample_config"
  by (simp add: is_enabled_def is_configured_def sample_config_def)

definition ticket7 :: dd_ticket where
  "ticket7 = \<lparr>tk_finding_id = ''f'', tk_defectdojo_finding_id = Some 7, tk_defectdojo_url = ''u'',
     tk_status = Ticket_created, tk_error_message = None, tk_created_at = Some (utc 0), tk_updated_at = Some (utc 0),
     tk_payload = dd_sample_finding\<rparr>"

lemma sample_created:
  "create_ticket (sample_dd created_answer) id_codec sample_config dd_sample_finding (no_tickets_yet, 0) =
     (Inr ticket7, persist_ticket id_codec ticket7 no_tickets_yet, 1)"
  by (simp add: create_ticket_def Let_def sample_enabled create_finding_def transport_def create_answer_def
      finding_response_def sample_dd_def ticket7_def dd_sample_finding_def)

lemma sample_synced:
  "sync_findings (sample_dd created_answer) id_codec sample_config [dd_sample_finding] (no_tickets_yet, 0) =
     (Inr \<lparr>sy_total = 1, sy_created = 1, sy_updated = 0, sy_errors = 0, sy_tickets = [ticket7],
           sy_error_messages = []\<rparr>, persist_ticket id_codec ticket7 no_tickets_yet, 1)"
proof -
  have "get_ticket (f_id dd_sample_finding) no_tickets_yet = None"
    by (simp add: get_ticket_def kstore_get_def no_tickets_yet_def)
  then show ?thesis
    by (simp add: sync_findings_def sample_created count_ticket_def Let_def is_synced_def ticket7_def)
qed

theorem created_tickets_were_answered_witness:
  "tk_status ticket7 = Ticket_created \<and> (\<exists>r v. dr_id v = 7 \<and>
     create_answer (sample_dd created_answer) (to_defectdojo_finding (sample_dd created_answer) sample_config dd_sample_finding) r = Inr v)"
proof -
  have "tk_status ticket7 = Ticket_created" "tk_defectdojo_finding_id ticket7 = Some 7" by (simp_all add: ticket7_def)
  then show ?thesis using created_tickets_were_answered[OF sample_created] by auto
qed

theorem tickets_well_formed_witness:
  "kstore_restart id_codec (persist_ticket id_codec ticket7 no_tickets_yet) =
     (True, persist_ticket id_codec ticket7 no_tickets_yet)"
proof -
  have "no_tickets id_codec no_tickets_yet"
    using durable_empty by (simp add: no_tickets_def no_tickets_yet_def durable_def)
  moreover have "(ticket_step (sample_dd created_answer) id_codec)\<^sup>*\<^sup>* no_tickets_yet
      (persist_ticket id_codec ticket7 no_tickets_yet)"
    using ticket_step.create[OF sample_created] by blast
  ultimately show ?thesis using tickets_well_formed by blast
qed

theorem sync_leaves_nothing_to_do_witness:
  "snd (snd (sync_findings (sample_dd created_answer) id_codec sample_config [dd_sample_finding]
     (persist_ticket id_codec ticket7 no_tickets_yet, 1))) = 1"
  using sync_leaves_nothing_to_do[OF sample_synced] by simp

text \<open>
  The ticket is not recorded regardless of the outcome: an answer of 201 whose body has no id raises, no ticket is
  stored, and each further attempt makes another finding on the other side.
\<close>

lemma unreadable_answer_loses_the_ticket:
  "create_ticket (sample_dd unreadable_answer) id_codec sample_config dd_sample_finding (no_tickets_yet, n) =
     (Inl (Dd_other (quoted ''id'')), no_tickets_yet, Suc n)"
  by (simp add: create_ticket_def Let_def sample_enabled create_finding_def transport_def create_answer_def
      finding_response_def sample_dd_def)

text \<open>One such answer also ends a synchronisation before the findings after it.\<close>

lemma unreadable_answer_ends_the_sync:
  "sync_findings (sample_dd unreadable_answer) id_codec sample_config (dd_sample_finding # fs) (no_tickets_yet, n) =
     (Inl (Dd_other (quoted ''id'')), no_tickets_yet, Suc n)"
  by (simp add: sync_findings_def unreadable_answer_loses_the_ticket get_ticket_def kstore_get_def)
    (simp add: no_tickets_yet_def)

text \<open>The endpoints ask for a session only: whoever the user is, auditors included, a ticket is created.\<close>

lemma any_user_exports:
  assumes "get_current_user auth db cookie = Inr u" and "kstore_get findings fid = Some f"
  shows "create_ticket_route auth db cookie E c cfg findings fid sw = or_500 (create_ticket E c cfg f sw)"
  using assms by (simp add: create_ticket_route_def signed_in_def)

end
