(* ===== verification/Views.thy ===== *)
theory Views
  imports Api
begin

text \<open>
  What the read-only endpoints share, the findings endpoints (api/routes/findings.py) and the scan-run endpoints
  (api/routes/scans.py). Each reads the stores of one application state and changes nothing; any signed-in user may
  call them. \<open>now\<close> is the instant of the request.
\<close>

section \<open>Reading the stores\<close>

definition all_risk_assessments :: "('p, 'w) app \<Rightarrow> risk_assessment list" where
  "all_risk_assessments s = kstore_all (risk_store (a_risk s))"

definition all_sla_records :: "('p, 'w) app \<Rightarrow> sla_record list" where
  "all_sla_records s = kstore_all (sla_store (a_risk s))"

definition all_escalation_events :: "('p, 'w) app \<Rightarrow> escalation_event list" where
  "all_escalation_events s = concat (dvalues (escalation_store (a_risk s)))"

definition all_approvals :: "('p, 'w) app \<Rightarrow> approval_request list" where
  "all_approvals s = dvalues (requests (a_approvals s))"

definition all_approval_events :: "('p, 'w) app \<Rightarrow> approval_event list" where
  "all_approval_events s = concat (dvalues (events (a_approvals s)))"

fun verdict_text :: "verdict \<Rightarrow> string" where
  "verdict_text True_positive = ''true_positive''"
| "verdict_text False_positive = ''false_positive''"
| "verdict_text Uncertain = ''uncertain''"

fun proof_text :: "proof_status \<Rightarrow> string" where
  "proof_text Verified = ''verified''"
| "proof_text Not_verified = ''not_verified''"
| "proof_text Blocked = ''blocked''"
| "proof_text Proof_error = ''error''"

fun sla_text :: "sla_status \<Rightarrow> string" where
  "sla_text Not_applicable = ''not_applicable''"
| "sla_text Sla_active = ''active''"
| "sla_text Breached = ''breached''"
| "sla_text Resolved = ''resolved''"

text \<open>\<open>s.replace("_", " ")\<close>.\<close>

definition words :: "string \<Rightarrow> string" where
  "words = map (\<lambda>c. if c = CHR 0x5F then CHR 0x20 else c)"

text \<open>The dictionary comprehension \<open>{key(x): x for x in xs}\<close>, and lookups in it.\<close>

definition by_key :: "('v \<Rightarrow> string) \<Rightarrow> 'v list \<Rightarrow> (string, 'v) dict" where
  "by_key key xs = dput_all (map (\<lambda>x. (key x, x)) xs) []"

definition how_many :: "('v \<Rightarrow> bool) \<Rightarrow> 'v list \<Rightarrow> nat" where
  "how_many P xs = length (filter P xs)"

text \<open>\<open>sorted(xs, key=as_aware_utc(...), reverse=True)\<close>, which keeps the order of equal elements.\<close>

definition newest :: "('v \<Rightarrow> py_datetime) \<Rightarrow> 'v list \<Rightarrow> 'v list" where
  "newest time xs = sort_key (\<lambda>x. - utc_instant (as_aware_utc (time x))) xs"

fun PRIORITY_RANK :: "priority \<Rightarrow> nat" where
  "PRIORITY_RANK P0 = 0" | "PRIORITY_RANK P1 = 1" | "PRIORITY_RANK P2 = 2" | "PRIORITY_RANK P3 = 3" | "PRIORITY_RANK P4 = 4"

text \<open>The order of every ranking: the priority, then the higher score.\<close>

definition ranked :: "risk_assessment list \<Rightarrow> risk_assessment list" where
  "ranked rs = sort_key (\<lambda>r. (PRIORITY_RANK (rk_priority r), - rk_risk_score r)) rs"

definition viewing :: "auth_env \<Rightarrow> ('p, 'w) app \<Rightarrow> string option \<Rightarrow> http_error + 'r \<Rightarrow> http_error + 'r" where
  "viewing auth s cookie body = (case get_current_user auth (a_db s) cookie of Inl e \<Rightarrow> Inl e | Inr _ \<Rightarrow> body)"

definition or_server_error :: "'r option \<Rightarrow> http_error + 'r" where
  "or_server_error x = (case x of None \<Rightarrow> Inl (500, ''Internal Server Error'') | Some r \<Rightarrow> Inr r)"

section \<open>The list of findings\<close>

record finding_sla_info =
  si_status :: "sla_status option"
  si_remaining_seconds :: "int option"
  si_priority :: "priority option"

text \<open>
  The whole seconds left, never negative; nothing stands for the exception of subtracting an aware time from a naive
  one. The source takes the integer part of a double, which is exact here.
\<close>

definition seconds_left :: "py_datetime \<Rightarrow> int \<Rightarrow> int option" where
  "seconds_left due now = (if is_aware due then Some (max 0 ((utc_instant due - now) div 1000000)) else None)"

definition remaining_seconds :: "sla_record \<Rightarrow> int \<Rightarrow> int option option" where
  "remaining_seconds r now =
     (case sl_due_at r of
        Some due \<Rightarrow> if sl_status r = Sla_active then map_option Some (seconds_left due now) else Some None
      | None \<Rightarrow> Some None)"

definition sla_info :: "('p, 'w) app \<Rightarrow> string \<Rightarrow> int \<Rightarrow> finding_sla_info option" where
  "sla_info s fid now =
     (case find (\<lambda>r. sl_finding_id r = fid) (all_sla_records s) of
        None \<Rightarrow> Some \<lparr>si_status = None, si_remaining_seconds = None, si_priority = None\<rparr>
      | Some r \<Rightarrow>
          map_option (\<lambda>left. \<lparr>si_status = Some (sl_status r), si_remaining_seconds = left, si_priority = Some (sl_priority r)\<rparr>)
            (remaining_seconds r now))"

record finding_list_item =
  fi_finding_id :: string
  fi_vulnerability_type :: string
  fi_severity :: string
  fi_scanner_confidence :: int
  fi_priority :: "priority option"
  fi_risk_score :: "int option"
  fi_repository :: string
  fi_file :: string
  fi_source_snippet :: string
  fi_sink_snippet :: string
  fi_source_kind :: string
  fi_sink_kind :: string
  fi_verdict :: "verdict option"
  fi_validation_confidence :: "rat option"
  fi_validated_at :: "py_datetime option"
  fi_proof_status :: "proof_status option"
  fi_approval_status :: "approval_status option"
  fi_sla :: finding_sla_info

definition list_item :: "('p, 'w) app \<Rightarrow> int \<Rightarrow> candidate_finding \<Rightarrow> finding_list_item option" where
  "list_item s now f =
     (let assessment = dget (by_key rk_finding_id (all_risk_assessments s)) (f_id f);
          validation = dget (by_key vr_finding_id (kstore_all (a_validations s))) (f_id f);
          proof' = dget (by_key pr_finding_id (kstore_all (a_proofs s))) (f_id f);
          approval = find_for_finding (a_approvals s) (f_id f)
      in map_option (\<lambda>sla.
           \<lparr>fi_finding_id = f_id f, fi_vulnerability_type = f_vulnerability_type f, fi_severity = f_severity f,
            fi_scanner_confidence = f_confidence f, fi_priority = map_option rk_priority assessment,
            fi_risk_score = map_option rk_risk_score assessment,
            fi_repository = repo_label_for_file (src_file (f_source f)), fi_file = src_file (f_source f),
            fi_source_snippet = src_snippet (f_source f), fi_sink_snippet = snk_snippet (f_sink f),
            fi_source_kind = src_kind (f_source f), fi_sink_kind = snk_kind (f_sink f),
            fi_verdict = map_option vr_verdict validation, fi_validation_confidence = map_option vr_confidence validation,
            fi_validated_at = map_option vr_validated_at validation, fi_proof_status = map_option pr_status proof',
            fi_approval_status = map_option ar_status approval, fi_sla = sla\<rparr>) (sla_info s (f_id f) now))"

definition list_items :: "('p, 'w) app \<Rightarrow> int \<Rightarrow> candidate_finding list \<Rightarrow> finding_list_item list option" where
  "list_items s now fs = those (map (list_item s now) (sort_key f_id fs))"

text \<open>Without a project every finding; with one, those its scan runs registered; an unknown project is an error.\<close>

definition project_lineage :: "('p, 'w) app \<Rightarrow> string \<Rightarrow> string set option" where
  "project_lineage s project_id =
     map_option (\<lambda>rs. set (concat (map (\<lambda>r. finding_ids_for_run (a_runs s) (rn_id r)) rs)))
       (runs_for_project (a_runs s) project_id)"

definition scoped_findings :: "('p, 'w) app \<Rightarrow> string option \<Rightarrow> http_error + candidate_finding list" where
  "scoped_findings s project_id =
     (case project_id of
        None \<Rightarrow> Inr (kstore_all (a_findings s))
      | Some p \<Rightarrow>
          if dget (a_projects s) p = None then Inl (404, ''project not found: '' @ p)
          else or_server_error (map_option (\<lambda>ids. filter (\<lambda>f. f_id f \<in> ids) (kstore_all (a_findings s)))
                 (project_lineage s p)))"

definition lower :: "string \<Rightarrow> string" where "lower = map lower_char"

definition matches_search :: "finding_list_item \<Rightarrow> string \<Rightarrow> bool" where
  "matches_search i query \<longleftrightarrow>
     contains query (lower (join '' '' [fi_finding_id i, fi_vulnerability_type i, fi_file i, fi_repository i,
       fi_source_snippet i, fi_sink_snippet i, fi_source_kind i, fi_sink_kind i, fi_severity i,
       (case fi_priority i of None \<Rightarrow> [] | Some p \<Rightarrow> priority_text p)]))"

definition searched :: "string option \<Rightarrow> finding_list_item list \<Rightarrow> finding_list_item list" where
  "searched search items =
     (case search of
        None \<Rightarrow> items
      | Some q \<Rightarrow> let query = lower (strip q) in
          if query = [] then items else filter (\<lambda>i. matches_search i query) items)"

definition list_findings ::
    "auth_env \<Rightarrow> string option \<Rightarrow> int \<Rightarrow> string option \<Rightarrow> string option \<Rightarrow> ('p, 'w) app \<Rightarrow> http_error + finding_list_item list" where
  "list_findings auth cookie now project_id search s =
     viewing auth s cookie
       (case scoped_findings s project_id of
          Inl e \<Rightarrow> Inl e
        | Inr fs \<Rightarrow> or_server_error (map_option (searched search) (list_items s now fs)))"

section \<open>One finding\<close>

record finding_sla_detail =
  sd_status :: sla_status
  sd_priority :: priority
  sd_started_at :: py_datetime
  sd_due_at :: "py_datetime option"
  sd_breached_at :: "py_datetime option"
  sd_resolved_at :: "py_datetime option"
  sd_escalation_level :: nat
  sd_remaining_seconds :: "int option"

definition sla_detail :: "('p, 'w) app \<Rightarrow> string \<Rightarrow> int \<Rightarrow> finding_sla_detail option option" where
  "sla_detail s fid now =
     (case get_sla (a_risk s) fid of
        None \<Rightarrow> Some None
      | Some r \<Rightarrow>
          map_option (\<lambda>left. Some \<lparr>sd_status = sl_status r, sd_priority = sl_priority r, sd_started_at = sl_started_at r,
             sd_due_at = sl_due_at r, sd_breached_at = sl_breached_at r, sd_resolved_at = sl_resolved_at r,
             sd_escalation_level = sl_escalation_level r, sd_remaining_seconds = left\<rparr>) (remaining_seconds r now))"

record finding_proof_detail =
  pd_status :: proof_status
  pd_confidence :: rat
  pd_summary :: string
  pd_created_at :: py_datetime
  pd_duration_ms :: rat
  pd_error :: "string option"
  pd_sandbox_policy :: sandbox_policy

definition proof_detail :: "('p, 'w) app \<Rightarrow> string \<Rightarrow> finding_proof_detail option" where
  "proof_detail s fid =
     map_option (\<lambda>p. \<lparr>pd_status = pr_status p, pd_confidence = pr_confidence p, pd_summary = pr_summary p,
       pd_created_at = pr_created_at p, pd_duration_ms = pr_duration_ms p, pd_error = pr_error p,
       pd_sandbox_policy = pr_sandbox_policy p\<rparr>) (kstore_get (a_proofs s) fid)"

record finding_dedup_detail =
  dd_fingerprint :: string
  dd_structural_signature :: string
  dd_is_canonical :: bool
  dd_canonical_finding_id :: string
  dd_occurrence_count :: nat
  dd_related_finding_ids :: "string list"

definition dedup_detail :: "('p, 'w) app \<Rightarrow> string \<Rightarrow> finding_dedup_detail option" where
  "dedup_detail s fid =
     map_option (\<lambda>g. \<lparr>dd_fingerprint = dg_fingerprint g, dd_structural_signature = dg_structural_signature g,
         dd_is_canonical = (dg_canonical_finding_id g = fid), dd_canonical_finding_id = dg_canonical_finding_id g,
         dd_occurrence_count = dg_occurrence_count g,
         dd_related_finding_ids = filter (\<lambda>m. m \<noteq> fid) (dg_member_finding_ids g)\<rparr>)
       (find (\<lambda>g. fid \<in> set (dg_member_finding_ids g)) (kstore_all (a_groups s)))"

record finding_project =
  fp_project_id :: string
  fp_name :: string
  fp_source_type :: string
  fp_location :: string
  fp_language :: string

definition finding_project_of :: "('p, 'w) app \<Rightarrow> string list \<Rightarrow> finding_project option" where
  "finding_project_of s project_ids =
     (case project_ids of
        [p] \<Rightarrow> map_option (\<lambda>row. \<lparr>fp_project_id = pj_id row, fp_name = pj_name row, fp_source_type = pj_source_type row,
                 fp_location = pj_location row, fp_language = pj_language row\<rparr>) (dget (a_projects s) p)
      | _ \<Rightarrow> None)"

record finding_detail =
  fd_finding_id :: string
  fd_vulnerability_type :: string
  fd_severity :: string
  fd_scanner_confidence :: int
  fd_status :: string
  fd_source :: source_ref
  fd_sink :: sink_ref
  fd_taint_path :: "taint_step list"
  fd_repository :: string
  fd_risk :: "risk_assessment option"
  fd_sla :: "finding_sla_detail option"
  fd_validation :: "validation_result option"
  fd_proof :: "finding_proof_detail option"
  fd_approval :: "approval_request option"
  fd_dedup :: "finding_dedup_detail option"
  fd_remediation :: "remediation_record option"
  fd_project :: "finding_project option"
  fd_scan_runs :: "scan_run list"

definition get_finding_detail ::
    "auth_env \<Rightarrow> string option \<Rightarrow> int \<Rightarrow> string \<Rightarrow> ('p, 'w) app \<Rightarrow> http_error + finding_detail" where
  "get_finding_detail auth cookie now fid s =
     viewing auth s cookie
       (case kstore_get (a_findings s) fid of
          None \<Rightarrow> Inl (not_found fid)
        | Some f \<Rightarrow>
            (case (runs_for_finding (a_runs s) fid, sla_detail s fid now) of
               (Some rs, Some sla) \<Rightarrow>
                 Inr \<lparr>fd_finding_id = f_id f, fd_vulnerability_type = f_vulnerability_type f, fd_severity = f_severity f,
                      fd_scanner_confidence = f_confidence f, fd_status = ''candidate'', fd_source = f_source f, fd_sink = f_sink f,
                      fd_taint_path = f_taint_path f, fd_repository = repo_label_for_file (src_file (f_source f)),
                      fd_risk = kstore_get (risk_store (a_risk s)) fid, fd_sla = sla,
                      fd_validation = kstore_get (a_validations s) fid, fd_proof = proof_detail s fid,
                      fd_approval = find_for_finding (a_approvals s) fid, fd_dedup = dedup_detail s fid,
                      fd_remediation = kstore_get (rm_store (a_rem s)) fid,
                      fd_project = finding_project_of s (sort (remdups (map rn_project_id rs))), fd_scan_runs = rs\<rparr>
             | _ \<Rightarrow> Inl (500, ''Internal Server Error'')))"

section \<open>Scan runs\<close>

definition list_scan_runs :: "auth_env \<Rightarrow> string option \<Rightarrow> nat \<Rightarrow> ('p, 'w) app \<Rightarrow> http_error + scan_run list" where
  "list_scan_runs auth cookie limit s =
     viewing auth s cookie
       (if limit < 1 \<or> 50 < limit then Inl (422, ''limit'')
        else Inr (take limit (newest rn_started_at (dvalues (runs (a_runs s))))))"

definition list_project_scans :: "auth_env \<Rightarrow> string option \<Rightarrow> string \<Rightarrow> ('p, 'w) app \<Rightarrow> http_error + scan_run list" where
  "list_project_scans auth cookie project_id s =
     viewing auth s cookie
       (if dget (a_projects s) project_id = None then Inl (404, ''project not found: '' @ project_id)
        else or_server_error (runs_for_project (a_runs s) project_id))"

record scan_run_detail =
  rd_run :: scan_run
  rd_stages :: "scan_stage_run list"
  rd_executions :: "stage_execution list"

definition require_run :: "('p, 'w) app \<Rightarrow> string \<Rightarrow> http_error + scan_run" where
  "require_run s run_id =
     (case dget (runs (a_runs s)) run_id of None \<Rightarrow> Inl (404, ''scan run not found: '' @ run_id) | Some r \<Rightarrow> Inr r)"

definition get_scan_run :: "auth_env \<Rightarrow> string option \<Rightarrow> string \<Rightarrow> ('p, 'w) app \<Rightarrow> http_error + scan_run_detail" where
  "get_scan_run auth cookie run_id s =
     viewing auth s cookie
       (map_sum (\<lambda>e. e) (\<lambda>r. \<lparr>rd_run = r, rd_stages = stages_for_run (a_runs s) run_id,
          rd_executions = executions_for_run (a_runs s) run_id\<rparr>) (require_run s run_id))"

text \<open>The findings a run registered, in report order; those no longer stored are left out.\<close>

definition get_scan_findings ::
    "auth_env \<Rightarrow> string option \<Rightarrow> string \<Rightarrow> ('p, 'w) app \<Rightarrow> http_error + candidate_finding list" where
  "get_scan_findings auth cookie run_id s =
     viewing auth s cookie
       (map_sum (\<lambda>e. e) (\<lambda>_. List.map_filter (kstore_get (a_findings s)) (finding_ids_for_run (a_runs s) run_id))
          (require_run s run_id))"

end
