(* ===== verification/Lookups.thy ===== *)
theory Lookups
  imports Views
begin

text \<open>
  The read-only endpoints beside the state-changing ones: the approval review queue and history (api/routes/approval.py),
  the stored risk, deadline and escalations (api/routes/risk.py), the safe view of a proof (api/routes/proofs.py), the
  stored validation (api/routes/validations.py) and a deduplication group (api/routes/dedup.py). Each needs a permission.
\<close>

definition permitted ::
    "permission \<Rightarrow> auth_env \<Rightarrow> ('p, 'w) app \<Rightarrow> string option \<Rightarrow> http_error + 'r \<Rightarrow> http_error + 'r" where
  "permitted p auth s cookie body =
     (case require_permission p auth (a_db s) cookie of Inl e \<Rightarrow> Inl e | Inr _ \<Rightarrow> body)"

definition found :: "string \<Rightarrow> 'r option \<Rightarrow> http_error + 'r" where
  "found message x = (case x of None \<Rightarrow> Inl (404, message) | Some r \<Rightarrow> Inr r)"

section \<open>Approvals\<close>

definition get_approval :: "auth_env \<Rightarrow> string option \<Rightarrow> string \<Rightarrow> ('p, 'w) app \<Rightarrow> http_error + approval_request" where
  "get_approval auth cookie fid s =
     permitted View_approvals auth s cookie
       (found (''no approval request for finding: '' @ fid) (find_for_finding (a_approvals s) fid))"

record approval_list_item =
  ai_request :: approval_request
  ai_vulnerability_type :: "string option"
  ai_severity :: "string option"
  ai_priority :: "priority option"
  ai_risk_score :: "int option"
  ai_repository :: "string option"
  ai_file :: "string option"

fun STATUS_RANK :: "approval_status \<Rightarrow> nat" where
  "STATUS_RANK Pending = 0"
| "STATUS_RANK Changes_requested = 1"
| "STATUS_RANK Approved = 2"
| "STATUS_RANK Rejected = 3"

definition approval_item_of :: "('p, 'w) app \<Rightarrow> approval_request \<Rightarrow> approval_list_item" where
  "approval_item_of s a =
     (let f = dget (by_key f_id (kstore_all (a_findings s))) (ar_finding_id a);
          r = dget (by_key rk_finding_id (all_risk_assessments s)) (ar_finding_id a)
      in \<lparr>ai_request = a, ai_vulnerability_type = map_option f_vulnerability_type f, ai_severity = map_option f_severity f,
          ai_priority = map_option rk_priority r, ai_risk_score = map_option rk_risk_score r,
          ai_repository = map_option (\<lambda>f. repo_label_for_file (src_file (f_source f))) f,
          ai_file = map_option (\<lambda>f. src_file (f_source f)) f\<rparr>)"

text \<open>The queue: by the rank of the status, then the newest request first.\<close>

definition list_approvals :: "auth_env \<Rightarrow> string option \<Rightarrow> ('p, 'w) app \<Rightarrow> http_error + approval_list_item list" where
  "list_approvals auth cookie s =
     permitted View_approvals auth s cookie
       (Inr (sort_key (\<lambda>i. (STATUS_RANK (ar_status (ai_request i)),
                            - utc_instant (as_aware_utc (ar_requested_at (ai_request i)))))
               (map (approval_item_of s) (all_approvals s))))"

definition get_history :: "auth_env \<Rightarrow> string option \<Rightarrow> string \<Rightarrow> ('p, 'w) app \<Rightarrow> http_error + approval_event list" where
  "get_history auth cookie approval_id s =
     permitted View_approvals auth s cookie
       (map_sum (\<lambda>e. e) (\<lambda>_. events_for (a_approvals s) approval_id)
          (found (''approval not found: '' @ approval_id) (get_request (a_approvals s) approval_id)))"

section \<open>Risk\<close>

definition get_risk :: "auth_env \<Rightarrow> string option \<Rightarrow> string \<Rightarrow> ('p, 'w) app \<Rightarrow> http_error + risk_assessment" where
  "get_risk auth cookie fid s =
     permitted View_risk auth s cookie
       (found (''no risk assessment for finding: '' @ fid) (kstore_get (risk_store (a_risk s)) fid))"

definition get_sla_route :: "auth_env \<Rightarrow> string option \<Rightarrow> string \<Rightarrow> ('p, 'w) app \<Rightarrow> http_error + sla_record" where
  "get_sla_route auth cookie fid s =
     permitted View_risk auth s cookie (found (''no SLA record for finding: '' @ fid) (get_sla (a_risk s) fid))"

definition get_escalations_route ::
    "auth_env \<Rightarrow> string option \<Rightarrow> string \<Rightarrow> ('p, 'w) app \<Rightarrow> http_error + escalation_event list" where
  "get_escalations_route auth cookie fid s =
     permitted View_risk auth s cookie
       (map_sum (\<lambda>e. e) (\<lambda>_. get_escalations (a_risk s) fid)
          (found (''finding not found: '' @ fid) (kstore_get (a_findings s) fid)))"

section \<open>Proofs, validations and groups\<close>

record safe_proof_policy =
  sp_network_enabled :: bool
  sp_allow_loopback :: bool
  sp_timeout_seconds :: rat
  sp_max_output_bytes :: nat
  sp_max_processes :: nat

record safe_proof_detail =
  sq_finding_id :: string
  sq_vulnerability_type :: string
  sq_status :: proof_status
  sq_confidence :: rat
  sq_summary :: string
  sq_created_at :: py_datetime
  sq_duration_ms :: rat
  sq_error :: "string option"
  sq_sandbox_policy :: safe_proof_policy

text \<open>The policy of the run without its paths and its directory.\<close>

definition safe_proof_policy_of :: "sandbox_policy \<Rightarrow> safe_proof_policy" where
  "safe_proof_policy_of p =
     \<lparr>sp_network_enabled = network_enabled p, sp_allow_loopback = allow_loopback p, sp_timeout_seconds = timeout_seconds p,
      sp_max_output_bytes = max_output_bytes p, sp_max_processes = max_processes p\<rparr>"

definition get_proof :: "auth_env \<Rightarrow> string option \<Rightarrow> string \<Rightarrow> ('p, 'w) app \<Rightarrow> http_error + safe_proof_detail" where
  "get_proof auth cookie fid s =
     permitted View_proof auth s cookie
       (map_sum (\<lambda>e. e)
          (\<lambda>p. \<lparr>sq_finding_id = pr_finding_id p, sq_vulnerability_type = pr_vulnerability_type p, sq_status = pr_status p,
             sq_confidence = pr_confidence p, sq_summary = pr_summary p, sq_created_at = pr_created_at p,
             sq_duration_ms = pr_duration_ms p, sq_error = pr_error p,
             sq_sandbox_policy = safe_proof_policy_of (pr_sandbox_policy p)\<rparr>)
          (found (''no proof recorded for finding: '' @ fid) (kstore_get (a_proofs s) fid)))"

definition get_validation :: "auth_env \<Rightarrow> string option \<Rightarrow> string \<Rightarrow> ('p, 'w) app \<Rightarrow> http_error + validation_result" where
  "get_validation auth cookie fid s =
     permitted View_validation auth s cookie
       (found (''no validation recorded for finding: '' @ fid) (kstore_get (a_validations s) fid))"

definition get_deduplication_group ::
    "auth_env \<Rightarrow> string option \<Rightarrow> string \<Rightarrow> ('p, 'w) app \<Rightarrow> http_error + dedup_group" where
  "get_deduplication_group auth cookie fingerprint s =
     permitted View_findings auth s cookie
       (found (''no deduplication group for: '' @ fingerprint) (lookup_group (a_groups s) fingerprint))"

section \<open>The queue\<close>

text \<open>
  The review queue holds every request of the store once, the undecided ones before the decided ones and, within a
  status, none before a newer one.
\<close>

theorem review_queue_complete:
  assumes "list_approvals auth cookie s = Inr items"
  shows "mset (map ai_request items) = mset (all_approvals s) \<and>
    sorted_wrt (\<lambda>i j. STATUS_RANK (ar_status (ai_request i)) \<le> STATUS_RANK (ar_status (ai_request j)) \<and>
      (ar_status (ai_request i) = ar_status (ai_request j) \<longrightarrow>
         utc_instant (as_aware_utc (ar_requested_at (ai_request j))) \<le> utc_instant (as_aware_utc (ar_requested_at (ai_request i)))))
      items"
proof -
  let ?key = "\<lambda>i. (STATUS_RANK (ar_status (ai_request i)), - utc_instant (as_aware_utc (ar_requested_at (ai_request i))))"
  have items: "items = sort_key ?key (map (approval_item_of s) (all_approvals s))"
    using assms by (auto simp: list_approvals_def permitted_def split: sum.splits)
  have "mset (map ai_request items) = image_mset ai_request (mset (map (approval_item_of s) (all_approvals s)))"
    unfolding items by simp
  also have "\<dots> = mset (all_approvals s)"
    by (simp add: approval_item_of_def Let_def comp_def flip: mset_map)
  finally have all: "mset (map ai_request items) = mset (all_approvals s)" .
  have "sorted (map ?key items)" unfolding items by (rule sorted_sort_key)
  then have "sorted_wrt (\<lambda>i j. ?key i \<le> ?key j) items" by (simp add: sorted_map)
  then show ?thesis using all by (auto elim!: sorted_wrt_mono_rel[rotated])
qed

text \<open>
  The view of a proof leaves the paths of the sandbox out; the detail of the finding hands the whole policy on, with its
  directory, to any signed-in user.
\<close>

lemma detail_ships_the_directory:
  assumes "kstore_get (a_proofs s) fid = Some p"
  shows "map_option (\<lambda>d. temporary_directory (pd_sandbox_policy d)) (proof_detail s fid) =
    Some (temporary_directory (pr_sandbox_policy p))"
  using assms by (simp add: proof_detail_def)

end
