(* ===== verification/Notifications.thy ===== *)
theory Notifications
  imports Views
begin

text \<open>
  Notifications (api/routes/notifications.py): derived from the recorded events, with the read state of each user in
  a table of its own (\<open>notification_reads\<close> of db/models.py).

  The primary key of that table is the notification's id alone. Inserting a row whose key is taken raises
  \<open>IntegrityError\<close>, nothing is committed then, and the request is a 500.
\<close>

record notification =
  nt_id :: string
  nt_type :: string
  nt_title :: string
  nt_message :: string
  nt_finding_id :: string
  nt_created_at :: py_datetime
  nt_read :: bool

section \<open>The derived list\<close>

definition sla_notification :: "escalation_event \<Rightarrow> notification" where
  "sla_notification e =
     \<lparr>nt_id = ''sla_'' @ es_finding_id e @ ''_'' @ dec (es_new_level e), nt_type = ''sla_breached'',
      nt_title = ''SLA Breached'', nt_message = es_reason e, nt_finding_id = es_finding_id e,
      nt_created_at = es_created_at e, nt_read = False\<rparr>"

definition approval_notification :: "approval_event \<Rightarrow> notification" where
  "approval_notification e =
     \<lparr>nt_id = ''approval_'' @ ae_id e, nt_type = ''approval_updated'', nt_title = ''Approval Updated'',
      nt_message = ''Approval moved to '' @ words (status_text (ae_new_status e)) @ '' by '' @
        (if ae_actor e = [] then ''system'' else ae_actor e),
      nt_finding_id = ae_finding_id e, nt_created_at = ae_created_at e, nt_read = False\<rparr>"

definition validation_notification :: "validation_result \<Rightarrow> notification" where
  "validation_notification v =
     \<lparr>nt_id = ''validation_'' @ vr_finding_id v, nt_type = ''finding_validated'', nt_title = ''Finding Validated'',
      nt_message = ''Finding '' @ take 8 (vr_finding_id v) @ '' validated as '' @ words (verdict_text (vr_verdict v)),
      nt_finding_id = vr_finding_id v, nt_created_at = vr_validated_at v, nt_read = False\<rparr>"

definition proof_notification :: "proof_result \<Rightarrow> notification" where
  "proof_notification p =
     \<lparr>nt_id = ''proof_'' @ pr_finding_id p, nt_type = ''proof_completed'', nt_title = ''Proof Completed'',
      nt_message = ''Proof '' @ words (proof_text (pr_status p)) @ '' for '' @ pr_vulnerability_type p,
      nt_finding_id = pr_finding_id p, nt_created_at = pr_created_at p, nt_read = False\<rparr>"

definition collected :: "('p, 'w) app \<Rightarrow> notification list" where
  "collected s =
     map sla_notification (all_escalation_events s) @ map approval_notification (all_approval_events s) @
     map validation_notification (kstore_all (a_validations s)) @ map proof_notification (kstore_all (a_proofs s))"

text \<open>The sort compares the times as they are: mixing naive and aware ones raises.\<close>

definition derive_notifications :: "('p, 'w) app \<Rightarrow> notification list option" where
  "derive_notifications s =
     (if comparable (map nt_created_at (collected s))
      then Some (sort_key (\<lambda>n. - utc_instant (nt_created_at n)) (collected s)) else None)"

section \<open>The read state\<close>

text \<open>Rows by primary key: the reader and the time.\<close>

type_synonym read_rows = "(string, string \<times> py_datetime) dict"

definition read_by :: "read_rows \<Rightarrow> string \<Rightarrow> string \<Rightarrow> bool" where
  "read_by rows user_id i \<longleftrightarrow> (case dget rows i of None \<Rightarrow> False | Some (u, _) \<Rightarrow> u = user_id)"

definition apply_read_state :: "read_rows \<Rightarrow> string \<Rightarrow> notification list \<Rightarrow> notification list" where
  "apply_read_state rows user_id = map (\<lambda>n. if read_by rows user_id (nt_id n) then n\<lparr>nt_read := True\<rparr> else n)"

text \<open>Adding a row for a user: nothing to do when it is there, an integrity error when the key is another user's.\<close>

definition add_read :: "string \<Rightarrow> py_datetime \<Rightarrow> string \<Rightarrow> read_rows \<Rightarrow> read_rows option" where
  "add_read user_id now i rows =
     (if read_by rows user_id i then Some rows
      else if dget rows i \<noteq> None then None
      else Some (dput i (user_id, now) rows))"

text \<open>Marking all is one transaction; each query flushes the rows added before it.\<close>

fun add_reads :: "string \<Rightarrow> py_datetime \<Rightarrow> string list \<Rightarrow> read_rows \<Rightarrow> read_rows option" where
  "add_reads user_id now [] rows = Some rows"
| "add_reads user_id now (i # is) rows = Option.bind (add_read user_id now i rows) (add_reads user_id now is)"

section \<open>The endpoints\<close>

definition reader :: "auth_env \<Rightarrow> ('p, 'w) app \<Rightarrow> string option \<Rightarrow> read_rows \<Rightarrow> (user \<Rightarrow> (http_error + 'r) \<times> read_rows)
     \<Rightarrow> (http_error + 'r) \<times> read_rows" where
  "reader auth s cookie rows body =
     (case get_current_user auth (a_db s) cookie of Inl e \<Rightarrow> (Inl e, rows) | Inr u \<Rightarrow> body u)"

definition server_error :: http_error where "server_error = (500, ''Internal Server Error'')"

definition list_notifications ::
    "auth_env \<Rightarrow> string option \<Rightarrow> ('p, 'w) app \<Rightarrow> read_rows \<Rightarrow> (http_error + notification list \<times> nat) \<times> read_rows" where
  "list_notifications auth cookie s rows =
     reader auth s cookie rows (\<lambda>u.
       case derive_notifications s of
         None \<Rightarrow> (Inl server_error, rows)
       | Some ns \<Rightarrow> (let shown = apply_read_state rows (u_id u) ns
                     in (Inr (shown, length (filter (\<lambda>n. \<not> nt_read n) shown)), rows)))"

definition mark_notification_read ::
    "auth_env \<Rightarrow> string option \<Rightarrow> py_datetime \<Rightarrow> string \<Rightarrow> ('p, 'w) app \<Rightarrow> read_rows \<Rightarrow> (http_error + unit) \<times> read_rows" where
  "mark_notification_read auth cookie now i s rows =
     reader auth s cookie rows (\<lambda>u.
       case add_read (u_id u) now i rows of None \<Rightarrow> (Inl server_error, rows) | Some rows' \<Rightarrow> (Inr (), rows'))"

definition mark_all_notifications_read ::
    "auth_env \<Rightarrow> string option \<Rightarrow> py_datetime \<Rightarrow> ('p, 'w) app \<Rightarrow> read_rows \<Rightarrow> (http_error + unit) \<times> read_rows" where
  "mark_all_notifications_read auth cookie now s rows =
     reader auth s cookie rows (\<lambda>u.
       case Option.bind (derive_notifications s) (\<lambda>ns. add_reads (u_id u) now (map nt_id ns) rows) of
         None \<Rightarrow> (Inl server_error, rows)
       | Some rows' \<Rightarrow> (Inr (), rows'))"

section \<open>Lemmas\<close>

lemma read_by_dput: "read_by (dput i (u, t) rows) v j = (if j = i then u = v else read_by rows v j)"
  by (simp add: read_by_def dget_dput)

lemma add_read_iff:
  "add_read u now i rows = Some rows' \<longleftrightarrow>
     (\<forall>v. v \<noteq> u \<longrightarrow> \<not> read_by rows v i) \<and> rows' = (if read_by rows u i then rows else dput i (u, now) rows)"
  by (auto simp: add_read_def read_by_def split: option.splits)

lemma add_reads_spec:
  assumes "add_reads u now is rows = Some rows'"
  shows "\<forall>v j. read_by rows' v j \<longleftrightarrow> read_by rows v j \<or> v = u \<and> j \<in> set is"
    and "\<forall>j \<in> set is. \<forall>v. v \<noteq> u \<longrightarrow> \<not> read_by rows v j"
  using assms
  by (induction "is" arbitrary: rows)
    (fastforce simp: add_read_iff read_by_dput bind_eq_Some_conv split: if_splits)+

lemma add_reads_some:
  "(\<forall>j \<in> set is. \<forall>v. v \<noteq> u \<longrightarrow> \<not> read_by rows v j) \<Longrightarrow> \<exists>rows'. add_reads u now is rows = Some rows'"
proof (induction "is" arbitrary: rows)
  case (Cons i "is")
  let ?r = "if read_by rows u i then rows else dput i (u, now) rows"
  have "add_read u now i rows = Some ?r" using Cons.prems by (auto simp: add_read_iff)
  moreover have "\<forall>j \<in> set is. \<forall>v. v \<noteq> u \<longrightarrow> \<not> read_by ?r v j" using Cons.prems by (auto simp: read_by_dput)
  ultimately show ?case using Cons.IH by simp
qed simp

text \<open>A notification another user has read can never be marked by anyone else: rows are only ever added.\<close>

lemma second_reader_is_refused:
  assumes "get_current_user auth (a_db s) cookie = Inr u" and "read_by rows v i" and "v \<noteq> u_id u"
  shows "mark_notification_read auth cookie now i s rows = (Inl server_error, rows)"
proof -
  have "add_read (u_id u) now i rows = None"
    using assms(2,3) by (auto simp: add_read_def read_by_def split: option.splits)
  then show ?thesis using assms(1) by (simp add: mark_notification_read_def reader_def)
qed

lemma add_read_mono: "add_read u now i rows = Some r \<Longrightarrow> read_by rows v j \<Longrightarrow> read_by r v j"
  by (auto simp: add_read_iff read_by_dput split: if_splits)

lemma add_reads_mono: "add_reads u now is rows = Some r \<Longrightarrow> read_by rows v j \<Longrightarrow> read_by r v j"
  using add_reads_spec(1) by blast

lemma read_rows_only_grow:
  assumes "mark_notification_read auth cookie now i s rows = (result, rows') \<or>
    mark_all_notifications_read auth cookie now s rows = (result, rows')" and "read_by rows v j"
  shows "read_by rows' v j"
  using assms(1)
proof
  assume "mark_notification_read auth cookie now i s rows = (result, rows')"
  then show ?thesis using assms(2)
    by (auto simp: mark_notification_read_def reader_def dest: add_read_mono split: sum.splits option.splits)
next
  assume "mark_all_notifications_read auth cookie now s rows = (result, rows')"
  then show ?thesis using assms(2)
    by (auto simp: mark_all_notifications_read_def reader_def bind_eq_Some_conv dest: add_reads_mono
          split: sum.splits option.splits)
qed

end
