(* ===== verification/Summaries.thy ===== *)
theory Summaries
  imports Views Benchmark
begin

text \<open>
  The summaries of single stages: validation (api/routes/validation_summary.py), proof (api/routes/proof_summary.py)
  and risk with its deadlines (api/routes/risk_summary.py).
\<close>

text \<open>A figure of a summary and whether its store has any data.\<close>

record kpi =
  k_available :: bool
  k_count :: nat

definition kpi_of :: "'v list \<Rightarrow> nat \<Rightarrow> kpi" where
  "kpi_of store n = \<lparr>k_available = (store \<noteq> []), k_count = n\<rparr>"

section \<open>Validation\<close>

record validation_row =
  wr_finding_id :: string
  wr_vulnerability_type :: "string option"
  wr_severity :: "string option"
  wr_priority :: "priority option"
  wr_repository :: "string option"
  wr_file :: "string option"
  wr_confidence :: rat
  wr_verdict :: verdict
  wr_reasoning :: string
  wr_evidence_used :: "string list"
  wr_validated_at :: py_datetime
  wr_proof_status :: "proof_status option"

record validation_response =
  ws_has_findings :: bool
  ws_total_validations :: kpi
  ws_true_positives :: kpi
  ws_false_positives :: kpi
  ws_uncertain :: kpi
  ws_pending :: kpi
  ws_records :: "validation_row list"

definition findings_by_id :: "('p, 'w) app \<Rightarrow> (string, candidate_finding) dict" where
  "findings_by_id s = by_key f_id (kstore_all (a_findings s))"

definition validations_by_id :: "('p, 'w) app \<Rightarrow> (string, validation_result) dict" where
  "validations_by_id s = by_key vr_finding_id (kstore_all (a_validations s))"

definition proofs_by_id :: "('p, 'w) app \<Rightarrow> (string, proof_result) dict" where
  "proofs_by_id s = by_key pr_finding_id (kstore_all (a_proofs s))"

definition risks_by_id :: "('p, 'w) app \<Rightarrow> (string, risk_assessment) dict" where
  "risks_by_id s = by_key rk_finding_id (all_risk_assessments s)"

definition validation_row_of :: "('p, 'w) app \<Rightarrow> validation_result \<Rightarrow> validation_row" where
  "validation_row_of s v =
     (let i = vr_finding_id v; f = dget (findings_by_id s) i in
      \<lparr>wr_finding_id = i, wr_vulnerability_type = map_option f_vulnerability_type f,
       wr_severity = map_option f_severity f, wr_priority = map_option rk_priority (dget (risks_by_id s) i),
       wr_repository = map_option (\<lambda>f. repo_label_for_file (src_file (f_source f))) f,
       wr_file = map_option (\<lambda>f. src_file (f_source f)) f, wr_confidence = vr_confidence v, wr_verdict = vr_verdict v,
       wr_reasoning = vr_reasoning v, wr_evidence_used = vr_evidence_used v, wr_validated_at = vr_validated_at v,
       wr_proof_status = map_option pr_status (dget (proofs_by_id s) i)\<rparr>)"

definition validation_summary :: "auth_env \<Rightarrow> string option \<Rightarrow> ('p, 'w) app \<Rightarrow> http_error + validation_response" where
  "validation_summary auth cookie s =
     viewing auth s cookie
       (let vs = kstore_all (a_validations s); fs = findings_by_id s;
            verdicts = (\<lambda>v. kpi_of vs (how_many (\<lambda>r. vr_verdict r = v) vs))
        in Inr \<lparr>ws_has_findings = (fs \<noteq> []), ws_total_validations = kpi_of vs (length vs),
                ws_true_positives = verdicts True_positive, ws_false_positives = verdicts False_positive,
                ws_uncertain = verdicts Uncertain, ws_pending = kpi_of fs (length fs - length vs),
                ws_records = map (validation_row_of s) (newest vr_validated_at vs)\<rparr>)"

section \<open>Proof\<close>

record proof_row =
  ow_finding_id :: string
  ow_vulnerability_type :: string
  ow_severity :: "string option"
  ow_priority :: "priority option"
  ow_validation :: "verdict option"
  ow_status :: proof_status
  ow_confidence :: rat
  ow_duration_ms :: rat
  ow_created_at :: py_datetime
  ow_summary :: string
  ow_error :: "string option"
  ow_repository :: "string option"
  ow_file :: "string option"
  ow_sandbox_policy :: "bool \<times> bool \<times> rat \<times> nat \<times> nat"

record proof_response =
  os_has_findings :: bool
  os_total :: kpi
  os_verified :: kpi
  os_not_verified :: kpi
  os_blocked :: kpi
  os_errors :: kpi
  os_records :: "proof_row list"

text \<open>The policy without its paths and directory.\<close>

definition safe_policy :: "sandbox_policy \<Rightarrow> bool \<times> bool \<times> rat \<times> nat \<times> nat" where
  "safe_policy p = (network_enabled p, allow_loopback p, timeout_seconds p, max_output_bytes p, max_processes p)"

definition proof_row_of :: "('p, 'w) app \<Rightarrow> proof_result \<Rightarrow> proof_row" where
  "proof_row_of s p =
     (let i = pr_finding_id p; f = dget (findings_by_id s) i in
      \<lparr>ow_finding_id = i, ow_vulnerability_type = pr_vulnerability_type p, ow_severity = map_option f_severity f,
       ow_priority = map_option rk_priority (dget (risks_by_id s) i),
       ow_validation = map_option vr_verdict (dget (validations_by_id s) i), ow_status = pr_status p,
       ow_confidence = pr_confidence p, ow_duration_ms = pr_duration_ms p, ow_created_at = pr_created_at p,
       ow_summary = pr_summary p, ow_error = pr_error p,
       ow_repository = map_option (\<lambda>f. repo_label_for_file (src_file (f_source f))) f,
       ow_file = map_option (\<lambda>f. src_file (f_source f)) f, ow_sandbox_policy = safe_policy (pr_sandbox_policy p)\<rparr>)"

definition proof_summary :: "auth_env \<Rightarrow> string option \<Rightarrow> ('p, 'w) app \<Rightarrow> http_error + proof_response" where
  "proof_summary auth cookie s =
     viewing auth s cookie
       (let ps = kstore_all (a_proofs s);
            with_status = (\<lambda>st. kpi_of ps (how_many (\<lambda>r. pr_status r = st) ps))
        in Inr \<lparr>os_has_findings = (findings_by_id s \<noteq> []), os_total = kpi_of ps (length ps),
                os_verified = with_status Verified, os_not_verified = with_status Not_verified,
                os_blocked = with_status Blocked, os_errors = with_status Proof_error,
                os_records = map (proof_row_of s) (newest pr_created_at ps)\<rparr>)"

section \<open>Risk\<close>

record share_bucket =
  sb_label :: string
  sb_count :: nat
  sb_percent :: int

text \<open>\<open>round(count * 100 / total)\<close>: the nearest double, then ties to even.\<close>

definition percent :: "nat \<Rightarrow> nat \<Rightarrow> int" where
  "percent n whole = half_even (double (of_nat (n * 100) / of_nat whole))"

text \<open>The buckets that hold anything, in order.\<close>

definition distribution :: "(string \<times> ('v \<Rightarrow> bool)) list \<Rightarrow> 'v list \<Rightarrow> share_bucket list" where
  "distribution buckets xs =
     (if xs = [] then []
      else List.map_filter (\<lambda>(label, P). let n = how_many P xs in
             if n = 0 then None else Some \<lparr>sb_label = label, sb_count = n, sb_percent = percent n (length xs)\<rparr>) buckets)"

definition PRIORITY_BUCKETS :: "(string \<times> (risk_assessment \<Rightarrow> bool)) list" where
  "PRIORITY_BUCKETS = map (\<lambda>p. (priority_text p, \<lambda>r. rk_priority r = p)) [P0, P1, P2, P3, P4]"

definition RISK_BUCKETS :: "(string \<times> (risk_assessment \<Rightarrow> bool)) list" where
  "RISK_BUCKETS = map (\<lambda>(label, low, high). (label, \<lambda>r. low \<le> rk_risk_score r \<and> rk_risk_score r \<le> high))
     [(''0-20'', 0, 20), (''21-40'', 21, 40), (''41-60'', 41, 60), (''61-80'', 61, 80), (''81-100'', 81, 100)]"

record risk_finding_row =
  hr_finding_id :: string
  hr_priority :: priority
  hr_risk_score :: int
  hr_severity :: string
  hr_vulnerability_type :: string
  hr_repository :: string
  hr_file :: string
  hr_validation :: "verdict option"
  hr_proof :: "proof_status option"
  hr_sla :: "sla_status option"
  hr_factors :: "risk_factor list"

record sla_row =
  lw_finding_id :: string
  lw_vulnerability_type :: "string option"
  lw_priority :: priority
  lw_started_at :: py_datetime
  lw_due_at :: "py_datetime option"
  lw_status :: sla_status
  lw_escalation_level :: nat
  lw_breached_at :: "py_datetime option"
  lw_remaining_seconds :: "int option"

record escalation_row =
  ew_event :: escalation_event
  ew_vulnerability_type :: "string option"
  ew_priority :: "priority option"

record risk_response =
  ks_has_findings :: bool
  ks_total_assessments :: kpi
  ks_critical_p0 :: kpi
  ks_high_p1 :: kpi
  ks_active_slas :: kpi
  ks_sla_breaches :: kpi
  ks_escalations :: kpi
  ks_priority_distribution :: "share_bucket list"
  ks_risk_distribution :: "share_bucket list"
  ks_highest_risk_findings :: "risk_finding_row list"
  ks_overview :: "bool \<times> nat \<times> nat \<times> nat \<times> nat"
  ks_active_rows :: "sla_row list"
  ks_breach_rows :: "sla_row list"
  ks_escalation_rows :: "escalation_row list"

text \<open>Here a naive deadline is read as UTC.\<close>

definition frozen_seconds :: "sla_record \<Rightarrow> int \<Rightarrow> int option" where
  "frozen_seconds r now =
     (case sl_due_at r of
        Some due \<Rightarrow> if sl_status r = Sla_active then seconds_left (as_aware_utc due) now else None
      | None \<Rightarrow> None)"

definition sla_row_of :: "('p, 'w) app \<Rightarrow> int \<Rightarrow> sla_record \<Rightarrow> sla_row" where
  "sla_row_of s now r =
     \<lparr>lw_finding_id = sl_finding_id r,
      lw_vulnerability_type = map_option f_vulnerability_type (dget (findings_by_id s) (sl_finding_id r)),
      lw_priority = sl_priority r, lw_started_at = sl_started_at r, lw_due_at = sl_due_at r, lw_status = sl_status r,
      lw_escalation_level = sl_escalation_level r, lw_breached_at = sl_breached_at r,
      lw_remaining_seconds = frozen_seconds r now\<rparr>"

text \<open>The first findings of the ranking that are still stored, at most \<open>n\<close> of them.\<close>

definition top_findings ::
    "nat \<Rightarrow> (string, candidate_finding) dict \<Rightarrow> risk_assessment list \<Rightarrow> (risk_assessment \<times> candidate_finding) list" where
  "top_findings n fs rs =
     take n (List.map_filter (\<lambda>a. map_option (Pair a) (dget fs (rk_finding_id a))) (ranked rs))"

definition risk_finding_row_of :: "('p, 'w) app \<Rightarrow> risk_assessment \<times> candidate_finding \<Rightarrow> risk_finding_row" where
  "risk_finding_row_of s af =
     (case af of (a, f) \<Rightarrow>
        \<lparr>hr_finding_id = f_id f, hr_priority = rk_priority a, hr_risk_score = rk_risk_score a,
         hr_severity = rk_severity a, hr_vulnerability_type = f_vulnerability_type f,
         hr_repository = repo_label_for_file (src_file (f_source f)), hr_file = src_file (f_source f),
         hr_validation = map_option vr_verdict (dget (validations_by_id s) (f_id f)),
         hr_proof = map_option pr_status (dget (proofs_by_id s) (f_id f)),
         hr_sla = map_option sl_status (find (\<lambda>r. sl_finding_id r = f_id f) (all_sla_records s)),
         hr_factors = rk_factors a\<rparr>)"

text \<open>Active deadlines by priority and urgency, breaches by priority and recency; \<open>datetime.min\<close> stands for no time.\<close>

definition active_rows :: "('p, 'w) app \<Rightarrow> int \<Rightarrow> sla_row list" where
  "active_rows s now =
     map (sla_row_of s now)
       (sort_key (\<lambda>r. (PRIORITY_RANK (sl_priority r), case frozen_seconds r now of None \<Rightarrow> 0 | Some n \<Rightarrow> n))
          (filter (\<lambda>r. sl_status r = Sla_active) (all_sla_records s)))"

definition DATETIME_MIN :: int where "DATETIME_MIN = - 62135596800 * 1000000"

definition breach_rows :: "('p, 'w) app \<Rightarrow> int \<Rightarrow> sla_row list" where
  "breach_rows s now =
     map (sla_row_of s now)
       (sort_key (\<lambda>r. (PRIORITY_RANK (sl_priority r),
                       - (case sl_breached_at r of None \<Rightarrow> DATETIME_MIN | Some t \<Rightarrow> utc_instant (as_aware_utc t))))
          (filter (\<lambda>r. sl_status r = Breached) (all_sla_records s)))"

definition escalation_rows_of :: "('p, 'w) app \<Rightarrow> escalation_row list" where
  "escalation_rows_of s =
     map (\<lambda>e. \<lparr>ew_event = e,
            ew_vulnerability_type = map_option f_vulnerability_type (dget (findings_by_id s) (es_finding_id e)),
            ew_priority = map_option rk_priority (dget (risks_by_id s) (es_finding_id e))\<rparr>)
       (newest es_created_at (all_escalation_events s))"

definition risk_summary :: "auth_env \<Rightarrow> string option \<Rightarrow> int \<Rightarrow> ('p, 'w) app \<Rightarrow> http_error + risk_response" where
  "risk_summary auth cookie now s =
     viewing auth s cookie
       (let risks = all_risk_assessments s; slas = all_sla_records s; events = all_escalation_events s;
            with_priority = (\<lambda>p. kpi_of risks (how_many (\<lambda>r. rk_priority r = p) risks));
            with_status = (\<lambda>st. how_many (\<lambda>r. sl_status r = st) slas)
        in Inr
          \<lparr>ks_has_findings = (findings_by_id s \<noteq> []), ks_total_assessments = kpi_of risks (length risks),
           ks_critical_p0 = with_priority P0, ks_high_p1 = with_priority P1,
           ks_active_slas = kpi_of slas (with_status Sla_active), ks_sla_breaches = kpi_of slas (with_status Breached),
           ks_escalations = kpi_of events (length events),
           ks_priority_distribution = distribution PRIORITY_BUCKETS risks,
           ks_risk_distribution = distribution RISK_BUCKETS risks,
           ks_highest_risk_findings = map (risk_finding_row_of s) (top_findings 10 (findings_by_id s) risks),
           ks_overview = (slas \<noteq> [], with_status Sla_active, with_status Breached, with_status Resolved,
                          with_status Not_applicable),
           ks_active_rows = active_rows s now, ks_breach_rows = breach_rows s now,
           ks_escalation_rows = escalation_rows_of s\<rparr>)"

end
