(* ===== verification/Dashboard.thy ===== *)
theory Dashboard
  imports Summaries
begin

text \<open>
  The dashboard (api/routes/dashboard.py): one summary over every store, scoped to a project's findings on request.
\<close>

record dashboard_pipeline_stage =
  ps_stage :: string
  ps_count :: "nat option"
  ps_count_label :: "string option"
  ps_description :: string

record dashboard_finding =
  df_finding_id :: string
  df_priority :: priority
  df_vulnerability_type :: string
  df_repository :: string
  df_file :: string
  df_status :: string
  df_risk_score :: int

record dashboard_activity =
  da_kind :: string
  da_finding_id :: "string option"
  da_message :: string
  da_created_at :: py_datetime

record dashboard_verification =
  dv_available :: bool
  dv_true_positive :: nat
  dv_false_positive :: nat
  dv_uncertain :: nat
  dv_verified :: nat
  dv_not_verified :: nat
  dv_blocked :: nat
  dv_errors :: nat

record dashboard_response =
  dm_projects :: "(string \<times> string) list"
  dm_total_findings :: kpi
  dm_critical_p0 :: kpi
  dm_sla_breaches :: kpi
  dm_pending_validation :: kpi
  dm_pending_approval :: kpi
  dm_pipeline :: "dashboard_pipeline_stage list"
  dm_critical_findings :: "dashboard_finding list"
  dm_sla_available :: bool
  dm_sla_active :: nat
  dm_sla_breached :: nat
  dm_highest_priority_breach :: "priority option"
  dm_escalation_count :: nat
  dm_verification :: dashboard_verification
  dm_recent_activity :: "dashboard_activity list"

section \<open>Status of a finding\<close>

fun approval_label :: "approval_status \<Rightarrow> string" where
  "approval_label Approved = ''approved''"
| "approval_label Rejected = ''rejected''"
| "approval_label Changes_requested = ''changes requested''"
| "approval_label Pending = ''pending approval''"

definition finding_status ::
    "string \<Rightarrow> (string, validation_result) dict \<Rightarrow> (string, proof_result) dict \<Rightarrow> approval_request list \<Rightarrow> string" where
  "finding_status fid validations proofs approvals =
     (case find (\<lambda>a. ar_finding_id a = fid) approvals of
        Some a \<Rightarrow> approval_label (ar_status a)
      | None \<Rightarrow>
          (case dget proofs fid of
             Some p \<Rightarrow> words (proof_text (pr_status p))
           | None \<Rightarrow>
               (case dget validations fid of
                  Some v \<Rightarrow> words (verdict_text (vr_verdict v))
                | None \<Rightarrow> ''candidate'')))"

section \<open>Recent activity\<close>

definition project_activity :: "project_row \<Rightarrow> dashboard_activity" where
  "project_activity p =
     \<lparr>da_kind = ''project_created'', da_finding_id = None,
      da_message = ''Repository '' @ quoted (pj_name p) @ '' added'', da_created_at = pj_created_at p\<rparr>"

definition validation_activity :: "validation_result \<Rightarrow> dashboard_activity" where
  "validation_activity v =
     \<lparr>da_kind = ''finding_validated'', da_finding_id = Some (vr_finding_id v),
      da_message = ''Finding '' @ take 8 (vr_finding_id v) @ '' triaged as '' @ words (verdict_text (vr_verdict v)),
      da_created_at = vr_validated_at v\<rparr>"

definition proof_activity :: "proof_result \<Rightarrow> dashboard_activity" where
  "proof_activity p =
     \<lparr>da_kind = ''proof_completed'', da_finding_id = Some (pr_finding_id p),
      da_message = ''Proof '' @ words (proof_text (pr_status p)) @ '' for '' @ pr_vulnerability_type p,
      da_created_at = pr_created_at p\<rparr>"

definition escalation_activity :: "escalation_event \<Rightarrow> dashboard_activity" where
  "escalation_activity e =
     \<lparr>da_kind = ''sla_breached'', da_finding_id = Some (es_finding_id e), da_message = es_reason e,
      da_created_at = es_created_at e\<rparr>"

definition approval_activity :: "approval_event \<Rightarrow> dashboard_activity" where
  "approval_activity e =
     \<lparr>da_kind = ''approval_updated'', da_finding_id = Some (ae_finding_id e),
      da_message = ''Approval moved to '' @ words (status_text (ae_new_status e)) @ '' ('' @ ae_actor e @ '')'',
      da_created_at = ae_created_at e\<rparr>"

definition all_activity ::
    "project_row list \<Rightarrow> validation_result list \<Rightarrow> proof_result list \<Rightarrow> escalation_event list \<Rightarrow> approval_event list
     \<Rightarrow> dashboard_activity list" where
  "all_activity projects validations proofs escalations approval_events =
     map project_activity projects @ map validation_activity validations @ map proof_activity proofs @
     map escalation_activity escalations @ map approval_activity approval_events"

definition recent_activity ::
    "project_row list \<Rightarrow> validation_result list \<Rightarrow> proof_result list \<Rightarrow> escalation_event list \<Rightarrow> approval_event list
     \<Rightarrow> dashboard_activity list" where
  "recent_activity projects validations proofs escalations approval_events =
     take 10 (newest da_created_at (all_activity projects validations proofs escalations approval_events))"

section \<open>The summary\<close>

definition plural :: "nat \<Rightarrow> string \<Rightarrow> string \<Rightarrow> string" where
  "plural n one many = dec n @ '' '' @ (if n = 1 then one else many)"

text \<open>A stage shows its count when the list it is taken from has anything.\<close>

definition pipeline_stage :: "string \<Rightarrow> bool \<Rightarrow> nat \<Rightarrow> string \<Rightarrow> string \<Rightarrow> string \<Rightarrow> dashboard_pipeline_stage" where
  "pipeline_stage stage shown n one many description =
     \<lparr>ps_stage = stage, ps_count = (if shown then Some n else None),
      ps_count_label = (if shown then Some (plural n one many) else None), ps_description = description\<rparr>"

text \<open>
  The scope of a request: nothing for all projects; otherwise the findings of the project's scan runs, none when it
  has no runs. The exception of the run store is \<open>None\<close>.
\<close>

definition dashboard_scope :: "string option \<Rightarrow> ('p, 'w) app \<Rightarrow> (string set option) option" where
  "dashboard_scope project_id s =
     (case project_id of
        None \<Rightarrow> Some None
      | Some p \<Rightarrow> if p = ''all'' then Some None else map_option Some (project_lineage s p))"

definition in_scope :: "string set option \<Rightarrow> string \<Rightarrow> bool" where
  "in_scope scope fid \<longleftrightarrow> (case scope of None \<Rightarrow> True | Some ids \<Rightarrow> fid \<in> ids)"

text \<open>The rows of the projects table by creation, newest first; the selected one when it exists.\<close>

definition projects_newest_first :: "('p, 'w) app \<Rightarrow> project_row list" where
  "projects_newest_first s = newest pj_created_at (dvalues (a_projects s))"

definition dashboard_projects :: "string option \<Rightarrow> ('p, 'w) app \<Rightarrow> project_row list" where
  "dashboard_projects project_id s =
     (case (if project_id = Some ''all'' then None else Option.bind project_id (dget (a_projects s))) of
        Some row \<Rightarrow> [row]
      | None \<Rightarrow> projects_newest_first s)"

definition awaits_decision :: "approval_request \<Rightarrow> bool" where
  "awaits_decision a \<longleftrightarrow> ar_status a = Pending \<or> ar_status a = Changes_requested"

definition pipeline ::
    "nat \<Rightarrow> nat \<Rightarrow> nat \<Rightarrow> nat \<Rightarrow> nat \<Rightarrow> nat \<Rightarrow> approval_request list \<Rightarrow> nat \<Rightarrow> dashboard_pipeline_stage list" where
  "pipeline projects findings groups risks validations proofs approvals remediations =
     [pipeline_stage ''PREPARE'' (projects \<noteq> 0) projects ''repository'' ''repositories''
        ''Ingest repositories and build source snapshots'',
      pipeline_stage ''SCAN'' (findings \<noteq> 0) findings ''finding'' ''findings''
        ''Static analysis against bundled security rules'',
      pipeline_stage ''DEDUP'' (groups \<noteq> 0) groups ''unique issue'' ''unique issues''
        ''Group duplicate findings into unique issues'',
      pipeline_stage ''RISK'' (risks \<noteq> 0) risks ''assessed issue'' ''assessed issues''
        ''Risk scoring and SLA tracking per issue'',
      pipeline_stage ''VALIDATE'' (validations \<noteq> 0) validations ''validated'' ''validated''
        ''LLM triage of candidate findings'',
      pipeline_stage ''PROVE'' (proofs \<noteq> 0) proofs ''proof result'' ''proof results''
        ''Dynamic confirmation with sandboxed executions'',
      pipeline_stage ''APPROVAL'' (approvals \<noteq> []) (how_many awaits_decision approvals) ''pending approval''
        ''pending approvals'' ''Human approval workflow'',
      pipeline_stage ''REMEDIATION'' (remediations \<noteq> 0) remediations ''remediation'' ''remediations''
        ''Auto-generated fix proposals and workspace patching'']"

definition critical_finding ::
    "(string, validation_result) dict \<Rightarrow> (string, proof_result) dict \<Rightarrow> approval_request list
     \<Rightarrow> risk_assessment \<times> candidate_finding \<Rightarrow> dashboard_finding" where
  "critical_finding validations proofs approvals af =
     (case af of (a, f) \<Rightarrow>
        \<lparr>df_finding_id = f_id f, df_priority = rk_priority a, df_vulnerability_type = f_vulnerability_type f,
         df_repository = repo_label_for_file (src_file (f_source f)), df_file = src_file (f_source f),
         df_status = finding_status (f_id f) validations proofs approvals, df_risk_score = rk_risk_score a\<rparr>)"

text \<open>\<open>min\<close> by priority takes the first of the most urgent ones.\<close>

definition highest_breach :: "sla_record list \<Rightarrow> priority option" where
  "highest_breach slas =
     map_option sl_priority
       (first_max (\<lambda>r. - int (PRIORITY_RANK (sl_priority r))) (filter (\<lambda>r. sl_status r = Breached) slas))"

definition verification :: "validation_result list \<Rightarrow> proof_result list \<Rightarrow> dashboard_verification" where
  "verification vs ps =
     \<lparr>dv_available = (vs \<noteq> [] \<or> ps \<noteq> []),
      dv_true_positive = how_many (\<lambda>v. vr_verdict v = True_positive) vs,
      dv_false_positive = how_many (\<lambda>v. vr_verdict v = False_positive) vs,
      dv_uncertain = how_many (\<lambda>v. vr_verdict v = Uncertain) vs,
      dv_verified = how_many (\<lambda>p. pr_status p = Verified) ps,
      dv_not_verified = how_many (\<lambda>p. pr_status p = Not_verified) ps,
      dv_blocked = how_many (\<lambda>p. pr_status p = Blocked) ps,
      dv_errors = how_many (\<lambda>p. pr_status p = Proof_error) ps\<rparr>"

definition summarize_scope :: "string set option \<Rightarrow> project_row list \<Rightarrow> ('p, 'w) app \<Rightarrow> dashboard_response" where
  "summarize_scope scope projects s =
     (let findings = by_key f_id (filter (\<lambda>f. in_scope scope (f_id f)) (kstore_all (a_findings s)));
          validations = by_key vr_finding_id (filter (\<lambda>v. in_scope scope (vr_finding_id v)) (kstore_all (a_validations s)));
          proofs = by_key pr_finding_id (filter (\<lambda>p. in_scope scope (pr_finding_id p)) (kstore_all (a_proofs s)));
          risks = filter (\<lambda>r. in_scope scope (rk_finding_id r)) (all_risk_assessments s);
          slas = filter (\<lambda>r. in_scope scope (sl_finding_id r)) (all_sla_records s);
          escalations = filter (\<lambda>e. in_scope scope (es_finding_id e)) (all_escalation_events s);
          approvals = filter (\<lambda>a. in_scope scope (ar_finding_id a)) (all_approvals s);
          approval_events = filter (\<lambda>e. in_scope scope (ae_finding_id e)) (all_approval_events s);
          remediations = filter (\<lambda>r. in_scope scope (rr_finding_id r)) (kstore_all (rm_store (a_rem s)));
          breached = how_many (\<lambda>r. sl_status r = Breached) slas
      in \<lparr>dm_projects = map (\<lambda>p. (pj_id p, pj_name p)) projects,
          dm_total_findings = kpi_of findings (length findings),
          dm_critical_p0 = kpi_of risks (how_many (\<lambda>r. rk_priority r = P0) risks),
          dm_sla_breaches = kpi_of slas breached,
          dm_pending_validation = kpi_of findings (length findings - length validations),
          dm_pending_approval = kpi_of findings (how_many awaits_decision approvals),
          dm_pipeline = pipeline (length projects) (length findings) (length (kstore_all (a_groups s))) (length risks)
            (length validations) (length proofs) approvals (length remediations),
          dm_critical_findings = map (critical_finding validations proofs approvals) (top_findings 5 findings risks),
          dm_sla_available = (slas \<noteq> []), dm_sla_active = how_many (\<lambda>r. sl_status r = Sla_active) slas,
          dm_sla_breached = breached, dm_highest_priority_breach = highest_breach slas,
          dm_escalation_count = length escalations,
          dm_verification = verification (dvalues validations) (dvalues proofs),
          dm_recent_activity = recent_activity projects (dvalues validations) (dvalues proofs) escalations approval_events\<rparr>)"

definition dashboard_summary ::
    "auth_env \<Rightarrow> string option \<Rightarrow> string option \<Rightarrow> ('p, 'w) app \<Rightarrow> http_error + dashboard_response" where
  "dashboard_summary auth cookie project_id s =
     viewing auth s cookie
       (or_server_error (map_option (\<lambda>scope. summarize_scope scope (dashboard_projects project_id s) s)
          (dashboard_scope project_id s)))"

end
