(* ===== verification/Report.thy ===== *)
theory Report
  imports Dashboard
begin

text \<open>
  The security report (backend/app/report/service.py and models.py) and its endpoint (api/routes/report.py): the
  projects, a summary per stage, the first hundred findings with their latest results, and the list of limitations.
  The layout of a PDF is an argument.
\<close>

section \<open>Contracts\<close>

record report_project_info =
  ri_project_id :: string
  ri_name :: string
  ri_source_type :: string
  ri_language :: string
  ri_status :: string
  ri_location :: string
  ri_created_at :: py_datetime

record report_finding_summary =
  rf_total :: nat
  rf_by_severity :: "(string, nat) dict"
  rf_by_type :: "(string, nat) dict"
  rf_by_status :: "(string, nat) dict"

record report_validation_summary =
  rv_total_validated :: nat
  rv_true_positive :: nat
  rv_false_positive :: nat
  rv_uncertain :: nat
  rv_pending_validation :: nat

record report_proof_summary =
  rq_total_proven :: nat
  rq_verified :: nat
  rq_not_verified :: nat
  rq_blocked :: nat
  rq_error :: nat

record report_approval_summary =
  ra_total_requests :: nat
  ra_approved :: nat
  ra_rejected :: nat
  ra_pending :: nat
  ra_changes_requested :: nat

record report_remediation_summary =
  re_total_remediations :: nat
  re_pending :: nat
  re_in_progress :: nat
  re_completed :: nat

record report_sla_summary =
  rl_total_records :: nat
  rl_active :: nat
  rl_breached :: nat
  rl_resolved :: nat
  rl_not_applicable :: nat

record report_finding_detail =
  rx_finding_id :: string
  rx_vulnerability_type :: string
  rx_severity :: string
  rx_confidence :: int
  rx_source_file :: string
  rx_source_line :: nat
  rx_source_snippet :: string
  rx_sink_file :: string
  rx_sink_line :: nat
  rx_sink_snippet :: string
  rx_status :: string
  rx_priority :: "priority option"
  rx_risk_score :: "int option"
  rx_validation_verdict :: "verdict option"
  rx_validation_confidence :: "rat option"
  rx_proof_status :: "proof_status option"
  rx_approval_status :: "approval_status option"
  rx_sla_status :: "sla_status option"

record security_report =
  sr_report_id :: string
  sr_generated_at :: py_datetime
  sr_report_type :: string
  sr_projects :: "report_project_info list"
  sr_total_projects :: nat
  sr_total_findings :: nat
  sr_findings_summary :: report_finding_summary
  sr_validation_summary :: report_validation_summary
  sr_proof_summary :: report_proof_summary
  sr_approval_summary :: report_approval_summary
  sr_remediation_summary :: report_remediation_summary
  sr_sla_summary :: report_sla_summary
  sr_total_benchmarks :: nat
  sr_fixtures_tested :: "string set"
  sr_findings :: "report_finding_detail list"
  sr_limitations :: "string list"

section \<open>Collecting\<close>

definition project_to_info :: "project_row \<Rightarrow> report_project_info" where
  "project_to_info p =
     \<lparr>ri_project_id = pj_id p, ri_name = pj_name p, ri_source_type = pj_source_type p, ri_language = pj_language p,
      ri_status = pj_status p, ri_location = pj_location p, ri_created_at = pj_created_at p\<rparr>"

text \<open>An empty project id counts as none here.\<close>

definition get_projects :: "string option \<Rightarrow> ('p, 'w) app \<Rightarrow> report_project_info list" where
  "get_projects project_id s =
     (case project_id of
        None \<Rightarrow> map project_to_info (projects_newest_first s)
      | Some p \<Rightarrow>
          if p = [] then map project_to_info (projects_newest_first s)
          else (case dget (a_projects s) p of None \<Rightarrow> [] | Some row \<Rightarrow> [project_to_info row]))"

definition report_scope :: "string option \<Rightarrow> ('p, 'w) app \<Rightarrow> (string set option) option" where
  "report_scope project_id s =
     (case project_id of None \<Rightarrow> Some None | Some p \<Rightarrow> map_option Some (project_lineage s p))"

definition scoped_by :: "('v \<Rightarrow> string) \<Rightarrow> string set option \<Rightarrow> 'v list \<Rightarrow> (string, 'v) dict" where
  "scoped_by key scope xs = by_key key (filter (\<lambda>x. in_scope scope (key x)) xs)"

definition get_findings :: "string set option \<Rightarrow> ('p, 'w) app \<Rightarrow> (string, candidate_finding) dict" where
  "get_findings scope s = scoped_by f_id scope (kstore_all (a_findings s))"

definition get_validations :: "string set option \<Rightarrow> ('p, 'w) app \<Rightarrow> (string, validation_result) dict" where
  "get_validations scope s = scoped_by vr_finding_id scope (kstore_all (a_validations s))"

definition get_proofs :: "string set option \<Rightarrow> ('p, 'w) app \<Rightarrow> (string, proof_result) dict" where
  "get_proofs scope s = scoped_by pr_finding_id scope (kstore_all (a_proofs s))"

text \<open>One request per finding: the last one made.\<close>

definition get_approvals :: "string set option \<Rightarrow> ('p, 'w) app \<Rightarrow> (string, approval_request) dict" where
  "get_approvals scope s = scoped_by ar_finding_id scope (all_approvals s)"

definition get_sla_records :: "string set option \<Rightarrow> ('p, 'w) app \<Rightarrow> (string, sla_record) dict" where
  "get_sla_records scope s = scoped_by sl_finding_id scope (all_sla_records s)"

definition get_remediations :: "string set option \<Rightarrow> ('p, 'w) app \<Rightarrow> (string, remediation_record) dict" where
  "get_remediations scope s = scoped_by rr_finding_id scope (kstore_all (rm_store (a_rem s)))"

section \<open>Summaries\<close>

text \<open>\<open>d[k] = d.get(k, 0) + 1\<close> over a list, in order.\<close>

definition tally :: "('v \<Rightarrow> string) \<Rightarrow> 'v list \<Rightarrow> (string, nat) dict" where
  "tally key xs = fold (\<lambda>x d. dput (key x) ((case dget d (key x) of None \<Rightarrow> 0 | Some n \<Rightarrow> n) + 1) d) xs []"

definition build_findings_summary :: "candidate_finding list \<Rightarrow> report_finding_summary" where
  "build_findings_summary fs =
     \<lparr>rf_total = length fs, rf_by_severity = tally f_severity fs, rf_by_type = tally f_vulnerability_type fs,
      rf_by_status = tally (\<lambda>_. ''candidate'') fs\<rparr>"

definition build_validation_summary :: "nat \<Rightarrow> validation_result list \<Rightarrow> report_validation_summary" where
  "build_validation_summary findings vs =
     \<lparr>rv_total_validated = length vs, rv_true_positive = how_many (\<lambda>v. vr_verdict v = True_positive) vs,
      rv_false_positive = how_many (\<lambda>v. vr_verdict v = False_positive) vs,
      rv_uncertain = how_many (\<lambda>v. vr_verdict v = Uncertain) vs, rv_pending_validation = findings - length vs\<rparr>"

definition build_proof_summary :: "proof_result list \<Rightarrow> report_proof_summary" where
  "build_proof_summary ps =
     \<lparr>rq_total_proven = length ps, rq_verified = how_many (\<lambda>p. pr_status p = Verified) ps,
      rq_not_verified = how_many (\<lambda>p. pr_status p = Not_verified) ps,
      rq_blocked = how_many (\<lambda>p. pr_status p = Blocked) ps, rq_error = how_many (\<lambda>p. pr_status p = Proof_error) ps\<rparr>"

definition build_approval_summary :: "approval_request list \<Rightarrow> report_approval_summary" where
  "build_approval_summary as =
     \<lparr>ra_total_requests = length as, ra_approved = how_many (\<lambda>a. ar_status a = Approved) as,
      ra_rejected = how_many (\<lambda>a. ar_status a = Rejected) as, ra_pending = how_many (\<lambda>a. ar_status a = Pending) as,
      ra_changes_requested = how_many (\<lambda>a. ar_status a = Changes_requested) as\<rparr>"

text \<open>The statuses are compared as texts, as the source does.\<close>

definition build_remediation_summary :: "remediation_record list \<Rightarrow> report_remediation_summary" where
  "build_remediation_summary rs =
     (let with_status = (\<lambda>t. how_many (\<lambda>r. rem_status_text (rr_status r) = t) rs) in
      \<lparr>re_total_remediations = length rs, re_pending = with_status ''pending'',
       re_in_progress = with_status ''in_progress'', re_completed = with_status ''completed''\<rparr>)"

definition build_sla_summary :: "sla_record list \<Rightarrow> report_sla_summary" where
  "build_sla_summary ss =
     \<lparr>rl_total_records = length ss, rl_active = how_many (\<lambda>r. sl_status r = Sla_active) ss,
      rl_breached = how_many (\<lambda>r. sl_status r = Breached) ss, rl_resolved = how_many (\<lambda>r. sl_status r = Resolved) ss,
      rl_not_applicable = how_many (\<lambda>r. sl_status r = Not_applicable) ss\<rparr>"

section \<open>Details and limitations\<close>

definition MAX_FINDINGS_IN_REPORT :: nat where "MAX_FINDINGS_IN_REPORT = 100"

definition detail_of ::
    "(string, validation_result) dict \<Rightarrow> (string, proof_result) dict \<Rightarrow> (string, approval_request) dict
     \<Rightarrow> (string, sla_record) dict \<Rightarrow> (string, risk_assessment) dict \<Rightarrow> candidate_finding \<Rightarrow> report_finding_detail" where
  "detail_of validations proofs approvals slas risks f =
     (let validation = dget validations (f_id f); proof' = dget proofs (f_id f); approval = dget approvals (f_id f);
          risk = dget risks (f_id f)
      in \<lparr>rx_finding_id = f_id f, rx_vulnerability_type = f_vulnerability_type f, rx_severity = f_severity f,
          rx_confidence = f_confidence f, rx_source_file = src_file (f_source f), rx_source_line = src_line (f_source f),
          rx_source_snippet = src_snippet (f_source f), rx_sink_file = snk_file (f_sink f),
          rx_sink_line = snk_line (f_sink f), rx_sink_snippet = snk_snippet (f_sink f),
          rx_status =
            (case approval of Some a \<Rightarrow> status_text (ar_status a)
             | None \<Rightarrow> (case proof' of Some p \<Rightarrow> proof_text (pr_status p)
                | None \<Rightarrow> (case validation of Some v \<Rightarrow> verdict_text (vr_verdict v) | None \<Rightarrow> ''candidate''))),
          rx_priority = map_option rk_priority risk, rx_risk_score = map_option rk_risk_score risk,
          rx_validation_verdict = map_option vr_verdict validation,
          rx_validation_confidence = map_option vr_confidence validation, rx_proof_status = map_option pr_status proof',
          rx_approval_status = map_option ar_status approval,
          rx_sla_status = map_option sl_status (dget slas (f_id f))\<rparr>)"

definition build_limitations :: "nat \<Rightarrow> nat \<Rightarrow> nat \<Rightarrow> nat \<Rightarrow> nat \<Rightarrow> string list" where
  "build_limitations findings validations proofs approvals slas =
     (if findings = 0 then [''No findings available for analysis.''] else []) @
     (if validations = 0
      then [''No validation results available - findings are unvalidated candidates.''] else []) @
     (if proofs = 0 then [''No proof results available - vulnerabilities not dynamically confirmed.''] else []) @
     (if approvals = 0 then [''No approval records available - findings pending human review.''] else []) @
     (if slas = 0 then [''No SLA tracking data available.''] else []) @
     (if validations < findings
      then [dec (findings - validations) @ '' finding(s) have not been validated by LLM triage.''] else []) @
     [''This report is generated from automated analysis and should be reviewed by security professionals.'']"

section \<open>The report\<close>

record report_env =
  rg_sha :: "string \<Rightarrow> string"
  rg_isoformat :: "py_datetime \<Rightarrow> string"
  rg_now :: py_datetime

definition generate_report ::
    "report_env \<Rightarrow> string option \<Rightarrow> 'q report_store \<Rightarrow> ('p, 'w) app \<Rightarrow> security_report option" where
  "generate_report env project_id benchmarks s =
     map_option (\<lambda>scope.
       let findings = get_findings scope s; validations = get_validations scope s; proofs = get_proofs scope s;
           approvals = get_approvals scope s; slas = get_sla_records scope s;
           details = map (detail_of validations proofs approvals slas (risks_by_id s)) (dvalues findings)
       in \<lparr>sr_report_id = take 32 (rg_sha env ((case project_id of None \<Rightarrow> ''None'' | Some p \<Rightarrow> p) @ ''|'' @
             rg_isoformat env (rg_now env))),
           sr_generated_at = rg_now env,
           sr_report_type = (case project_id of None \<Rightarrow> ''aggregated'' | Some p \<Rightarrow>
              if p = [] then ''aggregated'' else ''single_project''),
           sr_projects = get_projects project_id s, sr_total_projects = length (get_projects project_id s),
           sr_total_findings = length findings, sr_findings_summary = build_findings_summary (dvalues findings),
           sr_validation_summary = build_validation_summary (length findings) (dvalues validations),
           sr_proof_summary = build_proof_summary (dvalues proofs),
           sr_approval_summary = build_approval_summary (dvalues approvals),
           sr_remediation_summary = build_remediation_summary (dvalues (get_remediations scope s)),
           sr_sla_summary = build_sla_summary (dvalues slas), sr_total_benchmarks = length (list_reports benchmarks),
           sr_fixtures_tested = set (map bp_fixture (list_reports benchmarks)),
           sr_findings = take MAX_FINDINGS_IN_REPORT details,
           sr_limitations = build_limitations (length findings) (length validations) (length proofs)
             (length approvals) (length slas)\<rparr>)
       (report_scope project_id s)"

datatype report_format = Pdf | Json

definition generate_report_route ::
    "auth_env \<Rightarrow> string option \<Rightarrow> (security_report \<Rightarrow> string + 'c) \<Rightarrow> (security_report \<Rightarrow> 'c) \<Rightarrow> report_env \<Rightarrow> string option
     \<Rightarrow> report_format \<Rightarrow> 'q report_store \<Rightarrow> ('p, 'w) app \<Rightarrow> http_error + 'c \<times> string" where
  "generate_report_route auth cookie generate_pdf to_json env project_id fmt benchmarks s =
     viewing auth s cookie
       (case generate_report env project_id benchmarks s of
          None \<Rightarrow> Inl (500, ''Report generation failed: can'' @ [CHR 0x27] @
                             ''t compare offset-naive and offset-aware datetimes'')
        | Some report \<Rightarrow>
            (let attachment = (\<lambda>ext. ''security-report-'' @ take 12 (sr_report_id report) @ ext) in
             case fmt of
               Json \<Rightarrow> Inr (to_json report, attachment ''.json'')
             | Pdf \<Rightarrow>
                 (case generate_pdf report of
                    Inl exc \<Rightarrow> Inl (500, ''PDF generation failed: '' @ exc)
                  | Inr content \<Rightarrow> Inr (content, attachment ''.pdf''))))"

text \<open>Reports are not kept.\<close>

definition list_kept_reports :: "auth_env \<Rightarrow> string option \<Rightarrow> ('p, 'w) app \<Rightarrow> http_error + string list \<times> string" where
  "list_kept_reports auth cookie s =
     viewing auth s cookie
       (Inr ([], ''Reports are generated on-demand. Use POST /api/reports/generate to create a report.''))"

end
