(* ===== verification/Projects.thy ===== *)
theory Projects
  imports Dashboard Prepare
begin

text \<open>
  The repositories behind the endpoints: what PREPARE's outcome becomes for a new project, preparing again, reading a
  project (api/routes/projects.py), and the overview of all repositories (api/routes/repositories.py), which finds a
  project's findings by the files of its snapshot.
\<close>

section \<open>Preparing\<close>

text \<open>The response to an outcome of PREPARE: an error, or the directory and the time of the snapshot.\<close>

definition prepare_response :: "prepare_error + project_snapshot \<times> built_model \<times> string list \<Rightarrow> http_error + string \<times> py_datetime" where
  "prepare_response r =
     (case r of
        Inl (Prepare_security m) \<Rightarrow> Inl (400, ''security error: '' @ m)
      | Inl (Prepare_error m) \<Rightarrow> Inl (400, m)
      | Inl (Prepare_exception m) \<Rightarrow> Inl (500, ''prepare failed'')
      | Inr (sn, cm, dir) \<Rightarrow> Inr (abs_path dir, sn_created_at sn))"

text \<open>Creating a project with PREPARE itself: the endpoint of \<open>Api\<close> on its outcome, and the workspace after it.\<close>

definition create_project ::
    "prepare_env \<Rightarrow> ('a, 'b) prepare_codecs \<Rightarrow> string list \<Rightarrow> 'w api_env \<Rightarrow> string option \<Rightarrow> repo_spec
     \<Rightarrow> ('p, 'w) app \<times> ('a, 'b) workspace \<Rightarrow> (http_error + string) \<times> ('p, 'w) app \<times> ('a, 'b) workspace" where
  "create_project E C dir env cookie payload sw =
     (case sw of (s, w) \<Rightarrow>
        case require_permission May_create_repository (pe_auth env) (a_db s) cookie of
          Inl e \<Rightarrow> (Inl e, s, w)
        | Inr _ \<Rightarrow>
            (case prepare E C dir payload (pe_project_id env) w of (r, w') \<Rightarrow>
               (case create_project_route (env\<lparr>pe_prepare := \<lambda>_. prepare_response r\<rparr>) cookie payload s of
                  (x, s') \<Rightarrow> (x, s', w'))))"

text \<open>The directory of a project: the segments of its snapshot path.\<close>

definition project_dir :: "project_row \<Rightarrow> string list" where
  "project_dir p = filter (\<lambda>seg. seg \<noteq> ''/'' \<and> seg \<noteq> ''//'') (path_parts (pj_snapshot_path p))"

record project_out =
  po_id :: string
  po_name :: string
  po_source_type :: string
  po_location :: string
  po_language :: string
  po_status :: string
  po_created_at :: py_datetime
  po_summary :: snapshot_summary

definition reprepare_project ::
    "prepare_env \<Rightarrow> ('a, 'b) prepare_codecs \<Rightarrow> auth_env \<Rightarrow> string option \<Rightarrow> string \<Rightarrow> ('p, 'w) app \<times> ('a, 'b) workspace
     \<Rightarrow> (http_error + project_out) \<times> ('p, 'w) app \<times> ('a, 'b) workspace" where
  "reprepare_project E C auth cookie project_id sw =
     (case sw of (s, w) \<Rightarrow>
        case require_permission May_reprepare auth (a_db s) cookie of
          Inl e \<Rightarrow> (Inl e, sw)
        | Inr _ \<Rightarrow>
            (case dget (a_projects s) project_id of
               None \<Rightarrow> (Inl (404, ''project not found: '' @ project_id), sw)
             | Some p \<Rightarrow>
                 (case reprepare E C project_id (pj_name p) (pj_source_type p) (pj_language p) (pj_location p)
                         (project_dir p) w of
                    (Inl (Prepare_error m), w') \<Rightarrow> (Inl (409, m), s, w')
                  | (Inl _, w') \<Rightarrow> (Inl (500, ''reprepare failed''), s, w')
                  | (Inr (sn, cm, dir), w') \<Rightarrow>
                      (Inr \<lparr>po_id = project_id, po_name = pj_name p, po_source_type = pj_source_type p,
                            po_location = pj_location p, po_language = pj_language p, po_status = ''prepared'',
                            po_created_at = sn_created_at sn, po_summary = sn_summary sn\<rparr>,
                       s\<lparr>a_projects := dput project_id (p\<lparr>pj_status := ''prepared''\<rparr>) (a_projects s)\<rparr>, w'))))"

section \<open>Reading projects\<close>

definition list_projects :: "auth_env \<Rightarrow> string option \<Rightarrow> ('p, 'w) app \<Rightarrow> http_error + (string \<times> string) list" where
  "list_projects auth cookie s =
     (case require_permission View_repositories auth (a_db s) cookie of
        Inl e \<Rightarrow> Inl e
      | Inr _ \<Rightarrow> Inr (map (\<lambda>p. (pj_id p, pj_name p)) (projects_newest_first s)))"

record file_meta =
  fm_path :: string
  fm_sha256 :: string
  fm_line_count :: nat
  fm_functions :: nat
  fm_classes :: nat
  fm_imports :: nat
  fm_calls :: nat
  fm_assignments :: nat
  fm_error :: "parse_error_info option"

definition file_meta_of :: "parsed_file \<Rightarrow> file_meta" where
  "file_meta_of f =
     \<lparr>fm_path = pf_path f, fm_sha256 = pf_sha256 f, fm_line_count = pf_line_count f,
      fm_functions = length (pf_functions f), fm_classes = length (pf_classes f), fm_imports = length (pf_imports f),
      fm_calls = length (pf_calls f), fm_assignments = length (pf_assignments f), fm_error = pf_error f\<rparr>"

definition get_project ::
    "('a, 'b) prepare_codecs \<Rightarrow> auth_env \<Rightarrow> string option \<Rightarrow> string \<Rightarrow> ('p, 'w) app \<Rightarrow> ('a, 'b) workspace
     \<Rightarrow> http_error + project_out \<times> file_meta list" where
  "get_project C auth cookie project_id s w =
     (case require_permission View_repositories auth (a_db s) cookie of
        Inl e \<Rightarrow> Inl e
      | Inr _ \<Rightarrow>
          (case dget (a_projects s) project_id of
             None \<Rightarrow> Inl (404, ''project not found: '' @ project_id)
           | Some p \<Rightarrow>
               (case load_snapshot C (project_dir p) w of
                  None \<Rightarrow> Inl (500, ''snapshot unavailable'')
                | Some sn \<Rightarrow>
                    Inr (\<lparr>po_id = pj_id p, po_name = pj_name p, po_source_type = pj_source_type p,
                          po_location = pj_location p, po_language = pj_language p, po_status = pj_status p,
                          po_created_at = pj_created_at p, po_summary = sn_summary sn\<rparr>,
                         map file_meta_of (sn_files sn)))))"

section \<open>The overview\<close>

record repository_summary =
  ry_project :: project_row
  ry_total :: "nat option"
  ry_by_priority :: "(priority \<times> nat) list"
  ry_top :: "risk_assessment option"
  ry_validation :: "(nat \<times> nat \<times> nat) option"
  ry_proof :: "(nat \<times> nat \<times> nat \<times> nat) option"
  ry_sla :: "(nat \<times> nat \<times> nat) option"

definition empty_summary :: "project_row \<Rightarrow> repository_summary" where
  "empty_summary p =
     \<lparr>ry_project = p, ry_total = None, ry_by_priority = [], ry_top = None, ry_validation = None, ry_proof = None,
      ry_sla = None\<rparr>"

definition project_files :: "('a, 'b) prepare_codecs \<Rightarrow> ('a, 'b) workspace \<Rightarrow> project_row \<Rightarrow> string set option" where
  "project_files C w p = map_option (\<lambda>sn. set (map pf_path (sn_files sn))) (load_snapshot C (project_dir p) w)"

text \<open>The findings whose source file is a file of the snapshot.\<close>

definition attributed :: "string set \<Rightarrow> ('p, 'w) app \<Rightarrow> (string, candidate_finding) dict" where
  "attributed files s = by_key f_id (filter (\<lambda>f. src_file (f_source f) \<in> files) (kstore_all (a_findings s)))"

definition if_any :: "'v list \<Rightarrow> 'r \<Rightarrow> 'r option" where
  "if_any xs r = (if xs = [] then None else Some r)"

definition summarize_repository :: "('p, 'w) app \<Rightarrow> project_row \<Rightarrow> string set option \<Rightarrow> repository_summary" where
  "summarize_repository s p files =
     (case files of
        None \<Rightarrow> empty_summary p
      | Some fs \<Rightarrow>
          (let findings = attributed fs s;
               belonging = (\<lambda>i. i \<in> set (dkeys findings));
               risks = dvalues (by_key rk_finding_id (filter (\<lambda>r. belonging (rk_finding_id r)) (all_risk_assessments s)));
               vs = dvalues (by_key vr_finding_id (filter (\<lambda>v. belonging (vr_finding_id v)) (kstore_all (a_validations s))));
               ps = dvalues (by_key pr_finding_id (filter (\<lambda>p. belonging (pr_finding_id p)) (kstore_all (a_proofs s))));
               ss = dvalues (by_key sl_finding_id (filter (\<lambda>r. belonging (sl_finding_id r)) (all_sla_records s)))
           in if findings = [] then empty_summary p
              else
                \<lparr>ry_project = p, ry_total = Some (length findings),
                 ry_by_priority = map (\<lambda>q. (q, how_many (\<lambda>r. rk_priority r = q) risks)) [P0, P1, P2, P3, P4],
                 ry_top = (case ranked risks of [] \<Rightarrow> None | r # _ \<Rightarrow> Some r),
                 ry_validation = if_any vs (how_many (\<lambda>v. vr_verdict v = True_positive) vs,
                   how_many (\<lambda>v. vr_verdict v = False_positive) vs, how_many (\<lambda>v. vr_verdict v = Uncertain) vs),
                 ry_proof = if_any ps (how_many (\<lambda>p. pr_status p = Verified) ps,
                   how_many (\<lambda>p. pr_status p = Not_verified) ps, how_many (\<lambda>p. pr_status p = Blocked) ps,
                   how_many (\<lambda>p. pr_status p = Proof_error) ps),
                 ry_sla = if_any ss (how_many (\<lambda>r. sl_status r = Sla_active) ss,
                   how_many (\<lambda>r. sl_status r = Breached) ss, how_many (\<lambda>r. sl_status r = Resolved) ss)\<rparr>))"

definition list_repositories ::
    "('a, 'b) prepare_codecs \<Rightarrow> auth_env \<Rightarrow> string option \<Rightarrow> ('p, 'w) app \<Rightarrow> ('a, 'b) workspace
     \<Rightarrow> http_error + bool \<times> repository_summary list" where
  "list_repositories C auth cookie s w =
     viewing auth s cookie
       (Inr (a_projects s \<noteq> [],
             map (\<lambda>p. summarize_repository s p (project_files C w p)) (projects_newest_first s)))"

end
