(* ===== verification/View_Properties.thy ===== *)
theory View_Properties
  imports Benchmark_Properties Prepare_Properties Notifications Report Projects Api_System
begin

text \<open>
  What the read-only endpoints guarantee: their lists are complete, scoped by lineage and agree with each other, their
  counts add up and their rankings leave nothing more urgent out; and where two of them disagree.
\<close>

section \<open>Dictionaries by key\<close>

text \<open>The stores are keyed: every record lies under its own id, and ids are unique.\<close>

definition keyed :: "('v \<Rightarrow> string) \<Rightarrow> ('v, 'p) kstore \<Rightarrow> bool" where
  "keyed key st \<longleftrightarrow> distinct (dkeys (cache st)) \<and> (\<forall>(k, v) \<in> set (cache st). key v = k)"

lemma keyed_values: "keyed key st \<Longrightarrow> map key (kstore_all st) = dkeys (cache st)"
  by (auto simp: keyed_def kstore_all_def)

lemma keyed_distinct: "keyed key st \<Longrightarrow> distinct (map key (kstore_all st))"
  using keyed_values[of key st] by (simp add: keyed_def)

lemma dget_by_key_filter:
  "dget (by_key key (filter P xs)) k = find (\<lambda>x. key x = k) (rev (filter P xs))"
proof -
  have "dget (dput_all (map (\<lambda>x. (key x, x)) ys) d) k =
      (case find (\<lambda>x. key x = k) (rev ys) of None \<Rightarrow> dget d k | Some x \<Rightarrow> Some x)" for ys d
    by (induction ys arbitrary: d)
      (auto simp: dput_all_def dget_dput find_append_case split: option.splits)
  then show ?thesis by (simp add: by_key_def split: option.splits)
qed

lemma dget_by_key: "dget (by_key key xs) k = find (\<lambda>x. key x = k) (rev xs)"
  using dget_by_key_filter[of key "\<lambda>_. True" xs k] by simp

lemma by_key_fresh: "distinct (map key xs) \<Longrightarrow> by_key key xs = map (\<lambda>x. (key x, x)) xs"
  by (simp add: by_key_def dput_all_empty comp_def)

lemma keyed_by_key: "keyed key st \<Longrightarrow> by_key key (kstore_all st) = cache st"
proof -
  assume k: "keyed key st"
  have "map (\<lambda>x. (key x, x)) (kstore_all st) = cache st"
    using k by (auto simp: keyed_def kstore_all_def comp_def intro!: map_idI)
  then show ?thesis using by_key_fresh[OF keyed_distinct[OF k]] by simp
qed

lemma keyed_find: "keyed key st \<Longrightarrow> find (\<lambda>r. key r = k) (kstore_all st) = kstore_get st k"
proof -
  have "find (\<lambda>r. key r = k) (map snd d) = dget d k" if "\<forall>(i, v) \<in> set d. key v = i" for d
    using that by (induction d) auto
  then show "keyed key st \<Longrightarrow> ?thesis" by (simp add: keyed_def kstore_all_def kstore_get_def)
qed

lemma keyed_dget: "keyed key st \<Longrightarrow> dget (by_key key (kstore_all st)) k = kstore_get st k"
  by (simp add: keyed_by_key kstore_get_def)

section \<open>The list of findings\<close>

lemma runs_for_project_iff:
  "runs_for_project x p = Some rs \<Longrightarrow> r \<in> set rs \<longleftrightarrow> r \<in> set (dvalues (runs x)) \<and> rn_project_id r = p"
  by (force simp: runs_for_project_def newest_first_def split: if_splits)

lemma those_map: "those (map g xs) = Some ys \<Longrightarrow> list_all2 (\<lambda>x y. g x = Some y) xs ys"
  by (induction xs arbitrary: ys) (auto split: option.splits)

lemma list_item_id: "list_item s now f = Some i \<Longrightarrow> fi_finding_id i = f_id f"
  by (auto simp: list_item_def Let_def)

lemma list_items_ids: "list_items s now fs = Some items \<Longrightarrow> map fi_finding_id items = sort (map f_id fs)"
proof -
  assume "list_items s now fs = Some items"
  then have "list_all2 (\<lambda>f i. list_item s now f = Some i) (sort_key f_id fs) items"
    unfolding list_items_def by (rule those_map)
  then have "map fi_finding_id items = map f_id (sort_key f_id fs)"
    by (induction rule: list_all2_induct) (auto dest: list_item_id)
  also have "\<dots> = sort (map f_id fs)"
    by (rule properties_for_sort[symmetric]) simp_all
  finally show ?thesis .
qed

text \<open>A finding is in a project's lineage when one of the project's scan runs registered it.\<close>

definition in_lineage :: "('p, 'w) app \<Rightarrow> string option \<Rightarrow> candidate_finding \<Rightarrow> bool" where
  "in_lineage s project_id f \<longleftrightarrow>
     (case project_id of None \<Rightarrow> True
      | Some p \<Rightarrow> \<exists>r \<in> set (dvalues (runs (a_runs s))). rn_project_id r = p \<and>
          f_id f \<in> set (finding_ids_for_run (a_runs s) (rn_id r)))"

lemma project_lineage_iff:
  "project_lineage s p = Some ids \<Longrightarrow> f_id f \<in> ids \<longleftrightarrow> in_lineage s (Some p) f"
  using runs_for_project_iff[of "a_runs s" p] by (auto simp: project_lineage_def in_lineage_def)

lemma scoped_findings_lineage:
  assumes "scoped_findings s project_id = Inr fs"
  shows "fs = filter (in_lineage s project_id) (kstore_all (a_findings s))"
    and "project_id = Some p \<Longrightarrow> dget (a_projects s) p \<noteq> None"
proof -
  show "fs = filter (in_lineage s project_id) (kstore_all (a_findings s))"
  proof (cases project_id)
    case None
    then show ?thesis using assms by (simp add: scoped_findings_def in_lineage_def)
  next
    case (Some q)
    then obtain ids where ids: "project_lineage s q = Some ids" and fs: "fs = filter (\<lambda>f. f_id f \<in> ids) (kstore_all (a_findings s))"
      using assms by (auto simp: scoped_findings_def or_server_error_def split: if_splits option.splits)
    then show ?thesis using Some project_lineage_iff[OF ids] by simp
  qed
  show "project_id = Some p \<Longrightarrow> dget (a_projects s) p \<noteq> None"
    using assms by (auto simp: scoped_findings_def split: if_splits)
qed

text \<open>The list of findings is complete and scoped by lineage: before the search it has, sorted by id, exactly the stored
  findings, or with a project those that one of the project's scan runs registered; the search only selects from it;
  and a project that does not exist is never answered with a list.\<close>

theorem findings_list_is_the_lineage:
  assumes "list_findings auth cookie now project_id search s = Inr items"
  shows "\<exists>all. items = searched search all \<and>
      map fi_finding_id all = sort (map f_id (filter (in_lineage s project_id) (kstore_all (a_findings s))))"
    and "project_id = Some p \<Longrightarrow> dget (a_projects s) p \<noteq> None"
proof -
  obtain fs all where fs: "scoped_findings s project_id = Inr fs" and all: "list_items s now fs = Some all"
      and items: "items = searched search all"
    using assms by (auto simp: list_findings_def viewing_def or_server_error_def split: sum.splits option.splits)
  show "\<exists>all. items = searched search all \<and>
      map fi_finding_id all = sort (map f_id (filter (in_lineage s project_id) (kstore_all (a_findings s))))"
    using items list_items_ids[OF all] scoped_findings_lineage(1)[OF fs] by blast
  show "project_id = Some p \<Longrightarrow> dget (a_projects s) p \<noteq> None" by (rule scoped_findings_lineage(2)[OF fs])
qed

lemma list_all2_in_set2: "list_all2 P xs ys \<Longrightarrow> y \<in> set ys \<Longrightarrow> \<exists>x \<in> set xs. P x y"
  by (induction rule: list_all2_induct) auto

text \<open>The deadline of the list and the deadline of the detail are one.\<close>

lemma sla_info_detail:
  assumes "keyed sl_finding_id (sla_store (a_risk s))" and "sla_info s fid now = Some x" and "sla_detail s fid now = Some y"
  shows "si_status x = map_option sd_status y \<and> si_remaining_seconds x = Option.bind y sd_remaining_seconds"
proof (cases "kstore_get (sla_store (a_risk s)) fid")
  case None
  then show ?thesis using assms(2,3)
    by (auto simp: sla_info_def sla_detail_def get_sla_def all_sla_records_def keyed_find[OF assms(1)])
next
  case (Some r)
  then show ?thesis using assms(2,3)
    by (auto simp: sla_info_def sla_detail_def get_sla_def all_sla_records_def keyed_find[OF assms(1)])
qed

lemma list_findings_items:
  assumes "list_findings auth cookie now project_id search s = Inr items" and "i \<in> set items"
  obtains f where "f \<in> set (kstore_all (a_findings s))" "list_item s now f = Some i"
proof -
  obtain fs all where fs: "scoped_findings s project_id = Inr fs" and all: "list_items s now fs = Some all"
      and items: "items = searched search all"
    using assms(1) by (auto simp: list_findings_def viewing_def or_server_error_def split: sum.splits option.splits)
  have "i \<in> set all" using assms(2) items by (auto simp: searched_def Let_def split: option.splits if_splits)
  moreover have "list_all2 (\<lambda>f i. list_item s now f = Some i) (sort_key f_id fs) all"
    using all unfolding list_items_def by (rule those_map)
  ultimately obtain f where "f \<in> set (sort_key f_id fs)" "list_item s now f = Some i"
    by (meson list_all2_in_set2)
  then show thesis using scoped_findings_lineage(1)[OF fs] by (intro that) simp_all
qed

text \<open>C37. The list and the detail of a finding tell the same story: the same verdict, proof, approval, risk and deadline,
  when the stores hold each record under its own id, as every operation that writes them does.\<close>

theorem list_and_detail_agree:
  assumes "list_findings auth cookie now project_id search s = Inr items" and "i \<in> set items"
    and "get_finding_detail auth cookie' now (fi_finding_id i) s = Inr d"
    and "keyed f_id (a_findings s)" and "keyed vr_finding_id (a_validations s)" and "keyed pr_finding_id (a_proofs s)"
    and "keyed rk_finding_id (risk_store (a_risk s))" and "keyed sl_finding_id (sla_store (a_risk s))"
  shows "fd_finding_id d = fi_finding_id i \<and> fi_severity i = fd_severity d \<and> fi_repository i = fd_repository d \<and>
    fi_verdict i = map_option vr_verdict (fd_validation d) \<and> fi_proof_status i = map_option pd_status (fd_proof d) \<and>
    fi_approval_status i = map_option ar_status (fd_approval d) \<and> fi_priority i = map_option rk_priority (fd_risk d) \<and>
    fi_risk_score i = map_option rk_risk_score (fd_risk d) \<and>
    si_status (fi_sla i) = map_option sd_status (fd_sla d) \<and>
    si_remaining_seconds (fi_sla i) = Option.bind (fd_sla d) sd_remaining_seconds"
proof -
  from assms(1,2) obtain f where f: "f \<in> set (kstore_all (a_findings s))" "list_item s now f = Some i"
    by (rule list_findings_items)
  have id: "fi_finding_id i = f_id f" by (rule list_item_id[OF f(2)])
  have stored: "kstore_get (a_findings s) (f_id f) = Some f"
    using assms(4) f(1) by (auto simp: keyed_def kstore_all_def kstore_get_def)
  obtain sla where sla: "sla_info s (f_id f) now = Some sla" using f(2) by (auto simp: list_item_def Let_def)
  obtain rs sl where rs: "runs_for_finding (a_runs s) (f_id f) = Some rs" and sl: "sla_detail s (f_id f) now = Some sl"
    using assms(3) stored id by (auto simp: get_finding_detail_def viewing_def split: sum.splits option.splits)
  have d: "fd_finding_id d = f_id f" "fd_severity d = f_severity f" "fd_sla d = sl"
    "fd_repository d = repo_label_for_file (src_file (f_source f))"
    "fd_validation d = kstore_get (a_validations s) (f_id f)" "fd_proof d = proof_detail s (f_id f)"
    "fd_approval d = find_for_finding (a_approvals s) (f_id f)" "fd_risk d = kstore_get (risk_store (a_risk s)) (f_id f)"
    using assms(3) stored id rs sl by (auto simp: get_finding_detail_def viewing_def split: sum.splits)
  have i: "fi_severity i = f_severity f" "fi_repository i = repo_label_for_file (src_file (f_source f))" "fi_sla i = sla"
    "fi_verdict i = map_option vr_verdict (kstore_get (a_validations s) (f_id f))"
    "fi_proof_status i = map_option pr_status (kstore_get (a_proofs s) (f_id f))"
    "fi_approval_status i = map_option ar_status (find_for_finding (a_approvals s) (f_id f))"
    "fi_priority i = map_option rk_priority (kstore_get (risk_store (a_risk s)) (f_id f))"
    "fi_risk_score i = map_option rk_risk_score (kstore_get (risk_store (a_risk s)) (f_id f))"
    using f(2) sla
    by (auto simp: list_item_def Let_def all_risk_assessments_def keyed_dget[OF assms(5)] keyed_dget[OF assms(6)]
        keyed_dget[OF assms(7)])
  have "map_option pr_status (kstore_get (a_proofs s) (f_id f)) = map_option pd_status (proof_detail s (f_id f))"
    by (simp add: proof_detail_def option.map_comp comp_def)
  then show ?thesis unfolding id d i using sla_info_detail[OF assms(8) sla sl] by simp
qed

text \<open>A list and a detail of one finding of the sample state.\<close>

lemma keyed_app2:
  "keyed f_id (a_findings app2)" "keyed vr_finding_id (a_validations app2)" "keyed pr_finding_id (a_proofs app2)"
  "keyed rk_finding_id (risk_store (a_risk app2))" "keyed sl_finding_id (sla_store (a_risk app2))"
  by (simp_all add: keyed_def app2_def app0_def Prove.sample_finding_def sample_validation_def proved_finding_def)

lemma signed_in_app2: "\<exists>u. get_current_user (sample_auth_env ''tok'' 12) (a_db app2) (Some ''tok'') = Inr u"
proof -
  have "\<not> isl (get_current_user (sample_auth_env ''tok'' 12) (a_db app2) (Some ''tok''))" by code_simp
  then show ?thesis by (cases "get_current_user (sample_auth_env ''tok'' 12) (a_db app2) (Some ''tok'')") simp_all
qed

lemma viewing_app2: "viewing (sample_auth_env ''tok'' 12) app2 (Some ''tok'') body = body"
  using signed_in_app2 by (auto simp: viewing_def)

theorem list_and_detail_agree_witness:
  "\<exists>i d. list_findings (sample_auth_env ''tok'' 12) (Some ''tok'') 12 None None app2 = Inr [i] \<and>
     get_finding_detail (sample_auth_env ''tok'' 12) (Some ''tok'') 12 (fi_finding_id i) app2 = Inr d \<and>
     fi_verdict i = map_option vr_verdict (fd_validation d) \<and> fi_approval_status i = map_option ar_status (fd_approval d)"
proof -
  let ?f = Prove.sample_finding
  have stored: "kstore_all (a_findings app2) = [?f]" "kstore_get (a_findings app2) ''f'' = Some ?f"
    by (simp_all add: kstore_all_def kstore_get_def app2_def app0_def)
  obtain i where i: "list_item app2 12 ?f = Some i" by (auto simp: list_item_def Let_def sla_info_def all_sla_records_def kstore_all_def app2_def app0_def)
  have id: "fi_finding_id i = ''f''" using list_item_id[OF i] by (simp add: Prove.sample_finding_def)
  have l: "list_findings (sample_auth_env ''tok'' 12) (Some ''tok'') 12 None None app2 = Inr [i]"
    using stored(1) i
    by (simp add: list_findings_def viewing_app2 scoped_findings_def list_items_def or_server_error_def searched_def)
  have "runs_for_finding (a_runs app2) ''f'' \<noteq> None" by code_simp
  moreover have "sla_detail app2 ''f'' 12 = Some None"
    by (simp add: sla_detail_def get_sla_def kstore_get_def app2_def app0_def)
  ultimately obtain d where d: "get_finding_detail (sample_auth_env ''tok'' 12) (Some ''tok'') 12 (fi_finding_id i) app2 = Inr d"
    using stored(2) by (auto simp: get_finding_detail_def viewing_app2 id)
  show ?thesis using list_and_detail_agree[OF l _ d keyed_app2] l d by auto
qed

section \<open>Read marks\<close>

text \<open>C36. Marking all notifications as read works for the first reader only. It succeeds exactly when no other user has
  marked one of them; then the reader's list shows every notification read, the count of unread ones is 0 and the
  read state of everyone else is as before. Otherwise the request fails and nothing is marked.\<close>

theorem mark_all_read_outcome:
  assumes "get_current_user auth (a_db s) cookie = Inr u" and "derive_notifications s = Some ns"
    and "mark_all_notifications_read auth cookie now s rows = (result, rows')"
  shows "(result = Inr () \<longleftrightarrow> (\<forall>n \<in> set ns. \<forall>v. v \<noteq> u_id u \<longrightarrow> \<not> read_by rows v (nt_id n))) \<and>
    (\<forall>v j. read_by rows' v j \<longleftrightarrow> read_by rows v j \<or> result = Inr () \<and> v = u_id u \<and> j \<in> nt_id ` set ns) \<and>
    (if result = Inr ()
     then list_notifications auth cookie s rows' = (Inr (map (\<lambda>n. n\<lparr>nt_read := True\<rparr>) ns, 0), rows')
     else result = Inl server_error \<and> rows' = rows)"
proof (cases "add_reads (u_id u) now (map nt_id ns) rows")
  case None
  then have "\<not> (\<forall>j \<in> set (map nt_id ns). \<forall>v. v \<noteq> u_id u \<longrightarrow> \<not> read_by rows v j)"
    using add_reads_some[of "map nt_id ns" "u_id u" rows now] by fastforce
  then show ?thesis using None assms by (auto simp: mark_all_notifications_read_def reader_def)
next
  case (Some r)
  note spec = add_reads_spec[OF Some]
  have done': "result = Inr ()" "rows' = r"
    using Some assms by (auto simp: mark_all_notifications_read_def reader_def)
  have "apply_read_state r (u_id u) ns = map (\<lambda>n. n\<lparr>nt_read := True\<rparr>) ns"
    using spec(1) by (simp add: apply_read_state_def)
  then have "list_notifications auth cookie s r = (Inr (map (\<lambda>n. n\<lparr>nt_read := True\<rparr>) ns, 0), r)"
    using assms(1,2) by (simp add: list_notifications_def reader_def Let_def)
  then show ?thesis using done' spec by auto
qed


theorem mark_all_read_outcome_witness:
  "\<exists>ns rows'. mark_all_notifications_read (sample_auth_env ''tok'' 12) (Some ''tok'') (utc 12) app2 [] = (Inr (), rows') \<and>
     length ns = 4 \<and>
     list_notifications (sample_auth_env ''tok'' 12) (Some ''tok'') app2 rows' = (Inr (map (\<lambda>n. n\<lparr>nt_read := True\<rparr>) ns, 0), rows')"
proof -
  obtain u where u: "get_current_user (sample_auth_env ''tok'' 12) (a_db app2) (Some ''tok'') = Inr u"
    using signed_in_app2 by blast
  have "derive_notifications app2 \<noteq> None" by code_simp
  then obtain ns where ns: "derive_notifications app2 = Some ns" by blast
  have "length (collected app2) = 4" by code_simp
  then have len: "length ns = 4" using ns by (auto simp: derive_notifications_def split: if_splits)
  obtain result rows' where m: "mark_all_notifications_read (sample_auth_env ''tok'' 12) (Some ''tok'') (utc 12) app2 [] = (result, rows')"
    by fastforce
  have "result = Inr ()" using mark_all_read_outcome[OF u ns m] by (simp add: read_by_def)
  then show ?thesis using mark_all_read_outcome[OF u ns m] m len by auto
qed

section \<open>Counts\<close>

lemma by_key_snoc: "by_key key [] = []" "by_key key (xs @ [x]) = dput (key x) x (by_key key xs)"
  by (simp_all add: by_key_def dput_all_def)

lemma keys_by_key: "set (dkeys (by_key key xs)) = key ` set xs"
  by (induction xs rule: rev_induct) (simp_all add: by_key_snoc)

lemma distinct_by_key: "distinct (dkeys (by_key key xs))"
  by (induction xs rule: rev_induct) (simp_all add: by_key_snoc)

lemma set_dput_cases: "(a, b) \<in> set (dput k v d) \<Longrightarrow> (a, b) \<in> set d \<or> a = k \<and> b = v"
  by (induction d) (auto split: if_splits)

lemma set_by_key: "(k, x) \<in> set (by_key key xs) \<Longrightarrow> k = key x \<and> x \<in> set xs"
  by (induction xs rule: rev_induct) (auto simp: by_key_snoc dest!: set_dput_cases)

lemma keys_of_by_key: "map key (dvalues (by_key key xs)) = dkeys (by_key key xs)"
  by (auto dest: set_by_key)

lemma values_by_key: "set (dvalues (by_key key xs)) \<subseteq> set xs"
  by (auto dest: set_by_key)

lemma length_by_key: "length (by_key key xs) = card (key ` set xs)"
  using distinct_card[OF distinct_by_key[of key xs]] keys_by_key[of key xs] by simp

text \<open>Every element of an enumeration is counted in exactly one case.\<close>

lemma verdict_counts:
  "length vs = how_many (\<lambda>v. vr_verdict v = True_positive) vs + how_many (\<lambda>v. vr_verdict v = False_positive) vs +
     how_many (\<lambda>v. vr_verdict v = Uncertain) vs"
proof (induction vs)
  case (Cons x xs)
  then show ?case by (cases "vr_verdict x") (simp_all add: how_many_def)
qed (simp add: how_many_def)

lemma proof_counts:
  "length ps = how_many (\<lambda>p. pr_status p = Verified) ps + how_many (\<lambda>p. pr_status p = Not_verified) ps +
     how_many (\<lambda>p. pr_status p = Blocked) ps + how_many (\<lambda>p. pr_status p = Proof_error) ps"
proof (induction ps)
  case (Cons x xs)
  then show ?case by (cases "pr_status x") (simp_all add: how_many_def)
qed (simp add: how_many_def)

lemma approval_counts:
  "length as = how_many (\<lambda>a. ar_status a = Approved) as + how_many (\<lambda>a. ar_status a = Rejected) as +
     how_many (\<lambda>a. ar_status a = Pending) as + how_many (\<lambda>a. ar_status a = Changes_requested) as"
proof (induction as)
  case (Cons x xs)
  then show ?case by (cases "ar_status x") (simp_all add: how_many_def)
qed (simp add: how_many_def)

lemma sla_counts:
  "length ss = how_many (\<lambda>r. sl_status r = Sla_active) ss + how_many (\<lambda>r. sl_status r = Breached) ss +
     how_many (\<lambda>r. sl_status r = Resolved) ss + how_many (\<lambda>r. sl_status r = Not_applicable) ss"
proof (induction ss)
  case (Cons x xs)
  then show ?case by (cases "sl_status x") (simp_all add: how_many_def)
qed (simp add: how_many_def)

text \<open>A tally holds, for each key that occurs, how often it occurs.\<close>

lemma tally_get: "dget (tally key xs) k = (let n = how_many (\<lambda>x. key x = k) xs in if n = 0 then None else Some n)"
  by (induction xs rule: rev_induct) (auto simp: tally_def how_many_def Let_def dget_dput)

lemma remediation_statuses: "rem_status_text st \<notin> {''pending'', ''in_progress'', ''completed''}"
  by (cases st) simp_all

section \<open>The report\<close>

text \<open>C39. The figures of a report add up: the verdicts, proofs, requests and deadlines are each counted once in one
  bucket, the total is the number of findings in scope, each type and severity is counted as often as it occurs, the
  listed findings are the first hundred of them; and the counters of remediations by progress are always 0.\<close>

theorem report_adds_up:
  assumes "generate_report env project_id benchmarks s = Some r"
  shows "(let v = sr_validation_summary r in
        rv_total_validated v = rv_true_positive v + rv_false_positive v + rv_uncertain v) \<and>
    (let q = sr_proof_summary r in
        rq_total_proven q = rq_verified q + rq_not_verified q + rq_blocked q + rq_error q) \<and>
    (let a = sr_approval_summary r in
        ra_total_requests a = ra_approved a + ra_rejected a + ra_pending a + ra_changes_requested a) \<and>
    (let l = sr_sla_summary r in
        rl_total_records l = rl_active l + rl_breached l + rl_resolved l + rl_not_applicable l) \<and>
    (\<exists>fs. set fs \<subseteq> set (kstore_all (a_findings s)) \<and> distinct (map f_id fs) \<and>
       f_id ` set fs = f_id ` {f \<in> set (kstore_all (a_findings s)). in_lineage s project_id f} \<and>
       sr_total_findings r = length fs \<and> rf_total (sr_findings_summary r) = length fs \<and>
       map rx_finding_id (sr_findings r) = take 100 (map f_id fs) \<and>
       (\<forall>k. (case dget (rf_by_severity (sr_findings_summary r)) k of None \<Rightarrow> 0 | Some n \<Rightarrow> n) =
              how_many (\<lambda>f. f_severity f = k) fs) \<and>
       (\<forall>k. (case dget (rf_by_type (sr_findings_summary r)) k of None \<Rightarrow> 0 | Some n \<Rightarrow> n) =
              how_many (\<lambda>f. f_vulnerability_type f = k) fs)) \<and>
    (let m = sr_remediation_summary r in re_pending m = 0 \<and> re_in_progress m = 0 \<and> re_completed m = 0)"
  proof -
  obtain scope where scope: "report_scope project_id s = Some scope"
    using assms by (auto simp: generate_report_def)
  let ?fs = "dvalues (get_findings scope s)"
  have r: "sr_validation_summary r = build_validation_summary (length (get_findings scope s)) (dvalues (get_validations scope s))"
    "sr_proof_summary r = build_proof_summary (dvalues (get_proofs scope s))"
    "sr_approval_summary r = build_approval_summary (dvalues (get_approvals scope s))"
    "sr_sla_summary r = build_sla_summary (dvalues (get_sla_records scope s))"
    "sr_remediation_summary r = build_remediation_summary (dvalues (get_remediations scope s))"
    "sr_findings_summary r = build_findings_summary ?fs" "sr_total_findings r = length ?fs"
    "map rx_finding_id (sr_findings r) = take 100 (map f_id ?fs)"
    using assms scope
    by (auto simp: generate_report_def Let_def MAX_FINDINGS_IN_REPORT_def detail_of_def take_map comp_def)
  have "in_scope scope (f_id f) \<longleftrightarrow> in_lineage s project_id f" for f :: candidate_finding
    using scope project_lineage_iff[of s _ _ f]
    by (auto simp: report_scope_def in_scope_def in_lineage_def split: option.splits)
  then have keys: "set (dkeys (get_findings scope s)) = f_id ` {f \<in> set (kstore_all (a_findings s)). in_lineage s project_id f}"
    unfolding get_findings_def scoped_by_def keys_by_key by auto
  have own: "map f_id ?fs = dkeys (get_findings scope s)"
    unfolding get_findings_def scoped_by_def by (rule keys_of_by_key)
  have sub: "set ?fs \<subseteq> set (kstore_all (a_findings s))"
    using values_by_key[of f_id "filter (\<lambda>f. in_scope scope (f_id f)) (kstore_all (a_findings s))"]
    unfolding get_findings_def scoped_by_def by auto
  have dist: "distinct (map f_id ?fs)"
    unfolding own unfolding get_findings_def scoped_by_def by (rule distinct_by_key)
  have ids: "f_id ` set ?fs = f_id ` {f \<in> set (kstore_all (a_findings s)). in_lineage s project_id f}"
    unfolding keys[symmetric] own[symmetric] by (simp add: image_image)
  have findings: "\<exists>fs. set fs \<subseteq> set (kstore_all (a_findings s)) \<and> distinct (map f_id fs) \<and>
       f_id ` set fs = f_id ` {f \<in> set (kstore_all (a_findings s)). in_lineage s project_id f} \<and>
       sr_total_findings r = length fs \<and> rf_total (sr_findings_summary r) = length fs \<and>
       map rx_finding_id (sr_findings r) = take 100 (map f_id fs) \<and>
       (\<forall>k. (case dget (rf_by_severity (sr_findings_summary r)) k of None \<Rightarrow> 0 | Some n \<Rightarrow> n) =
              how_many (\<lambda>f. f_severity f = k) fs) \<and>
       (\<forall>k. (case dget (rf_by_type (sr_findings_summary r)) k of None \<Rightarrow> 0 | Some n \<Rightarrow> n) =
              how_many (\<lambda>f. f_vulnerability_type f = k) fs)"
    by (intro exI[of _ ?fs] conjI sub dist ids allI) (simp_all add: r build_findings_summary_def tally_get Let_def)
  show ?thesis unfolding Let_def
  proof (intro conjI findings)
    show "rv_total_validated (sr_validation_summary r) = rv_true_positive (sr_validation_summary r) +
        rv_false_positive (sr_validation_summary r) + rv_uncertain (sr_validation_summary r)"
      unfolding r build_validation_summary_def report_validation_summary.select_convs by (rule verdict_counts)
    show "rq_total_proven (sr_proof_summary r) = rq_verified (sr_proof_summary r) + rq_not_verified (sr_proof_summary r) +
        rq_blocked (sr_proof_summary r) + rq_error (sr_proof_summary r)"
      unfolding r build_proof_summary_def report_proof_summary.select_convs by (rule proof_counts)
    show "ra_total_requests (sr_approval_summary r) = ra_approved (sr_approval_summary r) +
        ra_rejected (sr_approval_summary r) + ra_pending (sr_approval_summary r) + ra_changes_requested (sr_approval_summary r)"
      unfolding r build_approval_summary_def report_approval_summary.select_convs by (rule approval_counts)
    show "rl_total_records (sr_sla_summary r) = rl_active (sr_sla_summary r) + rl_breached (sr_sla_summary r) +
        rl_resolved (sr_sla_summary r) + rl_not_applicable (sr_sla_summary r)"
      unfolding r build_sla_summary_def report_sla_summary.select_convs by (rule sla_counts)
  qed (use remediation_statuses in \<open>auto simp: r build_remediation_summary_def how_many_def Let_def\<close>)
qed

definition sample_report_env :: report_env where
  "sample_report_env = \<lparr>rg_sha = (\<lambda>x. x), rg_isoformat = (\<lambda>_. ''now''), rg_now = utc 0\<rparr>"

theorem report_adds_up_witness:
  "\<exists>r. generate_report sample_report_env (Some ''p'') (\<lparr>cache = [], factory = None\<rparr> :: unit report_store) app2 = Some r \<and>
     sr_total_findings r = 1 \<and> (\<exists>f. map rx_finding_id (sr_findings r) = [f])"
proof -
  have "report_scope (Some ''p'') app2 \<noteq> None" by code_simp
  then obtain r where r: "generate_report sample_report_env (Some ''p'') (\<lparr>cache = [], factory = None\<rparr> :: unit report_store) app2 = Some r"
    by (auto simp: generate_report_def)
  have own: "{f \<in> set (kstore_all (a_findings app2)). in_lineage app2 (Some ''p'') f} = {Prove.sample_finding}"
    by (auto simp: in_lineage_def kstore_all_def finding_ids_for_run_def dget_list_def app2_def app0_def sample_runs_def Prove.sample_finding_def)
  obtain fs :: "candidate_finding list" where fs: "distinct (map f_id fs)" "f_id ` set fs = f_id ` {Prove.sample_finding}"
      "sr_total_findings r = length fs" "map rx_finding_id (sr_findings r) = take 100 (map f_id fs)"
    using report_adds_up[OF r, unfolded own, THEN conjunct2, THEN conjunct2, THEN conjunct2, THEN conjunct2, THEN conjunct1]
    by (elim exE conjE) (rule that, assumption+)
  have "length fs = 1" using distinct_card[OF fs(1)] fs(2) by simp
  then show ?thesis using r fs(3,4) by (auto simp: length_Suc_conv)
qed

text \<open>An empty project id asks for the report of all projects by its type and its list of projects, but its findings
  are those of the project with the empty id.\<close>

lemma empty_project_id_report:
  assumes "generate_report env (Some []) benchmarks s = Some r" and "\<forall>x \<in> set (dvalues (runs (a_runs s))). rn_project_id x \<noteq> []"
  shows "sr_report_type r = ''aggregated'' \<and> sr_total_projects r = length (a_projects s) \<and> sr_total_findings r = 0"
proof -
  obtain ids where ids: "project_lineage s [] = Some ids" using assms(1) by (auto simp: generate_report_def report_scope_def)
  have "\<not> in_lineage s (Some []) f" for f using assms(2) by (auto simp: in_lineage_def)
  then have "filter (\<lambda>f. in_scope (Some ids) (f_id f)) (kstore_all (a_findings s)) = []"
    using project_lineage_iff[OF ids] by (simp add: in_scope_def)
  then show ?thesis
    using assms(1) ids
    by (auto simp: generate_report_def report_scope_def Let_def get_projects_def projects_newest_first_def newest_def
        get_findings_def scoped_by_def by_key_snoc)
qed

section \<open>Rankings\<close>

lemma sorted_wrt_rest:
  assumes "sorted_wrt R xs" and "x \<in> set xs" and "x \<notin> set (take n xs)"
  shows "length (take n xs) = n \<and> (\<forall>y \<in> set (take n xs). R y x)"
proof -
  have "x \<in> set (drop n xs)" using assms(2,3) set_append[of "take n xs" "drop n xs"] by auto
  moreover have "sorted_wrt R (take n xs @ drop n xs)" using assms(1) by simp
  ultimately show ?thesis unfolding sorted_wrt_append by (auto simp: min_def)
qed

abbreviation urgency :: "risk_assessment \<Rightarrow> nat \<times> int" where
  "urgency r \<equiv> (PRIORITY_RANK (rk_priority r), - rk_risk_score r)"

lemma top_findings_spec:
  defines "known fs rs \<equiv> {(a, f). a \<in> set rs \<and> dget fs (rk_finding_id a) = Some f}"
  shows "length (top_findings n fs rs) \<le> n"
    and "sorted_wrt (\<lambda>x y. urgency (fst x) \<le> urgency (fst y)) (top_findings n fs rs)"
    and "set (top_findings n fs rs) \<subseteq> known fs rs"
    and "(a, f) \<in> known fs rs \<Longrightarrow> (a, f) \<notin> set (top_findings n fs rs) \<Longrightarrow>
      length (top_findings n fs rs) = n \<and> (\<forall>x \<in> set (top_findings n fs rs). urgency (fst x) \<le> urgency a)"
proof -
  let ?l = "List.map_filter (\<lambda>a. map_option (Pair a) (dget fs (rk_finding_id a))) (ranked rs)"
  have set: "set ?l = known fs rs" by (force simp: known_def List.map_filter_def ranked_def)
  have "sorted_wrt (\<lambda>x y. urgency x \<le> urgency y) (ranked rs)"
    using sorted_sort_key[of urgency rs] by (simp add: ranked_def sorted_map)
  then have "sorted_wrt (\<lambda>x y. urgency x \<le> urgency y) (filter (\<lambda>a. dget fs (rk_finding_id a) \<noteq> None) (ranked rs))"
    by (rule sorted_wrt_filter)
  then have "sorted_wrt (\<lambda>x y. urgency (fst (the (map_option (Pair x) (dget fs (rk_finding_id x)))))
      \<le> urgency (fst (the (map_option (Pair y) (dget fs (rk_finding_id y))))))
      (filter (\<lambda>a. dget fs (rk_finding_id a) \<noteq> None) (ranked rs))"
    by (rule sorted_wrt_mono_rel[rotated]) auto
  then have sorted: "sorted_wrt (\<lambda>x y. urgency (fst x) \<le> urgency (fst y)) ?l"
    by (simp add: List.map_filter_def sorted_wrt_map)
  show "length (top_findings n fs rs) \<le> n" by (simp add: top_findings_def)
  show "sorted_wrt (\<lambda>x y. urgency (fst x) \<le> urgency (fst y)) (top_findings n fs rs)"
    unfolding top_findings_def by (rule sorted_wrt_take[OF sorted])
  show "set (top_findings n fs rs) \<subseteq> known fs rs"
    unfolding top_findings_def set[symmetric] by (rule set_take_subset)
  show "length (top_findings n fs rs) = n \<and> (\<forall>x \<in> set (top_findings n fs rs). urgency (fst x) \<le> urgency a)"
    if "(a, f) \<in> known fs rs" "(a, f) \<notin> set (top_findings n fs rs)"
    using sorted_wrt_rest[OF sorted, of "(a, f)" n] that unfolding top_findings_def set by simp
qed

lemma keyed_id: "keyed key st \<Longrightarrow> kstore_get st k = Some v \<Longrightarrow> key v = k"
  by (auto simp: keyed_def kstore_get_def dest: map_of_SomeD)

lemma keyed_member: "keyed key st \<Longrightarrow> v \<in> set (kstore_all st) \<Longrightarrow> kstore_get st (key v) = Some v"
  by (auto simp: keyed_def kstore_all_def kstore_get_def)

lemma keyed_in: "keyed key st \<Longrightarrow> kstore_get st k = Some v \<Longrightarrow> v \<in> set (kstore_all st)"
  by (force simp: kstore_all_def kstore_get_def dest: map_of_SomeD)

lemma dget_by_key_Some: "dget (by_key key xs) k = Some v \<Longrightarrow> key v = k \<and> v \<in> set xs"
  by (auto dest!: map_of_SomeD dest: set_by_key)

lemma dget_by_key_None: "dget (by_key key xs) k = None \<longleftrightarrow> k \<notin> key ` set xs"
  using keys_by_key[of key xs] by (simp add: map_of_eq_None_iff)

text \<open>A dictionary over some of the stored values looks up what the store does, where it is one of them.\<close>

lemma dget_selected:
  assumes "keyed key st"
  shows "dget (by_key key (filter P (kstore_all st))) k = Some v \<longleftrightarrow> kstore_get st k = Some v \<and> P v"
proof
  assume "dget (by_key key (filter P (kstore_all st))) k = Some v"
  then show "kstore_get st k = Some v \<and> P v" using dget_by_key_Some keyed_member[OF assms] by fastforce
next
  assume v: "kstore_get st k = Some v \<and> P v"
  then have "v \<in> set (filter P (kstore_all st))" "key v = k" using keyed_in[OF assms] keyed_id[OF assms] by auto
  then obtain u where u: "dget (by_key key (filter P (kstore_all st))) k = Some u"
    using dget_by_key_None[of key "filter P (kstore_all st)" k] by (cases "dget (by_key key (filter P (kstore_all st))) k") auto
  then have "kstore_get st k = Some u" using dget_by_key_Some keyed_member[OF assms] by fastforce
  then show "dget (by_key key (filter P (kstore_all st))) k = Some v" using u v by simp
qed

text \<open>C38. The dashboard of a project, or of all, counts the findings in scope, and its critical findings are the most urgent
  of them: at most five, by priority and score, each with the figures of its own assessment, and no assessed finding in
  scope is left out for a less urgent one.\<close>

theorem dashboard_shows_the_most_urgent:
  assumes "dashboard_summary auth cookie project_id s = Inr d" and "keyed f_id (a_findings s)"
  shows "(let scope = (if project_id = Some ''all'' then None else project_id); shown = dm_critical_findings d;
        rank = (\<lambda>x. (PRIORITY_RANK (df_priority x), - df_risk_score x)) in
      k_count (dm_total_findings d) = card (f_id ` {f \<in> set (kstore_all (a_findings s)). in_lineage s scope f}) \<and>
      length shown \<le> 5 \<and> sorted_wrt (\<lambda>x y. rank x \<le> rank y) shown \<and>
      (\<forall>x \<in> set shown. \<exists>a \<in> set (all_risk_assessments s). \<exists>f. kstore_get (a_findings s) (df_finding_id x) = Some f \<and>
          in_lineage s scope f \<and> rk_finding_id a = df_finding_id x \<and> df_priority x = rk_priority a \<and>
          df_risk_score x = rk_risk_score a) \<and>
      (\<forall>a \<in> set (all_risk_assessments s). \<forall>f. kstore_get (a_findings s) (rk_finding_id a) = Some f \<and> in_lineage s scope f \<longrightarrow>
          (\<exists>x \<in> set shown. df_finding_id x = rk_finding_id a) \<or>
          length shown = 5 \<and> (\<forall>x \<in> set shown. rank x \<le> urgency a)))"
proof -
  define q where "q = (if project_id = Some ''all'' then None else project_id)"
  obtain sc where sc: "dashboard_scope project_id s = Some sc"
      and d: "d = summarize_scope sc (dashboard_projects project_id s) s"
    using assms(1) by (auto simp: dashboard_summary_def viewing_def or_server_error_def split: sum.splits option.splits)
  have scope: "in_scope sc (f_id f) \<longleftrightarrow> in_lineage s q f" for f
    using sc project_lineage_iff[of s _ _ f]
    by (auto simp: dashboard_scope_def in_scope_def q_def split: option.splits if_splits) (auto simp: in_lineage_def)
  let ?fs = "by_key f_id (filter (\<lambda>f. in_scope sc (f_id f)) (kstore_all (a_findings s)))"
  let ?rs = "filter (\<lambda>r. in_scope sc (rk_finding_id r)) (all_risk_assessments s)"
  let ?top = "top_findings 5 ?fs ?rs"
  have get: "dget ?fs k = Some f \<longleftrightarrow> kstore_get (a_findings s) k = Some f \<and> in_lineage s q f" for k f
    using dget_selected[OF assms(2)] scope[of f] by simp
  obtain vs ps as where shown: "dm_critical_findings d = map (critical_finding vs ps as) ?top"
    by (rule that) (simp only: d summarize_scope_def Let_def dashboard_response.select_convs)
  have total: "k_count (dm_total_findings d) = card (f_id ` {f \<in> set (kstore_all (a_findings s)). in_lineage s q f})"
    unfolding d summarize_scope_def Let_def by (simp add: kpi_of_def length_by_key scope)
  show ?thesis
    unfolding Let_def q_def[symmetric]
  proof (intro conjI total ballI allI impI)
    show "length (dm_critical_findings d) \<le> 5" unfolding shown using top_findings_spec(1) by simp
    show "sorted_wrt (\<lambda>x y. (PRIORITY_RANK (df_priority x), - df_risk_score x)
        \<le> (PRIORITY_RANK (df_priority y), - df_risk_score y)) (dm_critical_findings d)"
      using top_findings_spec(2)[of 5 ?fs ?rs]
      unfolding shown sorted_wrt_map by (simp add: critical_finding_def case_prod_beta)
  next
    fix x assume "x \<in> set (dm_critical_findings d)"
    then obtain a f where x: "x = critical_finding vs ps as (a, f)" and "(a, f) \<in> set ?top" by (auto simp: shown)
    then have a: "a \<in> set (all_risk_assessments s)" "dget ?fs (rk_finding_id a) = Some f"
      using top_findings_spec(3)[of 5 ?fs ?rs] by auto
    then have f: "kstore_get (a_findings s) (rk_finding_id a) = Some f" "in_lineage s q f" using get by blast+
    then show "\<exists>a \<in> set (all_risk_assessments s). \<exists>f. kstore_get (a_findings s) (df_finding_id x) = Some f \<and>
          in_lineage s q f \<and> rk_finding_id a = df_finding_id x \<and> df_priority x = rk_priority a \<and>
          df_risk_score x = rk_risk_score a"
      using a(1) keyed_id[OF assms(2) f(1)] by (intro bexI[of _ a] exI[of _ f]) (simp_all add: x critical_finding_def)
  next
    fix a f
    assume a: "a \<in> set (all_risk_assessments s)"
      and f: "kstore_get (a_findings s) (rk_finding_id a) = Some f \<and> in_lineage s q f"
    have id: "f_id f = rk_finding_id a" using f keyed_id[OF assms(2)] by blast
    have known: "(a, f) \<in> {(a, f). a \<in> set ?rs \<and> dget ?fs (rk_finding_id a) = Some f}"
      using a f get scope[of f] id by simp
    show "(\<exists>x \<in> set (dm_critical_findings d). df_finding_id x = rk_finding_id a) \<or>
        length (dm_critical_findings d) = 5 \<and> (\<forall>x \<in> set (dm_critical_findings d).
          (PRIORITY_RANK (df_priority x), - df_risk_score x) \<le> urgency a)"
    proof (cases "(a, f) \<in> set ?top")
      case True
      then show ?thesis unfolding shown by (force simp: critical_finding_def id)
    next
      case False
      then show ?thesis
        using top_findings_spec(4)[OF known, of 5] unfolding shown by (auto simp: critical_finding_def case_prod_beta)
    qed
  qed
qed

text \<open>The sample state with an assessment of its finding.\<close>

definition app_assessed :: "(unit, unit) app" where
  "app_assessed = app2\<lparr>a_risk := \<lparr>risk_store = \<lparr>cache = [(''f'', \<lparr>rk_finding_id = ''f'', rk_vulnerability_type = ''ssrf'',
       rk_severity = ''high'', rk_risk_score = 70, rk_priority = P1, rk_factors = [], rk_assessed_at = utc 0,
       rk_related_finding_ids = []\<rparr>)], factory = None\<rparr>,
     sla_store = \<lparr>cache = [], factory = None\<rparr>, escalation_store = [], escalation_rows = None\<rparr>\<rparr>"

lemma signed_in_assessed: "viewing (sample_auth_env ''tok'' 12) app_assessed (Some ''tok'') body = body"
  using signed_in_app2 by (auto simp: viewing_def app_assessed_def)

theorem dashboard_shows_the_most_urgent_witness:
  "\<exists>d. dashboard_summary (sample_auth_env ''tok'' 12) (Some ''tok'') (Some ''p'') app_assessed = Inr d \<and>
     k_count (dm_total_findings d) = 1 \<and> map df_finding_id (dm_critical_findings d) \<noteq> []"
proof -
  have "dashboard_scope (Some ''p'') app_assessed \<noteq> None" by code_simp
  then obtain d where d: "dashboard_summary (sample_auth_env ''tok'' 12) (Some ''tok'') (Some ''p'') app_assessed = Inr d"
    by (auto simp: dashboard_summary_def signed_in_assessed or_server_error_def)
  have k: "keyed f_id (a_findings app_assessed)" using keyed_app2(1) by (simp add: app_assessed_def)
  have own: "{f \<in> set (kstore_all (a_findings app_assessed)). in_lineage app_assessed (Some ''p'') f} = {Prove.sample_finding}"
    by (auto simp: in_lineage_def kstore_all_def finding_ids_for_run_def dget_list_def app_assessed_def app2_def app0_def
        sample_runs_def Prove.sample_finding_def)
  then have "in_lineage app_assessed (Some ''p'') Prove.sample_finding" by blast
  moreover obtain a where "a \<in> set (all_risk_assessments app_assessed)" "rk_finding_id a = ''f''"
    by (simp add: all_risk_assessments_def kstore_all_def app_assessed_def)
  moreover have "kstore_get (a_findings app_assessed) ''f'' = Some Prove.sample_finding"
    by (simp add: kstore_get_def app_assessed_def app2_def app0_def)
  ultimately show ?thesis
    using dashboard_shows_the_most_urgent[OF d k] own d by (intro exI[of _ d]) (force simp: Let_def)
qed

section \<open>Distributions\<close>

lemma distribution_counts:
  "sum_list (map sb_count (distribution buckets xs)) = (\<Sum>b \<leftarrow> buckets. how_many (snd b) xs)"
proof (cases "xs = []")
  case False
  then show ?thesis
    by (induction buckets) (auto simp: distribution_def List.map_filter_simps Let_def case_prod_beta)
qed (simp add: distribution_def how_many_def)

lemma how_many_le: "how_many P xs \<le> length xs"
  by (simp add: how_many_def)

lemma percent_bounds: "n \<le> whole \<Longrightarrow> 0 < whole \<Longrightarrow> 0 \<le> percent n whole \<and> percent n whole \<le> 100"
proof
  assume "n \<le> whole" "0 < whole"
  then have "(of_nat (n * 100) / of_nat whole :: rat) \<le> 100" by (simp add: divide_le_eq flip: of_nat_le_iff)
  then have "double (of_nat (n * 100) / of_nat whole) \<le> double 100" by (rule double_mono)
  moreover have "double 100 = 100" using double_exact[of "100 * 2 ^ 46" 46] by simp
  ultimately have "double (of_nat (n * 100) / of_nat whole) \<le> of_int 100" by simp
  then show "percent n whole \<le> 100" unfolding percent_def by (rule half_even_le)
  show "0 \<le> percent n whole" unfolding percent_def using half_even_ge[of 0] double_nonneg by simp
qed

lemma distribution_bounds:
  "b \<in> set (distribution buckets xs) \<Longrightarrow> 0 < sb_count b \<and> 0 \<le> sb_percent b \<and> sb_percent b \<le> 100"
  using percent_bounds[OF how_many_le, of xs]
  by (auto simp: distribution_def List.map_filter_def Let_def split: if_splits)

text \<open>The two distributions of the risk summary count every assessment in exactly one bucket, their buckets are not
  empty and no share lies outside 0 to 100 percent, when the scores lie between 0 and 100, as scoring makes them.\<close>

theorem risk_distributions_cover:
  assumes "risk_summary auth cookie now s = Inr v"
    and "\<forall>r \<in> set (all_risk_assessments s). 0 \<le> rk_risk_score r \<and> rk_risk_score r \<le> 100"
  shows "sum_list (map sb_count (ks_priority_distribution v)) = k_count (ks_total_assessments v) \<and>
    sum_list (map sb_count (ks_risk_distribution v)) = k_count (ks_total_assessments v) \<and>
    (\<forall>b \<in> set (ks_priority_distribution v) \<union> set (ks_risk_distribution v).
       0 < sb_count b \<and> 0 \<le> sb_percent b \<and> sb_percent b \<le> 100)"
proof -
  let ?rs = "all_risk_assessments s"
  have v: "ks_priority_distribution v = distribution PRIORITY_BUCKETS ?rs" "ks_risk_distribution v = distribution RISK_BUCKETS ?rs"
    "k_count (ks_total_assessments v) = length ?rs"
    using assms(1) by (auto simp: risk_summary_def viewing_def Let_def kpi_of_def split: sum.splits)
  have "(\<Sum>b \<leftarrow> PRIORITY_BUCKETS. how_many (snd b) rs) = length rs" for rs
  proof (induction rs)
    case (Cons r rs)
    then show ?case by (cases "rk_priority r") (simp_all add: how_many_def PRIORITY_BUCKETS_def)
  qed (simp add: how_many_def PRIORITY_BUCKETS_def)
  moreover have "(\<Sum>b \<leftarrow> RISK_BUCKETS. how_many (snd b) rs) = length rs"
    if "\<forall>r \<in> set rs. 0 \<le> rk_risk_score r \<and> rk_risk_score r \<le> 100" for rs
    using that by (induction rs) (auto simp: how_many_def RISK_BUCKETS_def)
  ultimately show ?thesis
    using assms(2) distribution_bounds unfolding v distribution_counts by blast
qed

section \<open>Two readings of one finding\<close>

text \<open>The dashboard takes the first request of a finding, the list the latest: after a rejected request is followed by a
  new one, the dashboard still says rejected while the list says pending.\<close>

lemma dashboard_and_list_disagree:
  assumes "ar_finding_id a = fid" and "ar_finding_id b = fid" and "ar_status a = Rejected" and "ar_status b = Pending"
    and "utc_instant (as_aware_utc (ar_requested_at a)) < utc_instant (as_aware_utc (ar_requested_at b))"
    and "requests st = [(i, a), (j, b)]"
  shows "finding_status fid validations proofs (dvalues (requests st)) = ''rejected'' \<and>
    map_option ar_status (find_for_finding st fid) = Some Pending"
  using assms by (simp add: finding_status_def find_for_finding_def)

text \<open>Preparing again answers with the project the next request reads, except that it gives the time of the new snapshot
  for the time the project was created.\<close>

lemma reprepare_is_served:
  assumes "reprepare_project E C auth cookie pid (s, w) = (Inr out, s', w')"
    and "get_project C auth cookie pid s' w' = Inr (out', files)" and "lossless (pc_snapshot C)"
    and "dget (a_projects s) pid = Some p" and "pj_id p = pid"
  shows "out' = out\<lparr>po_created_at := pj_created_at p\<rparr> \<and> po_created_at out = pr_now E"
proof -
  obtain sn cm d where re: "reprepare E C pid (pj_name p) (pj_source_type p) (pj_language p) (pj_location p)
      (project_dir p) w = (Inr (sn, cm, d), w')"
    and out: "out = \<lparr>po_id = pid, po_name = pj_name p, po_source_type = pj_source_type p, po_location = pj_location p,
      po_language = pj_language p, po_status = ''prepared'', po_created_at = sn_created_at sn, po_summary = sn_summary sn\<rparr>"
    and s': "s' = s\<lparr>a_projects := dput pid (p\<lparr>pj_status := ''prepared''\<rparr>) (a_projects s)\<rparr>"
    using assms(1,4) by (auto simp: reprepare_project_def split: sum.splits prod.splits prepare_error.splits)
  obtain spec r where "store_prepared E C spec pid (project_dir p) r w = (Inr (sn, cm), w')"
    using re by (auto simp: reprepare_def Let_def split: option.splits sum.splits prod.splits fetch_error.splits)
  from store_prepared_effect(4)[OF this refl] assms(3)
  have stored: "load_snapshot C (project_dir p) w' = Some sn" "sn_created_at sn = pr_now E"
    by (auto simp: load_snapshot_def lossless_def build_snapshot_def)
  have "project_dir (p\<lparr>pj_status := ''prepared''\<rparr>) = project_dir p" by (simp add: project_dir_def)
  then show ?thesis
    using assms(2,5) stored by (auto simp: get_project_def s' out split: sum.splits)
qed

end
