(* ===== verification/Spec2Isabelle.thy ===== *)
theory Spec2Isabelle
  imports Taint_Properties Risk_System Scan_Run_Properties Dedup_Properties Patch_Properties Api_System
    Benchmark_Properties Prepare_Properties Cpg_Properties Llm Defectdojo_Properties Lookups View_Properties
begin

text \<open>
  A verification development of the multi-stage SAST engine (src/backend/app).

  The program takes a Python repository through a pipeline. PREPARE ingests a directory, an archive or a clone and
  parses it into a code model; SCAN propagates
  taint from request data to dangerous calls and reports candidate findings; VALIDATE asks a language model for a
  verdict on each; PROVE runs a fixed harness in a sandbox for the ones judged true; RISK scores them and starts a
  deadline (SLA) that a background evaluator escalates; DEDUPLICATE groups findings of one structure; APPROVAL is a
  human decision with an audit trail; REMEDIATION proposes, applies and verifies a patch once it is approved. Every
  stage keeps its results in a store of its own, a dictionary in memory mirrored into a database table, and the HTTP
  endpoints tie the stages together: they check the permission of the session's user, read one store, write the
  next, and record the execution of the stage in the scan run the finding came from.

  Theories, in the order they build on each other:
    Prelude            Python dictionaries, strings and datetimes; the interface \<open>invariant_system\<close>
    Store              db/persistence.py and the shape the stores share
    Scan_Models, Scan_Rules, Taint_Engine, Scan_Service
                       scan/: contracts and syntax trees, the four rules, the engine, the service
    Taint_Flow, Taint_Soundness, Taint_Properties
                       what the engine guarantees: provenance, monotonicity, exactness of the sink check
    Regex, Validate    validate/: redaction with its regular expressions, evidence, provider template, stores
    Prove_Harness, Prove
                       prove/: harness texts, plans, sandbox runner, service, store
    Approval, Approval_Workflow, Approval_Restart, Approval_Properties
                       approval/: policy, state machine with audit trail, tables; the workflow as a system
    Risk, Risk_Properties, Risk_System
                       risk/: scoring, SLA life cycle, evaluator; the stores as a system
    Scan_Runs, Scan_Run_System, Scan_Run_Properties
                       scan/run_*.py: runs, stages, executions and lineage; overlapping executions as a system
    Dedup, Dedup_Properties
                       dedup/: normalisation, fingerprints, the group registry
    Remediation, Remediation_Properties
                       remediation/: applying a patch to a text, the gated workflow, verification
    Py_Ast, Patches, Patch_Properties
                       remediation/patches.py: syntax trees as the ast module has them, the rewriting that makes a
                       proposal for SQL and command sinks; what a patch keeps
    Auth, Auth_Properties
                       auth/: roles and permissions, accounts, sessions, login and logout, seeding
    Api, Api_System    api/routes/: the endpoints that change state over one application state, and the system
                       they form together with the accounts
    Benchmark, Benchmark_Properties
                       benchmark/: ground truth, matching, metrics, the external scanner's runner, reports
    Fetch, Fetch_Properties
                       prepare/fetcher.py: directories, zip archives and clones under the limits
    Parser, Prepare, Prepare_Properties
                       prepare/parser.py, python_builder.py, base.py, service.py: the collector, the code model,
                       preparing and preparing again
    Cpg, Cpg_Properties
                       prepare/cpg/: the graph, its builder and the bounded reachability search
    Llm                validate/providers/: choosing and configuring a provider, one completion
    Defectdojo, Defectdojo_Properties
                       defectdojo/ and its routes: the client, tickets, synchronisation; tickets as a system
    Views, Lookups, Summaries, Dashboard, Notifications, Projects
                       the read-only routes of api/routes/: lists and details of findings and runs, stored records
                       and the review queue, the summaries of stages, the dashboard, notifications with their read
                       marks, projects and repositories
    Report             report/: the security report and its routes
    View_Properties    what the views guarantee and where two of them disagree

  How the model corresponds to the code. A class is a record or a datatype with the source's fields, a method is a
  definition of the same name over explicit state; exceptions are the left side of a sum, and a handler that catches
  one maps it to its status code. A store is the pair of its dictionary (an association list in insertion order)
  and its table (rows in row order, or none when no database is configured); a restart reloads the dictionary from
  the table. Python integers are int or nat, confidences and durations rationals, instants microseconds.

  What is an argument because it is not code of the repository: SHA-256, \<open>isoformat\<close>, \<open>uuid4\<close>, the clock, Python's
  parser and unparser (a syntax tree carries the unparsed text of its nodes), its tokenizer, the JSON encodings of
  the rows (codecs), bcrypt, the HTTP clients, the model backend and process execution. Of the
  file system: the tree a directory walk sees, the outcome of git, what zipfile says of an archive's entries and
  the resolution of links are arguments; the files that are written are a dictionary from paths to contents. The
  numbers of the metrics are doubles, as rationals rounded after each operation. Hypotheses about them are
  documented behaviour: an encoding that drops nothing (\<open>lossless\<close>), identifiers that are new when drawn
  (\<open>fresh_outcome\<close>, \<open>fresh_ids\<close>), a hash that verifies its password (\<open>hash_verifies\<close>).

  Groups of results. Functional behaviour: what one operation returns on each branch, errors included. Invariants:
  each stateful component is a step relation whose steps are its operations in any order, and the locale
  \<open>invariant_system\<close> is interpreted on it (approvals, risk, scan runs, deduplication, remediation, sessions, the
  whole application). Refinement and equivalence: the session table against a map of live sessions, the one-pass
  grouping against the partition by fingerprint, verification against a fresh scan of the stored code model.
  Composition: over the application's requests, no store changes without permission, every decision in an audit
  trail names a user who may decide, and a file of a repository changes only by an approved, confirmed patch.
  Ingestion: whatever a repository contains, only files below the destination change; an ingested archive held no
  escaping, absolute, linked or encrypted entry; the collector's single pass finds what a search of the tree finds;
  a prepared project loads back. Patches: binding the parameters of a rewritten query gives the text of the original
  expression, and only the sink call of the statement changes. Views: the list and the detail of a finding agree, the
  dashboard leaves nothing more urgent out, the figures of a report partition its records, and read marks work for
  the first reader of a notification only. Export: a ticket is marked as created only by an answer, and a
  synchronisation without errors leaves nothing to do.
  No definition needs fuel: the loops of the modelled code are folds and structural recursions, the search of the
  code property graph ends by the number of its unvisited sources and then the length of its queue, and the loop
  that looks for the end of a statement is also given as the while loop it is and shown to end.

  Not modelled: the layout of the PDF (report/pdf_generator.py draws over a third-party library), the declarations of
  the database schema but for the projects and the read marks, the request models of the endpoints, and the wiring
  of the application (main.py, config.py, db/session.py, the asyncio timer of the SLA evaluator).
\<close>

end
